(* ===== verification/Prelude.thy ===== *)
theory Prelude
  imports Main "HOL-Library.Sublist" "HOL-Library.State_Monad"
begin

text \<open>
  The shared base of the development.

  \<^item> The parts of Go's \<^verbatim>\<open>strings\<close> package that the sources use, on \<^typ>\<open>string\<close> (a list of
    bytes): prefixes and suffixes, \<^verbatim>\<open>Split\<close>, \<^verbatim>\<open>Join\<close>, \<^verbatim>\<open>ReplaceAll\<close>, \<^verbatim>\<open>Trim\<close>,
    \<^verbatim>\<open>ToLower\<close>. Case folding and white space are those of ASCII.
  \<^item> Files as the code sees them (\<^verbatim>\<open>os.ReadFile\<close> followed by \<^verbatim>\<open>json.Unmarshal\<close>): absent,
    unreadable, not decodable, or holding a decoded value.
  \<^item> A weakest-precondition kit over the state monad of the library. Stateful code is
    written in that monad; its proofs run the rules collected in \<open>wp\<close>.
\<close>

named_theorems wp \<open>weakest-precondition equations for monadic operations\<close>
named_theorems frame \<open>facts saying what an operation leaves unchanged\<close>
named_theorems go_str \<open>unfolding rules for the string library\<close>

section \<open>Strings\<close>

definition hasPrefix :: "'a list \<Rightarrow> 'a list \<Rightarrow> bool" where
  "hasPrefix s p = (take (length p) s = p)"

definition hasSuffix :: "'a list \<Rightarrow> 'a list \<Rightarrow> bool" where
  "hasSuffix s p = hasPrefix (rev s) (rev p)"

definition trimPrefix :: "'a list \<Rightarrow> 'a list \<Rightarrow> 'a list" where
  "trimPrefix s p = (if hasPrefix s p then drop (length p) s else s)"

definition trimSuffix :: "'a list \<Rightarrow> 'a list \<Rightarrow> 'a list" where
  "trimSuffix s p = rev (trimPrefix (rev s) (rev p))"

fun contains_str :: "'a list \<Rightarrow> 'a list \<Rightarrow> bool" where
  "contains_str [] frag = (frag = [])"
| "contains_str (c # cs) frag = (hasPrefix (c # cs) frag \<or> contains_str cs frag)"

fun split_on :: "'a \<Rightarrow> 'a list \<Rightarrow> 'a list list" where
  "split_on d [] = [[]]"
| "split_on d (c # cs) =
     (if c = d then [] # split_on d cs
      else case split_on d cs of [] \<Rightarrow> [[c]] | w # ws \<Rightarrow> (c # w) # ws)"

fun split2 :: "'a \<Rightarrow> 'a list \<Rightarrow> 'a list list" where
  \<comment> \<open>\<^verbatim>\<open>strings.SplitN(s, sep, 2)\<close> for a separator of one character\<close>
  "split2 d [] = [[]]"
| "split2 d (c # cs) =
     (if c = d then [[], cs]
      else case split2 d cs of [] \<Rightarrow> [[c]] | w # ws \<Rightarrow> (c # w) # ws)"

fun join :: "'a list \<Rightarrow> 'a list list \<Rightarrow> 'a list" where
  "join sep [] = []"
| "join sep [w] = w"
| "join sep (w # v # ws) = w @ sep @ join sep (v # ws)"

fun replace_all_fuel :: "nat \<Rightarrow> 'a list \<Rightarrow> 'a list \<Rightarrow> 'a list \<Rightarrow> 'a list" where
  "replace_all_fuel 0 old new s = s"
| "replace_all_fuel (Suc n) old new [] = []"
| "replace_all_fuel (Suc n) old new (c # cs) =
     (if hasPrefix (c # cs) old then new @ replace_all_fuel n old new (drop (length old) (c # cs))
      else c # replace_all_fuel n old new cs)"

definition replace_all :: "'a list \<Rightarrow> 'a list \<Rightarrow> 'a list \<Rightarrow> 'a list" where
  \<comment> \<open>\<^verbatim>\<open>strings.ReplaceAll\<close> for a non-empty \<open>old\<close>; every step consumes a character, so the
      length of the input is enough fuel\<close>
  "replace_all s old new = replace_all_fuel (length s) old new s"

definition to_lower_char :: "char \<Rightarrow> char" where
  "to_lower_char c = (if 65 \<le> (of_char c :: nat) \<and> (of_char c :: nat) \<le> 90
                      then char_of ((of_char c :: nat) + 32) else c)"

definition to_lower :: "string \<Rightarrow> string" where
  "to_lower s = map to_lower_char s"

definition is_space :: "char \<Rightarrow> bool" where
  "is_space c = ((of_char c :: nat) \<in> {9, 10, 11, 12, 13, 32})"

definition trim_with :: "('a \<Rightarrow> bool) \<Rightarrow> 'a list \<Rightarrow> 'a list" where
  "trim_with f s = rev (dropWhile f (rev (dropWhile f s)))"

definition trim_space :: "string \<Rightarrow> string" where
  "trim_space s = trim_with is_space s"

lemma hasPrefix_iff [go_str]: "hasPrefix s p \<longleftrightarrow> prefix p s"
  by (auto simp: hasPrefix_def prefix_def) (metis append_take_drop_id)

lemma hasPrefix_append [simp]: "hasPrefix (p @ s) p"
  by (simp add: hasPrefix_def)

lemma hasPrefix_Nil [simp]: "hasPrefix s []"
  by (simp add: hasPrefix_def)

lemma hasPrefix_Cons [simp]:
  "hasPrefix (a # s) (b # p) \<longleftrightarrow> a = b \<and> hasPrefix s p"
  "\<not> hasPrefix [] (b # p)"
  by (auto simp: hasPrefix_def)

lemma trimPrefix_append [simp]: "trimPrefix (p @ s) p = s"
  by (simp add: trimPrefix_def)

lemma split_on_not_Nil [simp]: "split_on d s \<noteq> []"
  by (induction s) (auto split: list.splits)

lemma join_split_on [simp]: "join [d] (split_on d s) = s"
proof (induction s)
  case (Cons c cs)
  obtain w ws where "split_on d cs = w # ws"
    by (cases "split_on d cs") auto
  with Cons show ?case by (cases ws) auto
qed simp

lemma split_on_no_sep: "d \<notin> set s \<Longrightarrow> split_on d s = [s]"
  by (induction s) auto

lemma split_on_append_sep: "split_on d (s @ d # t) = split_on d s @ split_on d t"
proof (induction s)
  case (Cons c cs)
  then show ?case by (cases "split_on d cs") auto
qed simp

lemma split_on_parts: "w \<in> set (split_on d s) \<Longrightarrow> d \<notin> set w"
  by (induction s arbitrary: w) (auto split: if_splits list.splits)

lemma split_on_join:
  "ws \<noteq> [] \<Longrightarrow> (\<And>w. w \<in> set ws \<Longrightarrow> d \<notin> set w) \<Longrightarrow> split_on d (join [d] ws) = ws"
proof (induction "[d]" ws rule: join.induct)
  case (3 w v ws)
  then have "split_on d (join [d] (v # ws)) = v # ws" by auto
  with 3 show ?case
    using split_on_append_sep[of d w "join [d] (v # ws)"] by (simp add: split_on_no_sep)
qed (simp_all add: split_on_no_sep)

lemma dropWhile_keeps: "c \<in> set s \<Longrightarrow> \<not> f c \<Longrightarrow> c \<in> set (dropWhile f s)"
  by (induction s) auto

lemma trim_with_keeps: "c \<in> set s \<Longrightarrow> \<not> f c \<Longrightarrow> c \<in> set (trim_with f s)"
  by (simp add: trim_with_def dropWhile_keeps)

section \<open>Results and lists\<close>

type_synonym 'a result = "string + 'a" \<comment> \<open>a Go pair \<open>(value, error)\<close>\<close>

datatype 'a go = Value 'a | Panic string \<comment> \<open>a call that may panic\<close>

fun go_bind :: "'a go \<Rightarrow> ('a \<Rightarrow> 'b go) \<Rightarrow> 'b go" where
  "go_bind (Value v) f = f v"
| "go_bind (Panic m) f = Panic m"

fun is_ok :: "'e + 'a \<Rightarrow> bool" where
  "is_ok (Inl _) = False"
| "is_ok (Inr _) = True"

lemma is_ok_iff: "is_ok r \<longleftrightarrow> (\<exists>v. r = Inr v)"
  by (cases r) auto

fun find_first :: "('a \<Rightarrow> bool) \<Rightarrow> 'a list \<Rightarrow> 'a option" where
  "find_first p [] = None"
| "find_first p (x # xs) = (if p x then Some x else find_first p xs)"

lemma find_first_Some: "find_first p xs = Some x \<Longrightarrow> p x \<and> x \<in> set xs"
  by (induction xs) (auto split: if_splits)

lemma find_first_None: "find_first p xs = None \<longleftrightarrow> (\<forall>x\<in>set xs. \<not> p x)"
  by (induction xs) auto

lemma find_first_filter: "find_first p xs = (case filter p xs of [] \<Rightarrow> None | x # _ \<Rightarrow> Some x)"
  by (induction xs) auto

lemma find_first_unique:
  assumes "x \<in> set xs" "p x" "\<And>y. y \<in> set xs \<Longrightarrow> p y \<Longrightarrow> y = x"
  shows "find_first p xs = Some x"
proof (cases "find_first p xs")
  case None
  with assms(1,2) show ?thesis by (simp add: find_first_None)
next
  case (Some y)
  then have "p y" "y \<in> set xs" by (simp_all add: find_first_Some)
  then have "y = x" by (intro assms(3))
  with Some show ?thesis by simp
qed

lemma find_first_map_if:
  "(\<And>y. p y \<Longrightarrow> p (f y)) \<Longrightarrow>
   find_first p (map (\<lambda>y. if p y then f y else y) xs) = map_option f (find_first p xs)"
  by (induction xs) auto

lemma find_first_append:
  "find_first p (xs @ ys) = (case find_first p xs of Some x \<Rightarrow> Some x | None \<Rightarrow> find_first p ys)"
  by (induction xs) auto

lemma map_update_same: "(map f xs)[i := f (xs ! i)] = map f xs"
  by (cases "i < length xs") (simp_all add: list_update_same_conv list_update_beyond)

text \<open>What \<^verbatim>\<open>os.ReadFile\<close> and the decoder of the file's format find at a path.\<close>

datatype 'a on_disk = Missing | Unreadable | Corrupt | Holds 'a

section \<open>Weakest preconditions for the state monad\<close>

abbreviation ret :: "'a \<Rightarrow> ('s, 'a) state" where
  "ret \<equiv> State_Monad.return"

definition gets :: "('s \<Rightarrow> 'a) \<Rightarrow> ('s, 'a) state" where
  "gets f = State (\<lambda>s. (f s, s))"

definition modify :: "('s \<Rightarrow> 's) \<Rightarrow> ('s, unit) state" where
  "modify f = State (\<lambda>s. ((), f s))"

definition wp :: "('s, 'a) state \<Rightarrow> ('a \<Rightarrow> 's \<Rightarrow> bool) \<Rightarrow> 's \<Rightarrow> bool" where
  "wp m Q s = (case run_state m s of (a, s') \<Rightarrow> Q a s')"

lemma run_state_gets [simp]: "run_state (gets f) s = (f s, s)"
  by (simp add: gets_def)

lemma run_state_modify [simp]: "run_state (modify f) s = ((), f s)"
  by (simp add: modify_def)

lemma wp_run: "wp m Q s \<longleftrightarrow> (\<forall>a s'. run_state m s = (a, s') \<longrightarrow> Q a s')"
  by (auto simp: wp_def split: prod.splits)

lemma wpD: "wp m Q s \<Longrightarrow> run_state m s = (a, s') \<Longrightarrow> Q a s'"
  by (simp add: wp_def)

lemma wp_bind [wp]: "wp (State_Monad.bind m f) Q s = wp m (\<lambda>a. wp (f a) Q) s"
  by (simp add: wp_def split: prod.splits)

lemma wp_return [wp]: "wp (ret x) Q s = Q x s"
  by (simp add: wp_def)

lemma wp_gets [wp]: "wp (gets f) Q s = Q (f s) s"
  by (simp add: wp_def)

lemma wp_modify [wp]: "wp (modify f) Q s = Q () (f s)"
  by (simp add: wp_def)

lemma wp_if [wp]: "wp (if b then m else n) Q s = (if b then wp m Q s else wp n Q s)"
  by simp

lemma wp_mono: "wp m P s \<Longrightarrow> (\<And>a t. P a t \<Longrightarrow> Q a t) \<Longrightarrow> wp m Q s"
  by (auto simp: wp_run)

lemma wp_conj: "wp m P s \<Longrightarrow> wp m Q s \<Longrightarrow> wp m (\<lambda>a t. P a t \<and> Q a t) s"
  by (auto simp: wp_run)

lemma wp_sum [wp]:
  "wp (case r of Inl e \<Rightarrow> f e | Inr v \<Rightarrow> g v) Q s =
     (case r of Inl e \<Rightarrow> wp (f e) Q s | Inr v \<Rightarrow> wp (g v) Q s)"
  by (cases r) auto

lemma wp_option [wp]:
  "wp (case r of None \<Rightarrow> f | Some v \<Rightarrow> g v) Q s =
     (case r of None \<Rightarrow> wp f Q s | Some v \<Rightarrow> wp (g v) Q s)"
  by (cases r) auto

end
