(* ===== verification/Go_Codec.thy ===== *)
theory Go_Codec
  imports Prelude
begin

text \<open>
  The parts of Go's \<^verbatim>\<open>encoding/base64\<close>, \<^verbatim>\<open>encoding/hex\<close>, \<^verbatim>\<open>fmt\<close> and \<^verbatim>\<open>strconv\<close> packages that ground
  control uses: base64 with the standard and the URL alphabet, padded and raw, hexadecimal,
  decimal printing, and the \<^verbatim>\<open>%d\<close> of \<^verbatim>\<open>Sscanf\<close>. Decoders skip line breaks, as Go's do.
\<close>

section \<open>Base64\<close>

definition b64_std :: string where
  "b64_std = ''ABCDEFGHIJKLMNOPQRSTUVWXYZabcdefghijklmnopqrstuvwxyz0123456789+/''"

definition b64_url :: string where
  "b64_url = ''ABCDEFGHIJKLMNOPQRSTUVWXYZabcdefghijklmnopqrstuvwxyz0123456789-_''"

fun index_of :: "'a \<Rightarrow> 'a list \<Rightarrow> nat option" where
  "index_of c [] = None"
| "index_of c (x # xs) = (if c = x then Some 0 else map_option Suc (index_of c xs))"

abbreviation byte :: "char \<Rightarrow> nat" where "byte \<equiv> of_char"
abbreviation to_byte :: "nat \<Rightarrow> char" where "to_byte \<equiv> char_of"

fun b64_enc :: "string \<Rightarrow> string \<Rightarrow> string \<Rightarrow> string" where
  \<comment> \<open>the last argument is the padding character, absent in the raw encodings\<close>
  "b64_enc al pad [] = []"
| "b64_enc al pad [a] = [al ! (byte a div 4), al ! (byte a mod 4 * 16)] @ pad @ pad"
| "b64_enc al pad [a, b] =
     [al ! (byte a div 4), al ! (byte a mod 4 * 16 + byte b div 16), al ! (byte b mod 16 * 4)] @ pad"
| "b64_enc al pad (a # b # c # s) =
     [al ! (byte a div 4), al ! (byte a mod 4 * 16 + byte b div 16),
      al ! (byte b mod 16 * 4 + byte c div 64), al ! (byte c mod 64)] @ b64_enc al pad s"

definition dec1 :: "nat \<Rightarrow> nat \<Rightarrow> char" where "dec1 x y = to_byte (x * 4 + y div 16)"
definition dec2 :: "nat \<Rightarrow> nat \<Rightarrow> char" where "dec2 y z = to_byte (y mod 16 * 16 + z div 4)"
definition dec3 :: "nat \<Rightarrow> nat \<Rightarrow> char" where "dec3 z w = to_byte (z mod 4 * 64 + w)"

fun b64_tail :: "string \<Rightarrow> string \<Rightarrow> string option" where
  \<comment> \<open>the final group of two or three digits\<close>
  "b64_tail al [x, y] =
     (case (index_of x al, index_of y al) of (Some i, Some j) \<Rightarrow> Some [dec1 i j] | _ \<Rightarrow> None)"
| "b64_tail al [x, y, z] =
     (case (index_of x al, index_of y al, index_of z al) of
        (Some i, Some j, Some k) \<Rightarrow> Some [dec1 i j, dec2 j k] | _ \<Rightarrow> None)"
| "b64_tail al _ = None"

fun b64_dec :: "string \<Rightarrow> bool \<Rightarrow> string \<Rightarrow> string option" where
  "b64_dec al padded [] = Some []"
| "b64_dec al padded (x # y # z # w # s) =
     (if padded \<and> w = CHR ''='' \<and> s = []
      then if z = CHR ''='' then b64_tail al [x, y] else b64_tail al [x, y, z]
      else case (index_of x al, index_of y al, index_of z al, index_of w al) of
        (Some i, Some j, Some k, Some l) \<Rightarrow>
          map_option (\<lambda>t. [dec1 i j, dec2 j k, dec3 k l] @ t) (b64_dec al padded s)
      | _ \<Rightarrow> None)"
| "b64_dec al padded s = (if padded then None else b64_tail al s)"

definition no_newlines :: "string \<Rightarrow> string" where
  "no_newlines = filter (\<lambda>c. byte c \<noteq> 10 \<and> byte c \<noteq> 13)"

definition StdEncoding_DecodeString :: "string \<Rightarrow> string option" where
  "StdEncoding_DecodeString s = b64_dec b64_std True (no_newlines s)"

definition RawStdEncoding_EncodeToString :: "string \<Rightarrow> string" where
  "RawStdEncoding_EncodeToString s = b64_enc b64_std [] s"

definition RawStdEncoding_DecodeString :: "string \<Rightarrow> string option" where
  "RawStdEncoding_DecodeString s = b64_dec b64_std False (no_newlines s)"

definition URLEncoding_EncodeToString :: "string \<Rightarrow> string" where
  "URLEncoding_EncodeToString s = b64_enc b64_url ''='' s"

lemma index_of_nth: "distinct xs \<Longrightarrow> i < length xs \<Longrightarrow> index_of (xs ! i) xs = Some i"
proof (induction xs arbitrary: i)
  case (Cons x xs)
  then show ?case by (cases i) auto
qed simp

lemma b64_std_distinct: "distinct b64_std" "length b64_std = 64"
  by code_simp+

lemma b64_std_index [simp]: "i < 64 \<Longrightarrow> index_of (b64_std ! i) b64_std = Some i"
  by (simp add: index_of_nth b64_std_distinct)

lemma dec1_enc: "dec1 (byte a div 4) (byte a mod 4 * 16 + byte b div 16) = a"
proof -
  have "byte b div 16 < 16" using nat_of_char_less_256[of b] by linarith
  then have "(byte a mod 4 * 16 + byte b div 16) div 16 = byte a mod 4" by simp
  then show ?thesis by (simp add: dec1_def)
qed

lemma dec1_end: "dec1 (byte a div 4) (byte a mod 4 * 16) = a"
  by (simp add: dec1_def)

lemma dec2_enc: "dec2 (byte a mod 4 * 16 + byte b div 16) (byte b mod 16 * 4 + byte c div 64) = b"
proof -
  have "byte b div 16 < 16" "byte c div 64 < 4"
    using nat_of_char_less_256[of b] nat_of_char_less_256[of c] by linarith+
  then have "(byte a mod 4 * 16 + byte b div 16) mod 16 = byte b div 16"
    "(byte b mod 16 * 4 + byte c div 64) div 4 = byte b mod 16" by simp_all
  then show ?thesis by (simp add: dec2_def)
qed

lemma dec2_end: "dec2 (byte a mod 4 * 16 + byte b div 16) (byte b mod 16 * 4) = b"
proof -
  have "byte b div 16 < 16" using nat_of_char_less_256[of b] by linarith
  then have "(byte a mod 4 * 16 + byte b div 16) mod 16 = byte b div 16" by simp
  then show ?thesis by (simp add: dec2_def)
qed

lemma dec3_enc: "dec3 (byte b mod 16 * 4 + byte c div 64) (byte c mod 64) = c"
proof -
  have "byte c div 64 < 4" using nat_of_char_less_256[of c] by linarith
  then have "(byte b mod 16 * 4 + byte c div 64) mod 4 = byte c div 64" by simp
  then show ?thesis by (simp add: dec3_def)
qed

lemma digit_bounds [simp]:
  "byte a div 4 < 64" "byte a mod 4 * 16 < 64" "byte a mod 4 * 16 + byte b div 16 < 64"
  "byte b mod 16 * 4 < 64" "byte b mod 16 * 4 + byte c div 64 < 64" "byte c mod 64 < 64"
  using nat_of_char_less_256[of a] nat_of_char_less_256[of b] nat_of_char_less_256[of c]
  by linarith+

lemmas b64_groups = dec1_enc dec1_end dec2_enc dec2_end dec3_enc

lemma b64_raw_round_trip: "b64_dec b64_std False (b64_enc b64_std [] s) = Some s"
  by (induction b64_std "[] :: string" s rule: b64_enc.induct) (simp_all add: b64_groups)

lemma b64_enc_alphabet:
  "64 \<le> length al \<Longrightarrow> set (b64_enc al pad s) \<subseteq> set al \<union> set pad"
  by (induction al pad s rule: b64_enc.induct)
    (auto intro!: nth_mem intro: less_le_trans digit_bounds)

lemma b64_std_plain: "c \<in> set b64_std \<Longrightarrow> byte c \<noteq> 10 \<and> byte c \<noteq> 13 \<and> c \<noteq> CHR ''$''"
proof -
  have "list_all (\<lambda>c. byte c \<noteq> 10 \<and> byte c \<noteq> 13 \<and> c \<noteq> CHR ''$'') b64_std" by code_simp
  then show "c \<in> set b64_std \<Longrightarrow> ?thesis" by (simp add: list_all_iff)
qed

lemma raw_chars: "c \<in> set (RawStdEncoding_EncodeToString s) \<Longrightarrow> c \<in> set b64_std"
  using b64_enc_alphabet[of b64_std "[]" s] by (auto simp: RawStdEncoding_EncodeToString_def b64_std_distinct)

lemma RawStd_round_trip [simp]:
  "RawStdEncoding_DecodeString (RawStdEncoding_EncodeToString s) = Some s"
proof -
  have "no_newlines (RawStdEncoding_EncodeToString s) = RawStdEncoding_EncodeToString s"
    unfolding no_newlines_def using raw_chars b64_std_plain by (simp add: filter_id_conv)
  then show ?thesis
    by (simp add: RawStdEncoding_DecodeString_def b64_raw_round_trip flip: RawStdEncoding_EncodeToString_def)
      (simp add: RawStdEncoding_EncodeToString_def b64_raw_round_trip)
qed

lemma RawStd_no_dollar [simp]: "CHR ''$'' \<notin> set (RawStdEncoding_EncodeToString s)"
  using raw_chars b64_std_plain by blast

section \<open>Hexadecimal and decimal numbers\<close>

definition hex_digits :: string where "hex_digits = ''0123456789abcdef''"

definition hex_EncodeToString :: "string \<Rightarrow> string" where
  "hex_EncodeToString s = concat (map (\<lambda>c. [hex_digits ! (byte c div 16), hex_digits ! (byte c mod 16)]) s)"

fun show_nat :: "nat \<Rightarrow> string" where
  "show_nat n = (if n < 10 then [to_byte (48 + n)] else show_nat (n div 10) @ [to_byte (48 + n mod 10)])"

declare show_nat.simps [simp del]

definition show_int :: "int \<Rightarrow> string" where
  "show_int i = (if i < 0 then ''-'' @ show_nat (nat (- i)) else show_nat (nat i))"

definition dec_digit :: "char \<Rightarrow> bool" where
  "dec_digit c = (48 \<le> byte c \<and> byte c \<le> 57)"

definition digits_value :: "string \<Rightarrow> nat" where
  "digits_value ds = foldl (\<lambda>n c. n * 10 + (byte c - 48)) 0 ds"

text \<open>\<^verbatim>\<open>Sscanf\<close> with literal text and \<^verbatim>\<open>%d\<close>: what follows the last verb of the format is not read.\<close>

fun scan_lit :: "string \<Rightarrow> string \<Rightarrow> string option" where
  "scan_lit lit s = (if hasPrefix s lit then Some (drop (length lit) s) else None)"

definition scan_uint :: "nat \<Rightarrow> string \<Rightarrow> (nat \<times> string) option" where
  \<comment> \<open>an unsigned number below \<open>2 ^ w\<close>, after spaces\<close>
  "scan_uint w s =
     (let t = dropWhile (\<lambda>c. c = CHR '' '') s; ds = takeWhile dec_digit t in
      if ds = [] \<or> 2 ^ w \<le> digits_value ds then None else Some (digits_value ds, dropWhile dec_digit t))"

definition scan_int :: "nat \<Rightarrow> string \<Rightarrow> (int \<times> string) option" where
  "scan_int w s =
     (let t = dropWhile (\<lambda>c. c = CHR '' '') s;
          neg = (t \<noteq> [] \<and> hd t = CHR ''-'');
          u = (if t \<noteq> [] \<and> hd t \<in> {CHR ''-'', CHR ''+''} then tl t else t);
          ds = takeWhile dec_digit u;
          v = (if neg then - int (digits_value ds) else int (digits_value ds)) in
      if ds = [] \<or> v < - (2 ^ (w - 1)) \<or> 2 ^ (w - 1) \<le> v then None else Some (v, dropWhile dec_digit u))"

lemma digits_value_snoc: "digits_value (ds @ [c]) = digits_value ds * 10 + (byte c - 48)"
  by (simp add: digits_value_def)

lemma show_nat_digits: "digits_value (show_nat n) = n \<and> (\<forall>c\<in>set (show_nat n). dec_digit c) \<and> show_nat n \<noteq> []"
proof (induction n rule: show_nat.induct)
  case (1 n)
  show ?case
  proof (cases "n < 10")
    case True
    then show ?thesis by (simp add: show_nat.simps[of n] digits_value_def dec_digit_def)
  next
    case False
    then show ?thesis using 1 by (simp add: show_nat.simps[of n] digits_value_snoc dec_digit_def)
  qed
qed

lemma show_nat_inj: "show_nat m = show_nat n \<Longrightarrow> m = n"
  using show_nat_digits by metis

section \<open>Runes\<close>

text \<open>\<^verbatim>\<open>for _, r := range s\<close>: the UTF-8 decoder; a byte that starts no valid sequence is U+FFFD.\<close>

definition in_range :: "nat \<Rightarrow> nat \<Rightarrow> char \<Rightarrow> bool" where
  "in_range lo hi c = (lo \<le> byte c \<and> byte c \<le> hi)"

definition second_range :: "nat \<Rightarrow> nat \<times> nat" where
  "second_range b = (if b = 224 then (160, 191) else if b = 237 then (128, 159)
     else if b = 240 then (144, 191) else if b = 244 then (128, 143) else (128, 191))"

definition decode_rune :: "char \<Rightarrow> string \<Rightarrow> nat \<times> nat" where
  \<comment> \<open>the rune that starts with the given byte and how many of the following bytes it takes\<close>
  "decode_rune a s = (let b = byte a; (lo, hi) = second_range b in
     if b < 128 then (b, 0)
     else case s of
       x # t \<Rightarrow>
         if \<not> in_range lo hi x then (65533, 0)
         else if 194 \<le> b \<and> b \<le> 223 then ((b - 192) * 64 + (byte x - 128), 1)
         else (case t of
           y # u \<Rightarrow>
             if \<not> in_range 128 191 y then (65533, 0)
             else if 224 \<le> b \<and> b \<le> 239
               then (((b - 224) * 64 + (byte x - 128)) * 64 + (byte y - 128), 2)
             else (case u of
               z # _ \<Rightarrow>
                 if in_range 128 191 z \<and> 240 \<le> b \<and> b \<le> 244
                 then ((((b - 240) * 64 + (byte x - 128)) * 64 + (byte y - 128)) * 64 + (byte z - 128), 3)
                 else (65533, 0)
             | [] \<Rightarrow> (65533, 0))
         | [] \<Rightarrow> (65533, 0))
     | [] \<Rightarrow> (65533, 0))"

fun runes :: "string \<Rightarrow> nat list" where
  "runes [] = []"
| "runes (a # s) = (case decode_rune a s of (r, k) \<Rightarrow> r # runes (drop k s))"

lemma runes_ascii: "(\<forall>c\<in>set s. byte c < 128) \<Longrightarrow> runes s = map byte s"
  by (induction s) (simp_all add: decode_rune_def Let_def split: prod.splits)

end
