(* ===== verification/Go_Time.thy ===== *)
theory Go_Time
  imports Go_Codec
begin

text \<open>
  \<^verbatim>\<open>time.ParseDuration\<close> of Go's library, with its 64-bit bounds, on durations in nanoseconds. The
  floating-point product that Go forms for a fraction is taken exactly and cut to an integer.
\<close>

definition unit_of :: "string \<Rightarrow> nat option" where
  "unit_of u = map_of
     [(''ns'', 1), (''us'', 1000), ([to_byte 194, to_byte 181, CHR ''s''], 1000), ([to_byte 206, to_byte 188, CHR ''s''], 1000),
      (''ms'', 1000000), (''s'', 1000000000), (''m'', 60000000000), (''h'', 3600000000000)] u"

definition leadingInt :: "string \<Rightarrow> (nat \<times> string) option" where
  "leadingInt s = (let v = digits_value (takeWhile dec_digit s) in
     if 2 ^ 63 < v then None else Some (v, dropWhile dec_digit s))"

fun leadingFraction :: "nat \<Rightarrow> nat \<Rightarrow> bool \<Rightarrow> string \<Rightarrow> nat \<times> nat \<times> string" where
  "leadingFraction x scale over [] = (x, scale, [])"
| "leadingFraction x scale over (c # s) =
     (if \<not> dec_digit c then (x, scale, c # s)
      else if over \<or> (2 ^ 63 - 1) div 10 < x \<or> 2 ^ 63 < x * 10 + (byte c - 48) then leadingFraction x scale True s
      else leadingFraction (x * 10 + (byte c - 48)) (scale * 10) over s)"

definition unit_end :: "char \<Rightarrow> bool" where
  "unit_end c = (c = CHR ''.'' \<or> dec_digit c)"

definition parse_part :: "string \<Rightarrow> (nat \<times> string) result" where
  \<comment> \<open>one number with its unit: its nanoseconds and the rest\<close>
  "parse_part s =
     (if s = [] \<or> \<not> (hd s = CHR ''.'' \<or> dec_digit (hd s)) then Inl ''time: invalid duration''
      else case leadingInt s of
        None \<Rightarrow> Inl ''time: invalid duration''
      | Some (v, t) \<Rightarrow>
          (let pre = (t \<noteq> s);
               (f, scale, t', post) =
                 (if t \<noteq> [] \<and> hd t = CHR ''.''
                  then (case leadingFraction 0 1 False (tl t) of (f, scale, r) \<Rightarrow> (f, scale, r, r \<noteq> tl t))
                  else (0, 1, t, False))
           in if \<not> pre \<and> \<not> post then Inl ''time: invalid duration''
              else
                let u = takeWhile (\<lambda>c. \<not> unit_end c) t'; r = dropWhile (\<lambda>c. \<not> unit_end c) t' in
                if u = [] then Inl ''time: missing unit in duration''
                else case unit_of u of
                  None \<Rightarrow> Inl ''time: unknown unit in duration''
                | Some unit \<Rightarrow>
                    if 2 ^ 63 div unit < v then Inl ''time: invalid duration''
                    else let v = v * unit + (if 0 < f then f * unit div scale else 0) in
                      if 2 ^ 63 < v then Inl ''time: invalid duration'' else Inr (v, r)))"

lemma parse_part_shorter: "parse_part s = Inr (v, r) \<Longrightarrow> length r < length s"
proof -
  assume p: "parse_part s = Inr (v, r)"
  have lf: "length (snd (snd (leadingFraction x scale over s))) \<le> length s" for x scale over and s :: string
    by (induction x scale over s rule: leadingFraction.induct) auto
  have dw: "takeWhile q t \<noteq> [] \<Longrightarrow> length (dropWhile q t) < length t" for q and t :: string
    by (metis dropWhile_eq_self_iff length_dropWhile_le nat_less_le takeWhile_dropWhile_id
        append_eq_conv_conj append_Nil length_append add_diff_cancel_right' length_0_conv takeWhile_eq_Nil_iff)
  have "\<exists>t'. r = dropWhile (\<lambda>c. \<not> unit_end c) t' \<and> takeWhile (\<lambda>c. \<not> unit_end c) t' \<noteq> [] \<and> length t' \<le> length s"
    using p lf[of 0 1 False "tl (dropWhile dec_digit s)"] length_dropWhile_le[of dec_digit s]
    by (auto simp: parse_part_def leadingInt_def Let_def split: if_splits option.splits prod.splits)
  then show ?thesis using dw by (metis (no_types, lifting) order.strict_trans2)
qed

function parse_parts :: "nat \<Rightarrow> string \<Rightarrow> nat result" where
  "parse_parts d s =
     (if s = [] then Inr d
      else case parse_part s of
        Inl err \<Rightarrow> Inl err
      | Inr (v, r) \<Rightarrow>
          (let d' = (d + v) mod 2 ^ 64 in
           if 2 ^ 63 < d' then Inl ''time: invalid duration'' else parse_parts d' r))"
  by pat_completeness auto
termination
  by (relation "measure (\<lambda>(d, s). length s)") (auto dest: parse_part_shorter)

declare parse_parts.simps [simp del]

definition ParseDuration :: "string \<Rightarrow> int result" where
  "ParseDuration s =
     (let neg = (s \<noteq> [] \<and> hd s = CHR ''-'');
          t = (if s \<noteq> [] \<and> hd s \<in> {CHR ''-'', CHR ''+''} then tl s else s) in
      if t = ''0'' then Inr 0
      else if t = [] then Inl ''time: invalid duration''
      else case parse_parts 0 t of
        Inl err \<Rightarrow> Inl err
      | Inr d \<Rightarrow>
          if neg then Inr (- int d)
          else if 2 ^ 63 - 1 < d then Inl ''time: invalid duration'' else Inr (int d))"

lemma parse_parts_bound: "parse_parts d s = Inr e \<Longrightarrow> d \<le> 2 ^ 63 \<Longrightarrow> e \<le> 2 ^ 63"
proof (induction d s rule: parse_parts.induct)
  case (1 d s)
  show ?case
  proof (cases "s = []")
    case True
    with 1 show ?thesis by (simp add: parse_parts.simps[of d "[]"])
  next
    case False
    with 1 show ?thesis
      by (simp add: parse_parts.simps[of d s] Let_def split: sum.splits prod.splits if_splits)
  qed
qed

lemma ParseDuration_range: "ParseDuration s = Inr d \<Longrightarrow> - (2 ^ 63) \<le> d \<and> d < 2 ^ 63"
  using parse_parts_bound[of 0]
  by (fastforce simp: ParseDuration_def Let_def split: if_splits sum.splits)

text \<open>A number followed by a unit is read back.\<close>

lemma takeWhile_digits:
  "(\<forall>c\<in>set ds. dec_digit c) \<Longrightarrow> t = [] \<or> \<not> dec_digit (hd t) \<Longrightarrow>
     takeWhile dec_digit (ds @ t) = ds \<and> dropWhile dec_digit (ds @ t) = t"
  by (induction ds) (auto intro: takeWhile_eq_Nil_iff[THEN iffD2] simp: dropWhile_eq_self_iff)

lemma parse_part_plain:
  assumes "\<forall>c\<in>set ds. dec_digit c" "ds \<noteq> []" "u \<noteq> []" "\<forall>c\<in>set u. \<not> unit_end c"
    and "r = [] \<or> unit_end (hd r)" "unit_of u = Some n" "0 < n" "digits_value ds * n \<le> 2 ^ 63"
  shows "parse_part (ds @ u @ r) = Inr (digits_value ds * n, r)"
proof -
  have hd: "dec_digit (hd (ds @ u @ r))" "\<not> dec_digit (hd (u @ r))" "hd (u @ r) \<noteq> CHR ''.''"
    using assms(1-4) by (cases ds; cases u; auto simp: unit_end_def)+
  then have li: "leadingInt (ds @ u @ r) = Some (digits_value ds, u @ r)"
  proof -
    have "digits_value ds \<le> digits_value ds * n" using assms(7) by simp
    then have "digits_value ds \<le> 2 ^ 63" using assms(8) by linarith
    then show ?thesis using takeWhile_digits[OF assms(1), of "u @ r"] hd by (simp add: leadingInt_def)
  qed
  have tw: "takeWhile (\<lambda>c. \<not> unit_end c) (u @ r) = u" "dropWhile (\<lambda>c. \<not> unit_end c) (u @ r) = r"
    using assms(4,5) by (cases r; auto simp: takeWhile_append2 dropWhile_append2)+
  have "digits_value ds \<le> 2 ^ 63 div n"
    using assms(7,8) by (simp add: less_eq_div_iff_mult_less_eq)
  then show ?thesis
    using assms hd li tw by (simp add: parse_part_def)
qed

lemma parse_parts_step:
  assumes "parse_part s = Inr (v, r)" "s \<noteq> []" "d + v \<le> 2 ^ 63"
  shows "parse_parts d s = parse_parts (d + v) r"
  using assms by (subst parse_parts.simps) (simp add: Let_def)

lemma unit_ends: "unit_of ''h'' = Some 3600000000000" "unit_of ''m'' = Some 60000000000" "unit_of ''s'' = Some 1000000000"
  "\<not> unit_end CHR ''h''" "\<not> unit_end CHR ''m''" "\<not> unit_end CHR ''s''"
  by (simp_all add: unit_of_def unit_end_def dec_digit_def)

lemma ParseDuration_plain:
  assumes "\<forall>c\<in>set ds. dec_digit c" "ds \<noteq> []" "u \<noteq> []" "\<forall>c\<in>set u. \<not> unit_end c"
    and "unit_of u = Some n" "0 < n" "digits_value ds * n < 2 ^ 63"
  shows "ParseDuration (ds @ u) = Inr (int (digits_value ds * n))"
proof -
  have "parse_part (ds @ u) = Inr (digits_value ds * n, [])"
    using parse_part_plain[OF assms(1-4) _ assms(5,6), of "[]"] assms(7) by simp
  then have "parse_parts 0 (ds @ u) = parse_parts (0 + digits_value ds * n) []"
    using assms(2,7) by (intro parse_parts_step) auto
  also have "\<dots> = Inr (digits_value ds * n)" by (subst parse_parts.simps) simp
  finally have "parse_parts 0 (ds @ u) = Inr (digits_value ds * n)" .
  moreover have "hd (ds @ u) \<notin> {CHR ''-'', CHR ''+''}" using assms(1,2) by (cases ds) (auto simp: dec_digit_def)
  moreover have "ds @ u \<noteq> ''0''" using assms(2,3) by (cases ds; cases u) auto
  ultimately show ?thesis using assms(2,7) by (simp add: ParseDuration_def Let_def)
qed

end
