(* ===== verification/Scheduler.thy ===== *)
theory Scheduler
  imports Go_Time
begin

text \<open>
  \<^verbatim>\<open>internal/satellite/scheduler/scheduler.go\<close> and \<^verbatim>\<open>process.go\<close>: schedule expressions and the
  scheduler that runs a process again and again.

  A scheduler is a state machine of three kinds of threads: its loop, the goroutines it launched (each before
  \<^verbatim>\<open>Execute\<close> has marked the process as running, executing, or after \<^verbatim>\<open>Execute\<close> has cleared the
  mark and before \<^verbatim>\<open>wg.Done\<close>) and its callers. Threads are anonymous, so they are counted per phase. A process is
  a \<open>process_ops\<close> record: every \<^verbatim>\<open>Execute\<close> of the sources is \<^verbatim>\<open>start\<close>, a body and the deferred
  \<^verbatim>\<open>stop\<close>; \<open>po_work\<close> is what the body may do, and \<open>po_background\<close> what goroutines that an \<^verbatim>\<open>Execute\<close> left
  behind may do at any time afterwards. The locale \<open>process\<close> states what the processes of the satellite promise.

  The step relation says what may happen, not what must: whether and when \<^verbatim>\<open>Execute\<close> returns is up to its
  network calls, so no theorem here takes the step \<open>EvEnd\<close> for granted.
\<close>

section \<open>Schedule expressions\<close>

definition every_prefix :: string where "every_prefix = ''@every ''"

definition parseEveryExpr :: "string \<Rightarrow> int result" where
  "parseEveryExpr expr =
     (if expr = [] then Inl ''empty expression provided''
      else if \<not> hasPrefix expr every_prefix then Inl ''unsupported format: must start with @every''
      else ParseDuration (trimPrefix expr every_prefix))"

section \<open>Processes and schedulers\<close>

record 'p process_ops =
  po_Name :: string
  po_start :: "'p \<Rightarrow> 'p"
  po_stop :: "'p \<Rightarrow> 'p"
  po_work :: "'p \<Rightarrow> 'p \<Rightarrow> bool"
  po_background :: "'p \<Rightarrow> 'p \<Rightarrow> bool"
  po_IsRunning :: "'p \<Rightarrow> bool"
  po_IsComplete :: "'p \<Rightarrow> bool"

datatype loop_phase = NotStarted | Launching | Waiting | Exited

record 'p scheduler =
  sc_name :: string
  sc_ticker :: "int option"
    \<comment> \<open>the period of the ticker while it runs\<close>
  sc_process :: 'p
  sc_interval :: int
  sc_wg :: int
  sc_loop :: loop_phase
  sc_launched :: nat
  sc_executing :: nat
  sc_returning :: nat
  sc_cancelled :: bool
    \<comment> \<open>whether the context given to \<^verbatim>\<open>Start\<close> is cancelled\<close>

definition NewTicker :: "int \<Rightarrow> int option go" where
  "NewTicker d = (if d \<le> 0 then Panic ''non-positive interval for NewTicker'' else Value (Some d))"

definition ticker_Reset :: "int \<Rightarrow> int option go" where
  "ticker_Reset d = (if d \<le> 0 then Panic ''non-positive interval for Ticker.Reset'' else Value (Some d))"

definition NewSchedulerWithInterval :: "'p process_ops \<Rightarrow> string \<Rightarrow> 'p \<Rightarrow> 'p scheduler result go" where
  "NewSchedulerWithInterval P intervalExpr process =
     (case parseEveryExpr intervalExpr of
        Inl err \<Rightarrow> Value (Inl (''failed to parse interval: '' @ err))
      | Inr duration \<Rightarrow>
        (case NewTicker duration of
           Panic m \<Rightarrow> Panic m
         | Value ticker \<Rightarrow>
             Value (Inr \<lparr>sc_name = po_Name P, sc_ticker = ticker, sc_process = process, sc_interval = duration,
               sc_wg = 0, sc_loop = NotStarted, sc_launched = 0, sc_executing = 0, sc_returning = 0,
               sc_cancelled = False\<rparr>)))"

definition Start :: "'p scheduler \<Rightarrow> 'p scheduler" where
  "Start s = s\<lparr>sc_wg := sc_wg s + 1, sc_loop := Launching\<rparr>"

definition launchProcess :: "'p process_ops \<Rightarrow> 'p scheduler \<Rightarrow> 'p scheduler" where
  "launchProcess P s =
     (if \<not> po_IsRunning P (sc_process s)
      then s\<lparr>sc_wg := sc_wg s + 1, sc_launched := sc_launched s + 1\<rparr> else s)"

definition run_return :: "'p scheduler \<Rightarrow> 'p scheduler" where
  \<comment> \<open>the deferred calls of \<^verbatim>\<open>run\<close>\<close>
  "run_return s = s\<lparr>sc_ticker := None, sc_wg := sc_wg s - 1, sc_loop := Exited\<rparr>"

definition run_tick :: "'p process_ops \<Rightarrow> 'p scheduler \<Rightarrow> 'p scheduler" where
  \<comment> \<open>\<^verbatim>\<open>run\<close> receives from the ticker\<close>
  "run_tick P s = (if po_IsComplete P (sc_process s) then run_return s else s\<lparr>sc_loop := Launching\<rparr>)"

definition ResetInterval :: "int \<Rightarrow> 'p scheduler \<Rightarrow> 'p scheduler go" where
  "ResetInterval newInterval s =
     (case ticker_Reset newInterval of
        Panic m \<Rightarrow> Panic m
      | Value ticker \<Rightarrow> Value (s\<lparr>sc_ticker := ticker, sc_interval := newInterval\<rparr>))"

definition ResetIntervalFromExpr :: "string \<Rightarrow> 'p scheduler \<Rightarrow> ('p scheduler \<times> unit result) go" where
  "ResetIntervalFromExpr intervalExpr s =
     (case parseEveryExpr intervalExpr of
        Inl err \<Rightarrow> Value (s, Inl (''failed to parse interval: '' @ err))
      | Inr duration \<Rightarrow>
        (case ResetInterval duration s of Panic m \<Rightarrow> Panic m | Value s' \<Rightarrow> Value (s', Inr ())))"

definition GetInterval :: "'p scheduler \<Rightarrow> int" where
  "GetInterval s = sc_interval s"

definition Stop :: "string option \<Rightarrow> 'p scheduler \<Rightarrow> unit result \<Rightarrow> bool" where
  \<comment> \<open>which results a waiting \<^verbatim>\<open>Stop\<close> may return now; \<open>ctx\<close> is the error of its context once that is done\<close>
  "Stop ctx s r = (sc_wg s = 0 \<and> r = Inr () \<or> (\<exists>err. ctx = Some err \<and> r = Inl err))"

section \<open>Steps of the threads\<close>

datatype 'p sched_event =
    EvStart | EvLaunch | EvTick | EvCancel | EvExit
  | EvBegin | EvWork 'p | EvEnd | EvDone | EvBackground 'p | EvReset int

inductive sched_step :: "'p process_ops \<Rightarrow> 'p scheduler \<Rightarrow> 'p sched_event \<Rightarrow> 'p scheduler \<Rightarrow> bool" for P where
  step_start: "sc_loop s = NotStarted \<Longrightarrow> sched_step P s EvStart (Start s)"
| step_launch: "sc_loop s = Launching \<Longrightarrow> sched_step P s EvLaunch ((launchProcess P s)\<lparr>sc_loop := Waiting\<rparr>)"
| step_tick: "sc_loop s = Waiting \<Longrightarrow> sched_step P s EvTick (run_tick P s)"
| step_cancel: "sched_step P s EvCancel (s\<lparr>sc_cancelled := True\<rparr>)"
| step_exit: "sc_loop s = Waiting \<Longrightarrow> sc_cancelled s \<Longrightarrow> sched_step P s EvExit (run_return s)"
| step_begin: "sc_launched s = Suc n \<Longrightarrow> sched_step P s EvBegin
    (s\<lparr>sc_launched := n, sc_executing := sc_executing s + 1, sc_process := po_start P (sc_process s)\<rparr>)"
| step_work: "0 < sc_executing s \<Longrightarrow> po_work P (sc_process s) p \<Longrightarrow> sched_step P s (EvWork p) (s\<lparr>sc_process := p\<rparr>)"
| \<comment> \<open>what happens if \<^verbatim>\<open>Execute\<close> returns\<close>
  step_end: "sc_executing s = Suc n \<Longrightarrow> sched_step P s EvEnd
    (s\<lparr>sc_executing := n, sc_returning := sc_returning s + 1, sc_process := po_stop P (sc_process s)\<rparr>)"
| step_done: "sc_returning s = Suc n \<Longrightarrow> sched_step P s EvDone (s\<lparr>sc_returning := n, sc_wg := sc_wg s - 1\<rparr>)"
| step_background: "po_background P (sc_process s) p \<Longrightarrow> sched_step P s (EvBackground p) (s\<lparr>sc_process := p\<rparr>)"
| step_reset: "ResetInterval d s = Value s' \<Longrightarrow> sched_step P s (EvReset d) s'"

inductive_cases sched_stepE: "sched_step P s ev s'"

inductive sched_run :: "'p process_ops \<Rightarrow> 'p scheduler \<Rightarrow> 'p sched_event list \<Rightarrow> 'p scheduler \<Rightarrow> bool" for P where
  run_none: "sched_run P s [] s"
| run_step: "sched_step P s ev s' \<Longrightarrow> sched_run P s' evs s'' \<Longrightarrow> sched_run P s (ev # evs) s''"

inductive_cases sched_run_ConsE [elim!]: "sched_run P s (ev # evs) s'"
inductive_cases sched_run_NilE [elim!]: "sched_run P s [] s'"

fun sched_exec :: "'p process_ops \<Rightarrow> 'p sched_event \<Rightarrow> 'p scheduler \<Rightarrow> 'p scheduler option" where
  \<comment> \<open>the same steps as a function: \<open>None\<close> where the event cannot happen\<close>
  "sched_exec P EvStart s = (if sc_loop s = NotStarted then Some (Start s) else None)"
| "sched_exec P EvLaunch s = (if sc_loop s = Launching then Some ((launchProcess P s)\<lparr>sc_loop := Waiting\<rparr>) else None)"
| "sched_exec P EvTick s = (if sc_loop s = Waiting then Some (run_tick P s) else None)"
| "sched_exec P EvCancel s = Some (s\<lparr>sc_cancelled := True\<rparr>)"
| "sched_exec P EvExit s = (if sc_loop s = Waiting \<and> sc_cancelled s then Some (run_return s) else None)"
| "sched_exec P EvBegin s = (if sc_launched s = 0 then None else Some
    (s\<lparr>sc_launched := sc_launched s - 1, sc_executing := sc_executing s + 1, sc_process := po_start P (sc_process s)\<rparr>))"
| "sched_exec P (EvWork p) s = (if 0 < sc_executing s \<and> po_work P (sc_process s) p then Some (s\<lparr>sc_process := p\<rparr>) else None)"
| "sched_exec P EvEnd s = (if sc_executing s = 0 then None else Some
    (s\<lparr>sc_executing := sc_executing s - 1, sc_returning := sc_returning s + 1, sc_process := po_stop P (sc_process s)\<rparr>))"
| "sched_exec P EvDone s = (if sc_returning s = 0 then None else Some
    (s\<lparr>sc_returning := sc_returning s - 1, sc_wg := sc_wg s - 1\<rparr>))"
| "sched_exec P (EvBackground p) s = (if po_background P (sc_process s) p then Some (s\<lparr>sc_process := p\<rparr>) else None)"
| "sched_exec P (EvReset d) s = (case ResetInterval d s of Panic m \<Rightarrow> None | Value s' \<Rightarrow> Some s')"

lemma sched_step_exec: "sched_step P s ev s' \<longleftrightarrow> sched_exec P ev s = Some s'"
proof
  assume "sched_step P s ev s'"
  then show "sched_exec P ev s = Some s'" by (cases rule: sched_step.cases) auto
next
  assume e: "sched_exec P ev s = Some s'"
  show "sched_step P s ev s'"
  proof (cases ev)
    case EvBegin
    then show ?thesis using e step_begin[of s "sc_launched s - 1" P] by (auto split: if_splits)
  next
    case EvEnd
    then show ?thesis using e step_end[of s "sc_executing s - 1" P] by (auto split: if_splits)
  next
    case EvDone
    then show ?thesis using e step_done[of s "sc_returning s - 1" P] by (auto split: if_splits)
  qed (use e in \<open>auto intro: sched_step.intros split: if_splits go.splits\<close>)
qed

fun sched_trace :: "'p process_ops \<Rightarrow> 'p sched_event list \<Rightarrow> 'p scheduler \<Rightarrow> 'p scheduler option" where
  "sched_trace P [] s = Some s"
| "sched_trace P (ev # evs) s = Option.bind (sched_exec P ev s) (sched_trace P evs)"

lemma sched_run_trace: "sched_run P s evs s' \<longleftrightarrow> sched_trace P evs s = Some s'"
proof (induction evs arbitrary: s)
  case Nil
  show ?case by (auto intro: run_none)
next
  case (Cons ev evs)
  show ?case
    using Cons.IH by (auto simp: bind_eq_Some_conv sched_step_exec intro!: run_step)
qed

lemmas sched_ops = Start_def launchProcess_def run_return_def run_tick_def ResetInterval_def ticker_Reset_def

definition live :: "'p scheduler \<Rightarrow> nat" where
  "live s = sc_launched s + sc_executing s + sc_returning s"

definition in_loop :: "'p scheduler \<Rightarrow> bool" where
  "in_loop s = (sc_loop s \<in> {Launching, Waiting})"

lemma in_loop_simps [simp]:
  "in_loop (s\<lparr>sc_ticker := t\<rparr>) = in_loop s" "in_loop (s\<lparr>sc_process := p\<rparr>) = in_loop s" "in_loop (s\<lparr>sc_interval := i\<rparr>) = in_loop s"
  "in_loop (s\<lparr>sc_wg := w\<rparr>) = in_loop s" "in_loop (s\<lparr>sc_launched := n\<rparr>) = in_loop s" "in_loop (s\<lparr>sc_executing := n\<rparr>) = in_loop s"
  "in_loop (s\<lparr>sc_returning := n\<rparr>) = in_loop s" "in_loop (s\<lparr>sc_cancelled := c\<rparr>) = in_loop s"
  "in_loop (s\<lparr>sc_loop := l\<rparr>) = (l = Launching \<or> l = Waiting)"
  by (simp_all add: in_loop_def)

lemma in_loop_phase: "sc_loop s = l \<Longrightarrow> in_loop s = (l = Launching \<or> l = Waiting)"
  by (simp add: in_loop_def)

definition sched_wf :: "'p process_ops \<Rightarrow> 'p scheduler \<Rightarrow> bool" where
  \<comment> \<open>the wait group counts the threads; a running process has a goroutine; the ticker has the interval\<close>
  "sched_wf P s = (sc_wg s = int (live s) + of_bool (in_loop s) \<and>
     (po_IsRunning P (sc_process s) \<longrightarrow> 0 < sc_executing s) \<and>
     (sc_loop s = NotStarted \<longrightarrow> live s = 0) \<and>
     0 < sc_interval s \<and> (sc_loop s \<noteq> Exited \<longrightarrow> sc_ticker s = Some (sc_interval s)))"

definition goroutine_event :: "'p sched_event \<Rightarrow> bool" where
  "goroutine_event ev = (ev = EvBegin \<or> ev = EvEnd \<or> ev = EvDone)"

fun background_event :: "'p sched_event \<Rightarrow> bool" where
  "background_event (EvBackground _) = True"
| "background_event _ = False"

definition work_left :: "'p scheduler \<Rightarrow> nat" where
  "work_left s = 3 * sc_launched s + 2 * sc_executing s + sc_returning s"

inductive prompt_run :: "'p process_ops \<Rightarrow> 'p scheduler \<Rightarrow> 'p sched_event list \<Rightarrow> 'p scheduler \<Rightarrow> bool" for P where
  \<comment> \<open>a run in which every launched goroutine has entered \<^verbatim>\<open>Execute\<close> before the next launch\<close>
  prompt_none: "prompt_run P s [] s"
| prompt_step: "sched_step P s ev s' \<Longrightarrow> (ev = EvLaunch \<longrightarrow> sc_launched s = 0) \<Longrightarrow> prompt_run P s' evs s'' \<Longrightarrow>
    prompt_run P s (ev # evs) s''"

lemma exited_step: "sched_step P s ev s' \<Longrightarrow> sc_loop s = Exited \<Longrightarrow> sc_loop s' = Exited"
  by (induction rule: sched_step.induct) (auto simp: sched_ops split: if_splits)

lemma exited_stays: "sched_run P s evs s' \<Longrightarrow> sc_loop s = Exited \<Longrightarrow> sc_loop s' = Exited"
  by (induction rule: sched_run.induct) (auto dest: exited_step)

lemma drain_step:
  assumes "sched_step P s ev s'" "sc_loop s = Exited"
  shows "work_left s = work_left s' + (if goroutine_event ev then 1 else 0)"
  using assms
  by (cases rule: sched_step.cases) (auto simp: work_left_def goroutine_event_def sched_ops split: if_splits)

lemma drain_run:
  assumes "sched_run P s evs s'" "sc_loop s = Exited"
  shows "work_left s = work_left s' + length (filter goroutine_event evs)"
  using assms
proof (induction rule: sched_run.induct)
  case (run_step s ev s' evs s'')
  then show ?case using drain_step[OF run_step(1,4)] exited_step[OF run_step(1,4)] by simp
qed simp

lemma exited_quiet: "sched_run P s evs s' \<Longrightarrow> sc_loop s = Exited \<Longrightarrow> EvTick \<notin> set evs \<and> EvLaunch \<notin> set evs"
proof (induction rule: sched_run.induct)
  case (run_step s ev s' evs s'')
  have "ev \<noteq> EvTick \<and> ev \<noteq> EvLaunch" using run_step(1,4) by (cases rule: sched_step.cases) auto
  then show ?case using run_step exited_step[OF run_step(1,4)] by auto
qed simp

lemma no_launch: "sched_run P s evs s' \<Longrightarrow> EvLaunch \<notin> set evs \<Longrightarrow> sc_launched s' \<le> sc_launched s"
proof (induction rule: sched_run.induct)
  case (run_step s ev s' evs s'')
  have "sc_launched s' \<le> sc_launched s" using run_step(1,4) by (cases rule: sched_step.cases) (auto simp: sched_ops split: if_splits)
  then show ?case using run_step by auto
qed simp

lemma drain_progress:
  \<comment> \<open>entering \<^verbatim>\<open>Execute\<close> and \<^verbatim>\<open>wg.Done\<close> wait for nothing\<close>
  assumes "work_left s \<noteq> 0" "sc_executing s = 0"
  shows "\<exists>s'. sched_step P s EvBegin s' \<or> sched_step P s EvDone s'"
proof -
  consider n where "sc_launched s = Suc n" | n where "sc_returning s = Suc n"
    using assms by (cases "sc_launched s"; cases "sc_returning s") (auto simp: work_left_def)
  then show ?thesis by cases (metis step_begin, metis step_done)
qed

section \<open>What holds of every process\<close>

locale process =
  fixes P :: "'p process_ops"
  assumes running_start: "po_IsRunning P (po_start P p)"
    and running_stop: "\<not> po_IsRunning P (po_stop P p)"
    and running_work: "po_work P p q \<Longrightarrow> po_IsRunning P q = po_IsRunning P p"
    and complete_start: "po_IsComplete P (po_start P p) = po_IsComplete P p"
    and complete_stop: "po_IsComplete P (po_stop P p) = po_IsComplete P p"
    and complete_work: "po_work P p q \<Longrightarrow> po_IsComplete P p \<Longrightarrow> po_IsComplete P q"
    and running_background: "po_background P p q \<Longrightarrow> po_IsRunning P q = po_IsRunning P p"
    and complete_background: "po_background P p q \<Longrightarrow> po_IsComplete P p \<Longrightarrow> po_IsComplete P q"
begin

lemma wf_new:
  assumes "NewSchedulerWithInterval P expr p = Value (Inr s)" "\<not> po_IsRunning P p"
  shows "sched_wf P s"
  using assms
  by (auto simp: NewSchedulerWithInterval_def NewTicker_def sched_wf_def live_def in_loop_def split: sum.splits go.splits if_splits)

lemma wf_step: "sched_step P s ev s' \<Longrightarrow> sched_wf P s \<Longrightarrow> sched_wf P s'"
  by (induction rule: sched_step.induct)
     (auto simp: sched_wf_def live_def sched_ops in_loop_phase running_stop running_work running_background split: if_splits)

lemma wf_run: "sched_run P s evs s' \<Longrightarrow> sched_wf P s \<Longrightarrow> sched_wf P s'"
  by (induction rule: sched_run.induct) (auto intro: wf_step)

lemma wf_idle: "sched_wf P s \<Longrightarrow> sc_wg s = 0 \<longleftrightarrow> live s = 0 \<and> \<not> in_loop s"
  by (cases "in_loop s") (auto simp: sched_wf_def)

lemma idle_step:
  assumes "sched_step P s ev s'" "live s = 0" "sc_loop s = Exited"
  shows "live s' = 0 \<and> sc_loop s' = Exited \<and>
    (if background_event ev then po_background P (sc_process s) (sc_process s') else sc_process s' = sc_process s)"
  using assms by (cases rule: sched_step.cases) (auto simp: live_def sched_ops split: if_splits)

lemma idle_run:
  "sched_run P s evs s' \<Longrightarrow> live s = 0 \<Longrightarrow> sc_loop s = Exited \<Longrightarrow>
     live s' = 0 \<and> sc_loop s' = Exited \<and>
     (po_background P ^^ length (filter background_event evs)) (sc_process s) (sc_process s')"
proof (induction rule: sched_run.induct)
  case (run_step s ev s' evs s'')
  note i = idle_step[OF run_step(1,4,5)]
  have "live s' = 0" "sc_loop s' = Exited" using i by simp_all
  note ih = run_step.IH[OF this]
  show ?case
  proof (cases "background_event ev")
    case True
    then have "po_background P (sc_process s) (sc_process s')" using i by simp
    with ih True show ?thesis
      using relpowp_Suc_I2[of "po_background P" "sc_process s" "sc_process s'"] by simp
  next
    case False
    with i ih show ?thesis by simp
  qed
qed simp

lemma stopped_run:
  assumes "sched_run P s evs s'" "sched_wf P s" "sc_wg s = 0" "sc_loop s \<noteq> NotStarted"
  shows "live s = 0 \<and> live s' = 0 \<and> sc_loop s' = Exited \<and>
    (po_background P ^^ length (filter background_event evs)) (sc_process s) (sc_process s')"
proof -
  have "live s = 0" "sc_loop s = Exited" using wf_idle[OF assms(2)] assms(3,4) by (cases "sc_loop s"; simp add: in_loop_def)+
  then show ?thesis using idle_run[OF assms(1)] by simp
qed

lemma exclusive_step:
  assumes "sched_step P s ev s'" "ev = EvLaunch \<longrightarrow> sc_launched s = 0" "sched_wf P s"
    and "sc_launched s + sc_executing s \<le> 1" "0 < sc_executing s \<longrightarrow> po_IsRunning P (sc_process s)"
  shows "sc_launched s' + sc_executing s' \<le> 1 \<and> (0 < sc_executing s' \<longrightarrow> po_IsRunning P (sc_process s'))"
  using assms
  by (cases rule: sched_step.cases)
     (auto simp: sched_wf_def sched_ops running_start running_work running_background split: if_splits)

lemma exclusive_run:
  assumes "prompt_run P s evs s'" "sched_wf P s"
    and "sc_launched s + sc_executing s \<le> 1" "0 < sc_executing s \<longrightarrow> po_IsRunning P (sc_process s)"
  shows "sched_wf P s' \<and> sc_launched s' + sc_executing s' \<le> 1 \<and> (0 < sc_executing s' \<longrightarrow> po_IsRunning P (sc_process s'))"
  using assms
proof (induction rule: prompt_run.induct)
  case (prompt_step s ev s' evs s'')
  then show ?case using exclusive_step[OF prompt_step(1,2)] wf_step[OF prompt_step(1)] by simp
qed simp

lemma complete_step:
  assumes "sched_step P s ev s'" "po_IsComplete P (sc_process s)" "sc_loop s \<in> {Waiting, Exited}"
  shows "ev \<noteq> EvLaunch \<and> po_IsComplete P (sc_process s') \<and> sc_loop s' \<in> {Waiting, Exited} \<and>
    (ev = EvTick \<longrightarrow> sc_loop s' = Exited)"
  using assms
  by (cases rule: sched_step.cases)
     (auto simp: sched_ops complete_start complete_stop complete_work complete_background split: if_splits)

lemma complete_run:
  assumes "sched_run P s evs s'" "po_IsComplete P (sc_process s)" "sc_loop s \<in> {Waiting, Exited}"
  shows "EvLaunch \<notin> set evs \<and> po_IsComplete P (sc_process s') \<and> sc_loop s' \<in> {Waiting, Exited} \<and>
    (EvTick \<in> set evs \<longrightarrow> sc_loop s' = Exited)"
  using assms
proof (induction rule: sched_run.induct)
  case (run_step s ev s' evs s'')
  note c = complete_step[OF run_step(1,4,5)]
  have x: "sc_loop s' = Exited \<Longrightarrow> sc_loop s'' = Exited" using exited_stays[OF run_step(2)] by simp
  show ?case using c x run_step(3) by auto
qed simp

end

end
