(* ===== verification/Go_URL.thy ===== *)
theory Go_URL
  imports Prelude
begin

text \<open>
  The part of Go's \<^verbatim>\<open>net/url\<close> that the sources call: \<^verbatim>\<open>url.Parse\<close>, \<^verbatim>\<open>url.ParseRequestURI\<close>
  and \<^verbatim>\<open>URL.String\<close>, control flow as in the standard library. Percent escapes are carried
  through unchanged and the authority is kept as one string (user information is not split
  off and the port is not checked); none of the sources looks at those parts.
\<close>

record url =
  u_Scheme :: string
  u_Opaque :: string
  u_Host :: string
  u_OmitHost :: bool
  u_Path :: string
  u_ForceQuery :: bool
  u_RawQuery :: string
  u_Fragment :: string

definition empty_url :: url where
  "empty_url = \<lparr>u_Scheme = [], u_Opaque = [], u_Host = [], u_OmitHost = False, u_Path = [],
     u_ForceQuery = False, u_RawQuery = [], u_Fragment = []\<rparr>"

definition is_letter :: "char \<Rightarrow> bool" where
  "is_letter c = (let n = of_char c :: nat in 97 \<le> n \<and> n \<le> 122 \<or> 65 \<le> n \<and> n \<le> 90)"

definition is_digit :: "char \<Rightarrow> bool" where
  "is_digit c = (let n = of_char c :: nat in 48 \<le> n \<and> n \<le> 57)"

definition is_ctl :: "char \<Rightarrow> bool" where
  "is_ctl c = (let n = of_char c :: nat in n < 32 \<or> n = 127)"

definition before :: "char \<Rightarrow> string \<Rightarrow> string" where
  "before d s = takeWhile (\<lambda>c. c \<noteq> d) s"

definition after :: "char \<Rightarrow> string \<Rightarrow> string" where
  "after d s = drop 1 (dropWhile (\<lambda>c. c \<noteq> d) s)"

text \<open>\<open>get_scheme\<close> scans from position \<open>i\<close>; \<open>acc\<close> is the reversed scheme read so far.\<close>

fun get_scheme_from :: "string \<Rightarrow> string \<Rightarrow> string \<Rightarrow> (string \<times> string) result" where
  "get_scheme_from raw acc [] = Inr ([], raw)"
| "get_scheme_from raw acc (c # cs) =
     (if is_letter c then get_scheme_from raw (c # acc) cs
      else if is_digit c \<or> c = CHR ''+'' \<or> c = CHR ''-'' \<or> c = CHR ''.'' then
        (if acc = [] then Inr ([], raw) else get_scheme_from raw (c # acc) cs)
      else if c = CHR '':'' then
        (if acc = [] then Inl ''missing protocol scheme'' else Inr (rev acc, cs))
      else Inr ([], raw))"

definition get_scheme :: "string \<Rightarrow> (string \<times> string) result" where
  "get_scheme raw = get_scheme_from raw [] raw"

definition cut_query :: "string \<Rightarrow> bool \<times> string \<times> string" where
  \<comment> \<open>(ForceQuery, rest, RawQuery)\<close>
  "cut_query rest =
     (if hasSuffix rest ''?'' \<and> CHR ''?'' \<notin> set (butlast rest)
      then (True, butlast rest, [])
      else (False, before CHR ''?'' rest, after CHR ''?'' rest))"

definition parse_raw :: "bool \<Rightarrow> string \<Rightarrow> url result" where
  "parse_raw viaRequest raw =
     (if list_ex is_ctl raw then Inl ''net/url: invalid control character in URL''
      else if raw = [] \<and> viaRequest then Inl ''empty url''
      else if raw = ''*'' then Inr (empty_url\<lparr>u_Path := ''*''\<rparr>)
      else case get_scheme raw of
        Inl e \<Rightarrow> Inl e
      | Inr (sch, rest0) \<Rightarrow>
        (let scheme = to_lower sch; (fq, rest, qry) = cut_query rest0;
             u = empty_url\<lparr>u_Scheme := scheme, u_ForceQuery := fq, u_RawQuery := qry\<rparr>
         in if \<not> hasPrefix rest ''/'' \<and> scheme \<noteq> [] then Inr (u\<lparr>u_Opaque := rest\<rparr>)
            else if \<not> hasPrefix rest ''/'' \<and> viaRequest then Inl ''invalid URI for request''
            else if \<not> hasPrefix rest ''/'' \<and> CHR '':'' \<in> set (before CHR ''/'' rest)
              then Inl ''first path segment in URL cannot contain colon''
            else if (scheme \<noteq> [] \<or> \<not> viaRequest \<and> \<not> hasPrefix rest ''///'') \<and> hasPrefix rest ''//''
              then (let auth = drop 2 rest
                    in Inr (u\<lparr>u_Host := before CHR ''/'' auth,
                              u_Path := dropWhile (\<lambda>c. c \<noteq> CHR ''/'') auth\<rparr>))
            else Inr (u\<lparr>u_OmitHost := (scheme \<noteq> [] \<and> hasPrefix rest ''/''), u_Path := rest\<rparr>)))"

definition url_Parse :: "string \<Rightarrow> url result" where
  "url_Parse raw = (case parse_raw False (before CHR ''#'' raw) of
      Inl e \<Rightarrow> Inl e
    | Inr u \<Rightarrow> Inr (u\<lparr>u_Fragment := after CHR ''#'' raw\<rparr>))"

definition url_ParseRequestURI :: "string \<Rightarrow> url result" where
  "url_ParseRequestURI raw = parse_raw True raw"

definition url_String :: "url \<Rightarrow> string" where
  "url_String u =
     (let sch = (if u_Scheme u \<noteq> [] then u_Scheme u @ '':'' else []);
          tail = (if u_ForceQuery u \<or> u_RawQuery u \<noteq> [] then ''?'' @ u_RawQuery u else []) @
                 (if u_Fragment u \<noteq> [] then ''#'' @ u_Fragment u else []);
          auth = (if u_Scheme u \<noteq> [] \<or> u_Host u \<noteq> [] then
                    (if u_OmitHost u \<and> u_Host u = [] then []
                     else (if u_Host u \<noteq> [] \<or> u_Path u \<noteq> [] then ''//'' else []) @ u_Host u)
                  else []);
          slash = (if u_Path u \<noteq> [] \<and> \<not> hasPrefix (u_Path u) ''/'' \<and> u_Host u \<noteq> [] then ''/'' else []);
          dot = (if sch @ auth @ slash = [] \<and> CHR '':'' \<in> set (before CHR ''/'' (u_Path u))
                 then ''./'' else [])
      in (if u_Opaque u \<noteq> [] then sch @ u_Opaque u
          else sch @ auth @ slash @ dot @ u_Path u) @ tail)"

section \<open>Absolute URLs\<close>

text \<open>
  The URLs the two programs exchange: \<open>scheme://host/path\<close> with a plain scheme, a host and a
  path free of the characters that start a query or a fragment.
\<close>

definition plain :: "string \<Rightarrow> bool" where
  "plain s = (\<forall>c \<in> set s. \<not> is_ctl c \<and> c \<noteq> CHR ''#'' \<and> c \<noteq> CHR ''?'')"

definition good_scheme :: "string \<Rightarrow> bool" where
  "good_scheme s = (s \<noteq> [] \<and> (\<forall>c \<in> set s. is_letter c) \<and> to_lower s = s)"

definition good_host :: "string \<Rightarrow> bool" where
  "good_host h = (h \<noteq> [] \<and> plain h \<and> CHR ''/'' \<notin> set h)"

definition good_path :: "string \<Rightarrow> bool" where
  "good_path p = (plain p \<and> hasPrefix p ''/'')"

definition abs_url :: "string \<Rightarrow> string \<Rightarrow> string \<Rightarrow> string" where
  "abs_url s h p = s @ ''://'' @ h @ p"

lemma plain_append [simp]: "plain (a @ b) \<longleftrightarrow> plain a \<and> plain b"
  by (auto simp: plain_def)

lemma plain_lits [simp]: "plain ''//''" "plain ''://''" "plain []"
  by (simp_all add: plain_def is_ctl_def)

lemma is_letter_ctl: "is_letter c \<Longrightarrow> \<not> is_ctl c"
  by (auto simp: is_letter_def is_ctl_def Let_def)

lemma is_letter_special: "\<not> is_letter CHR ''#''" "\<not> is_letter CHR ''?''" "\<not> is_letter CHR '':''"
  by (simp_all add: is_letter_def)

lemma good_scheme_plain: "good_scheme s \<Longrightarrow> plain s"
  using is_letter_special by (auto simp: good_scheme_def plain_def is_letter_ctl)

lemma abs_url_plain:
  "good_scheme s \<Longrightarrow> good_host h \<Longrightarrow> good_path p \<or> p = [] \<Longrightarrow> plain (abs_url s h p)"
  using good_scheme_plain by (auto simp only: abs_url_def good_host_def good_path_def plain_append plain_lits)

lemma plain_no_query: "plain s \<Longrightarrow> CHR ''?'' \<notin> set s" "plain s \<Longrightarrow> CHR ''#'' \<notin> set s"
  by (auto simp: plain_def)

lemma plain_no_ctl: "plain s \<Longrightarrow> \<not> list_ex is_ctl s"
  by (auto simp: plain_def list_ex_iff)

lemma before_absent: "d \<notin> set s \<Longrightarrow> before d s = s"
  by (auto simp: before_def takeWhile_eq_all_conv)

lemma dropWhile_absent: "d \<notin> set s \<Longrightarrow> dropWhile (\<lambda>c. c \<noteq> d) s = []"
  by (induction s) auto

lemma after_absent: "d \<notin> set s \<Longrightarrow> after d s = []"
  by (simp add: after_def dropWhile_absent)

lemma takeWhile_append_hit: "\<forall>c\<in>set h. P c \<Longrightarrow> (p = [] \<or> \<not> P (hd p)) \<Longrightarrow> takeWhile P (h @ p) = h"
  by (induction h) (cases p; auto)+

lemma dropWhile_append_hit: "\<forall>c\<in>set h. P c \<Longrightarrow> (p = [] \<or> \<not> P (hd p)) \<Longrightarrow> dropWhile P (h @ p) = p"
  by (induction h) (cases p; auto)+

lemma good_path_hd: "good_path p \<Longrightarrow> p \<noteq> [] \<and> hd p = CHR ''/''"
  by (cases p) (auto simp: good_path_def)

lemma get_scheme_from_letters:
  "\<forall>c\<in>set s. is_letter c \<Longrightarrow> s \<noteq> [] \<or> acc \<noteq> [] \<Longrightarrow>
   get_scheme_from raw acc (s @ CHR '':'' # r) = Inr (rev acc @ s, r)"
  by (induction s arbitrary: acc) (auto simp: is_letter_special is_digit_def)

lemma cut_query_plain: "plain r \<Longrightarrow> cut_query r = (False, r, [])"
proof -
  assume "plain r"
  then have q: "CHR ''?'' \<notin> set r" by (rule plain_no_query)
  then have "\<not> hasSuffix r ''?''"
    by (cases r rule: rev_cases) (auto simp: hasSuffix_def)
  with q show ?thesis by (simp add: cut_query_def before_absent after_absent)
qed

lemma parse_raw_abs:
  assumes "good_scheme s" "good_host h" "good_path p \<or> p = []"
  shows "parse_raw v (abs_url s h p) =
         Inr (empty_url\<lparr>u_Scheme := s, u_Host := h, u_Path := p\<rparr>)"
proof -
  let ?r = "''//'' @ h @ p"
  have pl: "plain ?r"
    using assms(2,3) by (auto simp only: good_host_def good_path_def plain_append plain_lits)
  have raw: "abs_url s h p = s @ CHR '':'' # ?r" by (simp add: abs_url_def)
  have ctl: "\<not> list_ex is_ctl (abs_url s h p)" by (intro plain_no_ctl abs_url_plain assms)
  have sch: "get_scheme (abs_url s h p) = Inr (s, ?r)"
    unfolding get_scheme_def raw using assms(1)
    by (subst get_scheme_from_letters) (auto simp: good_scheme_def)
  have nost: "abs_url s h p \<noteq> ''*''" "abs_url s h p \<noteq> []"
    using assms(1) by (auto simp: abs_url_def good_scheme_def append_eq_Cons_conv)
  have hp: "p = [] \<or> \<not> hd p \<noteq> CHR ''/''" using assms(3) good_path_hd by auto
  have hs: "\<forall>c\<in>set h. c \<noteq> CHR ''/''" using assms(2) by (auto simp: good_host_def)
  have "before CHR ''/'' (h @ p) = h" "dropWhile (\<lambda>c. c \<noteq> CHR ''/'') (h @ p) = p"
    unfolding before_def using takeWhile_append_hit[OF hs hp] dropWhile_append_hit[OF hs hp] by auto
  with ctl sch nost pl assms show ?thesis
    by (simp add: parse_raw_def cut_query_plain Let_def good_scheme_def good_host_def empty_url_def)
qed

lemma parse_abs:
  assumes "good_scheme s" "good_host h" "good_path p \<or> p = []"
  shows "url_Parse (abs_url s h p) = Inr (empty_url\<lparr>u_Scheme := s, u_Host := h, u_Path := p\<rparr>)"
proof -
  have "CHR ''#'' \<notin> set (abs_url s h p)" by (intro plain_no_query abs_url_plain assms)
  with parse_raw_abs[OF assms] show ?thesis
    by (simp add: url_Parse_def before_absent after_absent empty_url_def)
qed

lemma String_abs:
  assumes "good_scheme s" "good_host h" "good_path p \<or> p = []"
  shows "url_String (empty_url\<lparr>u_Scheme := s, u_Host := h, u_Path := p\<rparr>) = abs_url s h p"
proof -
  have "p = [] \<or> hasPrefix p ''/''" using assms(3) by (auto simp: good_path_def)
  with assms(1,2) show ?thesis
    by (simp add: url_String_def empty_url_def abs_url_def good_scheme_def good_host_def
        before_def Let_def)
qed

end
