(* ===== verification/Config_Model.thy ===== *)
theory Config_Model
  imports Go_URL
begin

text \<open>
  \<^verbatim>\<open>pkg/config/config.go\<close>, \<^verbatim>\<open>constants.go\<close>, \<^verbatim>\<open>getters.go\<close> and \<^verbatim>\<open>modifiers.go\<close>: the
  configuration of a satellite as nested records, one field per Go field; the defaults; the
  effective values and the equality of audit settings; the configuration manager with its
  accessors; and the mutators, as functions on \<open>config\<close>. A Go pointer that may be nil is an
  \<open>option\<close>. A nil slice is the empty list. The mutex of the manager makes every accessor
  atomic; each accessor is one function here.
\<close>

section \<open>Records\<close>

record registry_credentials =
  rc_URL :: string
  rc_Username :: string
  rc_Password :: string

record tls_config =
  tls_CertFile :: string
  tls_KeyFile :: string
  tls_CAFile :: string
  tls_SkipVerify :: bool

record spiffe_config =
  spf_Enabled :: bool
  spf_EndpointSocket :: string
  spf_ExpectedServerID :: string

record metrics_config =
  mt_CollectCPU :: bool
  mt_CollectMemory :: bool
  mt_CollectStorage :: bool

record registry_fallback_config =
  fb_Enabled :: bool
  fb_Registries :: "string list"
  fb_Runtimes :: "string list"

record syslog_audit_file =
  saf_Path :: string
  saf_MaxSizeMB :: "int option"
  saf_MaxBackups :: "int option"
  saf_MaxAgeDays :: "int option"
  saf_Compress :: "bool option"

record syslog_audit =
  sl_Enabled :: "bool option"
  sl_Target :: string
  sl_Tag :: string
  sl_SocketPath :: string
  sl_Network :: string
  sl_Address :: string
  sl_File :: syslog_audit_file

record otel_audit =
  ot_Enabled :: bool
  ot_Endpoint :: string

record audit_config =
  au_Enabled :: bool
  au_Syslog :: syslog_audit
  au_Otel :: otel_audit

record direct_delivery_config =
  dd_Enabled :: bool
  dd_ImageDir :: string

record app_config =
  ac_GroundControlURL :: string
  ac_LogLevel :: string
  ac_UseUnsecure :: bool
  ac_StateReplicationInterval :: string
  ac_RegisterSatelliteInterval :: string
  ac_HeartbeatInterval :: string
  ac_Metrics :: metrics_config
  ac_BringOwnRegistry :: bool
  ac_LocalRegistryCredentials :: registry_credentials
  ac_TLS :: tls_config
  ac_SPIFFE :: spiffe_config
  ac_EncryptConfig :: bool
  ac_RegistryFallback :: registry_fallback_config
  ac_HarborRegistryURL :: string
  ac_DirectDelivery :: direct_delivery_config
  ac_Audit :: audit_config

record state_config =
  sc_RegistryCredentials :: registry_credentials
  sc_StateURL :: string

record config =
  cfg_StateConfig :: state_config
  cfg_AppConfig :: app_config
  cfg_ZotConfigRaw :: string

text \<open>The zero values of the Go structs.\<close>

definition zero_credentials :: registry_credentials where
  "zero_credentials = \<lparr>rc_URL = [], rc_Username = [], rc_Password = []\<rparr>"

definition zero_tls :: tls_config where
  "zero_tls = \<lparr>tls_CertFile = [], tls_KeyFile = [], tls_CAFile = [], tls_SkipVerify = False\<rparr>"

definition zero_syslog_file :: syslog_audit_file where
  "zero_syslog_file = \<lparr>saf_Path = [], saf_MaxSizeMB = None, saf_MaxBackups = None,
     saf_MaxAgeDays = None, saf_Compress = None\<rparr>"

definition zero_syslog :: syslog_audit where
  "zero_syslog = \<lparr>sl_Enabled = None, sl_Target = [], sl_Tag = [], sl_SocketPath = [],
     sl_Network = [], sl_Address = [], sl_File = zero_syslog_file\<rparr>"

definition zero_audit :: audit_config where
  "zero_audit = \<lparr>au_Enabled = False, au_Syslog = zero_syslog,
     au_Otel = \<lparr>ot_Enabled = False, ot_Endpoint = []\<rparr>\<rparr>"

definition zero_app_config :: app_config where
  "zero_app_config = \<lparr>ac_GroundControlURL = [], ac_LogLevel = [], ac_UseUnsecure = False,
     ac_StateReplicationInterval = [], ac_RegisterSatelliteInterval = [], ac_HeartbeatInterval = [],
     ac_Metrics = \<lparr>mt_CollectCPU = False, mt_CollectMemory = False, mt_CollectStorage = False\<rparr>,
     ac_BringOwnRegistry = False, ac_LocalRegistryCredentials = zero_credentials, ac_TLS = zero_tls,
     ac_SPIFFE = \<lparr>spf_Enabled = False, spf_EndpointSocket = [], spf_ExpectedServerID = []\<rparr>,
     ac_EncryptConfig = False,
     ac_RegistryFallback = \<lparr>fb_Enabled = False, fb_Registries = [], fb_Runtimes = []\<rparr>,
     ac_HarborRegistryURL = [], ac_DirectDelivery = \<lparr>dd_Enabled = False, dd_ImageDir = []\<rparr>,
     ac_Audit = zero_audit\<rparr>"

definition zero_state_config :: state_config where
  "zero_state_config = \<lparr>sc_RegistryCredentials = zero_credentials, sc_StateURL = []\<rparr>"

definition zero_config :: config where
  "zero_config = \<lparr>cfg_StateConfig = zero_state_config, cfg_AppConfig = zero_app_config,
     cfg_ZotConfigRaw = []\<rparr>"

section \<open>Constants\<close>

definition DefaultZTRCronExpr :: string where
  "DefaultZTRCronExpr = ''@every 00h00m05s''"

definition DefaultFetchAndReplicateCronExpr :: string where
  "DefaultFetchAndReplicateCronExpr = ''@every 00h00m30s''"

definition DefaultHeartbeatCronExpr :: string where
  "DefaultHeartbeatCronExpr = ''@every 00h00m30s''"

definition ReplicateStateJobName :: string where
  "ReplicateStateJobName = ''replicate_state''"

definition ZTRConfigJobName :: string where
  "ZTRConfigJobName = ''register_satellite''"

definition StatusReportJobName :: string where
  "StatusReportJobName = ''status_report''"

definition SPIFFEZTRConfigJobName :: string where
  "SPIFFEZTRConfigJobName = ''spiffe_register_satellite''"

definition DefaultRemoteRegistryURL :: string where
  "DefaultRemoteRegistryURL = ''http://127.0.0.1:8585''"

definition DefaultAuditFilePath :: string where "DefaultAuditFilePath = ''./audit.log''"
definition DefaultAuditMaxSizeMB :: int where "DefaultAuditMaxSizeMB = 100"
definition DefaultAuditMaxBackups :: int where "DefaultAuditMaxBackups = 7"
definition DefaultAuditMaxAgeDays :: int where "DefaultAuditMaxAgeDays = 30"
definition DefaultAuditCompress :: bool where "DefaultAuditCompress = True"
definition DefaultAuditSyslogTarget :: string where "DefaultAuditSyslogTarget = ''file''"
definition DefaultAuditSyslogTag :: string where "DefaultAuditSyslogTag = ''harbor-audit''"
definition DefaultAuditSyslogSocket :: string where "DefaultAuditSyslogSocket = ''/dev/log''"

lemmas config_consts = DefaultZTRCronExpr_def DefaultFetchAndReplicateCronExpr_def
  DefaultHeartbeatCronExpr_def DefaultRemoteRegistryURL_def DefaultAuditFilePath_def
  DefaultAuditMaxSizeMB_def DefaultAuditMaxBackups_def DefaultAuditMaxAgeDays_def
  DefaultAuditCompress_def DefaultAuditSyslogTarget_def DefaultAuditSyslogTag_def
  DefaultAuditSyslogSocket_def

section \<open>Effective audit settings\<close>

definition EnabledOrDefault :: "syslog_audit \<Rightarrow> bool" where
  "EnabledOrDefault s = (case sl_Enabled s of None \<Rightarrow> True | Some b \<Rightarrow> b)"

definition TargetOrDefault :: "syslog_audit \<Rightarrow> string" where
  "TargetOrDefault s = (if sl_Target s = [] then DefaultAuditSyslogTarget else sl_Target s)"

definition TagOrDefault :: "syslog_audit \<Rightarrow> string" where
  "TagOrDefault s = (if sl_Tag s = [] then DefaultAuditSyslogTag else sl_Tag s)"

definition MaxSizeMBOrDefault :: "syslog_audit_file \<Rightarrow> int" where
  "MaxSizeMBOrDefault f = (case saf_MaxSizeMB f of None \<Rightarrow> DefaultAuditMaxSizeMB | Some n \<Rightarrow> n)"

definition MaxBackupsOrDefault :: "syslog_audit_file \<Rightarrow> int" where
  "MaxBackupsOrDefault f = (case saf_MaxBackups f of None \<Rightarrow> DefaultAuditMaxBackups | Some n \<Rightarrow> n)"

definition MaxAgeDaysOrDefault :: "syslog_audit_file \<Rightarrow> int" where
  "MaxAgeDaysOrDefault f = (case saf_MaxAgeDays f of None \<Rightarrow> DefaultAuditMaxAgeDays | Some n \<Rightarrow> n)"

definition CompressOrDefault :: "syslog_audit_file \<Rightarrow> bool" where
  "CompressOrDefault f = (case saf_Compress f of None \<Rightarrow> DefaultAuditCompress | Some b \<Rightarrow> b)"

definition syslog_file_equal :: "syslog_audit_file \<Rightarrow> syslog_audit_file \<Rightarrow> bool" where
  "syslog_file_equal f o' =
     (saf_Path f = saf_Path o' \<and>
      MaxSizeMBOrDefault f = MaxSizeMBOrDefault o' \<and>
      MaxBackupsOrDefault f = MaxBackupsOrDefault o' \<and>
      MaxAgeDaysOrDefault f = MaxAgeDaysOrDefault o' \<and>
      CompressOrDefault f = CompressOrDefault o')"

definition syslog_equal :: "syslog_audit \<Rightarrow> syslog_audit \<Rightarrow> bool" where
  "syslog_equal s o' =
     (EnabledOrDefault s = EnabledOrDefault o' \<and>
      TargetOrDefault s = TargetOrDefault o' \<and>
      TagOrDefault s = TagOrDefault o' \<and>
      sl_SocketPath s = sl_SocketPath o' \<and>
      sl_Network s = sl_Network o' \<and>
      sl_Address s = sl_Address o' \<and>
      syslog_file_equal (sl_File s) (sl_File o'))"

definition audit_Equal :: "audit_config \<Rightarrow> audit_config \<Rightarrow> bool" where
  "audit_Equal a b =
     (au_Enabled a = au_Enabled b \<and> syslog_equal (au_Syslog a) (au_Syslog b) \<and> au_Otel a = au_Otel b)"

section \<open>The configuration manager and its accessors\<close>

record config_manager =
  cm_config :: config
  cm_Token :: string
  cm_DefaultGroundControlURL :: string
  cm_JsonLog :: bool
  cm_configPath :: string
  cm_prevConfigPath :: string
  cm_encryptEnabled :: bool

definition IsZTRDone :: "config_manager \<Rightarrow> bool" where
  "IsZTRDone cm = (rc_Username (sc_RegistryCredentials (cfg_StateConfig (cm_config cm))) \<noteq> [])"

definition GetLogLevel :: "config_manager \<Rightarrow> string" where
  "GetLogLevel cm = ac_LogLevel (cfg_AppConfig (cm_config cm))"

definition IsJSONLog :: "config_manager \<Rightarrow> bool" where
  "IsJSONLog cm = cm_JsonLog cm"

definition GetOwnRegistry :: "config_manager \<Rightarrow> bool" where
  "GetOwnRegistry cm = ac_BringOwnRegistry (cfg_AppConfig (cm_config cm))"

definition UseUnsecure :: "config_manager \<Rightarrow> bool" where
  "UseUnsecure cm = ac_UseUnsecure (cfg_AppConfig (cm_config cm))"

definition GetSourceRegistryPassword :: "config_manager \<Rightarrow> string" where
  "GetSourceRegistryPassword cm = rc_Password (sc_RegistryCredentials (cfg_StateConfig (cm_config cm)))"

definition GetSourceRegistryUsername :: "config_manager \<Rightarrow> string" where
  "GetSourceRegistryUsername cm = rc_Username (sc_RegistryCredentials (cfg_StateConfig (cm_config cm)))"

definition GetSourceRegistryURL :: "config_manager \<Rightarrow> string" where
  "GetSourceRegistryURL cm = rc_URL (sc_RegistryCredentials (cfg_StateConfig (cm_config cm)))"

definition GetSourceRegistryCredentials :: "config_manager \<Rightarrow> registry_credentials" where
  "GetSourceRegistryCredentials cm = sc_RegistryCredentials (cfg_StateConfig (cm_config cm))"

definition GetStateURL :: "config_manager \<Rightarrow> string" where
  "GetStateURL cm = sc_StateURL (cfg_StateConfig (cm_config cm))"

definition GetRemoteRegistryUsername :: "config_manager \<Rightarrow> string" where
  "GetRemoteRegistryUsername cm = rc_Username (ac_LocalRegistryCredentials (cfg_AppConfig (cm_config cm)))"

definition GetRemoteRegistryPassword :: "config_manager \<Rightarrow> string" where
  "GetRemoteRegistryPassword cm = rc_Password (ac_LocalRegistryCredentials (cfg_AppConfig (cm_config cm)))"

definition GetLocalRegistryURL :: "config_manager \<Rightarrow> string" where
  "GetLocalRegistryURL cm = rc_URL (ac_LocalRegistryCredentials (cfg_AppConfig (cm_config cm)))"

definition GetRemoteRegistryCredentials :: "config_manager \<Rightarrow> registry_credentials" where
  "GetRemoteRegistryCredentials cm = ac_LocalRegistryCredentials (cfg_AppConfig (cm_config cm))"

definition GetRegistrationInterval :: "config_manager \<Rightarrow> string" where
  "GetRegistrationInterval cm = ac_RegisterSatelliteInterval (cfg_AppConfig (cm_config cm))"

definition GetStateReplicationInterval :: "config_manager \<Rightarrow> string" where
  "GetStateReplicationInterval cm = ac_StateReplicationInterval (cfg_AppConfig (cm_config cm))"

definition GetHeartbeatInterval :: "config_manager \<Rightarrow> string" where
  "GetHeartbeatInterval cm = ac_HeartbeatInterval (cfg_AppConfig (cm_config cm))"

definition GetMetricsConfig :: "config_manager \<Rightarrow> metrics_config" where
  "GetMetricsConfig cm = ac_Metrics (cfg_AppConfig (cm_config cm))"

definition GetStateConfig :: "config_manager \<Rightarrow> state_config" where
  "GetStateConfig cm = cfg_StateConfig (cm_config cm)"

definition ResolveGroundControlURL :: "config_manager \<Rightarrow> string" where
  "ResolveGroundControlURL cm =
     (if ac_GroundControlURL (cfg_AppConfig (cm_config cm)) \<noteq> []
      then ac_GroundControlURL (cfg_AppConfig (cm_config cm))
      else cm_DefaultGroundControlURL cm)"

definition GetToken :: "config_manager \<Rightarrow> string" where
  "GetToken cm = cm_Token cm"

definition GetRawZotConfig :: "config_manager \<Rightarrow> string" where
  "GetRawZotConfig cm = cfg_ZotConfigRaw (cm_config cm)"

definition GetConfig :: "config_manager \<Rightarrow> config" where
  "GetConfig cm = cm_config cm"

definition GetTLSConfig :: "config_manager \<Rightarrow> tls_config" where
  "GetTLSConfig cm = ac_TLS (cfg_AppConfig (cm_config cm))"

definition ShouldEncryptConfig :: "config_manager \<Rightarrow> bool" where
  "ShouldEncryptConfig cm = ac_EncryptConfig (cfg_AppConfig (cm_config cm))"

definition GetSPIFFEConfig :: "config_manager \<Rightarrow> spiffe_config" where
  "GetSPIFFEConfig cm = ac_SPIFFE (cfg_AppConfig (cm_config cm))"

definition IsSPIFFEEnabled :: "config_manager \<Rightarrow> bool" where
  "IsSPIFFEEnabled cm = spf_Enabled (ac_SPIFFE (cfg_AppConfig (cm_config cm)))"

definition GetRegistryFallbackConfig :: "config_manager \<Rightarrow> registry_fallback_config" where
  "GetRegistryFallbackConfig cm = ac_RegistryFallback (cfg_AppConfig (cm_config cm))"

definition GetAuditConfig :: "config_manager \<Rightarrow> audit_config" where
  "GetAuditConfig cm = ac_Audit (cfg_AppConfig (cm_config cm))"

definition GetHarborRegistryURL :: "config_manager \<Rightarrow> string" where
  "GetHarborRegistryURL cm = ac_HarborRegistryURL (cfg_AppConfig (cm_config cm))"

definition GetDirectDeliveryConfig :: "config_manager \<Rightarrow> direct_delivery_config" where
  "GetDirectDeliveryConfig cm = ac_DirectDelivery (cfg_AppConfig (cm_config cm))"

lemmas getters = IsJSONLog_def GetSourceRegistryCredentials_def GetRemoteRegistryCredentials_def
  ShouldEncryptConfig_def GetRegistryFallbackConfig_def IsZTRDone_def GetLogLevel_def GetOwnRegistry_def UseUnsecure_def
  GetSourceRegistryPassword_def GetSourceRegistryUsername_def GetSourceRegistryURL_def
  GetStateURL_def GetRemoteRegistryUsername_def GetRemoteRegistryPassword_def
  GetLocalRegistryURL_def GetRegistrationInterval_def GetStateReplicationInterval_def
  GetHeartbeatInterval_def GetMetricsConfig_def GetStateConfig_def ResolveGroundControlURL_def
  GetToken_def GetRawZotConfig_def GetConfig_def GetTLSConfig_def GetSPIFFEConfig_def
  IsSPIFFEEnabled_def GetAuditConfig_def GetHarborRegistryURL_def GetDirectDeliveryConfig_def

section \<open>Mutators\<close>

type_synonym mutator = "config \<Rightarrow> config"

abbreviation on_app :: "(app_config \<Rightarrow> app_config) \<Rightarrow> mutator" where
  "on_app f cfg \<equiv> cfg\<lparr>cfg_AppConfig := f (cfg_AppConfig cfg)\<rparr>"

abbreviation on_state :: "(state_config \<Rightarrow> state_config) \<Rightarrow> mutator" where
  "on_state f cfg \<equiv> cfg\<lparr>cfg_StateConfig := f (cfg_StateConfig cfg)\<rparr>"

definition SetStateURL :: "string \<Rightarrow> mutator" where
  "SetStateURL u = on_state (sc_StateURL_update (\<lambda>_. u))"

definition SetStateAuth :: "string \<Rightarrow> string \<Rightarrow> string \<Rightarrow> mutator" where
  "SetStateAuth username password registryURL = on_state (sc_RegistryCredentials_update
     (\<lambda>rc. rc\<lparr>rc_Username := username, rc_URL := registryURL, rc_Password := password\<rparr>))"

definition SetStateConfig :: "state_config \<Rightarrow> mutator" where
  "SetStateConfig sc cfg = cfg\<lparr>cfg_StateConfig := sc\<rparr>"

definition SetGroundControlURL :: "string \<Rightarrow> mutator" where
  "SetGroundControlURL u = on_app (ac_GroundControlURL_update (\<lambda>_. u))"

definition SetLogLevel :: "string \<Rightarrow> mutator" where
  "SetLogLevel l = on_app (ac_LogLevel_update (\<lambda>_. l))"

definition SetUseUnsecure :: "bool \<Rightarrow> mutator" where
  "SetUseUnsecure b = on_app (ac_UseUnsecure_update (\<lambda>_. b))"

definition SetStateReplicationInterval :: "string \<Rightarrow> mutator" where
  "SetStateReplicationInterval e = on_app (ac_StateReplicationInterval_update (\<lambda>_. e))"

definition SetRegisterSatelliteInterval :: "string \<Rightarrow> mutator" where
  "SetRegisterSatelliteInterval e = on_app (ac_RegisterSatelliteInterval_update (\<lambda>_. e))"

definition SetBringOwnRegistry :: "bool \<Rightarrow> mutator" where
  "SetBringOwnRegistry b = on_app (ac_BringOwnRegistry_update (\<lambda>_. b))"

definition SetLocalRegistryURL :: "string \<Rightarrow> mutator" where
  "SetLocalRegistryURL u = on_app (ac_LocalRegistryCredentials_update (rc_URL_update (\<lambda>_. u)))"

definition SetLocalRegistryUsername :: "string \<Rightarrow> mutator" where
  "SetLocalRegistryUsername n = on_app (ac_LocalRegistryCredentials_update (rc_Username_update (\<lambda>_. n)))"

definition SetLocalRegistryPassword :: "string \<Rightarrow> mutator" where
  "SetLocalRegistryPassword p = on_app (ac_LocalRegistryCredentials_update (rc_Password_update (\<lambda>_. p)))"

definition SetLocalRegistryCredentials :: "registry_credentials \<Rightarrow> mutator" where
  "SetLocalRegistryCredentials c = on_app (ac_LocalRegistryCredentials_update (\<lambda>_. c))"

definition SetZotConfigRaw :: "string \<Rightarrow> mutator" where
  "SetZotConfigRaw raw cfg = cfg\<lparr>cfg_ZotConfigRaw := raw\<rparr>"

definition SetSPIFFEConfig :: "spiffe_config \<Rightarrow> mutator" where
  "SetSPIFFEConfig s = on_app (ac_SPIFFE_update (\<lambda>_. s))"

definition SetSPIFFEEnabled :: "bool \<Rightarrow> mutator" where
  "SetSPIFFEEnabled b = on_app (ac_SPIFFE_update (spf_Enabled_update (\<lambda>_. b)))"

definition SetRegistryFallbackConfig :: "registry_fallback_config \<Rightarrow> mutator" where
  "SetRegistryFallbackConfig fb = on_app (ac_RegistryFallback_update (\<lambda>_. fb))"

definition SetHarborRegistryURL :: "string \<Rightarrow> mutator" where
  "SetHarborRegistryURL u = on_app (ac_HarborRegistryURL_update (\<lambda>_. u))"

definition SetDirectDelivery :: "direct_delivery_config \<Rightarrow> mutator" where
  "SetDirectDelivery dd = on_app (ac_DirectDelivery_update (\<lambda>_. dd))"

definition With :: "mutator list \<Rightarrow> config_manager \<Rightarrow> config_manager" where
  "With mutators cm = cm\<lparr>cm_config := fold (\<lambda>mutate c. mutate c) mutators (cm_config cm)\<rparr>"

definition ReplaceURLHost :: "string \<Rightarrow> string \<Rightarrow> string result" where
  "ReplaceURLHost raw override =
     (case url_Parse override of
        Inl e \<Rightarrow> Inl (''parse override URL: '' @ e)
      | Inr overrideParsed \<Rightarrow>
        (case url_Parse raw of
           Inl e \<Rightarrow> Inl (''parse URL: '' @ e)
         | Inr parsed \<Rightarrow> Inr (url_String (parsed\<lparr>u_Scheme := u_Scheme overrideParsed,
                                                u_Host := u_Host overrideParsed\<rparr>))))"

definition ApplyHarborRegistryOverride :: "state_config \<Rightarrow> string \<Rightarrow> state_config result" where
  "ApplyHarborRegistryOverride sc override =
     (let authURL = rc_URL (sc_RegistryCredentials sc) in
      case (if authURL \<noteq> [] then ReplaceURLHost authURL override else Inr authURL) of
        Inl e \<Rightarrow> Inl e
      | Inr newAuth \<Rightarrow>
        (let sc1 = sc\<lparr>sc_RegistryCredentials := (sc_RegistryCredentials sc)\<lparr>rc_URL := newAuth\<rparr>\<rparr> in
         case (if sc_StateURL sc1 \<noteq> [] then ReplaceURLHost (sc_StateURL sc1) override
               else Inr (sc_StateURL sc1)) of
           Inl e \<Rightarrow> Inl e
         | Inr newState \<Rightarrow> Inr (sc1\<lparr>sc_StateURL := newState\<rparr>)))"

section \<open>Facts\<close>

text \<open>
  The settings an audit configuration stands for: every optional field replaced by the value
  the program uses for it. \<open>audit_Equal\<close> is the kernel of this map (an equivalence relation),
  which is what a reload needs: it restarts the audit logger exactly when it would behave
  differently.
\<close>

definition effective_file :: "syslog_audit_file \<Rightarrow> syslog_audit_file" where
  "effective_file f = \<lparr>saf_Path = saf_Path f, saf_MaxSizeMB = Some (MaxSizeMBOrDefault f),
     saf_MaxBackups = Some (MaxBackupsOrDefault f), saf_MaxAgeDays = Some (MaxAgeDaysOrDefault f),
     saf_Compress = Some (CompressOrDefault f)\<rparr>"

definition effective_audit :: "audit_config \<Rightarrow> audit_config" where
  "effective_audit a = a\<lparr>au_Syslog := \<lparr>sl_Enabled = Some (EnabledOrDefault (au_Syslog a)),
     sl_Target = TargetOrDefault (au_Syslog a), sl_Tag = TagOrDefault (au_Syslog a),
     sl_SocketPath = sl_SocketPath (au_Syslog a), sl_Network = sl_Network (au_Syslog a),
     sl_Address = sl_Address (au_Syslog a), sl_File = effective_file (sl_File (au_Syslog a))\<rparr>\<rparr>"

lemmas or_default = EnabledOrDefault_def TargetOrDefault_def TagOrDefault_def
  MaxSizeMBOrDefault_def MaxBackupsOrDefault_def MaxAgeDaysOrDefault_def CompressOrDefault_def

lemma audit_Equal_kernel: "audit_Equal a b \<longleftrightarrow> effective_audit a = effective_audit b"
  by (cases a; cases b)
     (auto simp: audit_Equal_def syslog_equal_def syslog_file_equal_def effective_audit_def
        effective_file_def)

text \<open>
  Two audit configurations are equal for the program exactly when their effective settings
  (defaults filled in for the unset optional fields) are the same record.
\<close>

theorem audit_Equal_effective: "audit_Equal a b \<longleftrightarrow> effective_audit a = effective_audit b"
  by (rule audit_Equal_kernel)

lemma ReplaceURLHost_abs_url:
  assumes "good_scheme s" "good_host h" "good_path p \<or> p = []"
    and "good_scheme s'" "good_host h'" "good_path p' \<or> p' = []"
  shows "ReplaceURLHost (abs_url s h p) (abs_url s' h' p') = Inr (abs_url s' h' p)"
proof -
  have "(empty_url\<lparr>u_Scheme := s, u_Host := h, u_Path := p\<rparr>)\<lparr>u_Scheme := s', u_Host := h'\<rparr>
        = empty_url\<lparr>u_Scheme := s', u_Host := h', u_Path := p\<rparr>"
    by simp
  then show ?thesis
    unfolding ReplaceURLHost_def parse_abs[OF assms(1-3)] parse_abs[OF assms(4-6)]
    using String_abs[OF assms(4,5,3)] by (simp add: empty_url_def)
qed

definition abs_or_empty :: "(string \<times> string \<times> string) option \<Rightarrow> string" where
  "abs_or_empty a = (case a of None \<Rightarrow> [] | Some (s, h, p) \<Rightarrow> abs_url s h p)"

definition good_abs :: "(string \<times> string \<times> string) option \<Rightarrow> bool" where
  "good_abs a = (case a of None \<Rightarrow> True
     | Some (s, h, p) \<Rightarrow> good_scheme s \<and> good_host h \<and> (good_path p \<or> p = []))"

definition rehost :: "string \<Rightarrow> string \<Rightarrow> (string \<times> string \<times> string) option \<Rightarrow> (string \<times> string \<times> string) option" where
  "rehost s' h' = map_option (\<lambda>(s, h, p). (s', h', p))"

lemma abs_or_empty_Nil: "good_abs a \<Longrightarrow> abs_or_empty a = [] \<longleftrightarrow> a = None"
  by (auto simp: abs_or_empty_def good_abs_def abs_url_def split: option.splits)

lemma ReplaceURLHost_abs_or_empty:
  assumes "good_abs a" "good_abs (Some (s', h', p'))"
  shows "(if abs_or_empty a \<noteq> [] then ReplaceURLHost (abs_or_empty a) (abs_url s' h' p')
          else Inr (abs_or_empty a)) = Inr (abs_or_empty (rehost s' h' a))"
proof (cases a)
  case (Some t)
  then obtain s h p where t: "a = Some (s, h, p)" by (cases t) auto
  then have "abs_url s h p \<noteq> []" using abs_or_empty_Nil[OF assms(1)] by (simp add: abs_or_empty_def)
  with t assms show ?thesis
    by (auto simp: abs_or_empty_def rehost_def good_abs_def ReplaceURLHost_abs_url)
qed (simp add: abs_or_empty_def rehost_def)

text \<open>
  Applying the override of the Harbor registry to a state configuration whose registry and
  state URLs are absolute (or empty) succeeds, gives both the scheme and host of the override
  and keeps their paths, the user name and the password.
\<close>

theorem ApplyHarborRegistryOverride_abs:
  assumes "good_abs a" "good_abs b" "good_abs (Some (s, h, p))"
    and "rc_URL (sc_RegistryCredentials sc) = abs_or_empty a" "sc_StateURL sc = abs_or_empty b"
  shows "ApplyHarborRegistryOverride sc (abs_url s h p) =
     Inr \<lparr>sc_RegistryCredentials = \<lparr>rc_URL = abs_or_empty (rehost s h a),
            rc_Username = rc_Username (sc_RegistryCredentials sc),
            rc_Password = rc_Password (sc_RegistryCredentials sc)\<rparr>,
          sc_StateURL = abs_or_empty (rehost s h b)\<rparr>"
  using assms(4,5) ReplaceURLHost_abs_or_empty[OF assms(1,3)] ReplaceURLHost_abs_or_empty[OF assms(2,3)]
  by (cases sc; cases "sc_RegistryCredentials sc")
     (simp add: ApplyHarborRegistryOverride_def Let_def split: if_splits)

theorem ApplyHarborRegistryOverride_abs_witness:
  "ApplyHarborRegistryOverride
     \<lparr>sc_RegistryCredentials = \<lparr>rc_URL = ''https://harbor.io'', rc_Username = ''robot'', rc_Password = ''s''\<rparr>,
      sc_StateURL = ''https://harbor.io/satellite/edge''\<rparr> ''http://10.0.0.1:80/x'' =
   Inr \<lparr>sc_RegistryCredentials = \<lparr>rc_URL = ''http://10.0.0.1:80'', rc_Username = ''robot'', rc_Password = ''s''\<rparr>,
      sc_StateURL = ''http://10.0.0.1:80/satellite/edge''\<rparr>"
proof -
  let ?sc = "\<lparr>sc_RegistryCredentials = \<lparr>rc_URL = ''https://harbor.io'', rc_Username = ''robot'', rc_Password = ''s''\<rparr>,
      sc_StateURL = ''https://harbor.io/satellite/edge''\<rparr>"
  have good: "good_abs (Some (''https'', ''harbor.io'', []))"
      "good_abs (Some (''https'', ''harbor.io'', ''/satellite/edge''))"
      "good_abs (Some (''http'', ''10.0.0.1:80'', ''/x''))"
    by (simp_all add: good_abs_def good_scheme_def good_host_def good_path_def plain_def
        is_letter_def is_ctl_def to_lower_def to_lower_char_def)
  show ?thesis
    using ApplyHarborRegistryOverride_abs[OF good, of ?sc]
    by (simp add: abs_or_empty_def rehost_def abs_url_def)
qed

end
