(* ===== verification/Config_Validate.thy ===== *)
theory Config_Validate
  imports Config_Model
begin

text \<open>
  \<^verbatim>\<open>pkg/config/validate.go\<close>: validation of a configuration with defaults. Go mutates the
  configuration in place; here every step returns the new record and its warnings. What the
  code asks of its surroundings is the record \<open>venv\<close>: whether \<^verbatim>\<open>cron.ParseStandard\<close> (a
  third-party package) accepts an expression, whether \<^verbatim>\<open>os.Stat\<close> reports a path as absent,
  the environment variable \<^verbatim>\<open>USE_UNSECURE\<close>, and the decoding of a zot configuration text.
\<close>

record zot_config =
  zot_Address :: string
  zot_Port :: string

record venv =
  ve_cron :: "string \<Rightarrow> bool"
  ve_absent :: "string \<Rightarrow> bool"
  ve_use_unsecure :: string
  ve_unmarshal_zot :: "string \<Rightarrow> zot_config result"

definition DefaultZotConfigJSON :: string where
  \<open>DefaultZotConfigJSON = join [CHR 0x0A]
     [''{'', ''  "distSpecVersion": "1.1.0",'', ''  "storage": {'', ''    "rootDirectory": "./zot"'',
      ''  },'', ''  "http": {'', ''    "address": "0.0.0.0",'', ''    "port": "8585"'', ''  },'',
      ''  "log": {'', ''    "level": "info"'', ''  }'', ''}'']\<close>

definition zot_GetRegistryURL :: "zot_config \<Rightarrow> string" where
  "zot_GetRegistryURL c =
     (let address = (if \<not> hasPrefix (zot_Address c) ''http://'' \<and> \<not> hasPrefix (zot_Address c) ''https://''
                     then ''http://'' @ zot_Address c else zot_Address c)
      in address @ '':'' @ zot_Port c)"

section \<open>Steps\<close>

definition validLogLevels :: "string list" where
  "validLogLevels = [''debug'', ''info'', ''warn'', ''error'', ''fatal'', ''panic'']"

definition validateAndEnforceLogLevel :: "config \<Rightarrow> config \<times> string list" where
  "validateAndEnforceLogLevel cfg =
     (let l = ac_LogLevel (cfg_AppConfig cfg) in
      if l = [] then (SetLogLevel ''info'' cfg, [])
      else if to_lower l \<notin> set validLogLevels then
        (SetLogLevel ''info'' cfg,
         [''invalid log_level '' @ [CHR 0x27] @ l @ [CHR 0x27] @
          '' provided. Valid options are: info, debug, panic, error, warn, fatal. Defaulting to '' @ [CHR 0x27] @ ''info'' @ [CHR 0x27, CHR ''.'']])
      else (cfg, []))"

definition validateBringOwnRegistry :: "config \<Rightarrow> (config \<times> string list) result" where
  "validateBringOwnRegistry cfg =
     (let creds = ac_LocalRegistryCredentials (cfg_AppConfig cfg) in
      if rc_URL creds = [] then Inl ''custom registry URL is required when BringOwnRegistry is enabled''
      else case url_ParseRequestURI (rc_URL creds) of
        Inl e \<Rightarrow> Inl (''invalid custom registry URL: '' @ e)
      | Inr _ \<Rightarrow>
        (let w1 = (if rc_Username creds = [] \<or> rc_Password creds = []
                   then [''username or password for custom registry is empty.''] else [])
         in if cfg_ZotConfigRaw cfg \<noteq> []
            then Inr (cfg\<lparr>cfg_ZotConfigRaw := []\<rparr>,
                      w1 @ [''redundant zot_config provided for bring_own_registry: `true`.''])
            else Inr (cfg, w1)))"

definition validateAndEnforceZotConfig :: "venv \<Rightarrow> config \<Rightarrow> bool \<Rightarrow> (config \<times> string list) result" where
  "validateAndEnforceZotConfig ev cfg bringOwnRegistry =
     (if bringOwnRegistry then Inr (cfg, [])
      else
        (let needsDefault = (cfg_ZotConfigRaw cfg = [] \<or> trim_space (cfg_ZotConfigRaw cfg) = ''{}'');
             w1 = (if needsDefault then [''empty zot_config provided. Defaulting to: '' @ DefaultZotConfigJSON] else []);
             c1 = (if needsDefault then cfg\<lparr>cfg_ZotConfigRaw := DefaultZotConfigJSON\<rparr> else cfg)
         in case ve_unmarshal_zot ev (cfg_ZotConfigRaw c1) of
              Inl e \<Rightarrow> Inl (''invalid zot_config: '' @ e)
            | Inr z1 \<Rightarrow>
              (let bad = (zot_Address z1 = [] \<or> zot_Port z1 = []);
                   w2 = (if bad then [''zot_config missing required http address/port. Applying defaults.''] else []);
                   c2 = (if bad then c1\<lparr>cfg_ZotConfigRaw := DefaultZotConfigJSON\<rparr> else c1)
               in case (if bad then ve_unmarshal_zot ev (cfg_ZotConfigRaw c2) else Inr z1) of
                    Inl e \<Rightarrow> Inl (''invalid default zot_config: '' @ e)
                  | Inr z2 \<Rightarrow>
                    (if rc_URL (ac_LocalRegistryCredentials (cfg_AppConfig c2)) = []
                     then Inr (SetLocalRegistryURL (zot_GetRegistryURL z2) c2,
                               w1 @ w2 @ [''remote registry URL is empty. Defaulting to value from zot_config '' @ DefaultRemoteRegistryURL])
                     else Inr (c2, w1 @ w2)))))"

definition cron_default :: "venv \<Rightarrow> string \<Rightarrow> string \<Rightarrow> string \<Rightarrow> string \<times> string list" where
  \<comment> \<open>the shared shape of the three checks of \<^verbatim>\<open>validateAndEnforceCronSchedules\<close>\<close>
  "cron_default ev field expr dflt =
     (if ve_cron ev expr then (expr, [])
      else (dflt, [''invalid schedule provided for '' @ field @ '', using default schedule '' @ dflt]))"

definition validateAndEnforceCronSchedules :: "venv \<Rightarrow> config \<Rightarrow> config \<times> string list" where
  "validateAndEnforceCronSchedules ev cfg =
     (let a = cfg_AppConfig cfg;
          (s, w1) = cron_default ev ''state_replication_interval'' (ac_StateReplicationInterval a) DefaultFetchAndReplicateCronExpr;
          (r, w2) = cron_default ev ''register_satellite_interval'' (ac_RegisterSatelliteInterval a) DefaultZTRCronExpr;
          (h, w3) = cron_default ev ''heartbeat_interval'' (ac_HeartbeatInterval a) DefaultHeartbeatCronExpr
      in (cfg\<lparr>cfg_AppConfig := a\<lparr>ac_StateReplicationInterval := s, ac_RegisterSatelliteInterval := r,
                                ac_HeartbeatInterval := h\<rparr>\<rparr>, w1 @ w2 @ w3))"

definition validateTLSConfig :: "venv \<Rightarrow> tls_config \<Rightarrow> string list \<times> unit result" where
  "validateTLSConfig ev t =
     (if tls_CertFile t = [] \<and> tls_KeyFile t = [] \<and> tls_CAFile t = [] then ([], Inr ())
      else if tls_CertFile t \<noteq> [] \<and> tls_KeyFile t = [] \<or> tls_CertFile t = [] \<and> tls_KeyFile t \<noteq> []
        then ([], Inl ''both cert_file and key_file must be provided together'')
      else if tls_CertFile t \<noteq> [] \<and> ve_absent ev (tls_CertFile t)
        then ([], Inl (''TLS cert_file not found: '' @ tls_CertFile t))
      else if tls_KeyFile t \<noteq> [] \<and> ve_absent ev (tls_KeyFile t)
        then ([], Inl (''TLS key_file not found: '' @ tls_KeyFile t))
      else if tls_CAFile t \<noteq> [] \<and> ve_absent ev (tls_CAFile t)
        then ([], Inl (''TLS ca_file not found: '' @ tls_CAFile t))
      else (if tls_SkipVerify t
            then [''TLS skip_verify is enabled, certificate verification will be skipped''] else [], Inr ()))"

definition validRuntimes :: "string list" where
  "validRuntimes = [''docker'', ''containerd'', ''crio'', ''podman'']"

definition validateRegistryFallbackConfig :: "config \<Rightarrow> config \<times> string list" where
  "validateRegistryFallbackConfig cfg =
     (let fb = ac_RegistryFallback (cfg_AppConfig cfg) in
      if \<not> fb_Enabled fb then (cfg, [])
      else
        (let dflt = (fb_Registries fb = []);
             fb1 = (if dflt then fb\<lparr>fb_Registries := [''docker.io'']\<rparr> else fb);
             w1 = (if dflt then [''registry_fallback is enabled but no registries specified, defaulting to docker.io''] else []);
             w2 = map (\<lambda>_. ''registry_fallback contains an empty registry entry'')
                    (filter (\<lambda>r. trim_space r = []) (fb_Registries fb1));
             w3 = map (\<lambda>rt. ''registry_fallback contains unknown runtime '' @ [CHR 0x22] @ rt @ [CHR 0x22] @ '', valid values: docker, containerd, crio, podman'')
                    (filter (\<lambda>rt. rt \<notin> set validRuntimes) (fb_Runtimes fb1))
         in (SetRegistryFallbackConfig fb1 cfg, w1 @ w2 @ w3)))"

section \<open>Audit settings\<close>

fun rotation_field :: "string \<Rightarrow> int \<Rightarrow> (int \<Rightarrow> bool) \<Rightarrow> int option \<Rightarrow> int option \<times> string list" where
  \<comment> \<open>the shared shape of the three cases of \<^verbatim>\<open>enforceAuditRotation\<close>\<close>
  "rotation_field msg dflt bad None = (Some dflt, [])"
| "rotation_field msg dflt bad (Some n) = (if bad n then (Some dflt, [msg]) else (Some n, []))"

definition enforceAuditRotation :: "syslog_audit_file \<Rightarrow> syslog_audit_file \<times> string list" where
  "enforceAuditRotation f =
     (let (m, w1) = rotation_field ''audit.syslog.file.max_size_mb must be > 0, defaulting to 100''
                      DefaultAuditMaxSizeMB (\<lambda>n. n \<le> 0) (saf_MaxSizeMB f);
          (b, w2) = rotation_field ''audit.syslog.file.max_backups must be >= 0, defaulting to 7''
                      DefaultAuditMaxBackups (\<lambda>n. n < 0) (saf_MaxBackups f);
          (a, w3) = rotation_field ''audit.syslog.file.max_age_days must be >= 0, defaulting to 30''
                      DefaultAuditMaxAgeDays (\<lambda>n. n < 0) (saf_MaxAgeDays f)
      in (f\<lparr>saf_MaxSizeMB := m, saf_MaxBackups := b, saf_MaxAgeDays := a\<rparr>, w1 @ w2 @ w3))"

definition enforceFileTarget :: "syslog_audit \<Rightarrow> syslog_audit \<times> string list" where
  "enforceFileTarget s =
     (let empty = (saf_Path (sl_File s) = []);
          w1 = (if empty then [''audit.syslog.file.path empty, defaulting to '' @ DefaultAuditFilePath] else []);
          f = (if empty then (sl_File s)\<lparr>saf_Path := DefaultAuditFilePath\<rparr> else sl_File s);
          (f', w2) = enforceAuditRotation f
      in (s\<lparr>sl_File := f'\<rparr>, w1 @ w2))"

definition enforceDaemonTarget :: "syslog_audit \<Rightarrow> syslog_audit \<times> string list" where
  "enforceDaemonTarget s =
     (if sl_SocketPath s = [] then (s\<lparr>sl_SocketPath := DefaultAuditSyslogSocket\<rparr>, []) else (s, []))"

definition validateNetworkTarget :: "syslog_audit \<Rightarrow> syslog_audit \<times> string list" where
  "validateNetworkTarget s =
     (let s1 = (if sl_Network s = [] then s\<lparr>sl_Network := ''udp''\<rparr> else s);
          w1 = (if sl_Network s = [] then [''audit.syslog.network empty, defaulting to udp''] else []);
          w2 = (if sl_Address s = []
                then [''audit.syslog.target=network but audit.syslog.address is empty; the audit logger will fail to start'']
                else [])
      in (s1, w1 @ w2))"

definition enforceInvalidTarget :: "syslog_audit \<Rightarrow> syslog_audit \<times> string list" where
  "enforceInvalidTarget s =
     (let w = [''audit.syslog.target '' @ [CHR 0x22] @ sl_Target s @ [CHR 0x22] @ '' is invalid (expected daemon|network|file), defaulting to '' @ DefaultAuditSyslogTarget];
          (s', w') = enforceFileTarget (s\<lparr>sl_Target := DefaultAuditSyslogTarget\<rparr>)
      in (s', w @ w'))"

definition enforceSyslogConfig :: "syslog_audit \<Rightarrow> syslog_audit \<times> string list" where
  "enforceSyslogConfig s0 =
     (let s1 = (if sl_Target s0 = [] then s0\<lparr>sl_Target := DefaultAuditSyslogTarget\<rparr> else s0);
          s = (if sl_Tag s1 = [] then s1\<lparr>sl_Tag := DefaultAuditSyslogTag\<rparr> else s1)
      in if sl_Target s = ''daemon'' then enforceDaemonTarget s
         else if sl_Target s = ''network'' then validateNetworkTarget s
         else if sl_Target s = ''file'' then enforceFileTarget s
         else enforceInvalidTarget s)"

definition validateOtelConfig :: "otel_audit \<Rightarrow> string list" where
  "validateOtelConfig o' = (if ot_Enabled o' \<and> ot_Endpoint o' = []
     then [''audit.otel.enabled but audit.otel.endpoint is empty; the audit logger will fail to start''] else [])"

definition validateAndEnforceAuditConfig :: "config \<Rightarrow> config \<times> string list" where
  "validateAndEnforceAuditConfig cfg =
     (let a = ac_Audit (cfg_AppConfig cfg) in
      if \<not> au_Enabled a then (cfg, [])
      else
        (let (s, w1) = (if EnabledOrDefault (au_Syslog a) then enforceSyslogConfig (au_Syslog a)
                        else (au_Syslog a, []));
             a1 = a\<lparr>au_Syslog := s\<rparr>;
             w2 = validateOtelConfig (au_Otel a1);
             w3 = (if \<not> EnabledOrDefault (au_Syslog a1) \<and> \<not> ot_Enabled (au_Otel a1)
                   then [''audit.enabled is true but no transport is enabled (audit.syslog.enabled=false and audit.otel.enabled=false); the audit logger will fail to start'']
                   else [])
         in (on_app (ac_Audit_update (\<lambda>_. a1)) cfg, w1 @ w2 @ w3)))"

section \<open>The whole validation\<close>

definition enforce_gc_url :: "string \<Rightarrow> config \<Rightarrow> config \<times> string list" where
  \<comment> \<open>the first block of \<^verbatim>\<open>ValidateAndEnforceDefaults\<close>: the environment wins over the file\<close>
  "enforce_gc_url dflt cfg =
     (let g = ac_GroundControlURL (cfg_AppConfig cfg) in
      if dflt = [] then (cfg, [])
      else (SetGroundControlURL dflt cfg,
            if g \<noteq> [] \<and> g \<noteq> dflt
            then [''ground_control_url from env/CLI ('' @ dflt @ '') takes precedence over config file ('' @ g @ '')'']
            else []))"

definition enforce_unsecure :: "venv \<Rightarrow> config \<Rightarrow> config" where
  "enforce_unsecure ev cfg =
     (if ve_use_unsecure ev \<noteq> []
      then SetUseUnsecure (to_lower (ve_use_unsecure ev) = ''true'' \<or> ve_use_unsecure ev = ''1'') cfg
      else cfg)"

definition ValidateAndEnforceDefaults ::
  "venv \<Rightarrow> config option \<Rightarrow> string \<Rightarrow> string list \<times> config result" where
  "ValidateAndEnforceDefaults ev config0 defaultGroundControlURL =
     (let cfg0 = (case config0 of None \<Rightarrow> zero_config | Some c \<Rightarrow> c);
          (c1, w1) = enforce_gc_url defaultGroundControlURL cfg0
      in case url_ParseRequestURI (ac_GroundControlURL (cfg_AppConfig c1)) of
           Inl e \<Rightarrow> ([], Inl (''invalid URL provided for ground_control_url: '' @ e))
         | Inr _ \<Rightarrow>
           (let (c2, w2) = validateAndEnforceLogLevel c1;
                c3 = enforce_unsecure ev c2;
                bor = ac_BringOwnRegistry (cfg_AppConfig c3)
            in case (if bor then validateBringOwnRegistry c3 else Inr (c3, [])) of
                 Inl e \<Rightarrow> (w1 @ w2, Inl e)
               | Inr (c4, w3) \<Rightarrow>
                 (case validateAndEnforceZotConfig ev c4 bor of
                    Inl e \<Rightarrow> (w1 @ w2 @ w3, Inl e)
                  | Inr (c5, w4) \<Rightarrow>
                    (let (c6, w5) = validateAndEnforceCronSchedules ev c5;
                         (w6, tlsRes) = validateTLSConfig ev (ac_TLS (cfg_AppConfig c6))
                     in case tlsRes of
                          Inl e \<Rightarrow> (w1 @ w2 @ w3 @ w4 @ w5 @ w6, Inl e)
                        | Inr _ \<Rightarrow>
                          (let (c7, w7) = validateRegistryFallbackConfig c6;
                               (c8, w8) = validateAndEnforceAuditConfig c7
                           in (w1 @ w2 @ w3 @ w4 @ w5 @ w6 @ w7 @ w8, Inr c8))))))"

section \<open>Enforcement steps as a contract\<close>

text \<open>
  Every step that repairs a field obeys the same contract: its result satisfies the step's
  requirement, and a configuration that satisfies it is left alone.
\<close>

locale enforcer =
  fixes step :: "'a \<Rightarrow> 'a \<times> string list"
    and holds :: "'a \<Rightarrow> bool"
  assumes enforces: "holds (fst (step x))"
    and keeps: "holds x \<Longrightarrow> fst (step x) = x"
begin

lemma settled: "fst (step (fst (step x))) = fst (step x)"
  by (rule keeps) (rule enforces)

lemma fixed_iff: "fst (step x) = x \<longleftrightarrow> holds x"
  using enforces[of x] keeps[of x] by auto

end

definition log_level_ok :: "config \<Rightarrow> bool" where
  "log_level_ok cfg = (to_lower (ac_LogLevel (cfg_AppConfig cfg)) \<in> set validLogLevels)"

definition schedules_ok :: "venv \<Rightarrow> config \<Rightarrow> bool" where
  "schedules_ok ev cfg = (let a = cfg_AppConfig cfg in
     (ve_cron ev (ac_StateReplicationInterval a) \<or> ac_StateReplicationInterval a = DefaultFetchAndReplicateCronExpr) \<and>
     (ve_cron ev (ac_RegisterSatelliteInterval a) \<or> ac_RegisterSatelliteInterval a = DefaultZTRCronExpr) \<and>
     (ve_cron ev (ac_HeartbeatInterval a) \<or> ac_HeartbeatInterval a = DefaultHeartbeatCronExpr))"

definition fallback_ok :: "config \<Rightarrow> bool" where
  "fallback_ok cfg = (let fb = ac_RegistryFallback (cfg_AppConfig cfg) in fb_Enabled fb \<longrightarrow> fb_Registries fb \<noteq> [])"

definition rotation_ok :: "syslog_audit_file \<Rightarrow> bool" where
  "rotation_ok f = ((\<exists>n. saf_MaxSizeMB f = Some n \<and> 0 < n) \<and> (\<exists>n. saf_MaxBackups f = Some n \<and> 0 \<le> n) \<and>
     (\<exists>n. saf_MaxAgeDays f = Some n \<and> 0 \<le> n))"

definition syslog_ok :: "syslog_audit \<Rightarrow> bool" where
  \<comment> \<open>a network target may lack its address: \<^verbatim>\<open>validateNetworkTarget\<close> warns that the audit logger will fail to start\<close>
  "syslog_ok s = (sl_Tag s \<noteq> [] \<and>
     (sl_Target s = ''daemon'' \<and> sl_SocketPath s \<noteq> [] \<or>
      sl_Target s = ''network'' \<and> sl_Network s \<noteq> [] \<or>
      sl_Target s = ''file'' \<and> saf_Path (sl_File s) \<noteq> [] \<and> rotation_ok (sl_File s)))"

definition audit_ok :: "config \<Rightarrow> bool" where
  "audit_ok cfg = (let a = ac_Audit (cfg_AppConfig cfg) in
     au_Enabled a \<and> EnabledOrDefault (au_Syslog a) \<longrightarrow> syslog_ok (au_Syslog a))"

interpretation log_level: enforcer validateAndEnforceLogLevel log_level_ok
  by unfold_locales
     (auto simp: validateAndEnforceLogLevel_def log_level_ok_def Let_def SetLogLevel_def validLogLevels_def
        to_lower_def to_lower_char_def)

interpretation schedules: enforcer "validateAndEnforceCronSchedules ev" "schedules_ok ev" for ev
  by unfold_locales
     (auto simp: validateAndEnforceCronSchedules_def schedules_ok_def cron_default_def Let_def)

interpretation fallback: enforcer validateRegistryFallbackConfig fallback_ok
  by unfold_locales
     (auto simp: validateRegistryFallbackConfig_def fallback_ok_def SetRegistryFallbackConfig_def Let_def)

interpretation rotation: enforcer enforceAuditRotation rotation_ok
proof
  fix f
  show "rotation_ok (fst (enforceAuditRotation f))"
    by (cases "saf_MaxSizeMB f"; cases "saf_MaxBackups f"; cases "saf_MaxAgeDays f")
       (auto simp: enforceAuditRotation_def rotation_ok_def config_consts)
  show "rotation_ok f \<Longrightarrow> fst (enforceAuditRotation f) = f"
    by (auto simp: enforceAuditRotation_def rotation_ok_def)
qed

lemma enforceFileTarget_ok:
  "saf_Path (sl_File (fst (enforceFileTarget s))) \<noteq> []"
  "rotation_ok (sl_File (fst (enforceFileTarget s)))"
  "sl_Target (fst (enforceFileTarget s)) = sl_Target s"
  "sl_Tag (fst (enforceFileTarget s)) = sl_Tag s"
  using rotation.enforces[of "if saf_Path (sl_File s) = [] then (sl_File s)\<lparr>saf_Path := DefaultAuditFilePath\<rparr> else sl_File s"]
  by (auto simp: enforceFileTarget_def enforceAuditRotation_def config_consts Let_def split: prod.splits if_splits)

lemma enforceFileTarget_keeps:
  "saf_Path (sl_File s) \<noteq> [] \<Longrightarrow> rotation_ok (sl_File s) \<Longrightarrow> fst (enforceFileTarget s) = s"
  using rotation.keeps[of "sl_File s"]
  by (auto simp: enforceFileTarget_def Let_def split: prod.splits)

lemma enforceInvalidTarget_fst:
  "fst (enforceInvalidTarget s) = fst (enforceFileTarget (s\<lparr>sl_Target := DefaultAuditSyslogTarget\<rparr>))"
  by (simp add: enforceInvalidTarget_def Let_def split: prod.splits)

lemma syslog_ok_file: "sl_Target s = ''file'' \<Longrightarrow> sl_Tag s \<noteq> [] \<Longrightarrow> syslog_ok (fst (enforceFileTarget s))"
  by (simp add: syslog_ok_def enforceFileTarget_ok)

lemma syslog_ok_other:
  "sl_Target s = ''daemon'' \<Longrightarrow> sl_Tag s \<noteq> [] \<Longrightarrow> syslog_ok (fst (enforceDaemonTarget s))"
  "sl_Target s = ''network'' \<Longrightarrow> sl_Tag s \<noteq> [] \<Longrightarrow> syslog_ok (fst (validateNetworkTarget s))"
  "sl_Tag s \<noteq> [] \<Longrightarrow> syslog_ok (fst (enforceInvalidTarget s))"
  by (simp_all add: syslog_ok_def enforceDaemonTarget_def validateNetworkTarget_def
      enforceInvalidTarget_fst enforceFileTarget_ok config_consts Let_def)

interpretation syslog: enforcer enforceSyslogConfig syslog_ok
proof
  fix s
  show "syslog_ok (fst (enforceSyslogConfig s))"
    unfolding enforceSyslogConfig_def Let_def
    by (simp add: syslog_ok_file syslog_ok_other config_consts)
  show "fst (enforceSyslogConfig s) = s" if "syslog_ok s"
    using that enforceFileTarget_keeps[of s]
    by (auto simp: enforceSyslogConfig_def syslog_ok_def enforceDaemonTarget_def
        validateNetworkTarget_def config_consts Let_def)
qed

interpretation audit: enforcer validateAndEnforceAuditConfig audit_ok
proof
  fix cfg
  have "EnabledOrDefault (fst (enforceSyslogConfig s)) = EnabledOrDefault s" for s
    by (simp add: enforceSyslogConfig_def enforceDaemonTarget_def validateNetworkTarget_def
        enforceInvalidTarget_fst enforceFileTarget_def EnabledOrDefault_def Let_def split: prod.splits)
  then show "audit_ok (fst (validateAndEnforceAuditConfig cfg))"
    using syslog.enforces
    by (auto simp: validateAndEnforceAuditConfig_def audit_ok_def Let_def split: prod.splits)
      (metis fst_conv)
  show "audit_ok cfg \<Longrightarrow> fst (validateAndEnforceAuditConfig cfg) = cfg"
    using syslog.keeps[of "au_Syslog (ac_Audit (cfg_AppConfig cfg))"]
    by (auto simp: validateAndEnforceAuditConfig_def audit_ok_def Let_def split: prod.splits if_splits)
qed

section \<open>The result of a validation\<close>

definition zot_raw_ok :: "venv \<Rightarrow> string \<Rightarrow> bool" where
  "zot_raw_ok ev raw = (raw = DefaultZotConfigJSON \<and> is_ok (ve_unmarshal_zot ev raw) \<or>
     raw \<noteq> [] \<and> trim_space raw \<noteq> ''{}'' \<and>
     (\<exists>z. ve_unmarshal_zot ev raw = Inr z \<and> zot_Address z \<noteq> [] \<and> zot_Port z \<noteq> []))"

definition registry_ok :: "venv \<Rightarrow> config \<Rightarrow> bool" where
  "registry_ok ev cfg = (let u = rc_URL (ac_LocalRegistryCredentials (cfg_AppConfig cfg)) in
     if ac_BringOwnRegistry (cfg_AppConfig cfg)
     then u \<noteq> [] \<and> is_ok (url_ParseRequestURI u) \<and> cfg_ZotConfigRaw cfg = []
     else u \<noteq> [] \<and> zot_raw_ok ev (cfg_ZotConfigRaw cfg))"

definition tls_ok :: "venv \<Rightarrow> tls_config \<Rightarrow> bool" where
  "tls_ok ev t = ((tls_CertFile t = [] \<longleftrightarrow> tls_KeyFile t = []) \<and>
     (\<forall>f \<in> {tls_CertFile t, tls_KeyFile t, tls_CAFile t}. f \<noteq> [] \<longrightarrow> \<not> ve_absent ev f))"

definition valid_config :: "venv \<Rightarrow> config \<Rightarrow> bool" where
  "valid_config ev cfg = (is_ok (url_ParseRequestURI (ac_GroundControlURL (cfg_AppConfig cfg))) \<and>
     log_level_ok cfg \<and> registry_ok ev cfg \<and> schedules_ok ev cfg \<and>
     tls_ok ev (ac_TLS (cfg_AppConfig cfg)) \<and> fallback_ok cfg \<and> audit_ok cfg)"

lemma validateTLSConfig_ok: "is_ok (snd (validateTLSConfig ev t)) \<longleftrightarrow> tls_ok ev t"
  by (cases "tls_CertFile t = []"; cases "tls_KeyFile t = []"; cases "tls_CAFile t = []")
     (simp_all add: validateTLSConfig_def tls_ok_def)

lemma default_zot_nonempty: "DefaultZotConfigJSON \<noteq> []" "trim_space DefaultZotConfigJSON \<noteq> ''{}''"
proof -
  have "CHR ''d'' \<in> set DefaultZotConfigJSON" by (simp add: DefaultZotConfigJSON_def)
  then have "CHR ''d'' \<in> set (trim_space DefaultZotConfigJSON)"
    unfolding trim_space_def by (rule trim_with_keeps) (simp add: is_space_def)
  then show "trim_space DefaultZotConfigJSON \<noteq> ''{}''" by auto
qed (simp add: DefaultZotConfigJSON_def)

lemma zot_GetRegistryURL_nonempty: "zot_GetRegistryURL z \<noteq> []"
  by (simp add: zot_GetRegistryURL_def Let_def)

abbreviation local_url :: "config \<Rightarrow> string" where
  "local_url cfg \<equiv> rc_URL (ac_LocalRegistryCredentials (cfg_AppConfig cfg))"

definition with_registry :: "string \<Rightarrow> string \<Rightarrow> config \<Rightarrow> config" where
  "with_registry u z cfg = (SetLocalRegistryURL u cfg)\<lparr>cfg_ZotConfigRaw := z\<rparr>"

lemma with_registry_sel [simp]:
  "local_url (with_registry u z cfg) = u" "cfg_ZotConfigRaw (with_registry u z cfg) = z"
  "cfg_StateConfig (with_registry u z cfg) = cfg_StateConfig cfg"
  by (simp_all add: with_registry_def SetLocalRegistryURL_def)

lemma with_registry_frame [simp]:
  "ac_GroundControlURL (cfg_AppConfig (with_registry u z cfg)) = ac_GroundControlURL (cfg_AppConfig cfg)"
  "ac_LogLevel (cfg_AppConfig (with_registry u z cfg)) = ac_LogLevel (cfg_AppConfig cfg)"
  "ac_UseUnsecure (cfg_AppConfig (with_registry u z cfg)) = ac_UseUnsecure (cfg_AppConfig cfg)"
  "ac_BringOwnRegistry (cfg_AppConfig (with_registry u z cfg)) = ac_BringOwnRegistry (cfg_AppConfig cfg)"
  by (simp_all add: with_registry_def SetLocalRegistryURL_def)

lemma with_registry_self: "with_registry (local_url cfg) (cfg_ZotConfigRaw cfg) cfg = cfg"
  by (simp add: with_registry_def SetLocalRegistryURL_def)

lemma bring_own_step:
  "validateBringOwnRegistry cfg = Inr (c, w) \<Longrightarrow>
   c = with_registry (local_url cfg) [] cfg \<and> local_url cfg \<noteq> [] \<and> is_ok (url_ParseRequestURI (local_url cfg))"
  by (auto simp: validateBringOwnRegistry_def with_registry_def SetLocalRegistryURL_def Let_def
      split: if_splits sum.splits)

lemma bring_own_keeps:
  "local_url cfg \<noteq> [] \<Longrightarrow> is_ok (url_ParseRequestURI (local_url cfg)) \<Longrightarrow> cfg_ZotConfigRaw cfg = [] \<Longrightarrow>
   \<exists>w. validateBringOwnRegistry cfg = Inr (cfg, w)"
  by (auto simp: validateBringOwnRegistry_def is_ok_iff Let_def)

lemma zot_step:
  assumes "validateAndEnforceZotConfig ev cfg False = Inr (c, w)"
  shows "\<exists>u z. c = with_registry u z cfg \<and> u \<noteq> [] \<and> zot_raw_ok ev z"
proof -
  define needs where "needs = (cfg_ZotConfigRaw cfg = [] \<or> trim_space (cfg_ZotConfigRaw cfg) = ''{}'')"
  define raw1 where "raw1 = (if needs then DefaultZotConfigJSON else cfg_ZotConfigRaw cfg)"
  obtain z1 where z1: "ve_unmarshal_zot ev raw1 = Inr z1"
    using assms by (auto simp: validateAndEnforceZotConfig_def raw1_def needs_def Let_def split: sum.splits if_splits)
  define bad where "bad = (zot_Address z1 = [] \<or> zot_Port z1 = [])"
  define raw2 where "raw2 = (if bad then DefaultZotConfigJSON else raw1)"
  have c1: "(if needs then cfg\<lparr>cfg_ZotConfigRaw := DefaultZotConfigJSON\<rparr> else cfg) = cfg\<lparr>cfg_ZotConfigRaw := raw1\<rparr>"
    by (simp add: raw1_def)
  have c2: "(if bad then cfg\<lparr>cfg_ZotConfigRaw := raw1\<rparr>\<lparr>cfg_ZotConfigRaw := DefaultZotConfigJSON\<rparr>
      else cfg\<lparr>cfg_ZotConfigRaw := raw1\<rparr>) = cfg\<lparr>cfg_ZotConfigRaw := raw2\<rparr>"
    by (simp add: raw2_def)
  have sel: "cfg_ZotConfigRaw (cfg\<lparr>cfg_ZotConfigRaw := r\<rparr>) = r"
    "cfg_AppConfig (cfg\<lparr>cfg_ZotConfigRaw := r\<rparr>) = cfg_AppConfig cfg" for r by simp_all
  have u2: "(if bad then ve_unmarshal_zot ev raw2 else Inr z1) = ve_unmarshal_zot ev raw2"
    by (simp add: raw2_def z1)
  have eq: "(case ve_unmarshal_zot ev raw2 of Inl e \<Rightarrow> Inl (''invalid default zot_config: '' @ e)
      | Inr z \<Rightarrow> if local_url cfg = []
          then Inr (SetLocalRegistryURL (zot_GetRegistryURL z) (cfg\<lparr>cfg_ZotConfigRaw := raw2\<rparr>), w1)
          else Inr (cfg\<lparr>cfg_ZotConfigRaw := raw2\<rparr>, w2)) = Inr (c, w) \<Longrightarrow>
    \<exists>z2. ve_unmarshal_zot ev raw2 = Inr z2 \<and> c = (if local_url cfg = [] then with_registry (zot_GetRegistryURL z2) raw2 cfg
                 else with_registry (local_url cfg) raw2 cfg)" for w1 w2
    by (auto simp: with_registry_def SetLocalRegistryURL_def split: sum.splits if_splits)
  obtain z2 where z2: "ve_unmarshal_zot ev raw2 = Inr z2"
    and c: "c = (if local_url cfg = [] then with_registry (zot_GetRegistryURL z2) raw2 cfg
                 else with_registry (local_url cfg) raw2 cfg)"
    using assms
    unfolding validateAndEnforceZotConfig_def Let_def if_False needs_def[symmetric] c1 sel z1 sum.case
      bad_def[symmetric] c2 u2
    by - (drule eq, blast)
  have "zot_raw_ok ev raw2"
    using z1 z2 by (auto simp: zot_raw_ok_def raw2_def raw1_def bad_def needs_def split: if_splits)
  with c show ?thesis
    using zot_GetRegistryURL_nonempty by (auto split: if_splits)
qed

lemma zot_keeps:
  "zot_raw_ok ev (cfg_ZotConfigRaw cfg) \<Longrightarrow> local_url cfg \<noteq> [] \<Longrightarrow>
   \<exists>w. validateAndEnforceZotConfig ev cfg False = Inr (cfg, w)"
  by (auto simp: validateAndEnforceZotConfig_def zot_raw_ok_def is_ok_iff Let_def default_zot_nonempty)

lemma registry_step:
  assumes "(if bor then validateBringOwnRegistry c else Inr (c, [])) = Inr (c', w')"
    and "validateAndEnforceZotConfig ev c' bor = Inr (c'', w'')" "bor = ac_BringOwnRegistry (cfg_AppConfig c)"
  shows "registry_ok ev c'' \<and> (\<exists>u z. c'' = with_registry u z c)"
proof (cases bor)
  case True
  with assms(2) have "c'' = c'" by (simp add: validateAndEnforceZotConfig_def)
  with assms True bring_own_step[of c c' w'] show ?thesis by (auto simp: registry_ok_def)
next
  case False
  with assms zot_step[of ev c c'' w''] show ?thesis by (auto simp: registry_ok_def)
qed

text \<open>What each step touches, as one update of the configuration.\<close>

lemma step_shapes:
  "\<exists>g. fst (enforce_gc_url d cfg) = on_app (ac_GroundControlURL_update (\<lambda>_. g)) cfg"
  "\<exists>l. fst (validateAndEnforceLogLevel cfg) = on_app (ac_LogLevel_update (\<lambda>_. l)) cfg"
  "\<exists>b. enforce_unsecure ev cfg = on_app (ac_UseUnsecure_update (\<lambda>_. b)) cfg"
  "\<exists>s r h. fst (validateAndEnforceCronSchedules ev cfg) = on_app (\<lambda>a. a\<lparr>ac_StateReplicationInterval := s,
      ac_RegisterSatelliteInterval := r, ac_HeartbeatInterval := h\<rparr>) cfg"
  "\<exists>fb. fst (validateRegistryFallbackConfig cfg) = on_app (ac_RegistryFallback_update (\<lambda>_. fb)) cfg"
  "\<exists>au. fst (validateAndEnforceAuditConfig cfg) = on_app (ac_Audit_update (\<lambda>_. au)) cfg"
proof -
  show "\<exists>g. fst (enforce_gc_url d cfg) = on_app (ac_GroundControlURL_update (\<lambda>_. g)) cfg"
    by (intro exI[of _ "if d = [] then ac_GroundControlURL (cfg_AppConfig cfg) else d"])
       (simp add: enforce_gc_url_def SetGroundControlURL_def Let_def)
  show "\<exists>l. fst (validateAndEnforceLogLevel cfg) = on_app (ac_LogLevel_update (\<lambda>_. l)) cfg"
    by (intro exI[of _ "if log_level_ok cfg \<and> ac_LogLevel (cfg_AppConfig cfg) \<noteq> [] then ac_LogLevel (cfg_AppConfig cfg) else ''info''"])
       (auto simp: validateAndEnforceLogLevel_def SetLogLevel_def log_level_ok_def Let_def)
  show "\<exists>b. enforce_unsecure ev cfg = on_app (ac_UseUnsecure_update (\<lambda>_. b)) cfg"
    by (intro exI[of _ "if ve_use_unsecure ev = [] then ac_UseUnsecure (cfg_AppConfig cfg)
          else to_lower (ve_use_unsecure ev) = ''true'' \<or> ve_use_unsecure ev = ''1''"])
       (simp add: enforce_unsecure_def SetUseUnsecure_def)
  show "\<exists>s r h. fst (validateAndEnforceCronSchedules ev cfg) = on_app (\<lambda>a. a\<lparr>ac_StateReplicationInterval := s,
      ac_RegisterSatelliteInterval := r, ac_HeartbeatInterval := h\<rparr>) cfg"
    by (simp add: validateAndEnforceCronSchedules_def Let_def split: prod.splits) blast
  show "\<exists>fb. fst (validateRegistryFallbackConfig cfg) = on_app (ac_RegistryFallback_update (\<lambda>_. fb)) cfg"
    by (intro exI[of _ "ac_RegistryFallback (cfg_AppConfig (fst (validateRegistryFallbackConfig cfg)))"])
       (simp add: validateRegistryFallbackConfig_def SetRegistryFallbackConfig_def Let_def)
  show "\<exists>au. fst (validateAndEnforceAuditConfig cfg) = on_app (ac_Audit_update (\<lambda>_. au)) cfg"
    by (intro exI[of _ "ac_Audit (cfg_AppConfig (fst (validateAndEnforceAuditConfig cfg)))"])
       (simp add: validateAndEnforceAuditConfig_def Let_def split: prod.splits)
qed

lemma validation_chain:
  assumes "ValidateAndEnforceDefaults ev (Some cfg) d = (ws, Inr c8)"
  obtains c2 c5 c6 w where
    "is_ok (url_ParseRequestURI (ac_GroundControlURL (cfg_AppConfig (fst (enforce_gc_url d cfg)))))"
    "c2 = enforce_unsecure ev (fst (validateAndEnforceLogLevel (fst (enforce_gc_url d cfg))))"
    "registry_ok ev c5" "\<exists>u z. c5 = with_registry u z c2"
    "c6 = fst (validateAndEnforceCronSchedules ev c5)"
    "tls_ok ev (ac_TLS (cfg_AppConfig c6))"
    "c8 = fst (validateAndEnforceAuditConfig (fst (validateRegistryFallbackConfig c6)))"
proof -
  obtain c1 w1 c2' w2 where a: "enforce_gc_url d cfg = (c1, w1)" "validateAndEnforceLogLevel c1 = (c2', w2)"
    by (metis surj_pair)
  let ?c3 = "enforce_unsecure ev c2'"
  obtain c4 w3 c5 w4 where b: "is_ok (url_ParseRequestURI (ac_GroundControlURL (cfg_AppConfig c1)))"
    "(if ac_BringOwnRegistry (cfg_AppConfig ?c3) then validateBringOwnRegistry ?c3 else Inr (?c3, [])) = Inr (c4, w3)"
    "validateAndEnforceZotConfig ev c4 (ac_BringOwnRegistry (cfg_AppConfig ?c3)) = Inr (c5, w4)"
    using assms by (auto simp: ValidateAndEnforceDefaults_def a Let_def split: sum.splits prod.splits)
  obtain c6 w5 where c: "validateAndEnforceCronSchedules ev c5 = (c6, w5)" by fastforce
  obtain w6 where t: "validateTLSConfig ev (ac_TLS (cfg_AppConfig c6)) = (w6, Inr ())"
    using assms b by (auto simp: ValidateAndEnforceDefaults_def a c Let_def split: sum.splits prod.splits)
  have "c8 = fst (validateAndEnforceAuditConfig (fst (validateRegistryFallbackConfig c6)))"
    using assms b by (auto simp: ValidateAndEnforceDefaults_def a c t Let_def split: sum.splits prod.splits)
  moreover have "tls_ok ev (ac_TLS (cfg_AppConfig c6))"
    using t validateTLSConfig_ok[of ev "ac_TLS (cfg_AppConfig c6)"] by simp
  ultimately show thesis
    using that[of ?c3 c5 c6] registry_step[OF b(2,3) refl] a b(1) c by simp
qed

lemma validation_ok:
  assumes "ValidateAndEnforceDefaults ev (Some cfg) d = (ws, Inr c8)"
  shows "valid_config ev c8"
proof (rule validation_chain[OF assms])
  fix c2 c5 c6
  let ?c1 = "fst (enforce_gc_url d cfg)"
  define L where "L = fst (validateAndEnforceLogLevel ?c1)"
  define F where "F = fst (validateRegistryFallbackConfig c6)"
  assume "is_ok (url_ParseRequestURI (ac_GroundControlURL (cfg_AppConfig ?c1)))"
    "c2 = enforce_unsecure ev (fst (validateAndEnforceLogLevel ?c1))" "registry_ok ev c5" "\<exists>u z. c5 = with_registry u z c2"
    "c6 = fst (validateAndEnforceCronSchedules ev c5)" "tls_ok ev (ac_TLS (cfg_AppConfig c6))"
    "c8 = fst (validateAndEnforceAuditConfig (fst (validateRegistryFallbackConfig c6)))"
  then have chain: "is_ok (url_ParseRequestURI (ac_GroundControlURL (cfg_AppConfig ?c1)))"
    "c2 = enforce_unsecure ev L" "registry_ok ev c5" "\<exists>u z. c5 = with_registry u z c2"
    "c6 = fst (validateAndEnforceCronSchedules ev c5)" "tls_ok ev (ac_TLS (cfg_AppConfig c6))"
    "c8 = fst (validateAndEnforceAuditConfig F)"
    by (simp_all add: L_def F_def)
  obtain l where l: "L = on_app (ac_LogLevel_update (\<lambda>_. l)) ?c1" unfolding L_def using step_shapes(2) by blast
  obtain b where b: "c2 = on_app (ac_UseUnsecure_update (\<lambda>_. b)) L" using step_shapes(3) chain(2) by blast
  obtain u z where u: "c5 = with_registry u z c2" using chain(4) by blast
  obtain s r h where c: "c6 = on_app (\<lambda>a. a\<lparr>ac_StateReplicationInterval := s,
      ac_RegisterSatelliteInterval := r, ac_HeartbeatInterval := h\<rparr>) c5" using step_shapes(4) chain(5) by blast
  obtain fb where f: "F = on_app (ac_RegistryFallback_update (\<lambda>_. fb)) c6" unfolding F_def using step_shapes(5) by blast
  obtain au where a: "c8 = on_app (ac_Audit_update (\<lambda>_. au)) F" using step_shapes(6) chain(7) by blast
  have "log_level_ok L" unfolding L_def by (rule log_level.enforces)
  then have "log_level_ok c8" by (simp add: a f c u b log_level_ok_def)
  moreover have "is_ok (url_ParseRequestURI (ac_GroundControlURL (cfg_AppConfig c8)))"
    using chain(1) by (simp add: a f c u b l)
  moreover have "registry_ok ev c8" using chain(3) by (simp add: a f c registry_ok_def Let_def)
  moreover have "schedules_ok ev c6" unfolding chain(5) by (rule schedules.enforces)
  then have "schedules_ok ev c8" by (simp add: a f schedules_ok_def Let_def)
  moreover have "tls_ok ev (ac_TLS (cfg_AppConfig c8))" using chain(6) by (simp add: a f)
  moreover have "fallback_ok F" unfolding F_def by (rule fallback.enforces)
  then have "fallback_ok c8" by (simp add: a fallback_ok_def)
  moreover have "audit_ok c8" unfolding chain(7) by (rule audit.enforces)
  ultimately show ?thesis by (simp add: valid_config_def)
qed

lemma validation_keeps:
  assumes "valid_config ev cfg" "d = [] \<or> ac_GroundControlURL (cfg_AppConfig cfg) = d" "enforce_unsecure ev cfg = cfg"
  shows "\<exists>ws. ValidateAndEnforceDefaults ev (Some cfg) d = (ws, Inr cfg)"
proof -
  have k: "fst (enforce_gc_url d cfg) = cfg"
    using assms(2) by (auto simp: enforce_gc_url_def SetGroundControlURL_def Let_def)
  have ok: "log_level_ok cfg" "registry_ok ev cfg" "schedules_ok ev cfg" "fallback_ok cfg" "audit_ok cfg"
    "tls_ok ev (ac_TLS (cfg_AppConfig cfg))"
    using assms(1) by (simp_all add: valid_config_def)
  note steps = k log_level.keeps[OF ok(1)] schedules.keeps[OF ok(3)] fallback.keeps[OF ok(4)] audit.keeps[OF ok(5)]
  obtain w1 w2 w5 w7 w8 where e: "enforce_gc_url d cfg = (cfg, w1)" "validateAndEnforceLogLevel cfg = (cfg, w2)"
    "validateAndEnforceCronSchedules ev cfg = (cfg, w5)" "validateRegistryFallbackConfig cfg = (cfg, w7)"
    "validateAndEnforceAuditConfig cfg = (cfg, w8)"
    using steps by (metis eq_fst_iff)
  let ?bor = "ac_BringOwnRegistry (cfg_AppConfig cfg)"
  obtain w3 w4 where r: "(if ?bor then validateBringOwnRegistry cfg else Inr (cfg, [])) = Inr (cfg, w3)"
    "validateAndEnforceZotConfig ev cfg ?bor = Inr (cfg, w4)"
  proof (cases ?bor)
    case True
    with ok(2) bring_own_keeps[of cfg] that show thesis
      by (auto simp: registry_ok_def validateAndEnforceZotConfig_def Let_def)
  next
    case False
    with ok(2) zot_keeps[of ev cfg] that show thesis by (auto simp: registry_ok_def Let_def)
  qed
  obtain w6 where t: "validateTLSConfig ev (ac_TLS (cfg_AppConfig cfg)) = (w6, Inr ())"
    using validateTLSConfig_ok[of ev "ac_TLS (cfg_AppConfig cfg)"] ok(6)
    by (cases "validateTLSConfig ev (ac_TLS (cfg_AppConfig cfg))") (auto simp: is_ok_iff)
  obtain gc where "url_ParseRequestURI (ac_GroundControlURL (cfg_AppConfig cfg)) = Inr gc"
    using assms(1) by (auto simp: valid_config_def is_ok_iff)
  then show ?thesis
    unfolding ValidateAndEnforceDefaults_def Let_def option.case e prod.case assms(3) r sum.case
    by (simp add: Let_def e t r(2))
qed

text \<open>
  C24. A configuration that passes validation is well formed: its ground control URL parses, its
  log level is one of the six known ones, the registry settings fit the bring-your-own-registry
  flag (a parsable URL and no zot configuration, or a URL and a usable zot configuration), every
  schedule is accepted by the cron parser or is the default, certificate and key come together
  and exist, and an enabled fallback names a registry. Enabled audit logging has a tag and one of the three
  known targets, with the socket of the local daemon, the network protocol of a remote one, or the path
  and rotation bounds of a file; the address of a remote daemon may be missing, which validation only warns of. Validating
  the result again changes nothing.
\<close>

theorem ValidateAndEnforceDefaults_settles:
  assumes "ValidateAndEnforceDefaults ev (Some cfg) d = (ws, Inr cfg')"
  shows "valid_config ev cfg' \<and> (\<exists>ws'. ValidateAndEnforceDefaults ev (Some cfg') d = (ws', Inr cfg'))"
proof -
  have "(d = [] \<or> ac_GroundControlURL (cfg_AppConfig cfg') = d) \<and> enforce_unsecure ev cfg' = cfg'"
  proof (rule validation_chain[OF assms])
    fix c2 c5 c6
    let ?c1 = "fst (enforce_gc_url d cfg)"
    assume "c2 = enforce_unsecure ev (fst (validateAndEnforceLogLevel ?c1))" "\<exists>u z. c5 = with_registry u z c2"
      "c6 = fst (validateAndEnforceCronSchedules ev c5)"
      "cfg' = fst (validateAndEnforceAuditConfig (fst (validateRegistryFallbackConfig c6)))"
    then have "ac_UseUnsecure (cfg_AppConfig cfg') = ac_UseUnsecure (cfg_AppConfig c2)"
      "ac_GroundControlURL (cfg_AppConfig cfg') = ac_GroundControlURL (cfg_AppConfig ?c1)"
      "ve_use_unsecure ev \<noteq> [] \<Longrightarrow> ac_UseUnsecure (cfg_AppConfig c2) =
         (to_lower (ve_use_unsecure ev) = ''true'' \<or> ve_use_unsecure ev = ''1'')"
      using step_shapes(6)[of "fst (validateRegistryFallbackConfig c6)"] step_shapes(5)[of c6]
        step_shapes(4)[of ev c5] step_shapes(3)[of ev] step_shapes(2)[of ?c1]
      by (auto simp: enforce_unsecure_def SetUseUnsecure_def)
    then show ?thesis
      by (auto simp: enforce_unsecure_def SetUseUnsecure_def enforce_gc_url_def SetGroundControlURL_def Let_def)
  qed
  then show ?thesis using validation_ok[OF assms] validation_keeps[OF validation_ok[OF assms], of d] by simp
qed

definition sample_env :: venv where
  \<comment> \<open>an environment in which only interval schedules parse and no file is missing\<close>
  "sample_env = \<lparr>ve_cron = (\<lambda>e. hasPrefix e ''@every ''), ve_absent = (\<lambda>_. False), ve_use_unsecure = ''1'',
     ve_unmarshal_zot = (\<lambda>_. Inr \<lparr>zot_Address = ''0.0.0.0'', zot_Port = ''8585''\<rparr>)\<rparr>"

lemma sample_validation: "is_ok (snd (ValidateAndEnforceDefaults sample_env (Some zero_config) ''http://gc:80/''))"
  by code_simp

theorem ValidateAndEnforceDefaults_settles_witness:
  "\<exists>ws cfg'. ValidateAndEnforceDefaults sample_env (Some zero_config) ''http://gc:80/'' = (ws, Inr cfg') \<and>
     valid_config sample_env cfg' \<and>
     (\<exists>ws'. ValidateAndEnforceDefaults sample_env (Some cfg') ''http://gc:80/'' = (ws', Inr cfg'))"
proof -
  obtain ws cfg' where "ValidateAndEnforceDefaults sample_env (Some zero_config) ''http://gc:80/'' = (ws, Inr cfg')"
    using sample_validation by (metis is_ok_iff prod.collapse)
  with ValidateAndEnforceDefaults_settles[OF this] show ?thesis by blast
qed

end
