(* ===== verification/Config_Manager.thy ===== *)
theory Config_Manager
  imports Config_Validate
begin

text \<open>
  \<^verbatim>\<open>pkg/config/manager.go\<close>, \<^verbatim>\<open>internal/satellite/secure/config.go\<close> and the symmetric half of
  \<^verbatim>\<open>internal/crypto/aes_provider.go\<close>: writing the configuration to disk (in clear or encrypted
  under a key derived from the device), reading it back, initialisation, reloading and the
  detection of changes.

  Parameters: the cryptographic primitives (\<open>aes_prims\<close>), the bytes a read of the random source
  returns, the fingerprint of the device, the JSON encoder and decoder for the two structs
  (\<open>codec\<close>) and the outcome of a write to a file. A path denotes its file: the lexical cleaning
  of paths before a read is the identity.
\<close>

section \<open>AES provider\<close>

record aes_prims =
  pr_sha256 :: "string \<Rightarrow> string"
  pr_seal :: "string \<Rightarrow> string \<Rightarrow> string \<Rightarrow> string"
    \<comment> \<open>key, nonce, plain text\<close>
  pr_open :: "string \<Rightarrow> string \<Rightarrow> string \<Rightarrow> string option"
    \<comment> \<open>key, nonce, cipher text with tag\<close>
  pr_argon2 :: "string \<Rightarrow> string \<Rightarrow> int \<Rightarrow> string"

definition aesKeySize :: nat where "aesKeySize = 32"
definition nonceSize :: nat where "nonceSize = 12"

definition ensureKeySize :: "aes_prims \<Rightarrow> string \<Rightarrow> string" where
  "ensureKeySize P key = (if length key = aesKeySize then key else pr_sha256 P key)"

definition aes_NewCipher :: "string \<Rightarrow> unit result" where
  \<comment> \<open>\<^verbatim>\<open>aes.NewCipher\<close> accepts the three AES key lengths\<close>
  "aes_NewCipher key = (if length key \<in> {16, 24, 32} then Inr () else Inl ''crypto/aes: invalid key size'')"

definition Encrypt :: "aes_prims \<Rightarrow> string result \<Rightarrow> string \<Rightarrow> string \<Rightarrow> string result" where
  "Encrypt P nonceRead plaintext key =
     (if key = [] then Inl ''invalid key''
      else let derivedKey = ensureKeySize P key in
        case aes_NewCipher derivedKey of
          Inl e \<Rightarrow> Inl (''create cipher: '' @ e)
        | Inr _ \<Rightarrow>
          (case nonceRead of
             Inl e \<Rightarrow> Inl (''generate nonce: '' @ e)
           | Inr nonce \<Rightarrow> Inr (nonce @ pr_seal P derivedKey nonce plaintext)))"

definition Decrypt :: "aes_prims \<Rightarrow> string \<Rightarrow> string \<Rightarrow> string result" where
  "Decrypt P ciphertext key =
     (if key = [] then Inl ''invalid key''
      else if length ciphertext < nonceSize then Inl ''decryption failed''
      else let derivedKey = ensureKeySize P key in
        case aes_NewCipher derivedKey of
          Inl e \<Rightarrow> Inl (''create cipher: '' @ e)
        | Inr _ \<Rightarrow>
          (case pr_open P derivedKey (take nonceSize ciphertext) (drop nonceSize ciphertext) of
             None \<Rightarrow> Inl ''decryption failed''
           | Some plaintext \<Rightarrow> Inr plaintext))"

definition DeriveKey :: "aes_prims \<Rightarrow> string \<Rightarrow> string \<Rightarrow> int \<Rightarrow> string result" where
  "DeriveKey P input salt keyLen =
     (if input = [] then Inl ''invalid input''
      else if keyLen \<le> 0 then Inl ''invalid key length''
      else Inr (pr_argon2 P input salt keyLen))"

section \<open>Encrypted configuration files\<close>

record encrypted_config =
  ec_Version :: int
  ec_Salt :: string
  ec_Encrypted :: string

record codec =
  js_marshal :: "config \<Rightarrow> string result"
  js_marshal_indent :: "config \<Rightarrow> string result"
  js_unmarshal :: "string \<Rightarrow> config result"
  js_marshal_enc :: "encrypted_config \<Rightarrow> string result"
  js_unmarshal_enc :: "string \<Rightarrow> encrypted_config result"

record sec_env =
  se_aes :: aes_prims
  se_json :: codec
  se_fingerprint :: "string result"
  se_random :: "nat \<Rightarrow> string result"
    \<comment> \<open>what a read of that many random bytes gives\<close>

definition saltSize :: nat where "saltSize = 16"
definition keySize :: int where "keySize = 32"

definition deriveKeyWithSalt :: "sec_env \<Rightarrow> string \<Rightarrow> string result" where
  "deriveKeyWithSalt E salt =
     (case se_fingerprint E of
        Inl _ \<Rightarrow> Inl ''key derivation failed''
      | Inr fingerprint \<Rightarrow>
        (case DeriveKey (se_aes E) fingerprint salt keySize of
           Inl _ \<Rightarrow> Inl ''key derivation failed''
         | Inr key \<Rightarrow> Inr key))"

definition deriveKey :: "sec_env \<Rightarrow> (string \<times> string) result" where
  "deriveKey E =
     (case se_random E saltSize of
        Inl _ \<Rightarrow> Inl ''key derivation failed''
      | Inr salt \<Rightarrow>
        (case deriveKeyWithSalt E salt of
           Inl e \<Rightarrow> Inl e
         | Inr key \<Rightarrow> Inr (key, salt)))"

definition EncryptBytes :: "sec_env \<Rightarrow> string \<Rightarrow> string result" where
  "EncryptBytes E plaintext =
     (case deriveKey E of
        Inl e \<Rightarrow> Inl e
      | Inr (key, salt) \<Rightarrow>
        (case Encrypt (se_aes E) (se_random E nonceSize) plaintext key of
           Inl _ \<Rightarrow> Inl ''encryption failed''
         | Inr encrypted \<Rightarrow>
             js_marshal_enc (se_json E) \<lparr>ec_Version = 1, ec_Salt = salt, ec_Encrypted = encrypted\<rparr>))"

definition EncryptConfig :: "sec_env \<Rightarrow> config \<Rightarrow> string result" where
  "EncryptConfig E cfg =
     (case js_marshal (se_json E) cfg of
        Inl _ \<Rightarrow> Inl ''invalid config''
      | Inr plaintext \<Rightarrow> EncryptBytes E plaintext)"

definition DecryptBytes :: "sec_env \<Rightarrow> string \<Rightarrow> string result" where
  "DecryptBytes E data =
     (case js_unmarshal_enc (se_json E) data of
        Inl _ \<Rightarrow> Inl ''config file corrupted''
      | Inr encConfig \<Rightarrow>
        (case deriveKeyWithSalt E (ec_Salt encConfig) of
           Inl e \<Rightarrow> Inl e
         | Inr key \<Rightarrow>
           (case Decrypt (se_aes E) (ec_Encrypted encConfig) key of
              Inl _ \<Rightarrow> Inl ''decryption failed''
            | Inr plaintext \<Rightarrow> Inr plaintext)))"

definition DecryptConfig :: "sec_env \<Rightarrow> string \<Rightarrow> config result" where
  "DecryptConfig E data =
     (case DecryptBytes E data of
        Inl e \<Rightarrow> Inl e
      | Inr plaintext \<Rightarrow>
        (case js_unmarshal (se_json E) plaintext of
           Inl _ \<Rightarrow> Inl ''config file corrupted''
         | Inr cfg \<Rightarrow> Inr cfg))"

definition ReEncrypt :: "sec_env \<Rightarrow> string \<Rightarrow> string result" where
  "ReEncrypt E data =
     (case DecryptBytes E data of Inl e \<Rightarrow> Inl e | Inr plaintext \<Rightarrow> EncryptBytes E plaintext)"

definition IsEncrypted :: "sec_env \<Rightarrow> string \<Rightarrow> bool" where
  "IsEncrypted E data =
     (case js_unmarshal_enc (se_json E) data of
        Inl _ \<Rightarrow> False
      | Inr encConfig \<Rightarrow> 0 < ec_Version encConfig \<and> 0 < length (ec_Encrypted encConfig))"

section \<open>Files\<close>

type_synonym files = "string \<Rightarrow> string on_disk"

datatype write_outcome =
    Written
  | WriteFailed string "string on_disk"
    \<comment> \<open>the error and what the file holds afterwards\<close>

fun os_WriteFile :: "write_outcome \<Rightarrow> files \<Rightarrow> string \<Rightarrow> string \<Rightarrow> files \<times> unit result" where
  "os_WriteFile Written fs path data = (fs(path := Holds data), Inr ())"
| "os_WriteFile (WriteFailed e rest) fs path data = (fs(path := rest), Inl e)"

definition EncryptToFile :: "sec_env \<Rightarrow> write_outcome \<Rightarrow> files \<Rightarrow> string \<Rightarrow> config \<Rightarrow> files \<times> unit result" where
  "EncryptToFile E wo fs path cfg =
     (case EncryptConfig E cfg of
        Inl e \<Rightarrow> (fs, Inl e)
      | Inr data \<Rightarrow> os_WriteFile wo fs path data)"

definition DecryptFromFile :: "sec_env \<Rightarrow> files \<Rightarrow> string \<Rightarrow> config result" where
  "DecryptFromFile E fs path =
     (case fs path of
        Missing \<Rightarrow> Inl ''config file not found''
      | Holds data \<Rightarrow> DecryptConfig E data
      | _ \<Rightarrow> Inl ''read error'')"

section \<open>The manager\<close>

definition writeConfigUnlocked ::
  "sec_env \<Rightarrow> write_outcome \<Rightarrow> config_manager \<Rightarrow> config \<Rightarrow> string \<Rightarrow> files \<Rightarrow> files \<times> unit result" where
  "writeConfigUnlocked E wo cm cfg path fs =
     (case (if cm_encryptEnabled cm
            then (case EncryptConfig E cfg of Inl e \<Rightarrow> Inl (''encrypt config: '' @ e) | Inr d \<Rightarrow> Inr d)
            else js_marshal_indent (se_json E) cfg) of
        Inl e \<Rightarrow> (fs, Inl e)
      | Inr data \<Rightarrow> os_WriteFile wo fs path data)"

definition WriteConfig :: "sec_env \<Rightarrow> write_outcome \<Rightarrow> config_manager \<Rightarrow> files \<Rightarrow> files \<times> unit result" where
  "WriteConfig E wo cm fs = writeConfigUnlocked E wo cm (cm_config cm) (cm_configPath cm) fs"

definition WriteConfigToDisk ::
  "sec_env \<Rightarrow> write_outcome \<Rightarrow> config_manager \<Rightarrow> config \<Rightarrow> files \<Rightarrow> files \<times> unit result" where
  "WriteConfigToDisk E wo cm cfg fs = writeConfigUnlocked E wo cm cfg (cm_configPath cm) fs"

definition WritePrevConfigToDisk ::
  "sec_env \<Rightarrow> write_outcome \<Rightarrow> config_manager \<Rightarrow> config \<Rightarrow> files \<Rightarrow> files \<times> unit result" where
  "WritePrevConfigToDisk E wo cm cfg fs = writeConfigUnlocked E wo cm cfg (cm_prevConfigPath cm) fs"

datatype read_error = ErrNotExist | ReadErr string

definition readAndReturnConfig :: "sec_env \<Rightarrow> files \<Rightarrow> string \<Rightarrow> read_error + config" where
  "readAndReturnConfig E fs path =
     (case fs path of
        Missing \<Rightarrow> Inl ErrNotExist
      | Unreadable \<Rightarrow> Inl (ReadErr ''read error'')
      | Corrupt \<Rightarrow> Inl (ReadErr ''read error'')
      | Holds data \<Rightarrow>
        (let trimmed = trim_space data in
         if trimmed = [] \<or> trimmed = ''{}'' then Inl ErrNotExist
         else if IsEncrypted E data then
           (case DecryptConfig E data of
              Inl e \<Rightarrow> Inl (ReadErr (''decrypt config: '' @ e))
            | Inr cfg \<Rightarrow> Inr cfg)
         else
           (case js_unmarshal (se_json E) data of
              Inl e \<Rightarrow> Inl (ReadErr e)
            | Inr cfg \<Rightarrow> Inr cfg)))"

datatype change_value = CvString string | CvAudit audit_config

datatype change_type = LogLevelChanged | IntervalsChanged | ZotConfigChanged | AuditConfigChanged

record config_change =
  ch_Type :: change_type
  ch_OldValue :: change_value
  ch_NewValue :: change_value

definition detectChanges :: "config \<Rightarrow> config \<Rightarrow> config_change list" where
  "detectChanges oldConfig newConfig =
     (let old = cfg_AppConfig oldConfig; new = cfg_AppConfig newConfig in
      (if ac_LogLevel old \<noteq> ac_LogLevel new
       then [\<lparr>ch_Type = LogLevelChanged, ch_OldValue = CvString (ac_LogLevel old),
              ch_NewValue = CvString (ac_LogLevel new)\<rparr>] else []) @
      (if ac_StateReplicationInterval old \<noteq> ac_StateReplicationInterval new
       then [\<lparr>ch_Type = IntervalsChanged, ch_OldValue = CvString (ac_StateReplicationInterval old),
              ch_NewValue = CvString (ac_StateReplicationInterval new)\<rparr>] else []) @
      (if cfg_ZotConfigRaw oldConfig \<noteq> cfg_ZotConfigRaw newConfig
       then [\<lparr>ch_Type = ZotConfigChanged, ch_OldValue = CvString ''zot_config_changed'',
              ch_NewValue = CvString ''zot_config_changed''\<rparr>] else []) @
      (if \<not> audit_Equal (ac_Audit old) (ac_Audit new)
       then [\<lparr>ch_Type = AuditConfigChanged, ch_OldValue = CvAudit (ac_Audit old),
              ch_NewValue = CvAudit (ac_Audit new)\<rparr>] else []))"

fun read_error_text :: "read_error \<Rightarrow> string" where
  "read_error_text ErrNotExist = ''file does not exist''"
| "read_error_text (ReadErr e) = e"

definition ReloadConfig ::
  "sec_env \<Rightarrow> venv \<Rightarrow> files \<Rightarrow> config_manager \<Rightarrow> config_manager \<times> string list \<times> config_change list result" where
  "ReloadConfig E ev fs cm =
     (case readAndReturnConfig E fs (cm_configPath cm) of
        Inl e \<Rightarrow> (cm, [], Inl (''failed to read config from disk: '' @ read_error_text e))
      | Inr newConfig \<Rightarrow>
        (case ValidateAndEnforceDefaults ev (Some newConfig) (cm_DefaultGroundControlURL cm) of
           (warnings, Inl e) \<Rightarrow> (cm, warnings, Inl (''failed to validate reloaded config: '' @ e))
         | (warnings, Inr validatedConfig) \<Rightarrow>
             (cm\<lparr>cm_config := validatedConfig\<rparr>, warnings,
              Inr (detectChanges (cm_config cm) validatedConfig))))"

definition NewConfigManager ::
  "string \<Rightarrow> string \<Rightarrow> string \<Rightarrow> string \<Rightarrow> bool \<Rightarrow> config \<Rightarrow> config_manager" where
  "NewConfigManager configPath prevConfigPath token defaultGroundControlURL jsonLog cfg =
     \<lparr>cm_config = cfg, cm_Token = token, cm_DefaultGroundControlURL = defaultGroundControlURL,
      cm_JsonLog = jsonLog, cm_configPath = configPath, cm_prevConfigPath = prevConfigPath,
      cm_encryptEnabled = ac_EncryptConfig (cfg_AppConfig cfg)\<rparr>"

definition InitConfigManager ::
  "sec_env \<Rightarrow> venv \<Rightarrow> files \<Rightarrow> string \<Rightarrow> string \<Rightarrow> string \<Rightarrow> string \<Rightarrow> bool \<Rightarrow> bool \<Rightarrow>
   string list \<times> config_manager result" where
  "InitConfigManager E ev fs token groundControlURL configPath prevConfigPath jsonLogging useUnsecure =
     (case url_ParseRequestURI groundControlURL of
        Inl e \<Rightarrow> ([], Inl (''invalid URL provided for ground_control_url env var: '' @ e))
      | Inr _ \<Rightarrow>
        (case (case readAndReturnConfig E fs configPath of
                 Inl ErrNotExist \<Rightarrow> Inr zero_config
               | Inl (ReadErr e) \<Rightarrow> Inl (''failed to read config: '' @ e)
               | Inr c \<Rightarrow> Inr c) of
           Inl e \<Rightarrow> ([], Inl e)
         | Inr cfg \<Rightarrow>
           (case ValidateAndEnforceDefaults ev
                   (Some (if useUnsecure then SetUseUnsecure True cfg else cfg)) groundControlURL of
              (warnings, Inl e) \<Rightarrow> (warnings, Inl (''invalid config: '' @ e))
            | (warnings, Inr c) \<Rightarrow>
                (warnings, Inr (NewConfigManager configPath prevConfigPath token groundControlURL jsonLogging c)))))"

section \<open>Facts\<close>

text \<open>What the round trip relies on: the documented behaviour of the JSON package and of AES-GCM.\<close>

definition opens_own_seal :: "aes_prims \<Rightarrow> bool" where
  \<comment> \<open>opening a sealed text under the same key and nonce gives the text back\<close>
  "opens_own_seal P = (\<forall>k n p. pr_open P k n (pr_seal P k n p) = Some p)"

definition not_blank :: "string \<Rightarrow> bool" where
  "not_blank d = (trim_space d \<noteq> [] \<and> trim_space d \<noteq> ''{}'')"

definition json_config_laws :: "codec \<Rightarrow> config \<Rightarrow> bool" where
  \<comment> \<open>the text of a configuration decodes to it; read as an envelope it has no version number,
      because it has no such field\<close>
  "json_config_laws J cfg =
     ((\<forall>d. js_marshal J cfg = Inr d \<longrightarrow> js_unmarshal J d = Inr cfg) \<and>
      (\<forall>d. js_marshal_indent J cfg = Inr d \<longrightarrow> js_unmarshal J d = Inr cfg \<and> not_blank d \<and>
             (\<forall>e. js_unmarshal_enc J d = Inr e \<longrightarrow> ec_Version e = 0)))"

definition json_envelope_laws :: "codec \<Rightarrow> bool" where
  "json_envelope_laws J =
     (\<forall>e d. js_marshal_enc J e = Inr d \<longrightarrow> js_unmarshal_enc J d = Inr e \<and> not_blank d)"

lemma Decrypt_Encrypt:
  assumes "opens_own_seal P" "Encrypt P nr plaintext key = Inr c" "\<And>n. nr = Inr n \<Longrightarrow> length n = nonceSize"
  shows "Decrypt P c key = Inr plaintext \<and> c \<noteq> []"
  using assms
  by (auto simp: Encrypt_def Decrypt_def opens_own_seal_def nonceSize_def Let_def split: if_splits sum.splits)

lemma deriveKey_again: "deriveKey E = Inr (key, salt) \<Longrightarrow> deriveKeyWithSalt E salt = Inr key"
  by (auto simp: deriveKey_def split: sum.splits)

lemma EncryptBytes_inverse:
  assumes "opens_own_seal (se_aes E)" "json_envelope_laws (se_json E)"
    and "\<And>n. se_random E nonceSize = Inr n \<Longrightarrow> length n = nonceSize"
    and "EncryptBytes E plaintext = Inr data"
  shows "DecryptBytes E data = Inr plaintext \<and> IsEncrypted E data \<and> not_blank data"
proof -
  obtain key salt c where k: "deriveKey E = Inr (key, salt)"
    and c: "Encrypt (se_aes E) (se_random E nonceSize) plaintext key = Inr c"
    and d: "js_marshal_enc (se_json E) \<lparr>ec_Version = 1, ec_Salt = salt, ec_Encrypted = c\<rparr> = Inr data"
    using assms(4) by (auto simp: EncryptBytes_def split: sum.splits)
  have "js_unmarshal_enc (se_json E) data = Inr \<lparr>ec_Version = 1, ec_Salt = salt, ec_Encrypted = c\<rparr>" "not_blank data"
    using assms(2) d by (auto simp: json_envelope_laws_def)
  with deriveKey_again[OF k] Decrypt_Encrypt[OF assms(1) c assms(3)] show ?thesis
    by (simp add: DecryptBytes_def IsEncrypted_def)
qed

lemma EncryptConfig_read:
  assumes "opens_own_seal (se_aes E)" "json_envelope_laws (se_json E)" "json_config_laws (se_json E) cfg"
    and "\<And>n. se_random E nonceSize = Inr n \<Longrightarrow> length n = nonceSize"
    and "EncryptConfig E cfg = Inr data" "fs path = Holds data"
  shows "readAndReturnConfig E fs path = Inr cfg"
proof -
  obtain p where p: "js_marshal (se_json E) cfg = Inr p" and e: "EncryptBytes E p = Inr data"
    using assms(5) by (auto simp: EncryptConfig_def split: sum.splits)
  from p assms(3) have "js_unmarshal (se_json E) p = Inr cfg" by (simp add: json_config_laws_def)
  with EncryptBytes_inverse[OF assms(1,2,4) e] assms(6) show ?thesis
    by (simp add: readAndReturnConfig_def DecryptConfig_def not_blank_def Let_def)
qed

lemma plain_read:
  assumes "json_config_laws (se_json E) cfg" "js_marshal_indent (se_json E) cfg = Inr data" "fs path = Holds data"
  shows "readAndReturnConfig E fs path = Inr cfg"
proof -
  have "\<not> IsEncrypted E data" "not_blank data" "js_unmarshal (se_json E) data = Inr cfg"
    using assms(1,2) by (auto simp: json_config_laws_def IsEncrypted_def split: sum.splits)
  with assms(3) show ?thesis by (simp add: readAndReturnConfig_def not_blank_def Let_def)
qed

lemma writeConfigUnlocked_written:
  \<comment> \<open>an interrupted write is reported as an error\<close>
  "writeConfigUnlocked E wo cm cfg path fs = (fs', Inr ()) \<Longrightarrow> wo = Written"
  by (cases wo) (auto simp: writeConfigUnlocked_def split: sum.splits)

lemma writeConfigUnlocked_read:
  assumes "opens_own_seal (se_aes E)" "json_envelope_laws (se_json E)" "json_config_laws (se_json E) cfg"
    and "\<And>n. se_random E nonceSize = Inr n \<Longrightarrow> length n = nonceSize"
    and "writeConfigUnlocked E Written cm cfg path fs = (fs', Inr ())"
  shows "readAndReturnConfig E fs' path = Inr cfg \<and> (\<forall>p. p \<noteq> path \<longrightarrow> fs' p = fs p)"
proof -
  obtain data where d: "(if cm_encryptEnabled cm then EncryptConfig E cfg else js_marshal_indent (se_json E) cfg) = Inr data"
    and fs': "fs' = fs(path := Holds data)"
    using assms(5) by (auto simp: writeConfigUnlocked_def split: sum.splits if_splits)
  have "fs' path = Holds data" by (simp add: fs')
  with d EncryptConfig_read[OF assms(1-4)] plain_read[OF assms(3)]
  have "readAndReturnConfig E fs' path = Inr cfg" by (cases "cm_encryptEnabled cm") auto
  then show ?thesis by (simp add: fs')
qed

lemma readAndReturnConfig_cong: "fs path = fs' path \<Longrightarrow> readAndReturnConfig E fs path = readAndReturnConfig E fs' path"
  by (simp add: readAndReturnConfig_def)

text \<open>
  A configuration that the manager wrote to its file, in clear or encrypted under the device
  key, is the configuration that reading the file returns; no other file changes.
\<close>

theorem WriteConfig_read_back:
  assumes "opens_own_seal (se_aes E)" "json_envelope_laws (se_json E)"
    and "json_config_laws (se_json E) (cm_config cm)"
    and "\<And>n. se_random E nonceSize = Inr n \<Longrightarrow> length n = nonceSize"
    and "WriteConfig E Written cm fs = (fs', Inr ())"
  shows "readAndReturnConfig E fs' (cm_configPath cm) = Inr (cm_config cm) \<and>
         (\<forall>p. p \<noteq> cm_configPath cm \<longrightarrow> fs' p = fs p)"
  using writeConfigUnlocked_read[OF assms(1-4)] assms(5) unfolding WriteConfig_def by blast

definition sample_aes :: aes_prims where
  "sample_aes = \<lparr>pr_sha256 = (\<lambda>_. replicate 32 CHR ''h''), pr_seal = (\<lambda>k n p. rev p @ k),
     pr_open = (\<lambda>k n c. if hasSuffix c k then Some (rev (take (length c - length k) c)) else None),
     pr_argon2 = (\<lambda>i s n. replicate (nat n) CHR ''k'')\<rparr>"

definition sample_json :: codec where
  "sample_json = \<lparr>js_marshal = (\<lambda>_. Inr ''{c}''), js_marshal_indent = (\<lambda>_. Inr ''{ c }''),
     js_unmarshal = (\<lambda>d. Inr (SetLogLevel ''warn'' zero_config)),
     js_marshal_enc = (\<lambda>e. if ec_Version e = 1 \<and> length (ec_Salt e) = 16
                            then Inr (CHR ''E'' # ec_Salt e @ ec_Encrypted e) else Inl ''bad''),
     js_unmarshal_enc = (\<lambda>d. if hasPrefix d ''E'' then Inr \<lparr>ec_Version = 1, ec_Salt = take 16 (drop 1 d), ec_Encrypted = drop 17 d\<rparr>
                              else Inr \<lparr>ec_Version = 0, ec_Salt = [], ec_Encrypted = []\<rparr>)\<rparr>"

definition sample_sec :: sec_env where
  "sample_sec = \<lparr>se_aes = sample_aes, se_json = sample_json, se_fingerprint = Inr ''machine'',
     se_random = (\<lambda>n. Inr (replicate n CHR ''r''))\<rparr>"

definition sample_cm :: config_manager where
  "sample_cm = (NewConfigManager ''config.json'' ''prev.json'' ''tok'' ''http://gc'' True
     (SetLogLevel ''warn'' zero_config))\<lparr>cm_encryptEnabled := True\<rparr>"

lemma not_blank_E: "not_blank (CHR ''E'' # r)"
proof -
  have "CHR ''E'' \<in> set (trim_space (CHR ''E'' # r))"
    unfolding trim_space_def by (rule trim_with_keeps) (simp_all add: is_space_def)
  then show ?thesis by (auto simp: not_blank_def)
qed

lemma sample_laws:
  "opens_own_seal sample_aes" "json_envelope_laws sample_json"
  "json_config_laws sample_json (SetLogLevel ''warn'' zero_config)"
  by (simp_all add: opens_own_seal_def sample_aes_def hasSuffix_def json_envelope_laws_def sample_json_def
      not_blank_E json_config_laws_def)
     (simp add: not_blank_def trim_space_def trim_with_def is_space_def)

theorem WriteConfig_read_back_witness:
  "\<exists>fs'. WriteConfig sample_sec Written sample_cm (\<lambda>_. Missing) = (fs', Inr ()) \<and>
     readAndReturnConfig sample_sec fs' ''config.json'' = Inr (SetLogLevel ''warn'' zero_config)"
proof -
  have "is_ok (snd (WriteConfig sample_sec Written sample_cm (\<lambda>_. Missing)))" by code_simp
  then obtain fs' where w: "WriteConfig sample_sec Written sample_cm (\<lambda>_. Missing) = (fs', Inr ())"
    by (metis is_ok_iff prod.collapse unit.exhaust)
  have cm: "cm_config sample_cm = SetLogLevel ''warn'' zero_config" "cm_configPath sample_cm = ''config.json''"
    by (simp_all add: sample_cm_def NewConfigManager_def)
  have sec: "se_aes sample_sec = sample_aes" "se_json sample_sec = sample_json"
    "\<And>n. se_random sample_sec nonceSize = Inr n \<Longrightarrow> length n = nonceSize"
    by (auto simp: sample_sec_def)
  from WriteConfig_read_back[of sample_sec sample_cm, OF _ _ _ _ w, unfolded cm sec(1,2), OF sample_laws sec(3)] w
  show ?thesis by blast
qed

text \<open>What a change of each type is about.\<close>

fun observed :: "change_type \<Rightarrow> config \<Rightarrow> change_value" where
  "observed LogLevelChanged c = CvString (ac_LogLevel (cfg_AppConfig c))"
| "observed IntervalsChanged c = CvString (ac_StateReplicationInterval (cfg_AppConfig c))"
| "observed ZotConfigChanged c = CvString (cfg_ZotConfigRaw c)"
| "observed AuditConfigChanged c = CvAudit (effective_audit (ac_Audit (cfg_AppConfig c)))"

lemma detectChanges_types:
  "t \<in> ch_Type ` set (detectChanges old new) \<longleftrightarrow> observed t old \<noteq> observed t new"
  by (cases t) (auto simp: detectChanges_def audit_Equal_kernel Let_def)

text \<open>
  A reload that fails leaves the manager as it was. One that succeeds replaces only the
  configuration, by a well-formed one, and reports a change of a type exactly when what that
  type stands for (log level, replication interval, zot configuration, effective audit settings)
  differs between the old and the new configuration.
\<close>

theorem ReloadConfig_outcome:
  "case ReloadConfig E ev fs cm of
     (cm', ws, Inl e) \<Rightarrow> cm' = cm
   | (cm', ws, Inr changes) \<Rightarrow>
       valid_config ev (cm_config cm') \<and> cm' = cm\<lparr>cm_config := cm_config cm'\<rparr> \<and>
       (\<forall>t. t \<in> ch_Type ` set changes \<longleftrightarrow> observed t (cm_config cm) \<noteq> observed t (cm_config cm'))"
  using validation_ok
  by (auto simp: ReloadConfig_def detectChanges_types split: sum.splits prod.splits)

end
