(* ===== verification/TLS_Config.thy ===== *)
theory TLS_Config
  imports Config_Manager
begin

text \<open>
  \<^verbatim>\<open>internal/satellite/tls/config.go\<close>: the TLS configuration of the satellite from certificate and key
  files, or from a certificate and a hardware signer.

  Parameters (\<open>pki\<close>): the files, the clock, and what the standard library does on bytes: finding the next
  PEM block, parsing a certificate, matching a certificate with a key, adding the certificates of
  a PEM file to a pool. A public key is its algorithm and its encoding; \<^verbatim>\<open>Equal\<close> compares both.
\<close>

section \<open>Certificates and keys\<close>

datatype public_key = ECDSA string | RSA string | Ed25519 string | OtherKey string

record x509_cert =
  xc_NotBefore :: int
  xc_NotAfter :: int
  xc_PublicKey :: public_key

record hw_signer =
  sg_Public :: public_key

datatype private_key = HardwareKey hw_signer | SoftwareKey string

record tls_certificate =
  tc_Certificate :: "string list"
  tc_PrivateKey :: private_key
  tc_Leaf :: "x509_cert option"

record tls_settings =
  tl_CertFile :: string
  tl_KeyFile :: string
  tl_CAFile :: string
  tl_ServerName :: string
  tl_SkipVerify :: bool
  tl_MinVersion :: int
  tl_Signer :: "hw_signer option"

record go_tls_config =
  gt_MinVersion :: int
  gt_ServerName :: string
  gt_InsecureSkipVerify :: bool
  gt_Certificates :: "tls_certificate list"
  gt_RootCAs :: "string list option"
  gt_ClientCAs :: "string list option"
  gt_RequireClientCert :: bool

record pki =
  pki_files :: files
  pki_now :: int
  pki_pem :: "string \<Rightarrow> ((string \<times> string) \<times> string) option"
    \<comment> \<open>\<^verbatim>\<open>pem.Decode\<close>: type and bytes of the next block, and the rest\<close>
  pki_parse :: "string \<Rightarrow> x509_cert result"
  pki_pair :: "string \<Rightarrow> string \<Rightarrow> tls_certificate result"
  pki_pool :: "string \<Rightarrow> string list"
    \<comment> \<open>the certificates that \<^verbatim>\<open>AppendCertsFromPEM\<close> adds\<close>

definition VersionTLS12 :: int where "VersionTLS12 = 771"

definition ErrCertNotFound :: string where "ErrCertNotFound = ''certificate file not found''"
definition ErrKeyNotFound :: string where "ErrKeyNotFound = ''key file not found''"
definition ErrCertInvalid :: string where "ErrCertInvalid = ''certificate invalid''"
definition ErrCertExpired :: string where "ErrCertExpired = ''certificate expired''"
definition ErrCertNotYetValid :: string where "ErrCertNotYetValid = ''certificate not yet valid''"
definition ErrCANotFound :: string where "ErrCANotFound = ''CA certificate not found''"
definition ErrCAInvalid :: string where "ErrCAInvalid = ''CA certificate invalid''"
definition ErrCertKeyMismatch :: string where "ErrCertKeyMismatch = ''certificate and key do not match''"
definition ErrNoCertificates :: string where "ErrNoCertificates = ''no certificates in file''"

definition tls_DefaultConfig :: tls_settings where
  "tls_DefaultConfig = \<lparr>tl_CertFile = [], tl_KeyFile = [], tl_CAFile = [], tl_ServerName = [],
     tl_SkipVerify = False, tl_MinVersion = VersionTLS12, tl_Signer = None\<rparr>"

fun file_data :: "string on_disk \<Rightarrow> string result" where
  \<comment> \<open>\<^verbatim>\<open>os.ReadFile\<close>\<close>
  "file_data (Holds d) = Inr d"
| "file_data Missing = Inl ''file does not exist''"
| "file_data _ = Inl ''read error''"

section \<open>PEM\<close>

fun pem_blocks_fuel :: "nat \<Rightarrow> (string \<Rightarrow> ((string \<times> string) \<times> string) option) \<Rightarrow> string \<Rightarrow> (string \<times> string) list" where
  "pem_blocks_fuel 0 D data = []"
| "pem_blocks_fuel (Suc n) D data =
     (case D data of None \<Rightarrow> [] | Some (b, rest) \<Rightarrow> b # pem_blocks_fuel n D rest)"

definition pem_blocks :: "pki \<Rightarrow> string \<Rightarrow> (string \<times> string) list" where
  \<comment> \<open>the loop that calls \<^verbatim>\<open>pem.Decode\<close> until no block is left; every block takes at least one byte\<close>
  "pem_blocks K data = pem_blocks_fuel (Suc (length data)) (pki_pem K) data"

definition cert_blocks :: "pki \<Rightarrow> string \<Rightarrow> string list" where
  "cert_blocks K data = map snd (filter (\<lambda>b. fst b = ''CERTIFICATE'') (pem_blocks K data))"

fun parse_all :: "pki \<Rightarrow> string list \<Rightarrow> x509_cert list result" where
  "parse_all K [] = Inr []"
| "parse_all K (b # bs) =
     (case pki_parse K b of
        Inl err \<Rightarrow> Inl (ErrCertInvalid @ '': '' @ err)
      | Inr c \<Rightarrow> (case parse_all K bs of Inl err \<Rightarrow> Inl err | Inr cs \<Rightarrow> Inr (c # cs)))"

definition ParseCertificates :: "pki \<Rightarrow> string \<Rightarrow> x509_cert list result" where
  "ParseCertificates K pemData = parse_all K (cert_blocks K pemData)"

section \<open>Loading\<close>

fun same_kind :: "public_key \<Rightarrow> public_key \<Rightarrow> bool" where
  "same_kind (ECDSA _) (ECDSA _) = True"
| "same_kind (RSA _) (RSA _) = True"
| "same_kind (Ed25519 _) (Ed25519 _) = True"
| "same_kind _ _ = False"

fun key_name :: "public_key \<Rightarrow> string" where
  "key_name (ECDSA _) = ''ECDSA''"
| "key_name (RSA _) = ''RSA''"
| "key_name (Ed25519 _) = ''Ed25519''"
| "key_name (OtherKey _) = ''other''"

definition signerMatchesCert :: "hw_signer \<Rightarrow> public_key \<Rightarrow> unit result" where
  "signerMatchesCert signer certPub =
     (let sp = sg_Public signer in
      case sp of
        OtherKey _ \<Rightarrow> Inl ''unsupported signer public key type''
      | _ \<Rightarrow> if \<not> same_kind sp certPub then Inl (''signer is '' @ key_name sp @ '' but cert public key is '' @ key_name certPub)
             else if sp \<noteq> certPub then Inl (key_name sp @ '' signer public key does not match certificate public key'')
             else Inr ())"

definition validity :: "pki \<Rightarrow> x509_cert \<Rightarrow> unit result" where
  "validity K c =
     (if pki_now K < xc_NotBefore c then Inl ErrCertNotYetValid
      else if xc_NotAfter c < pki_now K then Inl ErrCertExpired else Inr ())"

definition load_hardware :: "pki \<Rightarrow> string \<Rightarrow> hw_signer \<Rightarrow> tls_certificate result" where
  \<comment> \<open>\<^verbatim>\<open>LoadCertificate\<close> with a signer, once the file is read\<close>
  "load_hardware K data signer =
     (case cert_blocks K data of
        [] \<Rightarrow> Inl ErrNoCertificates
      | b # bs \<Rightarrow>
        (case pki_parse K b of
           Inl err \<Rightarrow> Inl (ErrCertInvalid @ '': parse leaf: '' @ err)
         | Inr leaf \<Rightarrow>
           (case validity K leaf of
              Inl err \<Rightarrow> Inl err
            | Inr _ \<Rightarrow>
              (case signerMatchesCert signer (xc_PublicKey leaf) of
                 Inl err \<Rightarrow> Inl (ErrCertKeyMismatch @ '': '' @ err)
               | Inr _ \<Rightarrow> Inr \<lparr>tc_Certificate = b # bs, tc_PrivateKey = HardwareKey signer, tc_Leaf = Some leaf\<rparr>))))"

definition LoadX509KeyPair :: "pki \<Rightarrow> string \<Rightarrow> string \<Rightarrow> tls_certificate result" where
  "LoadX509KeyPair K certFile keyFile =
     (case file_data (pki_files K certFile) of
        Inl err \<Rightarrow> Inl err
      | Inr c \<Rightarrow> (case file_data (pki_files K keyFile) of Inl err \<Rightarrow> Inl err | Inr k \<Rightarrow> pki_pair K c k))"

definition LoadCertificate :: "pki \<Rightarrow> string \<Rightarrow> string \<Rightarrow> hw_signer option \<Rightarrow> tls_certificate result" where
  "LoadCertificate K certFile keyFile signer =
     (if pki_files K certFile = Missing then Inl ErrCertNotFound
      else case signer of
        Some sg \<Rightarrow>
          (case file_data (pki_files K certFile) of Inl err \<Rightarrow> Inl err | Inr data \<Rightarrow> load_hardware K data sg)
      | None \<Rightarrow>
          if pki_files K keyFile = Missing then Inl ErrKeyNotFound
          else (case LoadX509KeyPair K certFile keyFile of
                  Inl err \<Rightarrow> Inl (ErrCertInvalid @ '': '' @ err)
                | Inr cert \<Rightarrow> Inr cert))"

definition LoadCAPool :: "pki \<Rightarrow> string \<Rightarrow> string list result" where
  "LoadCAPool K caFile =
     (if pki_files K caFile = Missing then Inl ErrCANotFound
      else case file_data (pki_files K caFile) of
        Inl err \<Rightarrow> Inl (''read CA file: '' @ err)
      | Inr caData \<Rightarrow> (if pki_pool K caData = [] then Inl ErrCAInvalid else Inr (pki_pool K caData)))"

definition has_client_cert :: "tls_settings \<Rightarrow> bool" where
  "has_client_cert cfg = (tl_CertFile cfg \<noteq> [] \<and> (tl_KeyFile cfg \<noteq> [] \<or> tl_Signer cfg \<noteq> None))"

definition LoadClientTLSConfig :: "pki \<Rightarrow> tls_settings \<Rightarrow> go_tls_config result" where
  "LoadClientTLSConfig K cfg =
     (case (if has_client_cert cfg
            then (case LoadCertificate K (tl_CertFile cfg) (tl_KeyFile cfg) (tl_Signer cfg) of
                    Inl err \<Rightarrow> Inl err | Inr cert \<Rightarrow> Inr [cert])
            else Inr []) of
        Inl err \<Rightarrow> Inl err
      | Inr certs \<Rightarrow>
        (case (if tl_CAFile cfg \<noteq> []
               then (case LoadCAPool K (tl_CAFile cfg) of Inl err \<Rightarrow> Inl err | Inr p \<Rightarrow> Inr (Some p))
               else Inr None) of
           Inl err \<Rightarrow> Inl err
         | Inr pool \<Rightarrow>
             Inr \<lparr>gt_MinVersion = VersionTLS12, gt_ServerName = tl_ServerName cfg,
               gt_InsecureSkipVerify = tl_SkipVerify cfg, gt_Certificates = certs, gt_RootCAs = pool,
               gt_ClientCAs = None, gt_RequireClientCert = False\<rparr>))"

definition LoadServerTLSConfig :: "pki \<Rightarrow> tls_settings \<Rightarrow> go_tls_config result" where
  "LoadServerTLSConfig K cfg =
     (if tl_CertFile cfg = [] \<or> tl_KeyFile cfg = [] \<and> tl_Signer cfg = None then Inl ErrCertNotFound
      else case LoadCertificate K (tl_CertFile cfg) (tl_KeyFile cfg) (tl_Signer cfg) of
        Inl err \<Rightarrow> Inl err
      | Inr cert \<Rightarrow>
        (let tlsConfig = \<lparr>gt_MinVersion = VersionTLS12, gt_ServerName = [], gt_InsecureSkipVerify = False,
               gt_Certificates = [cert], gt_RootCAs = None, gt_ClientCAs = None, gt_RequireClientCert = False\<rparr> in
         if tl_CAFile cfg = [] then Inr tlsConfig
         else case LoadCAPool K (tl_CAFile cfg) of
           Inl err \<Rightarrow> Inl err
         | Inr pool \<Rightarrow> Inr (tlsConfig\<lparr>gt_ClientCAs := Some pool, gt_RequireClientCert := True\<rparr>)))"

definition ValidateCertificate :: "pki \<Rightarrow> string \<Rightarrow> unit result" where
  "ValidateCertificate K certFile =
     (case pki_files K certFile of
        Missing \<Rightarrow> Inl ErrCertNotFound
      | f \<Rightarrow>
        (case file_data f of
           Inl err \<Rightarrow> Inl err
         | Inr certData \<Rightarrow>
           (case ParseCertificates K certData of
              Inl err \<Rightarrow> Inl err
            | Inr [] \<Rightarrow> Inl ErrNoCertificates
            | Inr (cert # _) \<Rightarrow> validity K cert)))"

section \<open>Facts\<close>

definition consuming :: "pki \<Rightarrow> bool" where
  \<comment> \<open>documented for \<^verbatim>\<open>pem.Decode\<close>: the rest is what follows the block\<close>
  "consuming K = (\<forall>d b r. pki_pem K d = Some (b, r) \<longrightarrow> length r < length d)"

lemma pem_fuel_enough:
  assumes "consuming K" "length data < n" "length data < m"
  shows "pem_blocks_fuel n (pki_pem K) data = pem_blocks_fuel m (pki_pem K) data"
  using assms(2,3)
proof (induction n arbitrary: m data)
  case (Suc n)
  then obtain k where m: "m = Suc k" by (cases m) auto
  show ?case
  proof (cases "pki_pem K data")
    case (Some br)
    obtain b r where br: "br = (b, r)" by (cases br)
    then have "length r < length data" using assms(1) Some by (cases b) (auto simp: consuming_def)
    then have "pem_blocks_fuel n (pki_pem K) r = pem_blocks_fuel k (pki_pem K) r"
      using Suc.IH[of r k] Suc.prems m by simp
    then show ?thesis using Some br m by simp
  qed (simp add: m)
qed simp

lemma pem_blocks_loop:
  assumes "consuming K"
  shows "pem_blocks K data = (case pki_pem K data of None \<Rightarrow> [] | Some (b, rest) \<Rightarrow> b # pem_blocks K rest)"
proof (cases "pki_pem K data")
  case (Some br)
  obtain b r where br: "br = (b, r)" by (cases br)
  then have "length r < length data" using assms Some by (cases b) (auto simp: consuming_def)
  then have "pem_blocks_fuel (length data) (pki_pem K) r = pem_blocks_fuel (Suc (length r)) (pki_pem K) r"
    by (intro pem_fuel_enough[OF assms]) auto
  then show ?thesis using Some br by (simp add: pem_blocks_def)
qed (simp add: pem_blocks_def)

lemma signerMatchesCert_iff:
  "signerMatchesCert s p = Inr () \<longleftrightarrow> sg_Public s = p \<and> (\<forall>k. p \<noteq> OtherKey k)"
  by (cases "sg_Public s"; cases p) (auto simp: signerMatchesCert_def Let_def)

lemma validity_iff: "validity K c = Inr () \<longleftrightarrow> xc_NotBefore c \<le> pki_now K \<and> pki_now K \<le> xc_NotAfter c"
  by (auto simp: validity_def)

lemma load_hardware_iff:
  "load_hardware K data sg = Inr cert \<longleftrightarrow>
     (\<exists>b bs leaf. cert_blocks K data = b # bs \<and> pki_parse K b = Inr leaf \<and>
        xc_NotBefore leaf \<le> pki_now K \<and> pki_now K \<le> xc_NotAfter leaf \<and>
        sg_Public sg = xc_PublicKey leaf \<and> (\<forall>k. xc_PublicKey leaf \<noteq> OtherKey k) \<and>
        cert = \<lparr>tc_Certificate = b # bs, tc_PrivateKey = HardwareKey sg, tc_Leaf = Some leaf\<rparr>)"
proof (cases "cert_blocks K data")
  case (Cons b bs)
  show ?thesis
  proof (cases "pki_parse K b")
    case (Inr leaf)
    then show ?thesis
      using Cons validity_iff[of K leaf] signerMatchesCert_iff[of sg "xc_PublicKey leaf"]
      by (cases "validity K leaf"; cases "signerMatchesCert sg (xc_PublicKey leaf)") (auto simp: load_hardware_def)
  qed (simp add: load_hardware_def Cons)
qed (simp add: load_hardware_def)

lemma LoadCertificate_hardware:
  "LoadCertificate K cf kf (Some sg) = Inr cert \<longleftrightarrow>
     (\<exists>data. pki_files K cf = Holds data \<and> load_hardware K data sg = Inr cert)"
  by (cases "pki_files K cf") (auto simp: LoadCertificate_def)

lemma LoadCAPool_iff:
  "LoadCAPool K f = Inr pool \<longleftrightarrow> (\<exists>data. pki_files K f = Holds data \<and> pool = pki_pool K data \<and> pool \<noteq> [])"
  by (cases "pki_files K f") (auto simp: LoadCAPool_def)

definition checked_identity :: "pki \<Rightarrow> string \<Rightarrow> hw_signer \<Rightarrow> tls_certificate \<Rightarrow> bool" where
  \<comment> \<open>the chain of the file, led by a certificate that is valid now and carries the key of the signer\<close>
  "checked_identity K certFile sg cert = (\<exists>data leaf. pki_files K certFile = Holds data \<and>
     tc_Certificate cert = cert_blocks K data \<and> tc_Certificate cert \<noteq> [] \<and>
     pki_parse K (hd (tc_Certificate cert)) = Inr leaf \<and> tc_Leaf cert = Some leaf \<and>
     xc_NotBefore leaf \<le> pki_now K \<and> pki_now K \<le> xc_NotAfter leaf \<and>
     xc_PublicKey leaf = sg_Public sg \<and> tc_PrivateKey cert = HardwareKey sg)"

lemma LoadCertificate_checked:
  assumes "LoadCertificate K cf kf (Some sg) = Inr cert"
  shows "checked_identity K cf sg cert"
  using assms unfolding LoadCertificate_hardware load_hardware_iff checked_identity_def by force

text \<open>
  C36. TLS never starts on a broken identity. When \<^verbatim>\<open>LoadClientTLSConfig\<close> succeeds, the connection uses
  at least TLS 1.2 and skips verification only if the settings say so; a configured CA file exists and
  yields the trusted roots, at least one; a certificate is presented exactly when a certificate file is configured together
  with a key file or a hardware signer; and with a signer, the first certificate of the file is
  valid now and carries the public key of the signer.
\<close>

theorem LoadClientTLSConfig_sound:
  assumes "LoadClientTLSConfig K cfg = Inr t"
  shows "gt_MinVersion t = VersionTLS12 \<and> (gt_InsecureSkipVerify t \<longleftrightarrow> tl_SkipVerify cfg) \<and>
    (case gt_RootCAs t of
       None \<Rightarrow> tl_CAFile cfg = []
     | Some roots \<Rightarrow> roots \<noteq> [] \<and> (\<exists>data. pki_files K (tl_CAFile cfg) = Holds data \<and> roots = pki_pool K data)) \<and>
    (gt_Certificates t \<noteq> [] \<longleftrightarrow> tl_CertFile cfg \<noteq> [] \<and> (tl_KeyFile cfg \<noteq> [] \<or> tl_Signer cfg \<noteq> None)) \<and>
    (\<forall>sg cert. tl_Signer cfg = Some sg \<longrightarrow> cert \<in> set (gt_Certificates t) \<longrightarrow>
       checked_identity K (tl_CertFile cfg) sg cert)"
  using assms unfolding LoadClientTLSConfig_def has_client_cert_def
  by (auto simp: LoadCAPool_iff LoadCertificate_checked split: sum.splits if_splits)

definition sample_pki :: "string \<Rightarrow> pki" where
  \<comment> \<open>a file of one certificate, valid from 0 to 100, at time 50\<close>
  "sample_pki certFile = \<lparr>pki_files = (\<lambda>_. Missing)(certFile := Holds ''c''), pki_now = 50,
     pki_pem = (\<lambda>d. if d = ''c'' then Some ((''CERTIFICATE'', ''der''), []) else None),
     pki_parse = (\<lambda>_. Inr \<lparr>xc_NotBefore = 0, xc_NotAfter = 100, xc_PublicKey = ECDSA ''k''\<rparr>),
     pki_pair = (\<lambda>_ _. Inl ''no key''), pki_pool = (\<lambda>d. [d])\<rparr>"

theorem LoadClientTLSConfig_sound_witness:
  "\<exists>t cert. LoadClientTLSConfig (sample_pki ''cert'') (tls_DefaultConfig\<lparr>tl_CertFile := ''cert'', tl_Signer := Some \<lparr>sg_Public = ECDSA ''k''\<rparr>\<rparr>) = Inr t \<and>
     gt_Certificates t = [cert] \<and> checked_identity (sample_pki ''cert'') ''cert'' \<lparr>sg_Public = ECDSA ''k''\<rparr> cert"
proof -
  let ?cfg = "tls_DefaultConfig\<lparr>tl_CertFile := ''cert'', tl_Signer := Some \<lparr>sg_Public = ECDSA ''k''\<rparr>\<rparr>"
  obtain t cert where t: "LoadClientTLSConfig (sample_pki ''cert'') ?cfg = Inr t" "gt_Certificates t = [cert]"
    by (simp add: LoadClientTLSConfig_def has_client_cert_def tls_DefaultConfig_def LoadCertificate_def sample_pki_def
        load_hardware_def cert_blocks_def pem_blocks_def validity_def signerMatchesCert_def)
  then show ?thesis using LoadClientTLSConfig_sound[OF t(1)] by (simp add: tls_DefaultConfig_def)
qed

end
