(* ===== verification/GC_Spiffe.thy ===== *)
theory GC_Spiffe
  imports Go_URL
begin

text \<open>
  \<^verbatim>\<open>internal/groundcontrol/spiffe/authorizer.go\<close> and \<^verbatim>\<open>middleware.go\<close>: which SPIFFE IDs are
  satellites, their names and regions, and what the middlewares put into the context of a request.
  A SPIFFE ID is its trust domain and its path. The constructors of the go-spiffe library,
  \<^verbatim>\<open>spiffeid.FromPath\<close> and \<^verbatim>\<open>spiffeid.FromURI\<close>, are arguments, and so is the match of a compiled
  regular expression.
\<close>

section \<open>Identities\<close>

record spiffe_id =
  sid_TrustDomain :: string
  sid_Path :: string

definition spiffe_String :: "spiffe_id \<Rightarrow> string" where
  "spiffe_String i = ''spiffe://'' @ sid_TrustDomain i @ sid_Path i"

definition ExtractSatelliteNameFromSPIFFEID :: "spiffe_id \<Rightarrow> string result" where
  "ExtractSatelliteNameFromSPIFFEID i =
     (let path = sid_Path i in
      if path = ''/satellite'' then Inr ''default''
      else if \<not> hasPrefix path ''/satellite/'' then Inl (''SPIFFE ID path '' @ path @ '' is not a satellite'')
      else let parts = split_on CHR ''/'' path in
        if length parts = 3 then Inr (parts ! 2)
        else if 5 \<le> length parts \<and> parts ! 2 = ''region'' then Inr (parts ! 4)
        else Inr (parts ! (length parts - 1)))"

definition ExtractRegionFromSPIFFEID :: "spiffe_id \<Rightarrow> string result" where
  "ExtractRegionFromSPIFFEID i =
     (let path = sid_Path i in
      if \<not> hasPrefix path ''/satellite/region/'' then Inl (''SPIFFE ID path '' @ path @ '' does not contain region'')
      else let parts = split_on CHR ''/'' path in
        if length parts < 4 then Inl (''invalid satellite SPIFFE ID path: '' @ path)
        else Inr (parts ! 3))"

definition BuildSatelliteSPIFFEID ::
  "(string \<Rightarrow> string \<Rightarrow> spiffe_id result) \<Rightarrow> string \<Rightarrow> string \<Rightarrow> string \<Rightarrow> spiffe_id result" where
  "BuildSatelliteSPIFFEID FromPath trustDomain region name =
     FromPath trustDomain (''/satellite/region/'' @ region @ ''/'' @ name)"

definition BuildGroundControlSPIFFEID :: "(string \<Rightarrow> string \<Rightarrow> spiffe_id result) \<Rightarrow> string \<Rightarrow> spiffe_id result" where
  "BuildGroundControlSPIFFEID FromPath trustDomain = FromPath trustDomain ''/gc/main''"

section \<open>Authorizers\<close>

record satellite_authorizer =
  saz_trustDomain :: string
  saz_pathPrefix :: string

definition NewSatelliteAuthorizer :: "string \<Rightarrow> satellite_authorizer" where
  "NewSatelliteAuthorizer trustDomain = \<lparr>saz_trustDomain = trustDomain, saz_pathPrefix = ''/satellite/''\<rparr>"

definition wrong_domain :: "string \<Rightarrow> string \<Rightarrow> string" where
  "wrong_domain got want = ''unexpected trust domain: got '' @ got @ '', want '' @ want"

definition satellite_Authorize :: "satellite_authorizer \<Rightarrow> spiffe_id \<Rightarrow> unit result" where
  "satellite_Authorize a actual =
     (if sid_TrustDomain actual \<noteq> saz_trustDomain a then Inl (wrong_domain (sid_TrustDomain actual) (saz_trustDomain a))
      else let path = sid_Path actual in
        if path \<noteq> ''/satellite'' \<and> \<not> hasPrefix path (saz_pathPrefix a)
        then Inl (''SPIFFE ID path '' @ path @ '' does not match satellite pattern'')
        else Inr ())"

record region_authorizer =
  raz_trustDomain :: string
  raz_allowedRegions :: "string set"

definition NewRegionAuthorizer :: "string \<Rightarrow> string list \<Rightarrow> region_authorizer" where
  "NewRegionAuthorizer trustDomain regions = \<lparr>raz_trustDomain = trustDomain, raz_allowedRegions = set regions\<rparr>"

definition region_Authorize :: "region_authorizer \<Rightarrow> spiffe_id \<Rightarrow> unit result" where
  "region_Authorize a actual =
     (if sid_TrustDomain actual \<noteq> raz_trustDomain a then Inl (wrong_domain (sid_TrustDomain actual) (raz_trustDomain a))
      else case ExtractRegionFromSPIFFEID actual of
        Inl err \<Rightarrow> Inl err
      | Inr region \<Rightarrow>
          if region \<notin> raz_allowedRegions a then Inl (''region '' @ region @ '' is not authorized'') else Inr ())"

record pattern_authorizer =
  paz_trustDomain :: string
  paz_pattern :: "string \<Rightarrow> bool"

definition pattern_Authorize :: "pattern_authorizer \<Rightarrow> spiffe_id \<Rightarrow> unit result" where
  "pattern_Authorize a actual =
     (if sid_TrustDomain actual \<noteq> paz_trustDomain a then Inl (wrong_domain (sid_TrustDomain actual) (paz_trustDomain a))
      else if \<not> paz_pattern a (sid_Path actual) then Inl (''SPIFFE ID path '' @ sid_Path actual @ '' does not match pattern'')
      else Inr ())"

section \<open>Requests\<close>

record tls_state =
  tls_PeerCertificates :: "url list list" \<comment> \<open>of each certificate, its URI SANs\<close>

definition ExtractSPIFFEIDFromCert :: "(url \<Rightarrow> spiffe_id result) \<Rightarrow> url list \<Rightarrow> spiffe_id result" where
  "ExtractSPIFFEIDFromCert FromURI uris =
     (if uris = [] then Inl ''certificate has no URI SANs''
      else case find_first (\<lambda>u. u_Scheme u = ''spiffe'') uris of
        Some u \<Rightarrow> FromURI u
      | None \<Rightarrow> Inl ''no SPIFFE ID found in certificate URIs'')"

definition ExtractSPIFFEIDFromRequest :: "(url \<Rightarrow> spiffe_id result) \<Rightarrow> tls_state option \<Rightarrow> spiffe_id result" where
  "ExtractSPIFFEIDFromRequest FromURI tls =
     (case tls of
        None \<Rightarrow> Inl ''no TLS connection''
      | Some t \<Rightarrow>
          (case tls_PeerCertificates t of
             [] \<Rightarrow> Inl ''no peer certificates''
           | cert # _ \<Rightarrow> ExtractSPIFFEIDFromCert FromURI cert))"

record spiffe_context =
  ctx_SPIFFEID :: "spiffe_id option"
  ctx_SatelliteName :: "string option"
  ctx_Region :: "string option"

definition no_identity :: spiffe_context where
  "no_identity = \<lparr>ctx_SPIFFEID = None, ctx_SatelliteName = None, ctx_Region = None\<rparr>"

definition with_identity :: "spiffe_id \<Rightarrow> spiffe_context \<Rightarrow> spiffe_context" where
  \<comment> \<open>the context values that both middlewares set\<close>
  "with_identity i ctx =
     (let ctx = ctx\<lparr>ctx_SPIFFEID := Some i\<rparr>;
          ctx = (case ExtractSatelliteNameFromSPIFFEID i of Inl _ \<Rightarrow> ctx | Inr name \<Rightarrow> ctx\<lparr>ctx_SatelliteName := Some name\<rparr>)
      in case ExtractRegionFromSPIFFEID i of Inl _ \<Rightarrow> ctx | Inr region \<Rightarrow> ctx\<lparr>ctx_Region := Some region\<rparr>)"

definition spiffe_AuthMiddleware ::
  "(url \<Rightarrow> spiffe_id result) \<Rightarrow> (spiffe_context \<Rightarrow> 'a) \<Rightarrow> tls_state option \<Rightarrow> spiffe_context \<Rightarrow> 'a" where
  "spiffe_AuthMiddleware FromURI nxt tls ctx =
     (case ExtractSPIFFEIDFromRequest FromURI tls of Inl _ \<Rightarrow> nxt ctx | Inr i \<Rightarrow> nxt (with_identity i ctx))"

definition RequireSPIFFEAuth ::
  "(url \<Rightarrow> spiffe_id result) \<Rightarrow> (spiffe_context \<Rightarrow> 'a) \<Rightarrow> tls_state option \<Rightarrow> spiffe_context \<Rightarrow> (int \<times> string) + 'a" where
  \<comment> \<open>on the left the status and the error of the response\<close>
  "RequireSPIFFEAuth FromURI nxt tls ctx =
     (case ExtractSPIFFEIDFromRequest FromURI tls of
        Inl _ \<Rightarrow> Inl (401, ''SPIFFE authentication required'')
      | Inr i \<Rightarrow> Inr (nxt (with_identity i ctx)))"

definition token_Wrap ::
  "(string \<Rightarrow> int result) option \<Rightarrow> (int \<Rightarrow> string) \<Rightarrow> (spiffe_context \<Rightarrow> 'a) \<Rightarrow> string \<Rightarrow> spiffe_context \<Rightarrow> (int \<times> string) + 'a" where
  \<comment> \<open>\<open>shown\<close> is \<^verbatim>\<open>%d\<close>\<close>
  "token_Wrap validator shown nxt authorization ctx =
     (case validator of
        None \<Rightarrow> Inl (500, ''token validator not configured'')
      | Some validate \<Rightarrow>
          if authorization = [] then Inl (401, ''authorization token required'')
          else (case validate authorization of
                  Inl _ \<Rightarrow> Inl (401, ''invalid token'')
                | Inr satelliteID \<Rightarrow> Inr (nxt (ctx\<lparr>ctx_SatelliteName := Some (''satellite-'' @ shown satelliteID)\<rparr>))))"

section \<open>Names and regions\<close>

lemma split_region_path:
  assumes "CHR ''/'' \<notin> set region" "CHR ''/'' \<notin> set name"
  shows "split_on CHR ''/'' (''/satellite/region/'' @ region @ ''/'' @ name) = [[], ''satellite'', ''region'', region, name]"
proof -
  have "split_on CHR ''/'' (''/satellite/region'' @ CHR ''/'' # (region @ CHR ''/'' # name)) =
      split_on CHR ''/'' ''/satellite/region'' @ split_on CHR ''/'' region @ split_on CHR ''/'' name"
    by (simp only: split_on_append_sep)
  then show ?thesis using assms by (simp add: split_on_no_sep)
qed

lemma authorized_name:
  assumes "satellite_Authorize (NewSatelliteAuthorizer td) i = Inr ()"
  shows "\<exists>name. ExtractSatelliteNameFromSPIFFEID i = Inr name \<and> CHR ''/'' \<notin> set name"
proof -
  have parts: "CHR ''/'' \<notin> set (split_on CHR ''/'' (sid_Path i) ! k)" if "k < length (split_on CHR ''/'' (sid_Path i))" for k
    using split_on_parts nth_mem[OF that] by metis
  have last: "length (split_on CHR ''/'' (sid_Path i)) - 1 < length (split_on CHR ''/'' (sid_Path i))"
    by simp
  show ?thesis
    using assms parts last
    by (auto simp: satellite_Authorize_def NewSatelliteAuthorizer_def ExtractSatelliteNameFromSPIFFEID_def Let_def split: if_splits)
qed

text \<open>
  The identity of a satellite survives the round trip through its SPIFFE ID. From the
  ID that \<^verbatim>\<open>BuildSatelliteSPIFFEID\<close> builds for a region and a name without a slash, the middleware
  recovers the name and the region, and the authorizers accept it for that region and for no other.
  The hypothesis on the library is that \<^verbatim>\<open>FromPath\<close> returns an ID of the given domain and path.
\<close>

theorem spiffe_identity_round_trip:
  assumes "\<And>td p i. FromPath td p = Inr i \<Longrightarrow> sid_TrustDomain i = td \<and> sid_Path i = p"
    and "CHR ''/'' \<notin> set region" "CHR ''/'' \<notin> set name"
    and "BuildSatelliteSPIFFEID FromPath td region name = Inr i"
  shows "with_identity i no_identity = \<lparr>ctx_SPIFFEID = Some i, ctx_SatelliteName = Some name, ctx_Region = Some region\<rparr> \<and>
    satellite_Authorize (NewSatelliteAuthorizer td) i = Inr () \<and>
    (region_Authorize (NewRegionAuthorizer td regions) i = Inr () \<longleftrightarrow> region \<in> set regions)"
proof -
  have i: "sid_TrustDomain i = td" "sid_Path i = ''/satellite/region/'' @ region @ ''/'' @ name"
    using assms(1)[of td "''/satellite/region/'' @ region @ ''/'' @ name" i] assms(4)
    by (simp_all add: BuildSatelliteSPIFFEID_def)
  have n: "ExtractSatelliteNameFromSPIFFEID i = Inr name" "ExtractRegionFromSPIFFEID i = Inr region"
    using split_region_path[OF assms(2,3)]
    by (simp_all add: ExtractSatelliteNameFromSPIFFEID_def ExtractRegionFromSPIFFEID_def i del: split_on.simps)
  show ?thesis
    by (simp add: n i(1) with_identity_def no_identity_def satellite_Authorize_def NewSatelliteAuthorizer_def
        region_Authorize_def NewRegionAuthorizer_def) (simp add: i)
qed

theorem spiffe_identity_round_trip_witness:
  "region_Authorize (NewRegionAuthorizer ''td'' [''eu'']) \<lparr>sid_TrustDomain = ''td'', sid_Path = ''/satellite/region/eu/edge''\<rparr> = Inr ()"
  using spiffe_identity_round_trip[of "\<lambda>td p. Inr \<lparr>sid_TrustDomain = td, sid_Path = p\<rparr>" "''eu''" "''edge''" "''td''"
      "\<lparr>sid_TrustDomain = ''td'', sid_Path = ''/satellite/region/eu/edge''\<rparr>" "[''eu'']"]
  by (simp add: BuildSatelliteSPIFFEID_def)

end
