(* ===== verification/Spiffe_Client.thy ===== *)
theory Spiffe_Client
  imports TLS_Config GC_Spiffe
begin

text \<open>
  \<^verbatim>\<open>internal/spiffe/client.go\<close>: the satellite's connection to its SPIRE agent, and the HTTP clients the
  satellite calls ground control with. The workload API is a parameter: parsing an ID, opening a
  source at a socket (a source is named by a string), and the identity a source currently serves.
\<close>

record workload_api =
  wl_FromString :: "string \<Rightarrow> spiffe_id result"
  wl_NewX509Source :: "string \<Rightarrow> string result"
  wl_GetX509SVID :: "string \<Rightarrow> spiffe_id result"

datatype server_authorizer = AuthorizeID spiffe_id | AuthorizeAny

datatype http_client =
    DefaultClient
  | TLSClient go_tls_config
  | SpiffeClient string server_authorizer

record spiffe_client =
  sp_socketPath :: string
  sp_expectedServerID :: "spiffe_id option"
  sp_x509Source :: "string option"
  sp_closed :: bool

definition NewClient :: "workload_api \<Rightarrow> spiffe_config \<Rightarrow> spiffe_client result" where
  "NewClient A cfg =
     (if \<not> spf_Enabled cfg then Inl ''SPIFFE is not enabled''
      else case (if spf_ExpectedServerID cfg \<noteq> []
                 then (case wl_FromString A (spf_ExpectedServerID cfg) of
                         Inl err \<Rightarrow> Inl (''invalid expected server ID: '' @ err) | Inr i \<Rightarrow> Inr (Some i))
                 else Inr None) of
        Inl err \<Rightarrow> Inl err
      | Inr serverID \<Rightarrow>
          Inr \<lparr>sp_socketPath = spf_EndpointSocket cfg, sp_expectedServerID = serverID, sp_x509Source = None, sp_closed = False\<rparr>)"

definition Connect :: "workload_api \<Rightarrow> spiffe_client \<Rightarrow> spiffe_client \<times> unit result" where
  "Connect A c =
     (if sp_closed c then (c, Inl ''client is closed'')
      else if sp_x509Source c \<noteq> None then (c, Inr ())
      else case wl_NewX509Source A (sp_socketPath c) of
        Inl err \<Rightarrow> (c, Inl (''create X509Source: '' @ err))
      | Inr source \<Rightarrow> (c\<lparr>sp_x509Source := Some source\<rparr>, Inr ()))"

definition connected :: "spiffe_client \<Rightarrow> string result" where
  \<comment> \<open>the two checks at the start of \<^verbatim>\<open>GetSVID\<close> and \<^verbatim>\<open>GetTLSConfig\<close>\<close>
  "connected c =
     (if sp_closed c then Inl ''client is closed''
      else case sp_x509Source c of None \<Rightarrow> Inl ''client not connected'' | Some source \<Rightarrow> Inr source)"

definition GetSPIFFEID :: "workload_api \<Rightarrow> spiffe_client \<Rightarrow> spiffe_id result" where
  "GetSPIFFEID A c = (case connected c of Inl err \<Rightarrow> Inl err | Inr source \<Rightarrow> wl_GetX509SVID A source)"

definition GetTLSConfig_spiffe :: "spiffe_client \<Rightarrow> (string \<times> server_authorizer) result" where
  "GetTLSConfig_spiffe c =
     (case connected c of
        Inl err \<Rightarrow> Inl err
      | Inr source \<Rightarrow>
          Inr (source, case sp_expectedServerID c of Some i \<Rightarrow> AuthorizeID i | None \<Rightarrow> AuthorizeAny))"

definition CreateHTTPClient :: "spiffe_client \<Rightarrow> http_client result" where
  "CreateHTTPClient c =
     (case GetTLSConfig_spiffe c of Inl err \<Rightarrow> Inl err | Inr (source, auth) \<Rightarrow> Inr (SpiffeClient source auth))"

definition spiffe_Close :: "spiffe_client \<Rightarrow> spiffe_client" where
  "spiffe_Close c = c\<lparr>sp_closed := True\<rparr>"

definition createHTTPClient :: "pki \<Rightarrow> tls_config \<Rightarrow> bool \<Rightarrow> http_client result" where
  "createHTTPClient K tlsCfg useUnsecure =
     (if useUnsecure
      then Inr (TLSClient \<lparr>gt_MinVersion = VersionTLS12, gt_ServerName = [], gt_InsecureSkipVerify = True,
                 gt_Certificates = [], gt_RootCAs = None, gt_ClientCAs = None, gt_RequireClientCert = False\<rparr>)
      else if tls_CertFile tlsCfg \<noteq> [] \<or> tls_CAFile tlsCfg \<noteq> []
      then (case LoadClientTLSConfig K \<lparr>tl_CertFile = tls_CertFile tlsCfg, tl_KeyFile = tls_KeyFile tlsCfg,
                   tl_CAFile = tls_CAFile tlsCfg, tl_ServerName = [], tl_SkipVerify = tls_SkipVerify tlsCfg,
                   tl_MinVersion = VersionTLS12, tl_Signer = None\<rparr> of
              Inl err \<Rightarrow> Inl (''load TLS config: '' @ err)
            | Inr tlsConfig \<Rightarrow> Inr (TLSClient tlsConfig))
      else Inr DefaultClient)"

section \<open>Facts\<close>

definition verifies_server :: "http_client \<Rightarrow> bool" where
  "verifies_server c = (case c of DefaultClient \<Rightarrow> True | TLSClient t \<Rightarrow> \<not> gt_InsecureSkipVerify t
     | SpiffeClient _ a \<Rightarrow> a \<noteq> AuthorizeAny)"

lemma Connect_idem: "Connect A c = (c', Inr ()) \<Longrightarrow> Connect A c' = (c', Inr ())"
  by (auto simp: Connect_def split: if_splits sum.splits)

lemma spiffe_client_life:
  assumes "NewClient A cfg = Inr c" "Connect A c = (c', Inr ())"
  shows "\<exists>source. CreateHTTPClient c' = Inr (SpiffeClient source
      (if spf_ExpectedServerID cfg = [] then AuthorizeAny else AuthorizeID (projr (wl_FromString A (spf_ExpectedServerID cfg))))) \<and>
    CreateHTTPClient c = Inl ''client not connected'' \<and> CreateHTTPClient (spiffe_Close c') = Inl ''client is closed''"
  using assms
  by (auto simp: NewClient_def Connect_def CreateHTTPClient_def GetTLSConfig_spiffe_def connected_def spiffe_Close_def
      split: if_splits sum.splits)

lemma createHTTPClient_verifies:
  assumes "createHTTPClient K t unsecure = Inr c"
  shows "verifies_server c \<longleftrightarrow> \<not> unsecure \<and> (tls_CertFile t = [] \<and> tls_CAFile t = [] \<or> \<not> tls_SkipVerify t)"
  using assms
  by (auto simp: createHTTPClient_def verifies_server_def LoadClientTLSConfig_def split: if_splits sum.splits)

end
