(* ===== verification/Registration.thy ===== *)
theory Registration
  imports Scheduler Spiffe_Client
begin

text \<open>
  \<^verbatim>\<open>internal/satellite/state/registration_process.go\<close> and \<^verbatim>\<open>spiffe_registration.go\<close>: the two processes
  that register the satellite with ground control, by a token or by its SPIFFE identity, and keep
  the credentials they get.

  Parameters (\<open>reg_env\<close>): sending an HTTP request, decoding the JSON answer, the certificate
  library, the workload API and what writing the configuration file needs. The state of a process
  holds what it shares with the rest of the satellite: the configuration manager, the files and the audit log.
\<close>

section \<open>Requests\<close>

record client_request =
  cq_Method :: string
  cq_URL :: string
  cq_BasicAuth :: "(string \<times> string) option"
  cq_Body :: string

record client_response =
  cr_StatusCode :: int
  cr_Status :: string
  cr_Body :: string

record reg_env =
  re_do :: "http_client \<Rightarrow> client_request \<Rightarrow> client_response result"
  re_decode :: "string \<Rightarrow> state_config result"
  re_pki :: pki
  re_workload :: workload_api
  re_sec :: sec_env
  re_write :: write_outcome

definition NewRequest :: "string \<Rightarrow> string \<Rightarrow> string \<Rightarrow> client_request result" where
  \<comment> \<open>\<^verbatim>\<open>http.NewRequestWithContext\<close> fails on a URL that does not parse\<close>
  "NewRequest method u body =
     (case url_Parse u of
        Inl err \<Rightarrow> Inl err
      | Inr _ \<Rightarrow> Inr \<lparr>cq_Method = method, cq_URL = u, cq_BasicAuth = None, cq_Body = body\<rparr>)"

definition ZeroTouchRegistrationRoute :: string where "ZeroTouchRegistrationRoute = ''satellites/ztr''"
definition SPIFFEZeroTouchRegistrationRoute :: string where "SPIFFEZeroTouchRegistrationRoute = ''satellites/spiffe-ztr''"

definition fetch_state_config :: "reg_env \<Rightarrow> string \<Rightarrow> string \<Rightarrow> http_client \<Rightarrow> string \<Rightarrow> state_config result" where
  \<comment> \<open>the common end of the two registrations: request, status and decoding; their messages differ\<close>
  "fetch_state_config E pre failure client u =
     (case NewRequest ''GET'' u [] of
        Inl err \<Rightarrow> Inl (pre @ ''create request: '' @ err)
      | Inr req \<Rightarrow>
        (case re_do E client req of
           Inl err \<Rightarrow> Inl (pre @ ''send request: '' @ err)
         | Inr resp \<Rightarrow>
             if cr_StatusCode resp \<noteq> 200 then Inl (failure @ cr_Status resp)
             else (case re_decode E (cr_Body resp) of
                     Inl err \<Rightarrow> Inl (pre @ ''decode response: '' @ err) | Inr sc \<Rightarrow> Inr sc)))"

definition registerSatellite ::
  "reg_env \<Rightarrow> string \<Rightarrow> string \<Rightarrow> string \<Rightarrow> tls_config \<Rightarrow> bool \<Rightarrow> state_config result" where
  "registerSatellite E groundControlURL path token tlsCfg useUnsecure =
     (case createHTTPClient (re_pki E) tlsCfg useUnsecure of
        Inl err \<Rightarrow> Inl (''failed to create HTTP client: '' @ err)
      | Inr client \<Rightarrow>
          fetch_state_config E ''failed to '' ''failed to register satellite: '' client (groundControlURL @ ''/'' @ path @ ''/'' @ token))"

definition complete_state :: "state_config \<Rightarrow> bool" where
  \<comment> \<open>the check on what ground control sent\<close>
  "complete_state sc = (rc_Username (sc_RegistryCredentials sc) \<noteq> [] \<and> rc_Password (sc_RegistryCredentials sc) \<noteq> [] \<and>
     rc_URL (sc_RegistryCredentials sc) \<noteq> [] \<and> sc_StateURL sc \<noteq> [])"

section \<open>Token-based registration\<close>

record sat_audit =
  sa_Operation :: string
  sa_Outcome :: string
  sa_Reason :: string
  sa_Details :: "(string \<times> string) list"

record ztr_process =
  zp_isRunning :: bool
  zp_Done :: bool
    \<comment> \<open>whether the channel is closed\<close>
  zp_cm :: config_manager
  zp_files :: files
  zp_audit :: "sat_audit list"

definition sanitizeAuditReason :: "string \<Rightarrow> string \<Rightarrow> string" where
  "sanitizeAuditReason err token = (if token \<noteq> [] then replace_all err token ''[REDACTED]'' else err)"

definition ztr_CanExecute :: "config_manager \<Rightarrow> bool \<times> string" where
  "ztr_CanExecute cm =
     (let missing = (if GetToken cm = [] then [''token''] else []) @
                    (if ResolveGroundControlURL cm = [] then [''ground control URL''] else [])
      in if missing \<noteq> []
         then (False, ''missing '' @ join '', '' missing @ '', please include the required environment variables present in .env'')
         else (True, ''Process '' @ ZTRConfigJobName @ '' can execute all conditions fulfilled''))"

definition ztr_log :: "string \<Rightarrow> string \<Rightarrow> (string \<times> string) list \<Rightarrow> ztr_process \<Rightarrow> ztr_process" where
  "ztr_log outcome reason details z = z\<lparr>zp_audit := zp_audit z @
     [\<lparr>sa_Operation = ''register'', sa_Outcome = outcome, sa_Reason = reason, sa_Details = details\<rparr>]\<rparr>"

definition close_done :: "bool \<Rightarrow> bool go" where
  "close_done closed = (if closed then Panic ''close of closed channel'' else Value True)"

definition with_override :: "config_manager \<Rightarrow> state_config \<Rightarrow> state_config result" where
  "with_override cm sc =
     (if GetHarborRegistryURL cm \<noteq> [] then ApplyHarborRegistryOverride sc (GetHarborRegistryURL cm) else Inr sc)"

definition ztr_body :: "reg_env \<Rightarrow> ztr_process \<Rightarrow> (ztr_process \<times> unit result) go" where
  \<comment> \<open>\<^verbatim>\<open>Execute\<close> between \<^verbatim>\<open>start\<close> and \<^verbatim>\<open>stop\<close>\<close>
  "ztr_body E z =
     (let cm = zp_cm z; gcURL = ResolveGroundControlURL cm in
      if \<not> fst (ztr_CanExecute cm) then Value (z, Inr ())
      else case registerSatellite E gcURL ZeroTouchRegistrationRoute (GetToken cm) (GetTLSConfig cm) (UseUnsecure cm) of
        Inl err \<Rightarrow>
          Value (ztr_log ''failure'' ''registration_failed''
            [(''error'', sanitizeAuditReason err (GetToken cm)), (''flow'', ''ztr''), (''ground_control_url'', gcURL)] z, Inl err)
      | Inr stateConfig \<Rightarrow>
          if \<not> complete_state stateConfig
          then Value (ztr_log ''failure'' ''invalid_state_auth_config'' [(''flow'', ''ztr''), (''ground_control_url'', gcURL)] z,
                 Inl ''failed to register satellite: invalid state auth config received'')
          else (case with_override cm stateConfig of
            Inl err \<Rightarrow> Value (z, Inl err)
          | Inr sc \<Rightarrow>
            (let cm' = With [SetStateConfig sc] cm; z1 = z\<lparr>zp_cm := cm'\<rparr> in
             case WriteConfig (re_sec E) (re_write E) cm' (zp_files z) of
               (fs, Inl _) \<Rightarrow> Value (z1\<lparr>zp_files := fs\<rparr>, Inl ''failed to register satellite: could not update state auth config'')
             | (fs, Inr _) \<Rightarrow>
               (case close_done (zp_Done z) of
                  Panic m \<Rightarrow> Panic m
                | Value d \<Rightarrow>
                    Value ((ztr_log ''success'' [] [(''flow'', ''ztr''), (''ground_control_url'', gcURL)]
                              (z1\<lparr>zp_files := fs\<rparr>))\<lparr>zp_Done := d\<rparr>, Inr ())))))"

definition ztr_start :: "ztr_process \<Rightarrow> ztr_process" where "ztr_start z = z\<lparr>zp_isRunning := True\<rparr>"
definition ztr_stop :: "ztr_process \<Rightarrow> ztr_process" where "ztr_stop z = z\<lparr>zp_isRunning := False\<rparr>"

definition ztr_Execute :: "reg_env \<Rightarrow> ztr_process \<Rightarrow> (ztr_process \<times> unit result) go" where
  "ztr_Execute E z =
     (case ztr_body E (ztr_start z) of Panic m \<Rightarrow> Panic m | Value (z', r) \<Rightarrow> Value (ztr_stop z', r))"

definition NewZtrProcess :: "config_manager \<Rightarrow> files \<Rightarrow> ztr_process" where
  "NewZtrProcess cm fs = \<lparr>zp_isRunning = False, zp_Done = False, zp_cm = cm, zp_files = fs, zp_audit = []\<rparr>"

definition ztr_ops :: "ztr_process process_ops" where
  \<comment> \<open>the body may run with any answers of the network and the disk\<close>
  "ztr_ops = \<lparr>po_Name = ZTRConfigJobName, po_start = ztr_start, po_stop = ztr_stop,
     po_work = (\<lambda>z z'. \<exists>E r. ztr_body E z = Value (z', r)),
     po_background = (\<lambda>_ _. False),
     po_IsRunning = zp_isRunning, po_IsComplete = (\<lambda>z. IsZTRDone (zp_cm z))\<rparr>"

section \<open>Registration by SPIFFE identity\<close>

record spiffe_ztr_process =
  sz_isRunning :: bool
  sz_Done :: bool
  sz_cm :: config_manager
  sz_files :: files
  sz_client :: spiffe_client

definition NewSpiffeZtrProcess :: "workload_api \<Rightarrow> config_manager \<Rightarrow> files \<Rightarrow> spiffe_ztr_process result" where
  "NewSpiffeZtrProcess A cm fs =
     (if \<not> spf_Enabled (GetSPIFFEConfig cm) then Inl ''SPIFFE is not enabled in config''
      else case NewClient A (GetSPIFFEConfig cm) of
        Inl err \<Rightarrow> Inl (''create SPIFFE client: '' @ err)
      | Inr client \<Rightarrow> Inr \<lparr>sz_isRunning = False, sz_Done = False, sz_cm = cm, sz_files = fs, sz_client = client\<rparr>)"

definition spiffe_CanExecute :: "config_manager \<Rightarrow> bool \<times> string" where
  "spiffe_CanExecute cm =
     (if ResolveGroundControlURL cm = [] then (False, ''missing ground control URL'')
      else if \<not> IsSPIFFEEnabled cm then (False, ''SPIFFE is not enabled'')
      else (True, ''Process '' @ SPIFFEZTRConfigJobName @ '' can execute all conditions fulfilled''))"

definition registerWithSPIFFE :: "reg_env \<Rightarrow> config_manager \<Rightarrow> spiffe_client \<Rightarrow> state_config result" where
  "registerWithSPIFFE E cm c =
     (case CreateHTTPClient c of
        Inl err \<Rightarrow> Inl (''create SPIFFE HTTP client: '' @ err)
      | Inr client \<Rightarrow>
          fetch_state_config E [] ''registration failed: '' client
            (ResolveGroundControlURL cm @ ''/'' @ SPIFFEZeroTouchRegistrationRoute))"

definition spiffe_body :: "reg_env \<Rightarrow> spiffe_ztr_process \<Rightarrow> (spiffe_ztr_process \<times> unit result) go" where
  "spiffe_body E s =
     (let cm = sz_cm s in
      if \<not> fst (spiffe_CanExecute cm) then Value (s, Inr ())
      else case Connect (re_workload E) (sz_client s) of
        (c, Inl err) \<Rightarrow> Value (s\<lparr>sz_client := c\<rparr>, Inl (''connect to SPIRE agent: '' @ err))
      | (c, Inr _) \<Rightarrow>
        (let s = s\<lparr>sz_client := c\<rparr> in
         case GetSPIFFEID (re_workload E) c of
           Inl err \<Rightarrow> Value (s, Inl (''get SPIFFE ID: '' @ err))
         | Inr _ \<Rightarrow>
           (case registerWithSPIFFE E cm c of
              Inl err \<Rightarrow> Value (s, Inl err)
            | Inr stateConfig \<Rightarrow>
                if \<not> complete_state stateConfig then Value (s, Inl ''invalid state auth config received'')
                else (let cm' = With [SetStateConfig stateConfig] cm; s1 = s\<lparr>sz_cm := cm'\<rparr> in
                  case WriteConfig (re_sec E) (re_write E) cm' (sz_files s) of
                    (fs, Inl err) \<Rightarrow> Value (s1\<lparr>sz_files := fs\<rparr>, Inl (''write config: '' @ err))
                  | (fs, Inr _) \<Rightarrow>
                    (case close_done (sz_Done s) of
                       Panic m \<Rightarrow> Panic m
                     | Value d \<Rightarrow> Value (s1\<lparr>sz_files := fs, sz_Done := d\<rparr>, Inr ()))))))"

definition spiffe_start :: "spiffe_ztr_process \<Rightarrow> spiffe_ztr_process" where "spiffe_start s = s\<lparr>sz_isRunning := True\<rparr>"
definition spiffe_stop :: "spiffe_ztr_process \<Rightarrow> spiffe_ztr_process" where "spiffe_stop s = s\<lparr>sz_isRunning := False\<rparr>"

definition spiffe_Execute :: "reg_env \<Rightarrow> spiffe_ztr_process \<Rightarrow> (spiffe_ztr_process \<times> unit result) go" where
  "spiffe_Execute E s =
     (case spiffe_body E (spiffe_start s) of Panic m \<Rightarrow> Panic m | Value (s', r) \<Rightarrow> Value (spiffe_stop s', r))"

definition spiffe_process_Close :: "spiffe_ztr_process \<Rightarrow> spiffe_ztr_process" where
  "spiffe_process_Close s = s\<lparr>sz_client := spiffe_Close (sz_client s)\<rparr>"

definition spiffe_ops :: "spiffe_ztr_process process_ops" where
  \<comment> \<open>the body may run with any answers of the network and the disk\<close>
  "spiffe_ops = \<lparr>po_Name = SPIFFEZTRConfigJobName, po_start = spiffe_start, po_stop = spiffe_stop,
     po_work = (\<lambda>s s'. \<exists>E r. spiffe_body E s = Value (s', r)),
     po_background = (\<lambda>_ _. False),
     po_IsRunning = sz_isRunning, po_IsComplete = (\<lambda>s. IsZTRDone (sz_cm s))\<rparr>"

lemma go_ok_cases:
  "(case g of Value (z, Inr (_ :: unit)) \<Rightarrow> Q z | _ \<Rightarrow> False) \<Longrightarrow> \<exists>z. g = Value (z, Inr ()) \<and> Q z"
  by (cases g) (auto split: prod.splits sum.splits)

lemma go_err_cases:
  "(case g of Value (z, Inl err) \<Rightarrow> Q z err | _ \<Rightarrow> False) \<Longrightarrow> \<exists>z err. g = Value (z, Inl err) \<and> Q z err"
  by (cases g) (auto split: prod.splits sum.splits)

section \<open>Redaction of the token\<close>

lemma prefix_of_replaced:
  assumes "new \<noteq> []" "set p \<inter> set new = {}" "prefix p (replace_all_fuel n old new s)"
  shows "prefix p s"
  using assms
proof (induction n old new s arbitrary: p rule: replace_all_fuel.induct)
  case (3 n old new c cs)
  show ?case
  proof (cases "hasPrefix (c # cs) old")
    case True
    then have "p = []" using 3 by (cases p; cases new) auto
    then show ?thesis by simp
  next
    case False
    then show ?thesis using 3 by (cases p) auto
  qed
qed auto

lemma sublist_Cons_iff: "sublist xs (y # ys) \<longleftrightarrow> prefix xs (y # ys) \<or> sublist xs ys"
  by (rule sublist_Cons_right)

lemma sublist_past:
  assumes "xs \<noteq> []" "set xs \<inter> set ys = {}" "sublist xs (ys @ zs)"
  shows "sublist xs zs"
  using assms(2,3)
proof (induction ys)
  case (Cons y ys)
  then have "\<not> prefix xs (y # ys @ zs)" using assms(1) by (cases xs) auto
  then show ?case using Cons by (simp add: sublist_Cons_iff)
qed simp

lemma replaced_gone:
  assumes "old \<noteq> []" "new \<noteq> []" "set old \<inter> set new = {}" "length s \<le> n"
  shows "\<not> sublist old (replace_all_fuel n old new s)"
  using assms
proof (induction n old new s rule: replace_all_fuel.induct)
  case (3 n old new c cs)
  show ?case
  proof (cases "hasPrefix (c # cs) old")
    case True
    have "length (drop (length old) (c # cs)) \<le> n" using 3(3,6) by (cases old) auto
    then have "\<not> sublist old (replace_all_fuel n old new (drop (length old) (c # cs)))"
      using 3 True by simp
    then show ?thesis using True sublist_past[OF 3(3,5)] by auto
  next
    case False
    then have "\<not> prefix old (c # replace_all_fuel n old new cs)"
      using prefix_of_replaced[of new "tl old" n old cs] 3(3-5) by (cases old) (auto simp: hasPrefix_iff)
    then show ?thesis using False 3 by (simp add: sublist_Cons_iff)
  qed
qed auto

lemma sanitize_gone:
  assumes "token \<noteq> []" "set token \<inter> set ''[REDACTED]'' = {}"
  shows "\<not> sublist token (sanitizeAuditReason err token)"
  using assms replaced_gone[of token "''[REDACTED]''" err "length err"] by (simp add: sanitizeAuditReason_def replace_all_def)

section \<open>Outcomes\<close>

lemma override_keeps_user:
  "ApplyHarborRegistryOverride sc o' = Inr sc' \<Longrightarrow>
     rc_Username (sc_RegistryCredentials sc') = rc_Username (sc_RegistryCredentials sc) \<and>
     rc_Password (sc_RegistryCredentials sc') = rc_Password (sc_RegistryCredentials sc)"
  by (auto simp: ApplyHarborRegistryOverride_def Let_def split: sum.splits if_splits)

lemma with_override_user:
  "with_override cm sc = Inr sc' \<Longrightarrow>
     rc_Username (sc_RegistryCredentials sc') = rc_Username (sc_RegistryCredentials sc) \<and>
     rc_Password (sc_RegistryCredentials sc') = rc_Password (sc_RegistryCredentials sc)"
  using override_keeps_user by (auto simp: with_override_def split: if_splits)

lemma With_SetStateConfig [simp]:
  "cm_config (With [SetStateConfig sc] cm) = (cm_config cm)\<lparr>cfg_StateConfig := sc\<rparr>"
  "cm_configPath (With [SetStateConfig sc] cm) = cm_configPath cm"
  by (simp_all add: With_def SetStateConfig_def)

lemma IsZTRDone_set: "IsZTRDone (With [SetStateConfig sc] cm) \<longleftrightarrow> rc_Username (sc_RegistryCredentials sc) \<noteq> []"
  by (simp add: IsZTRDone_def)

lemma ztr_body_value:
  assumes "ztr_body E z = Value (z', r)"
  shows "zp_isRunning z' = zp_isRunning z \<and> (IsZTRDone (zp_cm z) \<longrightarrow> IsZTRDone (zp_cm z'))"
  using assms with_override_user
  by (force simp: ztr_body_def Let_def ztr_log_def IsZTRDone_set complete_state_def
      split: if_splits sum.splits prod.splits go.splits)

lemma spiffe_body_value:
  assumes "spiffe_body E s = Value (s', r)"
  shows "sz_isRunning s' = sz_isRunning s \<and> (IsZTRDone (sz_cm s) \<longrightarrow> IsZTRDone (sz_cm s'))"
  using assms
  by (force simp: spiffe_body_def Let_def IsZTRDone_set complete_state_def
      split: if_splits sum.splits prod.splits go.splits)

interpretation ztr: process ztr_ops
  using ztr_body_value by unfold_locales (auto simp: ztr_ops_def ztr_start_def ztr_stop_def)

interpretation spiffe: process spiffe_ops
  using spiffe_body_value by unfold_locales (auto simp: spiffe_ops_def spiffe_start_def spiffe_stop_def)

definition writes_back :: "sec_env \<Rightarrow> config \<Rightarrow> bool" where
  \<comment> \<open>the laws of the JSON package and of AES-GCM for a configuration that is written\<close>
  "writes_back S cfg = (opens_own_seal (se_aes S) \<and> json_envelope_laws (se_json S) \<and> json_config_laws (se_json S) cfg \<and>
     (\<forall>n. se_random S nonceSize = Inr n \<longrightarrow> length n = nonceSize))"

lemma WriteConfig_reads:
  assumes "writes_back S (cm_config cm)" "WriteConfig S Written cm fs = (fs', Inr ())"
  shows "readAndReturnConfig S fs' (cm_configPath cm) = Inr (cm_config cm)"
  using assms writeConfigUnlocked_read[of S "cm_config cm" cm "cm_configPath cm" fs fs']
  by (auto simp: writes_back_def WriteConfig_def)

lemma fetch_state_config_ok:
  "fetch_state_config E pre failure client u = Inr sc \<longleftrightarrow>
     (\<exists>req resp. NewRequest ''GET'' u [] = Inr req \<and> re_do E client req = Inr resp \<and> cr_StatusCode resp = 200 \<and>
        re_decode E (cr_Body resp) = Inr sc)"
  by (auto simp: fetch_state_config_def split: sum.splits)

lemma ztr_body_ok:
  assumes "ztr_body E z = Value (z', Inr ())" "fst (ztr_CanExecute (zp_cm z))"
  obtains sc sc' fs where
    "registerSatellite E (ResolveGroundControlURL (zp_cm z)) ZeroTouchRegistrationRoute (GetToken (zp_cm z))
       (GetTLSConfig (zp_cm z)) (UseUnsecure (zp_cm z)) = Inr sc" "complete_state sc"
    "with_override (zp_cm z) sc = Inr sc'" "zp_cm z' = With [SetStateConfig sc'] (zp_cm z)"
    "WriteConfig (re_sec E) (re_write E) (With [SetStateConfig sc'] (zp_cm z)) (zp_files z) = (fs, Inr ())"
    "zp_files z' = fs" "zp_Done z'"
  using assms
  by (auto simp: ztr_body_def Let_def ztr_log_def close_done_def split: if_splits sum.splits prod.splits go.splits)

definition registration_request :: "reg_env \<Rightarrow> config_manager \<Rightarrow> client_response \<Rightarrow> bool" where
  \<comment> \<open>the request with the token was sent to ground control and got this answer\<close>
  "registration_request E cm resp = (\<exists>client req.
     createHTTPClient (re_pki E) (GetTLSConfig cm) (UseUnsecure cm) = Inr client \<and>
     NewRequest ''GET'' (ResolveGroundControlURL cm @ ''/'' @ ZeroTouchRegistrationRoute @ ''/'' @ GetToken cm) [] = Inr req \<and> re_do E client req = Inr resp)"

lemma registerSatellite_ok:
  assumes "registerSatellite E (ResolveGroundControlURL cm) ZeroTouchRegistrationRoute (GetToken cm) (GetTLSConfig cm) (UseUnsecure cm) = Inr sc"
  shows "\<exists>resp. registration_request E cm resp \<and> cr_StatusCode resp = 200 \<and> re_decode E (cr_Body resp) = Inr sc"
  using assms
  by (auto simp: registerSatellite_def fetch_state_config_ok registration_request_def split: sum.splits)

lemma ztr_Execute_body:
  assumes "ztr_Execute E z = Value (z', r)"
  obtains z1 where "ztr_body E (ztr_start z) = Value (z1, r)" "zp_cm z' = zp_cm z1" "zp_files z' = zp_files z1"
    "zp_Done z' = zp_Done z1" "zp_audit z' = zp_audit z1" "\<not> zp_isRunning z'"
  using assms by (auto simp: ztr_Execute_def ztr_stop_def split: go.splits prod.splits)

lemma ztr_start_simps [simp]:
  "zp_cm (ztr_start z) = zp_cm z" "zp_files (ztr_start z) = zp_files z" "zp_Done (ztr_start z) = zp_Done z"
  "zp_audit (ztr_start z) = zp_audit z"
  by (simp_all add: ztr_start_def)

lemma ztr_Execute_adopts:
  assumes "ztr_Execute E z = Value (z', Inr ())" "fst (ztr_CanExecute (zp_cm z))"
  obtains resp sc sc' where "registration_request E (zp_cm z) resp" "cr_StatusCode resp = 200"
    "re_decode E (cr_Body resp) = Inr sc" "complete_state sc" "with_override (zp_cm z) sc = Inr sc'"
    "zp_cm z' = With [SetStateConfig sc'] (zp_cm z)" "zp_Done z'" "\<not> zp_isRunning z'"
    "WriteConfig (re_sec E) (re_write E) (zp_cm z') (zp_files z) = (zp_files z', Inr ())"
proof -
  obtain z1 where z1: "ztr_body E (ztr_start z) = Value (z1, Inr ())" "zp_cm z' = zp_cm z1" "zp_files z' = zp_files z1"
    "zp_Done z' = zp_Done z1" "\<not> zp_isRunning z'"
    by (rule ztr_Execute_body[OF assms(1)])
  obtain sc sc' where b:
    "registerSatellite E (ResolveGroundControlURL (zp_cm z)) ZeroTouchRegistrationRoute (GetToken (zp_cm z))
       (GetTLSConfig (zp_cm z)) (UseUnsecure (zp_cm z)) = Inr sc" "complete_state sc"
    "with_override (zp_cm z) sc = Inr sc'" "zp_cm z1 = With [SetStateConfig sc'] (zp_cm z)"
    "WriteConfig (re_sec E) (re_write E) (zp_cm z1) (zp_files z) = (zp_files z1, Inr ())" "zp_Done z1"
    by (rule ztr_body_ok[OF z1(1)]) (simp_all add: assms(2))
  show ?thesis using registerSatellite_ok[OF b(1)] b z1(2-5) that by metis
qed

text \<open>
  A registration that succeeds is complete. When \<^verbatim>\<open>ZtrProcess.Execute\<close> could run and reports success,
  ground control has answered the request carrying the token with 200 and complete credentials; the satellite
  works with them from then on (the user name and password as sent, the addresses moved to the
  Harbor override if one is set); the process counts as complete and its channel is closed; and, if the write reached the
  disk, a restart reads the same configuration from the file.
\<close>

theorem ztr_registration_complete:
  assumes "ztr_Execute E z = Value (z', Inr ())" "fst (ztr_CanExecute (zp_cm z))" "re_write E = Written"
    and "writes_back (re_sec E) (cm_config (zp_cm z'))"
  shows "\<exists>resp sc. registration_request E (zp_cm z) resp \<and> cr_StatusCode resp = 200 \<and>
      re_decode E (cr_Body resp) = Inr sc \<and> complete_state sc \<and>
      with_override (zp_cm z) sc = Inr (GetStateConfig (zp_cm z')) \<and>
      GetSourceRegistryUsername (zp_cm z') = rc_Username (sc_RegistryCredentials sc) \<and>
      GetSourceRegistryPassword (zp_cm z') = rc_Password (sc_RegistryCredentials sc) \<and>
      zp_Done z' \<and> \<not> zp_isRunning z' \<and> IsZTRDone (zp_cm z') \<and>
      readAndReturnConfig (re_sec E) (zp_files z') (cm_configPath (zp_cm z)) = Inr (cm_config (zp_cm z'))"
proof (rule ztr_Execute_adopts[OF assms(1,2)])
  fix resp sc sc'
  assume a: "registration_request E (zp_cm z) resp" "cr_StatusCode resp = 200" "re_decode E (cr_Body resp) = Inr sc"
    "complete_state sc" "with_override (zp_cm z) sc = Inr sc'" "zp_cm z' = With [SetStateConfig sc'] (zp_cm z)" "zp_Done z'"
    "\<not> zp_isRunning z'" "WriteConfig (re_sec E) (re_write E) (zp_cm z') (zp_files z) = (zp_files z', Inr ())"
  have st: "GetStateConfig (zp_cm z') = sc'" by (simp add: a(6) GetStateConfig_def)
  have user: "GetSourceRegistryUsername (zp_cm z') = rc_Username (sc_RegistryCredentials sc)"
    "GetSourceRegistryPassword (zp_cm z') = rc_Password (sc_RegistryCredentials sc)"
    using with_override_user[OF a(5)] by (simp_all add: a(6) GetSourceRegistryUsername_def GetSourceRegistryPassword_def)
  have cmp: "IsZTRDone (zp_cm z')" using with_override_user[OF a(5)] a(4) by (simp add: a(6) IsZTRDone_set complete_state_def)
  have "readAndReturnConfig (re_sec E) (zp_files z') (cm_configPath (zp_cm z')) = Inr (cm_config (zp_cm z'))"
    using WriteConfig_reads[OF assms(4)] a(9) assms(3) by simp
  then have rd: "readAndReturnConfig (re_sec E) (zp_files z') (cm_configPath (zp_cm z)) = Inr (cm_config (zp_cm z'))"
    by (simp add: a(6))
  show ?thesis using a(1-5,7,8) st user cmp rd by blast
qed

definition sample_registered :: state_config where
  "sample_registered = \<lparr>sc_RegistryCredentials = \<lparr>rc_URL = ''https://h'', rc_Username = ''robot'', rc_Password = ''pw''\<rparr>,
     sc_StateURL = ''https://h/satellite/satellite-state/edge/state:latest''\<rparr>"

definition sample_reg_env :: "client_response result \<Rightarrow> reg_env" where
  "sample_reg_env answer = \<lparr>re_do = (\<lambda>_ _. answer), re_decode = (\<lambda>_. Inr sample_registered), re_pki = sample_pki [],
     re_workload = \<lparr>wl_FromString = (\<lambda>_. Inl []), wl_NewX509Source = Inr, wl_GetX509SVID = (\<lambda>_. Inl [])\<rparr>,
     re_sec = sample_sec\<lparr>se_json := sample_json\<lparr>js_unmarshal := (\<lambda>_. Inr (SetStateConfig sample_registered (cm_config sample_cm)))\<rparr>\<rparr>,
     re_write = Written\<rparr>"

definition sample_ok :: "client_response result" where
  "sample_ok = Inr \<lparr>cr_StatusCode = 200, cr_Status = ''200 OK'', cr_Body = ''{}''\<rparr>"

lemma sample_writes_back:
  "writes_back (re_sec (sample_reg_env a)) (SetStateConfig sample_registered (cm_config sample_cm))"
  using sample_laws
  by (auto simp: writes_back_def sample_reg_env_def sample_sec_def json_envelope_laws_def json_config_laws_def sample_json_def)

theorem ztr_registration_complete_witness:
  "\<exists>z'. ztr_Execute (sample_reg_env sample_ok) (NewZtrProcess sample_cm (\<lambda>_. Missing)) = Value (z', Inr ()) \<and>
     GetSourceRegistryUsername (zp_cm z') = ''robot'' \<and> IsZTRDone (zp_cm z')"
proof -
  let ?E = "sample_reg_env sample_ok" and ?z = "NewZtrProcess sample_cm (\<lambda>_. Missing)"
  have "case ztr_Execute ?E ?z of Value (z', Inr _) \<Rightarrow> cm_config (zp_cm z') = SetStateConfig sample_registered (cm_config sample_cm) | _ \<Rightarrow> False"
    by code_simp
  then obtain z' where z': "ztr_Execute ?E ?z = Value (z', Inr ())"
    "cm_config (zp_cm z') = SetStateConfig sample_registered (cm_config sample_cm)"
    using go_ok_cases[where Q = "\<lambda>z'. cm_config (zp_cm z') = SetStateConfig sample_registered (cm_config sample_cm)"] by blast
  have can: "fst (ztr_CanExecute (zp_cm ?z))" by code_simp
  have "re_decode ?E b = Inr sample_registered" "re_write ?E = Written" for b by (simp_all add: sample_reg_env_def)
  then have "GetSourceRegistryUsername (zp_cm z') = rc_Username (sc_RegistryCredentials sample_registered) \<and> IsZTRDone (zp_cm z')"
    using ztr_registration_complete[OF z'(1) can] sample_writes_back[of sample_ok] z'(2) by auto
  then show ?thesis using z'(1) by (simp add: sample_registered_def)
qed

lemma ztr_body_err:
  assumes "ztr_body E z = Value (z', Inl err)"
  shows "zp_Done z' = zp_Done z \<and>
    (zp_cm z' = zp_cm z \<and> zp_files z' = zp_files z \<or>
     IsZTRDone (zp_cm z') \<and> (\<exists>e. snd (WriteConfig (re_sec E) (re_write E) (zp_cm z') (zp_files z)) = Inl e))"
  using assms with_override_user
  by (force simp: ztr_body_def Let_def ztr_log_def close_done_def IsZTRDone_set complete_state_def
      split: if_splits sum.splits prod.splits go.splits)

lemma ztr_body_audit:
  assumes "ztr_body E z = Value (z', r)"
  shows "\<exists>new. zp_audit z' = zp_audit z @ new \<and>
    (\<forall>a v. a \<in> set new \<longrightarrow> (''error'', v) \<in> set (sa_Details a) \<longrightarrow> (\<exists>err. v = sanitizeAuditReason err (GetToken (zp_cm z))))"
  using assms
  by (auto simp: ztr_body_def Let_def ztr_log_def split: if_splits sum.splits prod.splits go.splits)

text \<open>
  C35. A registration that fails leaks nothing and can be tried again, unless the disk is at fault. When
  \<^verbatim>\<open>ZtrProcess.Execute\<close> reports an error, the channel is as before, and either configuration and files
  are unchanged or the only failure was to write the new configuration, which then stays in force
  in memory; and the errors it has added to the audit log do not contain the token, provided
  no character of the token occurs in the replacement text (tokens are lower-case hexadecimal).
\<close>

theorem ztr_registration_failure:
  assumes "ztr_Execute E z = Value (z', Inl err)"
    and "GetToken (zp_cm z) \<noteq> []" "set (GetToken (zp_cm z)) \<inter> set ''[REDACTED]'' = {}"
  shows "zp_Done z' = zp_Done z \<and> \<not> zp_isRunning z' \<and>
    (zp_cm z' = zp_cm z \<and> zp_files z' = zp_files z \<or>
     IsZTRDone (zp_cm z') \<and> (\<exists>e. snd (WriteConfig (re_sec E) (re_write E) (zp_cm z') (zp_files z)) = Inl e)) \<and>
    (\<exists>new. zp_audit z' = zp_audit z @ new \<and>
       (\<forall>a v. a \<in> set new \<longrightarrow> (''error'', v) \<in> set (sa_Details a) \<longrightarrow> \<not> sublist (GetToken (zp_cm z)) v))"
proof (rule ztr_Execute_body[OF assms(1)])
  fix z1 assume z1: "ztr_body E (ztr_start z) = Value (z1, Inl err)"
    and st: "zp_cm z' = zp_cm z1" "zp_files z' = zp_files z1" "zp_Done z' = zp_Done z1" "zp_audit z' = zp_audit z1" "\<not> zp_isRunning z'"
  obtain new where new: "zp_audit z1 = zp_audit z @ new"
    "\<And>a v. a \<in> set new \<Longrightarrow> (''error'', v) \<in> set (sa_Details a) \<Longrightarrow> \<exists>e. v = sanitizeAuditReason e (GetToken (zp_cm z))"
    using ztr_body_audit[OF z1] by auto
  have "\<not> sublist (GetToken (zp_cm z)) v" if "a \<in> set new" "(''error'', v) \<in> set (sa_Details a)" for a v
    using new(2)[OF that] sanitize_gone[OF assms(2,3)] by auto
  then show ?thesis using ztr_body_err[OF z1] new(1) st by auto
qed

theorem ztr_registration_failure_witness:
  "\<exists>z' a. ztr_Execute (sample_reg_env (Inl ''Get http://gc/satellites/ztr/tok: refused'')) (NewZtrProcess sample_cm (\<lambda>_. Missing)) =
       Value (z', Inl ''failed to send request: Get http://gc/satellites/ztr/tok: refused'') \<and>
     zp_audit z' = [a] \<and> (''error'', ''failed to send request: Get http://gc/satellites/ztr/[REDACTED]: refused'') \<in> set (sa_Details a) \<and>
     \<not> sublist ''tok'' ''failed to send request: Get http://gc/satellites/ztr/[REDACTED]: refused''"
proof -
  let ?E = "sample_reg_env (Inl ''Get http://gc/satellites/ztr/tok: refused'')" and ?z = "NewZtrProcess sample_cm (\<lambda>_. Missing)"
  let ?m = "''failed to send request: Get http://gc/satellites/ztr/[REDACTED]: refused''"
  let ?Q = "\<lambda>z' err. err = ''failed to send request: Get http://gc/satellites/ztr/tok: refused'' \<and>
      length (zp_audit z') = 1 \<and> (''error'', ?m) \<in> set (sa_Details (hd (zp_audit z')))"
  have "case ztr_Execute ?E ?z of Value (z', Inl err) \<Rightarrow> ?Q z' err | _ \<Rightarrow> False" by code_simp
  then obtain z' where z1: "ztr_Execute ?E ?z = Value (z', Inl ''failed to send request: Get http://gc/satellites/ztr/tok: refused'')"
    "length (zp_audit z') = 1" "(''error'', ?m) \<in> set (sa_Details (hd (zp_audit z')))"
    using go_err_cases[where Q = ?Q] by blast
  then obtain a where z': "ztr_Execute ?E ?z = Value (z', Inl ''failed to send request: Get http://gc/satellites/ztr/tok: refused'')"
    "zp_audit z' = [a]" "(''error'', ?m) \<in> set (sa_Details a)"
    by (cases "zp_audit z'") auto
  have tok: "GetToken (zp_cm ?z) = ''tok''" "zp_audit ?z = []" by code_simp+
  have "\<not> sublist ''tok'' ?m"
    using ztr_registration_failure[OF z'(1), unfolded tok] z'(2,3) by auto
  then show ?thesis using z' by blast
qed

text \<open>
  A failed write is final: the process counts as complete although it reported an error and the
  file was not written, so its scheduler stops and nothing tries again; the token has been used.
\<close>

lemma ztr_write_failure_is_final:
  assumes "ztr_Execute E z = Value (z', Inl ''failed to register satellite: could not update state auth config'')"
    and "zp_cm z' \<noteq> zp_cm z"
  shows "po_IsComplete ztr_ops z' \<and> zp_Done z' = zp_Done z"
  using assms ztr_body_err[of E "ztr_start z"]
  by (auto simp: ztr_Execute_def ztr_ops_def ztr_start_def ztr_stop_def split: go.splits prod.splits)

end
