(* ===== verification/Sync_Data.thy ===== *)
theory Sync_Data
  imports Config_Model "HOL-Library.AList" "HOL-Library.Multiset"
begin

text \<open>
  The data of state synchronisation on the satellite and the pure part of its algorithm:
  \<^verbatim>\<open>internal/satellite/state/artifact.go\<close>, \<^verbatim>\<open>state.go\<close>, the \<^verbatim>\<open>Entity\<close> of \<^verbatim>\<open>replicator.go\<close>,
  the string helpers of \<^verbatim>\<open>internal/utils/utils.go\<close>, and of \<^verbatim>\<open>state_process.go\<close> the functions
  that compare the state of a group with the entities replicated before.

  A nil slice is the empty list. The order in which Go ranges over a map is a parameter
  (\<open>ord\<close>), of which only that it is a permutation is assumed.
\<close>

section \<open>Records\<close>

record artifact =
  art_Repository :: string
  art_Tags :: "string list"
  art_Labels :: "string list"
  art_Type :: string
  art_Digest :: string
  art_Deleted :: bool
  art_Name :: string

record state_doc =
  st_Registry :: string
  st_Artifacts :: "artifact list"

record satellite_state =
  ss_States :: "string list"
  ss_Config :: string

record entity =
  ent_Name :: string
  ent_Repository :: string
  ent_Tag :: string
  ent_Digest :: string

record state_map =
  sm_url :: string
  sm_State :: "state_doc option"
  sm_Entities :: "entity list"

definition NewArtifact :: "bool \<Rightarrow> string \<Rightarrow> string list \<Rightarrow> string \<Rightarrow> string \<Rightarrow> artifact" where
  "NewArtifact deleted repository tags digest artifactType =
     \<lparr>art_Repository = repository, art_Tags = tags, art_Labels = [], art_Type = artifactType,
      art_Digest = digest, art_Deleted = deleted, art_Name = []\<rparr>"

definition NewStateMap :: "string list \<Rightarrow> state_map list" where
  "NewStateMap urls = map (\<lambda>u. \<lparr>sm_url = u, sm_State = None, sm_Entities = []\<rparr>) urls"

section \<open>State documents\<close>

definition GetRegistryURL :: "state_doc \<Rightarrow> string" where
  "GetRegistryURL a = trimSuffix (trimPrefix (trimPrefix (st_Registry a) ''https://'') ''http://'') ''/''"

definition GetArtifacts :: "state_doc \<Rightarrow> artifact list" where
  "GetArtifacts a = st_Artifacts a"

definition GetArtifactByRepository :: "state_doc \<Rightarrow> string \<Rightarrow> artifact result" where
  "GetArtifactByRepository a repo =
     (case find_first (\<lambda>x. art_Repository x = repo) (st_Artifacts a) of
        None \<Rightarrow> Inl ''artifact not found in the list'' | Some x \<Rightarrow> Inr x)"

definition GetArtifactByNameAndTag :: "state_doc \<Rightarrow> string \<Rightarrow> string \<Rightarrow> artifact option" where
  "GetArtifactByNameAndTag a name tag =
     find_first (\<lambda>x. art_Name x = name \<and> tag \<in> set (art_Tags x)) (st_Artifacts a)"

definition SetArtifacts :: "artifact list \<Rightarrow> state_doc \<Rightarrow> state_doc" where
  "SetArtifacts artifacts a = a\<lparr>st_Artifacts := artifacts\<rparr>"

section \<open>String helpers\<close>

definition FormatRegistryURL :: "string \<Rightarrow> string" where
  "FormatRegistryURL u = trimPrefix (trimPrefix u ''https://'') ''http://''"

definition IsValidURL :: "string \<Rightarrow> bool" where
  "IsValidURL input = (case url_Parse input of Inl _ \<Rightarrow> False | Inr u \<Rightarrow> u_Scheme u \<noteq> [])"

definition GetRepositoryAndImageNameFromArtifact :: "string \<Rightarrow> (string \<times> string) result" where
  "GetRepositoryAndImageNameFromArtifact repository =
     (let parts = split_on CHR ''/'' repository in
      if length parts < 2
      then Inl (''invalid repository format: '' @ repository @ ''. Expected format: repo/image'')
      else Inr (hd parts, join ''/'' (tl parts)))"

definition HandleOwnRegistry :: "config_manager \<Rightarrow> config_manager result" where
  "HandleOwnRegistry cm =
     (let remoteRegistryURL = GetLocalRegistryURL cm in
      case url_Parse remoteRegistryURL of
        Inl e \<Rightarrow> Inl (''error parsing URL: '' @ e)
      | Inr _ \<Rightarrow> Inr (With [SetLocalRegistryURL (FormatRegistryURL remoteRegistryURL)] cm))"

section \<open>Comparing states\<close>

definition RemoveNullTagArtifacts :: "state_doc \<Rightarrow> state_doc" where
  "RemoveNullTagArtifacts s = SetArtifacts (filter (\<lambda>a. art_Tags a \<noteq> []) (GetArtifacts s)) s"

definition FetchEntitiesFromState :: "state_doc \<Rightarrow> entity list" where
  "FetchEntitiesFromState s =
     concat (map (\<lambda>a. map (\<lambda>tag. \<lparr>ent_Name = art_Name a, ent_Repository = art_Repository a,
                                   ent_Tag = tag, ent_Digest = art_Digest a\<rparr>) (art_Tags a))
               (GetArtifacts s))"

fun process_artifacts :: "artifact list \<Rightarrow> artifact list result" where
  \<comment> \<open>the loop of \<^verbatim>\<open>ProcessState\<close>\<close>
  "process_artifacts [] = Inr []"
| "process_artifacts (a # as) =
     (case GetRepositoryAndImageNameFromArtifact (art_Repository a) of
        Inl e \<Rightarrow> Inl e
      | Inr (repo, img) \<Rightarrow>
        (case process_artifacts as of
           Inl e \<Rightarrow> Inl e
         | Inr as' \<Rightarrow> Inr (a\<lparr>art_Repository := repo, art_Name := img\<rparr> # as')))"

definition ProcessState :: "state_doc \<Rightarrow> state_doc result" where
  "ProcessState s = (case process_artifacts (GetArtifacts s) of
      Inl e \<Rightarrow> Inl e | Inr as \<Rightarrow> Inr (s\<lparr>st_Artifacts := as\<rparr>))"

definition entity_key :: "entity \<Rightarrow> string" where
  "entity_key e = ent_Name e @ ''|'' @ ent_Tag e"

definition old_entity_map :: "entity list \<Rightarrow> (string \<times> entity) list" where
  \<comment> \<open>the first loop of \<^verbatim>\<open>GetChanges\<close>: a later entity with the same key wins\<close>
  "old_entity_map old = fold (\<lambda>e m. AList.update (entity_key e) e m) old []"

fun compare_new :: "entity list \<Rightarrow> (string \<times> entity) list \<Rightarrow> entity list \<times> entity list \<times> (string \<times> entity) list" where
  \<comment> \<open>the second loop: what to delete, what to replicate, the old entities not met\<close>
  "compare_new [] m = ([], [], m)"
| "compare_new (e # es) m =
     (let (del, rep, rest) = compare_new es (AList.delete (entity_key e) m) in
      case map_of m (entity_key e) of
        None \<Rightarrow> (del, e # rep, rest)
      | Some old \<Rightarrow> if ent_Digest e \<noteq> ent_Digest old then (old # del, e # rep, rest) else (del, rep, rest))"

definition GetChanges ::
  "(entity list \<Rightarrow> entity list) \<Rightarrow> state_doc \<Rightarrow> entity list \<Rightarrow> entity list \<times> entity list \<times> state_doc" where
  "GetChanges ord newState0 oldEntities =
     (let newState = RemoveNullTagArtifacts newState0;
          newEntities = FetchEntitiesFromState newState
      in if oldEntities = [] then ([], newEntities, newState)
         else let (del, rep, rest) = compare_new newEntities (old_entity_map oldEntities)
              in (del @ ord (map snd rest), rep, newState))"

definition contains :: "string list \<Rightarrow> string \<Rightarrow> bool" where
  "contains slice item = list_ex (\<lambda>s. s = item) slice"

definition updateStateMap :: "string list \<Rightarrow> state_map list \<Rightarrow> state_map list \<times> bool" where
  "updateStateMap states sms =
     (let newStates = filter (\<lambda>s. \<not> list_ex (\<lambda>sm. sm_url sm = s) sms) states;
          updated = filter (\<lambda>sm. contains states (sm_url sm)) sms;
          removed = length (filter (\<lambda>sm. \<not> contains states (sm_url sm)) sms)
      in (updated @ NewStateMap newStates, 0 < length newStates \<or> 0 < removed))"

fun override_urls :: "string \<Rightarrow> string list \<Rightarrow> string list result" where
  "override_urls override [] = Inr []"
| "override_urls override (s # ss) =
     (case ReplaceURLHost s override of
        Inl e \<Rightarrow> Inl (''override state URL '' @ [CHR 0x22] @ s @ [CHR 0x22] @ '': '' @ e)
      | Inr r \<Rightarrow> (case override_urls override ss of Inl e \<Rightarrow> Inl e | Inr rs \<Rightarrow> Inr (r # rs)))"

definition applyHarborOverrideToSatelliteState :: "satellite_state \<Rightarrow> string \<Rightarrow> satellite_state result" where
  "applyHarborOverrideToSatelliteState s override =
     (case override_urls override (ss_States s) of
        Inl e \<Rightarrow> Inl e
      | Inr states \<Rightarrow>
        (if ss_Config s \<noteq> []
         then case ReplaceURLHost (ss_Config s) override of
                Inl e \<Rightarrow> Inl (''override config URL '' @ [CHR 0x22] @ ss_Config s @ [CHR 0x22] @ '': '' @ e)
              | Inr c \<Rightarrow> Inr \<lparr>ss_States = states, ss_Config = c\<rparr>
         else Inr \<lparr>ss_States = states, ss_Config = ss_Config s\<rparr>))"

section \<open>The registry content a list of entities stands for\<close>

definition ent_ref :: "entity \<Rightarrow> string" where
  \<comment> \<open>the reference of an image inside a registry\<close>
  "ent_ref e = ent_Repository e @ ''/'' @ ent_Name e @ '':'' @ ent_Tag e"

type_synonym content = "string \<Rightarrow> string option"
  \<comment> \<open>reference to digest\<close>

definition content_of :: "entity list \<Rightarrow> content" where
  "content_of es = map_of (map (\<lambda>e. (ent_ref e, ent_Digest e)) es)"

definition apply_changes :: "entity list \<Rightarrow> entity list \<Rightarrow> content \<Rightarrow> content" where
  \<comment> \<open>delete the first list, then write the second\<close>
  "apply_changes del rep c = (\<lambda>r. if r \<in> ent_ref ` set del then None else c r) ++ content_of rep"

definition keys_name_refs :: "entity list \<Rightarrow> bool" where
  \<comment> \<open>the comparison key identifies an image\<close>
  "keys_name_refs es = (\<forall>a\<in>set es. \<forall>b\<in>set es. entity_key a = entity_key b \<longleftrightarrow> ent_ref a = ent_ref b)"

lemma keys_name_refs_mono: "keys_name_refs es \<Longrightarrow> set es' \<subseteq> set es \<Longrightarrow> keys_name_refs es'"
  by (auto simp: keys_name_refs_def)

lemma distinct_keys_refs: "keys_name_refs es \<Longrightarrow> distinct (map entity_key es) \<Longrightarrow> distinct (map ent_ref es)"
  unfolding keys_name_refs_def distinct_map inj_on_def by blast

lemma content_of_Some:
  assumes "keys_name_refs es" "distinct (map entity_key es)"
  shows "content_of es r = Some d \<longleftrightarrow> (\<exists>e\<in>set es. ent_ref e = r \<and> ent_Digest e = d)"
proof -
  have "distinct (map fst (map (\<lambda>e. (ent_ref e, ent_Digest e)) es))"
    using distinct_keys_refs[OF assms] by (simp add: comp_def)
  then show ?thesis unfolding content_of_def by (subst map_of_eq_Some_iff) auto
qed

lemma content_of_None: "content_of es r = None \<longleftrightarrow> r \<notin> ent_ref ` set es"
  by (simp add: content_of_def map_of_eq_None_iff image_image)

lemma old_entity_map_acc:
  "distinct (map fst m @ map entity_key old) \<Longrightarrow>
   fold (\<lambda>e m. AList.update (entity_key e) e m) old m = m @ map (\<lambda>e. (entity_key e, e)) old"
proof (induction old arbitrary: m)
  case (Cons e old)
  have "AList.update (entity_key e) e m = m @ [(entity_key e, e)]"
    using Cons.prems by (induction m) auto
  with Cons.IH[of "m @ [(entity_key e, e)]"] Cons.prems show ?case by auto
qed simp

lemma old_entity_map_distinct:
  "distinct (map entity_key old) \<Longrightarrow> old_entity_map old = map (\<lambda>e. (entity_key e, e)) old"
  using old_entity_map_acc[of "[]" old] by (simp add: old_entity_map_def)

definition unchanged_in :: "(string \<Rightarrow> entity option) \<Rightarrow> entity \<Rightarrow> bool" where
  "unchanged_in m e = (\<exists>old. m (entity_key e) = Some old \<and> ent_Digest old = ent_Digest e)"

lemma compare_new_sets:
  assumes "distinct (map entity_key new)" "compare_new new m = (del, rep, rest)"
  shows "set del = {o'. \<exists>e\<in>set new. map_of m (entity_key e) = Some o' \<and> ent_Digest e \<noteq> ent_Digest o'}"
    and "rep = filter (\<lambda>e. \<not> unchanged_in (map_of m) e) new"
    and "rest = filter (\<lambda>(k, _). k \<notin> entity_key ` set new) m"
proof -
  have "set del = {o'. \<exists>e\<in>set new. map_of m (entity_key e) = Some o' \<and> ent_Digest e \<noteq> ent_Digest o'} \<and>
    rep = filter (\<lambda>e. \<not> unchanged_in (map_of m) e) new \<and>
    rest = filter (\<lambda>(k, _). k \<notin> entity_key ` set new) m"
    using assms
  proof (induction new arbitrary: m del rep rest)
    case Nil
    then show ?case by (auto simp: filter_id_conv)
  next
    case (Cons e new)
    obtain d r s where c: "compare_new new (AList.delete (entity_key e) m) = (d, r, s)"
      by (cases "compare_new new (AList.delete (entity_key e) m)") auto
    have ne: "entity_key x \<noteq> entity_key e" if "x \<in> set new" for x
      using Cons.prems(1) that by (metis distinct.simps(2) image_eqI list.simps(9) list.set_map)
    have del: "map_of (AList.delete (entity_key e) m) (entity_key x) = map_of m (entity_key x)" if "x \<in> set new" for x
      using ne[OF that] by (simp add: delete_conv)
    from Cons.IH[OF _ c] Cons.prems(1)
    have ih: "set d = {o'. \<exists>x\<in>set new. map_of m (entity_key x) = Some o' \<and> ent_Digest x \<noteq> ent_Digest o'}"
      "r = filter (\<lambda>x. \<not> unchanged_in (map_of m) x) new"
      "s = filter (\<lambda>(k, _). k \<notin> entity_key ` set new) (AList.delete (entity_key e) m)"
      using del by (auto simp: unchanged_in_def intro!: filter_cong)
    have "s = filter (\<lambda>(k, _). k \<notin> entity_key ` set (e # new)) m"
      unfolding ih(3) AList.delete_eq by (auto intro!: filter_cong)
    with ih(1,2) c Cons.prems(2) show ?case
      by (auto simp: unchanged_in_def split: option.splits if_splits)
  qed
  then show "set del = {o'. \<exists>e\<in>set new. map_of m (entity_key e) = Some o' \<and> ent_Digest e \<noteq> ent_Digest o'}"
    and "rep = filter (\<lambda>e. \<not> unchanged_in (map_of m) e) new"
    and "rest = filter (\<lambda>(k, _). k \<notin> entity_key ` set new) m" by auto
qed

lemma GetChanges_sets:
  assumes "distinct (map entity_key old)" "distinct (map entity_key new)"
    and "new = FetchEntitiesFromState (RemoveNullTagArtifacts s)"
    and "\<And>xs. mset (ord xs) = mset xs" "GetChanges ord s old = (del, rep, s')"
  shows "set del = {o' \<in> set old. \<forall>e\<in>set new. entity_key e = entity_key o' \<longrightarrow> ent_Digest e \<noteq> ent_Digest o'}"
    and "rep = filter (\<lambda>e. \<forall>o'\<in>set old. entity_key e = entity_key o' \<longrightarrow> ent_Digest e \<noteq> ent_Digest o') new"
    and "s' = RemoveNullTagArtifacts s"
proof -
  let ?m = "map (\<lambda>e. (entity_key e, e)) old"
  have look: "map_of ?m k = Some x \<longleftrightarrow> x \<in> set old \<and> entity_key x = k" for k x
    by (subst map_of_eq_Some_iff) (use assms(1) in \<open>auto simp: comp_def\<close>)
  obtain d r rest where c: "compare_new new ?m = (d, r, rest)" by (cases "compare_new new ?m") auto
  note cs = compare_new_sets[OF assms(2) c]
  have un: "unchanged_in (map_of ?m) e \<longleftrightarrow> (\<exists>o'\<in>set old. entity_key e = entity_key o' \<and> ent_Digest e = ent_Digest o')" for e
    unfolding unchanged_in_def look by metis
  have so: "set (ord xs) = set xs" for xs using assms(4)[of xs] by (metis set_mset_mset)
  have res: "old \<noteq> [] \<Longrightarrow> del = d @ ord (map snd rest) \<and> rep = r" "old = [] \<Longrightarrow> del = [] \<and> rep = new"
    "s' = RemoveNullTagArtifacts s"
    using assms(5) c
    by (auto simp: GetChanges_def Let_def assms(3)[symmetric] old_entity_map_distinct[OF assms(1)]
        split: if_splits prod.splits)
  show "s' = RemoveNullTagArtifacts s" by (rule res(3))
  show "rep = filter (\<lambda>e. \<forall>o'\<in>set old. entity_key e = entity_key o' \<longrightarrow> ent_Digest e \<noteq> ent_Digest o') new"
  proof (cases "old = []")
    case True
    with res(2) show ?thesis by simp
  next
    case False
    with res(1) cs(2) have "rep = filter (\<lambda>e. \<not> unchanged_in (map_of ?m) e) new" by simp
    also have "\<dots> = filter (\<lambda>e. \<forall>o'\<in>set old. entity_key e = entity_key o' \<longrightarrow> ent_Digest e \<noteq> ent_Digest o') new"
      unfolding un by (rule filter_cong[OF refl]) blast
    finally show ?thesis .
  qed
  have "set (map snd rest) = {o' \<in> set old. \<forall>e\<in>set new. entity_key e \<noteq> entity_key o'}"
    unfolding cs(3) by (auto simp: image_def filter_map comp_def)
  moreover have "set d = {o' \<in> set old. \<exists>e\<in>set new. entity_key e = entity_key o' \<and> ent_Digest e \<noteq> ent_Digest o'}"
    by (auto simp: cs(1) look) metis
  moreover have "entity_key e = entity_key o' \<Longrightarrow> entity_key e' = entity_key o' \<Longrightarrow> e = e'"
    if "e \<in> set new" "e' \<in> set new" for e e' o'
    using assms(2) that by (metis distinct_map inj_onD)
  ultimately show "set del = {o' \<in> set old. \<forall>e\<in>set new. entity_key e = entity_key o' \<longrightarrow> ent_Digest e \<noteq> ent_Digest o'}"
    using res(1,2) by (cases "old = []") (auto simp: so, metis)
qed

lemma GetChanges_content:
  assumes "distinct (map entity_key old)" "distinct (map entity_key new)" "keys_name_refs (old @ new)"
    and "new = FetchEntitiesFromState (RemoveNullTagArtifacts s)"
    and "\<And>xs. mset (ord xs) = mset xs" "GetChanges ord s old = (del, rep, s')"
  shows "apply_changes del rep (content_of old) = content_of new"
proof
  fix r
  note gs = GetChanges_sets[OF assms(1,2,4,5,6)]
  have dr: "distinct (map entity_key rep)" unfolding gs(2) using assms(2) by (rule distinct_map_filter)
  have kn: "keys_name_refs old" "keys_name_refs new" "keys_name_refs rep"
    by (rule keys_name_refs_mono[OF assms(3)], auto simp: gs(2))+
  note cold = content_of_Some[OF kn(1) assms(1)] and cnew = content_of_Some[OF kn(2) assms(2)]
  have k: "entity_key a = entity_key b \<longleftrightarrow> ent_ref a = ent_ref b" if "a \<in> set old \<union> set new" "b \<in> set old \<union> set new" for a b
    using assms(3) that unfolding keys_name_refs_def set_append by blast
  have "apply_changes del rep (content_of old) r = Some d \<longleftrightarrow> content_of new r = Some d" for d
  proof (cases "\<exists>e\<in>set rep. ent_ref e = r")
    case True
    then obtain e where e: "e \<in> set rep" "ent_ref e = r" by auto
    then have "content_of rep r = Some (ent_Digest e)" "content_of new r = Some (ent_Digest e)"
      using content_of_Some[OF kn(3) dr] cnew by (auto simp: gs(2))
    then show ?thesis by (simp add: apply_changes_def map_add_def)
  next
    case False
    then have rn: "content_of rep r = None" by (auto simp: content_of_None)
    have lhs: "apply_changes del rep (content_of old) r = Some d \<longleftrightarrow>
        r \<notin> ent_ref ` set del \<and> (\<exists>o'\<in>set old. ent_ref o' = r \<and> ent_Digest o' = d)"
      using cold[of r d] rn by (auto simp: apply_changes_def map_add_def)
    show ?thesis unfolding lhs cnew
    proof
      assume "r \<notin> ent_ref ` set del \<and> (\<exists>o'\<in>set old. ent_ref o' = r \<and> ent_Digest o' = d)"
      then obtain o' where o: "o' \<in> set old" "ent_ref o' = r" "ent_Digest o' = d" "o' \<notin> set del" by auto
      then obtain e where "e \<in> set new" "entity_key e = entity_key o'" "ent_Digest e = ent_Digest o'"
        by (auto simp: gs(1))
      with o k[of e o'] show "\<exists>e\<in>set new. ent_ref e = r \<and> ent_Digest e = d" by auto
    next
      assume "\<exists>e\<in>set new. ent_ref e = r \<and> ent_Digest e = d"
      then obtain e where e: "e \<in> set new" "ent_ref e = r" "ent_Digest e = d" by auto
      with False obtain o' where o: "o' \<in> set old" "entity_key e = entity_key o'" "ent_Digest e = ent_Digest o'"
        by (auto simp: gs(2))
      have "r \<notin> ent_ref ` set del"
      proof
        assume "r \<in> ent_ref ` set del"
        then obtain x where x: "x \<in> set del" "ent_ref x = r" by auto
        then have "x \<in> set old" "entity_key x = entity_key e" using e(1,2) k[of x e] by (auto simp: gs(1))
        with o(1,2) assms(1) have "x = o'" by (metis distinct_map inj_onD)
        with x(1) o e(1) show False by (auto simp: gs(1))
      qed
      moreover have "ent_ref o' = r" using k[of o' e] o e by simp
      ultimately show "r \<notin> ent_ref ` set del \<and> (\<exists>o'\<in>set old. ent_ref o' = r \<and> ent_Digest o' = d)"
        using o e by auto
    qed
  qed
  then show "apply_changes del rep (content_of old) r = content_of new r"
    by (metis not_None_eq)
qed

section \<open>Properties\<close>

text \<open>
  When no two old entities and no two new ones share their comparison key and equal keys
  mean the same image, then deleting and replicating what \<^verbatim>\<open>GetChanges\<close> returns turns a
  registry holding exactly the old entities into one holding exactly the tagged artifacts of
  the new state, whatever order Go's map iteration takes.
\<close>

theorem GetChanges_reconciles:
  assumes "distinct (map entity_key old)"
    and "distinct (map entity_key (FetchEntitiesFromState (RemoveNullTagArtifacts s)))"
    and "keys_name_refs (old @ FetchEntitiesFromState (RemoveNullTagArtifacts s))"
    and "\<And>xs. mset (ord xs) = mset xs"
    and "GetChanges ord s old = (del, rep, s')"
  shows "apply_changes del rep (content_of old) = content_of (FetchEntitiesFromState s') \<and>
         s' = RemoveNullTagArtifacts s"
  using GetChanges_content[OF assms(1,2,3) refl assms(4,5)] GetChanges_sets(3)[OF assms(1,2) refl assms(4,5)]
  by simp

definition sample_artifact :: "string \<Rightarrow> string list \<Rightarrow> string \<Rightarrow> artifact" where
  "sample_artifact name tags digest = (NewArtifact False ''lib'' tags digest ''IMAGE'')\<lparr>art_Name := name\<rparr>"

definition sample_entity :: "string \<Rightarrow> string \<Rightarrow> string \<Rightarrow> string \<Rightarrow> entity" where
  "sample_entity repo name tag digest =
     \<lparr>ent_Name = name, ent_Repository = repo, ent_Tag = tag, ent_Digest = digest\<rparr>"

theorem GetChanges_reconciles_witness:
  "let old = [sample_entity ''lib'' ''a'' ''1'' ''d1'', sample_entity ''lib'' ''b'' ''1'' ''d2''];
       s = \<lparr>st_Registry = ''r'', st_Artifacts = [sample_artifact ''a'' [''1'', ''2''] ''d3'', sample_artifact ''c'' [] ''d4'']\<rparr>
   in case GetChanges rev s old of (del, rep, s') \<Rightarrow>
        length del = 2 \<and> length rep = 2 \<and>
        apply_changes del rep (content_of old) = content_of (FetchEntitiesFromState s')"
proof -
  let ?old = "[sample_entity ''lib'' ''a'' ''1'' ''d1'', sample_entity ''lib'' ''b'' ''1'' ''d2'']"
  let ?s = "\<lparr>st_Registry = ''r'', st_Artifacts = [sample_artifact ''a'' [''1'', ''2''] ''d3'', sample_artifact ''c'' [] ''d4'']\<rparr>"
  obtain del rep s' where g: "GetChanges rev ?s ?old = (del, rep, s')" by (cases "GetChanges rev ?s ?old") auto
  have n: "FetchEntitiesFromState (RemoveNullTagArtifacts ?s) =
      [sample_entity ''lib'' ''a'' ''1'' ''d3'', sample_entity ''lib'' ''a'' ''2'' ''d3'']"
    by code_simp
  have "distinct (map entity_key ?old)" "keys_name_refs (?old @ FetchEntitiesFromState (RemoveNullTagArtifacts ?s))"
    "distinct (map entity_key (FetchEntitiesFromState (RemoveNullTagArtifacts ?s)))"
    unfolding n by (simp_all add: entity_key_def sample_entity_def keys_name_refs_def ent_ref_def)
  then have "apply_changes del rep (content_of ?old) = content_of (FetchEntitiesFromState s')"
    using GetChanges_reconciles[of ?old ?s rev del rep s'] g by simp
  moreover have "length del = 2 \<and> length rep = 2"
  proof -
    have "(case GetChanges rev ?s ?old of (d, r, _) \<Rightarrow> length d = 2 \<and> length r = 2)" by code_simp
    with g show ?thesis by simp
  qed
  ultimately show ?thesis by (simp add: g)
qed

text \<open>
  The comparison key ignores the repository: an image that moves to another repository with
  name, tag and digest unchanged is neither replicated to its new place nor deleted from its
  old one, so the registry keeps the old content.
\<close>

lemma GetChanges_misses_repository:
  "let old = [sample_entity ''old'' ''app'' ''1'' ''d''];
       new = \<lparr>st_Registry = ''r'', st_Artifacts =
               [(NewArtifact False ''new'' [''1''] ''d'' ''IMAGE'')\<lparr>art_Name := ''app''\<rparr>]\<rparr>
   in GetChanges ord new old = (ord [], [], new) \<and>
      content_of (FetchEntitiesFromState new) ''new/app:1'' = Some ''d'' \<and>
      content_of old ''new/app:1'' = None"
  by (simp add: GetChanges_def RemoveNullTagArtifacts_def FetchEntitiesFromState_def GetArtifacts_def
      SetArtifacts_def NewArtifact_def sample_entity_def old_entity_map_def entity_key_def content_of_def ent_ref_def)

lemma split_join_repo:
  "GetRepositoryAndImageNameFromArtifact r = Inr (repo, img) \<Longrightarrow> repo @ ''/'' @ img = r \<and> CHR ''/'' \<notin> set repo"
proof -
  assume g: "GetRepositoryAndImageNameFromArtifact r = Inr (repo, img)"
  then obtain p q ps where sp: "split_on CHR ''/'' r = p # q # ps" and ri: "repo = p" "img = join ''/'' (q # ps)"
    by (cases "split_on CHR ''/'' r"; cases "tl (split_on CHR ''/'' r)")
       (auto simp: GetRepositoryAndImageNameFromArtifact_def Let_def split: if_splits)
  have "join ''/'' (p # q # ps) = r" using join_split_on[of "CHR ''/''" r] sp by simp
  moreover have "CHR ''/'' \<notin> set p" using split_on_parts[of p "CHR ''/''" r] sp by simp
  ultimately show ?thesis using ri by simp
qed

lemma process_artifacts_refs:
  "process_artifacts as = Inr as' \<Longrightarrow>
   list_all2 (\<lambda>a a'. art_Repository a' @ ''/'' @ art_Name a' = art_Repository a \<and> CHR ''/'' \<notin> set (art_Repository a') \<and>
     art_Tags a' = art_Tags a \<and> art_Digest a' = art_Digest a) as as'"
  by (induction as arbitrary: as') (auto split: sum.splits prod.splits dest!: split_join_repo)

lemma process_artifacts_ok:
  "is_ok (process_artifacts as) \<longleftrightarrow> (\<forall>a\<in>set as. CHR ''/'' \<in> set (art_Repository a))"
proof (induction as)
  case (Cons a as)
  have "length (split_on CHR ''/'' r) < 2 \<longleftrightarrow> CHR ''/'' \<notin> set r" for r :: string
    by (induction r) (auto split: list.splits)
  then have "is_ok (GetRepositoryAndImageNameFromArtifact r) \<longleftrightarrow> CHR ''/'' \<in> set r" for r
    by (simp add: GetRepositoryAndImageNameFromArtifact_def Let_def)
  from this[of "art_Repository a"] show ?case using Cons.IH
    by (cases "GetRepositoryAndImageNameFromArtifact (art_Repository a)"; cases "process_artifacts as")
       (auto split: prod.splits)
qed simp

text \<open>
  Processing a fetched state succeeds exactly when every repository has a project part; it
  then splits each repository into project and image name without losing anything (the parts
  joined by a slash are the repository, and the project has no slash) and keeps tags and digests.
\<close>

theorem ProcessState_splits:
  "(is_ok (ProcessState s) \<longleftrightarrow> (\<forall>a. a \<in> set (st_Artifacts s) \<longrightarrow> CHR ''/'' \<in> set (art_Repository a))) \<and>
   (\<forall>s'. ProcessState s = Inr s' \<longrightarrow>
      list_all2 (\<lambda>a a'. art_Repository a' @ ''/'' @ art_Name a' = art_Repository a \<and>
          CHR ''/'' \<notin> set (art_Repository a') \<and> art_Tags a' = art_Tags a \<and> art_Digest a' = art_Digest a)
        (st_Artifacts s) (st_Artifacts s'))"
  using process_artifacts_ok[of "st_Artifacts s"] process_artifacts_refs[of "st_Artifacts s"]
  by (auto simp: ProcessState_def GetArtifacts_def is_ok_iff split: sum.splits)

theorem ProcessState_splits_witness:
  "ProcessState \<lparr>st_Registry = ''r'', st_Artifacts = [NewArtifact False ''lib/team/app'' [''1''] ''d'' ''IMAGE'']\<rparr> =
     Inr \<lparr>st_Registry = ''r'', st_Artifacts = [(NewArtifact False ''lib'' [''1''] ''d'' ''IMAGE'')\<lparr>art_Name := ''team/app''\<rparr>]\<rparr> \<and>
   list_all2 (\<lambda>a a'. art_Repository a' @ ''/'' @ art_Name a' = art_Repository a)
     [NewArtifact False ''lib/team/app'' [''1''] ''d'' ''IMAGE'']
     [(NewArtifact False ''lib'' [''1''] ''d'' ''IMAGE'')\<lparr>art_Name := ''team/app''\<rparr>]"
proof -
  let ?s = "\<lparr>st_Registry = ''r'', st_Artifacts = [NewArtifact False ''lib/team/app'' [''1''] ''d'' ''IMAGE'']\<rparr>"
  have "ProcessState ?s =
     Inr \<lparr>st_Registry = ''r'', st_Artifacts = [(NewArtifact False ''lib'' [''1''] ''d'' ''IMAGE'')\<lparr>art_Name := ''team/app''\<rparr>]\<rparr>"
    by code_simp
  with conjunct2[OF ProcessState_splits[of ?s]] show ?thesis by auto
qed

lemma list_ex_url: "list_ex (\<lambda>sm. sm_url sm = s) sms \<longleftrightarrow> s \<in> sm_url ` set sms"
  by (auto simp: list_ex_iff)

lemma contains_iff [simp]: "contains xs x \<longleftrightarrow> x \<in> set xs"
  by (auto simp: contains_def list_ex_iff)

lemma url_NewStateMap [simp]: "sm_url ` set (NewStateMap urls) = set urls" "map sm_url (NewStateMap urls) = urls"
  by (simp_all add: NewStateMap_def image_image comp_def)

lemma updateStateMap_fst:
  "fst (updateStateMap states sms) = filter (\<lambda>sm. sm_url sm \<in> set states) sms @
     NewStateMap (filter (\<lambda>s. s \<notin> sm_url ` set sms) states)"
  by (simp add: updateStateMap_def Let_def list_ex_url)

lemma updateStateMap_snd: "snd (updateStateMap states sms) \<longleftrightarrow> sm_url ` set sms \<noteq> set states"
  by (auto simp: updateStateMap_def Let_def list_ex_url filter_empty_conv)

lemma updateStateMap_urls: "sm_url ` set (fst (updateStateMap states sms)) = set states"
  unfolding updateStateMap_fst set_append image_Un url_NewStateMap by auto

lemma filter_old_NewStateMap: "filter (\<lambda>sm. P (sm_url sm)) (NewStateMap urls) = NewStateMap (filter P urls)"
  by (simp add: NewStateMap_def filter_map comp_def)

lemma updateStateMap_settled:
  assumes "sm_url ` set sms = set states"
  shows "updateStateMap states sms = (sms, False)"
proof (rule prod_eqI)
  have "filter (\<lambda>sm. sm_url sm \<in> set states) sms = sms" "filter (\<lambda>s. s \<notin> sm_url ` set sms) states = []"
    using assms by (auto simp: filter_id_conv filter_empty_conv)
  then show "fst (updateStateMap states sms) = fst (sms, False)"
    unfolding updateStateMap_fst by (simp add: NewStateMap_def)
qed (use assms updateStateMap_snd in auto)

text \<open>
  Updating the groups of a satellite: afterwards the tracked URLs are exactly the assigned
  ones; the groups tracked before and still assigned keep their entries in order (so their
  replicated entities are not forgotten); a new group starts with nothing replicated; the
  change flag is raised exactly when the set of URLs changed; a second update with the same
  list does nothing.
\<close>

theorem updateStateMap_correct:
  "case updateStateMap states sms of (sms', changed) \<Rightarrow>
     sm_url ` set sms' = set states \<and>
     filter (\<lambda>sm. sm_url sm \<in> sm_url ` set sms) sms' = filter (\<lambda>sm. sm_url sm \<in> set states) sms \<and>
     filter (\<lambda>sm. sm_url sm \<notin> sm_url ` set sms) sms' = NewStateMap (filter (\<lambda>s. s \<notin> sm_url ` set sms) states) \<and>
     (changed \<longleftrightarrow> sm_url ` set sms \<noteq> set states) \<and>
     updateStateMap states sms' = (sms', False)"
proof -
  let ?s = "fst (updateStateMap states sms)"
  have old: "filter (\<lambda>sm. sm_url sm \<in> sm_url ` set sms) ?s = filter (\<lambda>sm. sm_url sm \<in> set states) sms"
    unfolding updateStateMap_fst filter_append filter_old_NewStateMap
    by (auto simp: NewStateMap_def intro!: filter_cong)
  have new: "filter (\<lambda>sm. sm_url sm \<notin> sm_url ` set sms) ?s = NewStateMap (filter (\<lambda>s. s \<notin> sm_url ` set sms) states)"
    unfolding updateStateMap_fst filter_append
    by (simp add: filter_empty_conv filter_old_NewStateMap[where P = "\<lambda>u. u \<notin> sm_url ` set sms"])
  from old new updateStateMap_urls[of states sms] updateStateMap_snd[of states sms]
    updateStateMap_settled[OF updateStateMap_urls[of states sms]]
  show ?thesis by (simp add: case_prod_beta)
qed

end
