(* ===== verification/Reporting.thy ===== *)
theory Reporting
  imports Registration Sync_Data
begin

text \<open>
  \<^verbatim>\<open>internal/satellite/state/report.go\<close>, \<^verbatim>\<open>reporting_process.go\<close> and \<^verbatim>\<open>catalog.go\<close>: the status reports of a
  satellite. What the host and the local registry answer, and the encoding of a report, are
  parameters (\<open>rep_env\<close>); so are the operations on \<^verbatim>\<open>float64\<close>, of any type. Sizes are 64-bit integers: \<open>signed_take_bit 63\<close> is
  Go's wrap-around.
\<close>

section \<open>Cached images\<close>

record local_image =
  li_Reference :: string
  li_SizeBytes :: int

record 'f f64 =
  f64_zero :: 'f
  f64_add :: "'f \<Rightarrow> 'f \<Rightarrow> 'f"
  f64_div :: "'f \<Rightarrow> 'f \<Rightarrow> 'f"
  f64_of :: "nat \<Rightarrow> 'f"

record 'f status_report =
  sr_Name :: string
  sr_Activity :: string
  sr_StateReportInterval :: string
  sr_LatestStateDigest :: string
  sr_LatestConfigDigest :: string
  sr_MemoryUsedBytes :: int
  sr_StorageUsedBytes :: int
  sr_CPUPercent :: 'f
  sr_RequestCreatedTime :: int
  sr_LastSyncDurationMs :: int
  sr_ImageCount :: int
  sr_CachedImages :: "local_image list"

record 'f rep_env =
  rp_reg :: reg_env
  rp_f64 :: "'f f64"
  rp_cpu :: "nat \<Rightarrow> 'f list result"
    \<comment> \<open>the \<open>n\<close>th sample of the processor\<close>
  rp_cancelled :: "nat \<Rightarrow> bool"
    \<comment> \<open>whether the context is done before the \<open>n\<close>th sample\<close>
  rp_memory :: "int result"
  rp_storage :: "string \<Rightarrow> int result"
  rp_get :: "client_request \<Rightarrow> client_response result"
    \<comment> \<open>a plain HTTP client, for the local registry\<close>
  rp_close :: "string \<Rightarrow> string option"
    \<comment> \<open>the error of closing the body that came from this URL\<close>
  rp_catalog :: "string \<Rightarrow> string list result"
  rp_tags :: "string \<Rightarrow> string list result"
  rp_manifest :: "bool \<Rightarrow> string \<Rightarrow> string result"
  rp_mediaType :: "string \<Rightarrow> string result"
  rp_sizes :: "string \<Rightarrow> (int \<times> int list) result"
    \<comment> \<open>the sizes of the configuration and of the layers in a manifest\<close>
  rp_sha256 :: "string \<Rightarrow> string"
  rp_marshal :: "'f status_report \<Rightarrow> string result"
  rp_now :: int

definition registryScheme :: "bool \<Rightarrow> string" where
  "registryScheme insecure = (if insecure then ''http'' else ''https'')"

definition join_close :: "string option \<Rightarrow> 'a result \<Rightarrow> 'a result" where
  \<comment> \<open>\<^verbatim>\<open>retErr = errors.Join(retErr, resp.Body.Close())\<close>\<close>
  "join_close c r =
     (case c of None \<Rightarrow> r | Some err \<Rightarrow> Inl (case r of Inl e \<Rightarrow> e @ ''\<newline>'' @ err | Inr _ \<Rightarrow> err))"

definition fetch_list :: "'f rep_env \<Rightarrow> string \<Rightarrow> (string \<Rightarrow> string list result) \<Rightarrow> string \<Rightarrow> string list result" where
  \<comment> \<open>the common body of \<^verbatim>\<open>fetchCatalog\<close> and \<^verbatim>\<open>fetchTags\<close>\<close>
  "fetch_list R what decode u =
     (case NewRequest ''GET'' u [] of
        Inl err \<Rightarrow> Inl (''create '' @ what @ '' request: '' @ err)
      | Inr req \<Rightarrow>
        (case rp_get R req of
           Inl err \<Rightarrow> Inl (what @ '' request: '' @ err)
         | Inr resp \<Rightarrow>
             join_close (rp_close R u)
               (if cr_StatusCode resp \<noteq> 200 then Inl (what @ '' request returned '' @ cr_Status resp)
                else (case decode (cr_Body resp) of Inl err \<Rightarrow> Inl (''decode '' @ what @ '': '' @ err) | Inr l \<Rightarrow> Inr l))))"

definition fetchCatalog :: "'f rep_env \<Rightarrow> string \<Rightarrow> bool \<Rightarrow> string list result" where
  "fetchCatalog R registryHost insecure =
     fetch_list R ''catalog'' (rp_catalog R) (registryScheme insecure @ ''://'' @ registryHost @ ''/v2/_catalog'')"

definition fetchTags :: "'f rep_env \<Rightarrow> string \<Rightarrow> string \<Rightarrow> bool \<Rightarrow> string list result" where
  "fetchTags R registryHost repo insecure =
     fetch_list R ''tags'' (rp_tags R) (registryScheme insecure @ ''://'' @ registryHost @ ''/v2/'' @ repo @ ''/tags/list'')"

definition index_types :: "string list" where
  "index_types = [''application/vnd.oci.image.index.v1+json'', ''application/vnd.docker.distribution.manifest.list.v2+json'']"

definition computeManifestSize :: "'f rep_env \<Rightarrow> string \<Rightarrow> int result" where
  "computeManifestSize R raw =
     (case rp_mediaType R raw of
        Inl err \<Rightarrow> Inl (''unmarshal manifest: '' @ err)
      | Inr mt \<Rightarrow>
          if mt \<in> set index_types then Inl ''multi-arch manifest index not supported for size computation''
          else (case rp_sizes R raw of
                  Inl err \<Rightarrow> Inl (''unmarshal manifest: '' @ err)
                | Inr (config, layers) \<Rightarrow>
                    Inr (foldl (\<lambda>acc n. signed_take_bit 63 (acc + n)) (signed_take_bit 63 config) layers)))"

definition collectImageInfo :: "'f rep_env \<Rightarrow> bool \<Rightarrow> string \<Rightarrow> local_image result" where
  "collectImageInfo R insecure ref =
     (case rp_manifest R insecure ref of
        Inl err \<Rightarrow> Inl (''get manifest for '' @ ref @ '': '' @ err)
      | Inr raw \<Rightarrow>
        (case computeManifestSize R raw of
           Inl err \<Rightarrow> Inl (''compute size for '' @ ref @ '': '' @ err)
         | Inr n \<Rightarrow> Inr \<lparr>li_Reference = ref @ ''@sha256:'' @ rp_sha256 R raw, li_SizeBytes = n\<rparr>))"

definition repo_images :: "'f rep_env \<Rightarrow> string \<Rightarrow> bool \<Rightarrow> string \<Rightarrow> local_image list" where
  \<comment> \<open>the images of one repository; what cannot be read is skipped\<close>
  "repo_images R registryHost insecure repo =
     (case fetchTags R registryHost repo insecure of
        Inl _ \<Rightarrow> []
      | Inr tags \<Rightarrow> List.map_filter (\<lambda>tag. case collectImageInfo R insecure (registryHost @ ''/'' @ repo @ '':'' @ tag) of
                                    Inl _ \<Rightarrow> None | Inr img \<Rightarrow> Some img) tags)"

definition collectCachedImages :: "'f rep_env \<Rightarrow> string \<Rightarrow> bool \<Rightarrow> local_image list result" where
  "collectCachedImages R registryHost insecure =
     (case fetchCatalog R registryHost insecure of
        Inl err \<Rightarrow> Inl (''fetch catalog: '' @ err)
      | Inr repos \<Rightarrow> Inr (concat (map (repo_images R registryHost insecure) repos)))"

section \<open>Measurements\<close>

fun cpu_loop :: "'f rep_env \<Rightarrow> nat \<Rightarrow> nat \<Rightarrow> 'f \<Rightarrow> nat \<Rightarrow> 'f \<times> nat" where
  "cpu_loop R i 0 tot cnt = (tot, cnt)"
| "cpu_loop R i (Suc n) tot cnt =
     (if rp_cancelled R i then (tot, cnt)
      else case rp_cpu R i of
        Inr (p # _) \<Rightarrow> cpu_loop R (Suc i) n (f64_add (rp_f64 R) tot p) (Suc cnt)
      | _ \<Rightarrow> cpu_loop R (Suc i) n tot cnt)"

definition getAvgCPUUsage :: "'f rep_env \<Rightarrow> int \<Rightarrow> int \<Rightarrow> 'f" where
  "getAvgCPUUsage R sampleInterval totalDuration =
     (let F = rp_f64 R in
      if totalDuration \<le> 0 \<or> sampleInterval \<le> 0 then f64_zero F
      else let samples = nat (max 1 (totalDuration div sampleInterval));
               (tot, cnt) = cpu_loop R 0 samples (f64_zero F) 0
           in if cnt = 0 then f64_zero F else f64_div F tot (f64_of F cnt))"

definition getMemoryUsedBytes :: "'f rep_env \<Rightarrow> int" where
  "getMemoryUsedBytes R = (case rp_memory R of Inl _ \<Rightarrow> 0 | Inr v \<Rightarrow> v)"

definition getStorageUsedBytes :: "'f rep_env \<Rightarrow> string \<Rightarrow> int" where
  "getStorageUsedBytes R path = (case rp_storage R path of Inl _ \<Rightarrow> 0 | Inr v \<Rightarrow> v)"

definition cpu_sample_interval :: int where "cpu_sample_interval = 500000000"

definition collectStatusReportParams ::
  "'f rep_env \<Rightarrow> int \<Rightarrow> metrics_config \<Rightarrow> string \<Rightarrow> bool \<Rightarrow> 'f status_report \<Rightarrow> 'f status_report" where
  "collectStatusReportParams R heartbeatInterval cfg registryURL insecure req =
     (let req = (if mt_CollectCPU cfg then req\<lparr>sr_CPUPercent := getAvgCPUUsage R cpu_sample_interval heartbeatInterval\<rparr> else req);
          req = (if mt_CollectMemory cfg then req\<lparr>sr_MemoryUsedBytes := getMemoryUsedBytes R\<rparr> else req);
          req = (if mt_CollectStorage cfg then req\<lparr>sr_StorageUsedBytes := getStorageUsedBytes R ''/''\<rparr> else req)
      in if registryURL = [] then req
         else case collectCachedImages R registryURL insecure of
           Inl _ \<Rightarrow> req
         | Inr cached \<Rightarrow> req\<lparr>sr_CachedImages := cached, sr_ImageCount := int (length cached)\<rparr>)"

fun name_after :: "string list \<Rightarrow> string option" where
  "name_after (p # q # parts) = (if p = ''satellite-state'' then Some q else name_after (q # parts))"
| "name_after _ = None"

definition extractSatelliteNameFromURL :: "string \<Rightarrow> string result" where
  "extractSatelliteNameFromURL stateURL =
     (case url_Parse stateURL of
        Inl err \<Rightarrow> Inl (''parse state URL: '' @ err)
      | Inr parsed \<Rightarrow>
        (case name_after (split_on CHR ''/'' (trim_with (\<lambda>c. c = CHR ''/'') (u_Path parsed))) of
           Some name \<Rightarrow> Inr name
         | None \<Rightarrow> Inl (''could not extract satellite name from URL path: '' @ u_Path parsed)))"

section \<open>The reporting process\<close>

record cri_result =
  cri_CRI :: string
  cri_BackupPath :: string
  cri_Success :: bool
  cri_Error :: string

record rep_process =
  rs_isRunning :: bool
  rs_cm :: config_manager
  rs_spiffeClient :: "spiffe_client option"
  rs_pendingCRI :: "cri_result list"
  rs_criReported :: bool
  rs_sent :: "(client_request \<times> client_response result) list"
    \<comment> \<open>the requests handed to the network, with their outcomes\<close>

definition StatusReportRoute :: string where "StatusReportRoute = ''satellites/sync''"

definition NewStatusReportingProcess :: "workload_api \<Rightarrow> config_manager \<Rightarrow> rep_process" where
  "NewStatusReportingProcess A cm =
     \<lparr>rs_isRunning = False, rs_cm = cm,
      rs_spiffeClient = (if IsSPIFFEEnabled cm
        then (case NewClient A (GetSPIFFEConfig cm) of Inl _ \<Rightarrow> None | Inr c \<Rightarrow> Some c) else None),
      rs_pendingCRI = [], rs_criReported = False, rs_sent = []\<rparr>"

definition SetPendingCRIResults :: "cri_result list \<Rightarrow> rep_process \<Rightarrow> rep_process" where
  "SetPendingCRIResults results p = p\<lparr>rs_pendingCRI := results\<rparr>"

definition cri_entry :: "cri_result \<Rightarrow> string" where
  "cri_entry r = cri_CRI r @ ''('' @ (if cri_Success r then ''ok'' else ''err:'' @ cri_Error r) @
     (if cri_BackupPath r \<noteq> [] then '', backup:'' @ cri_BackupPath r else []) @ '')''"

definition formatCRIActivity :: "cri_result list \<Rightarrow> string" where
  "formatCRIActivity results = ''cri_fallback_configured: '' @ join '', '' (map cri_entry results)"

definition report_client :: "reg_env \<Rightarrow> rep_process \<Rightarrow> rep_process \<times> http_client result" where
  "report_client E p =
     (case rs_spiffeClient p of
        Some c \<Rightarrow>
          (case Connect (re_workload E) c of
             (c', Inl err) \<Rightarrow> (p\<lparr>rs_spiffeClient := Some c'\<rparr>, Inl (''connect to SPIRE agent: '' @ err))
           | (c', Inr _) \<Rightarrow>
               (p\<lparr>rs_spiffeClient := Some c'\<rparr>,
                case CreateHTTPClient c' of Inl err \<Rightarrow> Inl (''create SPIFFE HTTP client: '' @ err) | Inr h \<Rightarrow> Inr h))
      | None \<Rightarrow>
          (p, case createHTTPClient (re_pki E) (GetTLSConfig (rs_cm p)) (UseUnsecure (rs_cm p)) of
                Inl err \<Rightarrow> Inl (''create HTTP client: '' @ err) | Inr h \<Rightarrow> Inr h))"

definition report_credentials :: "rep_process \<Rightarrow> string \<Rightarrow> (string \<times> string) option result" where
  \<comment> \<open>the Basic authorization of a report, without a SPIFFE client\<close>
  "report_credentials p syncURL =
     (if rs_spiffeClient p \<noteq> None then Inr None
      else if \<not> UseUnsecure (rs_cm p) \<and> \<not> hasPrefix syncURL ''https://''
      then Inl (''insecure connection: sync URL '' @ syncURL @ '' must use HTTPS when use_unsecure is false'')
      else let username = GetSourceRegistryUsername (rs_cm p); password = GetSourceRegistryPassword (rs_cm p)
           in Inr (if username \<noteq> [] \<and> password \<noteq> [] then Some (username, password) else None))"

definition send_request :: "reg_env \<Rightarrow> http_client \<Rightarrow> client_request \<Rightarrow> rep_process \<Rightarrow> rep_process \<times> unit result" where
  "send_request E client req p =
     (let outcome = re_do E client req in
      (p\<lparr>rs_sent := rs_sent p @ [(req, outcome)]\<rparr>,
       case outcome of
         Inl err \<Rightarrow> Inl (''send request: '' @ err)
       | Inr resp \<Rightarrow> if cr_StatusCode resp \<noteq> 200 then Inl (''status report failed: '' @ cr_Status resp) else Inr ()))"

definition sendStatusReport :: "'f rep_env \<Rightarrow> string \<Rightarrow> 'f status_report \<Rightarrow> rep_process \<Rightarrow> rep_process \<times> unit result" where
  "sendStatusReport R groundControlURL req p =
     (case rp_marshal R req of
        Inl err \<Rightarrow> (p, Inl (''marshal status report: '' @ err))
      | Inr body \<Rightarrow>
        (let syncURL = groundControlURL @ ''/'' @ StatusReportRoute in
         case report_client (rp_reg R) p of
           (p, Inl err) \<Rightarrow> (p, Inl err)
         | (p, Inr client) \<Rightarrow>
           (case NewRequest ''POST'' syncURL body of
              Inl err \<Rightarrow> (p, Inl (''create request: '' @ err))
            | Inr httpReq \<Rightarrow>
              (case report_credentials p syncURL of
                 Inl err \<Rightarrow> (p, Inl err)
               | Inr auth \<Rightarrow> send_request (rp_reg R) client (httpReq\<lparr>cq_BasicAuth := auth\<rparr>) p))))"

definition hasPendingCRI :: "rep_process \<Rightarrow> bool" where
  "hasPendingCRI p = (\<not> rs_criReported p \<and> rs_pendingCRI p \<noteq> [])"

definition report_of :: "'f rep_env \<Rightarrow> string \<Rightarrow> int \<Rightarrow> rep_process \<Rightarrow> 'f status_report" where
  \<comment> \<open>the report that \<^verbatim>\<open>Execute\<close> assembles\<close>
  "report_of R satelliteName heartbeatDuration p =
     (let cm = rs_cm p in
      collectStatusReportParams R heartbeatDuration (GetMetricsConfig cm) (FormatRegistryURL (GetLocalRegistryURL cm)) (UseUnsecure cm)
        \<lparr>sr_Name = satelliteName, sr_Activity = (if hasPendingCRI p then formatCRIActivity (rs_pendingCRI p) else []),
         sr_StateReportInterval = GetHeartbeatInterval cm, sr_LatestStateDigest = [], sr_LatestConfigDigest = [],
         sr_MemoryUsedBytes = 0, sr_StorageUsedBytes = 0, sr_CPUPercent = f64_zero (rp_f64 R), sr_RequestCreatedTime = rp_now R,
         sr_LastSyncDurationMs = 0, sr_ImageCount = 0, sr_CachedImages = []\<rparr>)"

definition report_body :: "'f rep_env \<Rightarrow> rep_process \<Rightarrow> rep_process \<times> unit result" where
  \<comment> \<open>\<^verbatim>\<open>Execute\<close> between \<^verbatim>\<open>start\<close> and \<^verbatim>\<open>stop\<close>\<close>
  "report_body R p =
     (let cm = rs_cm p in
      if GetStateURL cm = [] then (p, Inr ())
      else case extractSatelliteNameFromURL (GetStateURL cm) of
        Inl err \<Rightarrow> (p, Inl err)
      | Inr satelliteName \<Rightarrow>
        (let heartbeatDuration = (case parseEveryExpr (GetHeartbeatInterval cm) of Inl _ \<Rightarrow> 30000000000 | Inr d \<Rightarrow> d) in
         case sendStatusReport R (ResolveGroundControlURL cm) (report_of R satelliteName heartbeatDuration p) p of
           (p', Inl err) \<Rightarrow> (p', Inl err)
         | (p', Inr _) \<Rightarrow>
             (if hasPendingCRI p then p'\<lparr>rs_criReported := True, rs_pendingCRI := []\<rparr> else p', Inr ())))"

definition report_start :: "rep_process \<Rightarrow> rep_process" where "report_start p = p\<lparr>rs_isRunning := True\<rparr>"
definition report_stop :: "rep_process \<Rightarrow> rep_process" where "report_stop p = p\<lparr>rs_isRunning := False\<rparr>"

definition report_Execute :: "'f rep_env \<Rightarrow> rep_process \<Rightarrow> rep_process \<times> unit result" where
  "report_Execute R p = (case report_body R (report_start p) of (p', r) \<Rightarrow> (report_stop p', r))"

definition report_ops :: "'f itself \<Rightarrow> rep_process process_ops" where
  "report_ops T = \<lparr>po_Name = StatusReportJobName, po_start = report_start, po_stop = report_stop,
     po_work = (\<lambda>p p'. \<exists>(R :: 'f rep_env) r. report_body R p = (p', r)),
     po_background = (\<lambda>_ _. False),
     po_IsRunning = rs_isRunning, po_IsComplete = (\<lambda>_. False)\<rparr>"

section \<open>Facts\<close>

lemma split_state_path:
  assumes "CHR ''/'' \<notin> set name"
  shows "split_on CHR ''/'' (''satellite/satellite-state/'' @ name @ ''/state:latest'') =
    [''satellite'', ''satellite-state'', name, ''state:latest'']"
proof -
  have "split_on CHR ''/'' (name @ CHR ''/'' # ''state:latest'') = [name, ''state:latest'']"
    using assms by (subst split_on_append_sep) (simp add: split_on_no_sep)
  then show ?thesis by simp
qed

lemma trim_state_path:
  "trim_with (\<lambda>c. c = CHR ''/'') (''/satellite/satellite-state/'' @ name @ ''/state:latest'') =
     ''satellite/satellite-state/'' @ name @ ''/state:latest''"
  by (simp add: trim_with_def)

lemma extract_assembled:
  assumes "good_scheme s" "good_host h" "plain name" "CHR ''/'' \<notin> set name"
  shows "extractSatelliteNameFromURL (abs_url s h (''/satellite/satellite-state/'' @ name @ ''/state:latest'')) = Inr name"
proof -
  let ?p = "''/satellite/satellite-state/'' @ name @ ''/state:latest''"
  have "plain ''/satellite/satellite-state/''" "plain ''/state:latest''" by (simp_all add: plain_def is_ctl_def)
  then have "good_path ?p" using assms(3) unfolding good_path_def plain_append by simp
  then have p: "url_Parse (abs_url s h ?p) = Inr (empty_url\<lparr>u_Scheme := s, u_Host := h, u_Path := ?p\<rparr>)"
    using assms(1,2) by (intro parse_abs) simp_all
  show ?thesis
    unfolding extractSatelliteNameFromURL_def p using trim_state_path[of name] split_state_path[OF assms(4)] by simp
qed

lemma report_client_keeps:
  "report_client E p = (p', r) \<Longrightarrow> \<exists>c. p' = p\<lparr>rs_spiffeClient := c\<rparr> \<and> (c = None \<longleftrightarrow> rs_spiffeClient p = None)"
  by (cases "rs_spiffeClient p") (auto simp: report_client_def split: prod.splits sum.splits)

lemma sendStatusReport_cases:
  assumes "sendStatusReport R u req p = (p', r)"
  obtains c sent where "p' = p\<lparr>rs_spiffeClient := c, rs_sent := rs_sent p @ sent\<rparr>" "sent = [] \<Longrightarrow> r \<noteq> Inr ()"
    "length sent \<le> 1"
    "\<And>q out. (q, out) \<in> set sent \<Longrightarrow> cq_URL q = u @ ''/'' @ StatusReportRoute \<and> rp_marshal R req = Inr (cq_Body q) \<and>
       report_credentials p (cq_URL q) = Inr (cq_BasicAuth q)"
proof (cases "\<exists>body client. rp_marshal R req = Inr body \<and> snd (report_client (rp_reg R) p) = Inr client")
  case False
  then show ?thesis using assms report_client_keeps[of "rp_reg R" p]
    by (intro that[where c = "rs_spiffeClient p'" and sent = "[]"]) (auto simp: sendStatusReport_def Let_def split: sum.splits prod.splits)
next
  case True
  then obtain body client c where b: "rp_marshal R req = Inr body"
    and c: "report_client (rp_reg R) p = (p\<lparr>rs_spiffeClient := c\<rparr>, Inr client)" "c = None \<longleftrightarrow> rs_spiffeClient p = None"
    using report_client_keeps[of "rp_reg R" p] by (metis prod.collapse)
  have cred: "report_credentials (p\<lparr>rs_spiffeClient := c\<rparr>) x = report_credentials p x" for x
    using c(2) by (simp add: report_credentials_def)
  define su where "su = u @ ''/'' @ StatusReportRoute"
  let ?p = "p\<lparr>rs_spiffeClient := c\<rparr>"
  let ?q = "\<lambda>a. \<lparr>cq_Method = ''POST'', cq_URL = su, cq_BasicAuth = a, cq_Body = body\<rparr>"
  have eq: "(p', r) = (case NewRequest ''POST'' su body of Inl err \<Rightarrow> (?p, Inl (''create request: '' @ err))
     | Inr h \<Rightarrow> (case report_credentials ?p su of Inl err \<Rightarrow> (?p, Inl err)
         | Inr a \<Rightarrow> send_request (rp_reg R) client (h\<lparr>cq_BasicAuth := a\<rparr>) ?p))"
    using assms[unfolded sendStatusReport_def su_def[symmetric]] b c(1) by (simp add: Let_def)
  show ?thesis
  proof (cases "\<exists>a h. url_Parse su = Inr h \<and> report_credentials p su = Inr a")
    case False
    then have "p' = ?p \<and> r \<noteq> Inr ()"
      using eq by (cases "url_Parse su"; cases "report_credentials p su") (simp_all add: NewRequest_def cred)
    then show ?thesis by (intro that[where c = c and sent = "[]"]) simp_all
  next
    case True
    then obtain a where a: "report_credentials p su = Inr a"
      "(p', r) = send_request (rp_reg R) client (?q a) ?p" using eq by (auto simp: NewRequest_def cred)
    then have "p' = ?p\<lparr>rs_sent := rs_sent p @ [(?q a, re_do (rp_reg R) client (?q a))]\<rparr>"
      by (simp add: send_request_def Let_def)
    then show ?thesis using b a(1)
      by (intro that[where c = c and sent = "[(?q a, re_do (rp_reg R) client (?q a))]"]) (simp_all add: su_def)
  qed
qed

definition sound_report :: "rep_process \<Rightarrow> client_request \<Rightarrow> bool" where
  "sound_report p q = (cq_URL q = ResolveGroundControlURL (rs_cm p) @ ''/'' @ StatusReportRoute \<and>
     report_credentials p (cq_URL q) = Inr (cq_BasicAuth q))"

lemma report_body_cases:
  assumes "report_body R p = (p', r)"
  obtains c sent where "p' = (if r = Inr () \<and> sent \<noteq> [] \<and> hasPendingCRI p
       then p\<lparr>rs_spiffeClient := c, rs_sent := rs_sent p @ sent, rs_criReported := True, rs_pendingCRI := []\<rparr>
       else p\<lparr>rs_spiffeClient := c, rs_sent := rs_sent p @ sent\<rparr>)"
    "r = Inr () \<Longrightarrow> sent = [] \<Longrightarrow> GetStateURL (rs_cm p) = []" "length sent \<le> 1"
    "\<And>q out. (q, out) \<in> set sent \<Longrightarrow> sound_report p q \<and>
       (\<exists>n d. extractSatelliteNameFromURL (GetStateURL (rs_cm p)) = Inr n \<and> rp_marshal R (report_of R n d p) = Inr (cq_Body q))"
proof (cases "\<exists>n. GetStateURL (rs_cm p) \<noteq> [] \<and> extractSatelliteNameFromURL (GetStateURL (rs_cm p)) = Inr n")
  case False
  then have "p' = p" "r = Inr () \<Longrightarrow> GetStateURL (rs_cm p) = []"
    using assms by (auto simp: report_body_def Let_def split: if_splits sum.splits)
  then show ?thesis by (intro that[where c = "rs_spiffeClient p" and sent = "[]"]) auto
next
  case True
  then obtain n where n: "GetStateURL (rs_cm p) \<noteq> []" "extractSatelliteNameFromURL (GetStateURL (rs_cm p)) = Inr n" by blast
  define d where "d = (case parseEveryExpr (GetHeartbeatInterval (rs_cm p)) of Inl _ \<Rightarrow> 30000000000 | Inr d \<Rightarrow> d)"
  obtain p1 r1 where s: "sendStatusReport R (ResolveGroundControlURL (rs_cm p)) (report_of R n d p) p = (p1, r1)" by fastforce
  have r: "r = r1" and p': "p' = (if r1 = Inr () \<and> hasPendingCRI p then p1\<lparr>rs_criReported := True, rs_pendingCRI := []\<rparr> else p1)"
    using assms n s by (auto simp: report_body_def Let_def d_def[symmetric] split: sum.splits)
  obtain c sent where c: "p1 = p\<lparr>rs_spiffeClient := c, rs_sent := rs_sent p @ sent\<rparr>" "sent = [] \<Longrightarrow> r1 \<noteq> Inr ()"
    "length sent \<le> 1"
    "\<And>q out. (q, out) \<in> set sent \<Longrightarrow> cq_URL q = ResolveGroundControlURL (rs_cm p) @ ''/'' @ StatusReportRoute \<and>
       rp_marshal R (report_of R n d p) = Inr (cq_Body q) \<and> report_credentials p (cq_URL q) = Inr (cq_BasicAuth q)"
    using sendStatusReport_cases[OF s] by metis
  show ?thesis
  proof (rule that[where c = c and sent = sent])
    fix q out assume "(q, out) \<in> set sent"
    then show "sound_report p q \<and>
       (\<exists>n d. extractSatelliteNameFromURL (GetStateURL (rs_cm p)) = Inr n \<and> rp_marshal R (report_of R n d p) = Inr (cq_Body q))"
      unfolding sound_report_def using c(4) n(2) by blast
  qed (use c(1-3) n r p' in auto)
qed

interpretation reporting: process "report_ops TYPE('f)"
proof unfold_locales
  fix p q assume "po_work (report_ops TYPE('f)) p q"
  then obtain R :: "'f rep_env" and r where "report_body R p = (q, r)" by (auto simp: report_ops_def)
  then show "po_IsRunning (report_ops TYPE('f)) q = po_IsRunning (report_ops TYPE('f)) p"
    by (rule report_body_cases) (simp add: report_ops_def)
qed (auto simp: report_ops_def report_start_def report_stop_def)

lemma start_stop_simps [simp]:
  "rs_cm (report_start p) = rs_cm p" "rs_cm (report_stop p) = rs_cm p"
  "rs_sent (report_start p) = rs_sent p" "rs_sent (report_stop p) = rs_sent p"
  "rs_spiffeClient (report_start p) = rs_spiffeClient p"
  "rs_pendingCRI (report_start p) = rs_pendingCRI p" "rs_pendingCRI (report_stop p) = rs_pendingCRI p"
  "rs_criReported (report_start p) = rs_criReported p" "rs_criReported (report_stop p) = rs_criReported p"
  "hasPendingCRI (report_start p) = hasPendingCRI p" "hasPendingCRI (report_stop p) = hasPendingCRI p"
  by (simp_all add: report_start_def report_stop_def hasPendingCRI_def)

lemma sound_report_start [simp]: "sound_report (report_start p) q = sound_report p q"
  by (simp add: sound_report_def report_credentials_def)

lemma sound_report_guards:
  assumes "sound_report p q"
  shows "cq_URL q = ResolveGroundControlURL (rs_cm p) @ ''/'' @ StatusReportRoute"
    "rs_spiffeClient p = None \<longrightarrow> UseUnsecure (rs_cm p) \<or> hasPrefix (cq_URL q) ''https://''"
    "\<forall>c. cq_BasicAuth q = Some c \<longrightarrow> rs_spiffeClient p = None \<and>
       c = (GetSourceRegistryUsername (rs_cm p), GetSourceRegistryPassword (rs_cm p))"
  using assms[unfolded sound_report_def] by (auto simp: report_credentials_def Let_def split: if_splits)

text \<open>
  C39. A status report does not give the credentials away. An execution sends at most one request, to the
  synchronisation route of ground control; without a SPIFFE client it goes out only over HTTPS or
  when \<^verbatim>\<open>use_unsecure\<close> allows plain connections; and Basic credentials, which are then the
  stored ones, are attached only without a SPIFFE client.
\<close>

theorem report_guards_credentials:
  "case report_Execute R p of (p', r) \<Rightarrow>
     \<exists>sent. rs_sent p' = rs_sent p @ sent \<and> length sent \<le> 1 \<and>
       (\<forall>q out. (q, out) \<in> set sent \<longrightarrow>
          cq_URL q = ResolveGroundControlURL (rs_cm p) @ ''/'' @ StatusReportRoute \<and>
          (rs_spiffeClient p = None \<longrightarrow> UseUnsecure (rs_cm p) \<or> hasPrefix (cq_URL q) ''https://'') \<and>
          (\<forall>c. cq_BasicAuth q = Some c \<longrightarrow> rs_spiffeClient p = None \<and>
             c = (GetSourceRegistryUsername (rs_cm p), GetSourceRegistryPassword (rs_cm p))))"
proof -
  obtain p1 r where e: "report_body R (report_start p) = (p1, r)" by fastforce
  obtain sent where s: "rs_sent p1 = rs_sent p @ sent" "length sent \<le> 1" "\<And>q out. (q, out) \<in> set sent \<Longrightarrow> sound_report p q"
    by (rule report_body_cases[OF e]) (auto split: if_splits)
  show ?thesis
    unfolding report_Execute_def e prod.case
  proof (intro exI[of _ sent] conjI allI impI)
    fix q out assume "(q, out) \<in> set sent"
    note g = sound_report_guards[OF s(3)[OF this]]
    show "cq_URL q = ResolveGroundControlURL (rs_cm p) @ ''/'' @ StatusReportRoute" by (rule g(1))
    show "UseUnsecure (rs_cm p) \<or> hasPrefix (cq_URL q) ''https://''" if "rs_spiffeClient p = None" using g(2) that by blast
    fix c assume "cq_BasicAuth q = Some c"
    with g(3) show "rs_spiffeClient p = None" "c = (GetSourceRegistryUsername (rs_cm p), GetSourceRegistryPassword (rs_cm p))" by blast+
  qed (use s in simp_all)
qed

fun run_reports :: "'f rep_env list \<Rightarrow> rep_process \<Rightarrow> rep_process \<times> unit result list" where
  \<comment> \<open>one execution after the other, each with its own answers of the outside\<close>
  "run_reports [] p = (p, [])"
| "run_reports (R # Rs) p =
     (case report_Execute R p of (p1, r) \<Rightarrow> (case run_reports Rs p1 of (p', rs) \<Rightarrow> (p', r # rs)))"

lemma report_Execute_pending:
  assumes "report_Execute R p = (p', r)" "GetStateURL (rs_cm p) \<noteq> []"
  shows "rs_cm p' = rs_cm p \<and> (hasPendingCRI p' \<longleftrightarrow> hasPendingCRI p \<and> r \<noteq> Inr ()) \<and>
    (hasPendingCRI p' \<longrightarrow> rs_pendingCRI p' = rs_pendingCRI p)"
proof -
  obtain p1 where e: "report_body R (report_start p) = (p1, r)" "p' = report_stop p1"
    using assms(1) by (auto simp: report_Execute_def split: prod.splits)
  obtain c sent where s: "p1 = (if r = Inr () \<and> sent \<noteq> [] \<and> hasPendingCRI p
       then (report_start p)\<lparr>rs_spiffeClient := c, rs_sent := rs_sent p @ sent, rs_criReported := True, rs_pendingCRI := []\<rparr>
       else (report_start p)\<lparr>rs_spiffeClient := c, rs_sent := rs_sent p @ sent\<rparr>)" "r = Inr () \<Longrightarrow> sent \<noteq> []"
    using report_body_cases[OF e(1)] assms(2) unfolding start_stop_simps by metis
  show ?thesis using s unfolding e(2) by (auto simp: hasPendingCRI_def)
qed

lemma run_reports_pending:
  assumes "run_reports Rs p = (p', rs)" "GetStateURL (rs_cm p) \<noteq> []"
  shows "rs_cm p' = rs_cm p \<and> (hasPendingCRI p' \<longleftrightarrow> hasPendingCRI p \<and> Inr () \<notin> set rs) \<and>
    (hasPendingCRI p' \<longrightarrow> rs_pendingCRI p' = rs_pendingCRI p)"
  using assms
proof (induction Rs arbitrary: p rs)
  case (Cons R Rs)
  obtain p1 r where e: "report_Execute R p = (p1, r)" by fastforce
  obtain rs1 where e1: "run_reports Rs p1 = (p', rs1)" "rs = r # rs1"
    using Cons.prems(1) e by (auto split: prod.splits)
  note st = report_Execute_pending[OF e Cons.prems(2)]
  from Cons.IH[OF e1(1)] st Cons.prems(2) show ?case unfolding e1(2) by auto
qed simp

lemma report_of_activity:
  "sr_Activity (report_of R n d p) = (if hasPendingCRI p then formatCRIActivity (rs_pendingCRI p) else [])"
  by (auto simp: report_of_def collectStatusReportParams_def Let_def split: sum.splits)

definition sample_rep_env :: "client_response result \<Rightarrow> nat rep_env" where
  "sample_rep_env answer = \<lparr>rp_reg = sample_reg_env answer, rp_f64 = \<lparr>f64_zero = 0, f64_add = (+), f64_div = (div), f64_of = (\<lambda>n. n)\<rparr>,
     rp_cpu = (\<lambda>n. Inr [n]), rp_cancelled = (\<lambda>_. False), rp_memory = Inr 7, rp_storage = (\<lambda>_. Inl ''no disk''),
     rp_get = (\<lambda>_. Inl ''no registry''), rp_close = (\<lambda>_. None), rp_catalog = (\<lambda>_. Inr []), rp_tags = (\<lambda>_. Inr []),
     rp_manifest = (\<lambda>_ _. Inl []), rp_mediaType = (\<lambda>_. Inr []), rp_sizes = (\<lambda>_. Inr (5, [2 ^ 62, 2 ^ 61])), rp_sha256 = (\<lambda>s. s),
     rp_marshal = (\<lambda>req. Inr (sr_Activity req)), rp_now = 0\<rparr>"

definition sample_rep_process :: rep_process where
  "sample_rep_process = SetPendingCRIResults [\<lparr>cri_CRI = ''docker'', cri_BackupPath = [], cri_Success = True, cri_Error = []\<rparr>]
     (NewStatusReportingProcess (re_workload (sample_reg_env sample_ok))
       (With [SetUseUnsecure True] (With [SetStateConfig sample_registered] sample_cm)))"

theorem report_guards_credentials_witness:
  "case report_Execute (sample_rep_env sample_ok) sample_rep_process of (p', r) \<Rightarrow>
     \<exists>q out. rs_sent p' = [(q, out)] \<and> cq_BasicAuth q = Some (''robot'', ''pw'') \<and> cq_URL q = ''http://gc/satellites/sync''"
proof -
  let ?p = sample_rep_process
  obtain p' r where e: "report_Execute (sample_rep_env sample_ok) ?p = (p', r)" by fastforce
  have v: "length (rs_sent (fst (report_Execute (sample_rep_env sample_ok) ?p))) = 1"
    "rs_sent ?p = []" "map (cq_BasicAuth \<circ> fst) (rs_sent (fst (report_Execute (sample_rep_env sample_ok) ?p))) \<noteq> [None]"
    "ResolveGroundControlURL (rs_cm ?p) = ''http://gc''" "GetSourceRegistryUsername (rs_cm ?p) = ''robot''"
    "GetSourceRegistryPassword (rs_cm ?p) = ''pw''"
    by code_simp+
  obtain q out where q: "rs_sent p' = [(q, out)]" using v(1) e by (cases "rs_sent p'") auto
  then obtain c where "cq_BasicAuth q = Some c" using v(3) e by (cases "cq_BasicAuth q") auto
  then show ?thesis
    using report_guards_credentials[where R = "sample_rep_env sample_ok" and p = ?p] q
    by (cases c) (auto simp: e v(2,4-6) StatusReportRoute_def)
qed

text \<open>
  The outcome of configuring the container runtimes reaches ground control. The results set at
  start-up are in every report until one report was accepted, and in none after it, whatever happens to the
  executions in between.
\<close>

theorem cri_results_until_reported:
  assumes "hasPendingCRI p" "GetStateURL (rs_cm p) \<noteq> []" "run_reports Rs p = (p', rs)"
  shows "sr_Activity (report_of R n d p') = (if Inr () \<in> set rs then [] else formatCRIActivity (rs_pendingCRI p))"
  using run_reports_pending[OF assms(3,2)] assms(1) by (auto simp: report_of_activity)

theorem cri_results_until_reported_witness:
  "sr_Activity (report_of (sample_rep_env sample_ok) ''edge'' 0 (fst (run_reports [sample_rep_env (Inl ''down'')] sample_rep_process))) =
     ''cri_fallback_configured: docker(ok)'' \<and>
   sr_Activity (report_of (sample_rep_env sample_ok) ''edge'' 0
     (fst (run_reports [sample_rep_env (Inl ''down''), sample_rep_env sample_ok] sample_rep_process))) = []"
proof -
  have p: "hasPendingCRI sample_rep_process" "GetStateURL (rs_cm sample_rep_process) \<noteq> []"
    "formatCRIActivity (rs_pendingCRI sample_rep_process) = ''cri_fallback_configured: docker(ok)''" by code_simp+
  have r: "Inr () \<notin> set (snd (run_reports [sample_rep_env (Inl ''down'')] sample_rep_process))"
    "Inr () \<in> set (snd (run_reports [sample_rep_env (Inl ''down''), sample_rep_env sample_ok] sample_rep_process))" by code_simp+
  show ?thesis
    using cri_results_until_reported[OF p(1,2) prod.collapse[symmetric], where Rs = "[sample_rep_env (Inl ''down'')]" and
        R = "sample_rep_env sample_ok" and n = "''edge''" and d = 0]
      cri_results_until_reported[OF p(1,2) prod.collapse[symmetric], where Rs = "[sample_rep_env (Inl ''down''), sample_rep_env sample_ok]" and
        R = "sample_rep_env sample_ok" and n = "''edge''" and d = 0]
      r p(3) by (simp only: if_False if_True simp_thms)
qed

lemma size_fold:
  "foldl (\<lambda>acc n. signed_take_bit k (acc + n)) (signed_take_bit k c) ls = signed_take_bit k (c + sum_list ls :: int)"
proof (induction ls arbitrary: c)
  case (Cons l ls)
  have "signed_take_bit k (signed_take_bit k c + l) = signed_take_bit k (c + l)"
    by (metis signed_take_bit_add signed_take_bit_signed_take_bit min.idem)
  then show ?case using Cons[of "c + l"] by (simp add: add.assoc)
qed simp

text \<open>
  The reported size of an image is the size of its parts, up to the wrap-around of 64-bit integers: the
  result always is a 64-bit integer congruent to the sum of the sizes in the manifest, and it is that sum as long as the sum fits.
\<close>

theorem manifest_size_wraps:
  assumes "computeManifestSize R raw = Inr n" "rp_sizes R raw = Inr (config, layers)"
  shows "- (2 ^ 63) \<le> n \<and> n < 2 ^ 63 \<and> n mod 2 ^ 64 = (config + sum_list layers) mod 2 ^ 64 \<and>
    (- (2 ^ 63) \<le> config + sum_list layers \<and> config + sum_list layers < 2 ^ 63 \<longrightarrow> n = config + sum_list layers)"
proof -
  let ?t = "config + sum_list layers"
  have n: "n = signed_take_bit 63 ?t"
    using assms by (auto simp: computeManifestSize_def size_fold split: sum.splits if_splits)
  have "take_bit (Suc 63) n = take_bit (Suc 63) ?t" unfolding n by (simp only: signed_take_bit_eq_iff_take_bit_eq[symmetric] signed_take_bit_signed_take_bit min.idem)
  then have "n mod 2 ^ 64 = ?t mod 2 ^ 64" by (simp add: take_bit_eq_mod)
  moreover have "- (2 ^ 63) \<le> n" "n < 2 ^ 63"
    unfolding n using signed_take_bit_int_greater_eq_minus_exp[of 63 ?t] signed_take_bit_int_less_exp[of 63 ?t] by simp_all
  moreover have "n = ?t" if "- (2 ^ 63) \<le> ?t" "?t < 2 ^ 63"
    unfolding n using signed_take_bit_int_eq_self[of 63 ?t] that by simp
  ultimately show ?thesis by blast
qed

theorem manifest_size_wraps_witness:
  "\<exists>n. computeManifestSize (sample_rep_env sample_ok) ''m'' = Inr n \<and> n = 5 + 2 ^ 62 + 2 ^ 61"
proof -
  have "is_ok (computeManifestSize (sample_rep_env sample_ok) ''m'')" by code_simp
  then obtain n where n: "computeManifestSize (sample_rep_env sample_ok) ''m'' = Inr n" by (auto simp: is_ok_iff)
  have "rp_sizes (sample_rep_env sample_ok) ''m'' = Inr (5, [2 ^ 62, 2 ^ 61])" by (simp add: sample_rep_env_def)
  from manifest_size_wraps[OF n this] n show ?thesis by simp
qed

end
