(* ===== verification/GC_Store.thy ===== *)
theory GC_Store
  imports Prelude "HOL-Library.List_Lexorder"
begin

text \<open>
  The database of ground control: the tables of \<^verbatim>\<open>internal/groundcontrol/sql/schema\<close> and the
  queries of \<^verbatim>\<open>internal/groundcontrol/database/*.sql.go\<close>, whose SQL text fixes their meaning.

  A table is the list of its rows in order of insertion, with the next value of its SERIAL
  column. A query is a function from the database to an error or its result and the new
  database. \<open>now\<close> is the transaction time \<^verbatim>\<open>NOW()\<close>. A \<^verbatim>\<open>:one\<close> query without a row gives
  \<open>ErrNoRows\<close>; UNIQUE, FOREIGN KEY and CHECK constraints give their errors; deletions cascade
  as declared. Times are in nanoseconds, as Go's durations, and a row keeps the instant it is given. The columns are
  \<^verbatim>\<open>TIMESTAMP\<close>s without zone, with microseconds, and Go passes its local time, so this holds for a server and a
  database that run in UTC, up to a microsecond. A row order that SQL leaves open is
  the order of insertion, and of rows with equal times the one inserted last is the newest. A failing
  connection is not a matter of this theory (see \<open>GC_World\<close>).
\<close>

section \<open>Rows\<close>

record satellite_row =
  sat_ID :: int
  sat_Name :: string
  sat_CreatedAt :: int
  sat_UpdatedAt :: int
  sat_LastSeen :: "int option"
  sat_HeartbeatInterval :: "string option"

record group_row =
  grp_ID :: int
  grp_Name :: string
  grp_RegistryUrl :: string
  grp_Projects :: "string list"
  grp_CreatedAt :: int
  grp_UpdatedAt :: int

record satellite_group_row =
  sg_SatelliteID :: int
  sg_GroupID :: int

record robot_row =
  rob_ID :: int
  rob_Name :: string
  rob_SecretHash :: string
  rob_RobotID :: string
  rob_SatelliteID :: int
  rob_Expiry :: "int option"
  rob_CreatedAt :: int
  rob_UpdatedAt :: int

record token_row =
  tok_ID :: int
  tok_SatelliteID :: int
  tok_Token :: string
  tok_CreatedAt :: int
  tok_UpdatedAt :: int
  tok_ExpiresAt :: int

record 'j config_row =
  cfr_ID :: int
  cfr_Name :: string
  cfr_RegistryUrl :: string
  cfr_Config :: 'j
  cfr_CreatedAt :: int
  cfr_UpdatedAt :: int

record satellite_config_row =
  scf_SatelliteID :: int
  scf_ConfigID :: int

record user_row =
  usr_ID :: int
  usr_Username :: string
  usr_PasswordHash :: string
  usr_Role :: string
  usr_CreatedAt :: int
  usr_UpdatedAt :: int

record session_row =
  ses_ID :: int
  ses_UserID :: int
  ses_Token :: string
  ses_ExpiresAt :: int
  ses_CreatedAt :: int

record login_attempt_row =
  la_ID :: int
  la_Username :: string
  la_FailedCount :: int
  la_LockedUntil :: "int option"
  la_LastAttempt :: int

record status_row =
  st_ID :: int
  st_SatelliteID :: int
  st_Activity :: string
  st_LatestStateDigest :: "string option"
  st_LatestConfigDigest :: "string option"
  st_CpuPercent :: "string option"
  st_MemoryUsedBytes :: "int option"
  st_StorageUsedBytes :: "int option"
  st_LastSyncDurationMs :: "int option"
  st_ImageCount :: "int option"
  st_ReportedAt :: int
  st_CreatedAt :: int
  st_ArtifactIds :: "int list option"

record artifact_row =
  art_ID :: int
  art_Reference :: string
  art_SizeBytes :: int
  art_CreatedAt :: int

record 'j db =
  db_satellites :: "satellite_row list"
  db_groups :: "group_row list"
  db_satellite_groups :: "satellite_group_row list"
  db_robots :: "robot_row list"
  db_tokens :: "token_row list"
  db_configs :: "'j config_row list"
  db_satellite_configs :: "satellite_config_row list"
  db_users :: "user_row list"
  db_sessions :: "session_row list"
  db_logins :: "login_attempt_row list"
  db_statuses :: "status_row list"
  db_artifacts :: "artifact_row list"
  db_next :: int \<comment> \<open>one counter serves all SERIAL columns\<close>

type_synonym ('j, 'a) query = "'j db \<Rightarrow> ('a \<times> 'j db) result"

definition ErrNoRows :: string where "ErrNoRows = ''sql: no rows in result set''"
definition ErrUnique :: string where "ErrUnique = ''pq: duplicate key value violates unique constraint''"
definition ErrForeignKey :: string where "ErrForeignKey = ''pq: insert or update violates foreign key constraint''"
definition ErrCheck :: string where "ErrCheck = ''pq: new row violates check constraint''"

lemmas sql_errors = ErrNoRows_def ErrUnique_def ErrForeignKey_def ErrCheck_def

definition select_one :: "('r \<Rightarrow> bool) \<Rightarrow> ('j db \<Rightarrow> 'r list) \<Rightarrow> ('j, 'r) query" where
  "select_one p table db = (case find_first p (table db) of None \<Rightarrow> Inl ErrNoRows | Some r \<Rightarrow> Inr (r, db))"

definition select_many :: "('r \<Rightarrow> bool) \<Rightarrow> ('j db \<Rightarrow> 'r list) \<Rightarrow> ('j, 'r list) query" where
  "select_many p table db = Inr (filter p (table db), db)"

definition exec :: "('j db \<Rightarrow> 'j db) \<Rightarrow> ('j, unit) query" where
  "exec f db = Inr ((), f db)"

section \<open>Satellites\<close>

definition CreateSatellite :: "int \<Rightarrow> string \<Rightarrow> ('j, satellite_row) query" where
  "CreateSatellite now name db =
     (if \<exists>s\<in>set (db_satellites db). sat_Name s = name then Inl ErrUnique
      else let row = \<lparr>sat_ID = db_next db, sat_Name = name, sat_CreatedAt = now, sat_UpdatedAt = now,
                      sat_LastSeen = None, sat_HeartbeatInterval = None\<rparr>
           in Inr (row, db\<lparr>db_satellites := db_satellites db @ [row], db_next := db_next db + 1\<rparr>))"

definition ListSatellites :: "('j, satellite_row list) query" where
  "ListSatellites = select_many (\<lambda>_. True) db_satellites"

definition GetSatellitesByGroupName :: "string \<Rightarrow> ('j, satellite_row list) query" where
  "GetSatellitesByGroupName name db =
     Inr (concat (map (\<lambda>s. concat (map (\<lambda>sg. map (\<lambda>_. s)
            (filter (\<lambda>g. grp_ID g = sg_GroupID sg \<and> grp_Name g = name) (db_groups db)))
            (filter (\<lambda>sg. sg_SatelliteID sg = sat_ID s) (db_satellite_groups db)))) (db_satellites db)), db)"

definition GetSatellite :: "int \<Rightarrow> ('j, satellite_row) query" where
  "GetSatellite rid = select_one (\<lambda>s. sat_ID s = rid) db_satellites"

definition GetSatelliteByName :: "string \<Rightarrow> ('j, satellite_row) query" where
  "GetSatelliteByName name = select_one (\<lambda>s. sat_Name s = name) db_satellites"

definition without_satellites :: "(satellite_row \<Rightarrow> bool) \<Rightarrow> 'j db \<Rightarrow> 'j db" where
  \<comment> \<open>delete the satellites that satisfy the predicate, with the rows that reference them\<close>
  "without_satellites p db =
     (let gone = (\<lambda>rid. \<exists>s\<in>set (db_satellites db). p s \<and> sat_ID s = rid) in
      db\<lparr>db_satellites := filter (\<lambda>s. \<not> p s) (db_satellites db),
         db_satellite_groups := filter (\<lambda>x. \<not> gone (sg_SatelliteID x)) (db_satellite_groups db),
         db_robots := filter (\<lambda>x. \<not> gone (rob_SatelliteID x)) (db_robots db),
         db_tokens := filter (\<lambda>x. \<not> gone (tok_SatelliteID x)) (db_tokens db),
         db_satellite_configs := filter (\<lambda>x. \<not> gone (scf_SatelliteID x)) (db_satellite_configs db),
         db_statuses := filter (\<lambda>x. \<not> gone (st_SatelliteID x)) (db_statuses db)\<rparr>)"

definition DeleteSatelliteByName :: "string \<Rightarrow> ('j, unit) query" where
  "DeleteSatelliteByName name = exec (without_satellites (\<lambda>s. sat_Name s = name))"

definition DeleteSatellite :: "int \<Rightarrow> ('j, unit) query" where
  "DeleteSatellite rid = exec (without_satellites (\<lambda>s. sat_ID s = rid))"

definition UpdateSatelliteLastSeen :: "int \<Rightarrow> int \<Rightarrow> string option \<Rightarrow> ('j, unit) query" where
  "UpdateSatelliteLastSeen now rid interval = exec (\<lambda>db. db\<lparr>db_satellites :=
     map (\<lambda>s. if sat_ID s = rid then s\<lparr>sat_LastSeen := Some now, sat_HeartbeatInterval := interval\<rparr> else s)
       (db_satellites db)\<rparr>)"

section \<open>Groups\<close>

definition CreateGroup :: "int \<Rightarrow> string \<Rightarrow> string \<Rightarrow> string list \<Rightarrow> ('j, group_row) query" where
  "CreateGroup now name registry projects db =
     (case find_first (\<lambda>g. grp_Name g = name) (db_groups db) of
        Some g \<Rightarrow>
          (let row = g\<lparr>grp_RegistryUrl := registry, grp_Projects := projects, grp_UpdatedAt := now\<rparr>
           in Inr (row, db\<lparr>db_groups := map (\<lambda>x. if grp_Name x = name then row else x) (db_groups db)\<rparr>))
      | None \<Rightarrow>
          (let row = \<lparr>grp_ID = db_next db, grp_Name = name, grp_RegistryUrl = registry, grp_Projects = projects,
                      grp_CreatedAt = now, grp_UpdatedAt = now\<rparr>
           in Inr (row, db\<lparr>db_groups := db_groups db @ [row], db_next := db_next db + 1\<rparr>)))"

definition ListGroups :: "('j, group_row list) query" where
  "ListGroups = select_many (\<lambda>_. True) db_groups"

definition GetGroupByID :: "int \<Rightarrow> ('j, group_row) query" where
  "GetGroupByID rid = select_one (\<lambda>g. grp_ID g = rid) db_groups"

definition GetGroupByName :: "string \<Rightarrow> ('j, group_row) query" where
  "GetGroupByName name = select_one (\<lambda>g. grp_Name g = name) db_groups"

definition DeleteGroup :: "int \<Rightarrow> ('j, unit) query" where
  "DeleteGroup rid = exec (\<lambda>db. db\<lparr>db_groups := filter (\<lambda>g. grp_ID g \<noteq> rid) (db_groups db),
     db_satellite_groups := filter (\<lambda>x. sg_GroupID x \<noteq> rid) (db_satellite_groups db)\<rparr>)"

definition CheckGroupExists :: "string \<Rightarrow> ('j, bool) query" where
  "CheckGroupExists name db = Inr (\<exists>g\<in>set (db_groups db). grp_Name g = name, db)"

definition GetProjectsOfGroup :: "string \<Rightarrow> ('j, string list list) query" where
  "GetProjectsOfGroup name db = Inr (map grp_Projects (filter (\<lambda>g. grp_Name g = name) (db_groups db)), db)"

definition AddSatelliteToGroup :: "int \<Rightarrow> int \<Rightarrow> ('j, unit) query" where
  "AddSatelliteToGroup sid gid db =
     (if \<not> ((\<exists>s\<in>set (db_satellites db). sat_ID s = sid) \<and> (\<exists>g\<in>set (db_groups db). grp_ID g = gid)) then Inl ErrForeignKey
      else let row = \<lparr>sg_SatelliteID = sid, sg_GroupID = gid\<rparr>
           in if row \<in> set (db_satellite_groups db) then Inr ((), db)
              else Inr ((), db\<lparr>db_satellite_groups := db_satellite_groups db @ [row]\<rparr>))"

definition GroupSatelliteList :: "int \<Rightarrow> ('j, satellite_group_row list) query" where
  "GroupSatelliteList gid = select_many (\<lambda>x. sg_GroupID x = gid) db_satellite_groups"

definition SatelliteGroupList :: "int \<Rightarrow> ('j, satellite_group_row list) query" where
  "SatelliteGroupList sid = select_many (\<lambda>x. sg_SatelliteID x = sid) db_satellite_groups"

definition RemoveSatelliteFromGroup :: "int \<Rightarrow> int \<Rightarrow> ('j, unit) query" where
  "RemoveSatelliteFromGroup sid gid = exec (\<lambda>db. db\<lparr>db_satellite_groups :=
     filter (\<lambda>x. \<not> (sg_SatelliteID x = sid \<and> sg_GroupID x = gid)) (db_satellite_groups db)\<rparr>)"

definition CheckSatelliteInGroup :: "int \<Rightarrow> int \<Rightarrow> ('j, bool) query" where
  "CheckSatelliteInGroup sid gid db =
     Inr (\<exists>x\<in>set (db_satellite_groups db). sg_SatelliteID x = sid \<and> sg_GroupID x = gid, db)"

section \<open>Robot accounts and tokens\<close>

definition AddRobotAccount ::
  "int \<Rightarrow> string \<Rightarrow> string \<Rightarrow> string \<Rightarrow> int \<Rightarrow> int option \<Rightarrow> ('j, robot_row) query" where
  "AddRobotAccount now name secretHash robotID sid expiry db =
     (if \<not> (\<exists>s\<in>set (db_satellites db). sat_ID s = sid) then Inl ErrForeignKey
      else if \<exists>x\<in>set (db_robots db). rob_Name x = name \<and> rob_RobotID x \<noteq> robotID then Inl ErrUnique
      else case find_first (\<lambda>x. rob_RobotID x = robotID) (db_robots db) of
        Some x \<Rightarrow>
          (let row = x\<lparr>rob_Name := name, rob_SecretHash := secretHash, rob_Expiry := expiry, rob_UpdatedAt := now\<rparr>
           in Inr (row, db\<lparr>db_robots := map (\<lambda>y. if rob_RobotID y = robotID then row else y) (db_robots db)\<rparr>))
      | None \<Rightarrow>
          (let row = \<lparr>rob_ID = db_next db, rob_Name = name, rob_SecretHash = secretHash, rob_RobotID = robotID,
                      rob_SatelliteID = sid, rob_Expiry = expiry, rob_CreatedAt = now, rob_UpdatedAt = now\<rparr>
           in Inr (row, db\<lparr>db_robots := db_robots db @ [row], db_next := db_next db + 1\<rparr>)))"

definition GetRobotAccBySatelliteID :: "int \<Rightarrow> ('j, robot_row) query" where
  "GetRobotAccBySatelliteID sid = select_one (\<lambda>x. rob_SatelliteID x = sid) db_robots"

definition GetRobotAccByRobotName :: "string \<Rightarrow> ('j, robot_row) query" where
  "GetRobotAccByRobotName name = select_one (\<lambda>x. rob_Name x = name) db_robots"

definition UpdateRobotAccount ::
  "int \<Rightarrow> int \<Rightarrow> string \<Rightarrow> string \<Rightarrow> string \<Rightarrow> int option \<Rightarrow> ('j, unit) query" where
  "UpdateRobotAccount now rid name secretHash robotID expiry db =
     (if (\<exists>x\<in>set (db_robots db). rob_ID x = rid) \<and>
         (\<exists>x\<in>set (db_robots db). rob_ID x \<noteq> rid \<and> (rob_Name x = name \<or> rob_RobotID x = robotID)) then Inl ErrUnique
      else exec (\<lambda>db. db\<lparr>db_robots := map (\<lambda>x. if rob_ID x = rid
             then x\<lparr>rob_Name := name, rob_SecretHash := secretHash, rob_RobotID := robotID, rob_Expiry := expiry,
                    rob_UpdatedAt := now\<rparr> else x) (db_robots db)\<rparr>) db)"

definition AddToken :: "int \<Rightarrow> int \<Rightarrow> string \<Rightarrow> int \<Rightarrow> ('j, string) query" where
  "AddToken now sid token expiresAt db =
     (if \<not> (\<exists>s\<in>set (db_satellites db). sat_ID s = sid) then Inl ErrForeignKey
      else if \<exists>x\<in>set (db_tokens db). tok_Token x = token then Inl ErrUnique
      else Inr (token, db\<lparr>db_tokens := db_tokens db @ [\<lparr>tok_ID = db_next db, tok_SatelliteID = sid, tok_Token = token,
             tok_CreatedAt = now, tok_UpdatedAt = now, tok_ExpiresAt = expiresAt\<rparr>], db_next := db_next db + 1\<rparr>))"

definition GetTokenByValue :: "string \<Rightarrow> ('j, token_row) query" where
  "GetTokenByValue token = select_one (\<lambda>x. tok_Token x = token) db_tokens"

definition DeleteToken :: "string \<Rightarrow> ('j, unit) query" where
  "DeleteToken token = exec (\<lambda>db. db\<lparr>db_tokens := filter (\<lambda>x. tok_Token x \<noteq> token) (db_tokens db)\<rparr>)"

definition DeleteExpiredTokens :: "int \<Rightarrow> ('j, unit) query" where
  "DeleteExpiredTokens now = exec (\<lambda>db. db\<lparr>db_tokens := filter (\<lambda>x. \<not> tok_ExpiresAt x < now) (db_tokens db)\<rparr>)"

section \<open>Configurations\<close>

definition CreateConfig :: "int \<Rightarrow> string \<Rightarrow> string \<Rightarrow> 'j \<Rightarrow> ('j, 'j config_row) query" where
  "CreateConfig now name registry cfg db =
     (if \<exists>c\<in>set (db_configs db). cfr_Name c = name then Inl ErrUnique
      else let row = \<lparr>cfr_ID = db_next db, cfr_Name = name, cfr_RegistryUrl = registry, cfr_Config = cfg,
                      cfr_CreatedAt = now, cfr_UpdatedAt = now\<rparr>
           in Inr (row, db\<lparr>db_configs := db_configs db @ [row], db_next := db_next db + 1\<rparr>))"

definition UpdateConfig :: "int \<Rightarrow> string \<Rightarrow> string \<Rightarrow> 'j \<Rightarrow> ('j, 'j config_row) query" where
  "UpdateConfig now name registry cfg db =
     (case find_first (\<lambda>c. cfr_Name c = name) (db_configs db) of
        None \<Rightarrow> Inl ErrNoRows
      | Some c \<Rightarrow>
          (let row = c\<lparr>cfr_RegistryUrl := registry, cfr_Config := cfg, cfr_UpdatedAt := now\<rparr>
           in Inr (row, db\<lparr>db_configs := map (\<lambda>x. if cfr_Name x = name then row else x) (db_configs db)\<rparr>)))"

definition ListConfigs :: "('j, 'j config_row list) query" where
  "ListConfigs = select_many (\<lambda>_. True) db_configs"

definition GetConfigByID :: "int \<Rightarrow> ('j, 'j config_row) query" where
  "GetConfigByID rid = select_one (\<lambda>c. cfr_ID c = rid) db_configs"

definition GetConfigByName :: "string \<Rightarrow> ('j, 'j config_row) query" where
  "GetConfigByName name = select_one (\<lambda>c. cfr_Name c = name) db_configs"

definition DeleteConfig :: "int \<Rightarrow> ('j, unit) query" where
  "DeleteConfig rid = exec (\<lambda>db. db\<lparr>db_configs := filter (\<lambda>c. cfr_ID c \<noteq> rid) (db_configs db),
     db_satellite_configs := filter (\<lambda>x. scf_ConfigID x \<noteq> rid) (db_satellite_configs db)\<rparr>)"

definition SetSatelliteConfig :: "int \<Rightarrow> int \<Rightarrow> ('j, unit) query" where
  "SetSatelliteConfig sid cid db =
     (if \<not> ((\<exists>s\<in>set (db_satellites db). sat_ID s = sid) \<and> (\<exists>c\<in>set (db_configs db). cfr_ID c = cid)) then Inl ErrForeignKey
      else let row = \<lparr>scf_SatelliteID = sid, scf_ConfigID = cid\<rparr>
           in if \<exists>x\<in>set (db_satellite_configs db). scf_SatelliteID x = sid
              then Inr ((), db\<lparr>db_satellite_configs :=
                     map (\<lambda>x. if scf_SatelliteID x = sid then row else x) (db_satellite_configs db)\<rparr>)
              else Inr ((), db\<lparr>db_satellite_configs := db_satellite_configs db @ [row]\<rparr>))"

definition ConfigSatelliteList :: "int \<Rightarrow> ('j, satellite_config_row list) query" where
  "ConfigSatelliteList cid = select_many (\<lambda>x. scf_ConfigID x = cid) db_satellite_configs"

definition SatelliteConfig :: "int \<Rightarrow> ('j, satellite_config_row) query" where
  "SatelliteConfig sid = select_one (\<lambda>x. scf_SatelliteID x = sid) db_satellite_configs"

section \<open>Users, sessions and login attempts\<close>

definition CreateUser :: "int \<Rightarrow> string \<Rightarrow> string \<Rightarrow> string \<Rightarrow> ('j, user_row) query" where
  "CreateUser now name hash role db =
     (if role \<notin> {''system_admin'', ''admin''} then Inl ErrCheck
      else if \<exists>u\<in>set (db_users db). usr_Username u = name then Inl ErrUnique
      else let row = \<lparr>usr_ID = db_next db, usr_Username = name, usr_PasswordHash = hash, usr_Role = role,
                      usr_CreatedAt = now, usr_UpdatedAt = now\<rparr>
           in Inr (row, db\<lparr>db_users := db_users db @ [row], db_next := db_next db + 1\<rparr>))"

definition GetUserByUsername :: "string \<Rightarrow> ('j, user_row) query" where
  "GetUserByUsername name = select_one (\<lambda>u. usr_Username u = name) db_users"

definition GetUserByID :: "int \<Rightarrow> ('j, user_row) query" where
  "GetUserByID rid = select_one (\<lambda>u. usr_ID u = rid) db_users"

definition ListUsers :: "('j, user_row list) query" where
  \<comment> \<open>newest first; the password hash is not selected\<close>
  "ListUsers db = Inr (map (usr_PasswordHash_update (\<lambda>_. []))
     (rev (sort_key usr_CreatedAt (filter (\<lambda>u. usr_Role u \<noteq> ''system_admin'') (db_users db)))), db)"

definition DeleteUser :: "string \<Rightarrow> ('j, unit) query" where
  "DeleteUser name = exec (\<lambda>db.
     let gone = (\<lambda>u. usr_Username u = name \<and> usr_Role u \<noteq> ''system_admin'') in
     db\<lparr>db_users := filter (\<lambda>u. \<not> gone u) (db_users db),
        db_sessions := filter (\<lambda>s. \<not> (\<exists>u\<in>set (db_users db). gone u \<and> usr_ID u = ses_UserID s)) (db_sessions db)\<rparr>)"

definition UpdateUserPassword :: "int \<Rightarrow> string \<Rightarrow> string \<Rightarrow> ('j, unit) query" where
  "UpdateUserPassword now name hash = exec (\<lambda>db. db\<lparr>db_users :=
     map (\<lambda>u. if usr_Username u = name then u\<lparr>usr_PasswordHash := hash, usr_UpdatedAt := now\<rparr> else u) (db_users db)\<rparr>)"

definition SystemAdminExists :: "('j, bool) query" where
  "SystemAdminExists db = Inr (\<exists>u\<in>set (db_users db). usr_Role u = ''system_admin'', db)"

definition CreateSession :: "int \<Rightarrow> int \<Rightarrow> string \<Rightarrow> int \<Rightarrow> ('j, session_row) query" where
  "CreateSession now uid token expiresAt db =
     (if \<not> (\<exists>u\<in>set (db_users db). usr_ID u = uid) then Inl ErrForeignKey
      else if \<exists>s\<in>set (db_sessions db). ses_Token s = token then Inl ErrUnique
      else let row = \<lparr>ses_ID = db_next db, ses_UserID = uid, ses_Token = token, ses_ExpiresAt = expiresAt, ses_CreatedAt = now\<rparr>
           in Inr (row, db\<lparr>db_sessions := db_sessions db @ [row], db_next := db_next db + 1\<rparr>))"

definition GetSessionByToken :: "int \<Rightarrow> string \<Rightarrow> ('j, session_row \<times> user_row) query" where
  \<comment> \<open>the row of the session joined with that of its user\<close>
  "GetSessionByToken now token db =
     (case find_first (\<lambda>(s, u). ses_Token s = token \<and> now < ses_ExpiresAt s \<and> ses_UserID s = usr_ID u)
             (List.product (db_sessions db) (db_users db)) of
        None \<Rightarrow> Inl ErrNoRows | Some r \<Rightarrow> Inr (r, db))"

definition DeleteSession :: "string \<Rightarrow> ('j, unit) query" where
  "DeleteSession token = exec (\<lambda>db. db\<lparr>db_sessions := filter (\<lambda>s. ses_Token s \<noteq> token) (db_sessions db)\<rparr>)"

definition DeleteUserSessions :: "int \<Rightarrow> ('j, unit) query" where
  "DeleteUserSessions uid = exec (\<lambda>db. db\<lparr>db_sessions := filter (\<lambda>s. ses_UserID s \<noteq> uid) (db_sessions db)\<rparr>)"

definition DeleteExpiredSessions :: "int \<Rightarrow> ('j, unit) query" where
  "DeleteExpiredSessions now = exec (\<lambda>db. db\<lparr>db_sessions := filter (\<lambda>s. \<not> ses_ExpiresAt s \<le> now) (db_sessions db)\<rparr>)"

definition GetLoginAttempts :: "string \<Rightarrow> ('j, login_attempt_row) query" where
  "GetLoginAttempts name = select_one (\<lambda>l. la_Username l = name) db_logins"

definition UpsertLoginAttempt :: "int \<Rightarrow> string \<Rightarrow> ('j, login_attempt_row) query" where
  "UpsertLoginAttempt now name db =
     (case find_first (\<lambda>l. la_Username l = name) (db_logins db) of
        Some l \<Rightarrow>
          (let row = l\<lparr>la_FailedCount := la_FailedCount l + 1, la_LastAttempt := now\<rparr>
           in Inr (row, db\<lparr>db_logins := map (\<lambda>x. if la_Username x = name then row else x) (db_logins db)\<rparr>))
      | None \<Rightarrow>
          (let row = \<lparr>la_ID = db_next db, la_Username = name, la_FailedCount = 1, la_LockedUntil = None, la_LastAttempt = now\<rparr>
           in Inr (row, db\<lparr>db_logins := db_logins db @ [row], db_next := db_next db + 1\<rparr>)))"

definition ResetLoginAttempts :: "int \<Rightarrow> string \<Rightarrow> ('j, unit) query" where
  "ResetLoginAttempts now name = exec (\<lambda>db. db\<lparr>db_logins := map (\<lambda>l. if la_Username l = name
     then l\<lparr>la_FailedCount := 0, la_LockedUntil := None, la_LastAttempt := now\<rparr> else l) (db_logins db)\<rparr>)"

definition LockAccount :: "int \<Rightarrow> string \<Rightarrow> int option \<Rightarrow> ('j, unit) query" where
  "LockAccount now name lockedUntil = exec (\<lambda>db. db\<lparr>db_logins := map (\<lambda>l. if la_Username l = name
     then l\<lparr>la_LockedUntil := lockedUntil, la_LastAttempt := now\<rparr> else l) (db_logins db)\<rparr>)"

section \<open>Status reports and artifacts\<close>

definition second :: int where "second = 1000000000"
definition day :: int where "day = 24 * 60 * 60 * second"

definition InsertSatelliteStatus :: "int \<Rightarrow> status_row \<Rightarrow> ('j, status_row) query" where
  \<comment> \<open>the id and the creation time of the given row are not read\<close>
  "InsertSatelliteStatus now r db =
     (if \<not> (\<exists>s\<in>set (db_satellites db). sat_ID s = st_SatelliteID r) then Inl ErrForeignKey
      else let row = r\<lparr>st_ID := db_next db, st_CreatedAt := now\<rparr>
           in Inr (row, db\<lparr>db_statuses := db_statuses db @ [row], db_next := db_next db + 1\<rparr>))"

definition newest_status :: "int \<Rightarrow> 'j db \<Rightarrow> status_row option" where
  "newest_status sid db =
     (case rev (sort_key st_CreatedAt (filter (\<lambda>r. st_SatelliteID r = sid) (db_statuses db))) of
        [] \<Rightarrow> None | r # _ \<Rightarrow> Some r)"

definition GetLatestSatelliteStatus :: "int \<Rightarrow> ('j, status_row) query" where
  "GetLatestSatelliteStatus sid db =
     (case newest_status sid db of None \<Rightarrow> Inl ErrNoRows | Some r \<Rightarrow> Inr (r, db))"

definition BatchInsertArtifacts :: "int \<Rightarrow> string list \<Rightarrow> int list \<Rightarrow> ('j, unit) query" where
  \<comment> \<open>a reference that is already there keeps its row\<close>
  "BatchInsertArtifacts now refs sizes = exec (\<lambda>db. fold (\<lambda>(ref, size) db.
     if \<exists>a\<in>set (db_artifacts db). art_Reference a = ref then db
     else db\<lparr>db_artifacts := db_artifacts db @ [\<lparr>art_ID = db_next db, art_Reference = ref, art_SizeBytes = size,
            art_CreatedAt = now\<rparr>], db_next := db_next db + 1\<rparr>) (zip refs sizes) db)"

definition GetArtifactIDsByReferences :: "string list \<Rightarrow> ('j, artifact_row list) query" where
  "GetArtifactIDsByReferences refs = select_many (\<lambda>a. art_Reference a \<in> set refs) db_artifacts"

definition GetLatestArtifacts :: "int \<Rightarrow> ('j, artifact_row list) query" where
  "GetLatestArtifacts sid db =
     (let ids = (case Option.bind (newest_status sid db) st_ArtifactIds of None \<Rightarrow> [] | Some ids \<Rightarrow> ids)
      in Inr (sort_key (\<lambda>a. map (of_char :: char \<Rightarrow> nat) (art_Reference a))
                (filter (\<lambda>a. art_ID a \<in> set ids) (db_artifacts db)), db))"

definition DeleteOldSatelliteStatus :: "int \<Rightarrow> int \<Rightarrow> ('j, unit) query" where
  "DeleteOldSatelliteStatus now days =
     exec (\<lambda>db. db\<lparr>db_statuses := filter (\<lambda>r. \<not> st_CreatedAt r < now - day * days) (db_statuses db)\<rparr>)"

definition DeleteOrphanedArtifacts :: "int \<Rightarrow> int \<Rightarrow> ('j, unit) query" where
  "DeleteOrphanedArtifacts now days = exec (\<lambda>db. db\<lparr>db_artifacts :=
     filter (\<lambda>a. \<not> (art_ID a \<notin> set (concat (map (\<lambda>r. case st_ArtifactIds r of None \<Rightarrow> [] | Some ids \<Rightarrow> ids) (db_statuses db))) \<and>
                   art_CreatedAt a < now - day * days)) (db_artifacts db)\<rparr>)"

text \<open>
  \<open>interval\<close> is PostgreSQL's conversion of a text to an interval, which fails on other texts.
\<close>

definition silence_limit :: "(string \<Rightarrow> int option) \<Rightarrow> string option \<Rightarrow> int option" where
  \<comment> \<open>three heartbeats, or fifteen minutes when the satellite announced none\<close>
  "silence_limit interval hb =
     (case hb of
        None \<Rightarrow> Some (15 * 60 * second)
      | Some t \<Rightarrow> if hasPrefix t ''@every '' then map_option (\<lambda>d. d * 3) (interval (drop 7 t))
                  else Some (15 * 60 * second))"

definition bad_interval :: "(string \<Rightarrow> int option) \<Rightarrow> satellite_row \<Rightarrow> bool" where
  "bad_interval interval s = (sat_LastSeen s \<noteq> None \<and> silence_limit interval (sat_HeartbeatInterval s) = None)"

definition ErrInterval :: string where "ErrInterval = ''pq: invalid input syntax for type interval''"

definition seen_within :: "(string \<Rightarrow> int option) \<Rightarrow> int \<Rightarrow> satellite_row \<Rightarrow> bool" where
  "seen_within interval now s =
     (case (sat_LastSeen s, silence_limit interval (sat_HeartbeatInterval s)) of
        (Some t, Some d) \<Rightarrow> now - d < t | _ \<Rightarrow> False)"

definition GetActiveSatellites ::
  "(string \<Rightarrow> int option) \<Rightarrow> int \<Rightarrow> ('j, (satellite_row \<times> string \<times> int option) list) query" where
  \<comment> \<open>with the activity and the time of the last report\<close>
  "GetActiveSatellites interval now db =
     (if \<exists>s\<in>set (db_satellites db). bad_interval interval s then Inl ErrInterval
      else Inr (map (\<lambda>s. case newest_status (sat_ID s) db of
                       None \<Rightarrow> (s, [], sat_LastSeen s)
                     | Some r \<Rightarrow> (s, st_Activity r, Some (st_ReportedAt r)))
                  (filter (seen_within interval now) (db_satellites db)), db))"

definition GetStaleSatellites :: "(string \<Rightarrow> int option) \<Rightarrow> int \<Rightarrow> ('j, (satellite_row \<times> int) list) query" where
  \<comment> \<open>with the seconds since it was seen, rounded as the cast does\<close>
  "GetStaleSatellites interval now db =
     (if \<exists>s\<in>set (db_satellites db). sat_HeartbeatInterval s \<noteq> None \<and> bad_interval interval s then Inl ErrInterval
      else Inr (concat (map (\<lambda>s. case (sat_LastSeen s, sat_HeartbeatInterval s, silence_limit interval (sat_HeartbeatInterval s)) of
                  (Some t, Some _, Some d) \<Rightarrow> if t < now - d then [(s, (now - t + second div 2) div second)] else []
                | _ \<Rightarrow> []) (db_satellites db)), db))"

section \<open>The empty database\<close>

definition empty_db :: "'j db" where
  "empty_db = \<lparr>db_satellites = [], db_groups = [], db_satellite_groups = [], db_robots = [], db_tokens = [],
     db_configs = [], db_satellite_configs = [], db_users = [], db_sessions = [], db_logins = [], db_statuses = [], db_artifacts = [], db_next = 1\<rparr>"

end
