(* ===== verification/GC_Secret.thy ===== *)
theory GC_Secret
  imports Go_Codec
begin

text \<open>
  Secrets of ground control: \<^verbatim>\<open>internal/crypto/argon2.go\<close> (the encoded Argon2id hash),
  \<^verbatim>\<open>internal/groundcontrol/auth/password.go\<close> and \<^verbatim>\<open>auth/policy.go\<close>.

  The Argon2 function itself and the Unicode tables are arguments. \<^verbatim>\<open>rand.Read\<close> is the
  outcome \<open>rnd\<close> of reading a number of bytes.
\<close>

section \<open>Argon2id hashes\<close>

type_synonym argon2_fun = "string \<Rightarrow> string \<Rightarrow> nat \<Rightarrow> nat \<Rightarrow> nat \<Rightarrow> nat \<Rightarrow> string"
  \<comment> \<open>\<^verbatim>\<open>argon2.IDKey\<close>: secret, salt, time, memory, parallelism, key length\<close>

definition ArgonTime :: nat where "ArgonTime = 2"
definition ArgonMemory :: nat where "ArgonMemory = 19456"
definition ArgonParallelism :: nat where "ArgonParallelism = 1"
definition ArgonSaltSize :: nat where "ArgonSaltSize = 16"
definition ArgonKeySize :: nat where "ArgonKeySize = 32"
definition argon2_Version :: int where "argon2_Version = 19"

definition TimingMitigationHash :: string where
  "TimingMitigationHash = ''$argon2id$v=19$m=19456,t=2,p=1$sTRCxaCWJQNOIu7hh9KX4w$GrsMm3WlnXrlX+zxlaEzQFx2Z0oFggcZgVjYe95jl5A''"

definition HashSecret :: "argon2_fun \<Rightarrow> (nat \<Rightarrow> string result) \<Rightarrow> string \<Rightarrow> string result" where
  "HashSecret idkey rnd secret =
     (case rnd ArgonSaltSize of
        Inl e \<Rightarrow> Inl (''generate salt: '' @ e)
      | Inr salt \<Rightarrow>
          (let hash = idkey secret salt ArgonTime ArgonMemory ArgonParallelism ArgonKeySize in
           Inr (''$argon2id$v='' @ show_int argon2_Version @ ''$m='' @ show_nat ArgonMemory @ '',t='' @
                show_nat ArgonTime @ '',p='' @ show_nat ArgonParallelism @ ''$'' @
                RawStdEncoding_EncodeToString salt @ ''$'' @ RawStdEncoding_EncodeToString hash)))"

definition splitHash :: "string \<Rightarrow> string list" where
  "splitHash hash = split_on CHR ''$'' hash"

definition scan_version :: "string \<Rightarrow> int option" where
  "scan_version s = map_option fst (Option.bind (scan_lit ''v='' s) (scan_int 64))"

definition scan_params :: "string \<Rightarrow> (nat \<times> nat \<times> nat) option" where
  "scan_params s =
     Option.bind (scan_lit ''m='' s) (\<lambda>s. Option.bind (scan_uint 32 s) (\<lambda>(memory, s).
     Option.bind (scan_lit '',t='' s) (\<lambda>s. Option.bind (scan_uint 32 s) (\<lambda>(time, s).
     Option.bind (scan_lit '',p='' s) (\<lambda>s. Option.bind (scan_uint 8 s) (\<lambda>(parallelism, s).
     Some (memory, time, parallelism)))))))"

definition VerifySecret :: "argon2_fun \<Rightarrow> string \<Rightarrow> string \<Rightarrow> bool" where
  "VerifySecret idkey secret storedHash =
     (let parts = splitHash storedHash in
      if length parts \<noteq> 6 then False
      else case scan_version (parts ! 2) of
        None \<Rightarrow> False
      | Some version \<Rightarrow>
          if version \<noteq> argon2_Version then False
          else case scan_params (parts ! 3) of
            None \<Rightarrow> False
          | Some (memory, time, parallelism) \<Rightarrow>
              (case RawStdEncoding_DecodeString (parts ! 4) of
                 None \<Rightarrow> False
               | Some salt \<Rightarrow>
                   (case RawStdEncoding_DecodeString (parts ! 5) of
                      None \<Rightarrow> False
                    | Some stored \<Rightarrow>
                        stored = idkey secret salt time memory parallelism (length stored mod 2 ^ 32))))"

section \<open>Passwords and session tokens\<close>

definition HashPassword :: "argon2_fun \<Rightarrow> (nat \<Rightarrow> string result) \<Rightarrow> string \<Rightarrow> string result" where
  "HashPassword idkey rnd password = HashSecret idkey rnd password"

definition VerifyPassword :: "argon2_fun \<Rightarrow> string \<Rightarrow> string \<Rightarrow> bool" where
  "VerifyPassword idkey password encodedHash = VerifySecret idkey password encodedHash"

definition GenerateSessionToken :: "(nat \<Rightarrow> string result) \<Rightarrow> string result" where
  "GenerateSessionToken rnd =
     (case rnd 64 of
        Inl e \<Rightarrow> Inl (''failed to generate session token: '' @ e)
      | Inr b \<Rightarrow> Inr (URLEncoding_EncodeToString b))"

section \<open>Password policy\<close>

record unicode =
  uni_IsUpper :: "nat \<Rightarrow> bool"
  uni_IsLower :: "nat \<Rightarrow> bool"
  uni_IsDigit :: "nat \<Rightarrow> bool"
  uni_IsLetter :: "nat \<Rightarrow> bool"

record password_policy =
  MinLength :: int
  MaxLength :: int
  RequireUppercase :: bool
  RequireLowercase :: bool
  RequireNumber :: bool
  RequireSpecial :: bool

definition DefaultPolicy :: password_policy where
  "DefaultPolicy = \<lparr>MinLength = 8, MaxLength = 128, RequireUppercase = True, RequireLowercase = True,
     RequireNumber = True, RequireSpecial = False\<rparr>"

definition LoadPolicyFromConfig :: "password_policy \<Rightarrow> password_policy" where
  \<comment> \<open>the environment's \<^verbatim>\<open>PasswordPolicy\<close> has the same six fields\<close>
  "LoadPolicyFromConfig cfg =
     (let policy = DefaultPolicy;
          policy = (if 0 < MinLength cfg then policy\<lparr>MinLength := MinLength cfg\<rparr> else policy);
          policy = (if 0 < MaxLength cfg then policy\<lparr>MaxLength := MaxLength cfg\<rparr> else policy);
          policy = (if MaxLength policy < MinLength policy
                    then policy\<lparr>MaxLength := MinLength policy\<rparr> else policy)
      in policy\<lparr>RequireUppercase := RequireUppercase cfg, RequireLowercase := RequireLowercase cfg,
                RequireNumber := RequireNumber cfg, RequireSpecial := RequireSpecial cfg\<rparr>)"

definition containsUppercase :: "unicode \<Rightarrow> string \<Rightarrow> bool" where
  "containsUppercase u s = list_ex (uni_IsUpper u) (runes s)"

definition containsLowercase :: "unicode \<Rightarrow> string \<Rightarrow> bool" where
  "containsLowercase u s = list_ex (uni_IsLower u) (runes s)"

definition containsNumber :: "unicode \<Rightarrow> string \<Rightarrow> bool" where
  "containsNumber u s = list_ex (uni_IsDigit u) (runes s)"

definition containsSpecial :: "unicode \<Rightarrow> string \<Rightarrow> bool" where
  "containsSpecial u s = list_ex (\<lambda>r. \<not> uni_IsLetter u r \<and> \<not> uni_IsDigit u r) (runes s)"

definition policy_violations :: "unicode \<Rightarrow> password_policy \<Rightarrow> string \<Rightarrow> string list" where
  "policy_violations u p password =
     (if int (length password) < MinLength p then [''at least '' @ show_int (MinLength p) @ '' characters''] else []) @
     (if MaxLength p < int (length password) then [''at most '' @ show_int (MaxLength p) @ '' characters''] else []) @
     (if RequireUppercase p \<and> \<not> containsUppercase u password then [''one uppercase letter''] else []) @
     (if RequireLowercase p \<and> \<not> containsLowercase u password then [''one lowercase letter''] else []) @
     (if RequireNumber p \<and> \<not> containsNumber u password then [''one number''] else []) @
     (if RequireSpecial p \<and> \<not> containsSpecial u password then [''one special character''] else [])"

definition policy_Validate :: "unicode \<Rightarrow> password_policy \<Rightarrow> string \<Rightarrow> string option" where
  \<comment> \<open>\<^verbatim>\<open>PasswordPolicy.Validate\<close>; \<open>None\<close> is the nil error\<close>
  "policy_Validate u p password =
     (let violations = policy_violations u p password in
      if violations = [] then None else Some (''password must contain: '' @ join '', '' violations))"

section \<open>Hashes verify\<close>

lemma split_hash:
  assumes "CHR ''$'' \<notin> set a" "CHR ''$'' \<notin> set b"
  shows "split_on CHR ''$'' (''$argon2id$v=19$m=19456,t=2,p=1$'' @ a @ ''$'' @ b) =
    [[], ''argon2id'', ''v=19'', ''m=19456,t=2,p=1'', a, b]"
  using assms by (simp add: split_on_append_sep split_on_no_sep)

lemma scan_version_own: "scan_version ''v=19'' = Some argon2_Version"
  by code_simp

lemma scan_params_own:
  "scan_params ''m=19456,t=2,p=1'' = Some (ArgonMemory, ArgonTime, ArgonParallelism)"
  by (simp add: scan_params_def scan_uint_def Let_def dec_digit_def digits_value_def
      ArgonMemory_def ArgonTime_def ArgonParallelism_def)

lemma hash_text:
  "''$argon2id$v='' @ show_int argon2_Version @ ''$m='' @ show_nat ArgonMemory @ '',t='' @
     show_nat ArgonTime @ '',p='' @ show_nat ArgonParallelism @ ''$'' @ t =
   ''$argon2id$v=19$m=19456,t=2,p=1$'' @ t"
proof -
  have "show_int argon2_Version = ''19''" "show_nat ArgonMemory = ''19456''" "show_nat ArgonTime = ''2''"
    "show_nat ArgonParallelism = ''1''"
    by (simp_all add: show_int_def show_nat.simps argon2_Version_def ArgonMemory_def ArgonTime_def
        ArgonParallelism_def char_of_def bit_iff_odd)
  then show ?thesis by simp
qed

lemma HashSecret_key:
  assumes "\<And>s salt t m p n. length (idkey s salt t m p n) = n"
    and "HashSecret idkey rnd secret = Inr h"
  obtains salt where "rnd ArgonSaltSize = Inr salt"
    "\<And>candidate. VerifySecret idkey candidate h \<longleftrightarrow>
       idkey candidate salt ArgonTime ArgonMemory ArgonParallelism ArgonKeySize =
       idkey secret salt ArgonTime ArgonMemory ArgonParallelism ArgonKeySize"
proof -
  obtain salt where salt: "rnd ArgonSaltSize = Inr salt"
    using assms(2) by (auto simp: HashSecret_def split: sum.splits)
  define key where "key c = idkey c salt ArgonTime ArgonMemory ArgonParallelism ArgonKeySize" for c
  have h: "h = ''$argon2id$v=19$m=19456,t=2,p=1$'' @
      RawStdEncoding_EncodeToString salt @ ''$'' @ RawStdEncoding_EncodeToString (key secret)"
    using assms(2) salt by (simp only: HashSecret_def Let_def sum.case hash_text key_def sum.inject)
  have parts: "splitHash h = [[], ''argon2id'', ''v=19'', ''m=19456,t=2,p=1'',
      RawStdEncoding_EncodeToString salt, RawStdEncoding_EncodeToString (key secret)]"
    unfolding h splitHash_def by (rule split_hash) simp_all
  have len: "length (key secret) mod 2 ^ 32 = ArgonKeySize"
    by (simp add: key_def assms(1) ArgonKeySize_def)
  have "VerifySecret idkey c h \<longleftrightarrow> key c = key secret" for c
    using len by (auto simp: VerifySecret_def parts scan_version_own scan_params_own key_def)
  then show ?thesis using that salt unfolding key_def by blast
qed

lemma HashSecret_accepts:
  "(\<And>s salt t m p n. length (idkey s salt t m p n) = n) \<Longrightarrow> HashSecret idkey rnd secret = Inr h \<Longrightarrow>
   VerifySecret idkey secret h"
  by (erule HashSecret_key[rotated]) auto

text \<open>
  A stored hash accepts exactly the secrets with the same key: when \<^verbatim>\<open>HashSecret\<close> returns a
  hash for a secret under some salt, \<^verbatim>\<open>VerifySecret\<close> accepts a candidate against that hash if and
  only if Argon2id maps the candidate to the same key under that salt; in particular it accepts
  the secret itself. The only hypothesis on Argon2 is that it returns as many bytes as asked.
\<close>

theorem HashSecret_verifies:
  assumes "\<And>s salt t m p n. length (idkey s salt t m p n) = n"
    and "HashSecret idkey rnd secret = Inr h"
  shows "VerifySecret idkey secret h \<and>
    (\<exists>salt. rnd ArgonSaltSize = Inr salt \<and> (\<forall>candidate. VerifySecret idkey candidate h \<longleftrightarrow>
       idkey candidate salt ArgonTime ArgonMemory ArgonParallelism ArgonKeySize =
       idkey secret salt ArgonTime ArgonMemory ArgonParallelism ArgonKeySize))"
  using HashSecret_key[OF assms] HashSecret_accepts[OF assms] by metis

definition sample_argon :: argon2_fun where
  \<comment> \<open>a function of the right type for evaluation: the secret cut or padded to the length\<close>
  "sample_argon s salt t m p n = take n (s @ salt @ replicate n CHR ''x'')"

lemma sample_argon_length: "length (sample_argon s salt t m p n) = n"
  by (simp add: sample_argon_def)

theorem HashSecret_verifies_witness:
  "\<exists>h. HashSecret sample_argon (\<lambda>n. Inr (replicate n CHR ''s'')) ''pw'' = Inr h \<and>
     VerifySecret sample_argon ''pw'' h \<and> \<not> VerifySecret sample_argon ''wp'' h"
proof -
  obtain h where h: "HashSecret sample_argon (\<lambda>n. Inr (replicate n CHR ''s'')) ''pw'' = Inr h"
    by (simp add: HashSecret_def Let_def)
  note v = HashSecret_verifies[OF sample_argon_length h]
  have "\<not> VerifySecret sample_argon ''wp'' h"
    using v by (auto simp: sample_argon_def ArgonKeySize_def ArgonSaltSize_def)
  with h v show ?thesis by blast
qed

section \<open>The policy\<close>

lemma policy_Validate_None:
  "policy_Validate u p s = None \<longleftrightarrow>
     MinLength p \<le> int (length s) \<and> int (length s) \<le> MaxLength p \<and>
     (RequireUppercase p \<longrightarrow> containsUppercase u s) \<and> (RequireLowercase p \<longrightarrow> containsLowercase u s) \<and>
     (RequireNumber p \<longrightarrow> containsNumber u s) \<and> (RequireSpecial p \<longrightarrow> containsSpecial u s)"
  by (auto simp: policy_Validate_def policy_violations_def Let_def)

lemma LoadPolicyFromConfig_bounds:
  "0 < MinLength (LoadPolicyFromConfig cfg)"
  "MinLength (LoadPolicyFromConfig cfg) \<le> MaxLength (LoadPolicyFromConfig cfg)"
  by (auto simp: LoadPolicyFromConfig_def DefaultPolicy_def Let_def)

end
