(* ===== verification/Go_Json.thy ===== *)
theory Go_Json
  imports Prelude
begin

text \<open>
  JSON values as Go decodes them into \<^verbatim>\<open>any\<close>: \<^verbatim>\<open>nil\<close>, booleans, numbers (by the canonical text
  of their float64), strings, \<^verbatim>\<open>[]any\<close> and \<^verbatim>\<open>map[string]any\<close>. A map is the list of its
  entries; \<open>wf_json\<close> says that no key occurs twice. Go visits the entries of a map in any
  order, and so \<open>same_json\<close>, which is \<^verbatim>\<open>reflect.DeepEqual\<close>, does not look at it.
\<close>

datatype json = JNull | JBool bool | JNum string | JStr string | JArr "json list" | JObj "(string \<times> json) list"

lemma obj_entry_size [termination_simp]: "(k, v) \<in> set kvs \<Longrightarrow> size v < Suc (size_list (size_prod (\<lambda>_. 0) size) kvs)"
  by (induction kvs) auto

lemma obj_value_size [termination_simp]: "map_of kvs k = Some v \<Longrightarrow> size v < Suc (size_list (size_prod (\<lambda>_. 0) size) kvs)"
  by (drule map_of_SomeD) (rule obj_entry_size)

fun wf_json :: "json \<Rightarrow> bool" where
  "wf_json (JArr xs) = (\<forall>x\<in>set xs. wf_json x)"
| "wf_json (JObj kvs) = (distinct (map fst kvs) \<and> (\<forall>(k, v)\<in>set kvs. wf_json v))"
| "wf_json j = True"

fun same_json :: "json \<Rightarrow> json \<Rightarrow> bool" where
  "same_json (JArr xs) (JArr ys) = list_all2 same_json xs ys"
| "same_json (JObj kvs) (JObj lvs) =
     (length kvs = length lvs \<and> (\<forall>(k, v)\<in>set kvs. case map_of lvs k of None \<Rightarrow> False | Some u \<Rightarrow> same_json v u))"
| "same_json a b = (a = b)"

fun json_at :: "string list \<Rightarrow> json \<Rightarrow> json option" where
  \<comment> \<open>the value at a path of keys\<close>
  "json_at [] j = Some j"
| "json_at (k # ks) (JObj kvs) = Option.bind (map_of kvs k) (json_at ks)"
| "json_at (k # ks) j = None"

lemma map_of_map_entries: "map_of (map (\<lambda>(k, v). (k, f k v)) kvs) k = map_option (f k) (map_of kvs k)"
  by (induction kvs) auto

end
