(* ===== verification/GC_World.thy ===== *)
theory GC_World
  imports GC_Store GC_Secret Go_Json
begin

text \<open>
  What the request handlers of ground control run on.

  \<^item> The world: the committed database, the transaction of the running handler, Harbor and its
    registry (a state of any type, reached only through the operations of \<open>harbor_api\<close>), the
    audit log and the clock. A handler runs at one instant and alone; requests that interleave
    inside a handler are not modelled.
  \<^item> The outside, as arguments: which database calls fail, the random source, Argon2, the
    Unicode tables, Harbor's answers.
  \<^item> Go's \<open>x, err := m; if err != nil {...}\<close> is \<open>check_err\<close>, in the state monad.
  \<^item> \<^verbatim>\<open>server/handleResponse.go\<close> and the parts of \<^verbatim>\<open>internal/env\<close> the handlers read.

  A statement that fails inside a transaction aborts it, as PostgreSQL does; a commit that
  reports an error has changed nothing.
\<close>

section \<open>Harbor\<close>

record robot_permission =
  perm_Access :: "(string \<times> string) list" \<comment> \<open>action and resource\<close>
  perm_Kind :: string
  perm_Namespace :: string

record harbor_robot =
  hr_ID :: int
  hr_Name :: string
  hr_ExpiresAt :: int
  hr_Permissions :: "robot_permission list"

record robot_create =
  rc_Description :: string
  rc_Disable :: bool
  rc_Duration :: int
  rc_Level :: string
  rc_Name :: string
  rc_Permissions :: "robot_permission list"

record robot_created =
  crt_ID :: int
  crt_Name :: string
  crt_Secret :: string
  crt_ExpiresAt :: int

datatype head_result = HeadOK bool | HeadNotFound | HeadError string

record gc_artifact =
  ga_Repository :: string
  ga_Tag :: "string list"
  ga_Type :: string
  ga_Digest :: string
  ga_Deleted :: bool

record state_artifact =
  sa_Group :: string
  sa_Registry :: string
  sa_Artifacts :: "gc_artifact list"

record satellite_state_artifact =
  ssa_States :: "string list"
  ssa_Config :: string

datatype 'j state_image = \<comment> \<open>the \<^verbatim>\<open>artifacts.json\<close> layer of an image that ground control pushes\<close>
  GroupImage state_artifact | SatelliteImage satellite_state_artifact | ConfigImage 'j

record ('j, 'h) harbor_api =
  ha_ListRobot :: "string \<Rightarrow> 'h \<Rightarrow> harbor_robot list result \<times> 'h"
  ha_CreateRobot :: "robot_create \<Rightarrow> 'h \<Rightarrow> robot_created result \<times> 'h"
  ha_GetRobotByID :: "int \<Rightarrow> 'h \<Rightarrow> harbor_robot result \<times> 'h"
  ha_UpdateRobot :: "harbor_robot \<Rightarrow> 'h \<Rightarrow> unit result \<times> 'h"
  ha_DeleteRobot :: "int \<Rightarrow> 'h \<Rightarrow> unit result \<times> 'h"
  ha_RefreshSec :: "string \<Rightarrow> int \<Rightarrow> 'h \<Rightarrow> string option result \<times> 'h" \<comment> \<open>the payload may be nil\<close>
  ha_ListReplicationPolicies :: "string \<Rightarrow> 'h \<Rightarrow> string list result \<times> 'h"
  ha_HeadProject :: "string \<Rightarrow> 'h \<Rightarrow> head_result \<times> 'h"
  ha_CreateProject :: "string \<Rightarrow> bool \<Rightarrow> int \<Rightarrow> 'h \<Rightarrow> bool result \<times> 'h"
  ha_Push :: "'j state_image \<Rightarrow> string \<Rightarrow> bool \<Rightarrow> 'h \<Rightarrow> unit result \<times> 'h" \<comment> \<open>destination, insecure\<close>
  ha_Tag :: "string \<Rightarrow> string \<Rightarrow> bool \<Rightarrow> 'h \<Rightarrow> unit result \<times> 'h"
  ha_HTTPDelete :: "string \<Rightarrow> 'h \<Rightarrow> int result \<times> 'h" \<comment> \<open>the status of the response\<close>

section \<open>The server and its surroundings\<close>

record harbor_env =
  he_URL :: string
  he_Username :: string
  he_Password :: string
  he_SkipHealthCheck :: bool
  he_RobotDurationDays :: string

record server =
  srv_passwordPolicy :: password_policy
  srv_sessionDuration :: int
  srv_lockoutDuration :: int
  srv_trustForwardedHeaders :: bool
  srv_spiffe :: bool \<comment> \<open>a SPIFFE provider or a SPIRE client is configured\<close>
  srv_AdminPassword :: string
  srv_Harbor :: harbor_env

record ('j, 'h) gc_env =
  ge_server :: server
  ge_db_fails :: "nat \<Rightarrow> bool" \<comment> \<open>the database call with this number fails\<close>
  ge_rand :: "nat \<Rightarrow> nat \<Rightarrow> string result" \<comment> \<open>reading bytes from the random source after that many calls\<close>
  ge_argon :: argon2_fun
  ge_unicode :: unicode
  ge_interval :: "string \<Rightarrow> int option" \<comment> \<open>PostgreSQL's text to interval\<close>
  ge_rfc3339 :: "int \<Rightarrow> string" \<comment> \<open>\<^verbatim>\<open>Time.Format(time.RFC3339)\<close> in the local zone\<close>
  ge_harbor :: "('j, 'h) harbor_api"

record audit_event =
  ev_Operation :: string
  ev_ResourceType :: string
  ev_Outcome :: string
  ev_Actor :: string
  ev_ActorType :: string
  ev_Resource :: string
  ev_SatelliteID :: string
  ev_Reason :: string
  ev_SourceIP :: string
  ev_UserAgent :: string
  ev_RequestID :: string
  ev_Details :: "(string \<times> json) list"

datatype 'j tx = NoTx | Open "'j db" | Aborted

record ('j, 'h) gc_world =
  w_db :: "'j db"
  w_tx :: "'j tx"
  w_harbor :: 'h
  w_calls :: nat \<comment> \<open>calls so far, indexing the faults and the random source\<close>
  w_now :: int
  w_audit :: "audit_event list" \<comment> \<open>newest last\<close>

type_synonym ('j, 'h, 'a) gc = "(('j, 'h) gc_world, 'a) state"

section \<open>Calls\<close>

definition ErrConn :: string where "ErrConn = ''driver: bad connection''"
definition ErrTxDone :: string where "ErrTxDone = ''sql: transaction has already been committed or rolled back''"
definition ErrTxAborted :: string where "ErrTxAborted = ''pq: current transaction is aborted''"

definition check_err :: "('s, 'e + 'a) state \<Rightarrow> ('e \<Rightarrow> ('s, 'b) state) \<Rightarrow> ('a \<Rightarrow> ('s, 'b) state) \<Rightarrow> ('s, 'b) state" where
  "check_err m h k = do { r \<leftarrow> m; case r of Inl err \<Rightarrow> h err | Inr x \<Rightarrow> k x }"

definition count_call :: "('j, 'h) gc_world \<Rightarrow> ('j, 'h) gc_world" where
  "count_call w = w\<lparr>w_calls := Suc (w_calls w)\<rparr>"

definition db_call :: "('j, 'h) gc_env \<Rightarrow> ('j, 'a) query \<Rightarrow> ('j, 'h, 'a result) gc" where
  \<comment> \<open>a query on \<^verbatim>\<open>s.dbQueries\<close>, outside any transaction\<close>
  "db_call e q = State (\<lambda>w.
     if ge_db_fails e (w_calls w) then (Inl ErrConn, count_call w)
     else case q (w_db w) of
       Inl err \<Rightarrow> (Inl err, count_call w)
     | Inr (x, db) \<Rightarrow> (Inr x, (count_call w)\<lparr>w_db := db\<rparr>))"

definition tx_call :: "('j, 'h) gc_env \<Rightarrow> ('j, 'a) query \<Rightarrow> ('j, 'h, 'a result) gc" where
  \<comment> \<open>a query on \<^verbatim>\<open>s.dbQueries.WithTx(tx)\<close>; \<^verbatim>\<open>sql.ErrNoRows\<close> is not an error of the server\<close>
  "tx_call e q = State (\<lambda>w.
     case w_tx w of
       NoTx \<Rightarrow> (Inl ErrTxDone, count_call w)
     | Aborted \<Rightarrow> (Inl ErrTxAborted, count_call w)
     | Open db \<Rightarrow>
         if ge_db_fails e (w_calls w) then (Inl ErrConn, (count_call w)\<lparr>w_tx := Aborted\<rparr>)
         else (case q db of
                 Inl err \<Rightarrow> (Inl err, if err = ErrNoRows then count_call w else (count_call w)\<lparr>w_tx := Aborted\<rparr>)
               | Inr (x, db') \<Rightarrow> (Inr x, (count_call w)\<lparr>w_tx := Open db'\<rparr>)))"

definition BeginTx :: "('j, 'h) gc_env \<Rightarrow> ('j, 'h, unit result) gc" where
  "BeginTx e = State (\<lambda>w.
     if ge_db_fails e (w_calls w) then (Inl ErrConn, count_call w)
     else (Inr (), (count_call w)\<lparr>w_tx := Open (w_db w)\<rparr>))"

definition Commit :: "('j, 'h) gc_env \<Rightarrow> ('j, 'h, unit result) gc" where
  "Commit e = State (\<lambda>w.
     case w_tx w of
       NoTx \<Rightarrow> (Inl ErrTxDone, count_call w)
     | Aborted \<Rightarrow> (Inl ErrTxAborted, (count_call w)\<lparr>w_tx := NoTx\<rparr>)
     | Open db \<Rightarrow>
         if ge_db_fails e (w_calls w) then (Inl ErrConn, (count_call w)\<lparr>w_tx := NoTx\<rparr>)
         else (Inr (), (count_call w)\<lparr>w_tx := NoTx, w_db := db\<rparr>))"

definition Rollback :: "('j, 'h, unit) gc" where
  \<comment> \<open>its error is logged; a response it writes comes after the first one and is void\<close>
  "Rollback = modify (\<lambda>w. (count_call w)\<lparr>w_tx := NoTx\<rparr>)"

definition harbor_call :: "('h \<Rightarrow> 'a \<times> 'h) \<Rightarrow> ('j, 'h, 'a) gc" where
  "harbor_call f = State (\<lambda>w. case f (w_harbor w) of (r, h) \<Rightarrow> (r, w\<lparr>w_harbor := h\<rparr>))"

definition rand_call :: "('j, 'h) gc_env \<Rightarrow> ((nat \<Rightarrow> string result) \<Rightarrow> 'a) \<Rightarrow> ('j, 'h, 'a) gc" where
  \<comment> \<open>a computation that reads the random source\<close>
  "rand_call e f = State (\<lambda>w. (f (ge_rand e (w_calls w)), count_call w))"

lemmas gc_prims = db_call_def tx_call_def BeginTx_def Commit_def Rollback_def harbor_call_def rand_call_def

section \<open>Responses\<close>

datatype gc_error = AppError string int | GoError string

datatype 'b response = JSONError string int | JSONReply int 'b | StatusOnly int

fun status_of :: "'b response \<Rightarrow> int" where
  "status_of (JSONError m c) = c"
| "status_of (JSONReply c b) = c"
| "status_of (StatusOnly c) = c"

definition WriteJSONError :: "string \<Rightarrow> int \<Rightarrow> 'b response" where
  "WriteJSONError message statusCode = JSONError message statusCode"

definition WriteJSONResponse :: "int \<Rightarrow> 'b \<Rightarrow> 'b response" where
  "WriteJSONResponse statusCode data = JSONReply statusCode data"

fun HandleAppError :: "gc_error \<Rightarrow> 'b response" where
  "HandleAppError (AppError m c) = JSONError m c"
| "HandleAppError (GoError m) = JSONError ''Internal Server Error'' 500"

lemmas responses = WriteJSONError_def WriteJSONResponse_def

section \<open>Requests\<close>

record auth_user =
  au_ID :: int
  au_Username :: string
  au_Role :: string

record http_request =
  rq_Authorization :: string
  rq_XForwardedFor :: string
  rq_XRealIP :: string
  rq_XRequestID :: string
  rq_UserAgent :: string
  rq_RemoteAddr :: string
  rq_user :: "auth_user option" \<comment> \<open>the context values the middlewares set\<close>
  rq_request_id :: string
  rq_satellite :: "string option"

section \<open>Environment\<close>

definition Harbor_Validate :: "harbor_env \<Rightarrow> string option" where
  "Harbor_Validate h =
     (if he_URL h = [] then Some ''HARBOR_URL environment variable is not set''
      else if he_Username h = [] then Some ''HARBOR_USERNAME environment variable is not set''
      else if he_Password h = [] then Some ''HARBOR_PASSWORD environment variable is not set''
      else None)"

definition ParseInt64 :: "string \<Rightarrow> int result" where
  \<comment> \<open>\<^verbatim>\<open>strconv.ParseInt(s, 10, 64)\<close>: an optional sign and digits only, in range\<close>
  "ParseInt64 s =
     (let neg = (s \<noteq> [] \<and> hd s = CHR ''-'');
          ds = (if s \<noteq> [] \<and> hd s \<in> {CHR ''-'', CHR ''+''} then tl s else s);
          v = (if neg then - int (digits_value ds) else int (digits_value ds)) in
      if ds = [] \<or> \<not> list_all dec_digit ds then Inl ''invalid syntax''
      else if v < - (2 ^ 63) \<or> 2 ^ 63 \<le> v then Inl ''value out of range''
      else Inr v)"

definition RobotDurationDaysValue :: "harbor_env \<Rightarrow> int" where
  "RobotDurationDaysValue h =
     (case ParseInt64 (he_RobotDurationDays h) of
        Inl _ \<Rightarrow> 30 | Inr days \<Rightarrow> if days \<le> 0 then 30 else days)"

section \<open>Reasoning\<close>

lemma wp_check_err [wp]:
  "wp (check_err m h k) Q s = wp m (\<lambda>r. wp (case r of Inl err \<Rightarrow> h err | Inr x \<Rightarrow> k x) Q) s"
  by (simp add: check_err_def wp)

lemma run_check_err:
  "run_state (check_err m h k) s =
     (case run_state m s of (Inl err, t) \<Rightarrow> run_state (h err) t | (Inr x, t) \<Rightarrow> run_state (k x) t)"
  by (simp add: check_err_def split: prod.splits sum.splits)

lemma count_call_simps [simp]:
  "w_db (count_call w) = w_db w" "w_tx (count_call w) = w_tx w" "w_harbor (count_call w) = w_harbor w"
  "w_now (count_call w) = w_now w" "w_audit (count_call w) = w_audit w" "w_calls (count_call w) = Suc (w_calls w)"
  by (simp_all add: count_call_def)

lemma count_call_same [simp]: "(count_call w)\<lparr>w_db := w_db w\<rparr> = count_call w"
  by (simp add: count_call_def)

lemma conn_not_no_rows [simp]: "ErrConn \<noteq> ErrNoRows" "ErrNoRows \<noteq> ErrConn"
  by (simp_all add: ErrConn_def ErrNoRows_def)

text \<open>
  An operation that leaves the committed database alone, whatever happens around it, and the
  rules that show it of the composition of such operations.
\<close>

named_theorems keeps \<open>operations that leave the committed database alone\<close>

definition keeps_db :: "('j, 'h, 'a) gc \<Rightarrow> bool" where
  "keeps_db m = (\<forall>w. w_db (snd (run_state m w)) = w_db w \<and> w_now (snd (run_state m w)) = w_now w)"

definition read_only :: "('j, 'a) query \<Rightarrow> bool" where
  "read_only q = (\<forall>db x db'. q db = Inr (x, db') \<longrightarrow> db' = db)"

lemma keeps_dbD:
  "keeps_db m \<Longrightarrow> run_state m w = (a, v) \<Longrightarrow> w_db v = w_db w"
  "keeps_db m \<Longrightarrow> run_state m w = (a, v) \<Longrightarrow> w_now v = w_now w"
  by (metis keeps_db_def snd_conv)+

lemma keeps_bind [keeps]: "keeps_db m \<Longrightarrow> (\<And>x. keeps_db (k x)) \<Longrightarrow> keeps_db (State_Monad.bind m k)"
  by (simp add: keeps_db_def split: prod.splits) (metis snd_conv)

lemma keeps_check_err [keeps]:
  "keeps_db m \<Longrightarrow> (\<And>err. keeps_db (h err)) \<Longrightarrow> (\<And>x. keeps_db (k x)) \<Longrightarrow> keeps_db (check_err m h k)"
  unfolding check_err_def by (rule keeps_bind) (auto split: sum.splits)

lemma keeps_ret [keeps]: "keeps_db (ret x)"
  by (simp add: keeps_db_def)

lemma keeps_if [keeps]: "keeps_db m \<Longrightarrow> keeps_db n \<Longrightarrow> keeps_db (if b then m else n)"
  by simp

lemma keeps_tx_call [keeps]: "keeps_db (tx_call e q)"
  by (simp add: keeps_db_def tx_call_def split: tx.splits sum.splits prod.splits)

lemma keeps_BeginTx [keeps]: "keeps_db (BeginTx e)"
  by (simp add: keeps_db_def BeginTx_def)

lemma keeps_Rollback [keeps]: "keeps_db Rollback"
  by (simp add: keeps_db_def Rollback_def)

lemma keeps_harbor_call [keeps]: "keeps_db (harbor_call f)"
  by (simp add: keeps_db_def harbor_call_def split: prod.splits)

lemma keeps_rand_call [keeps]: "keeps_db (rand_call e f)"
  by (simp add: keeps_db_def rand_call_def)

lemma keeps_db_call [keeps]: "read_only q \<Longrightarrow> keeps_db (db_call e q)"
  by (auto simp: keeps_db_def db_call_def read_only_def split: sum.splits prod.splits)

lemma read_only_select [keeps]: "read_only (select_one p t)" "read_only (select_many p t)"
  by (auto simp: read_only_def select_one_def select_many_def split: option.splits)

lemma read_only_queries [keeps]:
  "read_only (GetSatelliteByName n)" "read_only (GetSatellite i)" "read_only (GetGroupByName n)"
  "read_only (GetGroupByID i)" "read_only (GetRobotAccBySatelliteID i)" "read_only (GetRobotAccByRobotName n)"
  "read_only (GetTokenByValue t)" "read_only (GetConfigByName n)" "read_only (GetConfigByID i)"
  "read_only (SatelliteConfig i)" "read_only (SatelliteGroupList i)" "read_only (GroupSatelliteList i)"
  "read_only (GetUserByUsername n)" "read_only (GetLoginAttempts n)" "read_only (ConfigSatelliteList i)"
  "read_only ListSatellites" "read_only ListGroups" "read_only ListConfigs"
  unfolding GetSatelliteByName_def GetSatellite_def GetGroupByName_def GetGroupByID_def
    GetRobotAccBySatelliteID_def GetRobotAccByRobotName_def GetTokenByValue_def GetConfigByName_def
    GetConfigByID_def SatelliteConfig_def SatelliteGroupList_def GroupSatelliteList_def
    GetUserByUsername_def GetLoginAttempts_def ConfigSatelliteList_def ListSatellites_def ListGroups_def ListConfigs_def
  by (rule read_only_select)+

lemma read_only_others [keeps]:
  "read_only (CheckSatelliteInGroup i j)" "read_only (GetSessionByToken now t)" "read_only (GetProjectsOfGroup n)"
  "read_only SystemAdminExists" "read_only ListUsers" "read_only (GetSatellitesByGroupName n)"
  "read_only (CheckGroupExists n)" "read_only (GetLatestSatelliteStatus i)" "read_only (GetLatestArtifacts i)"
  "read_only (GetActiveSatellites iv now)" "read_only (GetStaleSatellites iv now)" "read_only (GetArtifactIDsByReferences rs)"
  by (auto simp: read_only_def CheckSatelliteInGroup_def GetSessionByToken_def GetProjectsOfGroup_def
      SystemAdminExists_def ListUsers_def GetSatellitesByGroupName_def CheckGroupExists_def GetLatestSatelliteStatus_def GetLatestArtifacts_def
      GetActiveSatellites_def GetStaleSatellites_def GetArtifactIDsByReferences_def select_many_def Let_def
      split: option.splits if_splits)

end
