(* ===== verification/GC_Auth.thy ===== *)
theory GC_Auth
  imports GC_World
begin

text \<open>
  Authentication in ground control: \<^verbatim>\<open>server/auth_handlers.go\<close>, \<^verbatim>\<open>server/middleware.go\<close> and
  \<^verbatim>\<open>server/bootstrap.go\<close>. A middleware takes the next handler as a function of the request; the
  context values it adds are fields of the request. The body of a login request is given as the
  decoder found it, \<open>None\<close> when it does not decode. The details of audit events and log lines
  are left out.
\<close>

section \<open>Request fields\<close>

definition allowed_request_id :: string where
  "allowed_request_id = ''abcdefghijklmnopqrstuvwxyzABCDEFGHIJKLMNOPQRSTUVWXYZ0123456789._-''"

definition maxRequestIDLen :: nat where "maxRequestIDLen = 128"

definition validRequestID :: "string \<Rightarrow> bool" where
  "validRequestID s =
     (if length s = 0 \<or> maxRequestIDLen < length s then False
      else list_all (\<lambda>c. c \<in> set (map byte allowed_request_id)) (runes s))"

definition RequestIDMiddleware :: "string \<Rightarrow> (http_request \<Rightarrow> 'a) \<Rightarrow> http_request \<Rightarrow> string \<times> 'a" where
  \<comment> \<open>\<open>uuid\<close> is the generated identifier; the result is the response header and what follows\<close>
  "RequestIDMiddleware uuid next r =
     (let rid = trim_space (rq_XRequestID r);
          rid = (if validRequestID rid then rid else uuid)
      in (rid, next (r\<lparr>rq_request_id := rid\<rparr>)))"

definition SplitHostPort :: "string \<Rightarrow> string option" where
  \<comment> \<open>the host that \<^verbatim>\<open>net.SplitHostPort\<close> returns, if it returns no error\<close>
  "SplitHostPort hp =
     (if CHR '':'' \<notin> set hp then None
      else
        let port = rev (takeWhile (\<lambda>c. c \<noteq> CHR '':'') (rev hp));
            before = take (length hp - length port - 1) hp in
        if hd hp = CHR ''['' then
          if CHR '']'' \<notin> set hp then None
          else
            let host = takeWhile (\<lambda>c. c \<noteq> CHR '']'') (tl hp);
                rest = drop (length host + 2) hp in
            if rest = CHR '':'' # port
            then if CHR ''['' \<in> set host \<or> CHR ''['' \<in> set rest \<or> CHR '']'' \<in> set rest then None else Some host
            else None
        else if CHR '':'' \<in> set before \<or> CHR ''['' \<in> set hp \<or> CHR '']'' \<in> set hp then None
        else Some before)"

definition clientIP :: "server \<Rightarrow> http_request \<Rightarrow> string" where
  "clientIP s r =
     (let direct = (case SplitHostPort (rq_RemoteAddr r) of Some host \<Rightarrow> host | None \<Rightarrow> rq_RemoteAddr r);
          xff = rq_XForwardedFor r; xri = trim_space (rq_XRealIP r) in
      if \<not> srv_trustForwardedHeaders s then direct
      else if xff \<noteq> [] then
        (case split2 CHR '','' xff of
           first # _ # _ \<Rightarrow> if first \<noteq> [] then trim_space first else trim_space xff
         | _ \<Rightarrow> trim_space xff)
      else if xri \<noteq> [] then xri
      else direct)"

definition auditEvent :: "('j, 'h) gc_env \<Rightarrow> http_request \<Rightarrow> audit_event \<Rightarrow> ('j, 'h, unit) gc" where
  "auditEvent e r ev =
     (let ev = ev\<lparr>ev_SourceIP := clientIP (ge_server e) r\<rparr>;
          ev = (if rq_UserAgent r \<noteq> [] then ev\<lparr>ev_UserAgent := rq_UserAgent r\<rparr> else ev);
          ev = (if rq_request_id r \<noteq> [] then ev\<lparr>ev_RequestID := rq_request_id r\<rparr> else ev)
      in modify (\<lambda>w. w\<lparr>w_audit := w_audit w @ [ev]\<rparr>))"

definition event :: "string \<Rightarrow> string \<Rightarrow> string \<Rightarrow> string \<Rightarrow> string \<Rightarrow> audit_event" where
  \<comment> \<open>an \<^verbatim>\<open>AuditEvent\<close> literal with its other fields empty\<close>
  "event operation resourceType outcome actor actorType =
     \<lparr>ev_Operation = operation, ev_ResourceType = resourceType, ev_Outcome = outcome, ev_Actor = actor,
      ev_ActorType = actorType, ev_Resource = [], ev_SatelliteID = [], ev_Reason = [], ev_SourceIP = [],
      ev_UserAgent = [], ev_RequestID = [], ev_Details = []\<rparr>"

definition extractBearerToken :: "http_request \<Rightarrow> string" where
  "extractBearerToken r =
     (if rq_Authorization r = [] then []
      else case split2 CHR '' '' (rq_Authorization r) of
        [scheme, token] \<Rightarrow> if to_lower scheme = ''bearer'' then token else []
      | _ \<Rightarrow> [])"

definition extractToken :: "http_request \<Rightarrow> string" where
  "extractToken r = extractBearerToken r"

definition extractBasicAuth :: "http_request \<Rightarrow> (string \<times> string) option" where
  "extractBasicAuth r =
     (if rq_Authorization r = [] then None
      else case split2 CHR '' '' (rq_Authorization r) of
        [scheme, enc] \<Rightarrow>
          if to_lower scheme \<noteq> ''basic'' then None
          else (case StdEncoding_DecodeString enc of
                  None \<Rightarrow> None
                | Some decoded \<Rightarrow>
                    (case split2 CHR '':'' decoded of [u, p] \<Rightarrow> Some (u, p) | _ \<Rightarrow> None))
      | _ \<Rightarrow> None)"

section \<open>Login\<close>

record loginRequest =
  lr_Username :: string
  lr_Password :: string

record loginResponse =
  lresp_Token :: string
  lresp_ExpiresAt :: string

definition maxFailedAttempts :: int where "maxFailedAttempts = 5"

definition recordFailedAttempt :: "('j, 'h) gc_env \<Rightarrow> string \<Rightarrow> ('j, 'h, unit) gc" where
  "recordFailedAttempt e username = do {
     now \<leftarrow> gets w_now;
     check_err (db_call e (UpsertLoginAttempt now username)) (\<lambda>_. ret ()) (\<lambda>attempts.
       if maxFailedAttempts \<le> la_FailedCount attempts
       then check_err (db_call e (LockAccount now username (Some (now + srv_lockoutDuration (ge_server e)))))
              (\<lambda>_. ret ()) (\<lambda>_. ret ())
       else ret ())
   }"

definition login_failure :: "string \<Rightarrow> string \<Rightarrow> audit_event" where
  "login_failure username reason = (event ''login'' ''session'' ''failure'' username ''user'')\<lparr>ev_Reason := reason\<rparr>"

definition login_session :: "('j, 'h) gc_env \<Rightarrow> http_request \<Rightarrow> string \<Rightarrow> user_row \<Rightarrow> ('j, 'h, loginResponse response) gc" where
  \<comment> \<open>the handler once the password is verified\<close>
  "login_session e r username user = do {
     now \<leftarrow> gets w_now;
     db_call e (ResetLoginAttempts now username);
     check_err (rand_call e GenerateSessionToken) (\<lambda>_. ret (WriteJSONError ''Internal server error'' 500)) (\<lambda>token.
     check_err (db_call e (CreateSession now (usr_ID user) token (now + srv_sessionDuration (ge_server e))))
       (\<lambda>_. ret (WriteJSONError ''Internal server error'' 500)) (\<lambda>_. do {
     auditEvent e r (event ''login'' ''session'' ''success'' username ''user'');
     ret (WriteJSONResponse 200 \<lparr>lresp_Token = token, lresp_ExpiresAt = ge_rfc3339 e (now + srv_sessionDuration (ge_server e))\<rparr>)
     }))
   }"

definition login_checked :: "('j, 'h) gc_env \<Rightarrow> http_request \<Rightarrow> loginRequest \<Rightarrow> ('j, 'h, loginResponse response) gc" where
  \<comment> \<open>the handler once the account is known not to be locked\<close>
  "login_checked e r req =
     check_err (db_call e (GetUserByUsername (lr_Username req)))
       (\<lambda>_. do { recordFailedAttempt e (lr_Username req);
                 auditEvent e r (login_failure (lr_Username req) ''unknown_user'');
                 ret (WriteJSONError ''Invalid credentials'' 401) })
       (\<lambda>user.
         if \<not> VerifyPassword (ge_argon e) (lr_Password req) (usr_PasswordHash user)
         then do { recordFailedAttempt e (lr_Username req);
                   auditEvent e r (login_failure (lr_Username req) ''bad_password'');
                   ret (WriteJSONError ''Invalid credentials'' 401) }
         else login_session e r (lr_Username req) user)"

definition loginHandler :: "('j, 'h) gc_env \<Rightarrow> http_request \<Rightarrow> loginRequest option \<Rightarrow> ('j, 'h, loginResponse response) gc" where
  "loginHandler e r body =
     (case body of
        None \<Rightarrow> ret (WriteJSONError ''Invalid request body'' 400)
      | Some req \<Rightarrow>
          if lr_Username req = [] \<or> lr_Password req = []
          then do { auditEvent e r (login_failure (lr_Username req) ''missing_credentials'');
                    ret (WriteJSONError ''Invalid credentials'' 401) }
          else do {
            now \<leftarrow> gets w_now;
            check_err (db_call e (GetLoginAttempts (lr_Username req)))
              (\<lambda>err. if err \<noteq> ErrNoRows then ret (WriteJSONError ''Internal server error'' 500)
                     else login_checked e r req)
              (\<lambda>attempts.
                case la_LockedUntil attempts of
                  Some until \<Rightarrow>
                    if now < until
                    then do { auditEvent e r (login_failure (lr_Username req) ''account_locked'');
                              ret (WriteJSONError ''Invalid credentials'' 401) }
                    else login_checked e r req
                | None \<Rightarrow> login_checked e r req)
          })"

definition logoutHandler :: "('j, 'h) gc_env \<Rightarrow> http_request \<Rightarrow> ('j, 'h, unit response) gc" where
  "logoutHandler e r =
     (let token = extractToken r in
      if token = [] then ret (WriteJSONError ''Unauthorized'' 401)
      else check_err (db_call e (DeleteSession token))
             (\<lambda>_. ret (WriteJSONError ''Internal server error'' 500))
             (\<lambda>_. ret (StatusOnly 204)))"

section \<open>Middlewares\<close>

definition session_user :: "session_row \<times> user_row \<Rightarrow> auth_user" where
  "session_user su = (case su of (s, u) \<Rightarrow> \<lparr>au_ID = ses_UserID s, au_Username = usr_Username u, au_Role = usr_Role u\<rparr>)"

definition user_auth :: "user_row \<Rightarrow> auth_user" where
  "user_auth u = \<lparr>au_ID = usr_ID u, au_Username = usr_Username u, au_Role = usr_Role u\<rparr>"

definition bearer_user :: "('j, 'h) gc_env \<Rightarrow> http_request \<Rightarrow> ('j, 'h, auth_user option) gc" where
  "bearer_user e r =
     (let token = extractBearerToken r in
      if token = [] then ret None
      else do {
        now \<leftarrow> gets w_now;
        check_err (db_call e (GetSessionByToken now token)) (\<lambda>_. ret None) (\<lambda>session. ret (Some (session_user session)))
      })"

definition basic_user :: "('j, 'h) gc_env \<Rightarrow> http_request \<Rightarrow> ('j, 'h, auth_user option) gc" where
  "basic_user e r =
     (case extractBasicAuth r of
        None \<Rightarrow> ret None
      | Some (username, password) \<Rightarrow>
          check_err (db_call e (GetUserByUsername username)) (\<lambda>_. ret None) (\<lambda>dbUser.
            ret (if VerifyPassword (ge_argon e) password (usr_PasswordHash dbUser) then Some (user_auth dbUser) else None)))"

definition AuthMiddleware ::
  "('j, 'h) gc_env \<Rightarrow> (http_request \<Rightarrow> ('j, 'h, 'b response) gc) \<Rightarrow> http_request \<Rightarrow> ('j, 'h, 'b response) gc" where
  "AuthMiddleware e next r = do {
     user \<leftarrow> bearer_user e r;
     user \<leftarrow> (case user of Some u \<Rightarrow> ret (Some u) | None \<Rightarrow> basic_user e r);
     case user of
       None \<Rightarrow> ret (WriteJSONError ''Unauthorized'' 401)
     | Some u \<Rightarrow> next (r\<lparr>rq_user := Some u\<rparr>)
   }"

definition GetUserFromContext :: "http_request \<Rightarrow> auth_user option" where
  "GetUserFromContext r = rq_user r"

definition RequireRole ::
  "string \<Rightarrow> (http_request \<Rightarrow> ('j, 'h, 'b response) gc) \<Rightarrow> http_request \<Rightarrow> ('j, 'h, 'b response) gc" where
  "RequireRole role next r =
     (case GetUserFromContext r of
        None \<Rightarrow> ret (WriteJSONError ''Unauthorized'' 401)
      | Some user \<Rightarrow>
          if au_Role user \<noteq> role then ret (WriteJSONError ''Forbidden'' 403)
          else next r)"

definition errRobotInvalidSecret :: string where "errRobotInvalidSecret = ''invalid secret''"
definition errRobotExpired :: string where "errRobotExpired = ''expired''"

definition validateSPIFFEAuth :: "('j, 'h) gc_env \<Rightarrow> string \<Rightarrow> ('j, 'h, string result) gc" where
  "validateSPIFFEAuth e spiffeName =
     check_err (db_call e (GetSatelliteByName spiffeName)) (\<lambda>err. ret (Inl err)) (\<lambda>sat. ret (Inr (sat_Name sat)))"

definition validateRobotAuth :: "('j, 'h) gc_env \<Rightarrow> string \<Rightarrow> string \<Rightarrow> ('j, 'h, string result) gc" where
  "validateRobotAuth e username password = do {
     now \<leftarrow> gets w_now;
     check_err (db_call e (GetRobotAccByRobotName username)) (\<lambda>err. ret (Inl err)) (\<lambda>robot.
       if \<not> VerifySecret (ge_argon e) password (rob_SecretHash robot) then ret (Inl errRobotInvalidSecret)
       else if (case rob_Expiry robot of Some t \<Rightarrow> t < now | None \<Rightarrow> False) then ret (Inl errRobotExpired)
       else check_err (db_call e (GetSatellite (rob_SatelliteID robot))) (\<lambda>err. ret (Inl err)) (\<lambda>sat.
              ret (Inr (sat_Name sat))))
   }"

definition failAuth ::
  "('j, 'h) gc_env \<Rightarrow> http_request \<Rightarrow> string \<Rightarrow> string \<Rightarrow> string \<Rightarrow> string \<Rightarrow> ('j, 'h, 'b response) gc" where
  "failAuth e r actor actorType reason errMsg = do {
     auditEvent e r ((event ''auth'' ''satellite'' ''failure'' actor actorType)\<lparr>ev_Reason := reason\<rparr>);
     ret (WriteJSONError errMsg 401)
   }"

definition SatelliteAuthMiddleware ::
  "('j, 'h) gc_env \<Rightarrow> (http_request \<Rightarrow> ('j, 'h, 'b response) gc) \<Rightarrow> http_request \<Rightarrow> ('j, 'h, 'b response) gc" where
  "SatelliteAuthMiddleware e next r =
     (case rq_satellite r of
        Some spiffeName \<Rightarrow>
          check_err (validateSPIFFEAuth e spiffeName)
            (\<lambda>_. failAuth e r spiffeName ''satellite'' ''invalid_credentials'' ''Unauthorized'')
            (\<lambda>satName. next (r\<lparr>rq_satellite := Some satName\<rparr>))
      | None \<Rightarrow>
          (case extractBasicAuth r of
             Some (username, password) \<Rightarrow>
               check_err (validateRobotAuth e username password)
                 (\<lambda>err. if err = errRobotExpired
                        then failAuth e r username ''robot'' ''token_expired'' ''Unauthorized''
                        else failAuth e r username ''robot'' ''invalid_credentials'' ''Invalid credentials'')
                 (\<lambda>satName. next (r\<lparr>rq_satellite := Some satName\<rparr>))
           | None \<Rightarrow> failAuth e r [] ''anonymous'' ''missing_credentials'' ''Unauthorized''))"

section \<open>The first administrator\<close>

definition systemAdminUsername :: string where "systemAdminUsername = ''admin''"
definition roleAdmin :: string where "roleAdmin = ''admin''"
definition roleSystemAdmin :: string where "roleSystemAdmin = ''system_admin''"

definition BootstrapSystemAdmin :: "('j, 'h) gc_env \<Rightarrow> ('j, 'h, unit result) gc" where
  "BootstrapSystemAdmin e = do {
     now \<leftarrow> gets w_now;
     check_err (db_call e SystemAdminExists)
       (\<lambda>err. ret (Inl (''failed to check system admin existence: '' @ err))) (\<lambda>found.
     if found then ret (Inr ())
     else let password = srv_AdminPassword (ge_server e) in
     if password = [] then ret (Inl ''ADMIN_PASSWORD environment variable is required for initial setup'')
     else case policy_Validate (ge_unicode e) (srv_passwordPolicy (ge_server e)) password of
       Some err \<Rightarrow> ret (Inl (''ADMIN_PASSWORD invalid: '' @ err))
     | None \<Rightarrow>
         check_err (rand_call e (\<lambda>rnd. HashPassword (ge_argon e) rnd password))
           (\<lambda>err. ret (Inl (''failed to hash admin password: '' @ err))) (\<lambda>hash.
         check_err (db_call e (CreateUser now systemAdminUsername hash roleSystemAdmin))
           (\<lambda>err. check_err (db_call e SystemAdminExists)
              (\<lambda>_. ret (Inl (''failed to create system admin: '' @ err)))
              (\<lambda>found. if found then ret (Inr ()) else ret (Inl (''failed to create system admin: '' @ err))))
           (\<lambda>_. ret (Inr ()))))
   }"

section \<open>What the primitives do\<close>

lemma keeps_auditEvent [keeps]: "keeps_db (auditEvent e r ev)"
  by (simp add: keeps_db_def auditEvent_def Let_def)

lemma run_auditEvent:
  "\<exists>ev'. run_state (auditEvent e r ev) w = ((), w\<lparr>w_audit := w_audit w @ [ev']\<rparr>) \<and> ev_Reason ev' = ev_Reason ev \<and>
     ev_Outcome ev' = ev_Outcome ev \<and> ev_Actor ev' = ev_Actor ev"
  by (auto simp: auditEvent_def Let_def)

lemma keeps_gets [keeps]: "keeps_db (gets f)"
  by (simp add: keeps_db_def)

lemma keeps_login_failure_path [keeps]: "keeps_db (failAuth e r a t re m)"
  unfolding failAuth_def by (intro keeps)

lemma db_call_cases:
  assumes "run_state (db_call e q) w = (res, v)"
  obtains (fail) err where "res = Inl err" "v = count_call w" "err = ErrConn \<or> q (w_db w) = Inl err"
  | (ok) x db where "res = Inr x" "q (w_db w) = Inr (x, db)" "v = (count_call w)\<lparr>w_db := db\<rparr>"
      "\<not> ge_db_fails e (w_calls w)"
  using assms by (auto simp: db_call_def split: if_splits sum.splits prod.splits)

section \<open>A sample installation\<close>

text \<open>Concrete surroundings for the witnesses: nothing fails, and Harbor is a list of robots.\<close>

definition sample_harbor :: "(json, harbor_robot list) harbor_api" where
  "sample_harbor = \<lparr>
     ha_ListRobot = (\<lambda>q h. (Inr (filter (\<lambda>x. ''name='' @ hr_Name x = q) h), h)),
     ha_CreateRobot = (\<lambda>c h. (Inr \<lparr>crt_ID = int (length h) + 1, crt_Name = rc_Name c, crt_Secret = ''first'', crt_ExpiresAt = 0\<rparr>,
        h @ [\<lparr>hr_ID = int (length h) + 1, hr_Name = rc_Name c, hr_ExpiresAt = 0, hr_Permissions = rc_Permissions c\<rparr>])),
     ha_GetRobotByID = (\<lambda>i h. (case find_first (\<lambda>x. hr_ID x = i) h of None \<Rightarrow> Inl ''not found'' | Some x \<Rightarrow> Inr x, h)),
     ha_UpdateRobot = (\<lambda>x h. (Inr (), map (\<lambda>y. if hr_ID y = hr_ID x then x else y) h)),
     ha_DeleteRobot = (\<lambda>i h. (Inr (), filter (\<lambda>x. hr_ID x \<noteq> i) h)),
     ha_RefreshSec = (\<lambda>s i h. (Inr (Some ''fresh''), h)),
     ha_ListReplicationPolicies = (\<lambda>q h. (Inr [q], h)),
     ha_HeadProject = (\<lambda>n h. (HeadOK True, h)),
     ha_CreateProject = (\<lambda>n p l h. (Inr True, h)),
     ha_Push = (\<lambda>i d b h. (Inr (), h)),
     ha_Tag = (\<lambda>d t b h. (Inr (), h)),
     ha_HTTPDelete = (\<lambda>u h. (Inr 200, h))\<rparr>"

definition sample_unicode :: unicode where
  "sample_unicode = \<lparr>uni_IsUpper = (\<lambda>n. 65 \<le> n \<and> n \<le> 90), uni_IsLower = (\<lambda>n. 97 \<le> n \<and> n \<le> 122),
     uni_IsDigit = (\<lambda>n. 48 \<le> n \<and> n \<le> 57), uni_IsLetter = (\<lambda>n. 65 \<le> n \<and> n \<le> 90 \<or> 97 \<le> n \<and> n \<le> 122)\<rparr>"

definition sample_server :: server where
  "sample_server = \<lparr>srv_passwordPolicy = DefaultPolicy, srv_sessionDuration = 100, srv_lockoutDuration = 50,
     srv_trustForwardedHeaders = False, srv_spiffe = False, srv_AdminPassword = ''Secret123'',
     srv_Harbor = \<lparr>he_URL = ''h'', he_Username = ''u'', he_Password = ''p'', he_SkipHealthCheck = False, he_RobotDurationDays = ''30''\<rparr>\<rparr>"

definition sample_env :: "(json, harbor_robot list) gc_env" where
  "sample_env = \<lparr>ge_server = sample_server, ge_db_fails = (\<lambda>_. False), ge_rand = (\<lambda>k n. Inr (replicate n CHR ''r'')),
     ge_argon = sample_argon, ge_unicode = sample_unicode, ge_interval = (\<lambda>_. Some 60000000000), ge_rfc3339 = show_int,
     ge_harbor = sample_harbor\<rparr>"

definition sample_world :: "json db \<Rightarrow> int \<Rightarrow> (json, harbor_robot list) gc_world" where
  "sample_world db now = \<lparr>w_db = db, w_tx = NoTx, w_harbor = [], w_calls = 0, w_now = now, w_audit = []\<rparr>"

definition sample_request :: http_request where
  "sample_request = \<lparr>rq_Authorization = [], rq_XForwardedFor = [], rq_XRealIP = [], rq_XRequestID = [], rq_UserAgent = [],
     rq_RemoteAddr = ''10.0.0.1:80'', rq_user = None, rq_request_id = [], rq_satellite = None\<rparr>"

definition sample_hash :: string where
  \<comment> \<open>the hash of \<open>''pw''\<close> under \<open>sample_argon\<close>\<close>
  "sample_hash = (case HashSecret sample_argon (\<lambda>n. Inr (replicate n CHR ''r'')) ''pw'' of Inr h \<Rightarrow> h | Inl e \<Rightarrow> e)"

definition sample_user :: user_row where
  "sample_user = \<lparr>usr_ID = 7, usr_Username = ''root'', usr_PasswordHash = sample_hash, usr_Role = ''system_admin'',
     usr_CreatedAt = 0, usr_UpdatedAt = 0\<rparr>"

definition sample_db :: "json db" where
  "sample_db = (empty_db :: json db)\<lparr>db_users := [sample_user], db_sessions :=
     [\<lparr>ses_ID = 1, ses_UserID = 7, ses_Token = ''tok'', ses_ExpiresAt = 90, ses_CreatedAt = 0\<rparr>], db_next := 8\<rparr>"

lemma sample_hash_ok:
  "HashSecret sample_argon (\<lambda>n. Inr (replicate n CHR ''r'')) ''pw'' = Inr sample_hash"
  by (simp add: sample_hash_def HashSecret_def Let_def)

lemma sample_password [simp]:
  "VerifyPassword sample_argon ''pw'' sample_hash" "\<not> VerifyPassword sample_argon ''no'' sample_hash"
proof -
  show "VerifyPassword sample_argon ''pw'' sample_hash"
    unfolding VerifyPassword_def by (rule HashSecret_accepts[OF sample_argon_length sample_hash_ok])
  show "\<not> VerifyPassword sample_argon ''no'' sample_hash"
    unfolding VerifyPassword_def
    by (rule HashSecret_key[OF sample_argon_length sample_hash_ok])
      (simp add: sample_argon_def ArgonKeySize_def)
qed

lemma sample_policy: "policy_Validate sample_unicode DefaultPolicy ''Secret123'' = None"
proof -
  have "runes ''Secret123'' = map byte ''Secret123''" by (rule runes_ascii) simp
  then show ?thesis
    by (simp add: policy_Validate_None DefaultPolicy_def containsUppercase_def containsLowercase_def containsNumber_def
        sample_unicode_def del: runes.simps)
qed

lemmas sample_parts = sample_env_def sample_server_def sample_world_def sample_request_def sample_db_def
  sample_user_def empty_db_def

section \<open>Who gets through\<close>

definition authentic :: "('j, 'h) gc_env \<Rightarrow> 'j db \<Rightarrow> int \<Rightarrow> http_request \<Rightarrow> user_row \<Rightarrow> bool" where
  \<comment> \<open>the request carries credentials of this user: a live session or the password\<close>
  "authentic e db now r u = (u \<in> set (db_users db) \<and>
     ((\<exists>s\<in>set (db_sessions db). ses_UserID s = usr_ID u \<and> ses_Token s = extractBearerToken r \<and>
         extractBearerToken r \<noteq> [] \<and> now < ses_ExpiresAt s) \<or>
      (\<exists>p. extractBasicAuth r = Some (usr_Username u, p) \<and> VerifyPassword (ge_argon e) p (usr_PasswordHash u))))"

lemma bearer_user_authentic:
  assumes "run_state (bearer_user e r) w = (res, v)"
  shows "w_db v = w_db w \<and> w_now v = w_now w \<and>
    (\<forall>a. res = Some a \<longrightarrow> (\<exists>u. authentic e (w_db w) (w_now w) r u \<and> a = user_auth u))"
proof -
  have "keeps_db (bearer_user e r)"
    unfolding bearer_user_def Let_def by (intro keeps)
  moreover have "\<exists>u. authentic e (w_db w) (w_now w) r u \<and> a = user_auth u" if "res = Some a" for a
    using assms that
    by (auto simp: bearer_user_def Let_def run_check_err db_call_def GetSessionByToken_def session_user_def
        user_auth_def authentic_def split: if_splits sum.splits option.splits prod.splits
        dest!: find_first_Some) blast
  ultimately show ?thesis using assms by (auto dest: keeps_dbD)
qed

lemma basic_user_authentic:
  assumes "run_state (basic_user e r) w = (res, v)"
  shows "w_db v = w_db w \<and> w_now v = w_now w \<and>
    (\<forall>a. res = Some a \<longrightarrow> (\<exists>u. authentic e (w_db w) now r u \<and> a = user_auth u))"
proof -
  have "keeps_db (basic_user e r)"
    unfolding basic_user_def by (cases "extractBasicAuth r") (auto intro!: keeps split: prod.splits)
  moreover have "\<exists>u. authentic e (w_db w) now r u \<and> a = user_auth u" if "res = Some a" for a
    using assms that
    by (auto simp: basic_user_def run_check_err db_call_def GetUserByUsername_def select_one_def
        authentic_def split: if_splits sum.splits option.splits prod.splits dest!: find_first_Some)
  ultimately show ?thesis using assms by (auto dest: keeps_dbD)
qed

lemma AuthMiddleware_cases:
  assumes "run_state (AuthMiddleware e next r) w = (resp, w')"
  obtains (refused) "resp = JSONError ''Unauthorized'' 401" "w_db w' = w_db w"
  | (passed) u v where "authentic e (w_db w) (w_now w) r u" "w_db v = w_db w" "w_now v = w_now w"
      "run_state (next (r\<lparr>rq_user := Some (user_auth u)\<rparr>)) v = (resp, w')"
proof -
  obtain a v where a: "run_state (bearer_user e r) w = (a, v)" by force
  note av = bearer_user_authentic[OF a]
  show thesis
  proof (cases a)
    case (Some x)
    then have "run_state (next (r\<lparr>rq_user := Some x\<rparr>)) v = (resp, w')"
      using assms a by (simp add: AuthMiddleware_def)
    with av Some passed show thesis by auto
  next
    case None
    obtain b v' where b: "run_state (basic_user e r) v = (b, v')" by force
    note bv = basic_user_authentic[OF b, of "w_now w"]
    have run: "run_state (case b of None \<Rightarrow> ret (WriteJSONError ''Unauthorized'' 401)
        | Some u \<Rightarrow> next (r\<lparr>rq_user := Some u\<rparr>)) v' = (resp, w')"
      using assms a b None by (simp add: AuthMiddleware_def)
    show thesis
    proof (cases b)
      case None
      with run av bv refused show thesis by (simp add: responses)
    next
      case (Some x)
      with run av bv passed show thesis by auto
    qed
  qed
qed

text \<open>
  C10. What stands behind the middlewares runs only for the right people. A handler wrapped in
  \<^verbatim>\<open>AuthMiddleware\<close> and \<^verbatim>\<open>RequireRole(role, ...)\<close> either does not run, and then the answer is 401
  or 403 and the database is unchanged; or it runs on the unchanged database for a user of the
  users table whose stored role is exactly \<open>role\<close> and who presented an unexpired session of
  theirs or their password. Whatever database calls fail.
\<close>

theorem protected_handler_sound:
  assumes "run_state (AuthMiddleware e (RequireRole role handler) r) w = (resp, w')"
  shows "(resp \<in> {JSONError ''Unauthorized'' 401, JSONError ''Forbidden'' 403} \<and> w_db w' = w_db w) \<or>
    (\<exists>u v. authentic e (w_db w) (w_now w) r u \<and> usr_Role u = role \<and> w_db v = w_db w \<and> w_now v = w_now w \<and>
       run_state (handler (r\<lparr>rq_user := Some (user_auth u)\<rparr>)) v = (resp, w'))"
  using assms
proof (cases rule: AuthMiddleware_cases)
  case (passed u v)
  then show ?thesis
    by (cases "usr_Role u = role")
      (auto simp: RequireRole_def GetUserFromContext_def user_auth_def responses)
qed simp

theorem protected_handler_sound_witness:
  "\<exists>u w'. run_state (AuthMiddleware sample_env (RequireRole ''system_admin'' (\<lambda>r. ret (StatusOnly 200 :: unit response)))
       (sample_request\<lparr>rq_Authorization := ''Bearer tok''\<rparr>)) (sample_world sample_db 10) = (StatusOnly 200, w') \<and>
     authentic sample_env sample_db 10 (sample_request\<lparr>rq_Authorization := ''Bearer tok''\<rparr>) u \<and> usr_Role u = ''system_admin''"
proof -
  let ?r = "sample_request\<lparr>rq_Authorization := ''Bearer tok''\<rparr>"
  have tok: "extractBearerToken ?r = ''tok''" by code_simp
  obtain w' where run: "run_state (AuthMiddleware sample_env (RequireRole ''system_admin'' (\<lambda>r. ret (StatusOnly 200 :: unit response)))
       ?r) (sample_world sample_db 10) = (StatusOnly 200, w')"
    using tok by (simp add: AuthMiddleware_def bearer_user_def run_check_err db_call_def GetSessionByToken_def
        RequireRole_def GetUserFromContext_def session_user_def sample_parts)
  show ?thesis
    using protected_handler_sound[OF run] run by (auto simp: sample_world_def)
qed

section \<open>Lockout\<close>

definition no_faults :: "('j, 'h) gc_env \<Rightarrow> bool" where
  "no_faults e = (\<forall>n. \<not> ge_db_fails e n)"

definition attempts_of :: "string \<Rightarrow> 'j db \<Rightarrow> login_attempt_row option" where
  "attempts_of u db = find_first (\<lambda>l. la_Username l = u) (db_logins db)"

definition failures :: "string \<Rightarrow> 'j db \<Rightarrow> int" where
  "failures u db = (case attempts_of u db of None \<Rightarrow> 0 | Some l \<Rightarrow> la_FailedCount l)"

definition locked_until :: "string \<Rightarrow> 'j db \<Rightarrow> int option" where
  "locked_until u db = Option.bind (attempts_of u db) la_LockedUntil"

definition locked :: "string \<Rightarrow> 'j db \<Rightarrow> int \<Rightarrow> bool" where
  "locked u db now = (case locked_until u db of None \<Rightarrow> False | Some t \<Rightarrow> now < t)"

definition wrong_password :: "('j, 'h) gc_env \<Rightarrow> user_row list \<Rightarrow> string \<Rightarrow> string \<Rightarrow> bool" where
  \<comment> \<open>no user of that name has that password\<close>
  "wrong_password e users u p =
     (\<forall>row\<in>set users. usr_Username row = u \<longrightarrow> \<not> VerifyPassword (ge_argon e) p (usr_PasswordHash row))"

lemma GetLoginAttempts_eq:
  "GetLoginAttempts u db = (case attempts_of u db of None \<Rightarrow> Inl ErrNoRows | Some l \<Rightarrow> Inr (l, db))"
  by (simp add: GetLoginAttempts_def select_one_def attempts_of_def)

lemma run_db_call_ok:
  "no_faults e \<Longrightarrow> run_state (db_call e q) w = (case q (w_db w) of Inl err \<Rightarrow> (Inl err, count_call w)
     | Inr (x, db) \<Rightarrow> (Inr x, (count_call w)\<lparr>w_db := db\<rparr>))"
  by (simp add: db_call_def no_faults_def)

lemma login_while_locked:
  assumes "locked (lr_Username req) (w_db w) (w_now w)"
    and "run_state (loginHandler e r (Some req)) w = (resp, w')"
  shows "status_of resp \<in> {401, 500} \<and> w_db w' = w_db w"
    and "no_faults e \<Longrightarrow> status_of resp = 401"
proof -
  obtain l t where l: "attempts_of (lr_Username req) (w_db w) = Some l" "la_LockedUntil l = Some t" "w_now w < t"
    using assms(1) by (auto simp: locked_def locked_until_def bind_eq_Some_conv split: option.splits)
  show "status_of resp \<in> {401, 500} \<and> w_db w' = w_db w"
    using assms(2) l
    by (auto simp: loginHandler_def run_check_err db_call_def GetLoginAttempts_eq auditEvent_def Let_def
        responses split: if_splits)
  show "status_of resp = 401" if "no_faults e"
    using assms(2) l that
    by (auto simp: loginHandler_def run_check_err db_call_def GetLoginAttempts_eq auditEvent_def Let_def
        responses no_faults_def split: if_splits)
qed

lemma attempts_of_upsert:
  assumes "UpsertLoginAttempt now u db = Inr (row, db')"
  shows "attempts_of u db' = Some row" "la_FailedCount row = failures u db + 1" "la_LockedUntil row = locked_until u db"
    "db_users db' = db_users db"
proof -
  have "attempts_of u db' = Some row \<and> la_FailedCount row = failures u db + 1 \<and>
      la_LockedUntil row = locked_until u db \<and> db_users db' = db_users db"
  proof (cases "find_first (\<lambda>l. la_Username l = u) (db_logins db)")
    case None
    then show ?thesis using assms
      by (auto simp: UpsertLoginAttempt_def attempts_of_def failures_def locked_until_def find_first_append Let_def)
  next
    case (Some l)
    then have "la_Username l = u" by (auto dest: find_first_Some)
    then show ?thesis using assms Some
      find_first_map_if[where p = "\<lambda>l. la_Username l = u" and f = "\<lambda>_. row" and xs = "db_logins db"]
      by (auto simp: UpsertLoginAttempt_def attempts_of_def failures_def locked_until_def Let_def)
  qed
  then show "attempts_of u db' = Some row" "la_FailedCount row = failures u db + 1"
    "la_LockedUntil row = locked_until u db" "db_users db' = db_users db" by simp_all
qed

lemma attempts_of_lock:
  assumes "LockAccount now u t db = Inr (x, db')"
  shows "attempts_of u db' = map_option (\<lambda>l. l\<lparr>la_LockedUntil := t, la_LastAttempt := now\<rparr>) (attempts_of u db)"
    "db_users db' = db_users db"
  using assms by (auto simp: LockAccount_def exec_def attempts_of_def find_first_map_if)

lemma recordFailedAttempt_counts:
  assumes "no_faults e" "run_state (recordFailedAttempt e u) w = (x, v)"
  shows "failures u (w_db v) = failures u (w_db w) + 1" "db_users (w_db v) = db_users (w_db w)"
    "locked_until u (w_db v) = (if 5 \<le> failures u (w_db v) then Some (w_now w + srv_lockoutDuration (ge_server e))
       else locked_until u (w_db w))"
proof -
  obtain row db1 where up: "UpsertLoginAttempt (w_now w) u (w_db w) = Inr (row, db1)"
    by (cases "find_first (\<lambda>l. la_Username l = u) (db_logins (w_db w))") (auto simp: UpsertLoginAttempt_def Let_def)
  obtain y db2 where lk:
    "LockAccount (w_now w) u (Some (w_now w + srv_lockoutDuration (ge_server e))) db1 = Inr (y, db2)"
    by (simp add: LockAccount_def exec_def)
  have v: "w_db v = (if 5 \<le> la_FailedCount row then db2 else db1)"
    using assms(2) up lk
    by (auto simp: recordFailedAttempt_def run_check_err run_db_call_ok[OF assms(1)] maxFailedAttempts_def split: if_splits)
  note f = attempts_of_upsert[OF up] attempts_of_lock[OF lk]
  show "failures u (w_db v) = failures u (w_db w) + 1" "db_users (w_db v) = db_users (w_db w)"
    "locked_until u (w_db v) = (if 5 \<le> failures u (w_db v) then Some (w_now w + srv_lockoutDuration (ge_server e))
       else locked_until u (w_db w))"
    using f unfolding v by (auto simp: failures_def locked_until_def)
qed

lemma failed_login:
  assumes nf: "no_faults e" and cred: "lr_Username req = u" "u \<noteq> []" "lr_Password req \<noteq> []"
    and wrong: "wrong_password e (db_users (w_db w)) u (lr_Password req)"
    and nl: "\<not> locked u (w_db w) (w_now w)"
    and run: "run_state (loginHandler e r (Some req)) w = (resp, w')"
  shows "failures u (w_db w') = failures u (w_db w) + 1" "db_users (w_db w') = db_users (w_db w)"
    "locked_until u (w_db w') = (if 5 \<le> failures u (w_db w') then Some (w_now w + srv_lockoutDuration (ge_server e))
       else locked_until u (w_db w))"
proof -
  have "run_state (login_checked e r req) ((count_call w)\<lparr>w_db := w_db w\<rparr>) = (resp, w') \<or>
      run_state (login_checked e r req) (count_call w) = (resp, w')"
    using run cred nl
    by (auto simp: loginHandler_def run_check_err run_db_call_ok[OF nf] GetLoginAttempts_eq locked_def
        locked_until_def split: option.splits if_splits)
  then have checked: "run_state (login_checked e r req) (count_call w) = (resp, w')" by auto
  obtain v1 x v2 where v: "w_db v1 = w_db w" "w_now v1 = w_now w"
    "run_state (recordFailedAttempt e u) v1 = (x, v2)" "w_db w' = w_db v2"
  proof (cases "find_first (\<lambda>r. usr_Username r = u) (db_users (w_db w))")
    case None
    obtain x v2 where "run_state (recordFailedAttempt e u) (count_call (count_call w)) = (x, v2)"
      by (metis surj_pair)
    then show thesis
      by (intro that[of "count_call (count_call w)" x v2])
        (use checked cred None in \<open>auto simp: login_checked_def run_check_err run_db_call_ok[OF nf]
          GetUserByUsername_def select_one_def auditEvent_def Let_def split: prod.splits\<close>)
  next
    case (Some row)
    then have "\<not> VerifyPassword (ge_argon e) (lr_Password req) (usr_PasswordHash row)"
      using wrong by (auto simp: wrong_password_def dest: find_first_Some)
    moreover obtain x v2 where
      "run_state (recordFailedAttempt e u) ((count_call (count_call w))\<lparr>w_db := w_db w\<rparr>) = (x, v2)"
      by (metis surj_pair)
    ultimately show thesis
      by (intro that[of "(count_call (count_call w))\<lparr>w_db := w_db w\<rparr>" x v2])
        (use checked cred Some in \<open>auto simp: login_checked_def run_check_err run_db_call_ok[OF nf]
          GetUserByUsername_def select_one_def auditEvent_def Let_def split: prod.splits\<close>)
  qed
  note r = recordFailedAttempt_counts[OF nf v(3)]
  show "failures u (w_db w') = failures u (w_db w) + 1" "db_users (w_db w') = db_users (w_db w)"
    "locked_until u (w_db w') = (if 5 \<le> failures u (w_db w') then Some (w_now w + srv_lockoutDuration (ge_server e))
       else locked_until u (w_db w))"
    using r v by simp_all
qed

primrec logins :: "('j, 'h) gc_env \<Rightarrow> http_request \<Rightarrow> (int \<times> loginRequest) list \<Rightarrow> ('j, 'h) gc_world \<Rightarrow> ('j, 'h) gc_world" where
  \<comment> \<open>login requests one after the other, each at its time\<close>
  "logins e r [] w = w"
| "logins e r (x # xs) w = logins e r xs (snd (run_state (loginHandler e r (Some (snd x))) (w\<lparr>w_now := fst x\<rparr>)))"

definition lock_inv :: "('j, 'h) gc_env \<Rightarrow> string \<Rightarrow> (int \<times> loginRequest) list \<Rightarrow> 'j db \<Rightarrow> bool" where
  "lock_inv e u past db = (min 5 (int (length past)) \<le> failures u db \<and>
     (if 5 \<le> failures u db then \<exists>x\<in>set past. locked_until u db = Some (fst x + srv_lockoutDuration (ge_server e))
      else locked_until u db = None))"

definition failing :: "('j, 'h) gc_env \<Rightarrow> user_row list \<Rightarrow> string \<Rightarrow> int \<times> loginRequest \<Rightarrow> bool" where
  "failing e users u x = (lr_Username (snd x) = u \<and> lr_Password (snd x) \<noteq> [] \<and>
     wrong_password e users u (lr_Password (snd x)))"

lemma lock_inv_step:
  assumes "no_faults e" "u \<noteq> []" "lock_inv e u past (w_db w)" "failing e (db_users (w_db w)) u x"
    and run: "run_state (loginHandler e r (Some (snd x))) (w\<lparr>w_now := fst x\<rparr>) = (resp, w')"
  shows "lock_inv e u (past @ [x]) (w_db w') \<and> db_users (w_db w') = db_users (w_db w)"
proof (cases "locked u (w_db w) (fst x)")
  case True
  then have "w_db w' = w_db w"
    using login_while_locked(1)[OF _ run] assms(4) by (simp add: failing_def)
  moreover have "5 \<le> failures u (w_db w)"
    using True assms(3) by (auto simp: lock_inv_def locked_def split: if_splits)
  ultimately show ?thesis using assms(3) by (auto simp: lock_inv_def)
next
  case False
  have f: "failures u (w_db w') = failures u (w_db w) + 1" "db_users (w_db w') = db_users (w_db w)"
    "locked_until u (w_db w') = (if 5 \<le> failures u (w_db w') then Some (fst x + srv_lockoutDuration (ge_server e))
       else locked_until u (w_db w))"
    using failed_login[OF assms(1) _ assms(2) _ _ _ run] assms(4) False by (simp_all add: failing_def)
  then show ?thesis using assms(3) by (auto simp: lock_inv_def split: if_splits)
qed

lemma lock_inv_logins:
  assumes "no_faults e" "u \<noteq> []"
  shows "lock_inv e u past (w_db w) \<Longrightarrow> (\<forall>x\<in>set xs. failing e (db_users (w_db w)) u x) \<Longrightarrow>
    lock_inv e u (past @ xs) (w_db (logins e r xs w))"
proof (induction xs arbitrary: past w)
  case (Cons x xs)
  obtain resp w' where run: "run_state (loginHandler e r (Some (snd x))) (w\<lparr>w_now := fst x\<rparr>) = (resp, w')" by force
  have "lock_inv e u (past @ [x]) (w_db w') \<and> db_users (w_db w') = db_users (w_db w)"
    using Cons.prems by (intro lock_inv_step[OF assms _ _ run]) auto
  then have "lock_inv e u ((past @ [x]) @ xs) (w_db (logins e r xs w'))"
    using Cons.prems by (intro Cons.IH) auto
  then show ?case using run by simp
qed simp

text \<open>
  C12. Repeated failures lock an account. When the database answers, a user without recorded
  failures makes five or more login requests with passwords that do not match (the user may even
  not exist), and a further login arrives before the lockout duration after each of those
  requests has passed, then that login is refused with 401 and changes nothing in the database,
  whatever its password.
\<close>

theorem login_lockout:
  assumes "no_faults e" "u \<noteq> []" "attempts_of u (w_db w) = None"
    and "\<forall>x\<in>set xs. failing e (db_users (w_db w)) u x" "5 \<le> length xs"
    and "\<forall>x\<in>set xs. now < fst x + srv_lockoutDuration (ge_server e)" "lr_Username req = u"
    and "run_state (loginHandler e r (Some req)) ((logins e r xs w)\<lparr>w_now := now\<rparr>) = (resp, w')"
  shows "status_of resp = 401 \<and> w_db w' = w_db (logins e r xs w)"
proof -
  have "lock_inv e u [] (w_db w)"
    using assms(3) by (simp add: lock_inv_def failures_def locked_until_def)
  then have "lock_inv e u xs (w_db (logins e r xs w))"
    using lock_inv_logins[OF assms(1,2), of "[]"] assms(4) by simp
  then obtain x where "x \<in> set xs" "locked_until u (w_db (logins e r xs w)) = Some (fst x + srv_lockoutDuration (ge_server e))"
    using assms(5) by (auto simp: lock_inv_def split: if_splits)
  then have "locked u (w_db (logins e r xs w)) now"
    using assms(6) by (auto simp: locked_def)
  then show ?thesis
    using login_while_locked[OF _ assms(8)] assms(1,7) by simp
qed

theorem login_lockout_witness:
  "status_of (fst (run_state (loginHandler sample_env sample_request (Some \<lparr>lr_Username = ''root'', lr_Password = ''pw''\<rparr>))
     ((logins sample_env sample_request (replicate 5 (10, \<lparr>lr_Username = ''root'', lr_Password = ''no''\<rparr>))
        (sample_world sample_db 10))\<lparr>w_now := 20\<rparr>))) = 401"
proof -
  let ?xs = "replicate 5 (10 :: int, \<lparr>lr_Username = ''root'', lr_Password = ''no''\<rparr>)"
  let ?w = "logins sample_env sample_request ?xs (sample_world sample_db 10)"
  obtain resp w' where run: "run_state (loginHandler sample_env sample_request
      (Some \<lparr>lr_Username = ''root'', lr_Password = ''pw''\<rparr>)) (?w\<lparr>w_now := 20\<rparr>) = (resp, w')" by force
  have "status_of resp = 401 \<and> w_db w' = w_db ?w"
    by (rule login_lockout[OF _ _ _ _ _ _ _ run])
      (auto simp: no_faults_def attempts_of_def failing_def wrong_password_def sample_parts)
  with run show ?thesis by simp
qed

section \<open>Sessions\<close>

lemma login_session_reply:
  assumes "run_state (login_session e r u user) w = (JSONReply c lr, w')"
  obtains db1 row where "db_users db1 = db_users (w_db w)" "db_sessions db1 = db_sessions (w_db w)"
    "CreateSession (w_now w) (usr_ID user) (lresp_Token lr) (w_now w + srv_sessionDuration (ge_server e)) db1 = Inr (row, w_db w')"
    "c = 200" "lresp_ExpiresAt lr = ge_rfc3339 e (w_now w + srv_sessionDuration (ge_server e))"
proof -
  obtain x v where v: "run_state (db_call e (ResetLoginAttempts (w_now w) u)) w = (x, v)" by force
  have same: "db_users (w_db v) = db_users (w_db w)" "db_sessions (w_db v) = db_sessions (w_db w)" "w_now v = w_now w"
    using v by (auto elim!: db_call_cases simp: ResetLoginAttempts_def exec_def)
  show thesis
    using assms v same that[of "w_db v"]
    by (auto simp: login_session_def run_check_err db_call_def rand_call_def auditEvent_def Let_def responses
        split: sum.splits if_splits prod.splits)
qed

lemma login_reply:
  assumes "run_state (loginHandler e r body) w = (JSONReply c lr, w')"
  obtains req user v where "body = Some req" "user \<in> set (db_users (w_db w))" "usr_Username user = lr_Username req"
    "VerifyPassword (ge_argon e) (lr_Password req) (usr_PasswordHash user)" "\<not> locked (lr_Username req) (w_db w) (w_now w)"
    "w_db v = w_db w" "w_now v = w_now w" "run_state (login_session e r (lr_Username req) user) v = (JSONReply c lr, w')"
proof -
  obtain req where body: "body = Some req"
    using assms by (cases body) (auto simp: loginHandler_def responses)
  obtain v where v: "run_state (login_checked e r req) v = (JSONReply c lr, w')" "w_db v = w_db w" "w_now v = w_now w"
    "\<not> locked (lr_Username req) (w_db w) (w_now w)"
    using assms body
    by (auto simp: loginHandler_def run_check_err db_call_def GetLoginAttempts_eq locked_def locked_until_def
        auditEvent_def Let_def responses split: if_splits option.splits)
  obtain x v1 where g: "run_state (db_call e (GetUserByUsername (lr_Username req))) v = (x, v1)" by force
  have keep: "w_db v1 = w_db v" "w_now v1 = w_now v"
    using keeps_dbD[OF _ g] by (auto intro!: keeps)
  show thesis
  proof (cases x)
    case (Inl err)
    then show thesis using v(1) g
      by (auto simp: login_checked_def run_check_err auditEvent_def Let_def responses split: prod.splits)
  next
    case (Inr user)
    then have user: "user \<in> set (db_users (w_db v))" "usr_Username user = lr_Username req"
      using g by (auto elim!: db_call_cases simp: GetUserByUsername_def select_one_def
          split: option.splits dest: find_first_Some)
    then show thesis
      using v g Inr keep body that[of req user v1]
      by (auto simp: login_checked_def run_check_err auditEvent_def Let_def responses
          split: prod.splits if_splits)
  qed
qed

lemma find_first_product_append:
  "find_first p (List.product (xs @ [x]) ys) =
     (case find_first p (List.product xs ys) of Some z \<Rightarrow> Some z | None \<Rightarrow> map_option (Pair x) (find_first (\<lambda>y. p (x, y)) ys))"
proof -
  have "find_first p (map (Pair x) ys) = map_option (Pair x) (find_first (\<lambda>y. p (x, y)) ys)"
    by (induction ys) auto
  then show ?thesis by (induction xs) (auto simp: find_first_append split: option.splits)
qed

lemma GetSessionByToken_created:
  assumes "CreateSession now uid token expires db = Inr (row, db')"
    and "distinct (map usr_ID (db_users db))" "u \<in> set (db_users db)" "usr_ID u = uid"
  shows "GetSessionByToken t token db' = (if t < expires then Inr ((row, u), db') else Inl ErrNoRows)"
    and "ses_UserID row = uid"
proof -
  have fresh: "\<forall>s\<in>set (db_sessions db). ses_Token s \<noteq> token"
    and db': "db_sessions db' = db_sessions db @ [row]" "db_users db' = db_users db"
    and row: "ses_Token row = token" "ses_UserID row = uid" "ses_ExpiresAt row = expires"
    using assms(1) by (auto simp: CreateSession_def Let_def split: if_splits)
  define p :: "session_row \<times> user_row \<Rightarrow> bool" where "p = (\<lambda>(s, u). ses_Token s = token \<and> t < ses_ExpiresAt s \<and> ses_UserID s = usr_ID u)"
  have "find_first p (List.product (db_sessions db) (db_users db)) = None"
    using fresh by (auto simp: find_first_None p_def)
  moreover have "find_first (\<lambda>y. p (row, y)) (db_users db) = (if t < expires then Some u else None)"
  proof (cases "t < expires")
    case True
    then have "find_first (\<lambda>y. p (row, y)) (db_users db) = Some u"
      using assms(2,3,4) row by (intro find_first_unique) (auto simp: p_def distinct_map inj_on_def)
    with True show ?thesis by simp
  qed (simp add: find_first_None p_def row)
  ultimately have "find_first p (List.product (db_sessions db') (db_users db')) = (if t < expires then Some (row, u) else None)"
    by (simp add: db' find_first_product_append)
  then show "GetSessionByToken t token db' = (if t < expires then Inr ((row, u), db') else Inl ErrNoRows)"
    by (simp add: GetSessionByToken_def p_def)
  show "ses_UserID row = uid" by (fact row)
qed

text \<open>
  C27. A login yields a session of the user who logged in. If \<^verbatim>\<open>loginHandler\<close> answers with a token,
  the account was not locked and the password matched a user of that name, and a later request
  with that bearer token on the resulting database is served by \<^verbatim>\<open>AuthMiddleware\<close> as that user
  until the session duration after the login is over: before that instant the next handler runs with that user in the
  context, from it on the answer is 401. The answer announces this instant in the format RFC 3339, which has whole
  seconds only, so that the session may outlive what was announced by a fraction of a second. No database call
  fails, the IDs of the users are unique, and the database keeps the instants it is given (see \<open>GC_Store\<close>).
\<close>

theorem login_token_authenticates:
  assumes "run_state (loginHandler e r body) w = (JSONReply c lr, w')"
    and "distinct (map usr_ID (db_users (w_db w)))" "no_faults e"
    and "extractBearerToken r2 = lresp_Token lr" "lresp_Token lr \<noteq> []" "extractBasicAuth r2 = None" "w_db v = w_db w'"
  shows "\<exists>req user. body = Some req \<and> user \<in> set (db_users (w_db w)) \<and> usr_Username user = lr_Username req \<and>
    VerifyPassword (ge_argon e) (lr_Password req) (usr_PasswordHash user) \<and>
    \<not> locked (lr_Username req) (w_db w) (w_now w) \<and>
    lresp_ExpiresAt lr = ge_rfc3339 e (w_now w + srv_sessionDuration (ge_server e)) \<and>
    run_state (AuthMiddleware e nxt r2) v =
      (if w_now v < w_now w + srv_sessionDuration (ge_server e)
       then run_state (nxt (r2\<lparr>rq_user := Some (user_auth user)\<rparr>)) (count_call v)
       else (JSONError ''Unauthorized'' 401, count_call v))"
proof -
  obtain req user v0 where l: "body = Some req" "user \<in> set (db_users (w_db w))" "usr_Username user = lr_Username req"
    "VerifyPassword (ge_argon e) (lr_Password req) (usr_PasswordHash user)" "\<not> locked (lr_Username req) (w_db w) (w_now w)"
    and v0: "w_db v0 = w_db w" "w_now v0 = w_now w"
    and run: "run_state (login_session e r (lr_Username req) user) v0 = (JSONReply c lr, w')"
    using assms(1) by (rule login_reply)
  obtain db1 row where d: "db_users db1 = db_users (w_db v0)"
    "CreateSession (w_now v0) (usr_ID user) (lresp_Token lr) (w_now v0 + srv_sessionDuration (ge_server e)) db1 = Inr (row, w_db w')"
    "lresp_ExpiresAt lr = ge_rfc3339 e (w_now v0 + srv_sessionDuration (ge_server e))"
    using run by (rule login_session_reply)
  have g: "GetSessionByToken t (lresp_Token lr) (w_db v) =
      (if t < w_now w + srv_sessionDuration (ge_server e) then Inr ((row, user), w_db v) else Inl ErrNoRows)" "ses_UserID row = usr_ID user" for t
    using GetSessionByToken_created[OF d(2)] assms(2,7) d(1) v0 l(2) by simp_all
  have "run_state (AuthMiddleware e nxt r2) v =
      (if w_now v < w_now w + srv_sessionDuration (ge_server e)
       then run_state (nxt (r2\<lparr>rq_user := Some (user_auth user)\<rparr>)) (count_call v)
       else (JSONError ''Unauthorized'' 401, count_call v))"
    using assms(4-6) g
    by (simp add: AuthMiddleware_def bearer_user_def basic_user_def Let_def run_check_err
        run_db_call_ok[OF assms(3)] session_user_def user_auth_def responses)
  with l d v0 show ?thesis by auto
qed

theorem login_token_authenticates_witness:
  "\<exists>lr w'. run_state (loginHandler sample_env sample_request (Some \<lparr>lr_Username = ''root'', lr_Password = ''pw''\<rparr>))
      (sample_world sample_db 10) = (JSONReply 200 lr, w') \<and>
    fst (run_state (AuthMiddleware sample_env (\<lambda>r. ret (JSONReply 200 (map_option au_Username (rq_user r))))
      (sample_request\<lparr>rq_Authorization := ''Bearer '' @ lresp_Token lr\<rparr>)) (w'\<lparr>w_now := 50\<rparr>)) = JSONReply 200 (Some ''root'')"
proof -
  define tok where "tok = URLEncoding_EncodeToString (replicate 64 CHR ''r'')"
  have tok: "tok \<noteq> []" "tok \<noteq> ''tok''"
  proof -
    have "length tok = 88" unfolding tok_def by code_simp
    then show "tok \<noteq> []" "tok \<noteq> ''tok''" by auto
  qed
  have gen: "GenerateSessionToken (\<lambda>n. Inr (replicate n CHR ''r'')) = Inr tok"
    by (simp add: GenerateSessionToken_def tok_def)
  let ?lr = "\<lparr>lresp_Token = tok, lresp_ExpiresAt = ge_rfc3339 sample_env 110\<rparr>"
  obtain w' where run: "run_state (loginHandler sample_env sample_request
      (Some \<lparr>lr_Username = ''root'', lr_Password = ''pw''\<rparr>)) (sample_world sample_db 10) = (JSONReply 200 ?lr, w')"
    using tok(2) gen
    by (auto simp: loginHandler_def login_checked_def login_session_def run_check_err db_call_def rand_call_def
        GetLoginAttempts_eq attempts_of_def GetUserByUsername_def select_one_def ResetLoginAttempts_def exec_def
        CreateSession_def Let_def auditEvent_def responses sample_parts)
  let ?r2 = "sample_request\<lparr>rq_Authorization := ''Bearer '' @ tok\<rparr>"
  have "to_lower ''Bearer'' = ''bearer''" by code_simp
  then have r2: "extractBearerToken ?r2 = tok" "extractBasicAuth ?r2 = None"
    by (simp_all add: extractBearerToken_def extractBasicAuth_def)
  have d: "distinct (map usr_ID (db_users (w_db (sample_world sample_db 10))))" "no_faults sample_env"
    by (simp_all add: no_faults_def sample_parts)
  define v where "v = w'\<lparr>w_now := 50\<rparr>"
  have v: "w_db v = w_db w'" "w_now v = 50" by (simp_all add: v_def)
  obtain req user where "Some \<lparr>lr_Username = ''root'', lr_Password = ''pw''\<rparr> = Some req" "usr_Username user = lr_Username req"
    "run_state (AuthMiddleware sample_env (\<lambda>r. ret (JSONReply 200 (map_option au_Username (rq_user r)))) ?r2) v =
      (if w_now v < w_now (sample_world sample_db 10) + srv_sessionDuration (ge_server sample_env)
       then run_state (ret (JSONReply 200 (map_option au_Username (rq_user (?r2\<lparr>rq_user := Some (user_auth user)\<rparr>))))) (count_call v)
       else (JSONError ''Unauthorized'' 401, count_call v))"
    using login_token_authenticates[OF run d _ _ r2(2) v(1),
        where nxt = "\<lambda>r. ret (JSONReply 200 (map_option au_Username (rq_user r)))"] tok r2(1) by auto
  then have "fst (run_state (AuthMiddleware sample_env (\<lambda>r. ret (JSONReply 200 (map_option au_Username (rq_user r)))) ?r2) v) =
      JSONReply 200 (Some ''root'')"
    using v by (auto simp: user_auth_def sample_parts)
  with run show ?thesis unfolding v_def by (intro exI[of _ ?lr] exI[of _ w']) simp
qed

lemma GetSessionByToken_deleted:
  "DeleteSession token db = Inr (x, db') \<Longrightarrow> GetSessionByToken t token db' = Inl ErrNoRows"
  by (auto simp: DeleteSession_def exec_def GetSessionByToken_def split: option.splits dest!: find_first_Some)

text \<open>
  Logging out ends the session. After \<^verbatim>\<open>logoutHandler\<close> has answered 204, a request with the same
  authorization header is answered 401 by \<^verbatim>\<open>AuthMiddleware\<close> at any later time, whether or not
  database calls fail.
\<close>

theorem logout_revokes:
  assumes "run_state (logoutHandler e r) w = (StatusOnly 204, w')" "w_db v = w_db w'"
    and "rq_Authorization r2 = rq_Authorization r" "extractBasicAuth r2 = None"
  shows "fst (run_state (AuthMiddleware e2 next r2) v) = JSONError ''Unauthorized'' 401"
proof -
  have tok: "extractBearerToken r2 = extractBearerToken r"
    by (simp add: extractBearerToken_def assms(3))
  obtain x where "DeleteSession (extractBearerToken r) (w_db w) = Inr (x, w_db w')"
    using assms(1)
    by (auto simp: logoutHandler_def extractToken_def Let_def run_check_err db_call_def responses
        split: if_splits sum.splits prod.splits)
  then have "GetSessionByToken t (extractBearerToken r2) (w_db v) = Inl ErrNoRows" for t
    using GetSessionByToken_deleted assms(2) tok by metis
  then show ?thesis using assms(4)
    by (simp add: AuthMiddleware_def bearer_user_def basic_user_def Let_def run_check_err db_call_def responses)
qed

theorem logout_revokes_witness:
  "\<exists>w'. run_state (logoutHandler sample_env (sample_request\<lparr>rq_Authorization := ''Bearer tok''\<rparr>))
      (sample_world sample_db 10) = (StatusOnly 204, w') \<and>
    fst (run_state (AuthMiddleware sample_env (\<lambda>r. ret (StatusOnly 200 :: unit response))
      (sample_request\<lparr>rq_Authorization := ''Bearer tok''\<rparr>)) (w'\<lparr>w_now := 20\<rparr>)) = JSONError ''Unauthorized'' 401"
proof -
  let ?r = "sample_request\<lparr>rq_Authorization := ''Bearer tok''\<rparr>"
  have r: "extractBearerToken ?r = ''tok''" "extractBasicAuth ?r = None" by code_simp+
  obtain w' where run: "run_state (logoutHandler sample_env ?r) (sample_world sample_db 10) = (StatusOnly 204, w')"
    using r by (simp add: logoutHandler_def extractToken_def run_check_err db_call_def DeleteSession_def exec_def sample_parts)
  have "fst (run_state (AuthMiddleware sample_env (\<lambda>r. ret (StatusOnly 200 :: unit response)) ?r) (w'\<lparr>w_now := 20\<rparr>)) =
      JSONError ''Unauthorized'' 401"
    by (rule logout_revokes[OF run]) (simp_all add: r)
  with run show ?thesis by blast
qed

text \<open>
  Basic authentication does not see the lockout. While an account is locked, so that the login
  endpoint refuses even the right password, \<^verbatim>\<open>AuthMiddleware\<close> still accepts that password in a
  Basic authorization header and runs the next handler as that user.
\<close>

lemma basic_auth_ignores_lockout:
  assumes "no_faults e" "locked u (w_db w) (w_now w)"
    and "find_first (\<lambda>x. usr_Username x = u) (db_users (w_db w)) = Some user"
    and "VerifyPassword (ge_argon e) p (usr_PasswordHash user)" "extractBasicAuth r = Some (u, p)"
  shows "status_of (fst (run_state (loginHandler e r (Some \<lparr>lr_Username = u, lr_Password = p\<rparr>)) w)) = 401 \<and>
    run_state (AuthMiddleware e next r) w = run_state (next (r\<lparr>rq_user := Some (user_auth user)\<rparr>)) (count_call w)"
proof -
  obtain scheme enc where h: "split2 CHR '' '' (rq_Authorization r) = [scheme, enc]" "to_lower scheme = ''basic''"
    using assms(5) by (auto simp: extractBasicAuth_def split: if_splits list.splits)
  then have "extractBearerToken r = []" by (simp add: extractBearerToken_def)
  then have "run_state (AuthMiddleware e next r) w = run_state (next (r\<lparr>rq_user := Some (user_auth user)\<rparr>)) (count_call w)"
    using assms(3-5)
    by (simp add: AuthMiddleware_def bearer_user_def basic_user_def Let_def run_check_err
        run_db_call_ok[OF assms(1)] GetUserByUsername_def select_one_def)
  moreover obtain resp w' where "run_state (loginHandler e r (Some \<lparr>lr_Username = u, lr_Password = p\<rparr>)) w = (resp, w')" by force
  moreover from this have "status_of resp = 401"
    by (rule login_while_locked(2)[rotated]) (simp_all add: assms(1,2))
  ultimately show ?thesis by simp
qed

lemma basic_auth_ignores_lockout_witness:
  "\<exists>db. locked ''root'' db 10 \<and>
     fst (run_state (AuthMiddleware sample_env (\<lambda>r. ret (JSONReply 200 (map_option au_Username (rq_user r))))
       (sample_request\<lparr>rq_Authorization := ''Basic cm9vdDpwdw==''\<rparr>)) (sample_world db 10)) = JSONReply 200 (Some ''root'')"
proof -
  let ?r = "sample_request\<lparr>rq_Authorization := ''Basic cm9vdDpwdw==''\<rparr>"
  let ?db = "sample_db\<lparr>db_logins := [\<lparr>la_ID = 1, la_Username = ''root'', la_FailedCount = 5, la_LockedUntil = Some 60, la_LastAttempt = 10\<rparr>]\<rparr>"
  have r: "extractBasicAuth ?r = Some (''root'', ''pw'')" by code_simp
  have l: "locked ''root'' ?db 10" by (simp add: locked_def locked_until_def attempts_of_def)
  have "run_state (AuthMiddleware sample_env (\<lambda>r. ret (JSONReply 200 (map_option au_Username (rq_user r)))) ?r) (sample_world ?db 10) =
      run_state (ret (JSONReply 200 (map_option au_Username (rq_user (?r\<lparr>rq_user := Some (user_auth sample_user)\<rparr>)))))
        (count_call (sample_world ?db 10))"
    using basic_auth_ignores_lockout[of sample_env "''root''" "sample_world ?db 10" sample_user "''pw''" ?r
        "\<lambda>r. ret (JSONReply 200 (map_option au_Username (rq_user r)))"] r l
    by (simp add: no_faults_def sample_parts)
  with l show ?thesis by (auto simp: user_auth_def sample_user_def)
qed

section \<open>Satellites\<close>

definition robot_credentials :: "('j, 'h) gc_env \<Rightarrow> 'j db \<Rightarrow> int \<Rightarrow> string \<Rightarrow> string \<Rightarrow> string \<Rightarrow> bool" where
  \<comment> \<open>name and password are those of an unexpired robot account of the satellite\<close>
  "robot_credentials e db now name password satName =
     (\<exists>robot\<in>set (db_robots db). \<exists>sat\<in>set (db_satellites db). rob_Name robot = name \<and>
        VerifySecret (ge_argon e) password (rob_SecretHash robot) \<and>
        (\<forall>t. rob_Expiry robot = Some t \<longrightarrow> now \<le> t) \<and> sat_ID sat = rob_SatelliteID robot \<and> sat_Name sat = satName)"

lemma validateRobotAuth_sound:
  assumes "run_state (validateRobotAuth e name password) w = (res, v)"
  shows "w_db v = w_db w" "w_now v = w_now w" "res = Inr satName \<Longrightarrow> robot_credentials e (w_db w) (w_now w) name password satName"
proof -
  have k: "keeps_db (validateRobotAuth e name password)"
    unfolding validateRobotAuth_def by (intro keeps)
  show "w_db v = w_db w" "w_now v = w_now w" using keeps_dbD[OF k assms] by simp_all
  assume ok: "res = Inr satName"
  obtain x v1 where r1: "run_state (db_call e (GetRobotAccByRobotName name)) w = (x, v1)" by force
  from r1 show "robot_credentials e (w_db w) (w_now w) name password satName"
  proof (cases rule: db_call_cases)
    case (fail err)
    with assms ok r1 show ?thesis by (simp add: validateRobotAuth_def run_check_err)
  next
    case (ok robot db)
    then have rob: "robot \<in> set (db_robots (w_db w))" "rob_Name robot = name" "db = w_db w"
      by (auto simp: GetRobotAccByRobotName_def select_one_def split: option.splits dest: find_first_Some)
    obtain y v2 where r2: "run_state (db_call e (GetSatellite (rob_SatelliteID robot))) v1 = (y, v2)" by force
    have chk: "VerifySecret (ge_argon e) password (rob_SecretHash robot)" "\<forall>t. rob_Expiry robot = Some t \<longrightarrow> w_now w \<le> t"
      "\<exists>sat. y = Inr sat \<and> sat_Name sat = satName"
      using assms \<open>res = Inr satName\<close> r1 r2 ok(1)
      by (auto simp: validateRobotAuth_def run_check_err split: if_splits option.splits sum.splits)
    then obtain sat where sat: "y = Inr sat" "sat_Name sat = satName" by blast
    from r2 sat(1) have "sat \<in> set (db_satellites (w_db w))" "sat_ID sat = rob_SatelliteID robot"
      by (auto elim!: db_call_cases simp: GetSatellite_def select_one_def ok(3) rob(3) split: option.splits dest: find_first_Some)
    with rob chk sat show ?thesis unfolding robot_credentials_def by blast
  qed
qed

lemma SatelliteAuthMiddleware_cases:
  assumes "run_state (SatelliteAuthMiddleware e next r) w = (resp, w')"
  shows "((\<exists>m. resp = JSONError m 401) \<and> w_db w' = w_db w) \<or>
    (\<exists>satName v. run_state (next (r\<lparr>rq_satellite := Some satName\<rparr>)) v = (resp, w') \<and> w_db v = w_db w \<and>
       satName \<in> sat_Name ` set (db_satellites (w_db w)) \<and>
       (case rq_satellite r of
          Some spiffeName \<Rightarrow> spiffeName = satName
        | None \<Rightarrow> (\<exists>name password. extractBasicAuth r = Some (name, password) \<and>
                    robot_credentials e (w_db w) (w_now w) name password satName)))"
proof (cases "rq_satellite r")
  case (Some n)
  obtain x v where x: "run_state (db_call e (GetSatelliteByName n)) w = (x, v)" by force
  from x show ?thesis
  proof (cases rule: db_call_cases)
    case (fail err)
    then have "(\<exists>m. resp = JSONError m 401) \<and> w_db w' = w_db w"
      using assms x Some
      by (auto simp: SatelliteAuthMiddleware_def validateSPIFFEAuth_def run_check_err failAuth_def auditEvent_def
          Let_def responses)
    then show ?thesis by blast
  next
    case (ok sat db)
    then have sat: "sat \<in> set (db_satellites (w_db w))" "sat_Name sat = n" "w_db v = w_db w"
      by (auto simp: GetSatelliteByName_def select_one_def split: option.splits dest: find_first_Some)
    have "run_state (next (r\<lparr>rq_satellite := Some n\<rparr>)) v = (resp, w')"
      using assms x Some ok sat(2) by (simp add: SatelliteAuthMiddleware_def validateSPIFFEAuth_def run_check_err)
    with sat Some show ?thesis by auto
  qed
next
  case None
  show ?thesis
  proof (cases "extractBasicAuth r")
    case None
    then have "(\<exists>m. resp = JSONError m 401) \<and> w_db w' = w_db w"
      using assms \<open>rq_satellite r = None\<close>
      by (auto simp: SatelliteAuthMiddleware_def failAuth_def auditEvent_def Let_def responses)
    then show ?thesis by blast
  next
    case (Some np)
    obtain name password where np: "np = (name, password)" by force
    obtain x v where x: "run_state (validateRobotAuth e name password) w = (x, v)" by force
    note xs = validateRobotAuth_sound[OF x]
    show ?thesis
    proof (cases x)
      case (Inl err)
      then have "(\<exists>m. resp = JSONError m 401) \<and> w_db w' = w_db w"
        using assms x Some None np xs(1)
        by (auto simp: SatelliteAuthMiddleware_def run_check_err failAuth_def auditEvent_def Let_def responses split: if_splits)
      then show ?thesis by blast
    next
      case (Inr satName)
      then have run: "run_state (next (r\<lparr>rq_satellite := Some satName\<rparr>)) v = (resp, w')"
        using assms x Some None np by (simp add: SatelliteAuthMiddleware_def run_check_err)
      have cred: "robot_credentials e (w_db w) (w_now w) name password satName" using xs(3) Inr by blast
      then have "satName \<in> sat_Name ` set (db_satellites (w_db w))" by (auto simp: robot_credentials_def)
      with run xs cred None Some np show ?thesis by auto
    qed
  qed
qed

text \<open>
  C11. A satellite route is served only to a satellite. Behind \<^verbatim>\<open>SatelliteAuthMiddleware\<close> a handler
  either does not run, and then the answer is 401 and the database is unchanged; or it runs on
  the unchanged database under the name of a registered satellite that the request proved to be:
  by its SPIFFE identity when the transport established one, otherwise by the name and secret of
  a robot account of that satellite that has not expired.
\<close>

theorem satellite_route_sound:
  assumes "run_state (SatelliteAuthMiddleware e next r) w = (resp, w')"
  shows "(status_of resp = 401 \<and> w_db w' = w_db w) \<or>
    (\<exists>satName v. run_state (next (r\<lparr>rq_satellite := Some satName\<rparr>)) v = (resp, w') \<and> w_db v = w_db w \<and>
       satName \<in> sat_Name ` set (db_satellites (w_db w)) \<and>
       (case rq_satellite r of
          Some spiffeName \<Rightarrow> spiffeName = satName
        | None \<Rightarrow> (\<exists>name password. extractBasicAuth r = Some (name, password) \<and>
                    robot_credentials e (w_db w) (w_now w) name password satName)))"
  using SatelliteAuthMiddleware_cases[OF assms] by (elim disjE) auto

theorem satellite_route_sound_witness:
  "\<exists>w'. run_state (SatelliteAuthMiddleware sample_env (\<lambda>r. ret (JSONReply 200 (rq_satellite r)))
      (sample_request\<lparr>rq_satellite := Some ''edge''\<rparr>))
      (sample_world (sample_db\<lparr>db_satellites := [\<lparr>sat_ID = 1, sat_Name = ''edge'', sat_CreatedAt = 0, sat_UpdatedAt = 0,
         sat_LastSeen = None, sat_HeartbeatInterval = None\<rparr>]\<rparr>) 5) = (JSONReply 200 (Some ''edge''), w')"
proof -
  let ?r = "sample_request\<lparr>rq_satellite := Some ''edge''\<rparr>"
  let ?w = "sample_world (sample_db\<lparr>db_satellites := [\<lparr>sat_ID = 1, sat_Name = ''edge'', sat_CreatedAt = 0, sat_UpdatedAt = 0,
         sat_LastSeen = None, sat_HeartbeatInterval = None\<rparr>]\<rparr>) 5"
  obtain resp w' where run: "run_state (SatelliteAuthMiddleware sample_env (\<lambda>r. ret (JSONReply 200 (rq_satellite r))) ?r) ?w = (resp, w')"
    by force
  have "status_of resp = 200"
    using run by (auto simp: SatelliteAuthMiddleware_def validateSPIFFEAuth_def run_check_err db_call_def
        GetSatelliteByName_def select_one_def sample_parts)
  with satellite_route_sound[OF run] have "resp = JSONReply 200 (Some ''edge'')" by (auto simp: sample_request_def)
  with run show ?thesis by blast
qed

section \<open>Bootstrap\<close>

text \<open>
  Ground control does not start without an administrator it can trust. When
  \<^verbatim>\<open>BootstrapSystemAdmin\<close> reports success there is a system administrator in the database; and
  unless one was there before, it is the account \<^verbatim>\<open>admin\<close> whose stored hash accepts the configured
  password, which satisfies the password policy. When it reports an error the users are
  unchanged.
\<close>

theorem BootstrapSystemAdmin_outcome:
  assumes "\<And>s salt t m p n. length (ge_argon e s salt t m p n) = n"
    and "run_state (BootstrapSystemAdmin e) w = (res, w')"
  shows "(case res of
      Inl err \<Rightarrow> w_db w' = w_db w
    | Inr _ \<Rightarrow>
        if \<exists>u\<in>set (db_users (w_db w)). usr_Role u = ''system_admin'' then w_db w' = w_db w
        else policy_Validate (ge_unicode e) (srv_passwordPolicy (ge_server e)) (srv_AdminPassword (ge_server e)) = None \<and>
          (\<exists>u. db_users (w_db w') = db_users (w_db w) @ [u] \<and> usr_Username u = ''admin'' \<and> usr_Role u = ''system_admin'' \<and>
             VerifyPassword (ge_argon e) (srv_AdminPassword (ge_server e)) (usr_PasswordHash u)))"
proof -
  have hash: "HashPassword (ge_argon e) rnd p = Inr h \<Longrightarrow> VerifyPassword (ge_argon e) p h" for rnd p h
    unfolding HashPassword_def VerifyPassword_def by (rule HashSecret_accepts[OF assms(1)])
  show ?thesis
    using assms(2)
    by (auto simp: BootstrapSystemAdmin_def run_check_err db_call_def rand_call_def SystemAdminExists_def Let_def
        CreateUser_def systemAdminUsername_def roleSystemAdmin_def hash
        split: if_splits sum.splits option.splits prod.splits)
qed

theorem BootstrapSystemAdmin_outcome_witness:
  "\<exists>w'. run_state (BootstrapSystemAdmin sample_env) (sample_world empty_db 3) = (Inr (), w') \<and>
     (\<exists>u\<in>set (db_users (w_db w')). usr_Role u = ''system_admin'' \<and>
        VerifyPassword sample_argon ''Secret123'' (usr_PasswordHash u))"
proof -
  note pol = sample_policy
  obtain h where h: "HashPassword sample_argon (\<lambda>n. Inr (replicate n CHR ''r'')) ''Secret123'' = Inr h"
    by (simp add: HashPassword_def HashSecret_def Let_def)
  obtain w' where run: "run_state (BootstrapSystemAdmin sample_env) (sample_world empty_db 3) = (Inr (), w')"
    using pol h
    by (simp add: BootstrapSystemAdmin_def run_check_err db_call_def rand_call_def SystemAdminExists_def
        CreateUser_def roleSystemAdmin_def Let_def sample_parts)
  have len: "length (ge_argon sample_env s salt t m p n) = n" for s salt t m p n
    by (simp add: sample_env_def sample_argon_length)
  have "\<exists>u. db_users (w_db w') = [u] \<and> usr_Role u = ''system_admin'' \<and>
      VerifyPassword sample_argon ''Secret123'' (usr_PasswordHash u)"
    using BootstrapSystemAdmin_outcome[OF len run] by (auto simp: sample_parts)
  with run show ?thesis by auto
qed

end
