(* ===== verification/GC_Users.thy ===== *)
theory GC_Users
  imports GC_Auth
begin

text \<open>
  \<^verbatim>\<open>server/user_handlers.go\<close>: the handlers for user accounts, and the invariant of the tables of
  users, sessions and login attempts under every operation of the authentication and user
  components. The path variable \<^verbatim>\<open>username\<close> and the decoded body are arguments.
\<close>

section \<open>Handlers\<close>

record userResponse =
  ur_ID :: int
  ur_Username :: string
  ur_Role :: string
  ur_CreatedAt :: int

record changePasswordRequest =
  cp_CurrentPassword :: string
  cp_NewPassword :: string

definition actorFromContext :: "http_request \<Rightarrow> string" where
  "actorFromContext r = (case GetUserFromContext r of Some u \<Rightarrow> au_Username u | None \<Rightarrow> ''unknown'')"

definition user_response :: "user_row \<Rightarrow> userResponse" where
  "user_response u = \<lparr>ur_ID = usr_ID u, ur_Username = usr_Username u, ur_Role = usr_Role u, ur_CreatedAt = usr_CreatedAt u\<rparr>"

definition internal_error :: "'b response" where
  "internal_error = WriteJSONError ''Internal server error'' 500"

definition createUserHandler ::
  "('j, 'h) gc_env \<Rightarrow> http_request \<Rightarrow> loginRequest option \<Rightarrow> ('j, 'h, userResponse list response) gc" where
  \<comment> \<open>\<^verbatim>\<open>createUserRequest\<close> has the fields of \<^verbatim>\<open>loginRequest\<close>\<close>
  "createUserHandler e r body =
     (case body of
        None \<Rightarrow> ret (WriteJSONError ''Invalid request body'' 400)
      | Some req \<Rightarrow>
          if lr_Username req = [] then ret (WriteJSONError ''Username is required'' 400)
          else if lr_Username req = ''admin'' then ret (WriteJSONError ''Username 'admin' is reserved'' 400)
          else case policy_Validate (ge_unicode e) (srv_passwordPolicy (ge_server e)) (lr_Password req) of
            Some err \<Rightarrow> ret (WriteJSONError err 400)
          | None \<Rightarrow>
              check_err (rand_call e (\<lambda>rnd. HashPassword (ge_argon e) rnd (lr_Password req))) (\<lambda>_. ret internal_error) (\<lambda>hash. do {
              now \<leftarrow> gets w_now;
              check_err (db_call e (CreateUser now (lr_Username req) hash roleAdmin))
                (\<lambda>err. if err = ErrUnique then ret (WriteJSONError ''User already exists'' 409) else ret internal_error)
                (\<lambda>user. do {
                  auditEvent e r ((event ''create'' ''user'' ''success'' (actorFromContext r) ''user'')\<lparr>ev_Resource := usr_Username user, ev_Details := [(''role'', JStr (usr_Role user))]\<rparr>);
                  ret (WriteJSONResponse 201 [user_response user])
                })
              }))"

definition listUsersHandler :: "('j, 'h) gc_env \<Rightarrow> http_request \<Rightarrow> ('j, 'h, userResponse list response) gc" where
  "listUsersHandler e r =
     check_err (db_call e ListUsers) (\<lambda>_. ret internal_error) (\<lambda>users. ret (WriteJSONResponse 200 (map user_response users)))"

definition getUserHandler :: "('j, 'h) gc_env \<Rightarrow> http_request \<Rightarrow> string \<Rightarrow> ('j, 'h, userResponse list response) gc" where
  "getUserHandler e r username =
     check_err (db_call e (GetUserByUsername username))
       (\<lambda>err. if err = ErrNoRows then ret (WriteJSONError ''User not found'' 404) else ret internal_error)
       (\<lambda>user. if usr_Role user = roleSystemAdmin then ret (WriteJSONError ''User not found'' 404)
               else ret (WriteJSONResponse 200 [user_response user]))"

definition deleteUserHandler :: "('j, 'h) gc_env \<Rightarrow> http_request \<Rightarrow> string \<Rightarrow> ('j, 'h, userResponse list response) gc" where
  "deleteUserHandler e r username =
     (case GetUserFromContext r of
        None \<Rightarrow> ret (WriteJSONError ''Unauthorized'' 401)
      | Some currentUser \<Rightarrow>
          if username = au_Username currentUser then ret (WriteJSONError ''Cannot delete yourself'' 400)
          else if username = ''admin'' then ret (WriteJSONError ''Cannot delete system admin'' 400)
          else check_err (db_call e (GetUserByUsername username))
            (\<lambda>err. if err = ErrNoRows then ret (WriteJSONError ''User not found'' 404) else ret internal_error)
            (\<lambda>user.
            check_err (db_call e (DeleteUserSessions (usr_ID user))) (\<lambda>_. ret internal_error) (\<lambda>_.
            check_err (db_call e (DeleteUser username)) (\<lambda>_. ret internal_error) (\<lambda>_. do {
              auditEvent e r ((event ''delete'' ''user'' ''success'' (au_Username currentUser) ''user'')\<lparr>ev_Resource := username\<rparr>);
              ret (StatusOnly 204)
            }))))"

definition store_password ::
  "('j, 'h) gc_env \<Rightarrow> http_request \<Rightarrow> string \<Rightarrow> string \<Rightarrow> string \<Rightarrow> user_row \<Rightarrow> string \<Rightarrow> ('j, 'h, userResponse list response) gc" where
  \<comment> \<open>the common end of the two password handlers: hash, store, drop the sessions, audit\<close>
  "store_password e r flow actor username user newPassword =
     check_err (rand_call e (\<lambda>rnd. HashPassword (ge_argon e) rnd newPassword)) (\<lambda>_. ret internal_error) (\<lambda>hash. do {
     now \<leftarrow> gets w_now;
     check_err (db_call e (UpdateUserPassword now username hash)) (\<lambda>_. ret internal_error) (\<lambda>_.
     check_err (db_call e (DeleteUserSessions (usr_ID user))) (\<lambda>_. ret internal_error) (\<lambda>_. do {
       auditEvent e r ((event ''password_change'' ''user'' ''success'' actor ''user'')\<lparr>ev_Resource := username, ev_Details := [(''flow'', JStr flow)]\<rparr>);
       ret (StatusOnly 204)
     }))
     })"

definition changeOwnPasswordHandler ::
  "('j, 'h) gc_env \<Rightarrow> http_request \<Rightarrow> changePasswordRequest option \<Rightarrow> ('j, 'h, userResponse list response) gc" where
  "changeOwnPasswordHandler e r body =
     (case GetUserFromContext r of
        None \<Rightarrow> ret (WriteJSONError ''Unauthorized'' 401)
      | Some currentUser \<Rightarrow>
          (case body of
             None \<Rightarrow> ret (WriteJSONError ''Invalid request body'' 400)
           | Some req \<Rightarrow>
               (case policy_Validate (ge_unicode e) (srv_passwordPolicy (ge_server e)) (cp_NewPassword req) of
                  Some err \<Rightarrow> ret (WriteJSONError err 400)
                | None \<Rightarrow>
                    check_err (db_call e (GetUserByUsername (au_Username currentUser))) (\<lambda>_. ret internal_error) (\<lambda>user.
                    if \<not> VerifyPassword (ge_argon e) (cp_CurrentPassword req) (usr_PasswordHash user)
                    then ret (WriteJSONError ''Current password is incorrect'' 401)
                    else store_password e r ''self_service'' (au_Username currentUser) (au_Username currentUser) user (cp_NewPassword req)))))"

definition changeUserPasswordHandler ::
  "('j, 'h) gc_env \<Rightarrow> http_request \<Rightarrow> string \<Rightarrow> string option \<Rightarrow> ('j, 'h, userResponse list response) gc" where
  "changeUserPasswordHandler e r username body =
     (case body of
        None \<Rightarrow> ret (WriteJSONError ''Invalid request body'' 400)
      | Some newPassword \<Rightarrow>
          (case policy_Validate (ge_unicode e) (srv_passwordPolicy (ge_server e)) newPassword of
             Some err \<Rightarrow> ret (WriteJSONError err 400)
           | None \<Rightarrow>
               check_err (db_call e (GetUserByUsername username))
                 (\<lambda>err. if err = ErrNoRows then ret (WriteJSONError ''User not found'' 404) else ret internal_error)
                 (\<lambda>user. store_password e r ''admin_reset'' (actorFromContext r) username user newPassword)))"

section \<open>The invariant of the account tables\<close>

definition wf_accounts :: "'j db \<Rightarrow> bool" where
  "wf_accounts db =
     (distinct (map usr_Username (db_users db)) \<and> distinct (map usr_ID (db_users db)) \<and>
      (\<forall>u\<in>set (db_users db). usr_ID u < db_next db \<and> usr_Role u \<in> {''system_admin'', ''admin''}) \<and>
      distinct (map ses_Token (db_sessions db)) \<and>
      (\<forall>s\<in>set (db_sessions db). ses_UserID s \<in> usr_ID ` set (db_users db)) \<and>
      distinct (map la_Username (db_logins db)))"

definition sysadmins :: "'j db \<Rightarrow> (int \<times> string) list" where
  "sysadmins db = map (\<lambda>u. (usr_ID u, usr_Username u)) (filter (\<lambda>u. usr_Role u = ''system_admin'') (db_users db))"

definition acc_rel :: "'j db \<Rightarrow> 'j db \<Rightarrow> bool" where
  \<comment> \<open>a change that keeps the invariant and the system administrators\<close>
  "acc_rel db db' = ((wf_accounts db \<longrightarrow> wf_accounts db') \<and> sysadmins db' = sysadmins db)"

definition safe :: "('j, 'h, 'a) gc \<Rightarrow> bool" where
  "safe m = (\<forall>w. acc_rel (w_db w) (w_db (snd (run_state m w))))"

named_theorems safety \<open>operations that keep the account tables well formed and the administrators\<close>

lemma acc_rel_refl [simp]: "acc_rel db db"
  by (simp add: acc_rel_def)

lemma acc_rel_trans: "acc_rel a b \<Longrightarrow> acc_rel b c \<Longrightarrow> acc_rel a c"
  by (simp add: acc_rel_def)

lemma safe_keeps: "keeps_db m \<Longrightarrow> safe m"
  by (simp add: safe_def keeps_db_def)

lemma safe_bind [safety]: "safe m \<Longrightarrow> (\<And>x. safe (k x)) \<Longrightarrow> safe (State_Monad.bind m k)"
  unfolding safe_def by (auto split: prod.splits) (metis acc_rel_trans snd_conv)

lemma safe_check_err [safety]:
  "safe m \<Longrightarrow> (\<And>err. safe (h err)) \<Longrightarrow> (\<And>x. safe (k x)) \<Longrightarrow> safe (check_err m h k)"
  unfolding check_err_def by (rule safe_bind) (auto split: sum.splits)

lemma safe_if [safety]: "safe m \<Longrightarrow> safe n \<Longrightarrow> safe (if b then m else n)"
  by simp

lemma safe_simple [safety]: "safe (ret x)" "safe (gets f)" "safe (auditEvent e r ev)" "safe (rand_call e g)"
  by (rule safe_keeps, rule keeps_ret keeps_gets keeps_auditEvent keeps_rand_call)+

definition safe_query :: "('j, 'a) query \<Rightarrow> bool" where
  "safe_query q = (\<forall>db x db'. q db = Inr (x, db') \<longrightarrow> acc_rel db db')"

lemma safe_db_call [safety]: "safe_query q \<Longrightarrow> safe (db_call e q)"
  by (auto simp: safe_def safe_query_def db_call_def split: sum.splits prod.splits)

lemma safe_read_only: "read_only q \<Longrightarrow> safe_query q"
  by (metis safe_query_def read_only_def acc_rel_refl)

lemma safe_reads [safety]:
  "safe_query (GetUserByUsername n)" "safe_query (GetLoginAttempts n)" "safe_query ListUsers"
  by (rule safe_read_only, rule read_only_queries read_only_others)+

lemma safe_CreateUser [safety]: "role \<noteq> ''system_admin'' \<Longrightarrow> safe_query (CreateUser now n h role)"
  by (auto simp: safe_query_def acc_rel_def CreateUser_def wf_accounts_def sysadmins_def Let_def
      split: if_splits)

lemma safe_DeleteUserSessions [safety]: "safe_query (DeleteUserSessions i)"
  by (auto simp: safe_query_def acc_rel_def DeleteUserSessions_def exec_def wf_accounts_def sysadmins_def
      intro: distinct_map_filter)

lemma safe_DeleteSession [safety]: "safe_query (DeleteSession t)"
  by (auto simp: safe_query_def acc_rel_def DeleteSession_def exec_def wf_accounts_def sysadmins_def
      intro: distinct_map_filter)

lemma acc_rel_users:
  assumes "\<And>u. usr_ID (g u) = usr_ID u" "\<And>u. usr_Username (g u) = usr_Username u" "\<And>u. usr_Role (g u) = usr_Role u"
  shows "acc_rel db (db\<lparr>db_users := map g (db_users db)\<rparr>)"
  by (auto simp: acc_rel_def wf_accounts_def sysadmins_def assms filter_map comp_def image_image)

lemma acc_rel_logins:
  assumes "\<And>l. la_Username (g l) = la_Username l"
  shows "acc_rel db (db\<lparr>db_logins := map g (db_logins db)\<rparr>)"
  by (auto simp: acc_rel_def wf_accounts_def sysadmins_def assms comp_def)

lemma safe_UpdateUserPassword [safety]: "safe_query (UpdateUserPassword now n h)"
  by (auto simp: safe_query_def UpdateUserPassword_def exec_def intro!: acc_rel_users)

lemma safe_login_updates [safety]: "safe_query (ResetLoginAttempts now n)" "safe_query (LockAccount now n t)"
  by (auto simp: safe_query_def ResetLoginAttempts_def LockAccount_def exec_def intro!: acc_rel_logins)

lemma safe_UpsertLoginAttempt [safety]: "safe_query (UpsertLoginAttempt now n)"
proof -
  have "acc_rel db db'" if up: "UpsertLoginAttempt now n db = Inr (x, db')" for db :: "'a db" and x db'
  proof (cases "find_first (\<lambda>l. la_Username l = n) (db_logins db)")
    case None
    then have "n \<notin> la_Username ` set (db_logins db)" by (auto simp: find_first_None)
    then show ?thesis using up None
      by (auto simp: UpsertLoginAttempt_def Let_def acc_rel_def wf_accounts_def sysadmins_def)
        (meson less_imp_le)
  next
    case (Some l)
    then have "la_Username l = n" by (auto dest: find_first_Some)
    then show ?thesis using up Some
      by (auto simp: UpsertLoginAttempt_def Let_def intro!: acc_rel_logins)
  qed
  then show ?thesis by (auto simp: safe_query_def)
qed

lemma safe_DeleteUser [safety]: "safe_query (DeleteUser n)"
  by (auto simp: safe_query_def acc_rel_def DeleteUser_def exec_def wf_accounts_def sysadmins_def Let_def
      intro!: distinct_map_filter arg_cong[where f = "map _"] filter_cong) (fastforce simp: image_iff)

lemma safe_CreateSession [safety]: "safe_query (CreateSession now i t x)"
  by (auto simp: safe_query_def acc_rel_def CreateSession_def wf_accounts_def sysadmins_def Let_def
      split: if_splits intro: less_imp_le)

lemma safe_recordFailedAttempt [safety]: "safe (recordFailedAttempt e u)"
  unfolding recordFailedAttempt_def by (intro safety)

lemma safe_store_password [safety]: "safe (store_password e r fl a n u p)"
  unfolding store_password_def by (intro safety)

lemma safe_login [safety]: "safe (login_session e r u row)" "safe (login_checked e r req)"
proof -
  show session: "safe (login_session e r u row)" for u row
    unfolding login_session_def by (intro safety)
  show "safe (login_checked e r req)"
    unfolding login_checked_def by (intro safety session)
qed

section \<open>Account requests\<close>

datatype account_request =
  Login "loginRequest option"
| Logout
| CreateUserReq "loginRequest option"
| ListUsersReq
| GetUserReq string
| DeleteUserReq string
| ChangeOwnPassword "changePasswordRequest option"
| ChangeUserPassword string "string option"

definition reply_status :: "('j, 'h, 'b response) gc \<Rightarrow> ('j, 'h, int) gc" where
  "reply_status m = do { resp \<leftarrow> m; ret (status_of resp) }"

fun serve_account :: "('j, 'h) gc_env \<Rightarrow> http_request \<Rightarrow> account_request \<Rightarrow> ('j, 'h, int) gc" where
  \<comment> \<open>the handler of each route, behind its middlewares\<close>
  "serve_account e r (Login body) = reply_status (loginHandler e r body)"
| "serve_account e r Logout = reply_status (AuthMiddleware e (logoutHandler e) r)"
| "serve_account e r (CreateUserReq body) =
     reply_status (AuthMiddleware e (RequireRole roleSystemAdmin (\<lambda>r. createUserHandler e r body)) r)"
| "serve_account e r ListUsersReq = reply_status (AuthMiddleware e (listUsersHandler e) r)"
| "serve_account e r (GetUserReq n) = reply_status (AuthMiddleware e (\<lambda>r. getUserHandler e r n) r)"
| "serve_account e r (DeleteUserReq n) =
     reply_status (AuthMiddleware e (RequireRole roleSystemAdmin (\<lambda>r. deleteUserHandler e r n)) r)"
| "serve_account e r (ChangeOwnPassword body) = reply_status (AuthMiddleware e (\<lambda>r. changeOwnPasswordHandler e r body) r)"
| "serve_account e r (ChangeUserPassword n body) =
     reply_status (AuthMiddleware e (RequireRole roleSystemAdmin (\<lambda>r. changeUserPasswordHandler e r n body)) r)"

lemma safe_option [safety]: "safe m \<Longrightarrow> (\<And>x. safe (k x)) \<Longrightarrow> safe (case opt of None \<Rightarrow> m | Some x \<Rightarrow> k x)"
  by (cases opt) auto

lemma safe_reply_status [safety]: "safe m \<Longrightarrow> safe (reply_status m)"
  unfolding reply_status_def by (intro safety)

lemma safe_AuthMiddleware [safety]:
  assumes "\<And>r. safe (handler r)"
  shows "safe (AuthMiddleware e handler r)"
proof -
  have "acc_rel (w_db w) (w_db w')" if "run_state (AuthMiddleware e handler r) w = (resp, w')" for w resp w'
    using that
  proof (cases rule: AuthMiddleware_cases)
    case (passed u v)
    then show ?thesis using assms unfolding safe_def by (metis snd_conv)
  qed simp
  then show ?thesis unfolding safe_def by (metis surj_pair snd_conv)
qed

lemma safe_RequireRole [safety]: "(\<And>r. safe (handler r)) \<Longrightarrow> safe (RequireRole role handler r)"
  unfolding RequireRole_def by (intro safety)

lemma safe_handlers [safety]:
  "safe (loginHandler e r body)" "safe (logoutHandler e r)" "safe (createUserHandler e r body)"
  "safe (listUsersHandler e r)" "safe (getUserHandler e r n)" "safe (deleteUserHandler e r n)"
  "safe (changeOwnPasswordHandler e r body')" "safe (changeUserPasswordHandler e r n body'')"
proof -
  have admin: "roleAdmin \<noteq> ''system_admin''" by (simp add: roleAdmin_def)
  show "safe (createUserHandler e r body)"
    unfolding createUserHandler_def by (intro safety admin)
qed (unfold loginHandler_def logoutHandler_def listUsersHandler_def getUserHandler_def deleteUserHandler_def
  changeOwnPasswordHandler_def changeUserPasswordHandler_def Let_def, (intro safety)+)

text \<open>
  C28. The account tables stay well formed and no request makes or removes a system administrator.
  Whatever sequence of login, logout and user requests arrives, with whatever credentials,
  bodies, times and database failures: if user names, user ids, session tokens and the keys of the login
  attempts are unique, every role is a known one and every session belongs to a user, then this holds
  afterwards too; and the system administrators (their ids and names) are exactly those before.
\<close>

theorem account_requests_invariant:
  assumes "w' = fold (\<lambda>(t, e, r, req) w. snd (run_state (serve_account e r req) (w\<lparr>w_now := t\<rparr>))) reqs w"
  shows "sysadmins (w_db w') = sysadmins (w_db w) \<and> (wf_accounts (w_db w) \<longrightarrow> wf_accounts (w_db w'))"
proof -
  have step: "safe (serve_account e r req)" for e :: "('a, 'b) gc_env" and r req
    by (cases req) (simp_all only: serve_account.simps, (intro safety)+)
  have "acc_rel (w_db w) (w_db w')"
    using assms
  proof (induction reqs arbitrary: w)
    case (Cons x xs)
    obtain t e r req where x: "x = (t, e, r, req)" by (cases x) auto
    let ?w1 = "snd (run_state (serve_account e r req) (w\<lparr>w_now := t\<rparr>))"
    have "acc_rel (w_db (w\<lparr>w_now := t\<rparr>)) (w_db ?w1)"
      using step unfolding safe_def by blast
    then have "acc_rel (w_db w) (w_db ?w1)" by simp
    moreover have "acc_rel (w_db ?w1) (w_db w')"
      using Cons.prems x by (intro Cons.IH) simp
    ultimately show ?case by (rule acc_rel_trans)
  qed simp
  then show ?thesis by (auto simp: acc_rel_def)
qed

theorem account_requests_invariant_witness:
  "let w' = fold (\<lambda>(t, e, r, req) w. snd (run_state (serve_account e r req) (w\<lparr>w_now := t\<rparr>)))
      [(10, sample_env, sample_request, Login (Some \<lparr>lr_Username = ''root'', lr_Password = ''no''\<rparr>)),
       (11, sample_env, sample_request, DeleteUserReq ''root'')] (sample_world sample_db 10)
   in sysadmins (w_db w') = [(7, ''root'')] \<and> wf_accounts (w_db w')"
  using account_requests_invariant[OF refl, where w = "sample_world sample_db 10" and
      reqs = "[(10, sample_env, sample_request, Login (Some \<lparr>lr_Username = ''root'', lr_Password = ''no''\<rparr>)),
        (11, sample_env, sample_request, DeleteUserReq ''root'')]"]
  by (simp add: Let_def sysadmins_def wf_accounts_def sample_parts)

section \<open>Changing a password\<close>

definition user_named :: "'j db \<Rightarrow> string \<Rightarrow> user_row option" where
  "user_named db n = find_first (\<lambda>u. usr_Username u = n) (db_users db)"

lemma filter_map_other:
  "(\<And>x. p x \<Longrightarrow> p (f x)) \<Longrightarrow> filter (\<lambda>x. \<not> p x) (map (\<lambda>x. if p x then f x else x) xs) = filter (\<lambda>x. \<not> p x) xs"
  by (induction xs) auto

lemma store_password_done:
  assumes len: "\<And>s salt t m p n. length (ge_argon e s salt t m p n) = n"
    and run: "run_state (store_password e r flow actor n user p) w = (StatusOnly c, w')"
    and user: "user_named (w_db w) n = Some user"
  shows "c = 204 \<and> db_sessions (w_db w') = filter (\<lambda>s. ses_UserID s \<noteq> usr_ID user) (db_sessions (w_db w)) \<and>
    filter (\<lambda>u. usr_Username u \<noteq> n) (db_users (w_db w')) = filter (\<lambda>u. usr_Username u \<noteq> n) (db_users (w_db w)) \<and>
    (\<exists>u. user_named (w_db w') n = Some u \<and> usr_ID u = usr_ID user \<and> usr_Role u = usr_Role user \<and>
       VerifyPassword (ge_argon e) p (usr_PasswordHash u))"
proof -
  obtain hash where hash: "HashPassword (ge_argon e) (ge_rand e (w_calls w)) p = Inr hash" and c: "c = 204"
    and db: "w_db w' = (w_db w)\<lparr>db_users := map (\<lambda>u. if usr_Username u = n
        then u\<lparr>usr_PasswordHash := hash, usr_UpdatedAt := w_now w\<rparr> else u) (db_users (w_db w)),
      db_sessions := filter (\<lambda>s. ses_UserID s \<noteq> usr_ID user) (db_sessions (w_db w))\<rparr>"
    using run
    by (auto simp: store_password_def run_check_err rand_call_def db_call_def UpdateUserPassword_def
        DeleteUserSessions_def exec_def auditEvent_def Let_def responses internal_error_def
        split: sum.splits if_splits)
  have "VerifyPassword (ge_argon e) p hash"
    using hash unfolding HashPassword_def VerifyPassword_def by (rule HashSecret_accepts[OF len])
  moreover have "user_named (w_db w') n = Some (user\<lparr>usr_PasswordHash := hash, usr_UpdatedAt := w_now w\<rparr>)"
    using user by (simp add: user_named_def db find_first_map_if)
  moreover have "filter (\<lambda>u. usr_Username u \<noteq> n) (db_users (w_db w')) = filter (\<lambda>u. usr_Username u \<noteq> n) (db_users (w_db w))"
    by (simp add: db filter_map_other)
  ultimately show ?thesis by (simp add: c db)
qed

text \<open>
  C29. A changed password takes effect everywhere. When a password handler answers without an error,
  the new password satisfies the policy, and the stored hash of that user accepts it; the user
  keeps id and role, every session of the user is gone and no other session or user row has
  changed. When the users changed it themselves, the old password had been verified.
\<close>

theorem password_change_effective:
  assumes "\<And>s salt t m p n. length (ge_argon e s salt t m p n) = n"
    and "run_state (if own then changeOwnPasswordHandler e r (Some \<lparr>cp_CurrentPassword = q, cp_NewPassword = p\<rparr>)
      else changeUserPasswordHandler e r n (Some p)) w = (StatusOnly c, w')"
    and "own \<Longrightarrow> map_option au_Username (rq_user r) = Some n"
  shows "policy_Validate (ge_unicode e) (srv_passwordPolicy (ge_server e)) p = None \<and>
    (\<exists>user u. user_named (w_db w) n = Some user \<and> user_named (w_db w') n = Some u \<and>
      usr_ID u = usr_ID user \<and> usr_Role u = usr_Role user \<and> VerifyPassword (ge_argon e) p (usr_PasswordHash u) \<and>
      db_sessions (w_db w') = filter (\<lambda>s. ses_UserID s \<noteq> usr_ID user) (db_sessions (w_db w)) \<and>
      filter (\<lambda>u. usr_Username u \<noteq> n) (db_users (w_db w')) = filter (\<lambda>u. usr_Username u \<noteq> n) (db_users (w_db w)) \<and>
      (own \<longrightarrow> VerifyPassword (ge_argon e) q (usr_PasswordHash user)))"
proof -
  have "\<exists>user actor flow. policy_Validate (ge_unicode e) (srv_passwordPolicy (ge_server e)) p = None \<and>
      user_named (w_db w) n = Some user \<and> (own \<longrightarrow> VerifyPassword (ge_argon e) q (usr_PasswordHash user)) \<and>
      run_state (store_password e r flow actor n user p) (count_call w) = (StatusOnly c, w')"
    using assms(2,3)
    by (cases own) (auto simp: changeUserPasswordHandler_def changeOwnPasswordHandler_def GetUserFromContext_def run_check_err
        db_call_def GetUserByUsername_def select_one_def user_named_def responses internal_error_def
        split: option.splits if_splits)
  then obtain user actor flow where u: "policy_Validate (ge_unicode e) (srv_passwordPolicy (ge_server e)) p = None"
    "user_named (w_db w) n = Some user" "own \<longrightarrow> VerifyPassword (ge_argon e) q (usr_PasswordHash user)"
    "run_state (store_password e r flow actor n user p) (count_call w) = (StatusOnly c, w')" by blast
  show ?thesis
    using store_password_done[OF assms(1) u(4)] u by auto
qed

theorem password_change_effective_witness:
  "\<exists>w'. run_state (changeUserPasswordHandler sample_env sample_request ''root'' (Some ''Secret123'')) (sample_world sample_db 10) =
       (StatusOnly 204, w') \<and> db_sessions (w_db w') = [] \<and>
     (\<exists>u. user_named (w_db w') ''root'' = Some u \<and> VerifyPassword sample_argon ''Secret123'' (usr_PasswordHash u))"
proof -
  have pol: "policy_Validate sample_unicode DefaultPolicy ''Secret123'' = None" by (rule sample_policy)
  obtain h where h: "HashPassword sample_argon (\<lambda>n. Inr (replicate n CHR ''r'')) ''Secret123'' = Inr h"
    by (simp add: HashPassword_def HashSecret_def Let_def)
  obtain w' where run: "run_state (changeUserPasswordHandler sample_env sample_request ''root'' (Some ''Secret123''))
      (sample_world sample_db 10) = (StatusOnly 204, w')"
    using pol h
    by (simp add: changeUserPasswordHandler_def store_password_def run_check_err db_call_def rand_call_def
        GetUserByUsername_def select_one_def UpdateUserPassword_def DeleteUserSessions_def exec_def auditEvent_def Let_def sample_parts)
  have len: "length (ge_argon sample_env s salt t m p n) = n" for s salt t m p n
    by (simp add: sample_env_def sample_argon_length)
  have "\<exists>user u. user_named sample_db ''root'' = Some user \<and> user_named (w_db w') ''root'' = Some u \<and>
      VerifyPassword sample_argon ''Secret123'' (usr_PasswordHash u) \<and>
      db_sessions (w_db w') = filter (\<lambda>s. ses_UserID s \<noteq> usr_ID user) (db_sessions sample_db)"
    using password_change_effective[where own = False, OF len, of sample_request "[]" "''Secret123''" "''root''"
        "sample_world sample_db 10" 204 w'] run by (auto simp: sample_env_def sample_world_def)
  with run show ?thesis by (auto simp: user_named_def sample_db_def sample_user_def)
qed

end
