(* ===== verification/GC_Helpers.thy ===== *)
theory GC_Helpers
  imports GC_Users Go_Time
begin

text \<open>
  What the handlers of ground control share: \<^verbatim>\<open>harbor/*.go\<close> (the calls to Harbor's API),
  \<^verbatim>\<open>utils/helper.go\<close> (names, project lists and the state artifacts pushed to the registry) and
  \<^verbatim>\<open>server/helpers.go\<close>. A function that takes a \<^verbatim>\<open>*database.Queries\<close> runs its queries in the
  transaction or outside it; \<open>q_call\<close> takes which of the two.
\<close>

definition q_call :: "('j, 'h) gc_env \<Rightarrow> bool \<Rightarrow> ('j, 'a) query \<Rightarrow> ('j, 'h, 'a result) gc" where
  "q_call e tx q = (if tx then tx_call e q else db_call e q)"

definition wrap_err :: "string \<Rightarrow> ('j, 'h, 'a result) gc \<Rightarrow> ('j, 'h, 'a result) gc" where
  \<comment> \<open>\<^verbatim>\<open>fmt.Errorf("...: %w", err)\<close>\<close>
  "wrap_err p m = check_err m (\<lambda>err. ret (Inl (p @ err))) (\<lambda>x. ret (Inr x))"

definition go_err :: "('j, 'h, 'a result) gc \<Rightarrow> ('j, 'h, gc_error + 'a) gc" where
  \<comment> \<open>an error that is not an \<^verbatim>\<open>AppError\<close>, passed on\<close>
  "go_err m = check_err m (\<lambda>err. ret (Inl (GoError err))) (\<lambda>x. ret (Inr x))"

definition harbor_op :: "('j, 'h) gc_env \<Rightarrow> (('j, 'h) harbor_api \<Rightarrow> 'h \<Rightarrow> 'a \<times> 'h) \<Rightarrow> ('j, 'h, 'a) gc" where
  "harbor_op e f = harbor_call (f (ge_harbor e))"

section \<open>Harbor\<close>

definition IsRobotPresent :: "('j, 'h) gc_env \<Rightarrow> string \<Rightarrow> ('j, 'h, bool result) gc" where
  "IsRobotPresent e name =
     check_err (wrap_err ''error: listing robot account: '' (harbor_op e (\<lambda>a. ha_ListRobot a (''name='' @ name))))
       (\<lambda>err. ret (Inl err)) (\<lambda>payload. ret (Inr (payload \<noteq> [])))"

definition harbor_DeleteRobotAccount :: "('j, 'h) gc_env \<Rightarrow> int \<Rightarrow> ('j, 'h, unit result) gc" where
  "harbor_DeleteRobotAccount e robotID = wrap_err ''error: deleting robot account: '' (harbor_op e (\<lambda>a. ha_DeleteRobot a robotID))"

definition RefreshRobotAccount :: "('j, 'h) gc_env \<Rightarrow> string \<Rightarrow> int \<Rightarrow> ('j, 'h, string option result) gc" where
  "RefreshRobotAccount e secret robotID =
     wrap_err ''error: updating robot account: '' (harbor_op e (\<lambda>a. ha_RefreshSec a secret robotID))"

definition harbor_UpdateRobotAccount :: "('j, 'h) gc_env \<Rightarrow> harbor_robot \<Rightarrow> ('j, 'h, unit result) gc" where
  "harbor_UpdateRobotAccount e opts = wrap_err ''error: updating robot account: '' (harbor_op e (\<lambda>a. ha_UpdateRobot a opts))"

definition harbor_GetRobotAccount :: "('j, 'h) gc_env \<Rightarrow> int \<Rightarrow> ('j, 'h, harbor_robot result) gc" where
  "harbor_GetRobotAccount e i = wrap_err ''error: getting robot account: '' (harbor_op e (\<lambda>a. ha_GetRobotByID a i))"

definition harbor_CreateRobotAccount :: "('j, 'h) gc_env \<Rightarrow> robot_create \<Rightarrow> ('j, 'h, robot_created result) gc" where
  "harbor_CreateRobotAccount e opts =
     wrap_err ''error: create robot account in adapter: '' (harbor_op e (\<lambda>a. ha_CreateRobot a opts))"

definition GenRobotPerms :: "string list \<Rightarrow> robot_permission list" where
  "GenRobotPerms projects = map (\<lambda>project. \<lparr>perm_Access =
     [(''read'', ''artifact''), (''read'', ''repository''), (''pull'', ''repository'')],
     perm_Kind = ''project'', perm_Namespace = project\<rparr>) projects"

definition robotDurationDays :: "server \<Rightarrow> int" where
  "robotDurationDays s = RobotDurationDaysValue (srv_Harbor s)"

definition RobotAccountTemplate :: "server \<Rightarrow> string \<Rightarrow> string list \<Rightarrow> robot_create" where
  "RobotAccountTemplate s name projects =
     \<lparr>rc_Description = ''managed by ground-control should not edit'', rc_Disable = False,
      rc_Duration = robotDurationDays s, rc_Level = ''system'', rc_Name = name,
      rc_Permissions = GenRobotPerms projects\<rparr>"

definition GetProject :: "('j, 'h) gc_env \<Rightarrow> string \<Rightarrow> ('j, 'h, bool result) gc" where
  "GetProject e name = do {
     res \<leftarrow> harbor_op e (\<lambda>a. ha_HeadProject a name);
     ret (case res of
            HeadError err \<Rightarrow> Inl (''error: project head request failed for project '' @ name @ '': '' @ err)
          | HeadNotFound \<Rightarrow> Inr False
          | HeadOK b \<Rightarrow> Inr b)
   }"

definition CreateSatelliteProject :: "('j, 'h) gc_env \<Rightarrow> ('j, 'h, bool result) gc" where
  "CreateSatelliteProject e =
     wrap_err ''error: project create request failed for project satellite: ''
       (harbor_op e (\<lambda>a. ha_CreateProject a ''satellite'' True (- 1)))"

definition ListReplication :: "('j, 'h) gc_env \<Rightarrow> string \<Rightarrow> ('j, 'h, string list result) gc" where
  "ListReplication e q =
     wrap_err ''error: listing replication policies: '' (harbor_op e (\<lambda>a. ha_ListReplicationPolicies a q))"

section \<open>Names and destinations\<close>

definition name_char :: "char \<Rightarrow> bool" where
  "name_char c = (97 \<le> byte c \<and> byte c \<le> 122 \<or> dec_digit c)"

definition IsValidName :: "string \<Rightarrow> bool" where
  "IsValidName name =
     (if length name < 1 \<or> 255 < length name then False
      else name_char (hd name) \<and> list_all (\<lambda>c. name_char c \<or> c \<in> {CHR ''.'', CHR ''_'', CHR ''-''}) (tl name))"

fun project_names :: "string list \<Rightarrow> gc_artifact list \<Rightarrow> string list" where
  \<comment> \<open>the loop of \<^verbatim>\<open>GetProjectNames\<close>, with the projects collected so far\<close>
  "project_names projects [] = projects"
| "project_names projects (a # as) =
     (if ga_Deleted a then project_names projects as
      else let project = hd (split_on CHR ''/'' (ga_Repository a)) in
           project_names (if project \<in> set projects then projects else projects @ [project]) as)"

definition GetProjectNames :: "gc_artifact list \<Rightarrow> string list" where
  "GetProjectNames artifacts = project_names [] artifacts"

definition AssembleGroupState :: "server \<Rightarrow> string \<Rightarrow> string" where
  "AssembleGroupState s groupName = he_URL (srv_Harbor s) @ ''/satellite/group-state/'' @ groupName @ ''/state:latest''"

definition AssembleSatelliteState :: "server \<Rightarrow> string \<Rightarrow> string" where
  "AssembleSatelliteState s satelliteName = he_URL (srv_Harbor s) @ ''/satellite/satellite-state/'' @ satelliteName @ ''/state:latest''"

definition AssembleConfigState :: "server \<Rightarrow> string \<Rightarrow> string" where
  "AssembleConfigState s configName = he_URL (srv_Harbor s) @ ''/satellite/config-state/'' @ configName @ ''/state:latest''"

fun after_first :: "string \<Rightarrow> string \<Rightarrow> string option" where
  \<comment> \<open>what follows the first occurrence\<close>
  "after_first frag [] = (if frag = [] then Some [] else None)"
| "after_first frag (c # s) = (if hasPrefix (c # s) frag then Some (drop (length frag) (c # s)) else after_first frag s)"

definition stripProtocol :: "string \<Rightarrow> string" where
  "stripProtocol url = (case after_first ''://'' url of Some t \<Rightarrow> t | None \<Rightarrow> url)"

definition getStateArtifactDestination :: "string \<Rightarrow> string \<Rightarrow> string" where
  "getStateArtifactDestination registry repository = registry @ ''/'' @ repository @ ''/state''"

definition QueryEscape :: "string \<Rightarrow> string" where
  \<comment> \<open>\<^verbatim>\<open>url.QueryEscape\<close>\<close>
  "QueryEscape s = concat (map (\<lambda>c.
     if name_char c \<or> 65 \<le> byte c \<and> byte c \<le> 90 \<or> c \<in> {CHR ''-'', CHR ''_'', CHR ''.'', CHR ''~''} then [c]
     else if c = CHR '' '' then ''+''
     else [CHR ''%'', ''0123456789ABCDEF'' ! (byte c div 16), ''0123456789ABCDEF'' ! (byte c mod 16)]) s)"

definition ConstructHarborDeleteURL :: "server \<Rightarrow> string \<Rightarrow> string \<Rightarrow> string" where
  "ConstructHarborDeleteURL s repo repoType =
     he_URL (srv_Harbor s) @ ''/api/v2.0/projects/satellite/repositories/'' @
     QueryEscape (QueryEscape (repoType @ ''-state/'' @ repo @ ''/state''))"

section \<open>Robots and state artifacts\<close>

definition CreateRobotAccForSatellite :: "('j, 'h) gc_env \<Rightarrow> string list \<Rightarrow> string \<Rightarrow> ('j, 'h, robot_created result) gc" where
  "CreateRobotAccForSatellite e projects name =
     wrap_err ''error creating robot account: ''
       (harbor_CreateRobotAccount e (RobotAccountTemplate (ge_server e) name projects))"

definition UpdateRobotProjects :: "('j, 'h) gc_env \<Rightarrow> string list \<Rightarrow> string \<Rightarrow> ('j, 'h, unit result) gc" where
  "UpdateRobotProjects e projects i =
     (case ParseInt64 i of
        Inl err \<Rightarrow> ret (Inl (''error invalid ID: '' @ err))
      | Inr robotID \<Rightarrow>
          check_err (harbor_GetRobotAccount e robotID) (\<lambda>err. ret (Inl (''error getting robot account: '' @ err))) (\<lambda>robot.
          check_err (harbor_UpdateRobotAccount e (robot\<lparr>hr_Permissions := GenRobotPerms (projects @ [''satellite''])\<rparr>))
            (\<lambda>err. ret (Inl (''error updating robot account: '' @ err))) (\<lambda>_. ret (Inr ()))))"

definition insecure :: "server \<Rightarrow> bool" where
  "insecure s = hasPrefix (he_URL (srv_Harbor s)) ''http://''"

definition pushImage :: "('j, 'h) gc_env \<Rightarrow> 'j state_image \<Rightarrow> string \<Rightarrow> ('j, 'h, unit result) gc" where
  "pushImage e img destination =
     wrap_err ''failed to push image: '' (harbor_op e (\<lambda>a. ha_Push a img destination (insecure (ge_server e))))"

definition tagImage :: "('j, 'h) gc_env \<Rightarrow> string \<Rightarrow> ('j, 'h, unit result) gc" where
  "tagImage e destination = do {
     now \<leftarrow> gets w_now;
     let stamp = show_int (now div second);
     check_err (harbor_op e (\<lambda>a. ha_Tag a destination stamp (insecure (ge_server e))))
       (\<lambda>err. ret (Inl (''failed to tag image with '' @ stamp @ '': '' @ err))) (\<lambda>_.
     check_err (harbor_op e (\<lambda>a. ha_Tag a destination ''latest'' (insecure (ge_server e))))
       (\<lambda>err. ret (Inl (''failed to tag image with latest: '' @ err))) (\<lambda>_. ret (Inr ())))
   }"

definition push_state :: "('j, 'h) gc_env \<Rightarrow> 'j state_image \<Rightarrow> string \<Rightarrow> ('j, 'h, unit result) gc" where
  \<comment> \<open>the common end of the three functions below: push, then tag\<close>
  "push_state e img destination =
     check_err (pushImage e img destination) (\<lambda>err. ret (Inl err)) (\<lambda>_. tagImage e destination)"

definition CreateStateArtifact :: "('j, 'h) gc_env \<Rightarrow> state_artifact \<Rightarrow> ('j, 'h, unit result) gc" where
  "CreateStateArtifact e sa =
     (case Harbor_Validate (srv_Harbor (ge_server e)) of
        Some err \<Rightarrow> ret (Inl err)
      | None \<Rightarrow>
          (let sa = sa\<lparr>sa_Registry := he_URL (srv_Harbor (ge_server e))\<rparr>;
               repo = ''satellite/group-state/'' @ sa_Group sa
           in push_state e (GroupImage sa) (stripProtocol (getStateArtifactDestination (sa_Registry sa) repo))))"

definition CreateAndPushConfigStateArtifact :: "('j, 'h) gc_env \<Rightarrow> 'j \<Rightarrow> string \<Rightarrow> ('j, 'h, unit result) gc" where
  "CreateAndPushConfigStateArtifact e configData configName =
     (case Harbor_Validate (srv_Harbor (ge_server e)) of
        Some err \<Rightarrow> ret (Inl err)
      | None \<Rightarrow> push_state e (ConfigImage configData) (stripProtocol (AssembleConfigState (ge_server e) configName)))"

definition CreateOrUpdateSatStateArtifact ::
  "('j, 'h) gc_env \<Rightarrow> string \<Rightarrow> string list \<Rightarrow> string \<Rightarrow> ('j, 'h, unit result) gc" where
  "CreateOrUpdateSatStateArtifact e satelliteName states config =
     (if satelliteName = [] then ret (Inl ''the satellite name must be atleast one character long'')
      else if states = [] then ret (Inr ())
      else case Harbor_Validate (srv_Harbor (ge_server e)) of
        Some err \<Rightarrow> ret (Inl err)
      | None \<Rightarrow>
          push_state e (SatelliteImage \<lparr>ssa_States = states, ssa_Config = AssembleConfigState (ge_server e) config\<rparr>)
            (stripProtocol (AssembleSatelliteState (ge_server e) satelliteName)))"

definition DeleteArtifact :: "('j, 'h) gc_env \<Rightarrow> string \<Rightarrow> ('j, 'h, unit result) gc" where
  "DeleteArtifact e deleteURL =
     (case Harbor_Validate (srv_Harbor (ge_server e)) of
        Some err \<Rightarrow> ret (Inl err)
      | None \<Rightarrow>
          check_err (harbor_op e (\<lambda>a. ha_HTTPDelete a deleteURL)) (\<lambda>err. ret (Inl (''failed to send request: '' @ err))) (\<lambda>status.
          if status \<notin> {200, 202, 204} then ret (Inl (''failed to delete repository, received status: '' @ show_int status))
          else ret (Inr ())))"

section \<open>Server helpers\<close>

definition isConfigInUse :: "('j, 'h) gc_env \<Rightarrow> bool \<Rightarrow> 'j config_row \<Rightarrow> ('j, 'h, bool result) gc" where
  "isConfigInUse e tx config =
     check_err (q_call e tx (ConfigSatelliteList (cfr_ID config))) (\<lambda>err. ret (Inl err)) (\<lambda>satellites. ret (Inr (satellites \<noteq> [])))"

definition set_satellite_config ::
  "('j, 'h) gc_env \<Rightarrow> bool \<Rightarrow> string \<Rightarrow> string \<Rightarrow> ('j, 'h, gc_error + satellite_row) gc" where
  \<comment> \<open>the helper \<^verbatim>\<open>setSatelliteConfig\<close> of helpers.go\<close>
  "set_satellite_config e tx satelliteName configName =
     check_err (q_call e tx (GetSatelliteByName satelliteName)) (\<lambda>_. ret (Inl (AppError ''Error: Satellite Not Found'' 400))) (\<lambda>sat.
     check_err (q_call e tx (GetConfigByName configName)) (\<lambda>_. ret (Inl (AppError ''Error: Config Not Found'' 400))) (\<lambda>configObject.
     check_err (q_call e tx (SetSatelliteConfig (sat_ID sat) (cfr_ID configObject)))
       (\<lambda>_. ret (Inl (AppError ''Error: Failed to Set Satellite config'' 500))) (\<lambda>_. ret (Inr sat))))"

primrec add_to_groups :: "('j, 'h) gc_env \<Rightarrow> int \<Rightarrow> string list \<Rightarrow> string list \<Rightarrow> ('j, 'h, gc_error + string list) gc" where
  "add_to_groups e satelliteID groupStates [] = ret (Inr groupStates)"
| "add_to_groups e satelliteID groupStates (g # gs) =
     check_err (ListReplication e (''name='' @ g))
       (\<lambda>_. ret (Inl (AppError (''Error: Group Name: '' @ g @ '', does not exist in replication, Please give a Valid Group Name'') 400))) (\<lambda>_.
     check_err (tx_call e (GetGroupByName g)) (\<lambda>_. ret (Inl (AppError (''Error: Invalid Group Name: '' @ g) 400))) (\<lambda>group.
     check_err (tx_call e (AddSatelliteToGroup satelliteID (grp_ID group))) (\<lambda>err. ret (Inl (GoError err))) (\<lambda>_.
     add_to_groups e satelliteID (groupStates @ [AssembleGroupState (ge_server e) g]) gs)))"

definition addSatelliteToGroups ::
  "('j, 'h) gc_env \<Rightarrow> string list option \<Rightarrow> int \<Rightarrow> ('j, 'h, gc_error + string list) gc" where
  "addSatelliteToGroups e groups satelliteID =
     (case groups of None \<Rightarrow> ret (Inr []) | Some gs \<Rightarrow> add_to_groups e satelliteID [] gs)"

definition ensureSatelliteProjectExists :: "('j, 'h) gc_env \<Rightarrow> ('j, 'h, gc_error + unit) gc" where
  "ensureSatelliteProjectExists e =
     check_err (GetProject e ''satellite'')
       (\<lambda>err. ret (Inl (AppError (''Error: Checking satellite project: '' @ err) 502))) (\<lambda>satExist.
     if \<not> satExist
     then check_err (CreateSatelliteProject e)
            (\<lambda>err. ret (Inl (AppError (''Error: creating satellite project: '' @ err) 502))) (\<lambda>_. ret (Inr ()))
     else ret (Inr ()))"

definition hashRobotCredentials :: "('j, 'h) gc_env \<Rightarrow> string \<Rightarrow> ('j, 'h, string result) gc" where
  "hashRobotCredentials e secret = rand_call e (\<lambda>rnd. HashSecret (ge_argon e) rnd secret)"

definition storeRobotAccountInDB ::
  "('j, 'h) gc_env \<Rightarrow> string \<Rightarrow> string \<Rightarrow> string \<Rightarrow> int \<Rightarrow> int option \<Rightarrow> ('j, 'h, gc_error + unit) gc" where
  "storeRobotAccountInDB e robotName secretHash robotID satelliteID expiry = do {
     now \<leftarrow> gets w_now;
     check_err (tx_call e (AddRobotAccount now robotName secretHash robotID satelliteID expiry))
       (\<lambda>_. ret (Inl (AppError ''Error: failed to store robot account'' 500))) (\<lambda>_. ret (Inr ()))
   }"

primrec assign_permissions :: "('j, 'h) gc_env \<Rightarrow> int \<Rightarrow> string list \<Rightarrow> ('j, 'h, gc_error + unit) gc" where
  "assign_permissions e robotID [] = ret (Inr ())"
| "assign_permissions e robotID (g # gs) =
     check_err (tx_call e (GetProjectsOfGroup g))
       (\<lambda>_. ret (Inl (AppError ''Error: failed to fetch projects for group'' 500))) (\<lambda>projects.
     if projects = [] then ret (Inl (AppError ''Error: no projects found for group'' 500))
     else check_err (UpdateRobotProjects e (hd projects) (show_int robotID))
       (\<lambda>_. ret (Inl (AppError ''Error: failed to update robot account permissions'' 500))) (\<lambda>_.
     assign_permissions e robotID gs))"

definition assignPermissionsToRobot :: "('j, 'h) gc_env \<Rightarrow> string list option \<Rightarrow> int \<Rightarrow> ('j, 'h, gc_error + unit) gc" where
  "assignPermissionsToRobot e groups robotID =
     (case groups of None \<Rightarrow> ret (Inr ()) | Some gs \<Rightarrow> assign_permissions e robotID gs)"

primrec group_states :: "('j, 'h) gc_env \<Rightarrow> bool \<Rightarrow> string list \<Rightarrow> satellite_group_row list \<Rightarrow> ('j, 'h, gc_error + string list) gc" where
  "group_states e tx states [] = ret (Inr states)"
| "group_states e tx states (g # groups) =
     check_err (q_call e tx (GetGroupByID (sg_GroupID g)))
       (\<lambda>_. ret (Inl (AppError ''Error: Get Group By ID Failed'' 500))) (\<lambda>grp.
     group_states e tx (states @ [AssembleGroupState (ge_server e) (grp_Name grp)]) groups)"

definition getGroupStates :: "('j, 'h) gc_env \<Rightarrow> bool \<Rightarrow> satellite_group_row list \<Rightarrow> ('j, 'h, gc_error + string list) gc" where
  "getGroupStates e tx groups = group_states e tx [] groups"

definition DecodeRequestBody :: "'a option \<Rightarrow> gc_error + 'a" where
  "DecodeRequestBody body = (case body of None \<Rightarrow> Inl (AppError ''Invalid request body'' 400) | Some v \<Rightarrow> Inr v)"

definition GenerateRandomToken :: "('j, 'h) gc_env \<Rightarrow> nat \<Rightarrow> ('j, 'h, string result) gc" where
  "GenerateRandomToken e charLength =
     check_err (rand_call e (\<lambda>rnd. rnd (charLength div 2))) (\<lambda>err. ret (Inl err)) (\<lambda>token. ret (Inr (hex_EncodeToString token)))"

definition maskToken :: "string \<Rightarrow> string" where
  "maskToken token = (if length token < 8 then ''***'' else take 4 token @ ''...'' @ drop (length token - 4) token)"

definition GetAuthToken :: "http_request \<Rightarrow> gc_error + string" where
  "GetAuthToken r =
     (if rq_Authorization r = [] then Inl (AppError ''Authorization header missing'' 401)
      else case split_on CHR '' '' (rq_Authorization r) of
        [scheme, token] \<Rightarrow>
          if to_lower scheme \<noteq> ''bearer'' then Inl (AppError ''Invalid Authorization header format'' 401) else Inr token
      | _ \<Rightarrow> Inl (AppError ''Invalid Authorization header format'' 401))"

definition fetchSatelliteConfig :: "('j, 'h) gc_env \<Rightarrow> bool \<Rightarrow> int \<Rightarrow> ('j, 'h, gc_error + 'j config_row) gc" where
  "fetchSatelliteConfig e tx satelliteID =
     check_err (q_call e tx (SatelliteConfig satelliteID))
       (\<lambda>_. ret (Inl (AppError ''Error: Failed to fetch satellite config'' 500))) (\<lambda>satelliteConfig.
     check_err (q_call e tx (GetConfigByID (scf_ConfigID satelliteConfig)))
       (\<lambda>_. ret (Inl (AppError ''Error: Failed to fetch satellite config'' 500))) (\<lambda>configObject. ret (Inr configObject)))"

definition toNullString :: "string \<Rightarrow> string option" where
  "toNullString s = (if s = [] then None else Some s)"

definition pad2 :: "nat \<Rightarrow> string" where
  \<comment> \<open>\<^verbatim>\<open>%02d\<close>\<close>
  "pad2 n = (if n < 10 then ''0'' @ show_nat n else show_nat n)"

definition normalizeHeartbeatInterval :: "string \<Rightarrow> string result" where
  "normalizeHeartbeatInterval interval =
     (if interval = [] then Inr []
      else if \<not> hasPrefix interval ''@every '' then Inl ''invalid heartbeat interval format: must start with @every''
      else case ParseDuration (trimPrefix interval ''@every '') of
        Inl err \<Rightarrow> Inl (''invalid heartbeat interval duration: '' @ err)
      | Inr duration \<Rightarrow>
          if duration \<le> 0 then Inl ''heartbeat interval must be positive''
          else if duration < second then Inl ''heartbeat interval must be at least 1 second''
          else if duration mod second \<noteq> 0 then Inl ''heartbeat interval must be a whole number of seconds''
          else let secs = nat (duration div second) in
            Inr (''@every '' @ pad2 (secs div 3600) @ ''h'' @ pad2 (secs div 60 mod 60) @ ''m'' @ pad2 (secs mod 60) @ ''s''))"

section \<open>What the helpers leave alone\<close>

lemma keeps_q_call [keeps]: "tx \<or> read_only q \<Longrightarrow> keeps_db (q_call e tx q)"
  by (auto simp: q_call_def intro: keeps)

lemma keeps_wrap [keeps]: "keeps_db m \<Longrightarrow> keeps_db (wrap_err p m)" "keeps_db m \<Longrightarrow> keeps_db (go_err m)"
  unfolding wrap_err_def go_err_def by (intro keeps; assumption)+

lemma keeps_harbor_op [keeps]: "keeps_db (harbor_op e f)"
  unfolding harbor_op_def by (intro keeps)

lemma keeps_option [keeps]: "keeps_db m \<Longrightarrow> (\<And>x. keeps_db (k x)) \<Longrightarrow> keeps_db (case opt of None \<Rightarrow> m | Some x \<Rightarrow> k x)"
  by (cases opt) auto

lemma keeps_sum [keeps]: "(\<And>x. keeps_db (f x)) \<Longrightarrow> (\<And>x. keeps_db (g x)) \<Longrightarrow> keeps_db (case r of Inl x \<Rightarrow> f x | Inr x \<Rightarrow> g x)"
  by (cases r) auto

lemma keeps_harbor_api [keeps]:
  "keeps_db (IsRobotPresent e n)" "keeps_db (harbor_DeleteRobotAccount e i)" "keeps_db (RefreshRobotAccount e x i)"
  "keeps_db (harbor_UpdateRobotAccount e rb)" "keeps_db (harbor_GetRobotAccount e i)" "keeps_db (harbor_CreateRobotAccount e c)"
  "keeps_db (GetProject e n)" "keeps_db (CreateSatelliteProject e)" "keeps_db (ListReplication e n)"
  unfolding IsRobotPresent_def harbor_DeleteRobotAccount_def RefreshRobotAccount_def harbor_UpdateRobotAccount_def
    harbor_GetRobotAccount_def harbor_CreateRobotAccount_def GetProject_def CreateSatelliteProject_def ListReplication_def
  by (intro keeps)+

lemma keeps_registry [keeps]:
  "keeps_db (CreateRobotAccForSatellite e ps n)" "keeps_db (UpdateRobotProjects e ps n)" "keeps_db (pushImage e img d)"
  "keeps_db (tagImage e d)" "keeps_db (DeleteArtifact e u)"
  unfolding CreateRobotAccForSatellite_def UpdateRobotProjects_def pushImage_def tagImage_def DeleteArtifact_def Let_def
  by (intro keeps)+

lemma keeps_push_state [keeps]: "keeps_db (push_state e img d)"
  unfolding push_state_def by (intro keeps)

lemma keeps_state_artifacts [keeps]:
  "keeps_db (CreateStateArtifact e sa)" "keeps_db (CreateAndPushConfigStateArtifact e c n)"
  "keeps_db (CreateOrUpdateSatStateArtifact e n sts cn)"
  unfolding CreateStateArtifact_def CreateAndPushConfigStateArtifact_def CreateOrUpdateSatStateArtifact_def Let_def
  by (intro keeps)+

lemma keeps_loops [keeps]: "keeps_db (add_to_groups e i sts gs)" "keeps_db (assign_permissions e i gs)" "keeps_db (group_states e tx sts ggs)"
proof -
  show "keeps_db (add_to_groups e i sts gs)"
    by (induction gs arbitrary: sts) (auto intro!: keeps)
  show "keeps_db (assign_permissions e i gs)"
    by (induction gs) (auto intro!: keeps)
  show "keeps_db (group_states e tx sts ggs)"
    by (induction ggs arbitrary: sts) (auto intro!: keeps)
qed

lemma keeps_helpers [keeps]:
  "keeps_db (addSatelliteToGroups e gs i)" "keeps_db (ensureSatelliteProjectExists e)" "keeps_db (hashRobotCredentials e x)"
  "keeps_db (storeRobotAccountInDB e n h rid i ex)" "keeps_db (assignPermissionsToRobot e gs i)"
  "keeps_db (getGroupStates e tx ggs)" "keeps_db (GenerateRandomToken e len)" "keeps_db (fetchSatelliteConfig e tx i)"
  "keeps_db (isConfigInUse e tx c)" "keeps_db (set_satellite_config e True sn cn)"
  unfolding addSatelliteToGroups_def ensureSatelliteProjectExists_def hashRobotCredentials_def storeRobotAccountInDB_def
    assignPermissionsToRobot_def getGroupStates_def GenerateRandomToken_def fetchSatelliteConfig_def isConfigInUse_def
    set_satellite_config_def
  by (intro keeps disjI1 disjI2 TrueI)+

section \<open>Names of projects\<close>

lemma project_names_spec:
  "distinct ps \<Longrightarrow> distinct (project_names ps as) \<and>
     set (project_names ps as) = set ps \<union> {hd (split_on CHR ''/'' (ga_Repository a)) |a. a \<in> set as \<and> \<not> ga_Deleted a}"
  by (induction ps as rule: project_names.induct) (auto simp: Let_def)

section \<open>Heartbeat intervals\<close>

lemma pad2_digits: "(\<forall>c\<in>set (pad2 n). dec_digit c) \<and> pad2 n \<noteq> [] \<and> digits_value (pad2 n) = n"
proof -
  have "digits_value (CHR ''0'' # ds) = digits_value ds" for ds by (simp add: digits_value_def)
  moreover have "dec_digit CHR ''0''" by (simp add: dec_digit_def)
  ultimately show ?thesis using show_nat_digits[of n] by (auto simp: pad2_def)
qed

lemma pad2_starts: "unit_end (hd (pad2 n @ t))"
  using pad2_digits[of n] by (cases "pad2 n") (auto simp: unit_end_def)

lemma ParseDuration_hms:
  assumes "(h * 3600 + m * 60 + s) * 1000000000 < 2 ^ 63"
  shows "ParseDuration (pad2 h @ ''h'' @ pad2 m @ ''m'' @ pad2 s @ ''s'') = Inr (int (h * 3600 + m * 60 + s) * second)"
proof -
  let ?t = "pad2 h @ ''h'' @ pad2 m @ ''m'' @ pad2 s @ ''s''"
  have hd: "hd ?t \<notin> {CHR ''-'', CHR ''+''}" "?t \<noteq> []" "?t \<noteq> ''0''"
    using pad2_digits[of h] by (cases "pad2 h"; auto simp: dec_digit_def)+
  have b: "h * 3600000000000 + m * 60000000000 + s * 1000000000 < 2 ^ 63" using assms by (simp add: algebra_simps)
  have p1: "parse_part ?t = Inr (h * 3600000000000, pad2 m @ ''m'' @ pad2 s @ ''s'')"
    using parse_part_plain[of "pad2 h" "''h''" "pad2 m @ ''m'' @ pad2 s @ ''s''" 3600000000000]
      pad2_digits[of h] unit_ends pad2_starts b by simp
  have p2: "parse_part (pad2 m @ ''m'' @ pad2 s @ ''s'') = Inr (m * 60000000000, pad2 s @ ''s'')"
    using parse_part_plain[of "pad2 m" "''m''" "pad2 s @ ''s''" 60000000000]
      pad2_digits[of m] unit_ends pad2_starts b by simp
  have p3: "parse_part (pad2 s @ ''s'') = Inr (s * 1000000000, [])"
    using parse_part_plain[of "pad2 s" "''s''" "[]" 1000000000] pad2_digits[of s] unit_ends b by simp
  have "parse_parts 0 ?t = parse_parts (h * 3600000000000 + m * 60000000000 + s * 1000000000) []"
    using parse_parts_step[OF p1, of 0] parse_parts_step[OF p2] parse_parts_step[OF p3] b by simp
  also have "\<dots> = Inr (h * 3600000000000 + m * 60000000000 + s * 1000000000)"
    by (subst parse_parts.simps) simp
  finally show ?thesis using hd b by (simp add: ParseDuration_def Let_def second_def algebra_simps)
qed

lemma every_trim: "hasPrefix s ''@every '' \<Longrightarrow> trimPrefix s ''@every '' = drop 7 s"
  by (simp add: trimPrefix_def eval_nat_numeral)

definition hms :: "nat \<Rightarrow> string" where
  "hms n = pad2 (n div 3600) @ ''h'' @ pad2 (n div 60 mod 60) @ ''m'' @ pad2 (n mod 60) @ ''s''"

lemma ParseDuration_text:
  assumes "n * 1000000000 < 2 ^ 63"
  shows "ParseDuration (hms n) = Inr (int n * second)"
proof -
  have "n div 3600 = n div 60 div 60" using div_mult2_eq[of n 60 60] by simp
  moreover have "n = n div 60 * 60 + n mod 60" "n div 60 = n div 60 div 60 * 60 + n div 60 mod 60" by simp_all
  ultimately have "n div 3600 * 3600 + n div 60 mod 60 * 60 + n mod 60 = n" by linarith
  then show ?thesis
    using ParseDuration_hms[of "n div 3600" "n div 60 mod 60" "n mod 60"] assms by (simp add: hms_def)
qed

lemma normalize_text:
  assumes "normalizeHeartbeatInterval s = Inr t" "s \<noteq> []"
  obtains n where "ParseDuration (drop 7 s) = Inr (int n * second)" "0 < n" "n * 1000000000 < 2 ^ 63" "t = ''@every '' @ hms n"
proof -
  have pre: "hasPrefix s ''@every ''" using assms by (simp add: normalizeHeartbeatInterval_def split: if_splits)
  note eq = assms(1)[unfolded normalizeHeartbeatInterval_def every_trim[OF pre]]
  obtain d where pd: "ParseDuration (drop 7 s) = Inr d"
    using eq pre assms(2) by (cases "ParseDuration (drop 7 s)") simp_all
  have "\<not> d < second \<and> \<not> d mod second \<noteq> 0"
    using eq pre assms(2) pd by (simp split: if_split_asm)
  then have d: "second \<le> d" "d mod second = 0" by (simp_all add: not_less)
  have nd: "\<not> d \<le> 0" "\<not> d < second" using d(1) by (simp_all add: second_def)
  define n where "n = nat (d div second)"
  have t: "t = ''@every '' @ hms n"
    using eq by (simp only: pre assms(2) pd d(2) nd Let_def if_False if_True sum.simps simp_thms n_def hms_def)
  have "0 \<le> d div second" using d(1) by (simp add: second_def pos_imp_zdiv_nonneg_iff)
  then have n: "int n * second = d" using d(2) div_mult_mod_eq[of d second] by (simp add: n_def)
  have "n * 1000000000 < 2 ^ 63"
    using ParseDuration_range[OF pd] n by (simp add: second_def)
  moreover have "0 < n" using n nd by (cases n) auto
  ultimately show ?thesis using that[of n] pd n t by simp
qed

lemma normalize_fixed:
  assumes "0 < n" "n * 1000000000 < 2 ^ 63"
  shows "normalizeHeartbeatInterval (''@every '' @ hms n) = Inr (''@every '' @ hms n)"
proof -
  have sec: "\<not> int n * second \<le> 0" "\<not> int n * second < second" using assms(1) by (simp_all add: second_def)
  have "int n * second mod second = 0" "int n * second div second = int n" by (simp_all add: second_def)
  then show ?thesis
    using ParseDuration_text[OF assms(2)] sec
    by (simp add: normalizeHeartbeatInterval_def trimPrefix_def Let_def) (simp add: hms_def)
qed

text \<open>
  Heartbeat intervals are normalised without changing them. When
  \<^verbatim>\<open>normalizeHeartbeatInterval\<close> accepts a non-empty interval, the duration it denotes is a positive
  whole number of seconds, the canonical text it returns denotes the same duration, and the
  canonical text is a fixed point of the normalisation.
\<close>

lemma normalizeHeartbeatInterval_canonical:
  assumes "normalizeHeartbeatInterval s = Inr t" "s \<noteq> []"
  shows "\<exists>d. ParseDuration (drop 7 s) = Inr d \<and> second \<le> d \<and> d mod second = 0 \<and> hasPrefix t ''@every '' \<and>
    ParseDuration (drop 7 t) = Inr d \<and> normalizeHeartbeatInterval t = Inr t"
proof -
  from assms obtain n where n: "ParseDuration (drop 7 s) = Inr (int n * second)" "0 < n" "n * 1000000000 < 2 ^ 63" "t = ''@every '' @ hms n"
    by (rule normalize_text)
  have d: "second \<le> int n * second" "int n * second mod second = 0" using n(2) by (simp_all add: second_def)
  have t: "hasPrefix t ''@every ''" "drop 7 t = hms n" by (simp_all add: n(4) eval_nat_numeral)
  show ?thesis
    by (rule exI[of _ "int n * second"]) (use n d t ParseDuration_text normalize_fixed in \<open>simp only: simp_thms\<close>)
qed

lemma sample_interval:
  "ParseDuration ''90s'' = Inr (90 * second)" "normalizeHeartbeatInterval ''@every 90s'' = Inr ''@every 00h01m30s''"
proof -
  show p: "ParseDuration ''90s'' = Inr (90 * second)"
    using ParseDuration_plain[of "''90''" "''s''" 1000000000]
    by (simp add: dec_digit_def unit_ends digits_value_def second_def)
  then show "normalizeHeartbeatInterval ''@every 90s'' = Inr ''@every 00h01m30s''"
    by (simp add: normalizeHeartbeatInterval_def trimPrefix_def second_def pad2_def show_nat.simps char_of_def bit_iff_odd)
qed

end
