(* ===== verification/GC_Tx.thy ===== *)
theory GC_Tx
  imports GC_Helpers
begin

text \<open>
  The shape that the writing handlers of ground control share. They begin a transaction, run
  queries and calls to Harbor, commit, and on every early return, a failed commit included, a deferred
  function deletes the robot account that was created in Harbor and rolls back. Also the loop over the groups of a
  satellite that several handlers repeat.

  \<open>atomic\<close> says that a response without a success status has left the committed database alone;
  \<open>closes_tx\<close> that no transaction stays open. The locale \<open>transactional\<close> is what a client of such a handler can rely on.
\<close>

section \<open>Transactions\<close>

definition cleanup_robot :: "('j, 'h) gc_env \<Rightarrow> int \<Rightarrow> ('j, 'h, unit) gc" where
  "cleanup_robot e robotID =
     (if robotID \<noteq> 0 then do { _ \<leftarrow> harbor_DeleteRobotAccount e robotID; ret () } else ret ())"

definition abandon :: "('j, 'h) gc_env \<Rightarrow> int \<Rightarrow> 'x \<Rightarrow> ('j, 'h, 'x + 'a) gc" where
  \<comment> \<open>the deferred function of a handler that did not commit\<close>
  "abandon e robotID x = do { _ \<leftarrow> cleanup_robot e robotID; _ \<leftarrow> Rollback; ret (Inl x) }"

definition with_tx ::
  "('j, 'h) gc_env \<Rightarrow> (string \<Rightarrow> 'x) \<Rightarrow> (string \<Rightarrow> 'x) \<Rightarrow> ('j, 'h, int \<times> ('x + 'a)) gc \<Rightarrow> ('j, 'h, 'x + 'a) gc" where
  \<comment> \<open>\<open>body\<close> gives the robot account it created, or 0, and its early return or its result\<close>
  "with_tx e begin_failed commit_failed body =
     check_err (BeginTx e) (\<lambda>err. ret (Inl (begin_failed err))) (\<lambda>_. do {
       (robotID, res) \<leftarrow> body;
       case res of
         Inl x \<Rightarrow> abandon e robotID x
       | Inr a \<Rightarrow> check_err (Commit e) (\<lambda>err. abandon e robotID (commit_failed err)) (\<lambda>_. ret (Inr a))
     })"

definition app_error :: "string \<Rightarrow> int \<Rightarrow> 'b response" where
  "app_error m c = HandleAppError (AppError m c)"

definition plain_error :: "string \<Rightarrow> 'b response" where
  "plain_error err = HandleAppError (GoError err)"

definition reject :: "'x \<Rightarrow> ('j, 'h, int \<times> ('x + 'a)) gc" where
  \<comment> \<open>an early return before any robot account is created\<close>
  "reject x = ret (0, Inl x)"

definition accept :: "'a \<Rightarrow> ('j, 'h, int \<times> ('x + 'a)) gc" where
  "accept a = ret (0, Inr a)"

definition respond :: "('j, 'h, 'b response + 'a) gc \<Rightarrow> ('a \<Rightarrow> ('j, 'h, 'b response) gc) \<Rightarrow> ('j, 'h, 'b response) gc" where
  "respond m k = check_err m ret k"

definition begin_error :: "string \<Rightarrow> 'b response" where
  "begin_error err = app_error ''Error: Failed to start database transaction'' 500"

definition commit_error :: "string \<Rightarrow> 'b response" where
  "commit_error err = app_error ''Error: Could not commit transaction'' 500"

section \<open>The groups of a satellite\<close>

primrec group_projects ::
  "('j, 'h) gc_env \<Rightarrow> bool \<Rightarrow> string list \<times> string list \<Rightarrow> satellite_group_row list \<Rightarrow>
   ('j, 'h, (string list \<times> string list) result) gc" where
  \<comment> \<open>the projects and the state artifacts of the groups\<close>
  "group_projects e tx acc [] = ret (Inr acc)"
| "group_projects e tx acc (g # gs) =
     check_err (q_call e tx (GetGroupByID (sg_GroupID g))) (\<lambda>err. ret (Inl err)) (\<lambda>grp.
     group_projects e tx (fst acc @ grp_Projects grp, snd acc @ [AssembleGroupState (ge_server e) (grp_Name grp)]) gs)"

section \<open>Atomicity\<close>

fun success :: "'b response \<Rightarrow> bool" where
  "success (JSONError m c) = False"
| "success (JSONReply c b) = (c \<in> {200, 201, 204})"
| "success (StatusOnly c) = (c \<in> {200, 201, 204})"

definition atomic :: "('j, 'h, 'b response) gc \<Rightarrow> bool" where
  "atomic m = (\<forall>w. \<not> success (fst (run_state m w)) \<longrightarrow> w_db (snd (run_state m w)) = w_db w)"

definition closes_tx :: "('j, 'h, 'a) gc \<Rightarrow> bool" where
  "closes_tx m = (\<forall>w. w_tx w = NoTx \<longrightarrow> w_tx (snd (run_state m w)) = NoTx)"

named_theorems atomicity \<open>rules for atomic and closes_tx\<close>

lemma keeps_cleanup [keeps]: "keeps_db (cleanup_robot e i)" "keeps_db (abandon e i x)"
  unfolding cleanup_robot_def abandon_def by (intro keeps)+

lemma keeps_answers [keeps]: "keeps_db (reject x)" "keeps_db (accept a)"
  unfolding reject_def accept_def by (rule keeps)+

lemma keeps_group_projects [keeps]: "keeps_db (group_projects e tx acc gs)"
  by (induction gs arbitrary: acc) (auto intro!: keeps)

lemma abandon_db: "run_state (abandon e i x) w = (r, v) \<Longrightarrow> w_db v = w_db w"
  using keeps_cleanup(2) by (rule keeps_dbD)

lemma abandon_tx: "w_tx (snd (run_state (abandon e i x) w)) = NoTx"
  by (simp add: abandon_def Rollback_def split: prod.splits)

lemma with_tx_failed:
  assumes "keeps_db body" "run_state (with_tx e bf cf body) w = (Inl x, v)"
  shows "w_db v = w_db w"
proof -
  have Commit_failed: "w_db (snd (run_state (Commit e) u)) = w_db u" if "run_state (Commit e) u = (Inl err, u')" for u err u'
    using that by (auto simp: Commit_def split: tx.splits if_splits)
  obtain b u where b: "run_state (BeginTx e) w = (b, u)" "w_db u = w_db w"
    using keeps_BeginTx[of e] by (metis keeps_dbD(1) surj_pair)
  obtain i res u' where body: "run_state body u = ((i, res), u')" "w_db u' = w_db u"
    using assms(1) by (metis keeps_dbD(1) surj_pair)
  obtain c u'' where c: "run_state (Commit e) u' = (c, u'')" by (metis surj_pair)
  show ?thesis
  proof (cases b)
    case (Inl err)
    then show ?thesis using assms(2) b by (simp add: with_tx_def run_check_err)
  next
    case (Inr y)
    then have run: "run_state (case res of Inl x \<Rightarrow> abandon e i x
        | Inr a \<Rightarrow> check_err (Commit e) (\<lambda>err. abandon e i (cf err)) (\<lambda>_. ret (Inr a))) u' = (Inl x, v)"
      using assms(2) b body by (simp add: with_tx_def run_check_err)
    show ?thesis
    proof (cases res)
      case (Inl z)
      then show ?thesis using run abandon_db[of e i z u'] body b by simp
    next
      case (Inr a)
      then show ?thesis
        using run c Commit_failed[of u' _ u''] abandon_db[of e i _ u'' "Inl x" v] body b
        by (cases c) (auto simp: run_check_err)
    qed
  qed
qed

lemma atomic_keeps: "keeps_db m \<Longrightarrow> atomic m"
  by (simp add: atomic_def keeps_db_def)

lemma atomic_check_err [atomicity]:
  assumes "keeps_db m" "\<And>err. atomic (h err)" "\<And>x. atomic (k x)"
  shows "atomic (check_err m h k)"
  unfolding atomic_def
proof (intro allI impI)
  fix w assume bad: "\<not> success (fst (run_state (check_err m h k) w))"
  obtain r u where m: "run_state m w = (r, u)" "w_db u = w_db w"
    using assms(1) by (metis keeps_dbD(1) surj_pair)
  show "w_db (snd (run_state (check_err m h k) w)) = w_db w"
    using bad assms(2,3) m by (cases r) (simp_all add: run_check_err atomic_def)
qed

lemma atomic_bind [atomicity]: "keeps_db m \<Longrightarrow> (\<And>x. atomic (k x)) \<Longrightarrow> atomic (State_Monad.bind m k)"
  by (simp add: atomic_def keeps_db_def split: prod.splits) (metis fst_conv snd_conv)

lemma atomic_ret [atomicity]: "atomic (ret x)"
  by (rule atomic_keeps) (rule keeps)

lemma atomic_if [atomicity]: "atomic m \<Longrightarrow> atomic n \<Longrightarrow> atomic (if b then m else n)"
  by simp

lemma atomic_option [atomicity]: "atomic m \<Longrightarrow> (\<And>x. atomic (k x)) \<Longrightarrow> atomic (case opt of None \<Rightarrow> m | Some x \<Rightarrow> k x)"
  by (cases opt) auto

lemma atomic_sum [atomicity]: "(\<And>x. atomic (f x)) \<Longrightarrow> (\<And>x. atomic (g x)) \<Longrightarrow> atomic (case r of Inl x \<Rightarrow> f x | Inr x \<Rightarrow> g x)"
  by (cases r) auto

definition succeeds :: "('j, 'h, 'b response) gc \<Rightarrow> bool" where
  \<comment> \<open>what a handler does after the commit: it always answers with success\<close>
  "succeeds m = (\<forall>w. success (fst (run_state m w)))"

lemma succeeds_intros [atomicity]:
  "succeeds (ret (WriteJSONResponse 200 b))" "succeeds (ret (StatusOnly 201))" "(\<And>x. succeeds (k x)) \<Longrightarrow> succeeds (State_Monad.bind m k)"
  by (auto simp: succeeds_def responses split: prod.splits)

lemma atomic_respond_tx [atomicity]:
  assumes "keeps_db body" "\<And>a. succeeds (k a)"
  shows "atomic (respond (with_tx e bf cf body) k)"
  unfolding atomic_def
proof (intro allI impI)
  fix w assume bad: "\<not> success (fst (run_state (respond (with_tx e bf cf body) k) w))"
  obtain r v where run: "run_state (with_tx e bf cf body) w = (r, v)" by (metis surj_pair)
  show "w_db (snd (run_state (respond (with_tx e bf cf body) k) w)) = w_db w"
  proof (cases r)
    case (Inl x)
    then show ?thesis using with_tx_failed[OF assms(1), of e bf cf w x v] run by (simp add: respond_def run_check_err)
  next
    case (Inr a)
    then show ?thesis using bad assms(2)[of a] run by (simp add: respond_def run_check_err succeeds_def)
  qed
qed

lemma closes_bind [atomicity]: "closes_tx m \<Longrightarrow> (\<And>x. closes_tx (k x)) \<Longrightarrow> closes_tx (State_Monad.bind m k)"
  by (simp add: closes_tx_def split: prod.splits) (metis snd_conv)

lemma closes_ret [atomicity]: "closes_tx (ret x)" "closes_tx (gets f)"
  by (simp_all add: closes_tx_def)

lemma closes_check_err [atomicity]:
  "closes_tx m \<Longrightarrow> (\<And>err. closes_tx (h err)) \<Longrightarrow> (\<And>x. closes_tx (k x)) \<Longrightarrow> closes_tx (check_err m h k)"
  unfolding check_err_def by (rule closes_bind) (auto split: sum.splits)

lemma closes_if [atomicity]: "closes_tx m \<Longrightarrow> closes_tx n \<Longrightarrow> closes_tx (if b then m else n)"
  by simp

lemma closes_option [atomicity]: "closes_tx m \<Longrightarrow> (\<And>x. closes_tx (k x)) \<Longrightarrow> closes_tx (case opt of None \<Rightarrow> m | Some x \<Rightarrow> k x)"
  by (cases opt) auto

lemma closes_sum [atomicity]: "(\<And>x. closes_tx (f x)) \<Longrightarrow> (\<And>x. closes_tx (g x)) \<Longrightarrow> closes_tx (case r of Inl x \<Rightarrow> f x | Inr x \<Rightarrow> g x)"
  by (cases r) auto

lemma closes_calls [atomicity]:
  "closes_tx (db_call e q)" "closes_tx (harbor_call f)" "closes_tx (rand_call e g)" "closes_tx (auditEvent e r ev)" "closes_tx Rollback"
  by (auto simp: closes_tx_def db_call_def harbor_call_def rand_call_def auditEvent_def Rollback_def Let_def split: sum.splits prod.splits)

lemma closes_with_tx [atomicity]: "closes_tx (with_tx e bf cf body)"
proof -
  have committed: "run_state (Commit e) u = (Inr y, u') \<Longrightarrow> w_tx u' = NoTx" for u y u'
    by (auto simp: Commit_def split: tx.splits if_splits)
  have BeginTx_failed: "run_state (BeginTx e) w = (Inl err, u) \<Longrightarrow> w_tx u = w_tx w" for w err u
    by (auto simp: BeginTx_def split: if_splits)
  show ?thesis
    unfolding closes_tx_def
  proof (intro allI impI)
    fix w :: "('a, 'b) gc_world" assume start: "w_tx w = NoTx"
    obtain b u where b: "run_state (BeginTx e) w = (b, u)" by (metis surj_pair)
    obtain i res u' where body: "run_state body u = ((i, res), u')" by (metis surj_pair)
    obtain c u'' where c: "run_state (Commit e) u' = (c, u'')" by (metis surj_pair)
    show "w_tx (snd (run_state (with_tx e bf cf body) w)) = NoTx"
    proof (cases b)
      case (Inl err)
      then show ?thesis using b BeginTx_failed start by (simp add: with_tx_def run_check_err)
    next
      case (Inr y)
      then have "run_state (with_tx e bf cf body) w = run_state (case res of Inl x \<Rightarrow> abandon e i x
          | Inr a \<Rightarrow> check_err (Commit e) (\<lambda>err. abandon e i (cf err)) (\<lambda>_. ret (Inr a))) u'"
        using b body by (simp add: with_tx_def run_check_err)
      then show ?thesis using abandon_tx committed c by (cases res; cases c) (auto simp: run_check_err)
    qed
  qed
qed

lemma closes_respond [atomicity]: "closes_tx m \<Longrightarrow> (\<And>a. closes_tx (k a)) \<Longrightarrow> closes_tx (respond m k)"
  unfolding respond_def by (intro atomicity)

section \<open>What a transaction did\<close>

lemma with_tx_committed:
  assumes "run_state (with_tx e bf cf body) w = (Inr a, v)"
  obtains u i u' where "run_state body u = ((i, Inr a), u')" "w_tx u = Open (w_db w)" "w_now u = w_now w" "w_tx u' = Open (w_db v)" "w_now v = w_now u'"
proof -
  obtain b u where b: "run_state (BeginTx e) w = (b, u)" by (metis surj_pair)
  obtain i res u' where body: "run_state body u = ((i, res), u')" by (metis surj_pair)
  have u: "b = Inr y \<Longrightarrow> w_tx u = Open (w_db w) \<and> w_now u = w_now w" for y
    using b by (auto simp: BeginTx_def split: if_splits)
  have cm: "run_state (Commit e) u' = (Inr y, t) \<Longrightarrow> w_tx u' = Open (w_db t) \<and> w_now t = w_now u'" for y t
    by (auto simp: Commit_def split: tx.splits if_splits)
  show ?thesis
  proof (cases b)
    case (Inl x)
    then show ?thesis using assms b by (simp add: with_tx_def run_check_err)
  next
    case (Inr y)
    have "res = Inr a" "\<exists>y. run_state (Commit e) u' = (Inr y, v)"
      using assms b body Inr by (auto simp: with_tx_def run_check_err abandon_def split: sum.splits prod.splits)
    then show ?thesis using that[of u i u'] body u[OF Inr] cm by auto
  qed
qed

lemma run_check_err_Inr:
  assumes "run_state (check_err m h k) w = (a, v)" "\<And>x u. fst (run_state (h x) u) \<noteq> a"
  obtains x u where "run_state m w = (Inr x, u)" "run_state (k x) u = (a, v)"
proof -
  obtain r u where m: "run_state m w = (r, u)" by (metis surj_pair)
  show ?thesis
  proof (cases r)
    case (Inl x)
    then have "fst (run_state (h x) u) = a" using assms(1) m by (simp add: run_check_err)
    then show ?thesis using assms(2) by blast
  qed (use assms(1) m that in \<open>auto simp: run_check_err\<close>)
qed

definition query_keeps :: "('j db \<Rightarrow> 'x) \<Rightarrow> ('j, 'a) query \<Rightarrow> bool" where
  "query_keeps f q = (\<forall>db x db'. q db = Inr (x, db') \<longrightarrow> f db' = f db)"

definition tx_keeps :: "('j db \<Rightarrow> 'x) \<Rightarrow> ('j, 'h, 'a) gc \<Rightarrow> bool" where
  \<comment> \<open>a part of the database that the transaction does not touch while it stays open\<close>
  "tx_keeps f m = (\<forall>w db'. w_tx (snd (run_state m w)) = Open db' \<longrightarrow> (\<exists>db. w_tx w = Open db \<and> f db' = f db))"

named_theorems txkeeps \<open>rules for tx_keeps\<close>

lemma tx_keepsD: "tx_keeps f m \<Longrightarrow> run_state m w = (a, v) \<Longrightarrow> w_tx v = Open db' \<Longrightarrow> \<exists>db. w_tx w = Open db \<and> f db' = f db"
  by (simp add: tx_keeps_def)

lemma txk_bind [txkeeps]: "tx_keeps f m \<Longrightarrow> (\<And>x. tx_keeps f (k x)) \<Longrightarrow> tx_keeps f (State_Monad.bind m k)"
  by (simp add: tx_keeps_def split: prod.splits) (metis snd_conv)

lemma txk_ret [txkeeps]: "tx_keeps f (ret x)" "tx_keeps f (gets g)" "tx_keeps f (reject y)" "tx_keeps f (accept z)"
  by (simp_all add: tx_keeps_def reject_def accept_def)

lemma txk_check_err [txkeeps]:
  "tx_keeps f m \<Longrightarrow> (\<And>err. tx_keeps f (h err)) \<Longrightarrow> (\<And>x. tx_keeps f (k x)) \<Longrightarrow> tx_keeps f (check_err m h k)"
  unfolding check_err_def by (rule txk_bind) (auto split: sum.splits)

lemma txk_if [txkeeps]: "tx_keeps f m \<Longrightarrow> tx_keeps f n \<Longrightarrow> tx_keeps f (if b then m else n)"
  by simp

lemma txk_option [txkeeps]: "tx_keeps f m \<Longrightarrow> (\<And>x. tx_keeps f (k x)) \<Longrightarrow> tx_keeps f (case opt of None \<Rightarrow> m | Some x \<Rightarrow> k x)"
  by (cases opt) auto

lemma txk_sum [txkeeps]: "(\<And>x. tx_keeps f (m x)) \<Longrightarrow> (\<And>x. tx_keeps f (n x)) \<Longrightarrow> tx_keeps f (case r of Inl x \<Rightarrow> m x | Inr x \<Rightarrow> n x)"
  by (cases r) auto

lemma txk_tx_call [txkeeps]: "query_keeps f q \<Longrightarrow> tx_keeps f (tx_call e q)"
  by (auto simp: tx_keeps_def query_keeps_def tx_call_def split: tx.splits sum.splits prod.splits if_splits)

lemma txk_calls [txkeeps]: "tx_keeps f (db_call e q)" "tx_keeps f (harbor_op e g)" "tx_keeps f (rand_call e p)" "tx_keeps f (auditEvent e r ev)"
  by (auto simp: tx_keeps_def db_call_def harbor_op_def harbor_call_def rand_call_def auditEvent_def Let_def split: sum.splits prod.splits)

lemma txk_q_call [txkeeps]: "query_keeps f q \<Longrightarrow> tx_keeps f (q_call e tx q)"
  unfolding q_call_def by (intro txkeeps)

lemma txk_wrap [txkeeps]: "tx_keeps f m \<Longrightarrow> tx_keeps f (wrap_err p m)"
  unfolding wrap_err_def by (intro txkeeps)

lemma read_only_keeps [txkeeps]: "read_only q \<Longrightarrow> query_keeps f q"
  by (auto simp: read_only_def query_keeps_def)

lemmas harbor_ops = IsRobotPresent_def harbor_DeleteRobotAccount_def RefreshRobotAccount_def harbor_UpdateRobotAccount_def
  harbor_GetRobotAccount_def harbor_CreateRobotAccount_def GetProject_def CreateSatelliteProject_def ListReplication_def
  CreateRobotAccForSatellite_def UpdateRobotProjects_def pushImage_def tagImage_def DeleteArtifact_def push_state_def
  CreateStateArtifact_def CreateAndPushConfigStateArtifact_def CreateOrUpdateSatStateArtifact_def ensureSatelliteProjectExists_def
  hashRobotCredentials_def GenerateRandomToken_def

lemma txk_harbor [txkeeps]:
  "tx_keeps f (CreateRobotAccForSatellite e ps n)" "tx_keeps f (UpdateRobotProjects e ps n)" "tx_keeps f (DeleteArtifact e u)"
  "tx_keeps f (CreateOrUpdateSatStateArtifact e n sts cn)" "tx_keeps f (CreateStateArtifact e sa)"
  "tx_keeps f (CreateAndPushConfigStateArtifact e cfg n)" "tx_keeps f (ensureSatelliteProjectExists e)"
  "tx_keeps f (hashRobotCredentials e x)" "tx_keeps f (GenerateRandomToken e len)" "tx_keeps f (ListReplication e n)"
  unfolding harbor_ops Let_def by (intro txkeeps)+

lemma run_tx_call_Inr:
  assumes "run_state (tx_call e q) w = (Inr x, v)"
  obtains db db' where "w_tx w = Open db" "q db = Inr (x, db')" "w_tx v = Open db'" "w_db v = w_db w" "w_now v = w_now w"
  using assms by (auto simp: tx_call_def split: tx.splits sum.splits prod.splits if_splits)

text \<open>
  \<open>does_rel vw ok now R m\<close>: at the time \<open>now\<close>, an execution of \<open>m\<close> that succeeds, with the result that \<open>ok\<close>
  extracts, has changed the database by \<open>R\<close>, where \<open>vw\<close> is the view of the database that counts: that of the open
  transaction or the committed one. The rules compose the relations along the control flow of a handler.
\<close>

fun ok_sum :: "'x + 'a \<Rightarrow> 'a option" where
  "ok_sum (Inl x) = None"
| "ok_sum (Inr a) = Some a"

fun ok_body :: "int \<times> ('x + 'a) \<Rightarrow> 'a option" where
  "ok_body (i, r) = ok_sum r"

fun ok_reply :: "'b response \<Rightarrow> 'b option" where
  "ok_reply (JSONReply c b) = Some b"
| "ok_reply r = None"

definition ok_success :: "'b response \<Rightarrow> unit option" where
  "ok_success r = (if success r then Some () else None)"

fun left_sum :: "'x + 'a \<Rightarrow> 'x option" where
  "left_sum (Inl x) = Some x"
| "left_sum (Inr a) = None"

fun left_body :: "int \<times> ('x + 'a) \<Rightarrow> 'x option" where
  "left_body (i, r) = left_sum r"

definition tx_view :: "('j, 'h) gc_world \<Rightarrow> 'j db option" where
  "tx_view w = (case w_tx w of Open db \<Rightarrow> Some db | _ \<Rightarrow> None)"

definition db_view :: "('j, 'h) gc_world \<Rightarrow> 'j db option" where
  "db_view w = Some (w_db w)"

definition does_rel ::
  "(('j, 'h) gc_world \<Rightarrow> 'j db option) \<Rightarrow> ('r \<Rightarrow> 'a option) \<Rightarrow> int \<Rightarrow> ('a \<Rightarrow> 'j db \<Rightarrow> 'j db \<Rightarrow> bool) \<Rightarrow> ('j, 'h, 'r) gc \<Rightarrow> bool" where
  "does_rel vw ok now R m =
     (\<forall>w r v x. w_now w = now \<longrightarrow> run_state m w = (r, v) \<longrightarrow> ok r = Some x \<longrightarrow>
        w_now v = now \<and> (\<forall>db'. vw v = Some db' \<longrightarrow> (\<exists>db. vw w = Some db \<and> R x db db')))"

abbreviation tx_does :: "('r \<Rightarrow> 'a option) \<Rightarrow> int \<Rightarrow> ('a \<Rightarrow> 'j db \<Rightarrow> 'j db \<Rightarrow> bool) \<Rightarrow> ('j, 'h, 'r) gc \<Rightarrow> bool" where
  "tx_does \<equiv> does_rel tx_view"

abbreviation db_does :: "('r \<Rightarrow> 'a option) \<Rightarrow> int \<Rightarrow> ('a \<Rightarrow> 'j db \<Rightarrow> 'j db \<Rightarrow> bool) \<Rightarrow> ('j, 'h, 'r) gc \<Rightarrow> bool" where
  "db_does \<equiv> does_rel db_view"

definition never_ok :: "('r \<Rightarrow> 'a option) \<Rightarrow> ('j, 'h, 'r) gc \<Rightarrow> bool" where
  "never_ok ok m = (\<forall>w. ok (fst (run_state m w)) = None)"

definition lefts_bad :: "('r \<Rightarrow> 'x option) \<Rightarrow> ('x \<Rightarrow> 'a option) \<Rightarrow> ('j, 'h, 'r) gc \<Rightarrow> bool" where
  \<comment> \<open>every early return is an error\<close>
  "lefts_bad lf ok m = (\<forall>w x. lf (fst (run_state m w)) = Some x \<longrightarrow> ok x = None)"

named_theorems does \<open>rules for does_rel, never_ok and lefts_bad\<close>

lemma does_relI:
  assumes "\<And>w r v x. w_now w = now \<Longrightarrow> run_state m w = (r, v) \<Longrightarrow> ok r = Some x \<Longrightarrow>
    w_now v = now \<and> (\<forall>db'. vw v = Some db' \<longrightarrow> (\<exists>db. vw w = Some db \<and> R x db db'))"
  shows "does_rel vw ok now R m"
  using assms unfolding does_rel_def by blast

lemma does_relD:
  "does_rel vw ok now R m \<Longrightarrow> run_state m w = (r, v) \<Longrightarrow> w_now w = now \<Longrightarrow> ok r = Some x \<Longrightarrow> vw v = Some db' \<Longrightarrow>
   \<exists>db. vw w = Some db \<and> R x db db'"
  "does_rel vw ok now R m \<Longrightarrow> run_state m w = (r, v) \<Longrightarrow> w_now w = now \<Longrightarrow> ok r = Some x \<Longrightarrow> w_now v = now"
  unfolding does_rel_def by blast+

lemma db_doesD: "db_does ok (w_now w) R m \<Longrightarrow> run_state m w = (r, v) \<Longrightarrow> ok r = Some x \<Longrightarrow> R x (w_db w) (w_db v)"
  using does_relD(1)[of db_view ok "w_now w" R m w r v x "w_db v"] by (simp add: db_view_def)

lemma does_check_lefts:
  assumes "does_rel vw ok_sum now R m" "\<And>x. does_rel vw ok now (S x) (k x)"
    and bad: "\<And>err u w. run_state m w = (Inl err, u) \<Longrightarrow> ok (fst (run_state (h err) u)) = None"
  shows "does_rel vw ok now (\<lambda>y db db''. \<exists>x db'. R x db db' \<and> S x y db' db'') (check_err m h k)"
proof (rule does_relI)
  fix w r v y
  assume now: "w_now w = now" and run: "run_state (check_err m h k) w = (r, v)" and y: "ok r = Some y"
  obtain s u where m: "run_state m w = (s, u)" by (metis surj_pair)
  have "\<exists>x. s = Inr x"
  proof (cases s)
    case (Inl err)
    then have "run_state (h err) u = (r, v)" using run m by (simp add: run_check_err)
    then show ?thesis using bad[of w err u] m Inl y by simp
  qed auto
  then obtain x where x: "s = Inr x" by blast
  then have u: "w_now u = now" "vw u = Some db' \<Longrightarrow> \<exists>db. vw w = Some db \<and> R x db db'" for db'
    using does_relD[OF assms(1) m now] by simp_all
  have k: "run_state (k x) u = (r, v)" using run m x by (simp add: run_check_err)
  have v: "w_now v = now" "vw v = Some db'' \<Longrightarrow> \<exists>db'. vw u = Some db' \<and> S x y db' db''" for db''
    using does_relD[OF assms(2) k u(1) y] by simp_all
  show "w_now v = now \<and> (\<forall>db''. vw v = Some db'' \<longrightarrow> (\<exists>db. vw w = Some db \<and> (\<exists>x db'. R x db db' \<and> S x y db' db'')))"
    using u(2) v by blast
qed

lemma does_check [does]:
  assumes "does_rel vw ok_sum now R m" "\<And>x. does_rel vw ok now (S x) (k x)" "\<And>err. never_ok ok (h err)"
  shows "does_rel vw ok now (\<lambda>y db db''. \<exists>x db'. R x db db' \<and> S x y db' db'') (check_err m h k)"
  by (rule does_check_lefts[OF assms(1,2)]) (use assms(3) in \<open>simp add: never_ok_def\<close>)

lemma does_respond [does]:
  assumes "does_rel vw ok_sum now R m" "\<And>x. does_rel vw ok now (S x) (k x)" "lefts_bad left_sum ok m"
  shows "does_rel vw ok now (\<lambda>y db db''. \<exists>x db'. R x db db' \<and> S x y db' db'') (respond m k)"
  unfolding respond_def
proof (rule does_check_lefts[OF assms(1,2)])
  fix err u w assume "run_state m w = (Inl err, u)"
  then show "ok (fst (run_state (ret err) u)) = None"
    using assms(3)[unfolded lefts_bad_def, rule_format, of w err] by simp
qed

lemma does_now [does]: "does_rel vw ok now R (k now) \<Longrightarrow> does_rel vw ok now R (State_Monad.bind (gets w_now) k)"
proof (rule does_relI)
  fix w r v x assume d: "does_rel vw ok now R (k now)" and now: "w_now w = now" and ok: "ok r = Some x"
    and run: "run_state (State_Monad.bind (gets w_now) k) w = (r, v)"
  have "run_state (k now) w = (r, v)" using run now by simp
  then show "w_now v = now \<and> (\<forall>db'. vw v = Some db' \<longrightarrow> (\<exists>db. vw w = Some db \<and> R x db db'))"
    using does_relD[OF d _ now ok] by blast
qed

lemma does_tx_call [does]: "tx_does ok_sum now (\<lambda>x db db'. q db = Inr (x, db')) (tx_call e q)"
proof (rule does_relI)
  fix w r v x assume now: "w_now w = now" and run: "run_state (tx_call e q) w = (r, v)" and "ok_sum r = Some x"
  then have "run_state (tx_call e q) w = (Inr x, v)" by (cases r) auto
  then show "w_now v = now \<and> (\<forall>db'. tx_view v = Some db' \<longrightarrow> (\<exists>db. tx_view w = Some db \<and> q db = Inr (x, db')))"
    by (rule run_tx_call_Inr) (use now in \<open>auto simp: tx_view_def\<close>)
qed

lemma does_db_call [does]: "db_does ok_sum now (\<lambda>x db db'. q db = Inr (x, db')) (db_call e q)"
proof (rule does_relI)
  fix w r v x assume now: "w_now w = now" and run: "run_state (db_call e q) w = (r, v)" and "ok_sum r = Some x"
  then have "q (w_db w) = Inr (x, w_db v)" "w_now v = w_now w"
    by (auto simp: db_call_def split: if_splits sum.splits prod.splits)
  then show "w_now v = now \<and> (\<forall>db'. db_view v = Some db' \<longrightarrow> (\<exists>db. db_view w = Some db \<and> q db = Inr (x, db')))"
    using now by (simp add: db_view_def)
qed

lemma does_tx_keeps: "tx_keeps f m \<Longrightarrow> keeps_db m \<Longrightarrow> tx_does ok now (\<lambda>_ db db'. f db' = f db) m"
proof (rule does_relI)
  fix w r v x assume k: "tx_keeps f m" "keeps_db m" and now: "w_now w = now" and run: "run_state m w = (r, v)"
  have "w_now v = now" using keeps_dbD(2)[OF k(2) run] now by simp
  moreover have "\<exists>db. tx_view w = Some db \<and> f db' = f db" if "tx_view v = Some db'" for db'
    using tx_keepsD[OF k(1) run, of db'] that by (auto simp: tx_view_def split: tx.splits)
  ultimately show "w_now v = now \<and> (\<forall>db'. tx_view v = Some db' \<longrightarrow> (\<exists>db. tx_view w = Some db \<and> f db' = f db))" by blast
qed

lemma does_db_keeps: "keeps_db m \<Longrightarrow> db_does ok now (\<lambda>_ db db'. db' = db) m"
proof (rule does_relI)
  fix w r v x assume k: "keeps_db m" and now: "w_now w = now" and run: "run_state m w = (r, v)"
  then show "w_now v = now \<and> (\<forall>db'. db_view v = Some db' \<longrightarrow> (\<exists>db. db_view w = Some db \<and> db' = db))"
    using keeps_dbD[OF k run] by (simp add: db_view_def)
qed

lemma does_ret [does]:
  "does_rel vw ok_sum now (\<lambda>x db db'. x = a \<and> db' = db) (ret (Inr a))"
  "does_rel vw ok_body now (\<lambda>x db db'. x = a \<and> db' = db) (ret (i, Inr a))"
  "does_rel vw ok_body now (\<lambda>x db db'. x = a \<and> db' = db) (accept a)"
  "does_rel vw ok_reply now (\<lambda>x db db'. x = b \<and> db' = db) (ret (WriteJSONResponse c b))"
  unfolding accept_def WriteJSONResponse_def by (rule does_relI; force)+

lemma does_split [does]: "does_rel vw ok now R (k (fst p) (snd p)) \<Longrightarrow> does_rel vw ok now R (case p of (a, b) \<Rightarrow> k a b)"
  by (cases p) simp

lemma does_audit [does]:
  assumes "db_does ok now R (k ())"
  shows "db_does ok now R (State_Monad.bind (auditEvent e r ev) k)"
proof (rule does_relI)
  fix w s v y assume now: "w_now w = now" and run: "run_state (State_Monad.bind (auditEvent e r ev) k) w = (s, v)" and y: "ok s = Some y"
  obtain u where m: "run_state (auditEvent e r ev) w = ((), u)" by (metis surj_pair old.unit.exhaust)
  have u: "w_now u = now" "db_view u = db_view w"
    using keeps_dbD[OF keeps_auditEvent m] now by (auto simp: db_view_def)
  have "run_state (k ()) u = (s, v)" using run m by simp
  then show "w_now v = now \<and> (\<forall>db'. db_view v = Some db' \<longrightarrow> (\<exists>db. db_view w = Some db \<and> R y db db'))"
    using does_relD[OF assms _ u(1) y] u(2) by metis
qed

lemma does_if [does]:
  "does_rel vw ok now R a \<Longrightarrow> does_rel vw ok now S b \<Longrightarrow>
   does_rel vw ok now (\<lambda>x db db'. if t then R x db db' else S x db db') (if t then a else b)"
  by simp

lemma does_option [does]:
  "does_rel vw ok now R a \<Longrightarrow> (\<And>y. does_rel vw ok now (S y) (f y)) \<Longrightarrow>
   does_rel vw ok now (\<lambda>x db db'. opt = None \<and> R x db db' \<or> (\<exists>y. opt = Some y \<and> S y x db db')) (case opt of None \<Rightarrow> a | Some y \<Rightarrow> f y)"
  by (cases opt) simp_all

lemma does_sum [does]:
  "(\<And>y. does_rel vw ok now (R y) (f y)) \<Longrightarrow> (\<And>y. does_rel vw ok now (S y) (g y)) \<Longrightarrow>
   does_rel vw ok now (\<lambda>x db db'. (\<exists>y. t = Inl y \<and> R y x db db') \<or> (\<exists>y. t = Inr y \<and> S y x db db')) (case t of Inl y \<Rightarrow> f y | Inr y \<Rightarrow> g y)"
  by (cases t) simp_all

lemma ok_reply_errors [simp]: "ok_reply (app_error m c) = None" "ok_reply (plain_error err) = None" "ok_reply (HandleAppError ge) = None"
proof -
  show h: "ok_reply (HandleAppError ge) = None" for ge by (cases ge) simp_all
  show "ok_reply (app_error m c) = None" "ok_reply (plain_error err) = None"
    by (simp_all add: app_error_def plain_error_def h)
qed

lemma ok_success_errors [simp]:
  "ok_success (app_error m c) = None" "ok_success (plain_error err) = None" "ok_success (HandleAppError ge) = None" "ok_success (WriteJSONError m c) = None"
proof -
  show h: "ok_success (HandleAppError ge) = None" for ge by (cases ge) (simp_all add: ok_success_def)
  show "ok_success (app_error m c) = None" "ok_success (plain_error err) = None" "ok_success (WriteJSONError m c) = None"
    by (simp_all add: app_error_def plain_error_def ok_success_def WriteJSONError_def)
qed

lemma does_success [does]:
  "does_rel vw ok_success now (\<lambda>_ db db'. db' = db) (ret (WriteJSONResponse c b))" "does_rel vw ok_success now (\<lambda>_ db db'. db' = db) (ret (StatusOnly c))"
  "does_rel vw ok_success now (\<lambda>_ _ _. False) (ret (app_error m c))" "does_rel vw ok_success now (\<lambda>_ _ _. False) (ret (HandleAppError ge))"
  "never_ok ok_success (ret (app_error m c))" "never_ok ok_success (ret (plain_error err))" "never_ok ok_success (ret (HandleAppError ge))"
proof -
  have e: "ok_success (app_error m c) \<noteq> Some x" "ok_success (HandleAppError ge) \<noteq> Some x" for x :: unit by simp_all
  show "does_rel vw ok_success now (\<lambda>_ db db'. db' = db) (ret (WriteJSONResponse c b))" "does_rel vw ok_success now (\<lambda>_ db db'. db' = db) (ret (StatusOnly c))"
    "does_rel vw ok_success now (\<lambda>_ _ _. False) (ret (app_error m c))" "does_rel vw ok_success now (\<lambda>_ _ _. False) (ret (HandleAppError ge))"
    by (rule does_relI; use e in force)+
  show "never_ok ok_success (ret (app_error m c))" "never_ok ok_success (ret (plain_error err))" "never_ok ok_success (ret (HandleAppError ge))"
    by (simp_all add: never_ok_def)
qed

lemma never_ok_intros [does]:
  "never_ok ok_sum (ret (Inl x))" "never_ok ok_body (ret (i, Inl x))" "never_ok ok_body (reject x)" "never_ok ok_reply (ret (app_error m c))"
  "never_ok ok_reply (ret (plain_error err))" "never_ok ok_reply (ret (HandleAppError ge))" "(\<And>x. never_ok ok (k x)) \<Longrightarrow> never_ok ok (State_Monad.bind n k)"
  by (simp_all add: never_ok_def reject_def split: prod.splits)

lemma does_error [does]:
  "does_rel vw ok_sum now (\<lambda>_ _ _. False) (ret (Inl y))" "does_rel vw ok_body now (\<lambda>_ _ _. False) (reject z)"
  "does_rel vw ok_reply now (\<lambda>_ _ _. False) (ret (app_error m c))" "does_rel vw ok_reply now (\<lambda>_ _ _. False) (ret (plain_error err))"
  "does_rel vw ok_reply now (\<lambda>_ _ _. False) (ret (HandleAppError ge))"
  unfolding reject_def by (rule does_relI; force)+

lemma lefts_check [does]:
  assumes "\<And>err. lefts_bad lf ok (h err)" "\<And>x. lefts_bad lf ok (k x)"
  shows "lefts_bad lf ok (check_err m h k)"
  unfolding lefts_bad_def
proof (intro allI)
  fix w x
  obtain s u where m: "run_state m w = (s, u)" by (metis surj_pair)
  then show "lf (fst (run_state (check_err m h k) w)) = Some x \<longrightarrow> ok x = None"
    using assms by (cases s) (simp_all add: run_check_err lefts_bad_def)
qed

lemma lefts_pass:
  assumes "lefts_bad left_sum ok m" "\<And>x. lefts_bad left_body ok (k x)"
  shows "lefts_bad left_body ok (check_err m (\<lambda>x. ret (i, Inl x)) k)"
  unfolding lefts_bad_def
proof (intro allI)
  fix w x
  obtain s u where m: "run_state m w = (s, u)" by (metis surj_pair)
  then show "left_body (fst (run_state (check_err m (\<lambda>x. ret (i, Inl x)) k) w)) = Some x \<longrightarrow> ok x = None"
    using assms(2) assms(1)[unfolded lefts_bad_def, rule_format, of w x] by (cases s) (simp_all add: run_check_err lefts_bad_def)
qed

lemma lefts_intros [does]:
  "lefts_bad left_sum ok (ret (Inr a))" "lefts_bad left_body ok (ret (i, Inr a))" "lefts_bad left_body ok (accept a)"
  "ok x = None \<Longrightarrow> lefts_bad left_sum ok (ret (Inl x))" "ok x = None \<Longrightarrow> lefts_bad left_body ok (ret (i, Inl x))"
  "ok x = None \<Longrightarrow> lefts_bad left_body ok (reject x)" "(\<And>y. lefts_bad lf ok (k y)) \<Longrightarrow> lefts_bad lf ok (State_Monad.bind n k)"
  by (simp_all add: lefts_bad_def accept_def reject_def split: prod.splits)

lemma lefts_cases [does]:
  "lefts_bad lf ok a \<Longrightarrow> lefts_bad lf ok b \<Longrightarrow> lefts_bad lf ok (if t then a else b)"
  "lefts_bad lf ok a \<Longrightarrow> (\<And>x. lefts_bad lf ok (f x)) \<Longrightarrow> lefts_bad lf ok (case opt of None \<Rightarrow> a | Some x \<Rightarrow> f x)"
  "(\<And>x. lefts_bad lf ok (g x)) \<Longrightarrow> (\<And>x. lefts_bad lf ok (h x)) \<Longrightarrow> lefts_bad lf ok (case r of Inl x \<Rightarrow> g x | Inr x \<Rightarrow> h x)"
  "(\<And>x y. lefts_bad lf ok (d x y)) \<Longrightarrow> lefts_bad lf ok (case p of (x, y) \<Rightarrow> d x y)"
  by (simp_all split: option.splits sum.splits prod.splits)

lemma lefts_with_tx [does]:
  assumes "lefts_bad left_body ok body" "\<And>err. ok (bf err) = None" "\<And>err. ok (cf err) = None"
  shows "lefts_bad left_sum ok (with_tx e bf cf body)"
  unfolding lefts_bad_def
proof (intro allI impI)
  fix w x assume l: "left_sum (fst (run_state (with_tx e bf cf body) w)) = Some x"
  obtain b u where b: "run_state (BeginTx e) w = (b, u)" by (metis surj_pair)
  obtain i res u' where body: "run_state body u = ((i, res), u')" by (metis surj_pair)
  obtain c u'' where c: "run_state (Commit e) u' = (c, u'')" by (metis surj_pair)
  show "ok x = None"
    using l b body c assms(1)[unfolded lefts_bad_def, rule_format, of u x] assms(2,3)
    by (cases b; cases res; cases c) (auto simp: with_tx_def run_check_err abandon_def split: prod.splits)
qed

lemma does_mono: "does_rel vw ok now R m \<Longrightarrow> (\<And>x db db'. R x db db' \<Longrightarrow> T x db db') \<Longrightarrow> does_rel vw ok now T m"
  unfolding does_rel_def by blast

lemma does_with_tx [does]:
  assumes "\<And>w. keeps_db body" "tx_does ok_body now R body"
  shows "db_does ok_sum now R (with_tx e bf cf body)"
proof (rule does_relI)
  fix w r v a assume now: "w_now w = now" and run: "run_state (with_tx e bf cf body) w = (r, v)" and ok: "ok_sum r = Some a"
  then have run': "run_state (with_tx e bf cf body) w = (Inr a, v)" by (cases r) auto
  from run' obtain u i u' where b: "run_state body u = ((i, Inr a), u')" "w_tx u = Open (w_db w)" "w_now u = w_now w"
      "w_tx u' = Open (w_db v)" "w_now v = w_now u'"
    by (rule with_tx_committed)
  have "w_now v = now" using keeps_dbD(2)[OF assms(1) b(1)] b now by simp
  moreover have "R a (w_db w) (w_db v)"
    using does_relD(1)[OF assms(2) b(1), of a "w_db v"] b now by (auto simp: tx_view_def)
  ultimately show "w_now v = now \<and> (\<forall>db'. db_view v = Some db' \<longrightarrow> (\<exists>db. db_view w = Some db \<and> R a db db'))"
    by (simp add: db_view_def)
qed

section \<open>Clients of a transactional handler\<close>

primrec serve_all :: "('i \<Rightarrow> ('j, 'h, 'b response) gc) \<Rightarrow> 'i list \<Rightarrow> ('j, 'h) gc_world \<Rightarrow> 'b response list \<times> ('j, 'h) gc_world" where
  \<comment> \<open>the requests one after the other\<close>
  "serve_all handler [] w = ([], w)"
| "serve_all handler (i # reqs) w =
     (let (r, w') = run_state (handler i) w; (rs, w'') = serve_all handler reqs w' in (r # rs, w''))"

lemma serve_all_Cons:
  assumes "serve_all handler (i # reqs) w = (rs, w')"
  obtains r w1 rs' where "run_state (handler i) w = (r, w1)" "serve_all handler reqs w1 = (rs', w')" "rs = r # rs'"
  using assms by (auto simp: Let_def split: prod.splits)

locale transactional =
  fixes handler :: "'i \<Rightarrow> ('j, 'h, 'b response) gc"
  assumes handler_atomic: "atomic (handler i)"
    and handler_closes: "closes_tx (handler i)"
begin

lemma rejected: "serve_all handler reqs w = (rs, w') \<Longrightarrow> \<forall>r\<in>set rs. \<not> success r \<Longrightarrow> w_db w' = w_db w"
proof (induction reqs arbitrary: w rs)
  case (Cons i reqs)
  from Cons.prems(1) obtain r w1 rs' where s: "run_state (handler i) w = (r, w1)" "serve_all handler reqs w1 = (rs', w')" "rs = r # rs'"
    by (rule serve_all_Cons)
  then have "w_db w1 = w_db w" using handler_atomic[of i, unfolded atomic_def, rule_format, of w] Cons.prems(2) by simp
  then show ?case using Cons.IH[OF s(2)] Cons.prems(2) s(3) by simp
qed simp

lemma closed: "serve_all handler reqs w = (rs, w') \<Longrightarrow> w_tx w = NoTx \<Longrightarrow> w_tx w' = NoTx"
proof (induction reqs arbitrary: w rs)
  case (Cons i reqs)
  from Cons.prems(1) obtain r w1 rs' where s: "run_state (handler i) w = (r, w1)" "serve_all handler reqs w1 = (rs', w')"
    by (rule serve_all_Cons)
  then have "w_tx w1 = NoTx" using handler_closes[of i, unfolded closes_tx_def, rule_format, of w] Cons.prems(2) by simp
  then show ?case using Cons.IH[OF s(2)] by simp
qed simp

end

end
