(* ===== verification/GC_Satellites.thy ===== *)
theory GC_Satellites
  imports GC_Tx GC_Spiffe Config_Model
begin

text \<open>
  \<^verbatim>\<open>server/satellite_handlers.go\<close> and \<^verbatim>\<open>server/cleanup.go\<close>: registration of satellites, the two zero-touch
  flows, status reports, group membership, deletion, and the clean-up of old reports. The path
  variables of a route and the decoded body (\<open>None\<close> when decoding fails) are arguments; a body without content is
  represented by the unit or by the list of its entries.
\<close>

section \<open>Requests\<close>

record satellite_group_params =
  sgp_Satellite :: string
  sgp_Group :: string

record register_params =
  rs_Name :: string
  rs_Groups :: "string list option"
  rs_ConfigName :: string

record cached_image =
  ci_Reference :: string
  ci_SizeBytes :: int

record status_params =
  sp_Name :: string
  sp_Activity :: string
  sp_StateReportInterval :: string
  sp_LatestStateDigest :: string
  sp_LatestConfigDigest :: string
  sp_MemoryUsedBytes :: int
  sp_StorageUsedBytes :: int
  sp_CPUPercent :: string \<comment> \<open>the text of the number under \<^verbatim>\<open>%.2f\<close>\<close>
  sp_RequestCreatedTime :: int
  sp_LastSyncDurationMs :: int
  sp_ImageCount :: int
  sp_CachedImages :: "cached_image list"

definition to_int64 :: "int \<Rightarrow> int" where
  "to_int64 n = (n + 2 ^ 63) mod 2 ^ 64 - 2 ^ 63"

definition to_int32 :: "int \<Rightarrow> int" where
  "to_int32 n = (n + 2 ^ 31) mod 2 ^ 32 - 2 ^ 31"

definition invalid_name :: "string \<Rightarrow> 'b response" where
  "invalid_name kind = app_error (''Invalid '' @ kind @ '' name: must be 1-255 chars, start with letter/number, and contain only lowercase letters, numbers, and ._-'') 400"

definition robot_expiry :: "int \<Rightarrow> int option" where
  "robot_expiry t = (if 0 < t then Some (t * second) else None)"

section \<open>Registration\<close>

definition register_robot ::
  "('j, 'h) gc_env \<Rightarrow> register_params \<Rightarrow> satellite_row \<Rightarrow> string list \<Rightarrow> robot_created \<Rightarrow> ('j, 'h, string response + string) gc" where
  \<comment> \<open>the registration once the robot account exists in Harbor\<close>
  "register_robot e req satellite groupStates rbt =
     check_err (hashRobotCredentials e (crt_Secret rbt)) (\<lambda>_. ret (Inl (app_error ''Error: failed to hash robot credentials'' 500))) (\<lambda>secretHash.
     check_err (storeRobotAccountInDB e (crt_Name rbt) secretHash (show_int (crt_ID rbt)) (sat_ID satellite) (robot_expiry (crt_ExpiresAt rbt)))
       (\<lambda>err. ret (Inl (HandleAppError err))) (\<lambda>_.
     check_err (assignPermissionsToRobot e (rs_Groups req) (crt_ID rbt)) (\<lambda>err. ret (Inl (HandleAppError err))) (\<lambda>_.
     check_err (tx_call e (GetConfigByName (rs_ConfigName req))) (\<lambda>err. ret (Inl (plain_error err))) (\<lambda>config.
     check_err (tx_call e (SetSatelliteConfig (sat_ID satellite) (cfr_ID config))) (\<lambda>err. ret (Inl (plain_error err))) (\<lambda>_.
     check_err (CreateOrUpdateSatStateArtifact e (rs_Name req) groupStates (rs_ConfigName req)) (\<lambda>err. ret (Inl (plain_error err))) (\<lambda>_.
     check_err (GenerateRandomToken e 32) (\<lambda>err. ret (Inl (plain_error err))) (\<lambda>token. do {
       now \<leftarrow> gets w_now;
       check_err (tx_call e (AddToken now (sat_ID satellite) token (now + day))) (\<lambda>err. ret (Inl (plain_error err))) (\<lambda>tk. ret (Inr tk))
     })))))))"

definition register_body :: "('j, 'h) gc_env \<Rightarrow> register_params \<Rightarrow> ('j, 'h, int \<times> (string response + satellite_row \<times> string)) gc" where
  "register_body e req = do {
     now \<leftarrow> gets w_now;
     check_err (tx_call e (CreateSatellite now (rs_Name req))) (\<lambda>_. reject (app_error ''Error: failed to create satellite'' 400)) (\<lambda>satellite.
     check_err (addSatelliteToGroups e (rs_Groups req) (sat_ID satellite)) (\<lambda>err. reject (HandleAppError err)) (\<lambda>groupStates.
     check_err (ensureSatelliteProjectExists e) (\<lambda>err. reject (HandleAppError err)) (\<lambda>_.
     check_err (CreateRobotAccForSatellite e [''satellite''] (sat_Name satellite))
       (\<lambda>_. reject (app_error ''Error: failed to create robot account'' 400)) (\<lambda>rbt.
     check_err (register_robot e req satellite groupStates rbt) (\<lambda>x. ret (crt_ID rbt, Inl x)) (\<lambda>tk.
     ret (crt_ID rbt, Inr (satellite, tk)))))))
   }"

definition json_groups :: "string list option \<Rightarrow> json" where
  "json_groups groups = (case groups of None \<Rightarrow> JNull | Some gs \<Rightarrow> JArr (map JStr gs))"

definition registerSatelliteHandler ::
  "('j, 'h) gc_env \<Rightarrow> http_request \<Rightarrow> register_params option \<Rightarrow> ('j, 'h, string response) gc" where
  "registerSatelliteHandler e r body =
     (if srv_spiffe (ge_server e)
      then ret (app_error ''satellite registration via this endpoint is disabled when SPIFFE is enabled. Use POST /api/satellites/register instead'' 400)
      else case DecodeRequestBody body of
        Inl err \<Rightarrow> ret (HandleAppError err)
      | Inr req \<Rightarrow>
          if \<not> IsValidName (rs_Name req) then ret (invalid_name ''satellite'')
          else if \<not> IsValidName (rs_ConfigName req) then ret (app_error ''invalid or empty config_name'' 400)
          else check_err (IsRobotPresent e (rs_Name req))
            (\<lambda>err. ret (app_error (''Error querying for robot account: '' @ err) 400)) (\<lambda>roboPresent.
          if roboPresent then ret (app_error ''Error: Robot Account name already present. Try with different name'' 400)
          else respond (with_tx e plain_error commit_error (register_body e req)) (\<lambda>(satellite, tk). do {
            auditEvent e r ((event ''register'' ''satellite'' ''success'' (actorFromContext r) ''user'')
              \<lparr>ev_SatelliteID := sat_Name satellite,
               ev_Details := [(''config_name'', JStr (rs_ConfigName req)), (''groups'', json_groups (rs_Groups req)), (''flow'', JStr ''token'')]\<rparr>);
            ret (WriteJSONResponse 200 tk)
          })))"

section \<open>Robot accounts and configurations of satellites\<close>

definition placeholder_secret :: string where "placeholder_secret = ''spiffe-auto-registered-placeholder-secret''"

definition robot_for_satellite ::
  "('j, 'h) gc_env \<Rightarrow> satellite_row \<Rightarrow> ('j, 'h, (int \<times> string \<times> string \<times> int option) result) gc" where
  \<comment> \<open>the account in Harbor, or the placeholder: id, name, secret and expiry\<close>
  "robot_for_satellite e satellite =
     (if \<not> he_SkipHealthCheck (srv_Harbor (ge_server e))
      then check_err (ensureSatelliteProjectExists e) (\<lambda>_. ret (Inl ''ensure satellite project'')) (\<lambda>_.
           check_err (CreateRobotAccForSatellite e [''satellite''] (sat_Name satellite)) (\<lambda>err. ret (Inl (''create robot account: '' @ err))) (\<lambda>rbt.
           ret (Inr (crt_ID rbt, crt_Name rbt, crt_Secret rbt, robot_expiry (crt_ExpiresAt rbt)))))
      else ret (Inr (0, ''robot$satellite-'' @ sat_Name satellite, placeholder_secret, None)))"

definition ensureSatelliteRobotAccount ::
  "('j, 'h) gc_env \<Rightarrow> bool \<Rightarrow> satellite_row \<Rightarrow> ('j, 'h, int \<times> (robot_row \<times> string) result) gc" where
  \<comment> \<open>the id in Harbor is returned with an error too, but only when storing the account failed\<close>
  "ensureSatelliteRobotAccount e tx satellite =
     check_err (robot_for_satellite e satellite) (\<lambda>err. ret (0, Inl err)) (\<lambda>(harborRobotID, robotName, robotSecret, expiry).
     check_err (hashRobotCredentials e robotSecret) (\<lambda>err. ret (0, Inl (''hash robot credentials: '' @ err))) (\<lambda>secretHash. do {
       now \<leftarrow> gets w_now;
       check_err (q_call e tx (AddRobotAccount now robotName secretHash (show_int harborRobotID) (sat_ID satellite) expiry))
         (\<lambda>err. ret (harborRobotID, Inl (''store robot account: '' @ err))) (\<lambda>robot. ret (harborRobotID, Inr (robot, robotSecret)))
     }))"

definition refreshRobotSecret :: "('j, 'h) gc_env \<Rightarrow> bool \<Rightarrow> robot_row \<Rightarrow> ('j, 'h, string result) gc" where
  "refreshRobotSecret e tx robot =
     (if he_SkipHealthCheck (srv_Harbor (ge_server e)) then ret (Inr placeholder_secret)
      else case ParseInt64 (rob_RobotID robot) of
        Inl err \<Rightarrow> ret (Inl (''parse robot ID: '' @ err))
      | Inr harborRobotID \<Rightarrow>
          check_err (RefreshRobotAccount e [] harborRobotID) (\<lambda>err. ret (Inl (''refresh robot secret in Harbor: '' @ err))) (\<lambda>payload.
          case payload of
            None \<Rightarrow> ret (Inl (''harbor returned nil payload for robot '' @ rob_Name robot))
          | Some newSecret \<Rightarrow>
              if newSecret = [] then ret (Inl (''harbor returned empty secret for robot '' @ rob_Name robot))
              else check_err (hashRobotCredentials e newSecret) (\<lambda>err. ret (Inl (''hash refreshed secret: '' @ err))) (\<lambda>newHash.
              check_err (harbor_GetRobotAccount e harborRobotID) (\<lambda>err. ret (Inl (''fetch updated robot details: '' @ err))) (\<lambda>robotDetails. do {
                now \<leftarrow> gets w_now;
                check_err (q_call e tx (UpdateRobotAccount now (rob_ID robot) (rob_Name robot) newHash (rob_RobotID robot)
                    (robot_expiry (hr_ExpiresAt robotDetails))))
                  (\<lambda>err. ret (Inl (''update robot hash in DB: '' @ err))) (\<lambda>_. ret (Inr newSecret))
              }))))"

definition defaultConfigJSON :: json where
  "defaultConfigJSON = JObj [
     (''app_config'', JObj [
        (''log_level'', JStr ''info''),
        (''state_replication_interval'', JStr ''@every 00h00m30s''),
        (''register_satellite_interval'', JStr ''@every 00h00m05s''),
        (''heartbeat_interval'', JStr ''@every 00h00m30s''),
        (''local_registry'', JObj [(''url'', JStr ''http://127.0.0.1:8585'')])]),
     (''zot_config'', JObj [
        (''distSpecVersion'', JStr ''1.1.0''),
        (''storage'', JObj [(''rootDirectory'', JStr ''./zot'')]),
        (''http'', JObj [(''address'', JStr ''0.0.0.0''), (''port'', JStr ''8585'')]),
        (''log'', JObj [(''level'', JStr ''info'')])])]"

definition default_config :: "(json, 'h) gc_env \<Rightarrow> bool \<Rightarrow> (json, 'h, json config_row result) gc" where
  \<comment> \<open>the configuration \<^verbatim>\<open>default\<close>, created when it is not found; a failing push is only logged\<close>
  "default_config e tx =
     check_err (q_call e tx (GetConfigByName ''default''))
       (\<lambda>_. do {
          now \<leftarrow> gets w_now;
          check_err (q_call e tx (CreateConfig now ''default'' (he_URL (srv_Harbor (ge_server e))) defaultConfigJSON))
            (\<lambda>err. ret (Inl (''create default config: '' @ err))) (\<lambda>c. do {
              _ \<leftarrow> CreateAndPushConfigStateArtifact e defaultConfigJSON ''default'';
              ret (Inr c)
            })
        })
       (\<lambda>c. ret (Inr c))"

definition ensureSatelliteConfig :: "(json, 'h) gc_env \<Rightarrow> bool \<Rightarrow> satellite_row \<Rightarrow> (json, 'h, unit result) gc" where
  "ensureSatelliteConfig e tx satellite =
     check_err (fetchSatelliteConfig e tx (sat_ID satellite))
       (\<lambda>_. check_err (default_config e tx) (\<lambda>err. ret (Inl err)) (\<lambda>defaultConfig.
            check_err (q_call e tx (SetSatelliteConfig (sat_ID satellite) (cfr_ID defaultConfig)))
              (\<lambda>err. ret (Inl (''link satellite to config: '' @ err))) (\<lambda>_. ret (Inr ()))))
       (\<lambda>_. ret (Inr ()))"

definition auto_register_body :: "(json, 'h) gc_env \<Rightarrow> string \<Rightarrow> (json, 'h, int \<times> satellite_row result) gc" where
  "auto_register_body e name = do {
     now \<leftarrow> gets w_now;
     check_err (tx_call e (CreateSatellite now name)) (\<lambda>err. reject (''create satellite: '' @ err)) (\<lambda>satellite. do {
       (harborRobotID, res) \<leftarrow> ensureSatelliteRobotAccount e True satellite;
       case res of
         Inl err \<Rightarrow> ret (harborRobotID, Inl err)
       | Inr _ \<Rightarrow>
           check_err (ensureSatelliteConfig e True satellite) (\<lambda>err. ret (harborRobotID, Inl err)) (\<lambda>_. ret (harborRobotID, Inr satellite))
     })
   }"

definition autoRegisterSatellite :: "(json, 'h) gc_env \<Rightarrow> string \<Rightarrow> (json, 'h, satellite_row result) gc" where
  "autoRegisterSatellite e name =
     with_tx e (\<lambda>err. ''begin transaction: '' @ err) (\<lambda>err. ''commit transaction: '' @ err) (auto_register_body e name)"

section \<open>Zero-touch registration\<close>

definition state_result :: "string \<Rightarrow> string \<Rightarrow> string \<Rightarrow> string \<Rightarrow> state_config" where
  "state_result stateURL username password url =
     \<lparr>sc_RegistryCredentials = \<lparr>rc_URL = url, rc_Username = username, rc_Password = password\<rparr>, sc_StateURL = stateURL\<rparr>"

definition ztr_failure :: "string \<Rightarrow> (string \<times> json) list \<Rightarrow> audit_event" where
  "ztr_failure reason details = (event ''auth'' ''satellite'' ''failure'' [] ''anonymous'')\<lparr>ev_Reason := reason, ev_Details := details\<rparr>"

definition registered_event :: "satellite_row \<Rightarrow> string \<Rightarrow> audit_event" where
  "registered_event satellite flow = (event ''register'' ''satellite'' ''success'' (sat_Name satellite) ''satellite'')
     \<lparr>ev_SatelliteID := sat_Name satellite, ev_Details := [(''flow'', JStr flow)]\<rparr>"

definition satellite_states :: "('j, 'h) gc_env \<Rightarrow> int \<Rightarrow> ('j, 'h, state_config response + string list) gc" where
  \<comment> \<open>the state artifacts of the groups of a satellite, in both flows\<close>
  "satellite_states e satelliteID =
     check_err (db_call e (SatelliteGroupList satelliteID)) (\<lambda>_. ret (Inl (app_error ''Error: Satellite Groups List Failed'' 500))) (\<lambda>groups.
     check_err (getGroupStates e False groups) (\<lambda>_. ret (Inl (app_error ''Error: Get Group By ID Failed'' 500))) (\<lambda>states. ret (Inr states)))"

definition ztr_finish ::
  "('j, 'h) gc_env \<Rightarrow> http_request \<Rightarrow> string \<Rightarrow> int \<Rightarrow> robot_row \<Rightarrow> string \<Rightarrow> ('j, 'h, state_config response) gc" where
  \<comment> \<open>\<^verbatim>\<open>ztrHandler\<close> once the secret of the robot is refreshed\<close>
  "ztr_finish e r token satelliteID robot freshSecret =
     respond (satellite_states e satelliteID) (\<lambda>states.
     check_err (db_call e (GetSatellite satelliteID)) (\<lambda>_. ret (app_error ''satellite not found'' 404)) (\<lambda>satellite.
     check_err (fetchSatelliteConfig e False satelliteID) (\<lambda>err. ret (HandleAppError err)) (\<lambda>configObject.
     check_err (CreateOrUpdateSatStateArtifact e (sat_Name satellite) states (cfr_Name configObject)) (\<lambda>err. ret (plain_error err)) (\<lambda>_.
     check_err (db_call e (DeleteToken token)) (\<lambda>_. ret (app_error ''Error: Error deleting token'' 500)) (\<lambda>_. do {
       auditEvent e r (registered_event satellite ''ztr'');
       ret (WriteJSONResponse 200 (state_result (AssembleSatelliteState (ge_server e) (sat_Name satellite))
         (rob_Name robot) freshSecret (he_URL (srv_Harbor (ge_server e)))))
     })))))"

definition ztrHandler :: "('j, 'h) gc_env \<Rightarrow> http_request \<Rightarrow> string \<Rightarrow> ('j, 'h, state_config response) gc" where
  "ztrHandler e r token =
     check_err (db_call e (GetTokenByValue token))
       (\<lambda>_. do {
          auditEvent e r (ztr_failure ''invalid_token'' [(''masked_token'', JStr (maskToken token))]);
          ret (app_error ''Error: Invalid Token'' 400)
        })
       (\<lambda>tokenInfo. do {
          now \<leftarrow> gets w_now;
          if tok_ExpiresAt tokenInfo < now
          then do {
            auditEvent e r (ztr_failure ''token_expired'' [(''masked_token'', JStr (maskToken token)),
              (''expired_at'', JStr (ge_rfc3339 e (tok_ExpiresAt tokenInfo)))]);
            ret (app_error ''Error: Token Expired'' 401)
          }
          else check_err (db_call e (GetRobotAccBySatelliteID (tok_SatelliteID tokenInfo)))
            (\<lambda>_. ret (app_error ''Error: Robot Account Not Found for Satellite'' 500)) (\<lambda>robot.
          check_err (refreshRobotSecret e False robot)
            (\<lambda>_. ret (app_error ''Error: failed to refresh robot secret'' 500)) (\<lambda>freshSecret.
          ztr_finish e r token (tok_SatelliteID tokenInfo) robot freshSecret))
        })"

definition spiffe_name ::
  "('j, 'h) gc_env \<Rightarrow> http_request \<Rightarrow> spiffe_id option \<Rightarrow> ('j, 'h, state_config response + string) gc" where
  \<comment> \<open>the satellite that the request context names, or the SPIFFE ID in it\<close>
  "spiffe_name e r spiffeID =
     (case rq_satellite r of
        Some name \<Rightarrow> ret (Inr name)
      | None \<Rightarrow>
          (case spiffeID of
             None \<Rightarrow> do {
               auditEvent e r (ztr_failure ''missing_spiffe_identity'' [(''flow'', JStr ''spiffe_ztr'')]);
               ret (Inl (app_error ''Error: SPIFFE authentication required'' 401))
             }
           | Some i \<Rightarrow>
               (case ExtractSatelliteNameFromSPIFFEID i of
                  Inl _ \<Rightarrow> do {
                    auditEvent e r ((ztr_failure ''invalid_spiffe_id'' [(''flow'', JStr ''spiffe_ztr'')])\<lparr>ev_Actor := spiffe_String i\<rparr>);
                    ret (Inl (app_error ''Error: Invalid SPIFFE ID format for satellite'' 400))
                  }
                | Inr name \<Rightarrow> ret (Inr name))))"

definition spiffe_credentials ::
  "(json, 'h) gc_env \<Rightarrow> satellite_row \<Rightarrow> (json, 'h, state_config response + robot_row \<times> string) gc" where
  \<comment> \<open>the robot account and a fresh secret of it\<close>
  "spiffe_credentials e satellite =
     check_err (db_call e (GetRobotAccBySatelliteID (sat_ID satellite)))
       (\<lambda>_. do {
          (harborRobotID, res) \<leftarrow> ensureSatelliteRobotAccount e False satellite;
          case res of
            Inl _ \<Rightarrow> ret (Inl (app_error ''Error: failed to create robot account'' 500))
          | Inr (robot, initialSecret) \<Rightarrow>
              check_err (ensureSatelliteConfig e False satellite)
                (\<lambda>_. do {
                   _ \<leftarrow> cleanup_robot e harborRobotID;
                   ret (Inl (app_error ''Error: failed to ensure satellite config'' 500))
                 })
                (\<lambda>_. ret (Inr (robot, initialSecret)))
        })
       (\<lambda>robot. check_err (refreshRobotSecret e False robot)
          (\<lambda>_. ret (Inl (app_error ''Error: failed to refresh robot secret'' 500))) (\<lambda>freshSecret. ret (Inr (robot, freshSecret))))"

definition spiffe_state_url ::
  "('j, 'h) gc_env \<Rightarrow> satellite_row \<Rightarrow> string list \<Rightarrow> ('j, 'h, state_config response + string) gc" where
  "spiffe_state_url e satellite states =
     (if \<not> he_SkipHealthCheck (srv_Harbor (ge_server e))
      then check_err (fetchSatelliteConfig e False (sat_ID satellite)) (\<lambda>err. ret (Inl (HandleAppError err))) (\<lambda>configObject.
           check_err (CreateOrUpdateSatStateArtifact e (sat_Name satellite) states (cfr_Name configObject)) (\<lambda>err. ret (Inl (plain_error err))) (\<lambda>_.
           ret (Inr (AssembleSatelliteState (ge_server e) (sat_Name satellite)))))
      else ret (Inr (''placeholder://spiffe-testing/'' @ sat_Name satellite)))"

definition spiffeZtrHandler ::
  "(json, 'h) gc_env \<Rightarrow> http_request \<Rightarrow> spiffe_id option \<Rightarrow> (json, 'h, state_config response) gc" where
  "spiffeZtrHandler e r spiffeID =
     respond (spiffe_name e r spiffeID) (\<lambda>satelliteName.
     respond (check_err (db_call e (GetSatelliteByName satelliteName))
       (\<lambda>_. check_err (autoRegisterSatellite e satelliteName)
          (\<lambda>_. ret (Inl (app_error ''Error: failed to auto-register satellite'' 500))) (\<lambda>satellite. ret (Inr satellite)))
       (\<lambda>satellite. ret (Inr satellite))) (\<lambda>satellite.
     respond (spiffe_credentials e satellite) (\<lambda>(robot, freshSecret).
     respond (satellite_states e (sat_ID satellite)) (\<lambda>states.
     respond (spiffe_state_url e satellite states) (\<lambda>satelliteState. do {
       let url = he_URL (srv_Harbor (ge_server e));
       auditEvent e r (registered_event satellite ''spiffe_ztr'');
       ret (WriteJSONResponse 200 (state_result satelliteState (rob_Name robot) freshSecret
         (if url = [] then ''http://placeholder-registry:5000'' else url)))
     })))))"

section \<open>Status reports\<close>

definition listSatelliteHandler :: "('j, 'h) gc_env \<Rightarrow> ('j, 'h, satellite_row list response) gc" where
  "listSatelliteHandler e =
     check_err (db_call e ListSatellites) (\<lambda>_. ret (app_error ''Error: Failed to List Satellites'' 500)) (\<lambda>result. ret (WriteJSONResponse 200 result))"

definition save_artifacts :: "('j, 'h) gc_env \<Rightarrow> cached_image list \<Rightarrow> ('j, 'h, unit response + int list option) gc" where
  \<comment> \<open>the ids of the reported images; a nil slice when there are none\<close>
  "save_artifacts e images =
     (if images = [] then ret (Inr None)
      else do {
        now \<leftarrow> gets w_now;
        check_err (db_call e (BatchInsertArtifacts now (map ci_Reference images) (map ci_SizeBytes images)))
          (\<lambda>_. ret (Inl (app_error ''failed to save artifacts'' 500))) (\<lambda>_.
        check_err (db_call e (GetArtifactIDsByReferences (map ci_Reference images)))
          (\<lambda>_. ret (Inl (app_error ''failed to resolve artifact IDs'' 500))) (\<lambda>artifacts. ret (Inr (Some (map art_ID artifacts)))))
      })"

definition status_of_report :: "satellite_row \<Rightarrow> status_params \<Rightarrow> int list option \<Rightarrow> status_row" where
  \<comment> \<open>the parameters of the insertion; id and creation time are set by the database\<close>
  "status_of_report sat req artifactIDs =
     \<lparr>st_ID = 0, st_SatelliteID = sat_ID sat, st_Activity = sp_Activity req,
      st_LatestStateDigest = toNullString (sp_LatestStateDigest req), st_LatestConfigDigest = toNullString (sp_LatestConfigDigest req),
      st_CpuPercent = toNullString (sp_CPUPercent req),
      st_MemoryUsedBytes = Some (to_int64 (sp_MemoryUsedBytes req)), st_StorageUsedBytes = Some (to_int64 (sp_StorageUsedBytes req)),
      st_LastSyncDurationMs = Some (sp_LastSyncDurationMs req), st_ImageCount = Some (to_int32 (sp_ImageCount req)),
      st_ReportedAt = sp_RequestCreatedTime req, st_CreatedAt = 0, st_ArtifactIds = artifactIDs\<rparr>"

definition syncHandler :: "('j, 'h) gc_env \<Rightarrow> http_request \<Rightarrow> status_params option \<Rightarrow> ('j, 'h, unit response) gc" where
  "syncHandler e r body =
     (case DecodeRequestBody body of
        Inl err \<Rightarrow> ret (HandleAppError err)
      | Inr req \<Rightarrow>
          (let satelliteName = (case rq_satellite r of Some name \<Rightarrow> name | None \<Rightarrow> sp_Name req) in
           check_err (db_call e (GetSatelliteByName satelliteName)) (\<lambda>_. ret (app_error ''unknown satellite entity'' 403)) (\<lambda>sat.
           case normalizeHeartbeatInterval (sp_StateReportInterval req) of
             Inl _ \<Rightarrow> ret (app_error ''invalid heartbeat interval format'' 400)
           | Inr normalizedInterval \<Rightarrow>
               respond (save_artifacts e (sp_CachedImages req)) (\<lambda>artifactIDs. do {
                 now \<leftarrow> gets w_now;
                 check_err (db_call e (InsertSatelliteStatus now (status_of_report sat req artifactIDs)))
                   (\<lambda>_. ret (app_error ''failed to save status'' 500)) (\<lambda>_.
                 check_err (db_call e (UpdateSatelliteLastSeen now (sat_ID sat) (toNullString normalizedInterval)))
                   (\<lambda>_. ret (app_error ''failed to update last_seen'' 500)) (\<lambda>_. ret (StatusOnly 200)))
               }))))"

definition getSatelliteStatusHandler :: "('j, 'h) gc_env \<Rightarrow> string \<Rightarrow> ('j, 'h, status_row response) gc" where
  "getSatelliteStatusHandler e satelliteName =
     check_err (db_call e (GetSatelliteByName satelliteName)) (\<lambda>_. ret (app_error ''satellite not found'' 404)) (\<lambda>sat.
     check_err (db_call e (GetLatestSatelliteStatus (sat_ID sat))) (\<lambda>_. ret (app_error ''no status available'' 404)) (\<lambda>status.
     ret (WriteJSONResponse 200 status)))"

definition getActiveSatellitesHandler :: "('j, 'h) gc_env \<Rightarrow> ('j, 'h, (satellite_row \<times> string \<times> int option) list response) gc" where
  "getActiveSatellitesHandler e = do {
     now \<leftarrow> gets w_now;
     check_err (db_call e (GetActiveSatellites (ge_interval e) now)) (\<lambda>_. ret (app_error ''failed to get active satellites'' 500)) (\<lambda>satellites.
     ret (WriteJSONResponse 200 satellites))
   }"

definition getStaleSatellitesHandler :: "('j, 'h) gc_env \<Rightarrow> ('j, 'h, (satellite_row \<times> int) list response) gc" where
  "getStaleSatellitesHandler e = do {
     now \<leftarrow> gets w_now;
     check_err (db_call e (GetStaleSatellites (ge_interval e) now)) (\<lambda>_. ret (app_error ''failed to get stale satellites'' 500)) (\<lambda>satellites.
     ret (WriteJSONResponse 200 satellites))
   }"

definition getCachedImagesHandler :: "('j, 'h) gc_env \<Rightarrow> string \<Rightarrow> ('j, 'h, artifact_row list response) gc" where
  "getCachedImagesHandler e satelliteName =
     check_err (db_call e (GetSatelliteByName satelliteName)) (\<lambda>_. ret (app_error ''satellite not found'' 404)) (\<lambda>sat.
     check_err (db_call e (GetLatestArtifacts (sat_ID sat))) (\<lambda>_. ret (app_error ''failed to get cached images'' 500)) (\<lambda>artifacts.
     ret (WriteJSONResponse 200 artifacts)))"

definition getSatelliteByNameHandler :: "('j, 'h) gc_env \<Rightarrow> string \<Rightarrow> ('j, 'h, satellite_row response) gc" where
  "getSatelliteByNameHandler e satellite =
     check_err (db_call e (GetSatelliteByName satellite)) (\<lambda>_. ret (app_error ''Error: Failed to Get Satellite'' 500)) (\<lambda>result.
     ret (WriteJSONResponse 200 result))"

section \<open>Deletion and group membership\<close>

definition delete_failed :: "('j, 'h, int \<times> (unit response + unit)) gc" where
  "delete_failed = reject (app_error ''Error: Failed to Delete Satellite'' 500)"

definition delete_satellite_body :: "('j, 'h) gc_env \<Rightarrow> string \<Rightarrow> ('j, 'h, int \<times> (unit response + unit)) gc" where
  "delete_satellite_body e satellite =
     check_err (tx_call e (GetSatelliteByName satellite)) (\<lambda>_. reject (app_error ''Error: Satellite Not Found'' 400)) (\<lambda>sat.
     check_err (tx_call e (GetRobotAccBySatelliteID (sat_ID sat))) (\<lambda>_. delete_failed) (\<lambda>robotAcc.
     case ParseInt64 (rob_RobotID robotAcc) of
       Inl _ \<Rightarrow> delete_failed
     | Inr robotID \<Rightarrow>
         check_err (tx_call e (DeleteSatelliteByName satellite)) (\<lambda>_. delete_failed) (\<lambda>_.
         check_err (harbor_DeleteRobotAccount e robotID) (\<lambda>_. delete_failed) (\<lambda>_.
         check_err (DeleteArtifact e (ConstructHarborDeleteURL (ge_server e) (sat_Name sat) ''satellite''))
           (\<lambda>err. reject (plain_error err)) (\<lambda>_. accept ())))))"

definition deleteSatelliteByNameHandler :: "('j, 'h) gc_env \<Rightarrow> http_request \<Rightarrow> string \<Rightarrow> ('j, 'h, unit response) gc" where
  "deleteSatelliteByNameHandler e r satellite =
     respond (with_tx e begin_error commit_error (delete_satellite_body e satellite)) (\<lambda>_. do {
       auditEvent e r ((event ''deregister'' ''satellite'' ''success'' (actorFromContext r) ''user'')\<lparr>ev_SatelliteID := satellite\<rparr>);
       ret (WriteJSONResponse 200 ())
     })"

definition add_to_group_body :: "('j, 'h) gc_env \<Rightarrow> satellite_row \<Rightarrow> group_row \<Rightarrow> ('j, 'h, int \<times> (string response + unit)) gc" where
  \<comment> \<open>the groups, the configuration and the robot account are read outside the transaction\<close>
  "add_to_group_body e sat grp =
     check_err (tx_call e (AddSatelliteToGroup (sat_ID sat) (grp_ID grp))) (\<lambda>_. reject (app_error ''Error: Failed to add satellite to group'' 500)) (\<lambda>_.
     check_err (tx_call e (SatelliteGroupList (sat_ID sat))) (\<lambda>_. reject (app_error ''Error: Failed to get updated satellite group list'' 500)) (\<lambda>groupList.
     check_err (group_projects e False ([], []) groupList) (\<lambda>_. reject (app_error ''Error: Failed to get group details'' 500)) (\<lambda>(projects, groupStates).
     check_err (fetchSatelliteConfig e False (sat_ID sat)) (\<lambda>err. reject (HandleAppError err)) (\<lambda>configObject.
     check_err (db_call e (GetRobotAccBySatelliteID (sat_ID sat))) (\<lambda>_. reject (app_error ''Error: Failed to get robot account for satellite'' 500)) (\<lambda>robotAcc.
     check_err (UpdateRobotProjects e projects (rob_RobotID robotAcc)) (\<lambda>_. reject (app_error ''Error: Failed to update robot account permissions'' 500)) (\<lambda>_.
     check_err (CreateOrUpdateSatStateArtifact e (sat_Name sat) groupStates (cfr_Name configObject)) (\<lambda>err. reject (plain_error err)) (\<lambda>_.
     accept ())))))))"

definition addSatelliteToGroup :: "('j, 'h) gc_env \<Rightarrow> satellite_group_params option \<Rightarrow> ('j, 'h, string response) gc" where
  "addSatelliteToGroup e body =
     (case DecodeRequestBody body of
        Inl err \<Rightarrow> ret (HandleAppError err)
      | Inr req \<Rightarrow>
          if \<not> IsValidName (sgp_Satellite req) then ret (invalid_name ''satellite'')
          else check_err (db_call e (GetSatelliteByName (sgp_Satellite req))) (\<lambda>_. ret (app_error ''Error: Satellite Not Found'' 400)) (\<lambda>sat.
          check_err (db_call e (GetGroupByName (sgp_Group req))) (\<lambda>_. ret (app_error ''Error: Group Not Found'' 400)) (\<lambda>grp.
          check_err (db_call e (CheckSatelliteInGroup (sat_ID sat) (grp_ID grp)))
            (\<lambda>_. ret (app_error ''Error: Failed to check satellite in group'' 500)) (\<lambda>alreadyInGroup.
          if alreadyInGroup then ret (WriteJSONResponse 200 ''Satellite is already in the group'')
          else respond (with_tx e begin_error commit_error (add_to_group_body e sat grp))
            (\<lambda>_. ret (WriteJSONResponse 200 ''Satellite successfully added to group''))))))"

definition remove_from_group_body :: "('j, 'h) gc_env \<Rightarrow> string \<Rightarrow> string \<Rightarrow> ('j, 'h, int \<times> (unit response + unit)) gc" where
  "remove_from_group_body e groupName satelliteName =
     check_err (tx_call e (GetSatelliteByName satelliteName)) (\<lambda>_. reject (app_error ''Error: Satellite Not Found'' 400)) (\<lambda>sat.
     check_err (tx_call e (GetGroupByName groupName)) (\<lambda>_. reject (app_error ''Error: Group Not Found'' 400)) (\<lambda>grp.
     check_err (tx_call e (RemoveSatelliteFromGroup (sat_ID sat) (grp_ID grp))) (\<lambda>_. reject (app_error ''Error: Failed to Remove Satellite from Group'' 500)) (\<lambda>_.
     check_err (tx_call e (GetRobotAccBySatelliteID (sat_ID sat))) (\<lambda>_. reject (app_error ''Error: Failed to Add permission to robot account'' 500)) (\<lambda>robotAcc.
     check_err (tx_call e (SatelliteGroupList (sat_ID sat))) (\<lambda>_. reject (app_error ''Error: Failed to refresh satellite group list'' 500)) (\<lambda>groupList.
     check_err (group_projects e True ([], []) groupList) (\<lambda>_. reject (app_error ''Error: Failed to to refresh satellite group list'' 500)) (\<lambda>(projects, groupStates).
     check_err (UpdateRobotProjects e projects (rob_RobotID robotAcc)) (\<lambda>_. reject (app_error ''Error: Failed to update robot account permissions'' 500)) (\<lambda>_.
     check_err (fetchSatelliteConfig e True (sat_ID sat)) (\<lambda>err. reject (HandleAppError err)) (\<lambda>configObject.
     check_err (CreateOrUpdateSatStateArtifact e (sat_Name sat) groupStates (cfr_Name configObject)) (\<lambda>err. reject (plain_error err)) (\<lambda>_.
     accept ())))))))))"

definition removeSatelliteFromGroup :: "('j, 'h) gc_env \<Rightarrow> string \<Rightarrow> string \<Rightarrow> ('j, 'h, unit response) gc" where
  "removeSatelliteFromGroup e groupName satelliteName =
     respond (with_tx e begin_error commit_error (remove_from_group_body e groupName satelliteName)) (\<lambda>_. ret (WriteJSONResponse 200 ()))"

section \<open>Clean-up\<close>

definition runCleanupWithLock :: "('j, 'h) gc_env \<Rightarrow> bool result \<Rightarrow> int \<Rightarrow> ('j, 'h, unit) gc" where
  \<comment> \<open>\<open>acquired\<close> is the answer of \<^verbatim>\<open>pg_try_advisory_lock\<close>\<close>
  "runCleanupWithLock e acquired days =
     (if acquired \<noteq> Inr True then ret ()
      else do {
        now \<leftarrow> gets w_now;
        check_err (db_call e (DeleteOldSatelliteStatus now days)) (\<lambda>_. ret ()) (\<lambda>_. do {
          _ \<leftarrow> db_call e (DeleteOrphanedArtifacts now days);
          ret ()
        })
      })"

section \<open>What the handlers leave alone\<close>

lemma keeps_prod [keeps]: "(\<And>a b. keeps_db (k a b)) \<Longrightarrow> keeps_db (case p of (a, b) \<Rightarrow> k a b)"
  by (cases p) auto

lemma keeps_register [keeps]: "keeps_db (register_robot e req sat sts rbt)"
  unfolding register_robot_def by (intro keeps)

lemma keeps_bodies [keeps]:
  "keeps_db (register_body e req)" "keeps_db (delete_satellite_body e n)" "keeps_db (remove_from_group_body e g n)"
  "keeps_db (add_to_group_body e sat grp)"
  unfolding register_body_def delete_satellite_body_def delete_failed_def remove_from_group_body_def add_to_group_body_def
  by (intro keeps)+

lemma succeeds_prod [atomicity]: "(\<And>a b. succeeds (k a b)) \<Longrightarrow> succeeds (case p of (a, b) \<Rightarrow> k a b)"
  by (cases p) auto

lemma closes_prod [atomicity]: "(\<And>a b. closes_tx (k a b)) \<Longrightarrow> closes_tx (case p of (a, b) \<Rightarrow> k a b)"
  by (cases p) auto

lemma closes_harbor [atomicity]: "closes_tx (harbor_op e f)" "closes_tx m \<Longrightarrow> closes_tx (wrap_err p m)" "closes_tx (IsRobotPresent e n)"
proof -
  show op: "closes_tx (harbor_op e f)" for f unfolding harbor_op_def by (intro atomicity)
  show wr: "closes_tx m \<Longrightarrow> closes_tx (wrap_err p m)" for p and m :: "('j, 'h, 'x result) gc"
    unfolding wrap_err_def by (intro atomicity)
  show "closes_tx (IsRobotPresent e n)" unfolding IsRobotPresent_def by (intro atomicity op wr)
qed

lemma registerSatelliteHandler_tx: "atomic (registerSatelliteHandler e r body)" "closes_tx (registerSatelliteHandler e r body)"
  unfolding registerSatelliteHandler_def by (intro atomicity keeps)+

lemma deleteSatelliteByNameHandler_tx: "atomic (deleteSatelliteByNameHandler e r n)" "closes_tx (deleteSatelliteByNameHandler e r n)"
  unfolding deleteSatelliteByNameHandler_def by (intro atomicity keeps)+

lemma addSatelliteToGroup_tx: "atomic (addSatelliteToGroup e body)" "closes_tx (addSatelliteToGroup e body)"
  unfolding addSatelliteToGroup_def by (intro atomicity keeps)+

lemma removeSatelliteFromGroup_tx: "atomic (removeSatelliteFromGroup e g n)" "closes_tx (removeSatelliteFromGroup e g n)"
  unfolding removeSatelliteFromGroup_def by (intro atomicity keeps)+

end
