(* ===== verification/GC_Groups.thy ===== *)
theory GC_Groups
  imports GC_Satellites
begin

text \<open>
  \<^verbatim>\<open>server/group_handlers.go\<close>: groups of artifacts, their state artifacts in the registry and the
  permissions of the robot accounts of the satellites that belong to them.
\<close>

section \<open>Handlers\<close>

primrec update_robots :: "('j, 'h) gc_env \<Rightarrow> string list \<Rightarrow> satellite_group_row list \<Rightarrow> ('j, 'h, unit result) gc" where
  \<comment> \<open>the loop over the satellites of the group\<close>
  "update_robots e projects [] = ret (Inr ())"
| "update_robots e projects (satellite # satellites) =
     check_err (tx_call e (GetRobotAccBySatelliteID (sg_SatelliteID satellite))) (\<lambda>err. ret (Inl err)) (\<lambda>robotAcc.
     check_err (UpdateRobotProjects e projects (rob_RobotID robotAcc)) (\<lambda>err. ret (Inl err)) (\<lambda>_.
     update_robots e projects satellites))"

definition groups_sync_body :: "('j, 'h) gc_env \<Rightarrow> state_artifact \<Rightarrow> ('j, 'h, int \<times> (group_row response + group_row)) gc" where
  "groups_sync_body e req = (let projects = GetProjectNames (sa_Artifacts req) in do {
     now \<leftarrow> gets w_now;
     check_err (tx_call e (CreateGroup now (sa_Group req) (he_URL (srv_Harbor (ge_server e))) projects)) (\<lambda>err. reject (plain_error err)) (\<lambda>result.
     check_err (tx_call e (GroupSatelliteList (grp_ID result))) (\<lambda>err. reject (plain_error err)) (\<lambda>satellites.
     check_err (update_robots e projects satellites) (\<lambda>err. reject (plain_error err)) (\<lambda>_.
     check_err (ensureSatelliteProjectExists e) (\<lambda>err. reject (HandleAppError err)) (\<lambda>_.
     check_err (CreateStateArtifact e req) (\<lambda>err. reject (plain_error err)) (\<lambda>_. accept result)))))
   })"

definition groupsSyncHandler :: "('j, 'h) gc_env \<Rightarrow> state_artifact option \<Rightarrow> ('j, 'h, group_row response) gc" where
  "groupsSyncHandler e body =
     (case DecodeRequestBody body of
        Inl err \<Rightarrow> ret (HandleAppError err)
      | Inr req \<Rightarrow>
          respond (with_tx e plain_error commit_error (groups_sync_body e req)) (\<lambda>result. ret (WriteJSONResponse 200 result)))"

definition getGroupHandler :: "('j, 'h) gc_env \<Rightarrow> string \<Rightarrow> ('j, 'h, group_row response) gc" where
  "getGroupHandler e groupName =
     check_err (db_call e (GetGroupByName groupName)) (\<lambda>_. ret (WriteJSONError ''Group not found'' 404)) (\<lambda>result.
     ret (WriteJSONResponse 200 result))"

definition update_failed :: "('j, 'h, unit response + unit) gc" where
  "update_failed = ret (Inl (app_error ''Error: Failed to update satellite state'' 500))"

definition permissions_failed :: "('j, 'h, unit response + unit) gc" where
  "permissions_failed = ret (Inl (app_error ''Error: Failed to update satellite permissions'' 500))"

definition detach_satellite :: "('j, 'h) gc_env \<Rightarrow> group_row \<Rightarrow> int \<Rightarrow> ('j, 'h, unit response + unit) gc" where
  \<comment> \<open>one round of the loop of \<^verbatim>\<open>deleteGroupHandler\<close>\<close>
  "detach_satellite e grp satelliteID =
     check_err (tx_call e (RemoveSatelliteFromGroup satelliteID (grp_ID grp)))
       (\<lambda>_. ret (Inl (app_error ''Error: Failed to remove group from satellite'' 500))) (\<lambda>_.
     check_err (tx_call e (GetRobotAccBySatelliteID satelliteID)) (\<lambda>_. permissions_failed) (\<lambda>robotAcc.
     check_err (tx_call e (SatelliteGroupList satelliteID)) (\<lambda>_. update_failed) (\<lambda>groupList.
     check_err (group_projects e True ([], []) groupList) (\<lambda>_. update_failed) (\<lambda>(projects, groupStates).
     check_err (UpdateRobotProjects e projects (rob_RobotID robotAcc)) (\<lambda>_. permissions_failed) (\<lambda>_.
     check_err (tx_call e (GetSatellite satelliteID)) (\<lambda>_. update_failed) (\<lambda>sat.
     check_err (fetchSatelliteConfig e True (sat_ID sat)) (\<lambda>err. ret (Inl (HandleAppError err))) (\<lambda>configObject.
     check_err (CreateOrUpdateSatStateArtifact e (sat_Name sat) groupStates (cfr_Name configObject)) (\<lambda>_. update_failed) (\<lambda>_.
     ret (Inr ())))))))))"

primrec detach_satellites :: "('j, 'h) gc_env \<Rightarrow> group_row \<Rightarrow> satellite_group_row list \<Rightarrow> ('j, 'h, unit response + unit) gc" where
  "detach_satellites e grp [] = ret (Inr ())"
| "detach_satellites e grp (satellite # satellites) =
     check_err (detach_satellite e grp (sg_SatelliteID satellite)) (\<lambda>x. ret (Inl x)) (\<lambda>_. detach_satellites e grp satellites)"

definition delete_group_body :: "('j, 'h) gc_env \<Rightarrow> string \<Rightarrow> ('j, 'h, int \<times> (unit response + unit)) gc" where
  "delete_group_body e groupName =
     check_err (tx_call e (GetGroupByName groupName)) (\<lambda>_. reject (app_error ''Error: Group Not Found'' 404)) (\<lambda>grp.
     check_err (tx_call e (GroupSatelliteList (grp_ID grp))) (\<lambda>_. reject (app_error ''Error: Failed to list satellites for group'' 500)) (\<lambda>satellites.
     check_err (detach_satellites e grp satellites) reject (\<lambda>_.
     check_err (tx_call e (DeleteGroup (grp_ID grp))) (\<lambda>_. reject (app_error ''Error: Failed to delete group'' 500)) (\<lambda>_. accept ()))))"

definition deleteGroupHandler :: "('j, 'h) gc_env \<Rightarrow> string \<Rightarrow> ('j, 'h, unit response) gc" where
  \<comment> \<open>the state artifact is deleted after the commit\<close>
  "deleteGroupHandler e groupName =
     respond (with_tx e begin_error commit_error (delete_group_body e groupName)) (\<lambda>_.
     check_err (DeleteArtifact e (ConstructHarborDeleteURL (ge_server e) groupName ''group''))
       (\<lambda>_. ret (app_error ''Error: Failed to delete group state'' 500)) (\<lambda>_. ret (WriteJSONResponse 200 ())))"

definition listGroupHandler :: "('j, 'h) gc_env \<Rightarrow> ('j, 'h, group_row list response) gc" where
  "listGroupHandler e =
     check_err (db_call e ListGroups) (\<lambda>err. ret (plain_error err)) (\<lambda>result. ret (WriteJSONResponse 200 result))"

definition groupSatelliteHandler :: "('j, 'h) gc_env \<Rightarrow> string \<Rightarrow> ('j, 'h, satellite_row list response) gc" where
  "groupSatelliteHandler e groupName =
     check_err (db_call e (CheckGroupExists groupName)) (\<lambda>_. ret (app_error ''error: failed to get group'' 500)) (\<lambda>exists.
     if \<not> exists then ret (app_error ''error: group not found'' 404)
     else check_err (db_call e (GetSatellitesByGroupName groupName)) (\<lambda>_. ret (app_error ''error: failed to get satellites for group'' 500)) (\<lambda>satellites.
     if satellites = [] then ret (WriteJSONResponse 200 []) else ret (WriteJSONResponse 200 satellites)))"

section \<open>Transactions\<close>

lemma keeps_update_robots [keeps]: "keeps_db (update_robots e ps ss)"
  by (induction ss) (auto intro!: keeps)

lemma keeps_detach_one [keeps]: "keeps_db (detach_satellite e g i)"
  unfolding detach_satellite_def update_failed_def permissions_failed_def by (intro keeps)

lemma keeps_detach_satellites [keeps]: "keeps_db (detach_satellites e g ss)"
  by (induction ss) (auto intro!: keeps)

lemma keeps_group_bodies [keeps]: "keeps_db (groups_sync_body e req)" "keeps_db (delete_group_body e n)"
  unfolding groups_sync_body_def delete_group_body_def Let_def by (intro keeps)+

lemma groupsSyncHandler_tx: "atomic (groupsSyncHandler e body)" "closes_tx (groupsSyncHandler e body)"
  unfolding groupsSyncHandler_def by (intro atomicity keeps)+

end
