(* ===== verification/GC_Configs.thy ===== *)
theory GC_Configs
  imports GC_Satellites
begin

text \<open>
  \<^verbatim>\<open>server/config_handlers.go\<close>: the redaction of configurations for the audit log, the difference
  of two configurations, and the handlers for configurations. A configuration is a JSON value;
  \<^verbatim>\<open>jsonpatch.MergePatch\<close> is third-party code and an argument. The body of a request is given by
  the JSON that its configuration marshals to, or the error of marshalling it.
\<close>

section \<open>Redaction\<close>

definition auditRedacted :: string where "auditRedacted = ''[REDACTED]''"

definition isSensitiveConfigKey :: "string \<Rightarrow> bool" where
  "isSensitiveConfigKey key = list_ex (contains_str (to_lower key))
     [''password'', ''passwd'', ''secret'', ''token'', ''credential'', ''apikey'', ''api_key'', ''access_key'', ''private_key'']"

fun redactConfigValue :: "json \<Rightarrow> json" where
  "redactConfigValue (JObj kvs) =
     JObj (map (\<lambda>(k, val). (k, if isSensitiveConfigKey k then JStr auditRedacted else redactConfigValue val)) kvs)"
| "redactConfigValue (JArr xs) = JArr (map redactConfigValue xs)"
| "redactConfigValue v = v"

definition redactConfigForAudit :: "json \<Rightarrow> json" where
  \<comment> \<open>a stored configuration is neither empty nor unparseable\<close>
  "redactConfigForAudit raw = redactConfigValue raw"

section \<open>Differences\<close>

definition childPath :: "string \<Rightarrow> string \<Rightarrow> string" where
  "childPath p key = (if p = [] then key else p @ ''.'' @ key)"

definition lastKey :: "string \<Rightarrow> string" where
  "lastKey path = last (split_on CHR ''.'' path)"

definition redactedLeaf :: "string \<Rightarrow> json \<Rightarrow> json" where
  "redactedLeaf key v = (if isSensitiveConfigKey key then JStr auditRedacted else redactConfigValue v)"

definition changed_leaf :: "string \<Rightarrow> json \<Rightarrow> json \<Rightarrow> string \<times> json" where
  "changed_leaf p oldV newV =
     (p, JObj [(''from'', redactedLeaf (lastKey p) oldV), (''to'', redactedLeaf (lastKey p) newV)])"

definition added_leaves :: "string \<Rightarrow> (string \<times> json) list \<Rightarrow> (string \<times> json) list \<Rightarrow> (string \<times> json) list" where
  \<comment> \<open>the second loop of \<^verbatim>\<open>diffConfigMaps\<close>\<close>
  "added_leaves p oldMap newMap =
     concat (map (\<lambda>(k, nv). if map_of oldMap k \<noteq> None \<or> nv = JNull then []
                            else [(childPath p k, JObj [(''to'', redactedLeaf k nv)])]) newMap)"

fun diffConfigValues :: "string \<Rightarrow> json \<Rightarrow> json \<Rightarrow> (string \<times> json) list" where
  \<comment> \<open>the entries recorded into \<^verbatim>\<open>out\<close>, in order; the case of two maps is \<^verbatim>\<open>diffConfigMaps\<close>\<close>
  "diffConfigValues p (JObj oldMap) (JObj newMap) =
     concat (map (\<lambda>(k, ov). case map_of newMap k of
                    Some nv \<Rightarrow> diffConfigValues (childPath p k) ov nv
                  | None \<Rightarrow> if ov = JNull then [] else [(childPath p k, JObj [(''from'', redactedLeaf k ov)])]) oldMap) @
     added_leaves p oldMap newMap"
| "diffConfigValues p oldV newV = (if same_json oldV newV then [] else [changed_leaf p oldV newV])"

definition diffConfigForAudit :: "json \<Rightarrow> json \<Rightarrow> (string \<times> json) list option" where
  "diffConfigForAudit oldV newV =
     (let out = diffConfigValues [] oldV newV in if out = [] then None else Some out)"

section \<open>Handlers\<close>

record config_object =
  co_ConfigName :: string
  co_Config :: "json result"

definition invalid_config_name :: "'b response" where
  "invalid_config_name = app_error ''invalid or empty config_name'' 400"

definition config_begin_error :: "string \<Rightarrow> 'b response" where
  "config_begin_error err = app_error ''error: failed to start database transaction'' 500"

definition config_commit_error :: "string \<Rightarrow> 'b response" where
  "config_commit_error err = app_error ''Error: Failed to commit transaction'' 500"

definition create_config_body :: "(json, 'h) gc_env \<Rightarrow> config_object \<Rightarrow> (json, 'h, int \<times> (unit response + json)) gc" where
  "create_config_body e req =
     (case co_Config req of
        Inl err \<Rightarrow> reject (plain_error err)
      | Inr configJson \<Rightarrow>
          check_err (ensureSatelliteProjectExists e) (\<lambda>err. reject (HandleAppError err)) (\<lambda>_. do {
          now \<leftarrow> gets w_now;
          check_err (tx_call e (CreateConfig now (co_ConfigName req) (he_URL (srv_Harbor (ge_server e))) configJson))
            (\<lambda>err. if err = ErrUnique then reject (app_error ''error: config already exists'' 409) else reject (plain_error err)) (\<lambda>_.
          check_err (CreateAndPushConfigStateArtifact e configJson (co_ConfigName req)) (\<lambda>err. reject (plain_error err)) (\<lambda>_.
          accept configJson))
          }))"

definition createConfigHandler :: "(json, 'h) gc_env \<Rightarrow> http_request \<Rightarrow> config_object option \<Rightarrow> (json, 'h, unit response) gc" where
  "createConfigHandler e r body =
     (case DecodeRequestBody body of
        Inl err \<Rightarrow> ret (HandleAppError err)
      | Inr req \<Rightarrow>
          if \<not> IsValidName (co_ConfigName req) then ret invalid_config_name
          else respond (with_tx e config_begin_error config_commit_error (create_config_body e req)) (\<lambda>configJson. do {
            auditEvent e r ((event ''create'' ''config'' ''success'' (actorFromContext r) ''user'')
              \<lparr>ev_Resource := co_ConfigName req, ev_Details := [(''to'', redactConfigForAudit configJson)]\<rparr>);
            ret (StatusOnly 201)
          }))"

definition update_config_body ::
  "(json, 'h) gc_env \<Rightarrow> (json \<Rightarrow> json \<Rightarrow> json result) \<Rightarrow> string \<Rightarrow> json result \<Rightarrow>
   (json, 'h, int \<times> (json config_row response + json \<times> json config_row)) gc" where
  "update_config_body e MergePatch configName req =
     check_err (tx_call e (GetConfigByName configName))
       (\<lambda>err. if err = ErrNoRows then reject (app_error ''error: config not found'' 404) else reject (app_error ''error: failed to get config'' 500))
       (\<lambda>existing.
     case req of
       Inl err \<Rightarrow> reject (plain_error err)
     | Inr configJson \<Rightarrow>
         (case MergePatch (cfr_Config existing) configJson of
            Inl _ \<Rightarrow> reject (app_error ''error: unable to apply patch'' 400)
          | Inr patchedJson \<Rightarrow>
              check_err (ensureSatelliteProjectExists e) (\<lambda>err. reject (HandleAppError err)) (\<lambda>_. do {
              now \<leftarrow> gets w_now;
              check_err (tx_call e (UpdateConfig now configName (he_URL (srv_Harbor (ge_server e))) patchedJson)) (\<lambda>err. reject (plain_error err)) (\<lambda>result.
              check_err (CreateAndPushConfigStateArtifact e patchedJson configName) (\<lambda>err. reject (plain_error err)) (\<lambda>_.
              accept (cfr_Config existing, result)))
              })))"

definition updateConfigHandler ::
  "(json, 'h) gc_env \<Rightarrow> (json \<Rightarrow> json \<Rightarrow> json result) \<Rightarrow> http_request \<Rightarrow> string \<Rightarrow> json result option \<Rightarrow>
   (json, 'h, json config_row response) gc" where
  "updateConfigHandler e MergePatch r configName body =
     (case DecodeRequestBody body of
        Inl err \<Rightarrow> ret (HandleAppError err)
      | Inr req \<Rightarrow>
          if \<not> IsValidName configName then ret invalid_config_name
          else respond (with_tx e config_begin_error config_commit_error (update_config_body e MergePatch configName req)) (\<lambda>(old, result). do {
            auditEvent e r ((event ''update'' ''config'' ''success'' (actorFromContext r) ''user'')
              \<lparr>ev_Resource := configName,
               ev_Details := (case diffConfigForAudit old (cfr_Config result) of None \<Rightarrow> [] | Some changed \<Rightarrow> [(''changed'', JObj changed)])\<rparr>);
            ret (WriteJSONResponse 200 result)
          }))"

definition listConfigsHandler :: "('j, 'h) gc_env \<Rightarrow> ('j, 'h, 'j config_row list response) gc" where
  "listConfigsHandler e =
     check_err (db_call e ListConfigs) (\<lambda>err. ret (plain_error err)) (\<lambda>result. ret (WriteJSONResponse 200 result))"

definition getConfigHandler :: "('j, 'h) gc_env \<Rightarrow> string \<Rightarrow> ('j, 'h, 'j config_row response) gc" where
  "getConfigHandler e configName =
     check_err (db_call e (GetConfigByName configName)) (\<lambda>err. ret (app_error (''Config not found: '' @ err) 404)) (\<lambda>result.
     ret (WriteJSONResponse 200 result))"

definition set_config_body :: "('j, 'h) gc_env \<Rightarrow> string \<Rightarrow> string \<Rightarrow> ('j, 'h, int \<times> (unit response + unit)) gc" where
  "set_config_body e satellite configName =
     check_err (set_satellite_config e True satellite configName) (\<lambda>err. reject (HandleAppError err)) (\<lambda>sat.
     check_err (tx_call e (SatelliteGroupList (sat_ID sat))) (\<lambda>_. reject (app_error ''Error: Failed to Add satellite to config'' 500)) (\<lambda>groupList.
     check_err (group_projects e True ([], []) groupList) (\<lambda>_. reject (app_error ''Error: Failed to Add satellite to config'' 500)) (\<lambda>(_, groupStates).
     check_err (CreateOrUpdateSatStateArtifact e (sat_Name sat) groupStates configName) (\<lambda>err. reject (plain_error err)) (\<lambda>_. accept ()))))"

definition setSatelliteConfigHandler :: "('j, 'h) gc_env \<Rightarrow> (string \<times> string) option \<Rightarrow> ('j, 'h, unit response) gc" where
  \<comment> \<open>the body names the satellite and the configuration\<close>
  "setSatelliteConfigHandler e body =
     (case DecodeRequestBody body of
        Inl err \<Rightarrow> ret (HandleAppError err)
      | Inr (satellite, configName) \<Rightarrow>
          respond (with_tx e plain_error config_commit_error (set_config_body e satellite configName)) (\<lambda>_. ret (WriteJSONResponse 200 ())))"

definition deleteConfigHandler :: "(json, 'h) gc_env \<Rightarrow> http_request \<Rightarrow> string \<Rightarrow> (json, 'h, unit response) gc" where
  "deleteConfigHandler e r configName =
     check_err (db_call e (GetConfigByName configName)) (\<lambda>_. ret (app_error ''Error: Failed to get Config'' 500)) (\<lambda>configObject.
     check_err (isConfigInUse e False configObject) (\<lambda>err. ret (plain_error err)) (\<lambda>inUse.
     if inUse then ret (app_error ''Cannot delete config that is in use'' 400)
     else check_err (DeleteArtifact e (ConstructHarborDeleteURL (ge_server e) configName ''config''))
       (\<lambda>_. ret (app_error ''Error: Could not delete config state artifact'' 500)) (\<lambda>_.
     check_err (db_call e (DeleteConfig (cfr_ID configObject))) (\<lambda>err. ret (plain_error err)) (\<lambda>_. do {
       auditEvent e r ((event ''delete'' ''config'' ''success'' (actorFromContext r) ''user'')
         \<lparr>ev_Resource := configName, ev_Details := [(''from'', redactConfigForAudit (cfr_Config configObject))]\<rparr>);
       ret (WriteJSONResponse 200 ())
     }))))"

section \<open>What the audit log reveals\<close>

fun replace_secrets :: "(string \<Rightarrow> json \<Rightarrow> json) \<Rightarrow> json \<Rightarrow> json" where
  \<comment> \<open>other values under the sensitive keys\<close>
  "replace_secrets f (JObj kvs) =
     JObj (map (\<lambda>(k, v). (k, if isSensitiveConfigKey k then f k v else replace_secrets f v)) kvs)"
| "replace_secrets f (JArr xs) = JArr (map (replace_secrets f) xs)"
| "replace_secrets f v = v"

lemma redact_replaced: "redactConfigValue (replace_secrets f j) = redactConfigValue j"
  by (induction j rule: redactConfigValue.induct) auto

lemma redact_twice: "redactConfigValue (redactConfigValue j) = redactConfigValue j"
  by (induction j rule: redactConfigValue.induct) auto

lemma redact_at:
  "list_all (\<lambda>k. \<not> isSensitiveConfigKey k) ks \<Longrightarrow> json_at ks (redactConfigValue j) = map_option redactConfigValue (json_at ks j)"
proof (induction ks j rule: json_at.induct)
  case (2 k ks kvs)
  then show ?case by (cases "map_of kvs k") (auto simp: map_of_map_entries)
qed auto

lemma redact_at_sensitive:
  assumes "list_all (\<lambda>k. \<not> isSensitiveConfigKey k) ks" "isSensitiveConfigKey k" "json_at (ks @ [k]) j = Some v"
  shows "json_at (ks @ [k]) (redactConfigValue j) = Some (JStr auditRedacted)"
  using assms
proof (induction ks j rule: json_at.induct)
  case (1 j)
  then show ?case by (cases j) (auto simp: map_of_map_entries split: bind_splits)
next
  case (2 l ks kvs)
  then show ?case by (cases "map_of kvs l") (auto simp: map_of_map_entries)
qed auto

fun no_secrets :: "json \<Rightarrow> bool" where
  \<comment> \<open>no sensitive key at any depth\<close>
  "no_secrets (JObj kvs) = (\<forall>(k, v)\<in>set kvs. \<not> isSensitiveConfigKey k \<and> no_secrets v)"
| "no_secrets (JArr xs) = (\<forall>x\<in>set xs. no_secrets x)"
| "no_secrets v = True"

lemma redact_keeps: "no_secrets v \<Longrightarrow> redactConfigValue v = v"
proof (induction v rule: redactConfigValue.induct)
  case (1 kvs)
  then show ?case by (auto intro!: map_idI)
next
  case (2 xs)
  then show ?case by (auto intro!: map_idI)
qed simp_all

section \<open>What counts as a change\<close>

fun drop_nulls :: "json \<Rightarrow> json" where
  \<comment> \<open>without the members of objects that are null; arrays are taken as they are\<close>
  "drop_nulls (JObj kvs) = JObj (map (\<lambda>(k, v). (k, drop_nulls v)) (filter (\<lambda>(k, v). v \<noteq> JNull) kvs))"
| "drop_nulls v = v"

lemma drop_nulls_null [simp]: "drop_nulls v = JNull \<longleftrightarrow> v = JNull" "same_json JNull v \<longleftrightarrow> v = JNull" "same_json v JNull \<longleftrightarrow> v = JNull"
  by (cases v; simp; fail)+

lemma dropped_entry:
  assumes "distinct (map fst kvs)"
  shows "map_of (map (\<lambda>(k, v). (k, drop_nulls v)) (filter (\<lambda>(k, v). v \<noteq> JNull) kvs)) k =
    (case map_of kvs k of None \<Rightarrow> None | Some v \<Rightarrow> if v = JNull then None else Some (drop_nulls v))"
proof -
  have "map_of (filter (\<lambda>(k, v). v \<noteq> JNull) kvs) k = (case map_of kvs k of None \<Rightarrow> None | Some v \<Rightarrow> if v = JNull then None else Some v)"
    using assms by (induction kvs) (auto simp: map_of_eq_None_iff split: option.splits)
  then show ?thesis by (simp add: map_of_map_entries[where f = "\<lambda>_. drop_nulls"] split: option.splits)
qed

lemma same_drop: "(\<forall>kvs. a \<noteq> JObj kvs) \<or> (\<forall>kvs. b \<noteq> JObj kvs) \<Longrightarrow> same_json (drop_nulls a) (drop_nulls b) = same_json a b"
  by (cases a; cases b) auto

lemma dropped_distinct:
  "distinct (map fst kvs) \<Longrightarrow> distinct (map fst (map (\<lambda>(k, v). (k, drop_nulls v)) (filter (\<lambda>(k, v). v \<noteq> JNull) kvs)))"
  by (induction kvs) (auto simp: image_iff)

lemma same_object:
  assumes "distinct (map fst a)" "distinct (map fst b)"
  shows "same_json (JObj a) (JObj b) \<longleftrightarrow> (\<forall>k. rel_option same_json (map_of a k) (map_of b k))" (is "?l \<longleftrightarrow> ?r")
proof
  assume l: ?l
  have sub: "fst ` set a \<subseteq> fst ` set b"
    using l by (force split: option.splits dest: map_of_SomeD)
  have "card (fst ` set a) = card (fst ` set b)"
    using l assms by (metis distinct_card length_map list.set_map same_json.simps(2))
  then have "fst ` set a = fst ` set b" using sub by (simp add: card_subset_eq)
  show ?r
  proof
    fix k
    show "rel_option same_json (map_of a k) (map_of b k)"
    proof (cases "map_of a k")
      case None
      then have "map_of b k = None" using \<open>fst ` set a = fst ` set b\<close> by (simp add: map_of_eq_None_iff)
      then show ?thesis using None by simp
    next
      case (Some v)
      then have "(k, v) \<in> set a" by (rule map_of_SomeD)
      then show ?thesis using l Some by (auto split: option.splits)
    qed
  qed
next
  assume r: ?r
  have "dom (map_of a) = dom (map_of b)"
    using r by (auto simp: dom_def) (metis option.rel_distinct(1,2) option.exhaust)+
  then have "length a = length b"
    using assms by (metis distinct_card dom_map_of_conv_image_fst length_map list.set_map)
  moreover have "case map_of b k of None \<Rightarrow> False | Some u \<Rightarrow> same_json v u" if "(k, v) \<in> set a" for k v
    using r[rule_format, of k] that assms(1) by (cases "map_of b k") (auto simp: map_of_is_SomeI)
  ultimately show ?l by auto
qed

definition no_change :: "string \<Rightarrow> json option \<Rightarrow> json option \<Rightarrow> bool" where
  "no_change p a b =
     (case (a, b) of
        (Some v, Some u) \<Rightarrow> diffConfigValues p v u = []
      | (Some v, None) \<Rightarrow> v = JNull | (None, Some u) \<Rightarrow> u = JNull | (None, None) \<Rightarrow> True)"

lemma diff_objects:
  assumes "distinct (map fst a)" "distinct (map fst b)"
  shows "diffConfigValues p (JObj a) (JObj b) = [] \<longleftrightarrow> (\<forall>k. no_change (childPath p k) (map_of a k) (map_of b k))" (is "?l \<longleftrightarrow> ?r")
proof -
  have "?l \<longleftrightarrow> (\<forall>k v. map_of a k = Some v \<longrightarrow> no_change (childPath p k) (Some v) (map_of b k)) \<and>
      (\<forall>k v. map_of b k = Some v \<longrightarrow> map_of a k = None \<longrightarrow> v = JNull)"
    using assms by (fastforce simp: added_leaves_def no_change_def split: option.splits if_splits)
  also have "\<dots> \<longleftrightarrow> ?r" by (auto simp: no_change_def split: option.splits)
  finally show ?thesis .
qed

lemma diff_empty_iff:
  "wf_json o1 \<Longrightarrow> wf_json n1 \<Longrightarrow> diffConfigValues p o1 n1 = [] \<longleftrightarrow> same_json (drop_nulls o1) (drop_nulls n1)"
proof (induction p o1 n1 rule: diffConfigValues.induct)
  case (1 p a b)
  have d: "distinct (map fst a)" "distinct (map fst b)" using "1.prems" by auto
  have "no_change (childPath p k) (map_of a k) (map_of b k) \<longleftrightarrow>
      rel_option same_json
        (case map_of a k of None \<Rightarrow> None | Some v \<Rightarrow> if v = JNull then None else Some (drop_nulls v))
        (case map_of b k of None \<Rightarrow> None | Some v \<Rightarrow> if v = JNull then None else Some (drop_nulls v))" for k
  proof (cases "map_of a k")
    case None
    then show ?thesis by (auto simp: no_change_def split: option.splits)
  next
    case (Some v)
    show ?thesis
    proof (cases "map_of b k")
      case None
      then show ?thesis using Some by (auto simp: no_change_def)
    next
      case Some': (Some u)
      have "diffConfigValues (childPath p k) v u = [] \<longleftrightarrow> same_json (drop_nulls v) (drop_nulls u)"
        using "1.IH"[OF map_of_SomeD[OF Some] refl Some'] "1.prems" map_of_SomeD[OF Some] map_of_SomeD[OF Some'] by auto
      then show ?thesis using Some Some' by (auto simp: no_change_def)
    qed
  qed
  then show ?case
    unfolding diff_objects[OF d] drop_nulls.simps(1) same_object[OF dropped_distinct[OF d(1)] dropped_distinct[OF d(2)]]
    by (simp add: dropped_entry[OF d(1)] dropped_entry[OF d(2)])
qed (simp_all add: same_drop del: drop_nulls.simps)

text \<open>
  C33. Redaction removes the secrets of a configuration and nothing else. The redacted configuration
  does not depend on what stands under a sensitive key, at any depth, and a value at a sensitive key is the
  placeholder. At every path without a sensitive key it has a value exactly if the configuration has one: the same
  value if there is no secret in it, an array of the same elements, each redacted, and in general the
  redacted value. Redacting again changes nothing. This is about \<^verbatim>\<open>redactConfigForAudit\<close>; the differences
  that an update records are another matter (see \<open>diff_reveals_nested_secret\<close>).
\<close>

theorem redaction_hides_secrets:
  "redactConfigForAudit (replace_secrets f j) = redactConfigForAudit j \<and>
   redactConfigForAudit (redactConfigForAudit j) = redactConfigForAudit j \<and>
   (list_all (\<lambda>k. \<not> isSensitiveConfigKey k) ks \<longrightarrow>
      json_at ks (redactConfigForAudit j) = map_option redactConfigForAudit (json_at ks j) \<and>
      (\<forall>v. json_at ks j = Some v \<and> no_secrets v \<longrightarrow> json_at ks (redactConfigForAudit j) = Some v) \<and>
      (\<forall>xs. json_at ks j = Some (JArr xs) \<longrightarrow> json_at ks (redactConfigForAudit j) = Some (JArr (map redactConfigForAudit xs))) \<and>
      (isSensitiveConfigKey k \<and> json_at (ks @ [k]) j \<noteq> None \<longrightarrow>
         json_at (ks @ [k]) (redactConfigForAudit j) = Some (JStr auditRedacted)))"
  unfolding redactConfigForAudit_def
proof (intro conjI impI allI)
  fix v assume pub: "list_all (\<lambda>k. \<not> isSensitiveConfigKey k) ks" and v: "json_at ks j = Some v \<and> no_secrets v"
  then show "json_at ks (redactConfigValue j) = Some v" using redact_at[OF pub, of j] redact_keeps[of v] by simp
next
  fix xs assume pub: "list_all (\<lambda>k. \<not> isSensitiveConfigKey k) ks" and "json_at ks j = Some (JArr xs)"
  then show "json_at ks (redactConfigValue j) = Some (JArr (map redactConfigValue xs))" using redact_at[OF pub, of j] by simp
next
  assume pub: "list_all (\<lambda>k. \<not> isSensitiveConfigKey k) ks"
  assume "isSensitiveConfigKey k \<and> json_at (ks @ [k]) j \<noteq> None"
  then show "json_at (ks @ [k]) (redactConfigValue j) = Some (JStr auditRedacted)"
    using redact_at_sensitive[OF pub] by blast
qed (simp_all only: redact_replaced redact_twice redact_at)

theorem redaction_hides_secrets_witness:
  "json_at [''registry'', ''Password''] (redactConfigForAudit
     (JObj [(''registry'', JObj [(''Password'', JStr ''x''), (''url'', JStr ''u'')])])) = Some (JStr auditRedacted) \<and>
   json_at [''registry'', ''url''] (redactConfigForAudit
     (JObj [(''registry'', JObj [(''Password'', JStr ''x''), (''url'', JStr ''u'')])])) = Some (JStr ''u'')"
  using redaction_hides_secrets[of "\<lambda>_ v. v" "JObj [(''registry'', JObj [(''Password'', JStr ''x''), (''url'', JStr ''u'')])]"
      "[''registry'']" "''Password''"]
    redaction_hides_secrets[of "\<lambda>_ v. v" "JObj [(''registry'', JObj [(''Password'', JStr ''x''), (''url'', JStr ''u'')])]"
      "[''registry'', ''url'']"]
  by (simp add: isSensitiveConfigKey_def to_lower_def to_lower_char_def char_of_def bit_iff_odd)
    (simp add: redactConfigForAudit_def)

text \<open>
  C34. The difference that is recorded with an update of a configuration is empty exactly when nothing changed:
  \<^verbatim>\<open>diffConfigForAudit\<close> reports no change if and only if the two configurations are equal once the
  members of objects that are null are dropped, up to the order of the members. It yields only the details of the audit event, which
  the handler emits in either case. The configurations are JSON values as the decoder makes them, without an object that has a
  member twice.
\<close>

theorem diff_reports_changes:
  assumes "wf_json old" "wf_json new"
  shows "diffConfigForAudit old new = None \<longleftrightarrow> same_json (drop_nulls old) (drop_nulls new)"
  using diff_empty_iff[OF assms, of "[]"] by (simp add: diffConfigForAudit_def Let_def)

theorem diff_reports_changes_witness:
  "diffConfigForAudit (JObj [(''a'', JNull), (''b'', JStr ''x'')]) (JObj [(''b'', JStr ''x'')]) = None"
  using diff_reports_changes[of "JObj [(''a'', JNull), (''b'', JStr ''x'')]" "JObj [(''b'', JStr ''x'')]"]
  by simp

text \<open>
  The audit entry of an update can hold a secret. When the value of a sensitive key is an
  object before and after the update, \<^verbatim>\<open>diffConfigMaps\<close> descends into it and records the changed
  members in the clear, although the redaction of either configuration hides the whole object.
\<close>

lemma diff_reveals_nested_secret:
  "let old = JObj [(''credentials'', JObj [(''value'', JStr ''hunter2'')])];
       new = JObj [(''credentials'', JObj [(''value'', JStr ''hunter3'')])] in
   diffConfigForAudit old new =
     Some [(''credentials.value'', JObj [(''from'', JStr ''hunter2''), (''to'', JStr ''hunter3'')])] \<and>
   redactConfigForAudit old = JObj [(''credentials'', JStr auditRedacted)]"
  by (simp add: diffConfigForAudit_def redactConfigForAudit_def added_leaves_def changed_leaf_def childPath_def lastKey_def
      redactedLeaf_def isSensitiveConfigKey_def to_lower_def to_lower_char_def Let_def)

section \<open>Transactions\<close>

lemma keeps_config_bodies [keeps]:
  "keeps_db (create_config_body e req)" "keeps_db (update_config_body e mp n up)" "keeps_db (set_config_body e' sn cn)"
  unfolding create_config_body_def update_config_body_def set_config_body_def by (intro keeps)+

lemma createConfigHandler_tx: "atomic (createConfigHandler e r body)" "closes_tx (createConfigHandler e r body)"
  unfolding createConfigHandler_def by (intro atomicity keeps)+

lemma updateConfigHandler_tx: "atomic (updateConfigHandler e mp r n body)" "closes_tx (updateConfigHandler e mp r n body)"
  unfolding updateConfigHandler_def by (intro atomicity keeps)+

lemma atomic_prod [atomicity]: "(\<And>a b. atomic (k a b)) \<Longrightarrow> atomic (case p of (a, b) \<Rightarrow> k a b)"
  by (cases p) auto

lemma setSatelliteConfigHandler_tx: "atomic (setSatelliteConfigHandler e body)" "closes_tx (setSatelliteConfigHandler e body)"
  unfolding setSatelliteConfigHandler_def by (intro atomicity keeps)+

end
