(* ===== verification/GC_Onboarding.thy ===== *)
theory GC_Onboarding
  imports GC_Satellites
begin

text \<open>
  What the registration of a satellite, the redemption of its token and its status reports
  establish in the database of ground control.
\<close>

section \<open>Registration\<close>

lemma txk_loops [txkeeps]:
  assumes "\<And>i j. query_keeps f (AddSatelliteToGroup i j)"
  shows "tx_keeps f (addSatelliteToGroups e gs i)"
proof -
  have "tx_keeps f (add_to_groups e i sts xs)" for sts xs
    by (induction xs arbitrary: sts) (auto intro!: txkeeps keeps assms)
  then show ?thesis unfolding addSatelliteToGroups_def by (intro txkeeps)
qed

lemma txk_assign [txkeeps]: "tx_keeps f (assignPermissionsToRobot e gs i)"
proof -
  have "tx_keeps f (assign_permissions e i xs)" for xs
    by (induction xs) (auto intro!: txkeeps keeps)
  then show ?thesis unfolding assignPermissionsToRobot_def by (intro txkeeps)
qed

lemma txk_store [txkeeps]:
  assumes "\<And>now. query_keeps f (AddRobotAccount now n h rid i ex)"
  shows "tx_keeps f (storeRobotAccountInDB e n h rid i ex)"
  unfolding storeRobotAccountInDB_def by (intro txkeeps assms)

lemma does_harbor [does]:
  "tx_does ok_sum now (\<lambda>_ db db'. db' = db) (CreateRobotAccForSatellite e ps n)"
  "tx_does ok_sum now (\<lambda>_ db db'. db' = db) (UpdateRobotProjects e ps n)"
  "tx_does ok_sum now (\<lambda>_ db db'. db' = db) (CreateOrUpdateSatStateArtifact e n sts cn)"
  "tx_does ok_sum now (\<lambda>_ db db'. db' = db) (ensureSatelliteProjectExists e)"
  "tx_does ok_sum now (\<lambda>_ db db'. db' = db) (hashRobotCredentials e sec)"
  "tx_does ok_sum now (\<lambda>_ db db'. db' = db) (GenerateRandomToken e len)"
  "tx_does ok_sum now (\<lambda>_ db db'. db' = db) (assignPermissionsToRobot e gs i)"
  by (rule does_tx_keeps; intro keeps txkeeps)+

definition tables :: "'j db \<Rightarrow> satellite_row list \<times> token_row list \<times> 'j config_row list" where
  "tables db = (db_satellites db, db_tokens db, db_configs db)"

lemma insertions_keep:
  "query_keeps tables (AddSatelliteToGroup i j)" "query_keeps tables (AddRobotAccount now n h rid i ex)"
  by (auto simp: query_keeps_def tables_def AddSatelliteToGroup_def AddRobotAccount_def Let_def split: if_splits option.splits)

lemma does_insertions [does]:
  "tx_does ok_sum now (\<lambda>_ db db'. tables db' = tables db) (storeRobotAccountInDB e n h rid i ex)"
  "tx_does ok_sum now (\<lambda>_ db db'. tables db' = tables db) (addSatelliteToGroups e gs i)"
  by (rule does_tx_keeps; intro keeps txkeeps insertions_keep)+

lemma SetSatelliteConfig_sets:
  "SetSatelliteConfig i c db = Inr (x, db') \<Longrightarrow>
     \<lparr>scf_SatelliteID = i, scf_ConfigID = c\<rparr> \<in> set (db_satellite_configs db') \<and> tables db' = tables db"
  by (auto simp: SetSatelliteConfig_def tables_def Let_def image_iff split: if_splits)

lemma AddToken_adds:
  "AddToken now sid token ex db = Inr (tk, db') \<Longrightarrow>
     tk = token \<and> tk \<notin> tok_Token ` set (db_tokens db) \<and> db_satellites db' = db_satellites db \<and> db_configs db' = db_configs db \<and>
     db_satellite_configs db' = db_satellite_configs db \<and>
     (\<exists>row. db_tokens db' = db_tokens db @ [row] \<and> tok_Token row = token \<and> tok_SatelliteID row = sid \<and> tok_ExpiresAt row = ex)"
  by (auto simp: AddToken_def split: if_splits)

definition registered :: "int \<Rightarrow> int \<Rightarrow> string \<Rightarrow> string \<Rightarrow> 'j db \<Rightarrow> 'j db \<Rightarrow> bool" where
  \<comment> \<open>a token of the satellite is added and the satellite has its configuration\<close>
  "registered now sid configName tk db db' =
     (tk \<notin> tok_Token ` set (db_tokens db) \<and>
      (\<exists>row. db_tokens db' = db_tokens db @ [row] \<and> tok_Token row = tk \<and> tok_SatelliteID row = sid \<and> tok_ExpiresAt row = now + day) \<and>
      (\<exists>cfg\<in>set (db_configs db'). cfr_Name cfg = configName \<and>
         \<lparr>scf_SatelliteID = sid, scf_ConfigID = cfr_ID cfg\<rparr> \<in> set (db_satellite_configs db')))"

lemma GetConfigByName_found: "GetConfigByName n db = Inr (cfg, db') \<Longrightarrow> db' = db \<and> cfg \<in> set (db_configs db) \<and> cfr_Name cfg = n"
  by (auto simp: GetConfigByName_def select_one_def split: option.splits dest: find_first_Some)

lemma register_robot_does:
  "tx_does ok_sum now (\<lambda>tk db db'. db_satellites db' = db_satellites db \<and> registered now (sat_ID sat) (rs_ConfigName req) tk db db')
     (register_robot e req sat sts rbt)"
  unfolding register_robot_def
  by (rule does_mono, (rule does)+)
    (auto dest!: GetConfigByName_found SetSatelliteConfig_sets AddToken_adds simp: registered_def tables_def)

lemma CreateSatellite_adds:
  "CreateSatellite now name db = Inr (sat, db') \<Longrightarrow>
     sat_Name sat = name \<and> name \<notin> sat_Name ` set (db_satellites db) \<and> db_satellites db' = db_satellites db @ [sat] \<and>
     db_tokens db' = db_tokens db \<and> db_configs db' = db_configs db"
  by (auto simp: CreateSatellite_def Let_def split: if_splits)

lemma register_body_does:
  "tx_does ok_body now (\<lambda>x db db'. sat_Name (fst x) = rs_Name req \<and> rs_Name req \<notin> sat_Name ` set (db_satellites db) \<and>
       db_satellites db' = db_satellites db @ [fst x] \<and> registered now (sat_ID (fst x)) (rs_ConfigName req) (snd x) db db')
     (register_body e req)"
  unfolding register_body_def
  by (rule does_mono, (rule does register_robot_does)+)
    (auto dest!: CreateSatellite_adds simp: registered_def tables_def)

lemma lefts_register [does]: "lefts_bad left_body ok_reply (register_body e req)"
proof -
  have "lefts_bad left_sum ok_reply (register_robot e req sat sts rbt)" for sat sts rbt
    unfolding register_robot_def by (intro does ok_reply_errors)
  then show ?thesis
    unfolding register_body_def by (intro lefts_pass does ok_reply_errors)
qed

text \<open>
  C31. A successful registration leaves exactly one new satellite and one new token. The request was well formed,
  the name was not taken, the satellite is linked to the requested configuration, and the returned token is fresh, belongs to
  the new satellite and is valid for 24 hours.
\<close>

theorem registration_effect:
  assumes "run_state (registerSatelliteHandler e r body) w = (JSONReply c tk, w')"
  shows "\<exists>req sat. body = Some req \<and> IsValidName (rs_Name req) \<and> sat_Name sat = rs_Name req \<and>
    rs_Name req \<notin> sat_Name ` set (db_satellites (w_db w)) \<and> db_satellites (w_db w') = db_satellites (w_db w) @ [sat] \<and>
    registered (w_now w) (sat_ID sat) (rs_ConfigName req) tk (w_db w) (w_db w')"
proof -
  have robot: "db_does ok_sum (w_now w) (\<lambda>_ db db'. db' = db) (IsRobotPresent e n)" for n
    by (rule does_db_keeps) (rule keeps)
  have "db_does ok_reply (w_now w) (\<lambda>tk db db'. \<exists>req sat. body = Some req \<and> IsValidName (rs_Name req) \<and> sat_Name sat = rs_Name req \<and>
    rs_Name req \<notin> sat_Name ` set (db_satellites db) \<and> db_satellites db' = db_satellites db @ [sat] \<and>
    registered (w_now w) (sat_ID sat) (rs_ConfigName req) tk db db') (registerSatelliteHandler e r body)"
    unfolding registerSatelliteHandler_def invalid_name_def
    by (rule does_mono, (rule does does_split robot register_body_does keeps | simp add: commit_error_def; fail)+)
      (auto simp: DecodeRequestBody_def split: if_splits option.splits)
  from db_doesD[OF this assms] show ?thesis by simp
qed

definition sample_config :: "json config_row" where
  "sample_config = \<lparr>cfr_ID = 3, cfr_Name = ''base'', cfr_RegistryUrl = ''h'', cfr_Config = JNull, cfr_CreatedAt = 0, cfr_UpdatedAt = 0\<rparr>"

definition sample_registration :: register_params where
  "sample_registration = \<lparr>rs_Name = ''edge'', rs_Groups = None, rs_ConfigName = ''base''\<rparr>"

lemma sample_names: "IsValidName ''edge''" "IsValidName ''base''"
  by (simp_all add: IsValidName_def name_char_def dec_digit_def)

lemma sample_hashed: "\<exists>h. HashSecret sample_argon (\<lambda>n. Inr (replicate n CHR ''r'')) secret = Inr h"
  by (simp add: HashSecret_def Let_def)

lemma sample_register:
  "\<exists>w'. run_state (registerSatelliteHandler sample_env sample_request (Some sample_registration))
     (sample_world (empty_db\<lparr>db_configs := [sample_config]\<rparr>) 10) = (JSONReply 200 (hex_EncodeToString (replicate 16 CHR ''r'')), w')"
proof -
  obtain h where h: "HashSecret sample_argon (\<lambda>n. Inr (replicate n CHR ''r'')) ''first'' = Inr h" using sample_hashed by blast
  show ?thesis
    by (simp add: registerSatelliteHandler_def sample_registration_def sample_names DecodeRequestBody_def with_tx_def respond_def
        register_body_def register_robot_def run_check_err addSatelliteToGroups_def assignPermissionsToRobot_def harbor_ops harbor_op_def
        wrap_err_def gc_prims sample_parts sample_harbor_def storeRobotAccountInDB_def h CreateSatellite_def AddRobotAccount_def
        GetConfigByName_def select_one_def SetSatelliteConfig_def AddToken_def sample_config_def RobotAccountTemplate_def
        auditEvent_def responses Let_def count_call_def)
qed

theorem registration_effect_witness:
  "\<exists>(sat :: satellite_row) db'. sat_Name sat = ''edge'' \<and>
     registered 10 (sat_ID sat) ''base'' (hex_EncodeToString (replicate 16 CHR ''r'')) (empty_db\<lparr>db_configs := [sample_config]\<rparr>) db'"
proof -
  obtain w' where "run_state (registerSatelliteHandler sample_env sample_request (Some sample_registration))
     (sample_world (empty_db\<lparr>db_configs := [sample_config]\<rparr>) 10) = (JSONReply 200 (hex_EncodeToString (replicate 16 CHR ''r'')), w')"
    using sample_register by blast
  from registration_effect[OF this] obtain sat :: satellite_row where "sat_Name sat = ''edge''"
      "registered 10 (sat_ID sat) ''base'' (hex_EncodeToString (replicate 16 CHR ''r'')) (empty_db\<lparr>db_configs := [sample_config]\<rparr>) (w_db w')"
    by (auto simp: sample_registration_def sample_world_def)
  then show ?thesis by blast
qed

section \<open>Redeeming a token\<close>

lemma hash_does: "db_does ok_sum now (\<lambda>h db db'. db' = db \<and> (\<exists>rnd. HashSecret (ge_argon e) rnd secret = Inr h)) (hashRobotCredentials e secret)"
  unfolding hashRobotCredentials_def
proof (rule does_relI)
  fix w r v x assume "w_now w = now" "run_state (rand_call e (\<lambda>rnd. HashSecret (ge_argon e) rnd secret)) w = (r, v)" "ok_sum r = Some x"
  then show "w_now v = now \<and> (\<forall>db'. db_view v = Some db' \<longrightarrow> (\<exists>db. db_view w = Some db \<and> db' = db \<and> (\<exists>rnd. HashSecret (ge_argon e) rnd secret = Inr x)))"
    by (cases r) (auto simp: rand_call_def db_view_def)
qed

lemma db_harbor [does]:
  "db_does ok_sum now (\<lambda>_ db db'. db' = db) (RefreshRobotAccount e x i)" "db_does ok_sum now (\<lambda>_ db db'. db' = db) (harbor_GetRobotAccount e i)"
  "db_does ok_sum now (\<lambda>_ db db'. db' = db) (CreateOrUpdateSatStateArtifact e n sts cn)" "db_does ok_sum now (\<lambda>_ db db'. db' = db) (fetchSatelliteConfig e False i)"
  by (rule does_db_keeps; intro keeps)+

definition refreshed :: "('j, 'h) gc_env \<Rightarrow> int \<Rightarrow> robot_row \<Rightarrow> string \<Rightarrow> 'j db \<Rightarrow> 'j db \<Rightarrow> bool" where
  \<comment> \<open>the stored hash is that of the secret which is handed out, unless Harbor is skipped\<close>
  "refreshed e now robot secret db db' =
     (if he_SkipHealthCheck (srv_Harbor (ge_server e)) then db' = db \<and> secret = placeholder_secret
      else \<exists>hash expiry rnd. HashSecret (ge_argon e) rnd secret = Inr hash \<and>
             UpdateRobotAccount now (rob_ID robot) (rob_Name robot) hash (rob_RobotID robot) expiry db = Inr ((), db'))"

lemma refresh_does: "db_does ok_sum now (refreshed e now robot) (refreshRobotSecret e False robot)"
  unfolding refreshRobotSecret_def q_call_def if_False
  by (rule does_mono, (rule does hash_does)+) (auto simp: refreshed_def split: if_splits; blast)

lemma lefts_states [does]: "lefts_bad left_sum ok_reply (satellite_states e i)"
  unfolding satellite_states_def by (intro does ok_reply_errors)

lemma states_does [does]: "db_does ok_sum now (\<lambda>_ db db'. db' = db) (satellite_states e i)"
  unfolding satellite_states_def by (rule does_db_keeps; intro keeps)

lemma GetSatellite_found: "GetSatellite i db = Inr (sat, db') \<Longrightarrow> db' = db \<and> sat \<in> set (db_satellites db) \<and> sat_ID sat = i"
  by (auto simp: GetSatellite_def select_one_def split: option.splits dest: find_first_Some)

lemma GetRobot_found: "GetRobotAccBySatelliteID i db = Inr (rb, db') \<Longrightarrow> db' = db \<and> rb \<in> set (db_robots db) \<and> rob_SatelliteID rb = i"
  by (auto simp: GetRobotAccBySatelliteID_def select_one_def split: option.splits dest: find_first_Some)

lemma ztr_finish_does:
  "db_does ok_reply now (\<lambda>sc db db'. db' = db\<lparr>db_tokens := filter (\<lambda>x. tok_Token x \<noteq> token) (db_tokens db)\<rparr> \<and>
       (\<exists>sat\<in>set (db_satellites db). sat_ID sat = sid \<and> sc = state_result (AssembleSatelliteState (ge_server e) (sat_Name sat))
          (rob_Name robot) secret (he_URL (srv_Harbor (ge_server e)))))
     (ztr_finish e r token sid robot secret)"
  unfolding ztr_finish_def
  by (rule does_mono, (rule does)+) (auto dest!: GetSatellite_found simp: DeleteToken_def exec_def)

lemma GetToken_found:
  "GetTokenByValue token db = Inr (t, db') \<longleftrightarrow> db' = db \<and> find_first (\<lambda>x. tok_Token x = token) (db_tokens db) = Some t"
  by (auto simp: GetTokenByValue_def select_one_def split: option.splits)

lemma ztr_does:
  "db_does ok_reply now (\<lambda>sc db db'. \<exists>t robot secret db1. find_first (\<lambda>x. tok_Token x = token) (db_tokens db) = Some t \<and>
       now \<le> tok_ExpiresAt t \<and> robot \<in> set (db_robots db) \<and> rob_SatelliteID robot = tok_SatelliteID t \<and>
       refreshed e now robot secret db db1 \<and> db' = db1\<lparr>db_tokens := filter (\<lambda>x. tok_Token x \<noteq> token) (db_tokens db1)\<rparr> \<and>
       (\<exists>sat\<in>set (db_satellites db1). sat_ID sat = tok_SatelliteID t \<and> sc = state_result (AssembleSatelliteState (ge_server e) (sat_Name sat))
          (rob_Name robot) secret (he_URL (srv_Harbor (ge_server e)))))
     (ztrHandler e r token)"
  unfolding ztrHandler_def
  by (rule does_mono, (rule does refresh_does ztr_finish_does)+)
    (auto dest!: GetRobot_found simp: GetToken_found not_less split: if_splits; blast)

lemma refreshed_effect:
  assumes "\<And>s salt t m p n. length (ge_argon e s salt t m p n) = n" "refreshed e now robot secret db db'" "robot \<in> set (db_robots db)"
  shows "db_tokens db' = db_tokens db \<and> db_satellites db' = db_satellites db \<and>
    (\<exists>rb\<in>set (db_robots db'). rob_SatelliteID rb = rob_SatelliteID robot \<and> rob_Name rb = rob_Name robot \<and>
       (he_SkipHealthCheck (srv_Harbor (ge_server e)) \<or> VerifySecret (ge_argon e) secret (rob_SecretHash rb)))"
proof (cases "he_SkipHealthCheck (srv_Harbor (ge_server e))")
  case True
  then show ?thesis using assms(2,3) by (auto simp: refreshed_def)
next
  case False
  then obtain hash expiry rnd where h: "HashSecret (ge_argon e) rnd secret = Inr hash"
    and u: "UpdateRobotAccount now (rob_ID robot) (rob_Name robot) hash (rob_RobotID robot) expiry db = Inr ((), db')"
    using assms(2) by (auto simp: refreshed_def)
  let ?rb = "robot\<lparr>rob_SecretHash := hash, rob_Expiry := expiry, rob_UpdatedAt := now\<rparr>"
  have "?rb \<in> set (db_robots db')" "db_tokens db' = db_tokens db" "db_satellites db' = db_satellites db"
    using u assms(3) by (auto simp: UpdateRobotAccount_def exec_def image_iff split: if_splits intro!: bexI[of _ robot])
  moreover have "VerifySecret (ge_argon e) secret hash" by (rule HashSecret_accepts[OF assms(1) h])
  ultimately show ?thesis by (intro conjI bexI[of _ ?rb]) simp_all
qed

lemma ztr_reply:
  assumes "\<And>s salt t m p n. length (ge_argon e s salt t m p n) = n"
    and "run_state (ztrHandler e r token) w = (JSONReply c sc, w')"
  obtains t sat rb where "find_first (\<lambda>x. tok_Token x = token) (db_tokens (w_db w)) = Some t" "w_now w \<le> tok_ExpiresAt t"
    "sat \<in> set (db_satellites (w_db w'))" "sat_ID sat = tok_SatelliteID t" "sc_StateURL sc = AssembleSatelliteState (ge_server e) (sat_Name sat)"
    "rb \<in> set (db_robots (w_db w'))" "rob_SatelliteID rb = sat_ID sat" "rob_Name rb = rc_Username (sc_RegistryCredentials sc)"
    "he_SkipHealthCheck (srv_Harbor (ge_server e)) \<or> VerifySecret (ge_argon e) (rc_Password (sc_RegistryCredentials sc)) (rob_SecretHash rb)"
    "token \<notin> tok_Token ` set (db_tokens (w_db w'))"
proof -
  from db_doesD[OF ztr_does assms(2)] obtain t robot secret db1 sat where
    t: "find_first (\<lambda>x. tok_Token x = token) (db_tokens (w_db w)) = Some t" "w_now w \<le> tok_ExpiresAt t"
    and rb: "robot \<in> set (db_robots (w_db w))" "rob_SatelliteID robot = tok_SatelliteID t" "refreshed e (w_now w) robot secret (w_db w) db1"
    and db: "w_db w' = db1\<lparr>db_tokens := filter (\<lambda>x. tok_Token x \<noteq> token) (db_tokens db1)\<rparr>"
    and sat: "sat \<in> set (db_satellites db1)" "sat_ID sat = tok_SatelliteID t"
    and sc: "sc = state_result (AssembleSatelliteState (ge_server e) (sat_Name sat)) (rob_Name robot) secret (he_URL (srv_Harbor (ge_server e)))"
    by auto
  from refreshed_effect[OF assms(1) rb(3,1)] obtain rb' where
    rb': "rb' \<in> set (db_robots db1)" "rob_SatelliteID rb' = rob_SatelliteID robot" "rob_Name rb' = rob_Name robot"
      "he_SkipHealthCheck (srv_Harbor (ge_server e)) \<or> VerifySecret (ge_argon e) secret (rob_SecretHash rb')"
    by blast
  show ?thesis using t rb(2) sat rb' by (intro that[of t sat rb']) (auto simp: db sc state_result_def)
qed

lemma ztr_used_token:
  assumes "token \<notin> tok_Token ` set (db_tokens (w_db v))" "run_state (ztrHandler e r token) v = (resp, u)"
  shows "resp = JSONError ''Error: Invalid Token'' 400"
proof -
  have "find_first (\<lambda>x. tok_Token x = token) (db_tokens (w_db v)) = None" using assms(1) by (auto simp: find_first_None)
  then have "\<exists>err. run_state (db_call e (GetTokenByValue token)) v = (Inl err, count_call v)"
    by (simp add: db_call_def GetTokenByValue_def select_one_def)
  then show ?thesis using assms(2) by (auto simp: ztrHandler_def run_check_err app_error_def auditEvent_def Let_def)
qed

text \<open>
  C7. A registration token works once, and only while it is valid. When \<^verbatim>\<open>ztrHandler\<close> hands out a
  configuration, the token was stored and not expired; the credentials are those of a robot account of the satellite of the
  token, whose stored hash accepts the password that was handed out (unless Harbor is skipped); the state address is that of the satellite; and
  the token is gone, so that every later attempt with it, on whatever database has the same tokens, is refused with 400.
\<close>

theorem ztr_token_single_use:
  assumes "\<And>s salt t m p n. length (ge_argon e s salt t m p n) = n"
    and "run_state (ztrHandler e r token) w = (JSONReply c sc, w')"
  shows "\<exists>t sat rb. find_first (\<lambda>x. tok_Token x = token) (db_tokens (w_db w)) = Some t \<and> w_now w \<le> tok_ExpiresAt t \<and>
    sat \<in> set (db_satellites (w_db w')) \<and> sat_ID sat = tok_SatelliteID t \<and> sc_StateURL sc = AssembleSatelliteState (ge_server e) (sat_Name sat) \<and>
    rb \<in> set (db_robots (w_db w')) \<and> rob_SatelliteID rb = sat_ID sat \<and> rob_Name rb = rc_Username (sc_RegistryCredentials sc) \<and>
    (he_SkipHealthCheck (srv_Harbor (ge_server e)) \<or> VerifySecret (ge_argon e) (rc_Password (sc_RegistryCredentials sc)) (rob_SecretHash rb)) \<and>
    (\<forall>v r' resp u. db_tokens (w_db v) = db_tokens (w_db w') \<longrightarrow> run_state (ztrHandler e r' token) v = (resp, u) \<longrightarrow>
       resp = JSONError ''Error: Invalid Token'' 400)"
proof (rule ztr_reply[OF assms])
  fix t sat rb
  assume used: "token \<notin> tok_Token ` set (db_tokens (w_db w'))"
    and r: "find_first (\<lambda>x. tok_Token x = token) (db_tokens (w_db w)) = Some t" "w_now w \<le> tok_ExpiresAt t"
      "sat \<in> set (db_satellites (w_db w'))" "sat_ID sat = tok_SatelliteID t" "sc_StateURL sc = AssembleSatelliteState (ge_server e) (sat_Name sat)"
      "rb \<in> set (db_robots (w_db w'))" "rob_SatelliteID rb = sat_ID sat" "rob_Name rb = rc_Username (sc_RegistryCredentials sc)"
      "he_SkipHealthCheck (srv_Harbor (ge_server e)) \<or> VerifySecret (ge_argon e) (rc_Password (sc_RegistryCredentials sc)) (rob_SecretHash rb)"
  have "\<forall>v r' resp u. db_tokens (w_db v) = db_tokens (w_db w') \<longrightarrow> run_state (ztrHandler e r' token) v = (resp, u) \<longrightarrow>
       resp = JSONError ''Error: Invalid Token'' 400"
    by (intro allI impI, rule ztr_used_token) (use used in simp_all)
  then show ?thesis using r by blast
qed

definition sample_edge :: satellite_row where
  "sample_edge = \<lparr>sat_ID = 5, sat_Name = ''edge'', sat_CreatedAt = 0, sat_UpdatedAt = 0, sat_LastSeen = None, sat_HeartbeatInterval = None\<rparr>"

definition sample_sites :: "json db" where
  \<comment> \<open>one satellite with its configuration, robot account and token\<close>
  "sample_sites = (empty_db :: json db)\<lparr>db_configs := [sample_config], db_satellites := [sample_edge],
     db_satellite_configs := [\<lparr>scf_SatelliteID = 5, scf_ConfigID = 3\<rparr>],
     db_robots := [\<lparr>rob_ID = 4, rob_Name = ''robot'', rob_SecretHash = [], rob_RobotID = ''1'', rob_SatelliteID = 5, rob_Expiry = None, rob_CreatedAt = 0, rob_UpdatedAt = 0\<rparr>],
     db_tokens := [\<lparr>tok_ID = 6, tok_SatelliteID = 5, tok_Token = ''once'', tok_CreatedAt = 0, tok_UpdatedAt = 0, tok_ExpiresAt = 90\<rparr>],
     db_next := 7\<rparr>"

definition sample_site_world :: "int \<Rightarrow> (json, harbor_robot list) gc_world" where
  "sample_site_world now = (sample_world sample_sites now)
     \<lparr>w_harbor := [\<lparr>hr_ID = 1, hr_Name = ''robot'', hr_ExpiresAt = 0, hr_Permissions = []\<rparr>]\<rparr>"

lemmas sample_site_parts = sample_site_world_def sample_sites_def sample_edge_def sample_config_def sample_parts sample_harbor_def

definition sample_env_at :: "string \<Rightarrow> (json, harbor_robot list) gc_env" where
  \<comment> \<open>the sample environment with Harbor at another address\<close>
  "sample_env_at u = sample_env\<lparr>ge_server := sample_server\<lparr>srv_Harbor := (srv_Harbor sample_server)\<lparr>he_URL := u\<rparr>\<rparr>\<rparr>"

lemma sample_env_at_h: "sample_env_at ''h'' = sample_env"
  by (simp add: sample_env_at_def sample_parts)

lemma sample_ztr_at:
  "\<exists>w'. run_state (ztrHandler (sample_env_at u) sample_request ''once'') (sample_site_world 10) =
     (JSONReply 200 (state_result (AssembleSatelliteState (ge_server (sample_env_at u)) ''edge'') ''robot'' ''fresh'' u), w') \<and>
     map rob_Name (db_robots (w_db w')) = [''robot''] \<and> map rob_Expiry (db_robots (w_db w')) = [None] \<and> db_satellites (w_db w') = [sample_edge]"
proof -
  obtain h where h: "HashSecret sample_argon (\<lambda>n. Inr (replicate n CHR ''r'')) ''fresh'' = Inr h" using sample_hashed by blast
  have robot: "ParseInt64 ''1'' = Inr 1" by (simp add: ParseInt64_def digits_value_def dec_digit_def)
  show ?thesis
    by (simp add: ztrHandler_def ztr_finish_def refreshRobotSecret_def satellite_states_def getGroupStates_def fetchSatelliteConfig_def
        respond_def run_check_err harbor_ops harbor_op_def wrap_err_def q_call_def gc_prims sample_site_parts sample_env_at_def h robot
        GetTokenByValue_def GetRobotAccBySatelliteID_def UpdateRobotAccount_def SatelliteGroupList_def GetSatellite_def
        SatelliteConfig_def GetConfigByID_def DeleteToken_def exec_def select_one_def select_many_def
        auditEvent_def responses Let_def count_call_def robot_expiry_def)
qed

theorem ztr_token_single_use_witness:
  "\<exists>w'. fst (run_state (ztrHandler sample_env sample_request ''once'') w') = JSONError ''Error: Invalid Token'' 400 \<and>
     db_robots (w_db w') \<noteq> []"
proof -
  obtain w' where run: "run_state (ztrHandler sample_env sample_request ''once'') (sample_site_world 10) =
     (JSONReply 200 (state_result (AssembleSatelliteState sample_server ''edge'') ''robot'' ''fresh'' ''h''), w')"
    using sample_ztr_at[of "''h''"] by (auto simp: sample_env_at_h) (simp add: sample_env_def)
  have len: "length (ge_argon sample_env s salt t m p n) = n" for s salt t m p n by (simp add: sample_env_def sample_argon_length)
  obtain resp u where again: "run_state (ztrHandler sample_env sample_request ''once'') w' = (resp, u)" by (metis surj_pair)
  from ztr_token_single_use[OF len run] again have "resp = JSONError ''Error: Invalid Token'' 400" "db_robots (w_db w') \<noteq> []"
    by (auto; blast)+
  with again show ?thesis by (intro exI[of _ w']) simp
qed

section \<open>Status reports\<close>

fun ok_done :: "'b response \<Rightarrow> unit option" where
  "ok_done (StatusOnly c) = Some ()"
| "ok_done r = None"

lemma does_done [does]:
  "does_rel vw ok_done now (\<lambda>_ db db'. db' = db) (ret (StatusOnly c))"
  "does_rel vw ok_done now (\<lambda>_ _ _. False) (ret (app_error m c))" "does_rel vw ok_done now (\<lambda>_ _ _. False) (ret (HandleAppError ge))"
  "never_ok ok_done (ret (app_error m c))"
  by (cases ge; force simp: app_error_def never_ok_def intro: does_relI)+

definition reported :: "status_params \<Rightarrow> satellite_row \<Rightarrow> int \<Rightarrow> string \<Rightarrow> 'j db \<Rightarrow> 'j db \<Rightarrow> bool" where
  \<comment> \<open>the report is the last row of its table and the satellite has been seen\<close>
  "reported req sat now interval db db' =
     (\<exists>ids row. db_statuses db' = db_statuses db @ [row] \<and> st_SatelliteID row = sat_ID sat \<and> st_CreatedAt row = now \<and>
        row\<lparr>st_ID := 0, st_CreatedAt := 0\<rparr> = status_of_report sat req ids \<and>
        (ids = None \<longleftrightarrow> sp_CachedImages req = []) \<and>
        db_satellites db' = map (\<lambda>s. if sat_ID s = sat_ID sat
          then s\<lparr>sat_LastSeen := Some now, sat_HeartbeatInterval := toNullString interval\<rparr> else s) (db_satellites db))"

lemma BatchInsertArtifacts_keeps:
  "BatchInsertArtifacts now refs sizes db = Inr (x, db') \<Longrightarrow> db_statuses db' = db_statuses db \<and> db_satellites db' = db_satellites db"
proof -
  have "db_statuses (fold f xs db) = db_statuses db \<and> db_satellites (fold f xs db) = db_satellites db"
    if "\<And>p d. db_statuses (f p d) = db_statuses d \<and> db_satellites (f p d) = db_satellites d" for f :: "string \<times> int \<Rightarrow> 'a db \<Rightarrow> 'a db" and xs db
    using that by (induction xs arbitrary: db) auto
  then show "BatchInsertArtifacts now refs sizes db = Inr (x, db') \<Longrightarrow> db_statuses db' = db_statuses db \<and> db_satellites db' = db_satellites db"
    by (auto simp: BatchInsertArtifacts_def exec_def split: prod.splits)
qed

lemma save_artifacts_does:
  "db_does ok_sum now (\<lambda>ids db db'. db_statuses db' = db_statuses db \<and> db_satellites db' = db_satellites db \<and> (ids = None \<longleftrightarrow> images = []))
     (save_artifacts e images)"
  unfolding save_artifacts_def
  by (rule does_mono, (rule does)+)
    (auto dest!: BatchInsertArtifacts_keeps simp: GetArtifactIDsByReferences_def select_many_def split: if_splits)

lemma GetSatelliteByName_found:
  "GetSatelliteByName n db = Inr (sat, db') \<longleftrightarrow> db' = db \<and> find_first (\<lambda>s. sat_Name s = n) (db_satellites db) = Some sat"
  by (auto simp: GetSatelliteByName_def select_one_def split: option.splits)

lemma lefts_save [does]: "lefts_bad left_sum ok_done (save_artifacts e images)"
  unfolding save_artifacts_def by (intro does) (simp_all add: app_error_def)

definition reporter :: "http_request \<Rightarrow> status_params \<Rightarrow> string" where
  "reporter r req = (case rq_satellite r of Some name \<Rightarrow> name | None \<Rightarrow> sp_Name req)"

lemma InsertSatelliteStatus_adds:
  "InsertSatelliteStatus now (status_of_report sat req ids) db = Inr (x, db') \<Longrightarrow>
     db_satellites db' = db_satellites db \<and>
     (\<exists>row. db_statuses db' = db_statuses db @ [row] \<and> st_SatelliteID row = sat_ID sat \<and> st_CreatedAt row = now \<and>
        row\<lparr>st_ID := 0, st_CreatedAt := 0\<rparr> = status_of_report sat req ids)"
  by (auto simp: InsertSatelliteStatus_def status_of_report_def Let_def split: if_splits)

lemma UpdateSatelliteLastSeen_sets:
  "UpdateSatelliteLastSeen now i interval db = Inr (x, db') \<longleftrightarrow> db' = db\<lparr>db_satellites := map (\<lambda>s. if sat_ID s = i
     then s\<lparr>sat_LastSeen := Some now, sat_HeartbeatInterval := interval\<rparr> else s) (db_satellites db)\<rparr>"
  by (auto simp: UpdateSatelliteLastSeen_def exec_def)

lemma reportedI:
  assumes "db_statuses d1 = db_statuses db" "db_satellites d1 = db_satellites db" "ids = None \<longleftrightarrow> sp_CachedImages req = []"
    and "InsertSatelliteStatus now (status_of_report sat req ids) d1 = Inr (x, d2)"
    and "UpdateSatelliteLastSeen now (sat_ID sat) (toNullString interval) d2 = Inr (y, d3)"
  shows "reported req sat now interval db d3"
proof -
  from InsertSatelliteStatus_adds[OF assms(4)] obtain row where "db_statuses d2 = db_statuses d1 @ [row]" "st_SatelliteID row = sat_ID sat"
      "st_CreatedAt row = now" "row\<lparr>st_ID := 0, st_CreatedAt := 0\<rparr> = status_of_report sat req ids" "db_satellites d2 = db_satellites d1"
    by blast
  then show ?thesis
    unfolding reported_def using assms(1-3,5)
    by (intro exI[of _ ids] exI[of _ row]) (simp add: UpdateSatelliteLastSeen_sets)
qed

lemma sync_does:
  "db_does ok_done now (\<lambda>_ db db'. \<exists>req sat interval. body = Some req \<and>
       find_first (\<lambda>s. sat_Name s = reporter r req) (db_satellites db) = Some sat \<and>
       normalizeHeartbeatInterval (sp_StateReportInterval req) = Inr interval \<and> reported req sat now interval db db')
     (syncHandler e r body)"
  unfolding syncHandler_def reporter_def[symmetric] Let_def
  by (rule does_mono, (rule does save_artifacts_does)+)
    (auto simp: DecodeRequestBody_def GetSatelliteByName_found intro: reportedI split: option.splits)

lemma sort_key_snoc:
  assumes "\<And>x. x \<in> set xs \<Longrightarrow> f x \<le> f y"
  shows "sort_key f (xs @ [y]) = sort_key f xs @ [y]"
proof -
  have "f x \<le> f y \<Longrightarrow> insort_key f x (zs @ [y]) = insort_key f x zs @ [y]" for x zs
    by (induction zs) auto
  then show ?thesis using assms by (induction xs) auto
qed

lemma reported_newest:
  assumes "reported req sat now interval db db'" "\<And>row. row \<in> set (db_statuses db) \<Longrightarrow> st_CreatedAt row \<le> now"
  shows "\<exists>ids row. newest_status (sat_ID sat) db' = Some row \<and> row\<lparr>st_ID := 0, st_CreatedAt := 0\<rparr> = status_of_report sat req ids"
proof -
  from assms(1) obtain ids row where row: "db_statuses db' = db_statuses db @ [row]" "st_SatelliteID row = sat_ID sat" "st_CreatedAt row = now"
      "row\<lparr>st_ID := 0, st_CreatedAt := 0\<rparr> = status_of_report sat req ids"
    unfolding reported_def by blast
  have "sort_key st_CreatedAt (filter (\<lambda>r. st_SatelliteID r = sat_ID sat) (db_statuses db) @ [row]) =
      sort_key st_CreatedAt (filter (\<lambda>r. st_SatelliteID r = sat_ID sat) (db_statuses db)) @ [row]"
    by (rule sort_key_snoc) (use assms(2) row(3) in auto)
  then have "newest_status (sat_ID sat) db' = Some row" using row by (simp add: newest_status_def)
  with row(4) show ?thesis by blast
qed

lemma reported_window:
  assumes "\<And>n. n * 1000000000 < 2 ^ 63 \<Longrightarrow> ge_interval e (hms n) = Some (int n * second)"
    and "normalizeHeartbeatInterval hb = Inr interval" "sat_LastSeen s = Some now" "sat_HeartbeatInterval s = toNullString interval"
  shows "seen_within (ge_interval e) t s \<longleftrightarrow>
    t < now + (if hb = [] then 15 * 60 * second else 3 * (case ParseDuration (drop 7 hb) of Inr d \<Rightarrow> d | Inl _ \<Rightarrow> 0))"
proof (cases "hb = []")
  case True
  then have "interval = []" using assms(2) by (simp add: normalizeHeartbeatInterval_def)
  then show ?thesis using True assms(3,4) by (auto simp: seen_within_def silence_limit_def toNullString_def)
next
  case False
  then obtain n where n: "ParseDuration (drop 7 hb) = Inr (int n * second)" "n * 1000000000 < 2 ^ 63" "interval = ''@every '' @ hms n"
    using normalize_text[OF assms(2)] by metis
  have "hasPrefix interval ''@every ''" "drop 7 interval = hms n" by (simp_all add: n(3) eval_nat_numeral)
  then have "silence_limit (ge_interval e) (sat_HeartbeatInterval s) = Some (int n * second * 3)"
    using n(3) assms(1)[OF n(2)] assms(4) by (simp add: silence_limit_def toNullString_def)
  then show ?thesis using False n(1) assms(3) by (auto simp: seen_within_def)
qed

text \<open>
  C32. A status report makes the satellite active for three heartbeats. After \<^verbatim>\<open>syncHandler\<close> answers
  200 to the report of a satellite, named by the transport if it authenticated one, that satellite counts as active at a time \<open>t\<close> if and only if less
  than three of its announced intervals have passed, or fifteen minutes when it announced none; and the latest status in the
  database is the one just reported, provided no stored status is from the future. PostgreSQL is taken to read a canonical interval as
  the duration it denotes.
\<close>

theorem sync_keeps_active:
  assumes "\<And>n. n * 1000000000 < 2 ^ 63 \<Longrightarrow> ge_interval e (hms n) = Some (int n * second)"
    and "run_state (syncHandler e r body) w = (StatusOnly c, w')"
    and "\<And>row. row \<in> set (db_statuses (w_db w)) \<Longrightarrow> st_CreatedAt row \<le> w_now w"
  shows "\<exists>req sat row ids. body = Some req \<and> find_first (\<lambda>s. sat_Name s = reporter r req) (db_satellites (w_db w)) = Some sat \<and>
    newest_status (sat_ID sat) (w_db w') = Some row \<and> row\<lparr>st_ID := 0, st_CreatedAt := 0\<rparr> = status_of_report sat req ids \<and>
    (\<exists>s\<in>set (db_satellites (w_db w')). sat_Name s = reporter r req \<and>
       (\<forall>t. seen_within (ge_interval e) t s \<longleftrightarrow> t < w_now w +
          (if sp_StateReportInterval req = [] then 15 * 60 * second
           else 3 * (case ParseDuration (drop 7 (sp_StateReportInterval req)) of Inr d \<Rightarrow> d | Inl _ \<Rightarrow> 0))))"
proof -
  from db_doesD[OF sync_does assms(2)] obtain req sat interval where
    req: "body = Some req" "find_first (\<lambda>s. sat_Name s = reporter r req) (db_satellites (w_db w)) = Some sat"
    and nrm: "normalizeHeartbeatInterval (sp_StateReportInterval req) = Inr interval"
    and rep: "reported req sat (w_now w) interval (w_db w) (w_db w')"
    by auto
  from reported_newest[OF rep assms(3)] obtain ids row where
    row: "newest_status (sat_ID sat) (w_db w') = Some row" "row\<lparr>st_ID := 0, st_CreatedAt := 0\<rparr> = status_of_report sat req ids"
    by blast
  let ?s = "sat\<lparr>sat_LastSeen := Some (w_now w), sat_HeartbeatInterval := toNullString interval\<rparr>"
  have "sat \<in> set (db_satellites (w_db w))" "sat_Name sat = reporter r req" using find_first_Some[OF req(2)] by simp_all
  then have s: "?s \<in> set (db_satellites (w_db w'))" "sat_Name ?s = reporter r req"
    using rep by (auto simp: reported_def image_iff intro!: bexI[of _ sat])
  have "seen_within (ge_interval e) t ?s \<longleftrightarrow> t < w_now w + (if sp_StateReportInterval req = [] then 15 * 60 * second
           else 3 * (case ParseDuration (drop 7 (sp_StateReportInterval req)) of Inr d \<Rightarrow> d | Inl _ \<Rightarrow> 0))" for t
    by (rule reported_window[OF assms(1) nrm]) simp_all
  with req row s show ?thesis by blast
qed

definition sample_report :: status_params where
  "sample_report = \<lparr>sp_Name = ''edge'', sp_Activity = ''idle'', sp_StateReportInterval = ''@every 90s'', sp_LatestStateDigest = [],
     sp_LatestConfigDigest = [], sp_MemoryUsedBytes = 1, sp_StorageUsedBytes = 1, sp_CPUPercent = ''0.50'', sp_RequestCreatedTime = 9,
     sp_LastSyncDurationMs = 3, sp_ImageCount = 1, sp_CachedImages = [\<lparr>ci_Reference = ''img'', ci_SizeBytes = 7\<rparr>]\<rparr>"

definition sample_sync_env :: "(json, harbor_robot list) gc_env" where
  \<comment> \<open>a PostgreSQL that reads intervals as Go reads durations\<close>
  "sample_sync_env = sample_env\<lparr>ge_interval := (\<lambda>t. case ParseDuration t of Inr d \<Rightarrow> Some d | Inl _ \<Rightarrow> None)\<rparr>"

lemma sample_sync:
  "\<exists>w'. run_state (syncHandler sample_sync_env sample_request (Some sample_report)) (sample_site_world 10) = (StatusOnly 200, w')"
  by (simp add: syncHandler_def DecodeRequestBody_def sample_report_def save_artifacts_def respond_def run_check_err gc_prims sample_sync_env_def
      sample_site_parts sample_interval GetSatelliteByName_def BatchInsertArtifacts_def GetArtifactIDsByReferences_def select_one_def select_many_def
      InsertSatelliteStatus_def status_of_report_def UpdateSatelliteLastSeen_def exec_def Let_def count_call_def)

theorem sync_keeps_active_witness:
  "\<exists>w' s. run_state (syncHandler sample_sync_env sample_request (Some sample_report)) (sample_site_world 10) = (StatusOnly 200, w') \<and>
     s \<in> set (db_satellites (w_db w')) \<and> (\<forall>t. seen_within (ge_interval sample_sync_env) t s \<longleftrightarrow> t < 10 + 270 * second)"
proof -
  obtain w' where run: "run_state (syncHandler sample_sync_env sample_request (Some sample_report)) (sample_site_world 10) = (StatusOnly 200, w')"
    using sample_sync by blast
  have iv: "n * 1000000000 < 2 ^ 63 \<Longrightarrow> ge_interval sample_sync_env (hms n) = Some (int n * second)" for n
    using ParseDuration_text by (simp add: sample_sync_env_def)
  have now: "w_now (sample_site_world 10) = 10" "db_statuses (w_db (sample_site_world 10)) = []" by (simp_all add: sample_site_parts)
  have old: "row \<in> set (db_statuses (w_db (sample_site_world 10))) \<Longrightarrow> st_CreatedAt row \<le> w_now (sample_site_world 10)" for row
    by (simp add: now)
  have d: "drop 7 (sp_StateReportInterval sample_report) = ''90s''" "sp_StateReportInterval sample_report \<noteq> []"
    by (simp_all add: sample_report_def)
  obtain req s where eq: "Some sample_report = Some req" and s: "s \<in> set (db_satellites (w_db w'))"
      "\<forall>t. seen_within (ge_interval sample_sync_env) t s \<longleftrightarrow> t < 10 + (if sp_StateReportInterval req = [] then 15 * 60 * second
         else 3 * (case ParseDuration (drop 7 (sp_StateReportInterval req)) of Inr d \<Rightarrow> d | Inl _ \<Rightarrow> 0))"
    using sync_keeps_active[OF iv run old] unfolding now by blast
  have "req = sample_report" using eq by simp
  then have "\<forall>t. seen_within (ge_interval sample_sync_env) t s \<longleftrightarrow> t < 10 + 270 * second"
    using s(2) by (simp add: d sample_interval)
  with run s(1) show ?thesis by blast
qed

end
