(* ===== verification/GC_Admin.thy ===== *)
theory GC_Admin
  imports GC_Groups GC_Configs GC_Onboarding
begin

text \<open>
  The requests of an administrator together: those that run in one transaction have an effect only if they
  succeed, and the handlers for satellites and groups implement an abstract membership relation
  between the names of satellites and the names of groups.
\<close>

section \<open>Requests in one transaction\<close>

datatype admin_request =
    RegisterSatellite "register_params option"
  | RemoveSatellite string
  | JoinGroup "satellite_group_params option"
  | LeaveGroup string string
  | SyncGroup "state_artifact option"
  | NewConfig "config_object option"
  | PatchConfig string "json result option"
  | AssignConfig "(string \<times> string) option"

definition no_content :: "('j, 'h, 'b response) gc \<Rightarrow> ('j, 'h, unit response) gc" where
  "no_content m = do { x \<leftarrow> m; ret (map_response (\<lambda>_. ()) x) }"

fun serve_admin ::
  "(json, 'h) gc_env \<Rightarrow> (json \<Rightarrow> json \<Rightarrow> json result) \<Rightarrow> http_request \<Rightarrow> admin_request \<Rightarrow> (json, 'h, unit response) gc" where
  "serve_admin e mp r (RegisterSatellite body) = no_content (registerSatelliteHandler e r body)"
| "serve_admin e mp r (RemoveSatellite name) = deleteSatelliteByNameHandler e r name"
| "serve_admin e mp r (JoinGroup body) = no_content (addSatelliteToGroup e body)"
| "serve_admin e mp r (LeaveGroup grp name) = removeSatelliteFromGroup e grp name"
| "serve_admin e mp r (SyncGroup body) = no_content (groupsSyncHandler e body)"
| "serve_admin e mp r (NewConfig body) = createConfigHandler e r body"
| "serve_admin e mp r (PatchConfig name body) = no_content (updateConfigHandler e mp r name body)"
| "serve_admin e mp r (AssignConfig body) = setSatelliteConfigHandler e body"

lemma success_map [simp]: "success (map_response f x) = success x"
  by (cases x) auto

lemma no_content_tx: "atomic m \<Longrightarrow> atomic (no_content m)" "closes_tx m \<Longrightarrow> closes_tx (no_content m)"
  by (simp_all add: no_content_def atomic_def closes_tx_def split: prod.splits) (metis fst_conv snd_conv)+

lemmas handlers_tx = registerSatelliteHandler_tx deleteSatelliteByNameHandler_tx addSatelliteToGroup_tx removeSatelliteFromGroup_tx
  groupsSyncHandler_tx createConfigHandler_tx updateConfigHandler_tx setSatelliteConfigHandler_tx

interpretation admin: transactional "serve_admin e mp r" for e mp r
proof
  show "atomic (serve_admin e mp r i)" for i by (cases i) (simp_all add: handlers_tx no_content_tx)
  show "closes_tx (serve_admin e mp r i)" for i by (cases i) (simp_all add: handlers_tx no_content_tx)
qed

text \<open>
  C8. A request of an administrator that is refused has changed nothing. Over any sequence of requests to register, delete, move or
  configure satellites and to write groups and configurations, whichever database calls fail and whatever Harbor answers: if no response reports
  success, the committed database is the one before; and no transaction is left open.
\<close>

theorem admin_requests_atomic:
  assumes "serve_all (serve_admin e mp r) reqs w = (rs, w')"
  shows "((\<forall>x\<in>set rs. \<not> success x) \<longrightarrow> w_db w' = w_db w) \<and> (w_tx w = NoTx \<longrightarrow> w_tx w' = NoTx)"
  using admin.rejected[OF assms] admin.closed[OF assms] by blast

lemma all_rejected: "map status_of rs = [400, 400] \<Longrightarrow> \<forall>x\<in>set rs. \<not> success x"
  by (auto simp: map_eq_Cons_conv elim!: success.elims)

theorem admin_requests_atomic_witness:
  "\<exists>rs w'. serve_all (serve_admin sample_env (\<lambda>a b. Inr a) sample_request) [RemoveSatellite ''nobody'', NewConfig None] (sample_site_world 10) = (rs, w') \<and>
     map status_of rs = [400, 400] \<and> w_db w' = sample_sites \<and> w_tx w' = NoTx"
proof -
  obtain rs w' where out: "serve_all (serve_admin sample_env (\<lambda>a b. Inr a) sample_request) [RemoveSatellite ''nobody'', NewConfig None] (sample_site_world 10) = (rs, w')"
    by (metis surj_pair)
  then have st: "map status_of rs = [400, 400]"
    by (auto simp: deleteSatelliteByNameHandler_def delete_satellite_body_def createConfigHandler_def DecodeRequestBody_def with_tx_def respond_def
        abandon_def cleanup_robot_def reject_def run_check_err gc_prims sample_site_parts GetSatelliteByName_def select_one_def app_error_def Let_def
        ErrNoRows_def count_call_def)
  have "w_tx (sample_site_world 10) = NoTx" "w_db (sample_site_world 10) = sample_sites"
    by (simp_all add: sample_site_world_def sample_world_def)
  with admin_requests_atomic[OF out] all_rejected[OF st] out st show ?thesis by auto
qed

section \<open>Membership\<close>

definition members :: "'j db \<Rightarrow> (string \<times> string) set" where
  \<comment> \<open>the abstraction: names of satellites and of the groups they belong to\<close>
  "members db = {(sat_Name s, grp_Name g) |s g. s \<in> set (db_satellites db) \<and> g \<in> set (db_groups db) \<and>
     \<lparr>sg_SatelliteID = sat_ID s, sg_GroupID = grp_ID g\<rparr> \<in> set (db_satellite_groups db)}"

definition wf_sites :: "'j db \<Rightarrow> bool" where
  "wf_sites db =
     (distinct (map sat_ID (db_satellites db)) \<and> distinct (map sat_Name (db_satellites db)) \<and>
      distinct (map grp_ID (db_groups db)) \<and> distinct (map grp_Name (db_groups db)) \<and>
      (\<forall>s\<in>set (db_satellites db). sat_ID s < db_next db) \<and> (\<forall>g\<in>set (db_groups db). grp_ID g < db_next db) \<and>
      (\<forall>x\<in>set (db_satellite_groups db). sg_SatelliteID x < db_next db \<and> sg_GroupID x < db_next db))"

fun member_spec :: "admin_request \<Rightarrow> (string \<times> string) set \<Rightarrow> (string \<times> string) set" where
  "member_spec (RegisterSatellite (Some req)) M = M \<union> {rs_Name req} \<times> (case rs_Groups req of None \<Rightarrow> {} | Some gs \<Rightarrow> set gs)"
| "member_spec (RemoveSatellite name) M = {p \<in> M. fst p \<noteq> name}"
| "member_spec (JoinGroup (Some p)) M = insert (sgp_Satellite p, sgp_Group p) M"
| "member_spec (LeaveGroup grp name) M = M - {(name, grp)}"
| "member_spec _ M = M"

definition sites_kept :: "'j db \<Rightarrow> 'j db \<Rightarrow> bool" where
  "sites_kept db db' = (db_satellites db' = db_satellites db \<and> db_groups db' = db_groups db \<and>
     db_satellite_groups db' = db_satellite_groups db \<and> db_next db \<le> db_next db')"

lemma sites_keptD: "sites_kept db db' \<Longrightarrow> members db' = members db \<and> (wf_sites db \<longrightarrow> wf_sites db')"
  by (force simp: sites_kept_def members_def wf_sites_def)

lemma sites_kept_trans: "sites_kept a b \<Longrightarrow> sites_kept b c \<Longrightarrow> sites_kept a c"
  by (auto simp: sites_kept_def)

lemma sites_kept_refl: "sites_kept db db"
  by (simp add: sites_kept_def)

lemma queries_keep_sites:
  "AddRobotAccount now n h rid i ex db = Inr (a, db') \<Longrightarrow> sites_kept db db'"
  "SetSatelliteConfig i c db = Inr (b, db') \<Longrightarrow> sites_kept db db'"
  "AddToken now i tk t db = Inr (d, db') \<Longrightarrow> sites_kept db db'"
  "CreateConfig now n u j db = Inr (k, db') \<Longrightarrow> sites_kept db db'"
  "UpdateConfig now n u j db = Inr (l, db') \<Longrightarrow> sites_kept db db'"
  by (auto simp: sites_kept_def AddRobotAccount_def SetSatelliteConfig_def AddToken_def CreateConfig_def UpdateConfig_def Let_def
      split: if_splits option.splits)

lemma unique_rows:
  "wf_sites db \<Longrightarrow> s \<in> set (db_satellites db) \<Longrightarrow> t \<in> set (db_satellites db) \<Longrightarrow> (sat_ID s = sat_ID t \<longleftrightarrow> s = t) \<and> (sat_Name s = sat_Name t \<longleftrightarrow> s = t)"
  "wf_sites db \<Longrightarrow> g \<in> set (db_groups db) \<Longrightarrow> h \<in> set (db_groups db) \<Longrightarrow> (grp_ID g = grp_ID h \<longleftrightarrow> g = h) \<and> (grp_Name g = grp_Name h \<longleftrightarrow> g = h)"
  by (auto simp: wf_sites_def distinct_map inj_on_def)

lemma CreateSatellite_sites:
  assumes "CreateSatellite now n db = Inr (sat, db')" "wf_sites db"
  shows "wf_sites db' \<and> members db' = members db \<and> sat \<in> set (db_satellites db') \<and> sat_Name sat = n"
proof -
  have new: "n \<notin> sat_Name ` set (db_satellites db)" "sat_ID sat = db_next db" "sat_Name sat = n"
    and db': "db' = db\<lparr>db_satellites := db_satellites db @ [sat], db_next := db_next db + 1\<rparr>"
    using assms(1) by (auto simp: CreateSatellite_def Let_def split: if_splits)
  have "db_next db \<notin> sat_ID ` set (db_satellites db)" "\<lparr>sg_SatelliteID = db_next db, sg_GroupID = i\<rparr> \<notin> set (db_satellite_groups db)" for i
    using assms(2) by (auto simp: wf_sites_def)
  then have "wf_sites db'" "members db' = members db" using assms(2) new by (auto simp: db' wf_sites_def members_def)
  then show ?thesis using new by (simp add: db')
qed

lemma AddSatelliteToGroup_sites:
  assumes "AddSatelliteToGroup (sat_ID s) (grp_ID g) db = Inr (x, db')" "wf_sites db" "s \<in> set (db_satellites db)" "g \<in> set (db_groups db)"
  shows "wf_sites db' \<and> db_satellites db' = db_satellites db \<and> db_groups db' = db_groups db \<and> members db' = insert (sat_Name s, grp_Name g) (members db)"
proof -
  have keys: "sat_ID t = sat_ID s \<Longrightarrow> t \<in> set (db_satellites db) \<Longrightarrow> t = s" "grp_ID h = grp_ID g \<Longrightarrow> h \<in> set (db_groups db) \<Longrightarrow> h = g" for t h
    using unique_rows[OF assms(2)] assms(3,4) by blast+
  have db': "db_satellites db' = db_satellites db" "db_groups db' = db_groups db" "db_next db' = db_next db"
    "set (db_satellite_groups db') = insert \<lparr>sg_SatelliteID = sat_ID s, sg_GroupID = grp_ID g\<rparr> (set (db_satellite_groups db))"
    using assms(1) by (auto simp: AddSatelliteToGroup_def Let_def split: if_splits)
  have "wf_sites db'" using assms(2-4) db' by (auto simp: wf_sites_def)
  moreover have "members db' = insert (sat_Name s, grp_Name g) (members db)"
    unfolding members_def db' using assms(3,4) keys by (auto; blast)
  ultimately show ?thesis using db' by simp
qed

lemma RemoveSatelliteFromGroup_sites:
  assumes "RemoveSatelliteFromGroup (sat_ID s) (grp_ID g) db = Inr (x, db')" "wf_sites db" "s \<in> set (db_satellites db)" "g \<in> set (db_groups db)"
  shows "wf_sites db' \<and> members db' = members db - {(sat_Name s, grp_Name g)}"
proof -
  have db': "db' = db\<lparr>db_satellite_groups := filter (\<lambda>x. \<not> (sg_SatelliteID x = sat_ID s \<and> sg_GroupID x = grp_ID g)) (db_satellite_groups db)\<rparr>"
    using assms(1) by (simp add: RemoveSatelliteFromGroup_def exec_def)
  have "wf_sites db'" using assms(2) by (simp add: db' wf_sites_def)
  moreover have "members db' = members db - {(sat_Name s, grp_Name g)}"
    using unique_rows[OF assms(2)] assms(3,4) by (auto simp: db' members_def; metis)
  ultimately show ?thesis by simp
qed

lemma DeleteSatelliteByName_sites:
  assumes "DeleteSatelliteByName n db = Inr (x, db')" "wf_sites db"
  shows "wf_sites db' \<and> members db' = {p \<in> members db. fst p \<noteq> n}"
proof -
  have db': "db' = without_satellites (\<lambda>s. sat_Name s = n) db" using assms(1) by (simp add: DeleteSatelliteByName_def exec_def)
  have "wf_sites db'" using assms(2) by (auto simp: db' without_satellites_def wf_sites_def Let_def distinct_map inj_on_def)
  moreover have "members db' = {p \<in> members db. fst p \<noteq> n}"
  proof -
    have "(\<forall>t\<in>set (db_satellites db). sat_Name t = n \<longrightarrow> sat_ID t \<noteq> sat_ID s) \<longleftrightarrow> sat_Name s \<noteq> n" if "s \<in> set (db_satellites db)" for s
      using unique_rows(1)[OF assms(2)] that by blast
    then show ?thesis by (auto simp: db' without_satellites_def members_def Let_def; blast)
  qed
  ultimately show ?thesis by simp
qed

lemma members_keys:
  "members db = {(sat_Name s, nm) |s nm gid. s \<in> set (db_satellites db) \<and> (gid, nm) \<in> set (map (\<lambda>g. (grp_ID g, grp_Name g)) (db_groups db)) \<and>
     \<lparr>sg_SatelliteID = sat_ID s, sg_GroupID = gid\<rparr> \<in> set (db_satellite_groups db)}"
  by (auto simp: members_def; blast)

lemma CreateGroup_sites:
  assumes "CreateGroup now n u ps db = Inr (x, db')" "wf_sites db"
  shows "wf_sites db' \<and> members db' = members db"
proof (cases "find_first (\<lambda>g. grp_Name g = n) (db_groups db)")
  case None
  then have "n \<notin> grp_Name ` set (db_groups db)" by (auto simp: find_first_None)
  then have new: "n \<notin> grp_Name ` set (db_groups db)" "grp_ID x = db_next db" "grp_Name x = n"
    and db': "db' = db\<lparr>db_groups := db_groups db @ [x], db_next := db_next db + 1\<rparr>"
    using assms(1) None by (auto simp: CreateGroup_def Let_def)
  have "db_next db \<notin> grp_ID ` set (db_groups db)" "\<lparr>sg_SatelliteID = i, sg_GroupID = db_next db\<rparr> \<notin> set (db_satellite_groups db)" for i
    using assms(2) by (auto simp: wf_sites_def)
  then show ?thesis using assms(2) new by (auto simp: db' wf_sites_def members_def)
next
  case (Some g)
  then have g: "g \<in> set (db_groups db)" "grp_Name g = n" using find_first_Some by fastforce+
  then have same: "grp_Name y = n \<Longrightarrow> y = g" if "y \<in> set (db_groups db)" for y
    using unique_rows(2)[OF assms(2)] that by metis
  let ?f = "\<lambda>y. if grp_Name y = n then g\<lparr>grp_RegistryUrl := u, grp_Projects := ps, grp_UpdatedAt := now\<rparr> else y"
  have db': "db' = db\<lparr>db_groups := map ?f (db_groups db)\<rparr>" using assms(1) Some by (auto simp: CreateGroup_def Let_def)
  have keys: "grp_ID (?f y) = grp_ID y" "grp_Name (?f y) = grp_Name y" if "y \<in> set (db_groups db)" for y
    using same[OF that] by auto
  then have "map grp_ID (db_groups db') = map grp_ID (db_groups db)" "map grp_Name (db_groups db') = map grp_Name (db_groups db)"
    by (auto simp: db')
  then have "wf_sites db'" using assms(2) keys(1) g by (auto simp: wf_sites_def db' simp del: map_map)
  moreover have "map (\<lambda>g. (grp_ID g, grp_Name g)) (db_groups db') = map (\<lambda>g. (grp_ID g, grp_Name g)) (db_groups db)"
    using keys by (simp add: db')
  then have "members db' = members db" unfolding members_keys by (simp add: db')
  ultimately show ?thesis by simp
qed

section \<open>The handlers implement the specification\<close>

lemma txk_groups [txkeeps]: "tx_keeps f (group_projects e tx acc gs)" "tx_keeps f (fetchSatelliteConfig e tx i)" "tx_keeps f (update_robots e ps ss)"
proof -
  show "tx_keeps f (group_projects e tx acc gs)" by (induction gs arbitrary: acc) (auto intro!: txkeeps keeps)
  show "tx_keeps f (update_robots e ps ss)" by (induction ss) (auto intro!: txkeeps keeps)
  show "tx_keeps f (fetchSatelliteConfig e tx i)" unfolding fetchSatelliteConfig_def by (intro txkeeps keeps)
qed

lemma does_site_helpers [does]:
  "tx_does ok_sum now (\<lambda>_ db db'. db' = db) (group_projects e tx acc gs)"
  "tx_does ok_sum now (\<lambda>_ db db'. db' = db) (fetchSatelliteConfig e tx i)"
  "tx_does ok_sum now (\<lambda>_ db db'. db' = db) (update_robots e ps ss)"
  "tx_does ok_sum now (\<lambda>_ db db'. db' = db) (CreateStateArtifact e sa)"
  "tx_does ok_sum now (\<lambda>_ db db'. db' = db) (CreateAndPushConfigStateArtifact e cfg n)"
  "tx_does ok_sum now (\<lambda>_ db db'. db' = db) (DeleteArtifact e u)"
  "tx_does ok_sum now (\<lambda>_ db db'. db' = db) (db_call e (GetRobotAccBySatelliteID i))"
  by (rule does_tx_keeps; intro keeps txkeeps)+

lemma does_delete_robot [does]: "tx_does ok_sum now (\<lambda>_ db db'. db' = db) (harbor_DeleteRobotAccount e i)"
  by (rule does_tx_keeps) (simp_all add: harbor_DeleteRobotAccount_def keeps txkeeps)

lemma store_sites: "tx_does ok_sum now (\<lambda>_ db db'. sites_kept db db') (storeRobotAccountInDB e n h rid i ex)"
  unfolding storeRobotAccountInDB_def by (rule does_mono, (rule does)+) (auto dest: queries_keep_sites(1))

lemma reads_keep:
  "GetConfigByName cn db = Inr (c, db') \<Longrightarrow> db' = db" "SatelliteGroupList i db = Inr (l, db') \<Longrightarrow> db' = db"
  "GroupSatelliteList i db = Inr (l, db') \<Longrightarrow> db' = db" "GetRobotAccBySatelliteID i db = Inr (rb, db') \<Longrightarrow> db' = db"
  "GetSatelliteByName n db = Inr (sat, db') \<Longrightarrow> db' = db \<and> sat \<in> set (db_satellites db) \<and> sat_Name sat = n"
  "GetGroupByName n db = Inr (grp, db') \<Longrightarrow> db' = db \<and> grp \<in> set (db_groups db) \<and> grp_Name grp = n"
  by (auto simp: GetConfigByName_def SatelliteGroupList_def GroupSatelliteList_def GetRobotAccBySatelliteID_def GetSatelliteByName_def
      GetGroupByName_def select_one_def select_many_def split: option.splits dest: find_first_Some)

lemma register_robot_sites: "tx_does ok_sum now (\<lambda>_ db db'. sites_kept db db') (register_robot e req sat sts rbt)"
  unfolding register_robot_def
  by (rule does_mono, (rule does store_sites)+)
    (auto dest!: reads_keep(1) queries_keep_sites(2,3) simp: sites_kept_def)

definition joins :: "int \<Rightarrow> string set \<Rightarrow> 'j db \<Rightarrow> 'j db \<Rightarrow> bool" where
  "joins sid gs db db' = (\<forall>sat\<in>set (db_satellites db). sat_ID sat = sid \<longrightarrow> wf_sites db \<longrightarrow>
     wf_sites db' \<and> db_satellites db' = db_satellites db \<and> members db' = members db \<union> {sat_Name sat} \<times> gs)"

lemma add_to_groups_joins: "tx_does ok_sum now (\<lambda>_. joins sid (set gs)) (add_to_groups e sid sts gs)"
proof (induction gs arbitrary: sts)
  case Nil
  show ?case by (simp add: joins_def) (rule does_mono, rule does, simp)
next
  case (Cons g gs)
  have rep: "tx_does ok_sum now (\<lambda>_ db db'. db' = db) (ListReplication e n)" for n
    by (rule does_tx_keeps; intro keeps txkeeps)
  show ?case
    unfolding add_to_groups.simps
    by (rule does_mono, (rule does rep Cons.IH)+)
      (auto dest!: reads_keep(6) simp: joins_def dest: AddSatelliteToGroup_sites)
qed

definition moves :: "((string \<times> string) set \<Rightarrow> (string \<times> string) set) \<Rightarrow> 'j db \<Rightarrow> 'j db \<Rightarrow> bool" where
  "moves f db db' = (wf_sites db \<longrightarrow> wf_sites db' \<and> members db' = f (members db))"

lemma sites_kept_moves: "sites_kept db db' \<Longrightarrow> moves (\<lambda>M. M) db db'"
  using sites_keptD by (auto simp: moves_def)

lemma body_moves:
  "tx_does ok_body now (\<lambda>_. moves (member_spec (RegisterSatellite (Some req)))) (register_body e req)"
  "tx_does ok_body now (\<lambda>_. moves (member_spec (RemoveSatellite n))) (delete_satellite_body e n)"
  "tx_does ok_body now (\<lambda>_. moves (member_spec (LeaveGroup g n))) (remove_from_group_body e g n)"
  "tx_does ok_body now (\<lambda>_ db db'. sat \<in> set (db_satellites db) \<longrightarrow> grp \<in> set (db_groups db) \<longrightarrow>
      moves (insert (sat_Name sat, grp_Name grp)) db db') (add_to_group_body e sat grp)"
  "tx_does ok_body now (\<lambda>_. moves (\<lambda>M. M)) (groups_sync_body e sa)"
proof -
  have join: "tx_does ok_sum now (\<lambda>_. joins i (case gs of None \<Rightarrow> {} | Some gs \<Rightarrow> set gs)) (addSatelliteToGroups e gs i)" for gs i
  proof (cases gs)
    case None
    then show ?thesis unfolding addSatelliteToGroups_def by simp (rule does_mono, rule does, simp add: joins_def)
  next
    case (Some xs)
    then show ?thesis unfolding addSatelliteToGroups_def using add_to_groups_joins by simp
  qed
  show "tx_does ok_body now (\<lambda>_. moves (member_spec (RegisterSatellite (Some req)))) (register_body e req)"
    unfolding register_body_def
    by (rule does_mono, (rule does_check does_now does_tx_call join does_harbor does_ret never_ok_intros register_robot_sites)+)
      (auto dest!: CreateSatellite_sites sites_keptD simp: moves_def joins_def)
  show "tx_does ok_body now (\<lambda>_. moves (member_spec (RemoveSatellite n))) (delete_satellite_body e n)"
    unfolding delete_satellite_body_def delete_failed_def
    by (rule does_mono, (rule does)+)
      (auto dest!: reads_keep DeleteSatelliteByName_sites simp: moves_def)
  show "tx_does ok_body now (\<lambda>_. moves (member_spec (LeaveGroup g n))) (remove_from_group_body e g n)"
    unfolding remove_from_group_body_def
    by (rule does_mono, (rule does)+)
      (auto dest!: reads_keep RemoveSatelliteFromGroup_sites simp: moves_def)
  show "tx_does ok_body now (\<lambda>_ db db'. sat \<in> set (db_satellites db) \<longrightarrow> grp \<in> set (db_groups db) \<longrightarrow>
      moves (insert (sat_Name sat, grp_Name grp)) db db') (add_to_group_body e sat grp)"
    unfolding add_to_group_body_def
    by (rule does_mono, (rule does)+)
      (auto dest!: reads_keep AddSatelliteToGroup_sites simp: moves_def)
  show "tx_does ok_body now (\<lambda>_. moves (\<lambda>M. M)) (groups_sync_body e sa)"
    unfolding groups_sync_body_def Let_def
    by (rule does_mono, (rule does)+)
      (auto dest!: reads_keep CreateGroup_sites simp: moves_def)
qed

lemma config_moves:
  "tx_does ok_body now (\<lambda>_. moves (\<lambda>M. M)) (create_config_body e co)"
  "tx_does ok_body now (\<lambda>_. moves (\<lambda>M. M)) (update_config_body e mp n up)"
  "tx_does ok_body now (\<lambda>_. moves (\<lambda>M. M)) (set_config_body e sn cn)"
proof -
  show "tx_does ok_body now (\<lambda>_. moves (\<lambda>M. M)) (create_config_body e co)"
    unfolding create_config_body_def
    by (rule does_mono, (rule does | simp only: if_distrib[of "never_ok ok_body"] if_bool_eq_conj, intro conjI impI)+)
      (auto dest!: queries_keep_sites(4) sites_kept_moves)
  show "tx_does ok_body now (\<lambda>_. moves (\<lambda>M. M)) (update_config_body e mp n up)"
    unfolding update_config_body_def
    by (rule does_mono, (rule does | simp only: if_distrib[of "never_ok ok_body"] if_bool_eq_conj, intro conjI impI)+)
      (auto dest!: reads_keep(1) queries_keep_sites(5) sites_kept_moves)
  have set: "tx_does ok_sum now (\<lambda>_ db db'. sites_kept db db') (set_satellite_config e True sn cn)"
    unfolding set_satellite_config_def q_call_def if_True
    by (rule does_mono, (rule does)+) (auto dest!: reads_keep queries_keep_sites(2))
  show "tx_does ok_body now (\<lambda>_. moves (\<lambda>M. M)) (set_config_body e sn cn)"
    unfolding set_config_body_def
    by (rule does_mono, (rule does set)+) (auto dest!: reads_keep(2) sites_kept_moves)
qed

lemma lefts_admin [does]:
  "lefts_bad left_body ok_success (register_body e req)" "lefts_bad left_body ok_success (delete_satellite_body e n)"
  "lefts_bad left_body ok_success (remove_from_group_body e g n)" "lefts_bad left_body ok_success (add_to_group_body e sat grp)"
  "lefts_bad left_body ok_success (groups_sync_body e sa)" "lefts_bad left_body ok_success (create_config_body e' co)"
  "lefts_bad left_body ok_success (update_config_body e' mp n up)" "lefts_bad left_body ok_success (set_config_body e sn cn)"
proof -
  have "lefts_bad left_sum ok_success (register_robot e req sat sts rbt)" for sat sts rbt
    unfolding register_robot_def by (intro does ok_success_errors)
  then show "lefts_bad left_body ok_success (register_body e req)"
    unfolding register_body_def by (intro lefts_pass does ok_success_errors)
  show "lefts_bad left_body ok_success (delete_satellite_body e n)" "lefts_bad left_body ok_success (remove_from_group_body e g n)"
    "lefts_bad left_body ok_success (add_to_group_body e sat grp)" "lefts_bad left_body ok_success (groups_sync_body e sa)"
    "lefts_bad left_body ok_success (create_config_body e' co)" "lefts_bad left_body ok_success (update_config_body e' mp n up)"
    "lefts_bad left_body ok_success (set_config_body e sn cn)"
    unfolding delete_satellite_body_def delete_failed_def remove_from_group_body_def add_to_group_body_def groups_sync_body_def
      create_config_body_def update_config_body_def set_config_body_def Let_def
    by (intro does ok_success_errors)+
qed

lemma no_content_does [does]: "db_does ok_success now R m \<Longrightarrow> db_does ok_success now R (no_content m)"
proof (rule does_relI)
  fix w x v y assume d: "db_does ok_success now R m" and now: "w_now w = now" and run: "run_state (no_content m) w = (x, v)" and ok: "ok_success x = Some y"
  obtain x' where "run_state m w = (x', v)" "x = map_response (\<lambda>_. ()) x'"
    using run by (auto simp: no_content_def split: prod.splits)
  moreover from this ok have "ok_success x' = Some y" by (simp add: ok_success_def split: if_splits)
  ultimately show "w_now v = now \<and> (\<forall>db'. db_view v = Some db' \<longrightarrow> (\<exists>db. db_view w = Some db \<and> R y db db'))"
    using does_relD[OF d _ now] by blast
qed

lemma db_reads [does]:
  "db_does ok_sum now (\<lambda>_ db db'. db' = db) (IsRobotPresent e n)"
  by (rule does_db_keeps; intro keeps)

lemma already_member:
  assumes "CheckSatelliteInGroup (sat_ID s) (grp_ID g) db = Inr (b, db')" "s \<in> set (db_satellites db)" "g \<in> set (db_groups db)"
  shows "db' = db \<and> (b \<longrightarrow> insert (sat_Name s, grp_Name g) (members db) = members db)"
proof -
  have "x = \<lparr>sg_SatelliteID = sg_SatelliteID x, sg_GroupID = sg_GroupID x\<rparr>" for x :: satellite_group_row by simp
  then show ?thesis
    using assms by (auto simp: CheckSatelliteInGroup_def members_def; metis)
qed

lemma commit_errors [simp]: "ok_success (commit_error err) = None" "ok_success (begin_error err) = None"
  "ok_success (config_begin_error err) = None" "ok_success (config_commit_error err) = None" "ok_success (invalid_name k) = None"
  "ok_success invalid_config_name = None"
  by (simp_all add: commit_error_def begin_error_def config_begin_error_def config_commit_error_def invalid_name_def invalid_config_name_def)

lemma joined:
  assumes "GetSatelliteByName sn db = Inr (s, d1)" "GetGroupByName gn d1 = Inr (g, d2)"
    and "CheckSatelliteInGroup (sat_ID s) (grp_ID g) d2 = Inr (b, d3)"
    and "if b then db' = d3 else \<exists>(x :: unit) d4. (s \<in> set (db_satellites d3) \<longrightarrow> g \<in> set (db_groups d3) \<longrightarrow>
      moves (insert (sat_Name s, grp_Name g)) d3 d4) \<and> db' = d4"
  shows "moves (insert (sn, gn)) db db'"
proof -
  note found = reads_keep(5)[OF assms(1)] reads_keep(6)[OF assms(2)]
  then have "d3 = db \<and> (b \<longrightarrow> insert (sn, gn) (members db) = members db)" using already_member[of s g db b d3] assms(3) by auto
  then show ?thesis using assms(4) found by (cases b) (auto simp: moves_def)
qed

lemma join_moves: "db_does ok_success now (\<lambda>_. moves (member_spec (JoinGroup body))) (addSatelliteToGroup e body)"
proof (cases body)
  case None
  show ?thesis
    unfolding None addSatelliteToGroup_def DecodeRequestBody_def option.simps sum.simps
    by (rule does_mono, rule does_success, simp)
next
  case (Some req)
  have spec: "member_spec (JoinGroup (Some req)) = insert (sgp_Satellite req, sgp_Group req)" by (rule ext) simp
  show ?thesis
    unfolding Some spec addSatelliteToGroup_def DecodeRequestBody_def invalid_name_def option.simps sum.simps
    by (rule does_mono, (rule does body_moves keeps ok_success_errors commit_errors)+)
      (cases "IsValidName (sgp_Satellite req)"; simp only: not_True_eq_False not_False_eq_True if_False if_True; elim exE conjE; rule joined; assumption)
qed

lemma serve_moves: "db_does ok_success now (\<lambda>_. moves (member_spec req)) (serve_admin e mp r req)"
proof (cases req)
  case (RegisterSatellite body)
  show ?thesis
    unfolding RegisterSatellite serve_admin.simps registerSatelliteHandler_def invalid_name_def
    by (rule does_mono, (rule does body_moves keeps ok_success_errors commit_errors)+)
      (auto simp: DecodeRequestBody_def split: if_splits option.splits)
next
  case (RemoveSatellite n)
  show ?thesis
    unfolding RemoveSatellite serve_admin.simps deleteSatelliteByNameHandler_def
    by (rule does_mono, (rule does body_moves keeps ok_success_errors commit_errors)+) auto
next
  case (JoinGroup body)
  show ?thesis unfolding JoinGroup serve_admin.simps by (rule no_content_does join_moves)+
next
  case (LeaveGroup g n)
  show ?thesis
    unfolding LeaveGroup serve_admin.simps removeSatelliteFromGroup_def
    by (rule does_mono, (rule does body_moves keeps ok_success_errors commit_errors)+) auto
next
  case (SyncGroup body)
  show ?thesis
    unfolding SyncGroup serve_admin.simps groupsSyncHandler_def
    by (rule does_mono, (rule does body_moves keeps ok_success_errors commit_errors)+) (auto simp: moves_def)
next
  case (NewConfig body)
  show ?thesis
    unfolding NewConfig serve_admin.simps createConfigHandler_def invalid_config_name_def
    by (rule does_mono, (rule does config_moves keeps ok_success_errors commit_errors)+) (auto simp: moves_def split: if_splits)
next
  case (PatchConfig n body)
  show ?thesis
    unfolding PatchConfig serve_admin.simps updateConfigHandler_def invalid_config_name_def
    by (rule does_mono, (rule does config_moves keeps ok_success_errors commit_errors)+) (auto simp: moves_def split: if_splits)
next
  case (AssignConfig body)
  show ?thesis
    unfolding AssignConfig serve_admin.simps setSatelliteConfigHandler_def
    by (rule does_mono, (rule does config_moves keeps ok_success_errors commit_errors)+) (auto simp: moves_def)
qed

text \<open>
  C4. The handlers implement the membership of satellites in groups. On a database with unique identifiers and
  names, a request that succeeds changes the relation between the names of satellites and groups exactly as its specification says
  (registration adds the satellite to the groups it names, deletion removes its pairs, joining and leaving add and remove one pair, the
  others leave the relation alone), a request that does not succeed changes nothing, and the database stays well formed.
\<close>

theorem membership_refined:
  assumes "run_state (serve_admin e mp r req) w = (resp, w')" "wf_sites (w_db w)"
  shows "members (w_db w') = (if success resp then member_spec req (members (w_db w)) else members (w_db w)) \<and> wf_sites (w_db w')"
proof (cases "success resp")
  case True
  then have "moves (member_spec req) (w_db w) (w_db w')"
    using db_doesD[OF serve_moves assms(1), of "()"] by (simp add: ok_success_def)
  then show ?thesis using True assms(2) by (simp add: moves_def)
next
  case False
  then have "w_db w' = w_db w"
    using admin.handler_atomic[of e mp r req, unfolded atomic_def, rule_format, of w] assms(1) by simp
  then show ?thesis using False assms(2) by simp
qed

definition sample_members :: "json db" where
  "sample_members = sample_sites\<lparr>db_groups := [\<lparr>grp_ID = 8, grp_Name = ''eu'', grp_RegistryUrl = ''h'', grp_Projects = [''p''],
     grp_CreatedAt = 0, grp_UpdatedAt = 0\<rparr>], db_satellite_groups := [\<lparr>sg_SatelliteID = 5, sg_GroupID = 8\<rparr>], db_next := 9\<rparr>"

lemma sample_remove:
  "\<exists>w'. run_state (serve_admin sample_env (\<lambda>a b. Inr a) sample_request (RemoveSatellite ''edge''))
     ((sample_site_world 10)\<lparr>w_db := sample_members\<rparr>) = (JSONReply 200 (), w')"
proof -
  have robot: "ParseInt64 ''1'' = Inr 1" by (simp add: ParseInt64_def digits_value_def dec_digit_def)
  show ?thesis
    by (simp add: deleteSatelliteByNameHandler_def delete_satellite_body_def with_tx_def respond_def accept_def run_check_err harbor_ops harbor_op_def
        wrap_err_def gc_prims sample_members_def sample_site_parts robot GetSatelliteByName_def GetRobotAccBySatelliteID_def DeleteSatelliteByName_def
        select_one_def exec_def Harbor_Validate_def auditEvent_def responses Let_def count_call_def)
qed

theorem membership_refined_witness:
  "members sample_members = {(''edge'', ''eu'')} \<and>
   (\<exists>w' :: (json, harbor_robot list) gc_world. fst (run_state (serve_admin sample_env (\<lambda>a b. Inr a) sample_request (RemoveSatellite ''edge''))
      ((sample_site_world 10)\<lparr>w_db := sample_members\<rparr>)) = JSONReply 200 () \<and> members (w_db w') = {} \<and> wf_sites (w_db w'))"
proof -
  have m: "members sample_members = {(''edge'', ''eu'')}" by (simp add: members_def sample_members_def sample_sites_def sample_edge_def)
  have wf: "wf_sites (w_db ((sample_site_world 10)\<lparr>w_db := sample_members\<rparr>))"
    by (simp add: wf_sites_def sample_members_def sample_sites_def sample_edge_def)
  obtain w' where run: "run_state (serve_admin sample_env (\<lambda>a b. Inr a) sample_request (RemoveSatellite ''edge''))
      ((sample_site_world 10)\<lparr>w_db := sample_members\<rparr>) = (JSONReply 200 (), w')"
    using sample_remove by blast
  have "members (w_db w') = {}" "wf_sites (w_db w')"
    using membership_refined[OF run wf] m by auto
  with m run show ?thesis by auto
qed

end
