(* ===== verification/Onboarded.thy ===== *)
theory Onboarded
  imports Reporting GC_Admin
begin

text \<open>
  The satellite and ground control together: the registration process of \<open>Registration\<close> talking to the handler of
  \<open>GC_Satellites\<close>, and the reports of \<open>Reporting\<close> arriving at the middleware of \<open>GC_Auth\<close>.
\<close>

definition delivers :: "reg_env \<Rightarrow> config_manager \<Rightarrow> state_config \<Rightarrow> bool" where
  \<comment> \<open>the network carries the answer of ground control to the registration request, and the
      decoder inverts its encoding\<close>
  "delivers E cm sc = (\<forall>resp. registration_request E cm resp \<longrightarrow> re_decode E (cr_Body resp) = Inr sc)"

lemma IsValidName_plain: "IsValidName name \<Longrightarrow> plain name \<and> CHR ''/'' \<notin> set name"
proof -
  assume "IsValidName name"
  then have c: "name_char c \<or> c \<in> {CHR ''.'', CHR ''_'', CHR ''-''}" if "c \<in> set name" for c
    using that by (cases name) (auto simp: IsValidName_def list_all_iff split: if_splits)
  have "\<not> is_ctl c \<and> c \<noteq> CHR ''#'' \<and> c \<noteq> CHR ''?'' \<and> c \<noteq> CHR ''/''" if "c \<in> set name" for c
    using c[OF that] by (auto simp: name_char_def dec_digit_def is_ctl_def Let_def)
  then show ?thesis by (auto simp: plain_def)
qed

lemma find_first_key:
  assumes "x \<in> set xs" "distinct (map f xs)"
  shows "find_first (\<lambda>y. f y = f x) xs = Some x"
  using assms by (induction xs) (auto simp: image_iff)

lemma robot_accepted:
  assumes "no_faults e" "distinct (map rob_Name (db_robots (w_db v)))" "distinct (map sat_ID (db_satellites (w_db v)))"
    and "rb \<in> set (db_robots (w_db v))" "sat \<in> set (db_satellites (w_db v))" "rob_SatelliteID rb = sat_ID sat"
    and "VerifySecret (ge_argon e) pw (rob_SecretHash rb)" "\<And>t. rob_Expiry rb = Some t \<Longrightarrow> w_now v \<le> t"
  shows "run_state (validateRobotAuth e (rob_Name rb) pw) v = (Inr (sat_Name sat), count_call (count_call v))"
  using find_first_key[OF assms(4,2)] find_first_key[OF assms(5,3)] assms(1,6,7) assms(8)
  by (cases "rob_Expiry rb") (fastforce simp: validateRobotAuth_def run_check_err db_call_def no_faults_def GetRobotAccByRobotName_def
      GetSatellite_def select_one_def count_call_def)+

text \<open>
  C3. A satellite that registered can report. When ground control answers the registration request with a
  configuration, the network delivers it and \<^verbatim>\<open>ZtrProcess.Execute\<close> succeeds without a Harbor override, then the
  state address in the satellite's configuration names one registered satellite: the reporting process reads that
  satellite's name from it; and while the robot account has not expired, a request with the credentials the
  satellite now holds passes \<^verbatim>\<open>SatelliteAuthMiddleware\<close> and is handled under exactly that name. Ground
  control knows Harbor by an absolute URL and does not skip Harbor, names in its database are valid and unique, and
  no database call fails.
\<close>

theorem satellite_onboarded:
  assumes "\<And>s salt t m p n. length (ge_argon e s salt t m p n) = n"
    and "run_state (ztrHandler e r (GetToken (zp_cm z))) w = (JSONReply 200 sc, w')"
    and "delivers E (zp_cm z) sc" "ztr_Execute E z = Value (z', Inr ())" "fst (ztr_CanExecute (zp_cm z))"
    and "GetHarborRegistryURL (zp_cm z) = []" "\<not> he_SkipHealthCheck (srv_Harbor (ge_server e))"
    and "he_URL (srv_Harbor (ge_server e)) = abs_url scheme host []" "good_scheme scheme" "good_host host"
    and "\<And>sat. sat \<in> set (db_satellites (w_db w')) \<Longrightarrow> IsValidName (sat_Name sat)"
    and "distinct (map rob_Name (db_robots (w_db w')))" "distinct (map sat_ID (db_satellites (w_db w')))"
    and "no_faults e" "w_db v = w_db w'" "rq_satellite q = None"
    and "extractBasicAuth q = Some (GetSourceRegistryUsername (zp_cm z'), GetSourceRegistryPassword (zp_cm z'))"
  shows "\<exists>sat rb. sat \<in> set (db_satellites (w_db w')) \<and> rb \<in> set (db_robots (w_db w')) \<and> rob_SatelliteID rb = sat_ID sat \<and>
    extractSatelliteNameFromURL (GetStateURL (zp_cm z')) = Inr (sat_Name sat) \<and>
    ((\<forall>t. rob_Expiry rb = Some t \<longrightarrow> w_now v \<le> t) \<longrightarrow>
      run_state (SatelliteAuthMiddleware e next q) v =
        run_state (next (q\<lparr>rq_satellite := Some (sat_Name sat)\<rparr>)) (count_call (count_call v)))"
proof -
  obtain t sat rb where g: "sat \<in> set (db_satellites (w_db w'))" "sc_StateURL sc = AssembleSatelliteState (ge_server e) (sat_Name sat)"
    "rb \<in> set (db_robots (w_db w'))" "rob_SatelliteID rb = sat_ID sat" "rob_Name rb = rc_Username (sc_RegistryCredentials sc)"
    "VerifySecret (ge_argon e) (rc_Password (sc_RegistryCredentials sc)) (rob_SecretHash rb)"
    using ztr_reply[OF assms(1,2)] assms(7) by metis
  have st: "GetStateConfig (zp_cm z') = sc"
    by (rule ztr_Execute_adopts[OF assms(4,5)])
       (use assms(3,6) in \<open>auto simp: delivers_def with_override_def GetStateConfig_def\<close>)
  have name: "extractSatelliteNameFromURL (GetStateURL (zp_cm z')) = Inr (sat_Name sat)"
    using extract_assembled[OF assms(9,10)] IsValidName_plain[OF assms(11)[OF g(1)]] g(2) st
    by (simp add: GetStateURL_def GetStateConfig_def AssembleSatelliteState_def assms(8) abs_url_def)
  have cred: "GetSourceRegistryUsername (zp_cm z') = rob_Name rb" "GetSourceRegistryPassword (zp_cm z') = rc_Password (sc_RegistryCredentials sc)"
    using st g(5) by (simp_all add: GetSourceRegistryUsername_def GetSourceRegistryPassword_def GetStateConfig_def)
  have "run_state (SatelliteAuthMiddleware e next q) v =
      run_state (next (q\<lparr>rq_satellite := Some (sat_Name sat)\<rparr>)) (count_call (count_call v))"
    if "\<forall>t. rob_Expiry rb = Some t \<longrightarrow> w_now v \<le> t"
    using robot_accepted[OF assms(14), of v rb sat "rc_Password (sc_RegistryCredentials sc)"] assms(12,13,15-17) g that
    by (simp add: SatelliteAuthMiddleware_def cred run_check_err)
  then show ?thesis using g(1,3,4) name by blast
qed

definition sample_answer :: state_config where
  "sample_answer = state_result ''https://h/satellite/satellite-state/edge/state:latest'' ''robot'' ''fresh'' ''https://h''"

definition sample_onboarding :: reg_env where
  "sample_onboarding = (sample_reg_env sample_ok)\<lparr>re_decode := (\<lambda>_. Inr sample_answer)\<rparr>"

theorem satellite_onboarded_witness:
  "\<exists>w' z'. ztr_Execute sample_onboarding (NewZtrProcess (sample_cm\<lparr>cm_Token := ''once''\<rparr>) (\<lambda>_. Missing)) = Value (z', Inr ()) \<and>
     extractSatelliteNameFromURL (GetStateURL (zp_cm z')) = Inr ''edge'' \<and>
     fst (run_state (SatelliteAuthMiddleware (sample_env_at ''https://h'') (\<lambda>r. ret (JSONReply 200 (rq_satellite r)))
       (sample_request\<lparr>rq_Authorization := ''Basic cm9ib3Q6ZnJlc2g=''\<rparr>)) w') = JSONReply 200 (Some ''edge'')"
proof -
  let ?e = "sample_env_at ''https://h''" and ?z = "NewZtrProcess (sample_cm\<lparr>cm_Token := ''once''\<rparr>) (\<lambda>_. Missing)"
  let ?q = "sample_request\<lparr>rq_Authorization := ''Basic cm9ib3Q6ZnJlc2g=''\<rparr>"
  obtain w' where run: "run_state (ztrHandler ?e sample_request (GetToken (zp_cm ?z))) (sample_site_world 10) = (JSONReply 200 sample_answer, w')"
    and db: "map rob_Name (db_robots (w_db w')) = [''robot'']" "map rob_Expiry (db_robots (w_db w')) = [None]" "db_satellites (w_db w') = [sample_edge]"
    using sample_ztr_at[of "''https://h''"]
    by (auto simp: sample_answer_def sample_env_at_def AssembleSatelliteState_def NewZtrProcess_def GetToken_def)
  have len: "length (ge_argon ?e s salt t m p n) = n" for s salt t m p n
    by (simp add: sample_env_at_def GC_Auth.sample_env_def sample_argon_length)
  have "case ztr_Execute sample_onboarding ?z of Value (z', Inr _) \<Rightarrow>
      GetSourceRegistryUsername (zp_cm z') = ''robot'' \<and> GetSourceRegistryPassword (zp_cm z') = ''fresh'' | _ \<Rightarrow> False" by code_simp
  then obtain z' where z': "ztr_Execute sample_onboarding ?z = Value (z', Inr ())"
    "GetSourceRegistryUsername (zp_cm z') = ''robot''" "GetSourceRegistryPassword (zp_cm z') = ''fresh''"
    using go_ok_cases[where Q = "\<lambda>z'. GetSourceRegistryUsername (zp_cm z') = ''robot'' \<and> GetSourceRegistryPassword (zp_cm z') = ''fresh''"] by blast
  have can: "fst (ztr_CanExecute (zp_cm ?z))" "GetHarborRegistryURL (zp_cm ?z) = []" by code_simp+
  have dl: "delivers sample_onboarding (zp_cm ?z) sample_answer" by (simp add: delivers_def sample_onboarding_def)
  have srv: "\<not> he_SkipHealthCheck (srv_Harbor (ge_server ?e))" "he_URL (srv_Harbor (ge_server ?e)) = abs_url ''https'' ''h'' []" "no_faults ?e"
    by (simp_all add: sample_env_at_def GC_Auth.sample_env_def sample_server_def abs_url_def no_faults_def)
  have url: "good_scheme ''https''" "good_host ''h''" by code_simp+
  have names: "\<And>sat. sat \<in> set (db_satellites (w_db w')) \<Longrightarrow> IsValidName (sat_Name sat)" "distinct (map sat_ID (db_satellites (w_db w')))"
    "distinct (map rob_Name (db_robots (w_db w')))"
    unfolding db by (simp_all add: sample_edge_def IsValidName_def name_char_def)
  have q: "rq_satellite ?q = None" "extractBasicAuth ?q = Some (GetSourceRegistryUsername (zp_cm z'), GetSourceRegistryPassword (zp_cm z'))"
    unfolding z'(2,3) by code_simp+
  obtain sat rb where on: "sat \<in> set (db_satellites (w_db w'))" "rb \<in> set (db_robots (w_db w'))"
    "extractSatelliteNameFromURL (GetStateURL (zp_cm z')) = Inr (sat_Name sat)"
    "(\<forall>t. rob_Expiry rb = Some t \<longrightarrow> w_now w' \<le> t) \<longrightarrow>
      run_state (SatelliteAuthMiddleware ?e (\<lambda>r. ret (JSONReply 200 (rq_satellite r))) ?q) w' =
        run_state (ret (JSONReply 200 (rq_satellite (?q\<lparr>rq_satellite := Some (sat_Name sat)\<rparr>)))) (count_call (count_call w'))"
    using satellite_onboarded[OF len run dl z'(1) can srv(1,2) url names(1,3,2) srv(3) refl q] by blast
  have "rob_Expiry rb = None" using on(2) db(2) by (auto simp: image_iff dest: arg_cong[where f = set])
  moreover have "sat_Name sat = ''edge''" using on(1) db(3) by (simp add: sample_edge_def)
  ultimately show ?thesis using z'(1) on(3,4) by (intro exI[of _ w'] exI[of _ z']) simp
qed

section \<open>Intervals\<close>

text \<open>
  A heartbeat interval that ground control accepts can be scheduled by the satellite. Its canonical text
  makes a scheduler, without an error and without a panic, whose interval is the duration that was asked for, a positive whole number of
  seconds; and normalising the text again changes nothing.
\<close>

theorem heartbeat_interval_schedulable:
  assumes "normalizeHeartbeatInterval s = Inr t" "s \<noteq> []"
  shows "\<exists>sched d. NewSchedulerWithInterval P t p = Value (Inr sched) \<and> GetInterval sched = d \<and> sc_ticker sched = Some d \<and>
    ParseDuration (drop 7 s) = Inr d \<and> second \<le> d \<and> d mod second = 0 \<and> normalizeHeartbeatInterval t = Inr t"
proof -
  from normalizeHeartbeatInterval_canonical[OF assms]
  obtain d where d: "ParseDuration (drop 7 s) = Inr d" "second \<le> d" "d mod second = 0" "hasPrefix t ''@every ''"
    "ParseDuration (drop 7 t) = Inr d" "normalizeHeartbeatInterval t = Inr t"
    by (elim exE conjE)
  have "trimPrefix t every_prefix = drop 7 t" using every_trim[OF d(4)] by (simp add: every_prefix_def)
  moreover have "t \<noteq> []" using d(4) by (auto simp: hasPrefix_def)
  ultimately have "parseEveryExpr t = Inr d" using d(4,5) by (simp add: parseEveryExpr_def every_prefix_def)
  moreover have "0 < d" using d(2) by (simp add: second_def)
  moreover define sched where "sched = \<lparr>sc_name = po_Name P, sc_ticker = Some d, sc_process = p, sc_interval = d,
      sc_wg = 0, sc_loop = NotStarted, sc_launched = 0, sc_executing = 0, sc_returning = 0, sc_cancelled = False\<rparr>"
  ultimately have "NewSchedulerWithInterval P t p = Value (Inr sched)" by (simp add: NewSchedulerWithInterval_def NewTicker_def)
  moreover have "GetInterval sched = d" "sc_ticker sched = Some d" by (simp_all add: sched_def GetInterval_def)
  ultimately show ?thesis using d by (intro exI[of _ sched] exI[of _ d] conjI)
qed

theorem heartbeat_interval_schedulable_witness:
  "\<forall>p. \<exists>sched. NewSchedulerWithInterval (report_ops TYPE(nat)) ''@every 00h01m30s'' p = Value (Inr sched) \<and> GetInterval sched = 90 * second"
proof
  fix p
  obtain sched d where "NewSchedulerWithInterval (report_ops TYPE(nat)) ''@every 00h01m30s'' p = Value (Inr sched)" "GetInterval sched = d"
    "ParseDuration (drop 7 ''@every 90s'') = Inr d"
    using heartbeat_interval_schedulable[OF sample_interval(2) list.distinct(2), of "report_ops TYPE(nat)" p] by (elim exE conjE) (rule that)
  with sample_interval(1) show "\<exists>sched. NewSchedulerWithInterval (report_ops TYPE(nat)) ''@every 00h01m30s'' p = Value (Inr sched) \<and> GetInterval sched = 90 * second"
    by simp
qed

end
