(* ===== verification/Container_Runtime.thy ===== *)
theory Container_Runtime
  imports Reporting "HOL-Library.AList"
begin

text \<open>
  Pointing the container runtimes of the host at the local registry (\<^verbatim>\<open>internal/satellite/container_runtime\<close>), and the part of
  \<^verbatim>\<open>cmd/harbor-satellite/main.go\<close> that decides what is applied. Files are a partial map from paths to contents of any type; a
  \<open>file_env\<close> says which system calls fail, and with what left behind. TOML, JSON and the configuration library \<^verbatim>\<open>viper\<close> are arguments.
\<close>

section \<open>Files\<close>

type_synonym 'c files = "string \<Rightarrow> 'c option"

datatype 'c outcome = Done | NotOpened string | Partly 'c string
  \<comment> \<open>of writing a file: a failure may leave anything behind\<close>

record 'c file_env =
  fe_stat :: "string \<Rightarrow> string option" \<comment> \<open>an error other than that the file does not exist\<close>
  fe_read :: "string \<Rightarrow> string option"
  fe_write :: "string \<Rightarrow> 'c \<Rightarrow> 'c outcome"
  fe_sync :: "string \<Rightarrow> string option"
  fe_mkdir :: "string \<Rightarrow> string option"
  fe_restart :: "string option" \<comment> \<open>\<^verbatim>\<open>systemctl restart docker\<close>\<close>
  fe_remove :: "string \<Rightarrow> bool" \<comment> \<open>the file can be removed\<close>
  fe_timestamp :: "string \<Rightarrow> string" \<comment> \<open>when a file is backed up; a file that is backed up twice, in the same second\<close>

definition read_file :: "'c file_env \<Rightarrow> string \<Rightarrow> 'c files \<Rightarrow> 'c result" where
  "read_file F path fs =
     (case fs path of None \<Rightarrow> Inl ''no such file or directory'' | Some c \<Rightarrow> (case fe_read F path of Some err \<Rightarrow> Inl err | None \<Rightarrow> Inr c))"

definition write_file :: "'c file_env \<Rightarrow> string \<Rightarrow> 'c \<Rightarrow> 'c files \<Rightarrow> 'c files \<times> unit result" where
  "write_file F path c fs =
     (case fe_write F path c of
        Done \<Rightarrow> (fs(path \<mapsto> c), Inr ()) | NotOpened err \<Rightarrow> (fs, Inl err) | Partly part err \<Rightarrow> (fs(path \<mapsto> part), Inl err))"

definition copyFile :: "'c file_env \<Rightarrow> string \<Rightarrow> string \<Rightarrow> 'c files \<Rightarrow> 'c files \<times> unit result" where
  "copyFile F src dst fs =
     (case read_file F src fs of
        Inl err \<Rightarrow> (fs, Inl err)
      | Inr c \<Rightarrow> (case write_file F dst c fs of
          (fs, Inl err) \<Rightarrow> (fs, Inl err)
        | (fs, Inr _) \<Rightarrow> (fs, case fe_sync F dst of Some err \<Rightarrow> Inl err | None \<Rightarrow> Inr ())))"

definition backup_path :: "'c file_env \<Rightarrow> string \<Rightarrow> string" where
  "backup_path F path = path @ ''.bak.'' @ fe_timestamp F path"

definition backupFile :: "'c file_env \<Rightarrow> string \<Rightarrow> 'c files \<Rightarrow> 'c files \<times> string result" where
  \<comment> \<open>no backup, the empty path, for a file that does not exist\<close>
  "backupFile F path fs =
     (case fe_stat F path of
        Some err \<Rightarrow> (fs, Inl (''stat '' @ path @ '': '' @ err))
      | None \<Rightarrow>
          if fs path = None then (fs, Inr [])
          else (case copyFile F path (backup_path F path) fs of
                  (fs, Inl err) \<Rightarrow> (fs, Inl (''backup '' @ path @ '': '' @ err)) | (fs, Inr _) \<Rightarrow> (fs, Inr (backup_path F path))))"

definition restoreBackup :: "'c file_env \<Rightarrow> string \<Rightarrow> string \<Rightarrow> 'c files \<Rightarrow> 'c files \<times> unit result" where
  "restoreBackup F backupPath originalPath = copyFile F backupPath originalPath"

definition roll_back ::
  "'c file_env \<Rightarrow> string \<Rightarrow> string \<Rightarrow> (string \<Rightarrow> string) \<Rightarrow> string \<Rightarrow> 'c files \<Rightarrow> 'c files \<times> string \<times> unit result" where
  \<comment> \<open>what every writer does after a failure: \<open>rolled\<close> reports a rollback, which without a backup did not happen\<close>
  "roll_back F bk path failed rolled fs =
     (if bk = [] then (fs, bk, Inl rolled)
      else case restoreBackup F bk path fs of
        (fs, Inl err) \<Rightarrow> (fs, bk, Inl (failed err)) | (fs, Inr _) \<Rightarrow> (fs, bk, Inl rolled))"

definition with_http :: "string \<Rightarrow> string" where
  "with_http u = (if \<not> hasPrefix u ''http://'' \<and> \<not> hasPrefix u ''https://'' then ''http://'' @ u else u)"

section \<open>Docker\<close>

definition dockerConfigPath :: string where "dockerConfigPath = ''/etc/docker/daemon.json''"

record ('c, 'v) json_lib =
  jl_empty :: 'c \<comment> \<open>the text \<^verbatim>\<open>{}\<close>\<close>
  jl_read :: "'c \<Rightarrow> 'v result" \<comment> \<open>\<^verbatim>\<open>viper.ReadInConfig\<close>\<close>
  jl_mirrors :: "'v \<Rightarrow> string list" \<comment> \<open>\<^verbatim>\<open>GetStringSlice(registry-mirrors)\<close>\<close>
  jl_set_mirrors :: "string list \<Rightarrow> 'v \<Rightarrow> 'v"
  jl_text :: "'v \<Rightarrow> 'c" \<comment> \<open>what \<^verbatim>\<open>WriteConfigAs\<close> writes\<close>
  jl_Valid :: "'c \<Rightarrow> bool"

definition ParseBool :: "string \<Rightarrow> bool option" where
  "ParseBool s =
     (if s \<in> {''1'', ''t'', ''T'', ''TRUE'', ''true'', ''True''} then Some True
      else if s \<in> {''0'', ''f'', ''F'', ''FALSE'', ''false'', ''False''} then Some False else None)"

definition ensureDockerConfigFileExists :: "'c file_env \<Rightarrow> 'c \<Rightarrow> string \<Rightarrow> 'c files \<Rightarrow> 'c files \<times> unit result" where
  "ensureDockerConfigFileExists F blank path fs =
     (if fe_stat F path = None \<and> fs path = None then write_file F path blank fs else (fs, Inr ()))"

definition invalid_json :: string where "invalid_json = ''invalid JSON content''"

definition docker_commit :: "'c file_env \<Rightarrow> ('c, 'v) json_lib \<Rightarrow> string \<Rightarrow> 'v \<Rightarrow> 'c files \<Rightarrow> 'c files \<times> string \<times> unit result" where
  \<comment> \<open>writing the new configuration, validating it and restarting the daemon\<close>
  "docker_commit F J bk v fs =
     (case write_file F dockerConfigPath (jl_text J v) fs of
        (fs, Inl err) \<Rightarrow> (fs, bk, Inl (''failed to write docker config: '' @ err))
      | (fs, Inr _) \<Rightarrow> (case read_file F dockerConfigPath fs of
          Inl err \<Rightarrow> (fs, bk, Inl (''failed to read back docker config: '' @ err))
        | Inr data \<Rightarrow>
            if \<not> jl_Valid J data then roll_back F bk dockerConfigPath (\<lambda>e. ''docker config validation failed and rollback failed: '' @ invalid_json @ [CHR 0x0A] @ e)
              (''docker config validation failed, rolled back: '' @ invalid_json) fs
            else (case fe_restart F of
                    Some err \<Rightarrow> roll_back F bk dockerConfigPath (\<lambda>e. ''failed to restart Docker and rollback failed: '' @ err @ [CHR 0x0A] @ e)
                      (''failed to restart Docker, rolled back config: '' @ err) fs
                  | None \<Rightarrow> (fs, bk, Inr ()))))"

definition add_docker_mirror :: "('c, 'v) json_lib \<Rightarrow> string \<Rightarrow> 'v \<Rightarrow> 'v" where
  "add_docker_mirror J localRegistry v =
     (if localRegistry \<in> set (jl_mirrors J v) then v else jl_set_mirrors J (jl_mirrors J v @ [localRegistry]) v)"

definition docker_update ::
  "'c file_env \<Rightarrow> ('c, 'v) json_lib \<Rightarrow> string \<Rightarrow> string \<Rightarrow> 'c files \<Rightarrow> 'c files \<times> string \<times> unit result" where
  \<comment> \<open>\<^verbatim>\<open>setDockerdConfig\<close> after the backup\<close>
  "docker_update F J localRegistry bk fs =
     (case ensureDockerConfigFileExists F (jl_empty J) dockerConfigPath fs of
        (fs, Inl err) \<Rightarrow> (fs, bk, Inl (''failed to create default docker config: '' @ err))
      | (fs, Inr _) \<Rightarrow> (case read_file F dockerConfigPath fs of
          Inl err \<Rightarrow> (fs, bk, Inl (''failed to read docker config: '' @ err))
        | Inr c \<Rightarrow> (case jl_read J c of
            Inl err \<Rightarrow> (fs, bk, Inl (''failed to read docker config: '' @ err))
          | Inr v \<Rightarrow> docker_commit F J bk (add_docker_mirror J localRegistry v) fs)))"

definition docker_enabled :: "string list \<Rightarrow> bool result" where
  "docker_enabled mirrors =
     (case mirrors of
        [] \<Rightarrow> Inr False
      | m # _ \<Rightarrow> (case ParseBool m of None \<Rightarrow> Inl (''docker mirror must be true/false, got '' @ [CHR 0x22] @ m @ [CHR 0x22]) | Some b \<Rightarrow> Inr b))"

definition setDockerdConfig ::
  "'c file_env \<Rightarrow> ('c, 'v) json_lib \<Rightarrow> string list \<Rightarrow> string \<Rightarrow> 'c files \<Rightarrow> 'c files \<times> string \<times> unit result" where
  "setDockerdConfig F J mirrors localRegistry fs =
     (case docker_enabled mirrors of
        Inl err \<Rightarrow> (fs, [], Inl err)
      | Inr enabled \<Rightarrow>
          if \<not> enabled then (fs, [], Inr ())
          else (case backupFile F dockerConfigPath fs of
                  (fs, Inl err) \<Rightarrow> (fs, [], Inl (''failed to backup docker config: '' @ err))
                | (fs, Inr bk) \<Rightarrow> docker_update F J (with_http localRegistry) bk fs))"

section \<open>CRI-O and Podman\<close>

definition tempRegistriesConfigPath :: string where "tempRegistriesConfigPath = ''/etc/containers/registries.toml''"
definition registriesConfigPath :: string where "registriesConfigPath = ''/etc/containers/registries.conf''"

record mirror =
  mi_Location :: string
  mi_Insecure :: bool

record registry_entry =
  re_Location :: string
  re_Mirrors :: "mirror list"

record ('c, 'v) registries_lib =
  rl_empty :: 'c
  rl_read :: "'c \<Rightarrow> 'v result"
  rl_Unmarshal :: "'v \<Rightarrow> registry_entry list result"
  rl_set :: "registry_entry list \<Rightarrow> 'v \<Rightarrow> 'v"
  rl_text :: "'v \<Rightarrow> 'c"
  rl_Valid :: "'c \<Rightarrow> unit result" \<comment> \<open>\<^verbatim>\<open>toml.Unmarshal\<close> into a map\<close>

definition add_mirror :: "string \<Rightarrow> bool \<Rightarrow> registry_entry \<Rightarrow> registry_entry" where
  "add_mirror localMirror insecure r =
     (if \<exists>m\<in>set (re_Mirrors r). mi_Location m = localMirror then r
      else r\<lparr>re_Mirrors := re_Mirrors r @ [\<lparr>mi_Location = localMirror, mi_Insecure = insecure\<rparr>]\<rparr>)"

fun mirror_upstream :: "string \<Rightarrow> bool \<Rightarrow> string \<Rightarrow> registry_entry list \<Rightarrow> registry_entry list" where
  \<comment> \<open>the first entry for the upstream registry, or a new one at the end\<close>
  "mirror_upstream localMirror insecure upstream [] = [\<lparr>re_Location = upstream, re_Mirrors = [\<lparr>mi_Location = localMirror, mi_Insecure = insecure\<rparr>]\<rparr>]"
| "mirror_upstream localMirror insecure upstream (r # rs) =
     (if re_Location r = upstream then add_mirror localMirror insecure r # rs else r # mirror_upstream localMirror insecure upstream rs)"

definition mirror_all :: "string \<Rightarrow> string list \<Rightarrow> registry_entry list \<Rightarrow> registry_entry list" where
  "mirror_all localMirror upstreams rs =
     fold (mirror_upstream localMirror (\<not> hasPrefix localMirror ''https://'')) upstreams rs"

definition crio_commit :: "'c file_env \<Rightarrow> ('c, 'v) registries_lib \<Rightarrow> string \<Rightarrow> 'v \<Rightarrow> 'c files \<Rightarrow> 'c files \<times> string \<times> unit result" where
  \<comment> \<open>the new configuration goes through the temporary file\<close>
  "crio_commit F L bk v fs =
     (case write_file F tempRegistriesConfigPath (rl_text L v) fs of
        (fs, Inl err) \<Rightarrow> (fs, bk, Inl (''failed to write registries.conf: '' @ err))
      | (fs, Inr _) \<Rightarrow> (case read_file F tempRegistriesConfigPath fs of
          Inl err \<Rightarrow> (fs, bk, Inl (''failed to read temp registries file: '' @ err))
        | Inr data \<Rightarrow> (case rl_Valid L data of
            Inl err \<Rightarrow> roll_back F bk registriesConfigPath (\<lambda>e. ''registries.conf validation failed and rollback failed: '' @ e)
              (''registries.conf validation failed, rolled back: invalid TOML content: '' @ err) fs
          | Inr _ \<Rightarrow> (case copyFile F tempRegistriesConfigPath registriesConfigPath fs of
              (fs, Inl err) \<Rightarrow> (fs, bk, Inl (''failed to copy temporary .toml file to registries.conf: '' @ err))
            | (fs, Inr _) \<Rightarrow> (if fe_remove F tempRegistriesConfigPath then fs(tempRegistriesConfigPath := None) else fs, bk, Inr ())))))"

definition crio_update ::
  "'c file_env \<Rightarrow> ('c, 'v) registries_lib \<Rightarrow> string list \<Rightarrow> string \<Rightarrow> string \<Rightarrow> 'c files \<Rightarrow> 'c files \<times> string \<times> unit result" where
  \<comment> \<open>\<^verbatim>\<open>setCrioConfig\<close> after the backup\<close>
  "crio_update F L upstreamRegistries localMirror bk fs =
     (case copyFile F registriesConfigPath tempRegistriesConfigPath fs of
        (fs, Inl err) \<Rightarrow> (fs, bk, Inl (''failed to copy registries.conf file to temporary .toml file: '' @ err))
      | (fs, Inr _) \<Rightarrow> (case read_file F tempRegistriesConfigPath fs of
          Inl err \<Rightarrow> (fs, bk, Inl (''failed to read registries.conf: '' @ err))
        | Inr c \<Rightarrow> (case rl_read L c of
            Inl err \<Rightarrow> (fs, bk, Inl (''failed to read registries.conf: '' @ err))
          | Inr v \<Rightarrow> (case rl_Unmarshal L v of
              Inl err \<Rightarrow> (fs, bk, Inl (''failed to unmarshal registries.conf: '' @ err))
            | Inr rs \<Rightarrow> crio_commit F L bk (rl_set L (mirror_all localMirror upstreamRegistries rs) v) fs))))"

definition ensure_registries :: "'c file_env \<Rightarrow> 'c \<Rightarrow> 'c files \<Rightarrow> 'c files \<times> unit result" where
  "ensure_registries F blank fs =
     (if fe_stat F registriesConfigPath = None \<and> fs registriesConfigPath = None then write_file F registriesConfigPath blank fs else (fs, Inr ()))"

definition setCrioConfig ::
  "'c file_env \<Rightarrow> ('c, 'v) registries_lib \<Rightarrow> string list \<Rightarrow> string \<Rightarrow> 'c files \<Rightarrow> 'c files \<times> string \<times> unit result" where
  "setCrioConfig F L upstreamRegistries localMirror fs =
     (case ensure_registries F (rl_empty L) fs of
        (fs, Inl err) \<Rightarrow> (fs, [], Inl (''error creating registries.conf: '' @ err))
      | (fs, Inr _) \<Rightarrow> (case backupFile F registriesConfigPath fs of
          (fs, Inl err) \<Rightarrow> (fs, [], Inl (''failed to backup registries.conf: '' @ err))
        | (fs, Inr bk) \<Rightarrow> crio_update F L upstreamRegistries localMirror bk fs))"

section \<open>containerd\<close>

definition containerdCertsDir :: string where "containerdCertsDir = ''/etc/containerd/certs.d''"
definition containerdConfigPath :: string where "containerdConfigPath = ''/etc/containerd/config.toml''"

datatype 'x toml = Table "(string \<times> 'x toml) list" | TomlString string | TomlOther 'x

record 'x containerd_hosts =
  ch_Server :: string
  ch_Host :: "(string \<times> string list) list" \<comment> \<open>the capabilities of each host\<close>
  ch_Unknown :: "(string \<times> 'x toml) list"

record ('c, 'x) toml_lib =
  tl_decode :: "'c \<Rightarrow> (string \<times> 'x toml) list result"
  tl_encode :: "(string \<times> 'x toml) list \<Rightarrow> 'c"
  th_decode :: "'c \<Rightarrow> 'x containerd_hosts result"
  th_encode :: "'x containerd_hosts \<Rightarrow> 'c"

definition loadToml :: "'c file_env \<Rightarrow> ('c, 'x) toml_lib \<Rightarrow> string \<Rightarrow> 'c files \<Rightarrow> (string \<times> 'x toml) list result" where
  "loadToml F L path fs =
     (if fe_stat F path \<noteq> None \<or> fs path = None then Inr []
      else case read_file F path fs of Inl err \<Rightarrow> Inl (''failed to parse '' @ path @ '': '' @ err)
        | Inr c \<Rightarrow> (case tl_decode L c of Inl err \<Rightarrow> Inl (''failed to parse '' @ path @ '': '' @ err) | Inr cfg \<Rightarrow> Inr cfg))"

definition loadNestedMap :: "string \<Rightarrow> (string \<times> 'x toml) list \<Rightarrow> (string \<times> 'x toml) list" where
  \<comment> \<open>the table under the key; anything else there is replaced by an empty one\<close>
  "loadNestedMap key parent = (case map_of parent key of Some (Table m) \<Rightarrow> m | _ \<Rightarrow> [])"

fun set_nested :: "string list \<Rightarrow> string \<Rightarrow> 'x toml \<Rightarrow> (string \<times> 'x toml) list \<Rightarrow> (string \<times> 'x toml) list" where
  \<comment> \<open>the nested maps are shared with their parents, so setting a key in the last one changes the whole\<close>
  "set_nested [] k v m = AList.update k v m"
| "set_nested (key # keys) k v m = AList.update key (Table (set_nested keys k v (loadNestedMap key m))) m"

definition configureContainerd :: "'c file_env \<Rightarrow> ('c, 'x) toml_lib \<Rightarrow> string \<Rightarrow> 'c files \<Rightarrow> 'c files \<times> string \<times> unit result" where
  "configureContainerd F L certDir fs =
     (case backupFile F containerdConfigPath fs of
        (fs, Inl err) \<Rightarrow> (fs, [], Inl (''failed to backup containerd config: '' @ err))
      | (fs, Inr bk) \<Rightarrow> (case loadToml F L containerdConfigPath fs of
          Inl err \<Rightarrow> (fs, bk, Inl err)
        | Inr cfg \<Rightarrow>
            (let c = tl_encode L (set_nested [''plugins'', ''io.containerd.cri.v1.images'', ''registry''] ''config_path'' (TomlString certDir) cfg) in
             case fe_write F containerdConfigPath c of
               NotOpened err \<Rightarrow> (fs, bk, Inl (''failed to open '' @ containerdConfigPath @ '' for writing: '' @ err))
             | Partly part err \<Rightarrow> roll_back F bk containerdConfigPath (\<lambda>e. ''failed to write containerd config and rollback failed: '' @ e)
                 (''failed to write containerd config, rolled back: '' @ err) (fs(containerdConfigPath \<mapsto> part))
             | Done \<Rightarrow> (fs(containerdConfigPath \<mapsto> c), bk, Inr ()))))"

definition path_step :: "string \<Rightarrow> string list \<Rightarrow> string list" where
  "path_step part acc =
     (if part = [] \<or> part = ''.'' then acc else if part = ''..'' then butlast acc else acc @ [part])"

definition filepath_Join :: "string \<Rightarrow> string \<Rightarrow> string" where
  \<comment> \<open>for a rooted directory: the cleaned path\<close>
  "filepath_Join dir name = ''/'' @ join ''/'' (fold path_step (split_on CHR ''/'' (dir @ ''/'' @ name)) [])"

definition hosts_of :: "'c file_env \<Rightarrow> ('c, 'x) toml_lib \<Rightarrow> string \<Rightarrow> 'c files \<Rightarrow> 'x containerd_hosts result" where
  "hosts_of F L path fs =
     (if fe_stat F path \<noteq> None \<or> fs path = None then Inr \<lparr>ch_Server = [], ch_Host = [], ch_Unknown = []\<rparr>
      else case read_file F path fs of Inl err \<Rightarrow> Inl (''failed to parse '' @ path @ '': '' @ err)
        | Inr c \<Rightarrow> (case th_decode L c of Inl err \<Rightarrow> Inl (''failed to parse '' @ path @ '': '' @ err) | Inr cfg \<Rightarrow> Inr cfg))"

definition hosts_path :: "string \<Rightarrow> string" where
  "hosts_path registryURL = filepath_Join (filepath_Join containerdCertsDir registryURL) ''hosts.toml''"

definition hosts_entry :: "string \<Rightarrow> string \<Rightarrow> 'x containerd_hosts \<Rightarrow> 'x containerd_hosts" where
  "hosts_entry registryURL localMirror cfg =
     cfg\<lparr>ch_Server := (if \<not> hasPrefix registryURL ''http://'' \<and> \<not> hasPrefix registryURL ''https://'' then ''https://'' @ registryURL else registryURL),
         ch_Host := AList.update (with_http localMirror) [''pull'', ''resolve''] (ch_Host cfg)\<rparr>"

definition hosts_commit :: "'c file_env \<Rightarrow> string \<Rightarrow> string \<Rightarrow> 'c \<Rightarrow> 'c files \<Rightarrow> 'c files \<times> unit result" where
  "hosts_commit F bk path c fs =
     (case fe_write F path c of
        NotOpened err \<Rightarrow> (fs, Inl (''failed to open '' @ path @ '' for writing: '' @ err))
      | Partly part err \<Rightarrow> (case roll_back F bk path (\<lambda>e. ''failed to encode hosts.toml and rollback failed: '' @ e)
          (''failed to encode hosts.toml, rolled back: '' @ err) (fs(path \<mapsto> part)) of (fs, _, r) \<Rightarrow> (fs, r))
      | Done \<Rightarrow> (fs(path \<mapsto> c), Inr ()))"

definition writeContainerdHostToml :: "'c file_env \<Rightarrow> ('c, 'x) toml_lib \<Rightarrow> string \<Rightarrow> string \<Rightarrow> 'c files \<Rightarrow> 'c files \<times> unit result" where
  "writeContainerdHostToml F L registryURL localMirror fs =
     (case fe_mkdir F (filepath_Join containerdCertsDir registryURL) of
        Some err \<Rightarrow> (fs, Inl (''failed to create directory '' @ filepath_Join containerdCertsDir registryURL @ '': '' @ err))
      | None \<Rightarrow> (case backupFile F (hosts_path registryURL) fs of
          (fs, Inl err) \<Rightarrow> (fs, Inl (''failed to backup '' @ hosts_path registryURL @ '': '' @ err))
        | (fs, Inr bk) \<Rightarrow> (case hosts_of F L (hosts_path registryURL) fs of
            Inl err \<Rightarrow> (fs, Inl err)
          | Inr cfg \<Rightarrow> hosts_commit F bk (hosts_path registryURL) (th_encode L (hosts_entry registryURL localMirror cfg)) fs)))"

fun write_hosts :: "'c file_env \<Rightarrow> ('c, 'x) toml_lib \<Rightarrow> string \<Rightarrow> string list \<Rightarrow> 'c files \<Rightarrow> 'c files \<times> unit result" where
  "write_hosts F L localMirror [] fs = (fs, Inr ())"
| "write_hosts F L localMirror (u # us) fs =
     (case writeContainerdHostToml F L u localMirror fs of
        (fs, Inl err) \<Rightarrow> (fs, Inl (''failed to configure containerd for '' @ u @ '': '' @ err))
      | (fs, Inr _) \<Rightarrow> write_hosts F L localMirror us fs)"

definition setContainerdConfig ::
  "'c file_env \<Rightarrow> ('c, 'x) toml_lib \<Rightarrow> string list \<Rightarrow> string \<Rightarrow> 'c files \<Rightarrow> 'c files \<times> string \<times> unit result" where
  "setContainerdConfig F L upstreamRegistries localMirror fs =
     (case configureContainerd F L containerdCertsDir fs of
        (fs, bk, Inl err) \<Rightarrow> (fs, bk, Inl (''failed to configure registry plugin: '' @ err))
      | (fs, bk, Inr _) \<Rightarrow> (case write_hosts F L localMirror upstreamRegistries fs of (fs, r) \<Rightarrow> (fs, bk, r)))"

section \<open>Detecting and configuring\<close>

record cri_check =
  ck_Type :: string
  ck_socket :: string
  ck_binary :: string

definition criChecks :: "cri_check list" where
  "criChecks =
     [\<lparr>ck_Type = ''docker'', ck_socket = ''/var/run/docker.sock'', ck_binary = ''docker''\<rparr>,
      \<lparr>ck_Type = ''containerd'', ck_socket = ''/run/containerd/containerd.sock'', ck_binary = ''containerd''\<rparr>,
      \<lparr>ck_Type = ''crio'', ck_socket = ''/var/run/crio/crio.sock'', ck_binary = ''crio''\<rparr>,
      \<lparr>ck_Type = ''podman'', ck_socket = [], ck_binary = ''podman''\<rparr>]"

fun detect_checks :: "(string \<Rightarrow> bool) \<Rightarrow> (string \<Rightarrow> bool) \<Rightarrow> cri_check list \<Rightarrow> (string \<times> string) list" where
  "detect_checks stat lookPath [] = []"
| "detect_checks stat lookPath (ck # cks) =
     (if ck_socket ck \<noteq> [] \<and> stat (ck_socket ck) then (ck_Type ck, ''found socket '' @ ck_socket ck) # detect_checks stat lookPath cks
      else if lookPath (ck_binary ck) then (ck_Type ck, ''found binary '' @ ck_binary ck) # detect_checks stat lookPath cks
      else detect_checks stat lookPath cks)"

definition detectWithCheckers :: "(string \<Rightarrow> bool) \<Rightarrow> (string \<Rightarrow> bool) \<Rightarrow> (string \<times> string) list" where
  "detectWithCheckers stat lookPath = detect_checks stat lookPath criChecks"

definition imageDirectories :: "string list" where
  "imageDirectories = [''/var/lib/rancher/k3s/agent/images'', ''/var/lib/rancher/rke2/agent/images'']"

definition detectImageDir :: "(string \<Rightarrow> bool option) \<Rightarrow> string" where
  \<comment> \<open>whether the path exists, and whether it is a directory\<close>
  "detectImageDir stat = (case find (\<lambda>dir. stat dir = Some True) imageDirectories of Some dir \<Rightarrow> dir | None \<Rightarrow> [])"

record cri_config =
  cg_CRI :: string
  cg_Registries :: "string list"

fun parseMirrorFlags :: "string list \<Rightarrow> cri_config list result" where
  "parseMirrorFlags [] = Inr []"
| "parseMirrorFlags (entry # entries) =
     (case split2 CHR '':'' entry of
        [c, rs] \<Rightarrow> map_sum (\<lambda>e. e) ((#) \<lparr>cg_CRI = c, cg_Registries = split_on CHR '','' rs\<rparr>) (parseMirrorFlags entries)
      | _ \<Rightarrow> Inl (''invalid mirror format: '' @ entry))"

definition ResolveCRIConfigs ::
  "(string \<times> string) list \<Rightarrow> string list \<Rightarrow> bool \<Rightarrow> string list \<Rightarrow> string list \<Rightarrow> cri_config list result" where
  \<comment> \<open>given what \<^verbatim>\<open>DetectInstalledCRIs\<close> finds\<close>
  "ResolveCRIConfigs detected explicitMirrors autoDetect registries runtimes =
     (if explicitMirrors \<noteq> [] then parseMirrorFlags explicitMirrors
      else if \<not> autoDetect then Inr []
      else let criTypes = (if runtimes \<noteq> [] then runtimes else map fst detected)
           in Inr (map (\<lambda>c. \<lparr>cg_CRI = c, cg_Registries = (if c = ''docker'' then [''true''] else registries)\<rparr>) criTypes))"

record ('c, 'j, 'r, 'x) cri_libs =
  cl_docker :: "('c, 'j) json_lib"
  cl_crio :: "('c, 'r) registries_lib"
  cl_toml :: "('c, 'x) toml_lib"

definition apply_one ::
  "'c file_env \<Rightarrow> ('c, 'j, 'r, 'x) cri_libs \<Rightarrow> string \<Rightarrow> cri_config \<Rightarrow> 'c files \<Rightarrow> 'c files \<times> string \<times> unit result" where
  "apply_one F L localRegistry cfg fs =
     (if cg_CRI cfg = ''docker'' then setDockerdConfig F (cl_docker L) (cg_Registries cfg) localRegistry fs
      else if cg_CRI cfg = ''crio'' \<or> cg_CRI cfg = ''podman'' then setCrioConfig F (cl_crio L) (cg_Registries cfg) localRegistry fs
      else if cg_CRI cfg = ''containerd'' then setContainerdConfig F (cl_toml L) (cg_Registries cfg) localRegistry fs
      else (fs, [], Inl (''unsupported CRI: '' @ cg_CRI cfg)))"

fun ApplyCRIConfigs ::
  "'c file_env \<Rightarrow> ('c, 'j, 'r, 'x) cri_libs \<Rightarrow> string \<Rightarrow> cri_config list \<Rightarrow> 'c files \<Rightarrow> 'c files \<times> cri_result list" where
  "ApplyCRIConfigs F L localRegistry [] fs = (fs, [])"
| "ApplyCRIConfigs F L localRegistry (cfg # cfgs) fs =
     (case apply_one F L localRegistry cfg fs of (fs, bk, r) \<Rightarrow>
      (case ApplyCRIConfigs F L localRegistry cfgs fs of (fs, results) \<Rightarrow>
        (fs, \<lparr>cri_CRI = cg_CRI cfg, cri_BackupPath = bk, cri_Success = is_ok r, cri_Error = (case r of Inl err \<Rightarrow> err | Inr _ \<Rightarrow> [])\<rparr> # results)))"

definition resolveCRIAndApply ::
  "'c file_env \<Rightarrow> ('c, 'j, 'r, 'x) cri_libs \<Rightarrow> (string \<times> string) list \<Rightarrow> config_manager \<Rightarrow> string list \<Rightarrow> bool \<Rightarrow> string \<Rightarrow> 'c files \<Rightarrow>
   'c files \<times> cri_result list" where
  "resolveCRIAndApply F L detected cm mirrors noFallback localRegistry fs =
     (let fbCfg = GetRegistryFallbackConfig cm in
      if fb_Enabled fbCfg
      then (case ResolveCRIConfigs detected [] True (fb_Registries fbCfg) (fb_Runtimes fbCfg) of
              Inl _ \<Rightarrow> (fs, []) | Inr configs \<Rightarrow> ApplyCRIConfigs F L localRegistry configs fs)
      else if mirrors \<noteq> []
      then (case ResolveCRIConfigs detected mirrors False [] [] of
              Inl _ \<Rightarrow> (fs, []) | Inr configs \<Rightarrow> ApplyCRIConfigs F L localRegistry configs fs)
      else if noFallback then (fs, []) else (fs, []))"

lemma noFallback_ignored: "resolveCRIAndApply F L detected cm mirrors True = resolveCRIAndApply F L detected cm mirrors False"
  by (simp add: fun_eq_iff resolveCRIAndApply_def)

section \<open>What the writers leave alone\<close>

named_theorems writes \<open>which files a step can change\<close>

lemma write_file_frame [writes]: "write_file F p c fs = (fs', r) \<Longrightarrow> \<forall>q. q \<noteq> p \<longrightarrow> fs' q = fs q"
  by (auto simp: write_file_def split: outcome.splits)

lemma copyFile_frame [writes]: "copyFile F src dst fs = (fs', r) \<Longrightarrow> \<forall>q. q \<noteq> dst \<longrightarrow> fs' q = fs q"
  by (auto simp: copyFile_def dest!: writes split: sum.splits prod.splits)

lemma backupFile_frame [writes]: "backupFile F p fs = (fs', r) \<Longrightarrow> \<forall>q. q \<noteq> backup_path F p \<longrightarrow> fs' q = fs q"
  by (auto simp: backupFile_def dest!: writes split: option.splits if_splits sum.splits prod.splits)

lemma roll_back_frame [writes]: "roll_back F bk p m e fs = (fs', bk', r) \<Longrightarrow> bk' = bk \<and> (\<forall>q. q \<noteq> p \<longrightarrow> fs' q = fs q)"
  by (auto simp: roll_back_def restoreBackup_def dest!: writes split: if_splits sum.splits prod.splits)

lemma ensure_frame [writes]: "ensureDockerConfigFileExists F b p fs = (fs', r) \<Longrightarrow> \<forall>q. q \<noteq> p \<longrightarrow> fs' q = fs q"
  by (auto simp: ensureDockerConfigFileExists_def dest!: writes split: if_splits)

lemma docker_commit_frame [writes]: "docker_commit F J bk v fs = (fs', bk', r) \<Longrightarrow> bk' = bk \<and> (\<forall>q. q \<noteq> dockerConfigPath \<longrightarrow> fs' q = fs q)"
  by (auto simp: docker_commit_def dest!: writes split: if_splits sum.splits prod.splits option.splits)

lemma crio_commit_frame [writes]:
  "crio_commit F L bk v fs = (fs', bk', r) \<Longrightarrow> bk' = bk \<and> (\<forall>q. q \<noteq> tempRegistriesConfigPath \<longrightarrow> q \<noteq> registriesConfigPath \<longrightarrow> fs' q = fs q)"
  by (auto simp: crio_commit_def dest!: writes split: if_splits sum.splits prod.splits)

lemma docker_update_frame [writes]: "docker_update F J l bk fs = (fs', bk', r) \<Longrightarrow> bk' = bk \<and> (\<forall>q. q \<noteq> dockerConfigPath \<longrightarrow> fs' q = fs q)"
  by (auto simp: docker_update_def dest!: writes split: sum.splits prod.splits)

lemma crio_update_frame [writes]:
  "crio_update F L us l bk fs = (fs', bk', r) \<Longrightarrow> bk' = bk \<and> (\<forall>q. q \<noteq> tempRegistriesConfigPath \<longrightarrow> q \<noteq> registriesConfigPath \<longrightarrow> fs' q = fs q)"
  by (auto simp: crio_update_def dest!: writes split: sum.splits prod.splits)

lemma ensure_registries_frame [writes]: "ensure_registries F b fs = (fs', r) \<Longrightarrow> \<forall>q. q \<noteq> registriesConfigPath \<or> fs q \<noteq> None \<longrightarrow> fs' q = fs q"
  by (auto simp: ensure_registries_def dest!: writes split: if_splits)

lemma backupFile_ok: "backupFile F p fs = (fs', Inr bk) \<Longrightarrow> fs p = Some c \<Longrightarrow> bk = backup_path F p \<and> fs' bk = Some c"
  by (auto simp: backupFile_def copyFile_def read_file_def write_file_def split: option.splits sum.splits prod.splits outcome.splits)

lemma backup_differs [simp]: "backup_path F p \<noteq> p" "p \<noteq> backup_path F p"
  by (simp_all add: backup_path_def)

section \<open>The contract of a writer\<close>

locale runtime_writer =
  fixes F :: "'c file_env" and run :: "'c files \<Rightarrow> 'c files \<times> string \<times> unit result" and path :: string and own :: "string \<Rightarrow> bool"
  assumes frame: "run fs = (fs', bk, r) \<Longrightarrow> q \<noteq> path \<Longrightarrow> q \<noteq> backup_path F path \<Longrightarrow> \<not> own q \<Longrightarrow> fs' q = fs q"
    and backed_up: "run fs = (fs', bk, r) \<Longrightarrow> fs path = Some c \<Longrightarrow> fs' path = Some c \<or> bk = backup_path F path \<and> fs' bk = Some c"
begin

lemma recoverable:
  assumes "run fs = (fs', bk, r)" "fs path = Some c"
  shows "Some c \<in> {fs' path, fs' (backup_path F path)}"
  using backed_up[OF assms] by auto

lemma failed_backup:
  assumes "run fs = (fs', bk, r)" "fs path = Some c" "bk \<noteq> backup_path F path"
  shows "fs' path = fs path"
  using backed_up[OF assms(1,2)] assms by auto

end

interpretation docker: runtime_writer F "setDockerdConfig F J mirrors localRegistry" dockerConfigPath "\<lambda>_. False" for F J mirrors localRegistry
proof
  fix fs fs' bk r q
  assume "setDockerdConfig F J mirrors localRegistry fs = (fs', bk, r)" "q \<noteq> dockerConfigPath" "q \<noteq> backup_path F dockerConfigPath"
  then show "fs' q = fs q"
    by (auto simp: setDockerdConfig_def dest!: writes split: sum.splits prod.splits if_splits)
next
  fix fs fs' bk r c
  assume run: "setDockerdConfig F J mirrors localRegistry fs = (fs', bk, r)" and c: "fs dockerConfigPath = Some c"
  show "fs' dockerConfigPath = Some c \<or> bk = backup_path F dockerConfigPath \<and> fs' bk = Some c"
  proof (cases "docker_enabled mirrors = Inr True")
    case True
    obtain fs1 b where b: "backupFile F dockerConfigPath fs = (fs1, b)" by fastforce
    show ?thesis
    proof (cases b)
      case (Inl err)
      then show ?thesis using run True b c backupFile_frame[OF b] by (auto simp: setDockerdConfig_def)
    next
      case (Inr bk1)
      then have "docker_update F J (with_http localRegistry) bk1 fs1 = (fs', bk, r)" using run True b by (simp add: setDockerdConfig_def)
      from docker_update_frame[OF this] show ?thesis using backupFile_ok[OF b[unfolded Inr] c] by auto
    qed
  next
    case False
    then show ?thesis using run c by (auto simp: setDockerdConfig_def split: sum.splits if_splits)
  qed
qed

interpretation crio: runtime_writer F "setCrioConfig F L upstreams localMirror" registriesConfigPath "\<lambda>q. q = tempRegistriesConfigPath"
  for F L upstreams localMirror
proof
  fix fs fs' bk r q
  assume "setCrioConfig F L upstreams localMirror fs = (fs', bk, r)" "q \<noteq> registriesConfigPath" "q \<noteq> backup_path F registriesConfigPath"
    "q \<noteq> tempRegistriesConfigPath"
  then show "fs' q = fs q"
    by (auto simp: setCrioConfig_def dest!: writes split: sum.splits prod.splits)
next
  fix fs fs' bk r c
  assume run: "setCrioConfig F L upstreams localMirror fs = (fs', bk, r)" and c: "fs registriesConfigPath = Some c"
  have en: "ensure_registries F (rl_empty L) fs = (fs, Inr ())" using c by (simp add: ensure_registries_def)
  obtain fs1 b where b: "backupFile F registriesConfigPath fs = (fs1, b)" by fastforce
  show "fs' registriesConfigPath = Some c \<or> bk = backup_path F registriesConfigPath \<and> fs' bk = Some c"
  proof (cases b)
    case (Inl err)
    then show ?thesis using run en b c backupFile_frame[OF b] by (auto simp: setCrioConfig_def)
  next
    case (Inr bk1)
    then have u: "crio_update F L upstreams localMirror bk1 fs1 = (fs', bk, r)" using run en b by (simp add: setCrioConfig_def)
    have "backup_path F registriesConfigPath \<noteq> tempRegistriesConfigPath"
      by (simp add: backup_path_def registriesConfigPath_def tempRegistriesConfigPath_def)
    with crio_update_frame[OF u] show ?thesis using backupFile_ok[OF b[unfolded Inr] c] by auto
  qed
qed

definition dated :: "'c file_env \<Rightarrow> bool" where
  \<comment> \<open>the time stamp of a backup, \<^verbatim>\<open>20060102T150405\<close>, has a fixed length and ends in a digit\<close>
  "dated F = (\<forall>p. length (fe_timestamp F p) = 15 \<and> last (fe_timestamp F p) \<in> set ''0123456789'')"

definition hosts_file :: "'c file_env \<Rightarrow> string \<Rightarrow> bool" where
  "hosts_file F q = (\<exists>d. q = d @ ''/hosts.toml'' \<or> q = backup_path F (d @ ''/hosts.toml''))"

definition clean_dir :: "string \<Rightarrow> string" where
  "clean_dir dir = concat (map ((#) CHR ''/'') (fold path_step (split_on CHR ''/'' dir) []))"

lemma slash_join: "ws \<noteq> [] \<Longrightarrow> ''/'' @ join ''/'' ws = concat (map ((#) CHR ''/'') ws)"
  by (induction "''/''" ws rule: join.induct) auto

lemma filepath_Join_name:
  assumes "CHR ''/'' \<notin> set name" "name \<noteq> []" "name \<noteq> ''.''" "name \<noteq> ''..''"
  shows "filepath_Join dir name = clean_dir dir @ ''/'' @ name"
proof -
  have "split_on CHR ''/'' name = [name]" using assms(1) by (rule split_on_no_sep)
  then have "split_on CHR ''/'' (dir @ ''/'' @ name) = split_on CHR ''/'' dir @ [name]"
    using split_on_append_sep[of "CHR ''/''" dir name] by simp
  then show ?thesis
    using assms(2-) slash_join[of "fold path_step (split_on CHR ''/'' dir) [] @ [name]"]
    by (simp add: filepath_Join_def clean_dir_def path_step_def)
qed

lemma hosts_path_ends: "\<exists>d. hosts_path u = d @ ''/hosts.toml''"
  unfolding hosts_path_def by (subst filepath_Join_name) simp_all

definition config_file :: "string \<Rightarrow> string option" where
  \<comment> \<open>the file a runtime's configuration lives in\<close>
  "config_file c =
     (if c = ''docker'' then Some dockerConfigPath else if c = ''crio'' \<or> c = ''podman'' then Some registriesConfigPath
      else if c = ''containerd'' then Some containerdConfigPath else None)"

lemmas config_paths = dockerConfigPath_def registriesConfigPath_def containerdConfigPath_def

lemma config_file_cases:
  assumes "config_file c = Some p"
  obtains "c = ''docker''" "p = dockerConfigPath" | "c = ''crio'' \<or> c = ''podman''" "p = registriesConfigPath" | "c = ''containerd''" "p = containerdConfigPath"
  using assms by (auto simp: config_file_def split: if_splits)

lemma config_file_last: "config_file c = Some p \<Longrightarrow> p \<noteq> [] \<and> last p \<notin> set ''0123456789''"
  by (erule config_file_cases) (simp_all add: config_paths)

lemma last_backup:
  assumes "dated F"
  shows "last (backup_path F p) \<in> set ''0123456789''"
proof -
  have "length (fe_timestamp F p) = 15" "last (fe_timestamp F p) \<in> set ''0123456789''" using assms by (auto simp: dated_def)
  then show ?thesis by (cases "fe_timestamp F p") (simp_all add: backup_path_def)
qed

lemma backup_path_inject: "dated F \<Longrightarrow> backup_path F p = backup_path F q \<longleftrightarrow> p = q"
  by (auto simp: backup_path_def dated_def append_eq_append_conv simp flip: append_assoc)

lemma not_hosts_toml:
  assumes "config_file c = Some p"
  shows "d @ ''/hosts.toml'' \<noteq> p"
proof
  assume e: "d @ ''/hosts.toml'' = p"
  then have "length d = length p - 11" by auto
  with e have "drop (length p - 11) p = ''/hosts.toml''" by auto
  with assms show False by (elim config_file_cases) (simp_all add: config_paths)
qed

lemma config_not_hosts:
  assumes "dated F" "config_file c = Some p"
  shows "\<not> hosts_file F p" "\<not> hosts_file F (backup_path F p)" "p \<noteq> backup_path F q" "backup_path F q \<noteq> p"
proof -
  show b: "p \<noteq> backup_path F q" for q using last_backup[OF assms(1), of q] config_file_last[OF assms(2)] by metis
  then show "backup_path F q \<noteq> p" by metis
  have l: "d @ ''/hosts.toml'' \<noteq> backup_path F q" for d q
    using last_backup[OF assms(1), of q] by (auto dest: arg_cong[where f = last])
  show "\<not> hosts_file F p" unfolding hosts_file_def using not_hosts_toml[OF assms(2)] b by metis
  show "\<not> hosts_file F (backup_path F p)" unfolding hosts_file_def using not_hosts_toml[OF assms(2)] l backup_path_inject[OF assms(1)] by metis
qed

lemma hosts_commit_frame [writes]: "hosts_commit F bk p c fs = (fs', r) \<Longrightarrow> \<forall>q. q \<noteq> p \<longrightarrow> fs' q = fs q"
  by (auto simp: hosts_commit_def dest!: roll_back_frame split: outcome.splits prod.splits)

lemma write_host_frame:
  assumes "writeContainerdHostToml F L u l fs = (fs', r)"
  shows "\<forall>q. q \<noteq> hosts_path u \<longrightarrow> q \<noteq> backup_path F (hosts_path u) \<longrightarrow> fs' q = fs q"
proof -
  obtain fs1 b where b: "backupFile F (hosts_path u) fs = (fs1, b)" by fastforce
  have "\<forall>q. q \<noteq> hosts_path u \<longrightarrow> fs' q = fs1 q" if "fs' \<noteq> fs"
    using assms b that
    by (auto simp: writeContainerdHostToml_def dest!: hosts_commit_frame split: option.splits sum.splits)
  then show ?thesis using backupFile_frame[OF b] by (cases "fs' = fs") auto
qed

lemma hosts_path_file: "hosts_file F (hosts_path u)" "hosts_file F (backup_path F (hosts_path u))"
proof -
  obtain d where d: "hosts_path u = d @ ''/hosts.toml''" using hosts_path_ends by blast
  show "hosts_file F (hosts_path u)" "hosts_file F (backup_path F (hosts_path u))"
    unfolding hosts_file_def d by (rule exI[of _ d], simp)+
qed

lemma write_hosts_frame: "write_hosts F L l us fs = (fs', r) \<Longrightarrow> \<forall>q. \<not> hosts_file F q \<longrightarrow> fs' q = fs q"
proof (induction us arbitrary: fs)
  case (Cons u us)
  obtain fs1 r1 where w: "writeContainerdHostToml F L u l fs = (fs1, r1)" by fastforce
  have first: "fs1 q = fs q" if "\<not> hosts_file F q" for q using write_host_frame[OF w] hosts_path_file[of F u] that by metis
  have rest: "fs' q = fs1 q" if "\<not> hosts_file F q" for q
  proof (cases r1)
    case (Inl err)
    then show ?thesis using Cons.prems w by simp
  next
    case (Inr x)
    then have "write_hosts F L l us fs1 = (fs', r)" using Cons.prems w by simp
    from Cons.IH[OF this] that show ?thesis by blast
  qed
  show ?case by (simp add: first rest)
qed simp

lemma configureContainerd_cases:
  assumes "configureContainerd F L d fs = (fs', bk, r)"
  shows "\<forall>q. q \<noteq> containerdConfigPath \<longrightarrow> q \<noteq> backup_path F containerdConfigPath \<longrightarrow> fs' q = fs q"
    "fs containerdConfigPath = Some c \<Longrightarrow> fs' containerdConfigPath = Some c \<or> bk = backup_path F containerdConfigPath \<and> fs' bk = Some c"
proof -
  obtain fs1 b where b: "backupFile F containerdConfigPath fs = (fs1, b)" by fastforce
  have rest: "bk = bk1 \<and> (\<forall>q. q \<noteq> containerdConfigPath \<longrightarrow> fs' q = fs1 q)" if "b = Inr bk1" for bk1
    using assms b that by (auto simp: configureContainerd_def Let_def dest!: roll_back_frame split: sum.splits outcome.splits)
  have fail: "fs' = fs1" if "b = Inl err" for err using assms b that by (auto simp: configureContainerd_def)
  show "\<forall>q. q \<noteq> containerdConfigPath \<longrightarrow> q \<noteq> backup_path F containerdConfigPath \<longrightarrow> fs' q = fs q"
    using rest fail backupFile_frame[OF b] by (cases b) auto
  show "fs' containerdConfigPath = Some c \<or> bk = backup_path F containerdConfigPath \<and> fs' bk = Some c" if "fs containerdConfigPath = Some c"
  proof (cases b)
    case (Inl err)
    then show ?thesis using fail backupFile_frame[OF b] that by auto
  next
    case (Inr bk1)
    then show ?thesis using rest backupFile_ok[OF b[unfolded Inr] that] by auto
  qed
qed

lemma containerd_writer:
  assumes "dated F"
  shows "runtime_writer F (setContainerdConfig F L upstreams localMirror) containerdConfigPath (hosts_file F)"
proof
  fix fs fs' bk r q
  assume run: "setContainerdConfig F L upstreams localMirror fs = (fs', bk, r)" and q: "q \<noteq> containerdConfigPath"
    "q \<noteq> backup_path F containerdConfigPath" "\<not> hosts_file F q"
  obtain fs1 bk1 r1 where c: "configureContainerd F L containerdCertsDir fs = (fs1, bk1, r1)" by (cases "configureContainerd F L containerdCertsDir fs") auto
  show "fs' q = fs q"
    using run q c configureContainerd_cases(1)[OF c] by (auto simp: setContainerdConfig_def dest!: write_hosts_frame split: sum.splits prod.splits)
next
  fix fs fs' bk r c
  assume run: "setContainerdConfig F L upstreams localMirror fs = (fs', bk, r)" and c: "fs containerdConfigPath = Some c"
  obtain fs1 bk1 r1 where cc: "configureContainerd F L containerdCertsDir fs = (fs1, bk1, r1)" by (cases "configureContainerd F L containerdCertsDir fs") auto
  have "bk = bk1 \<and> (\<forall>q. \<not> hosts_file F q \<longrightarrow> fs' q = fs1 q)"
    using run cc by (auto simp: setContainerdConfig_def dest!: write_hosts_frame split: sum.splits prod.splits)
  then show "fs' containerdConfigPath = Some c \<or> bk = backup_path F containerdConfigPath \<and> fs' bk = Some c"
    using configureContainerd_cases(2)[OF cc c] config_not_hosts[OF assms, of "''containerd''" containerdConfigPath] by (auto simp: config_file_def)
qed

section \<open>Configuring several runtimes\<close>

lemma not_temp: "config_file c = Some p \<Longrightarrow> p \<noteq> tempRegistriesConfigPath \<and> backup_path F p \<noteq> tempRegistriesConfigPath"
  by (erule config_file_cases) (simp_all add: config_paths backup_path_def tempRegistriesConfigPath_def)

lemma apply_one_frame:
  assumes "dated F" "apply_one F L l cfg fs = (fs', bk, r)" "config_file c = Some p" "config_file (cg_CRI cfg) \<noteq> Some p"
  shows "fs' p = fs p" "fs' (backup_path F p) = fs (backup_path F p)"
proof -
  note p = config_not_hosts[OF assms(1,3)] not_temp[OF assms(3), of F]
  have "fs' q = fs q" if q: "q = p \<or> q = backup_path F p" for q
  proof (cases "config_file (cg_CRI cfg)")
    case None
    then show ?thesis using assms(2) by (auto simp: apply_one_def config_file_def split: if_splits)
  next
    case (Some p')
    then have ne: "q \<noteq> p'" "q \<noteq> backup_path F p'" using q p assms(4) config_not_hosts(4)[OF assms(1) Some] backup_path_inject[OF assms(1)] by auto
    have h: "\<not> hosts_file F q" "q \<noteq> tempRegistriesConfigPath" using q p by auto
    from Some show ?thesis
    proof (cases rule: config_file_cases)
      case 1
      then show ?thesis using docker.frame[of F _ _ _ fs fs' bk r q] assms(2) ne by (simp add: apply_one_def)
    next
      case 2
      then show ?thesis using crio.frame[of F _ _ _ fs fs' bk r q] assms(2) ne h by (auto simp: apply_one_def)
    next
      case 3
      then show ?thesis using runtime_writer.frame[OF containerd_writer[OF assms(1)], of _ _ _ fs fs' bk r q] assms(2) ne h by (simp add: apply_one_def)
    qed
  qed
  then show "fs' p = fs p" "fs' (backup_path F p) = fs (backup_path F p)" by auto
qed

lemma apply_one_backup:
  assumes "dated F" "apply_one F L l cfg fs = (fs', bk, r)" "config_file (cg_CRI cfg) = Some p" "fs p = Some c"
  shows "fs' p = Some c \<or> bk = backup_path F p \<and> fs' bk = Some c"
  using assms(3)
proof (cases rule: config_file_cases)
  case 1
  then show ?thesis using docker.backed_up[of F _ _ _ fs fs' bk r c] assms(2,4) by (simp add: apply_one_def)
next
  case 2
  then show ?thesis using crio.backed_up[of F "cl_crio L" "cg_Registries cfg" l fs fs' bk r c] assms(2,4) by (auto simp: apply_one_def)
next
  case 3
  then show ?thesis
    using runtime_writer.backed_up[OF containerd_writer[OF assms(1)], of _ _ _ fs fs' bk r c] assms(2,4) by (simp add: apply_one_def)
qed

lemma apply_frame:
  assumes "dated F" "ApplyCRIConfigs F L l cfgs fs = (fs', results)" "config_file c = Some p" "Some p \<notin> set (map (config_file \<circ> cg_CRI) cfgs)"
  shows "fs' p = fs p \<and> fs' (backup_path F p) = fs (backup_path F p)"
  using assms(2,4)
proof (induction cfgs arbitrary: fs results)
  case (Cons cfg cfgs)
  obtain fs1 bk r where one: "apply_one F L l cfg fs = (fs1, bk, r)" by (cases "apply_one F L l cfg fs") auto
  obtain rest where rest: "ApplyCRIConfigs F L l cfgs fs1 = (fs', rest)" using Cons.prems one by (auto split: prod.splits)
  have "config_file (cg_CRI cfg) \<noteq> Some p" using Cons.prems by auto
  from apply_one_frame[OF assms(1) one assms(3) this] Cons.IH[OF rest] Cons.prems show ?case by simp
qed simp

lemma map_filter_mem: "Some y \<in> set (map f xs) \<Longrightarrow> y \<in> set (List.map_filter f xs)"
  by (induction xs) (auto simp: List.map_filter_simps split: option.splits)

lemma apply_backup:
  assumes "dated F" "ApplyCRIConfigs F L l cfgs fs = (fs', results)" "distinct (List.map_filter (\<lambda>cfg. config_file (cg_CRI cfg)) cfgs)"
    "cfg \<in> set cfgs" "config_file (cg_CRI cfg) = Some p" "fs p = Some c"
  shows "fs' p = Some c \<or> (\<exists>res\<in>set results. cri_CRI res = cg_CRI cfg \<and> cri_BackupPath res = backup_path F p \<and> fs' (backup_path F p) = Some c)"
  using assms(2-)
proof (induction cfgs arbitrary: fs results)
  case (Cons cfg' cfgs)
  obtain fs1 bk r where one: "apply_one F L l cfg' fs = (fs1, bk, r)" by (cases "apply_one F L l cfg' fs") auto
  obtain rest where rest: "ApplyCRIConfigs F L l cfgs fs1 = (fs', rest)"
    and results: "\<exists>s e. results = \<lparr>cri_CRI = cg_CRI cfg', cri_BackupPath = bk, cri_Success = s, cri_Error = e\<rparr> # rest"
    using Cons.prems one by (auto split: prod.splits)
  have dist: "distinct (List.map_filter (\<lambda>cfg. config_file (cg_CRI cfg)) cfgs)" using Cons.prems(2) by (cases "config_file (cg_CRI cfg')") (simp_all add: List.map_filter_simps)
  show ?case
  proof (cases "config_file (cg_CRI cfg') = Some p")
    case True
    then have "Some p \<notin> set (map (config_file \<circ> cg_CRI) cfgs)"
      using Cons.prems(2) map_filter_mem[of p "\<lambda>cfg. config_file (cg_CRI cfg)" cfgs]
      by (auto simp: List.map_filter_simps comp_def)
    moreover from this have "cfg = cfg'" using Cons.prems(3,4) by force
    ultimately show ?thesis
      using apply_frame[OF assms(1) rest Cons.prems(4)] apply_one_backup[OF assms(1) one True Cons.prems(5)] results by auto
  next
    case False
    then have "fs1 p = Some c" using apply_one_frame(1)[OF assms(1) one Cons.prems(4)] Cons.prems(5) by simp
    moreover have "cfg \<in> set cfgs" using False Cons.prems(3,4) by auto
    ultimately show ?thesis using Cons.IH[OF rest dist _ Cons.prems(4)] results by auto
  qed
qed simp

lemma mirrors_add_mirror: "\<exists>m\<in>set (re_Mirrors (add_mirror l b r)). mi_Location m = l" "re_Location (add_mirror l b r) = re_Location r"
  "set (re_Mirrors r) \<subseteq> set (re_Mirrors (add_mirror l b r))"
  by (auto simp: add_mirror_def)

definition mirrored :: "string \<Rightarrow> string \<Rightarrow> registry_entry list \<Rightarrow> bool" where
  "mirrored l u rs = (\<exists>r\<in>set rs. re_Location r = u \<and> (\<exists>m\<in>set (re_Mirrors r). mi_Location m = l))"

definition extends :: "registry_entry list \<Rightarrow> registry_entry list \<Rightarrow> bool" where
  \<comment> \<open>no entry and no mirror lost, and the order kept\<close>
  "extends rs rs' = (\<exists>rs1 rs2. rs' = rs1 @ rs2 \<and> list_all2 (\<lambda>r r'. re_Location r' = re_Location r \<and> set (re_Mirrors r) \<subseteq> set (re_Mirrors r')) rs rs1)"

lemma mirror_upstream_ok: "mirrored l u (mirror_upstream l b u rs)" "extends rs (mirror_upstream l b u rs)"
proof -
  show "mirrored l u (mirror_upstream l b u rs)"
    by (induction rs) (auto simp: mirrored_def mirrors_add_mirror)
  show "extends rs (mirror_upstream l b u rs)"
  proof (induction rs)
    case (Cons r rs)
    then obtain rs1 rs2 where "mirror_upstream l b u rs = rs1 @ rs2"
      "list_all2 (\<lambda>r r'. re_Location r' = re_Location r \<and> set (re_Mirrors r) \<subseteq> set (re_Mirrors r')) rs rs1" by (auto simp: extends_def)
    then show ?case unfolding extends_def
      by (intro exI[of _ "if re_Location r = u then add_mirror l b r # rs else r # rs1"] exI[of _ "if re_Location r = u then [] else rs2"])
        (simp add: mirrors_add_mirror list_all2_refl)
  qed (simp add: extends_def)
qed

lemma mirrored_extends: "mirrored l u rs \<Longrightarrow> extends rs rs' \<Longrightarrow> mirrored l u rs'"
proof -
  assume m: "mirrored l u rs" and e: "extends rs rs'"
  then obtain rs1 rs2 where rs': "rs' = rs1 @ rs2"
    and all: "list_all2 (\<lambda>r r'. re_Location r' = re_Location r \<and> set (re_Mirrors r) \<subseteq> set (re_Mirrors r')) rs rs1" by (auto simp: extends_def)
  from m obtain i where i: "i < length rs" "re_Location (rs ! i) = u" "\<exists>m\<in>set (re_Mirrors (rs ! i)). mi_Location m = l"
    unfolding mirrored_def by (metis in_set_conv_nth)
  then have r: "re_Location (rs1 ! i) = u" "set (re_Mirrors (rs ! i)) \<subseteq> set (re_Mirrors (rs1 ! i))" "rs1 ! i \<in> set rs'"
    using all by (simp_all add: list_all2_conv_all_nth rs')
  with i(3) have "\<exists>m\<in>set (re_Mirrors (rs1 ! i)). mi_Location m = l" by blast
  with r show ?thesis unfolding mirrored_def by blast
qed

lemma mirror_all_mirrors: "u \<in> set us \<Longrightarrow> mirrored l u (mirror_all l us rs)"
proof -
  have "u \<in> set us \<or> mirrored l u rs \<Longrightarrow> mirrored l u (fold (mirror_upstream l b) us rs)" for b
    by (induction us arbitrary: rs) (auto intro: mirror_upstream_ok mirrored_extends)
  then show "u \<in> set us \<Longrightarrow> mirrored l u (mirror_all l us rs)" by (simp add: mirror_all_def)
qed

section \<open>The original configuration survives\<close>

text \<open>
  C17. However the system calls fail, configuring the container runtimes loses no configuration: for every runtime in the list, what its
  configuration file held before is still there afterwards, or is in the backup file that the reported result names. This needs that no
  two runtimes of the list share a configuration file, which CRI-O and Podman do.
\<close>

theorem original_configuration_kept:
  assumes "dated F" "ApplyCRIConfigs F L localRegistry cfgs fs = (fs', results)"
    and "distinct (List.map_filter (\<lambda>cfg. config_file (cg_CRI cfg)) cfgs)"
    and "cfg \<in> set cfgs" "config_file (cg_CRI cfg) = Some p" "fs p = Some c"
  shows "fs' p = Some c \<or>
    (\<exists>res\<in>set results. cri_CRI res = cg_CRI cfg \<and> cri_BackupPath res = backup_path F p \<and> fs' (backup_path F p) = Some c)"
  using assms by (rule apply_backup)

definition sample_files_env :: "string list file_env" where
  "sample_files_env = \<lparr>fe_stat = (\<lambda>_. None), fe_read = (\<lambda>_. None), fe_write = (\<lambda>_ _. Done), fe_sync = (\<lambda>_. None), fe_mkdir = (\<lambda>_. None),
     fe_restart = None, fe_remove = (\<lambda>_. True), fe_timestamp = (\<lambda>_. ''20250101T120000'')\<rparr>"

definition sample_cri_libs :: "(string list, string list, string list, unit) cri_libs" where
  \<comment> \<open>a file is the list of its mirrors, or of the registries it names\<close>
  "sample_cri_libs =
     \<lparr>cl_docker = \<lparr>jl_empty = [], jl_read = Inr, jl_mirrors = (\<lambda>v. v), jl_set_mirrors = (\<lambda>ms _. ms), jl_text = (\<lambda>v. v), jl_Valid = (\<lambda>_. True)\<rparr>,
      cl_crio = \<lparr>rl_empty = [], rl_read = Inr, rl_Unmarshal = (\<lambda>v. Inr (map (\<lambda>u. \<lparr>re_Location = u, re_Mirrors = []\<rparr>) v)),
        rl_set = (\<lambda>rs _. map re_Location rs), rl_text = (\<lambda>v. v), rl_Valid = (\<lambda>_. Inr ())\<rparr>,
      cl_toml = \<lparr>tl_decode = (\<lambda>_. Inr []), tl_encode = map fst, th_decode = (\<lambda>_. Inr \<lparr>ch_Server = [], ch_Host = [], ch_Unknown = []\<rparr>),
        th_encode = (\<lambda>h. [ch_Server h])\<rparr>\<rparr>"

definition sample_cri_files :: "string list files" where
  "sample_cri_files = [dockerConfigPath \<mapsto> [''http://old:5000''], registriesConfigPath \<mapsto> [''quay.io'']]"

lemmas sample_cri = sample_files_env_def sample_cri_libs_def sample_cri_files_def

abbreviation cri :: "string \<Rightarrow> string list \<Rightarrow> cri_config" where
  "cri c rs \<equiv> \<lparr>cg_CRI = c, cg_Registries = rs\<rparr>"

lemmas runtime_steps = apply_one_def setDockerdConfig_def docker_enabled_def docker_update_def docker_commit_def add_docker_mirror_def
  ensureDockerConfigFileExists_def setCrioConfig_def ensure_registries_def crio_update_def crio_commit_def backupFile_def copyFile_def
  read_file_def write_file_def backup_path_def mirror_all_def ParseBool_def

theorem original_configuration_kept_witness:
  "\<exists>(fs' :: string list files) (results :: cri_result list).
     ApplyCRIConfigs sample_files_env sample_cri_libs ''localhost:8585'' [cri ''docker'' [''true''], cri ''crio'' [''docker.io'']] sample_cri_files
       = (fs', results) \<and>
     (fs' registriesConfigPath = Some [''quay.io''] \<or>
      (\<exists>res\<in>set results. cri_CRI res = ''crio'' \<and> cri_BackupPath res = backup_path sample_files_env registriesConfigPath \<and>
         fs' (backup_path sample_files_env registriesConfigPath) = Some [''quay.io'']))"
proof -
  obtain fs' results where a: "ApplyCRIConfigs sample_files_env sample_cri_libs ''localhost:8585''
      [cri ''docker'' [''true''], cri ''crio'' [''docker.io'']] sample_cri_files = (fs', results)" by fastforce
  show ?thesis
    using original_configuration_kept[OF _ a, of "cri ''crio'' [''docker.io'']" registriesConfigPath "[''quay.io'']"] a
    by (auto simp: dated_def sample_cri config_file_def List.map_filter_simps config_paths)
qed

lemma same_second:
  \<comment> \<open>CRI-O and Podman share \<^verbatim>\<open>registries.conf\<close>: in the same second the second backup replaces the first, and the original is gone\<close>
  "\<exists>fs' results. ApplyCRIConfigs sample_files_env sample_cri_libs ''localhost:8585'' [cri ''crio'' [''docker.io''], cri ''podman'' [''ghcr.io'']] sample_cri_files
       = (fs', results) \<and> (\<forall>res\<in>set results. cri_Success res) \<and> (\<forall>q. fs' q \<noteq> Some [''quay.io''])"
  by (simp add: runtime_steps sample_cri config_paths tempRegistriesConfigPath_def)

end
