(* ===== verification/State_Persist.thy ===== *)
theory State_Persist
  imports Config_Manager Sync_Data
begin

text \<open>
  \<^verbatim>\<open>internal/satellite/state/state_persistence.go\<close>: the file in which a satellite remembers what
  it replicated, and the constructor of the replication process that loads it.

  \<open>SaveState\<close> is modelled system call by system call. It returns the file systems after each
  call, oldest first, so that the last one is what remains when it returns and every other one
  is what a crash at that moment leaves behind. Which calls fail is a parameter (\<open>save_faults\<close>),
  and so are the name the system picks for the temporary file and the JSON codec.
\<close>

record persisted_group =
  pg_URL :: string
  pg_Entities :: "entity list"

record persisted_state =
  ps_ConfigDigest :: string
  ps_Groups :: "persisted_group list"

record state_codec =
  jp_marshal :: "persisted_state \<Rightarrow> string result"
  jp_unmarshal :: "string \<Rightarrow> persisted_state result"

record save_faults =
  sf_create :: "string option"
  sf_write :: "(string \<times> string) option" \<comment> \<open>the error and the part that was written\<close>
  sf_sync :: "string option"
  sf_close :: "string option"
  sf_rename :: "string option"
  sf_remove :: "string option"

definition no_faults :: save_faults where
  "no_faults = \<lparr>sf_create = None, sf_write = None, sf_sync = None, sf_close = None, sf_rename = None, sf_remove = None\<rparr>"

definition persist :: "state_map list \<Rightarrow> string \<Rightarrow> persisted_state" where
  \<comment> \<open>the value that \<^verbatim>\<open>SaveState\<close> builds\<close>
  "persist sms configDigest =
     \<lparr>ps_ConfigDigest = configDigest,
      ps_Groups = map (\<lambda>sm. \<lparr>pg_URL = sm_url sm, pg_Entities = sm_Entities sm\<rparr>) sms\<rparr>"

definition cleanup :: "save_faults \<Rightarrow> string \<Rightarrow> files list \<Rightarrow> files list" where
  \<comment> \<open>the deferred function when an error is recorded: the temporary file is closed and removed.
      On success the second close fails with \<^verbatim>\<open>ErrClosed\<close>, which records an error too, and the
      removal then finds no file.\<close>
  "cleanup F tmpName trace =
     (case sf_remove F of
        Some _ \<Rightarrow> trace
      | None \<Rightarrow> trace @ [(last trace)(tmpName := Missing)])"

definition SaveState ::
  "state_codec \<Rightarrow> save_faults \<Rightarrow> string \<Rightarrow> string \<Rightarrow> state_map list \<Rightarrow> string \<Rightarrow> files \<Rightarrow> files list \<times> unit result" where
  "SaveState J F tmpName path sms configDigest fs =
     (case jp_marshal J (persist sms configDigest) of
        Inl e \<Rightarrow> ([fs], Inl (''marshal state: '' @ e))
      | Inr data \<Rightarrow>
        (case sf_create F of
           Some e \<Rightarrow> ([fs], Inl (''create temp file: '' @ e))
         | None \<Rightarrow>
           (let fs1 = fs(tmpName := Holds []) in
            case sf_write F of
              Some (e, part) \<Rightarrow> (cleanup F tmpName [fs, fs1, fs1(tmpName := Holds part)], Inl (''write temp file: '' @ e))
            | None \<Rightarrow>
              (let fs2 = fs1(tmpName := Holds data) in
               case sf_sync F of
                 Some e \<Rightarrow> (cleanup F tmpName [fs, fs1, fs2], Inl (''sync temp file: '' @ e))
               | None \<Rightarrow>
                 (case sf_close F of
                    Some e \<Rightarrow> (cleanup F tmpName [fs, fs1, fs2], Inl (''close temp file: '' @ e))
                  | None \<Rightarrow>
                    (case sf_rename F of
                       Some e \<Rightarrow> (cleanup F tmpName [fs, fs1, fs2], Inl (''rename temp to state file: '' @ e))
                     | None \<Rightarrow> (cleanup F tmpName [fs, fs1, fs2, fs2(path := Holds data, tmpName := Missing)], Inr ())))))))"

definition LoadState :: "state_codec \<Rightarrow> files \<Rightarrow> string \<Rightarrow> persisted_state option result" where
  "LoadState J fs path =
     (case fs path of
        Missing \<Rightarrow> Inr None
      | Holds data \<Rightarrow>
        (case jp_unmarshal J data of
           Inl e \<Rightarrow> Inl (''unmarshal state file: '' @ e)
         | Inr p \<Rightarrow> Inr (Some p))
      | _ \<Rightarrow> Inl ''read state file: read error'')"

section \<open>The replication process\<close>

record sync_process =
  fp_name :: string
  fp_isRunning :: bool
  fp_stateMap :: "state_map list"
  fp_currentConfigDigest :: string
  fp_stateFilePath :: string

definition NewFetchAndReplicateStateProcess :: "state_codec \<Rightarrow> files \<Rightarrow> string \<Rightarrow> sync_process" where
  "NewFetchAndReplicateStateProcess J fs stateFilePath =
     (let p = \<lparr>fp_name = ReplicateStateJobName, fp_isRunning = False, fp_stateMap = [],
               fp_currentConfigDigest = [], fp_stateFilePath = stateFilePath\<rparr>
      in if stateFilePath = [] then p
         else case LoadState J fs stateFilePath of
           Inl _ \<Rightarrow> p
         | Inr None \<Rightarrow> p
         | Inr (Some persisted) \<Rightarrow>
             p\<lparr>fp_currentConfigDigest := ps_ConfigDigest persisted,
               fp_stateMap := map (\<lambda>g. \<lparr>sm_url = pg_URL g, sm_State = None, sm_Entities = pg_Entities g\<rparr>)
                                (ps_Groups persisted)\<rparr>)"

definition PersistState :: "state_codec \<Rightarrow> save_faults \<Rightarrow> string \<Rightarrow> sync_process \<Rightarrow> files \<Rightarrow> files list \<times> unit result" where
  "PersistState J F tmpName f fs =
     (if fp_stateFilePath f = [] then ([fs], Inr ())
      else SaveState J F tmpName (fp_stateFilePath f) (fp_stateMap f) (fp_currentConfigDigest f) fs)"

section \<open>Properties\<close>

lemma cleanup_last: "trace \<noteq> [] \<Longrightarrow>
  last (cleanup F tmp trace) = (if sf_remove F = None then (last trace)(tmp := Missing) else last trace)"
  by (auto simp: cleanup_def split: option.splits)

lemma save_states:
  assumes "tmp \<noteq> path" "jp_marshal J (persist sms digest) = Inr data"
    and "SaveState J F tmp path sms digest fs = (trace, r)" "g \<in> set trace"
  shows "g path \<in> {fs path, Holds data}"
  using assms by (auto simp: SaveState_def Let_def cleanup_def split: option.splits prod.splits)

lemma save_ok:
  assumes "tmp \<noteq> path" "SaveState J F tmp path sms digest fs = (trace, Inr ())"
  shows "\<exists>data. jp_marshal J (persist sms digest) = Inr data \<and> last trace path = Holds data"
  using assms by (auto simp: SaveState_def Let_def cleanup_last split: option.splits prod.splits sum.splits if_splits)

lemma save_error:
  assumes "tmp \<noteq> path" "fs tmp = Missing" "SaveState J F tmp path sms digest fs = (trace, Inl e)"
  shows "last trace path = fs path \<and> (sf_remove F = None \<longrightarrow> last trace = fs)"
  using assms by (auto simp: SaveState_def Let_def cleanup_last split: option.splits prod.splits sum.splits if_splits)

lemma save_elsewhere:
  "SaveState J F tmp path sms digest fs = (trace, r) \<Longrightarrow> p \<notin> {tmp, path} \<Longrightarrow> last trace p = fs p"
  by (auto simp: SaveState_def Let_def cleanup_last split: option.splits prod.splits sum.splits if_splits)

text \<open>
  C18. Saving the state is atomic: at every moment during the save, and so after a crash, the
  state file holds either what it held before or the complete new text. A save that reports an
  error leaves the file as it was and, when the clean-up removal works, no temporary file.
\<close>

theorem SaveState_atomic:
  assumes "tmp \<noteq> path" "fs tmp = Missing" "jp_marshal J (persist sms digest) = Inr data"
    and "SaveState J F tmp path sms digest fs = (trace, r)"
  shows "(\<forall>g\<in>set trace. g path \<in> {fs path, Holds data}) \<and>
         (case r of Inr _ \<Rightarrow> last trace path = Holds data
          | Inl _ \<Rightarrow> last trace path = fs path \<and> (sf_remove F = None \<longrightarrow> last trace = fs))"
  using save_states[OF assms(1,3,4)] save_ok[OF assms(1), of J F sms digest fs trace]
    save_error[of tmp path fs J F sms digest trace] assms
  by (auto split: sum.splits)

definition sample_state_codec :: state_codec where
  "sample_state_codec = \<lparr>jp_marshal = (\<lambda>p. Inr (''digest:'' @ ps_ConfigDigest p)),
     jp_unmarshal = (\<lambda>d. Inr \<lparr>ps_ConfigDigest = trimPrefix d ''digest:'', ps_Groups = []\<rparr>)\<rparr>"

theorem SaveState_atomic_witness:
  "let fs = (\<lambda>p. if p = ''state.json'' then Holds ''old'' else Missing);
       F = no_faults\<lparr>sf_rename := Some ''EIO''\<rparr>
   in case SaveState sample_state_codec F ''state-1.tmp'' ''state.json'' [] ''d1'' fs of
        (trace, r) \<Rightarrow> length trace = 4 \<and> \<not> is_ok r \<and> last trace ''state.json'' = Holds ''old'' \<and>
          (\<forall>g\<in>set trace. g ''state.json'' \<in> {Holds ''old'', Holds ''digest:d1''})"
proof -
  let ?fs = "\<lambda>p. if p = ''state.json'' then Holds ''old'' else Missing :: string on_disk"
  let ?F = "no_faults\<lparr>sf_rename := Some ''EIO''\<rparr>"
  obtain trace r where s: "SaveState sample_state_codec ?F ''state-1.tmp'' ''state.json'' [] ''d1'' ?fs = (trace, r)"
    by (cases "SaveState sample_state_codec ?F ''state-1.tmp'' ''state.json'' [] ''d1'' ?fs") auto
  have sh: "length trace = 4 \<and> \<not> is_ok r"
    using s by (auto simp: SaveState_def sample_state_codec_def no_faults_def cleanup_def Let_def)
  have "jp_marshal sample_state_codec (persist [] ''d1'') = Inr ''digest:d1''"
    by (simp add: sample_state_codec_def persist_def)
  from SaveState_atomic[OF _ _ this s] sh show ?thesis by (cases r) (auto simp: s)
qed

lemma save_then_load:
  assumes "tmp \<noteq> path" "SaveState J F tmp path sms digest fs = (trace, Inr ())"
    and "\<And>d. jp_marshal J (persist sms digest) = Inr d \<Longrightarrow> jp_unmarshal J d = Inr (persist sms digest)"
  shows "LoadState J (last trace) path = Inr (Some (persist sms digest))"
  using save_ok[OF assms(1,2)] assms(3) by (auto simp: LoadState_def)

text \<open>
  A saved state survives a restart: after a successful save, a new process starts with the
  same configuration digest and, for every group in order, the same URL and replicated entities.
\<close>

theorem SaveState_restart:
  assumes "tmp \<noteq> path" "path \<noteq> []"
    and "\<And>d. jp_marshal J (persist sms digest) = Inr d \<Longrightarrow> jp_unmarshal J d = Inr (persist sms digest)"
    and "SaveState J F tmp path sms digest fs = (trace, Inr ())"
  shows "fp_stateMap (NewFetchAndReplicateStateProcess J (last trace) path) = map (sm_State_update (\<lambda>_. None)) sms \<and>
         fp_currentConfigDigest (NewFetchAndReplicateStateProcess J (last trace) path) = digest"
  using save_then_load[OF assms(1,4,3)] assms(2)
  by (simp add: NewFetchAndReplicateStateProcess_def persist_def Let_def)

theorem SaveState_restart_witness:
  "\<exists>trace. SaveState sample_state_codec no_faults ''state-1.tmp'' ''state.json'' [] ''d1'' (\<lambda>_. Missing) = (trace, Inr ()) \<and>
     fp_currentConfigDigest (NewFetchAndReplicateStateProcess sample_state_codec (last trace) ''state.json'') = ''d1''"
proof -
  obtain trace where t: "SaveState sample_state_codec no_faults ''state-1.tmp'' ''state.json'' [] ''d1'' (\<lambda>_. Missing) = (trace, Inr ())"
    by (simp add: SaveState_def sample_state_codec_def no_faults_def Let_def)
  have "jp_unmarshal sample_state_codec d = Inr (persist [] ''d1'')"
    if "jp_marshal sample_state_codec (persist [] ''d1'') = Inr d" for d
    using that by (auto simp: sample_state_codec_def persist_def trimPrefix_def)
  from SaveState_restart[OF _ _ this t] t show ?thesis by auto
qed

end
