(* ===== verification/Replicator.thy ===== *)
theory Replicator
  imports State_Persist
begin

text \<open>
  \<^verbatim>\<open>internal/satellite/state/replicator.go\<close>: copying images to the local registry and deleting
  them there. The registry client library is a parameter, the record \<open>registry_ops\<close>; \<open>'r\<close> is
  the state of the local registry, \<open>'d\<close> a fetched descriptor and \<open>'i\<close> an image. Cancellation
  of the context is a parameter too: \<open>cancelled n\<close> says whether the check before the entity
  number \<open>n\<close> sees it. The layers are counted for a log line only and the count is left out.

  The interface \<^verbatim>\<open>Replicator\<close> of the code is the locale \<open>replicator\<close>; what the client library
  must guarantee is the locale \<open>registry_client\<close>, and \<open>BasicReplicator\<close> implements the first on
  top of the second.
\<close>

section \<open>Model\<close>

record ('d, 'i, 'r) registry_ops =
  rg_parse :: "bool \<Rightarrow> string \<Rightarrow> unit result"
  rg_get :: "string \<times> string \<Rightarrow> string \<Rightarrow> 'd result"
  rg_image :: "'d \<Rightarrow> 'i result"
  rg_oci :: "'i \<Rightarrow> 'i"
  rg_digest :: "'i \<Rightarrow> string result"
  rg_layers :: "'i \<Rightarrow> nat result"
  rg_head :: "string \<times> string \<Rightarrow> string \<Rightarrow> 'r \<Rightarrow> string result"
  rg_write :: "string \<times> string \<Rightarrow> string \<Rightarrow> 'i \<Rightarrow> 'r \<Rightarrow> 'r \<times> unit result"
  rg_delete :: "string \<times> string \<Rightarrow> bool \<Rightarrow> string \<Rightarrow> 'r \<Rightarrow> 'r \<times> unit result"
  rg_load_tls :: "tls_config \<Rightarrow> unit result"

record basic_replicator =
  br_useUnsecure :: bool
  br_sourceUsername :: string
  br_sourcePassword :: string
  br_sourceRegistry :: string
  br_remoteRegistryURL :: string
  br_remoteUsername :: string
  br_remotePassword :: string
  br_tlsCfg :: tls_config

definition NewBasicReplicatorWithTLS ::
  "string \<Rightarrow> string \<Rightarrow> string \<Rightarrow> string \<Rightarrow> string \<Rightarrow> string \<Rightarrow> bool \<Rightarrow> tls_config \<Rightarrow> basic_replicator" where
  "NewBasicReplicatorWithTLS sourceUsername sourcePassword sourceRegistry remoteURL remoteUsername remotePassword useUnsecure tlsCfg =
     \<lparr>br_useUnsecure = useUnsecure, br_sourceUsername = sourceUsername, br_sourcePassword = sourcePassword,
      br_sourceRegistry = sourceRegistry, br_remoteRegistryURL = remoteURL, br_remoteUsername = remoteUsername,
      br_remotePassword = remotePassword, br_tlsCfg = tlsCfg\<rparr>"

definition NewBasicReplicator ::
  "string \<Rightarrow> string \<Rightarrow> string \<Rightarrow> string \<Rightarrow> string \<Rightarrow> string \<Rightarrow> bool \<Rightarrow> basic_replicator" where
  "NewBasicReplicator sourceUsername sourcePassword sourceRegistry remoteURL remoteUsername remotePassword useUnsecure =
     NewBasicReplicatorWithTLS sourceUsername sourcePassword sourceRegistry remoteURL remoteUsername remotePassword useUnsecure zero_tls"

definition buildTLSTransport :: "('d, 'i, 'r) registry_ops \<Rightarrow> basic_replicator \<Rightarrow> unit result" where
  "buildTLSTransport R b =
     (if tls_CertFile (br_tlsCfg b) = [] \<and> tls_CAFile (br_tlsCfg b) = [] then Inr ()
      else case rg_load_tls R (br_tlsCfg b) of
        Inl e \<Rightarrow> Inl (''load TLS config: '' @ e)
      | Inr _ \<Rightarrow> Inr ())"

definition replicate_one ::
  "('d, 'i, 'r) registry_ops \<Rightarrow> basic_replicator \<Rightarrow> entity \<Rightarrow> 'r \<Rightarrow> 'r \<times> unit result" where
  \<comment> \<open>the body of the loop of \<^verbatim>\<open>Replicate\<close>\<close>
  "replicate_one R b e reg =
     (let pullAuth = (br_sourceUsername b, br_sourcePassword b);
          pushAuth = (br_remoteUsername b, br_remotePassword b);
          srcRef = br_sourceRegistry b @ ''/'' @ ent_Repository e @ ''/'' @ ent_Name e @ '':'' @ ent_Tag e;
          dstRef = br_remoteRegistryURL b @ ''/'' @ ent_Repository e @ ''/'' @ ent_Name e @ '':'' @ ent_Tag e
      in case rg_parse R (br_useUnsecure b) srcRef of
           Inl er \<Rightarrow> (reg, Inl (''parse source ref '' @ srcRef @ '': '' @ er))
         | Inr _ \<Rightarrow>
      (case rg_parse R (br_useUnsecure b) dstRef of
           Inl er \<Rightarrow> (reg, Inl (''parse dest ref '' @ dstRef @ '': '' @ er))
         | Inr _ \<Rightarrow>
      (case rg_get R pullAuth srcRef of
           Inl er \<Rightarrow> (reg, Inl er)
         | Inr desc \<Rightarrow>
      (case rg_image R desc of
           Inl er \<Rightarrow> (reg, Inl er)
         | Inr img \<Rightarrow>
      (let ociImage = rg_oci R img in
       case rg_digest R ociImage of
           Inl er \<Rightarrow> (reg, Inl (''compute source digest: '' @ er))
         | Inr srcDigest \<Rightarrow>
       (if rg_head R pushAuth dstRef reg = Inr srcDigest then (reg, Inr ())
        else case rg_layers R ociImage of
           Inl er \<Rightarrow> (reg, Inl (''get source layers: '' @ er))
         | Inr _ \<Rightarrow> rg_write R pushAuth dstRef ociImage reg))))))"

fun replicate_loop ::
  "('d, 'i, 'r) registry_ops \<Rightarrow> basic_replicator \<Rightarrow> (nat \<Rightarrow> bool) \<Rightarrow> nat \<Rightarrow> entity list \<Rightarrow> 'r \<Rightarrow> 'r \<times> unit result" where
  "replicate_loop R b cancelled n [] reg = (reg, Inr ())"
| "replicate_loop R b cancelled n (e # es) reg =
     (if cancelled n then (reg, Inl ''context canceled'')
      else case replicate_one R b e reg of
        (reg', Inl er) \<Rightarrow> (reg', Inl er)
      | (reg', Inr _) \<Rightarrow> replicate_loop R b cancelled (Suc n) es reg')"

definition Replicate ::
  "('d, 'i, 'r) registry_ops \<Rightarrow> (nat \<Rightarrow> bool) \<Rightarrow> basic_replicator \<Rightarrow> entity list \<Rightarrow> 'r \<Rightarrow> 'r \<times> unit result" where
  "Replicate R cancelled b es reg =
     (case (if br_useUnsecure b then Inr () else buildTLSTransport R b) of
        Inl er \<Rightarrow> (reg, Inl (''build TLS transport: '' @ er))
      | Inr _ \<Rightarrow> replicate_loop R b cancelled 0 es reg)"

fun delete_loop ::
  "('d, 'i, 'r) registry_ops \<Rightarrow> basic_replicator \<Rightarrow> (nat \<Rightarrow> bool) \<Rightarrow> nat \<Rightarrow> entity list \<Rightarrow> 'r \<Rightarrow> 'r \<times> unit result" where
  "delete_loop R b cancelled n [] reg = (reg, Inr ())"
| "delete_loop R b cancelled n (e # es) reg =
     (if cancelled n then (reg, Inl ''context canceled'')
      else case rg_delete R (br_remoteUsername b, br_remotePassword b) (br_useUnsecure b)
                  (br_remoteRegistryURL b @ ''/'' @ ent_Repository e @ ''/'' @ ent_Name e @ '':'' @ ent_Tag e) reg of
        (reg', Inl er) \<Rightarrow> (reg', Inl er)
      | (reg', Inr _) \<Rightarrow> delete_loop R b cancelled (Suc n) es reg')"

definition DeleteReplicationEntity ::
  "('d, 'i, 'r) registry_ops \<Rightarrow> (nat \<Rightarrow> bool) \<Rightarrow> basic_replicator \<Rightarrow> entity list \<Rightarrow> 'r \<Rightarrow> 'r \<times> unit result" where
  "DeleteReplicationEntity R cancelled b es reg = delete_loop R b cancelled 0 es reg"

section \<open>The interface of a replicator\<close>

text \<open>
  \<open>content\<close> reads the local registry as a map from references to digests; \<open>served\<close> is the
  digest of the image that the source registry serves under a reference (after conversion to
  the OCI manifest type).
\<close>

locale replicator =
  fixes Rep Del :: "entity list \<Rightarrow> 'r \<Rightarrow> 'r \<times> unit result"
    and content :: "'r \<Rightarrow> content"
    and served :: "string \<Rightarrow> string"
  assumes replicate_ok: "Rep es reg = (reg', Inr ()) \<Longrightarrow>
      content reg' = (\<lambda>p. if p \<in> ent_ref ` set es then Some (served p) else content reg p)"
    and delete_ok: "Del es reg = (reg', Inr ()) \<Longrightarrow>
      content reg' = (\<lambda>p. if p \<in> ent_ref ` set es then None else content reg p)"
begin

lemma reconcile:
  assumes "distinct (map entity_key old)" "distinct (map entity_key new)" "keys_name_refs (old @ new)"
    and "new = FetchEntitiesFromState (RemoveNullTagArtifacts s)"
    and "\<And>xs. mset (ord xs) = mset xs" "GetChanges ord s old = (del, rep, s')"
    and "\<And>e o'. e \<in> set new \<Longrightarrow> o' \<in> set old \<Longrightarrow> entity_key e = entity_key o' \<Longrightarrow> ent_Digest e = ent_Digest o' \<Longrightarrow>
           content reg (ent_ref e) = Some (served (ent_ref e))"
    and "Del del reg = (reg1, Inr ())" "Rep rep reg1 = (reg2, Inr ())"
  shows "content reg2 p = (if p \<in> ent_ref ` set new then Some (served p)
                           else if p \<in> ent_ref ` set old then None else content reg p)"
proof -
  note gs = GetChanges_sets[OF assms(1,2,4,5,6)]
  have k: "entity_key a = entity_key b \<longleftrightarrow> ent_ref a = ent_ref b" if "a \<in> set old \<union> set new" "b \<in> set old \<union> set new" for a b
    using assms(3) that unfolding keys_name_refs_def set_append by blast
  have c2: "content reg2 p = (if p \<in> ent_ref ` set rep then Some (served p)
      else if p \<in> ent_ref ` set del then None else content reg p)"
    using replicate_ok[OF assms(9)] delete_ok[OF assms(8)] by simp
  consider (new) e where "e \<in> set new" "ent_ref e = p" | (gone) "p \<notin> ent_ref ` set new" by blast
  then show ?thesis
  proof cases
    case new
    then have pn: "p \<in> ent_ref ` set new" by auto
    show ?thesis
    proof (cases "e \<in> set rep")
      case True
      with new pn show ?thesis by (auto simp: c2)
    next
      case False
      with new(1) obtain o' where o: "o' \<in> set old" "entity_key e = entity_key o'" "ent_Digest e = ent_Digest o'"
        by (auto simp: gs(2))
      have "p \<notin> ent_ref ` set del"
      proof
        assume "p \<in> ent_ref ` set del"
        then obtain x where x: "x \<in> set del" "ent_ref x = p" by auto
        then have "x \<in> set old" by (simp add: gs(1))
        moreover from this have "entity_key x = entity_key o'" using k[of x e] x(2) new o(2) by simp
        ultimately have "x = o'" using assms(1) o(1) by (metis distinct_map inj_onD)
        with x(1) new(1) o show False by (auto simp: gs(1))
      qed
      then show ?thesis using assms(7)[OF new(1) o] new(2) pn by (auto simp: c2)
    qed
  next
    case gone
    then have nr: "p \<notin> ent_ref ` set rep" by (auto simp: gs(2))
    have "p \<in> ent_ref ` set del \<longleftrightarrow> p \<in> ent_ref ` set old"
    proof
      assume "p \<in> ent_ref ` set old"
      then obtain x where x: "x \<in> set old" "ent_ref x = p" by auto
      have "entity_key e \<noteq> entity_key x" if "e \<in> set new" for e using k[of e x] x that gone by (metis Un_iff image_eqI)
      with x show "p \<in> ent_ref ` set del" by (auto simp: gs(1))
    qed (auto simp: gs(1))
    with nr gone show ?thesis by (simp add: c2)
  qed
qed

end

section \<open>What the client library guarantees\<close>

locale registry_client =
  fixes R :: "('d, 'i, 'r) registry_ops"
    and b :: basic_replicator
    and content :: "'r \<Rightarrow> content"
    and served :: "string \<Rightarrow> string"
  assumes head: "rg_head R (br_remoteUsername b, br_remotePassword b) (br_remoteRegistryURL b @ ''/'' @ p) reg = Inr d \<Longrightarrow>
      content reg p = Some d"
    and written: "rg_write R (br_remoteUsername b, br_remotePassword b) (br_remoteRegistryURL b @ ''/'' @ p) img reg = (reg', Inr ()) \<Longrightarrow>
      rg_digest R img = Inr d \<Longrightarrow> content reg' = (content reg)(p \<mapsto> d)"
    and deleted: "rg_delete R (br_remoteUsername b, br_remotePassword b) (br_useUnsecure b) (br_remoteRegistryURL b @ ''/'' @ p) reg = (reg', Inr ()) \<Longrightarrow>
      content reg' = (content reg)(p := None)"
    and source: "rg_get R (br_sourceUsername b, br_sourcePassword b) (br_sourceRegistry b @ ''/'' @ p) = Inr desc \<Longrightarrow>
      rg_image R desc = Inr img \<Longrightarrow> rg_digest R (rg_oci R img) = Inr d \<Longrightarrow> served p = d"
begin

lemma replicate_one_ok:
  assumes "replicate_one R b e reg = (reg', Inr ())"
  shows "content reg' = (content reg)(ent_ref e \<mapsto> served (ent_ref e))"
proof -
  let ?p = "ent_ref e"
  obtain desc img d where f: "rg_get R (br_sourceUsername b, br_sourcePassword b) (br_sourceRegistry b @ ''/'' @ ?p) = Inr desc"
      "rg_image R desc = Inr img" "rg_digest R (rg_oci R img) = Inr d"
    and r: "rg_head R (br_remoteUsername b, br_remotePassword b) (br_remoteRegistryURL b @ ''/'' @ ?p) reg = Inr d \<and> reg' = reg \<or>
      rg_write R (br_remoteUsername b, br_remotePassword b) (br_remoteRegistryURL b @ ''/'' @ ?p) (rg_oci R img) reg = (reg', Inr ())"
    using assms by (auto simp: replicate_one_def Let_def ent_ref_def split: sum.splits if_splits)
  have "served ?p = d" by (rule source[OF f])
  with r head[of ?p reg d] written[of ?p "rg_oci R img" reg reg' d] f(3) show ?thesis by auto
qed

lemma replicate_loop_ok:
  "replicate_loop R b cancelled n es reg = (reg', Inr ()) \<Longrightarrow>
   content reg' = (\<lambda>p. if p \<in> ent_ref ` set es then Some (served p) else content reg p)"
  by (induction es arbitrary: n reg)
     (auto simp: fun_eq_iff dest!: replicate_one_ok split: if_splits prod.splits sum.splits)

lemma delete_loop_ok:
  "delete_loop R b cancelled n es reg = (reg', Inr ()) \<Longrightarrow>
   content reg' = (\<lambda>p. if p \<in> ent_ref ` set es then None else content reg p)"
proof (induction es arbitrary: n reg)
  case (Cons e es)
  then obtain reg1 where "rg_delete R (br_remoteUsername b, br_remotePassword b) (br_useUnsecure b)
      (br_remoteRegistryURL b @ ''/'' @ ent_ref e) reg = (reg1, Inr ())"
    and "delete_loop R b cancelled (Suc n) es reg1 = (reg', Inr ())"
    by (auto simp: ent_ref_def split: if_splits prod.splits sum.splits)
  with Cons.IH deleted show ?case by (fastforce simp: fun_eq_iff)
qed simp

end

sublocale registry_client \<subseteq> repl: replicator "Replicate R cancelled b" "DeleteReplicationEntity R cancelled' b" content served
  for cancelled cancelled'
  using replicate_loop_ok delete_loop_ok
  by unfold_locales (auto simp: Replicate_def DeleteReplicationEntity_def split: sum.splits if_splits)

context registry_client
begin

lemmas group_reconcile = repl.reconcile

end

text \<open>
  A registry in memory: the source is a map from references to digests, an image is its digest,
  and the local registry is such a map. It is an instance of the contract.
\<close>

definition mem_registry :: "basic_replicator \<Rightarrow> content \<Rightarrow> (string, string, content) registry_ops" where
  "mem_registry b src =
     \<lparr>rg_parse = (\<lambda>_ _. Inr ()),
      rg_get = (\<lambda>_ r. case src (drop (length (br_sourceRegistry b) + 1) r) of None \<Rightarrow> Inl ''MANIFEST_UNKNOWN'' | Some d \<Rightarrow> Inr d),
      rg_image = Inr, rg_oci = (\<lambda>i. i), rg_digest = Inr, rg_layers = (\<lambda>_. Inr 0),
      rg_head = (\<lambda>_ r reg. case reg (drop (length (br_remoteRegistryURL b) + 1) r) of None \<Rightarrow> Inl ''MANIFEST_UNKNOWN'' | Some d \<Rightarrow> Inr d),
      rg_write = (\<lambda>_ r i reg. (reg(drop (length (br_remoteRegistryURL b) + 1) r \<mapsto> i), Inr ())),
      rg_delete = (\<lambda>_ _ r reg. (reg(drop (length (br_remoteRegistryURL b) + 1) r := None), Inr ())),
      rg_load_tls = (\<lambda>_. Inr ())\<rparr>"

interpretation mem: registry_client "mem_registry b src" b "\<lambda>reg. reg" "\<lambda>p. the (src p)" for b src
  by unfold_locales (auto simp: mem_registry_def split: option.splits)

lemma mem_replicate_one:
  "src (ent_ref e) = Some d \<Longrightarrow> \<exists>reg'. replicate_one (mem_registry b src) b e reg = (reg', Inr ())"
  by (simp add: replicate_one_def mem_registry_def ent_ref_def Let_def split: option.splits)

text \<open>
  C2. Reconciling one group with the registry, as long as no image moves. Suppose that neither the old nor the new state has the
  same name and tag twice, that entities of the two states with the same name and tag refer to the same image (an image that
  moves to another repository is missed, see \<open>GetChanges_misses_repository\<close>), that the local registry already holds what
  the source serves for every unchanged entity, and that the registry client does what it reports. Then, after
  the deletions and replications that \<^verbatim>\<open>GetChanges\<close> asks for have both succeeded, the registry serves every tagged artifact
  of the new state with the source's digest, none of the images that only the old state had, and all
  other images untouched.
\<close>

theorem group_reconciled:
  assumes "registry_client R b content served"
    and "distinct (map entity_key old)" "distinct (map entity_key new)" "keys_name_refs (old @ new)"
    and "new = FetchEntitiesFromState (RemoveNullTagArtifacts s)"
    and "\<And>xs. mset (ord xs) = mset xs" "GetChanges ord s old = (del, rep, s')"
    and "\<And>e o'. e \<in> set new \<Longrightarrow> o' \<in> set old \<Longrightarrow> entity_key e = entity_key o' \<Longrightarrow> ent_Digest e = ent_Digest o' \<Longrightarrow>
           content reg (ent_ref e) = Some (served (ent_ref e))"
    and "DeleteReplicationEntity R cancelled b del reg = (reg1, Inr ())"
    and "Replicate R cancelled' b rep reg1 = (reg2, Inr ())"
  shows "content reg2 p = (if p \<in> ent_ref ` set new then Some (served p)
                           else if p \<in> ent_ref ` set old then None else content reg p)"
  by (rule registry_client.group_reconcile[OF assms])

definition sample_replicator :: basic_replicator where
  "sample_replicator = NewBasicReplicator ''u'' ''p'' ''harbor.io'' ''localhost'' ''lu'' ''lp'' True"

theorem group_reconciled_witness:
  "let src = [''lib/a:1'' \<mapsto> ''d3'', ''lib/a:2'' \<mapsto> ''d3''];
       reg = [''lib/a:1'' \<mapsto> ''d1'', ''lib/b:1'' \<mapsto> ''d2'', ''other/x:1'' \<mapsto> ''d9''];
       s = \<lparr>st_Registry = ''r'', st_Artifacts = [sample_artifact ''a'' [''1'', ''2''] ''d3'']\<rparr>;
       old = [sample_entity ''lib'' ''a'' ''1'' ''d1'', sample_entity ''lib'' ''b'' ''1'' ''d2''];
       R = mem_registry sample_replicator src
   in case GetChanges rev s old of (del, rep, _) \<Rightarrow>
      case DeleteReplicationEntity R (\<lambda>_. False) sample_replicator del reg of (reg1, r1) \<Rightarrow>
      case Replicate R (\<lambda>_. False) sample_replicator rep reg1 of (reg2, r2) \<Rightarrow>
        is_ok r1 \<and> is_ok r2 \<and> reg2 ''lib/a:2'' = Some ''d3'' \<and> reg2 ''lib/b:1'' = None \<and> reg2 ''other/x:1'' = Some ''d9''"
proof -
  let ?src = "[''lib/a:1'' \<mapsto> ''d3'', ''lib/a:2'' \<mapsto> ''d3'']"
  let ?reg = "[''lib/a:1'' \<mapsto> ''d1'', ''lib/b:1'' \<mapsto> ''d2'', ''other/x:1'' \<mapsto> ''d9'']"
  let ?s = "\<lparr>st_Registry = ''r'', st_Artifacts = [sample_artifact ''a'' [''1'', ''2''] ''d3'']\<rparr>"
  let ?old = "[sample_entity ''lib'' ''a'' ''1'' ''d1'', sample_entity ''lib'' ''b'' ''1'' ''d2'']"
  let ?new = "[sample_entity ''lib'' ''a'' ''1'' ''d3'', sample_entity ''lib'' ''a'' ''2'' ''d3'']"
  let ?R = "mem_registry sample_replicator ?src"
  have new: "?new = FetchEntitiesFromState (RemoveNullTagArtifacts ?s)" by code_simp
  have g: "GetChanges rev ?s ?old =
      ([sample_entity ''lib'' ''a'' ''1'' ''d1'', sample_entity ''lib'' ''b'' ''1'' ''d2''], ?new, ?s)" by code_simp
  obtain reg1 where d: "DeleteReplicationEntity ?R (\<lambda>_. False) sample_replicator ?old ?reg = (reg1, Inr ())"
    by (simp add: DeleteReplicationEntity_def mem_registry_def sample_replicator_def NewBasicReplicator_def
        NewBasicReplicatorWithTLS_def)
  obtain reg2 where r: "Replicate ?R (\<lambda>_. False) sample_replicator ?new reg1 = (reg2, Inr ())"
  proof -
    have src: "?src (ent_ref e) = Some ''d3''" if "e \<in> set ?new" for e
      using that by (auto simp: sample_entity_def ent_ref_def)
    obtain r1 where r1: "replicate_one ?R sample_replicator (sample_entity ''lib'' ''a'' ''1'' ''d3'') reg1 = (r1, Inr ())"
      using mem_replicate_one src by fastforce
    obtain r2 where "replicate_one ?R sample_replicator (sample_entity ''lib'' ''a'' ''2'' ''d3'') r1 = (r2, Inr ())"
      using mem_replicate_one src by fastforce
    with r1 that show thesis
      by (simp add: Replicate_def sample_replicator_def NewBasicReplicator_def NewBasicReplicatorWithTLS_def)
  qed
  have refs: "ent_ref ` set ?new = {''lib/a:1'', ''lib/a:2''}" "ent_ref ` set ?old = {''lib/a:1'', ''lib/b:1''}"
    by (auto simp: sample_entity_def ent_ref_def)
  have "reg2 p = (if p \<in> ent_ref ` set ?new then Some (the (?src p))
      else if p \<in> ent_ref ` set ?old then None else ?reg p)" for p
    by (rule group_reconciled[OF mem.registry_client_axioms, of ?old ?new ?s rev, OF _ _ _ new _ g _ d r])
       (auto simp: sample_entity_def entity_key_def keys_name_refs_def ent_ref_def)
  then have "reg2 ''lib/a:2'' = Some ''d3'' \<and> reg2 ''lib/b:1'' = None \<and> reg2 ''other/x:1'' = Some ''d9''"
    unfolding refs by simp
  with d r show ?thesis by (simp add: g)
qed

end
