(* ===== verification/Direct_Delivery.thy ===== *)
theory Direct_Delivery
  imports Replicator
begin

text \<open>
  \<^verbatim>\<open>internal/satellite/state/direct_delivery.go\<close>: image tarballs written straight into the
  directory that k3s and RKE2 import from, with a side file that records the digest written
  under each file name.

  The directory is the record \<open>image_dir\<close>: the tarballs by file name and the decoded side file
  (its JSON value may be \<open>null\<close>, which decodes to Go's nil map). Faults of the file system, the
  image a reference resolves to, and cancellation are parameters.
\<close>

section \<open>Model\<close>

type_synonym digest_map = "string \<Rightarrow> string option"

record 'i image_dir =
  im_tars :: "string \<Rightarrow> 'i option"
  im_digests :: "digest_map option on_disk" \<comment> \<open>\<open>Holds None\<close> is the JSON value \<open>null\<close>\<close>

record 'i delivery_env =
  de_parse :: "string \<Rightarrow> unit result"
  de_image :: "string \<times> string \<Rightarrow> string \<Rightarrow> 'i result"
  de_create :: "string \<Rightarrow> string option" \<comment> \<open>fault of each call when writing that file\<close>
  de_tarball :: "string \<Rightarrow> string option"
  de_close :: "string \<Rightarrow> string option"
  de_rename :: "string \<Rightarrow> string option"
  de_remove :: "string \<Rightarrow> string option" \<comment> \<open>other than that the file is absent\<close>
  de_save :: "(string \<times> digest_map option on_disk) option" \<comment> \<open>fault and what it leaves\<close>
  de_cancelled :: "nat \<Rightarrow> bool"

record direct_deliverer =
  dv_srcUsername :: string
  dv_srcPassword :: string
  dv_srcRegistry :: string

definition safe_char :: "char \<Rightarrow> char" where
  "safe_char c = (if c = CHR ''/'' \<or> c = CHR '':'' \<or> c = CHR '' '' then CHR ''_'' else c)"

definition tarballFilename :: "entity \<Rightarrow> string" where
  "tarballFilename e = map safe_char (ent_Repository e) @ ''--'' @ map safe_char (ent_Name e) @ ''--'' @
     map safe_char (ent_Tag e) @ ''.tar''"

definition loadDigestMap :: "'i image_dir \<Rightarrow> digest_map option" where
  \<comment> \<open>\<open>None\<close> is the nil map\<close>
  "loadDigestMap dir = (case im_digests dir of Holds m \<Rightarrow> m | _ \<Rightarrow> Some Map.empty)"

definition saveDigestMap :: "'i delivery_env \<Rightarrow> digest_map option \<Rightarrow> 'i image_dir \<Rightarrow> 'i image_dir \<times> unit result" where
  "saveDigestMap V m dir =
     (case de_save V of
        Some (e, left) \<Rightarrow> (dir\<lparr>im_digests := left\<rparr>, Inl e)
      | None \<Rightarrow> (dir\<lparr>im_digests := Holds m\<rparr>, Inr ()))"

definition writeAtomically :: "'i delivery_env \<Rightarrow> string \<Rightarrow> 'i \<Rightarrow> 'i image_dir \<Rightarrow> 'i image_dir \<times> unit result" where
  \<comment> \<open>every error path removes the temporary file, so only the rename is visible\<close>
  "writeAtomically V filename img dir =
     (case de_create V filename of
        Some e \<Rightarrow> (dir, Inl (''create temp file: '' @ e))
      | None \<Rightarrow>
        (case de_tarball V filename of
           Some e \<Rightarrow> (dir, Inl (''write docker-save tarball: '' @ e))
         | None \<Rightarrow>
           (case de_close V filename of
              Some e \<Rightarrow> (dir, Inl (''close temp file: '' @ e))
            | None \<Rightarrow>
              (case de_rename V filename of
                 Some e \<Rightarrow> (dir, Inl (''rename to final path: '' @ e))
               | None \<Rightarrow> (dir\<lparr>im_tars := (im_tars dir)(filename \<mapsto> img)\<rparr>, Inr ())))))"

definition deliver_one ::
  "'i delivery_env \<Rightarrow> direct_deliverer \<Rightarrow> digest_map \<Rightarrow> entity \<Rightarrow> 'i image_dir \<Rightarrow> 'i image_dir \<times> bool" where
  \<comment> \<open>the body of the loop of \<^verbatim>\<open>Deliver\<close>: whether the tarball was written\<close>
  "deliver_one V d currentDigests e dir =
     (let filename = tarballFilename e in
      if currentDigests filename = Some (ent_Digest e) then (dir, False)
      else let srcRef = dv_srcRegistry d @ ''/'' @ ent_Repository e @ ''/'' @ ent_Name e @ '':'' @ ent_Tag e in
        case de_parse V srcRef of
          Inl _ \<Rightarrow> (dir, False)
        | Inr _ \<Rightarrow>
          (case de_image V (dv_srcUsername d, dv_srcPassword d) srcRef of
             Inl _ \<Rightarrow> (dir, False)
           | Inr img \<Rightarrow>
             (case writeAtomically V filename img dir of
                (dir', Inl _) \<Rightarrow> (dir', False)
              | (dir', Inr _) \<Rightarrow> (dir', True))))"

fun deliver_loop ::
  "'i delivery_env \<Rightarrow> direct_deliverer \<Rightarrow> digest_map \<Rightarrow> nat \<Rightarrow> entity list \<Rightarrow> (string \<times> string) list \<Rightarrow>
   'i image_dir \<Rightarrow> 'i image_dir \<times> (string \<times> string) list result" where
  "deliver_loop V d currentDigests n [] updates dir = (dir, Inr updates)"
| "deliver_loop V d currentDigests n (e # es) updates dir =
     (if de_cancelled V n then (dir, Inl ''context canceled'')
      else case deliver_one V d currentDigests e dir of
        (dir', wrote) \<Rightarrow> deliver_loop V d currentDigests (Suc n) es
           (if wrote then AList.update (tarballFilename e) (ent_Digest e) updates else updates) dir')"

definition Deliver :: "'i delivery_env \<Rightarrow> direct_deliverer \<Rightarrow> entity list \<Rightarrow> 'i image_dir \<Rightarrow> 'i image_dir \<times> unit result" where
  "Deliver V d es dir =
     (if es = [] then (dir, Inr ())
      else let currentDigests = (case loadDigestMap dir of None \<Rightarrow> Map.empty | Some m \<Rightarrow> m) in
        case deliver_loop V d currentDigests 0 es [] dir of
          (dir', Inl e) \<Rightarrow> (dir', Inl e)
        | (dir', Inr updates) \<Rightarrow>
          (if updates = [] then (dir', Inr ())
           else case loadDigestMap dir' of
             None \<Rightarrow> (dir', Inl ''panic: assignment to entry in nil map'')
           | Some digests \<Rightarrow> saveDigestMap V (Some (digests ++ map_of updates)) dir'))"

fun delete_tars ::
  "'i delivery_env \<Rightarrow> nat \<Rightarrow> entity list \<Rightarrow> string list \<Rightarrow> 'i image_dir \<Rightarrow> 'i image_dir \<times> string list result" where
  "delete_tars V n [] removed dir = (dir, Inr removed)"
| "delete_tars V n (e # es) removed dir =
     (if de_cancelled V n then (dir, Inl ''context canceled'')
      else let filename = tarballFilename e in
        case de_remove V filename of
          Some _ \<Rightarrow> delete_tars V (Suc n) es removed dir
        | None \<Rightarrow> delete_tars V (Suc n) es (removed @ [filename]) (dir\<lparr>im_tars := (im_tars dir)(filename := None)\<rparr>))"

definition Delete :: "'i delivery_env \<Rightarrow> entity list \<Rightarrow> 'i image_dir \<Rightarrow> 'i image_dir \<times> unit result" where
  "Delete V es dir =
     (if es = [] then (dir, Inr ())
      else case delete_tars V 0 es [] dir of
        (dir', Inl e) \<Rightarrow> (dir', Inl e)
      | (dir', Inr removed) \<Rightarrow>
        (if removed = [] then (dir', Inr ())
         else saveDigestMap V (map_option (\<lambda>m. m |` (- set removed)) (loadDigestMap dir')) dir'))"

section \<open>Recorded files exist\<close>

definition recorded :: "'i image_dir \<Rightarrow> string set" where
  "recorded dir = (case loadDigestMap dir of None \<Rightarrow> {} | Some m \<Rightarrow> dom m)"

definition delivered :: "'i image_dir \<Rightarrow> bool" where
  "delivered dir = (recorded dir \<subseteq> dom (im_tars dir))"

lemma writeAtomically_tars:
  "writeAtomically V f img dir = (dir', r) \<Longrightarrow> im_digests dir' = im_digests dir \<and>
     im_tars dir' = (if is_ok r then (im_tars dir)(f \<mapsto> img) else im_tars dir)"
  by (auto simp: writeAtomically_def split: option.splits)

lemma deliver_one_tars:
  "deliver_one V d cur e dir = (dir', w) \<Longrightarrow> im_digests dir' = im_digests dir \<and>
     dom (im_tars dir') = (if w then insert (tarballFilename e) (dom (im_tars dir)) else dom (im_tars dir))"
  by (auto simp: deliver_one_def Let_def dest!: writeAtomically_tars split: sum.splits prod.splits if_splits)

lemma deliver_loop_tars:
  "deliver_loop V d cur n es u dir = (dir', r) \<Longrightarrow>
     im_digests dir' = im_digests dir \<and> dom (im_tars dir) \<subseteq> dom (im_tars dir') \<and>
     (\<forall>u'. r = Inr u' \<longrightarrow> fst ` set u \<subseteq> dom (im_tars dir) \<longrightarrow> fst ` set u' \<subseteq> dom (im_tars dir'))"
proof (induction es arbitrary: n u dir)
  case (Cons e es)
  show ?case
  proof (cases "de_cancelled V n")
    case False
    obtain d1 w where one: "deliver_one V d cur e dir = (d1, w)" by fastforce
    note t = deliver_one_tars[OF one]
    define v where "v = (if w then AList.update (tarballFilename e) (ent_Digest e) u else u)"
    have "deliver_loop V d cur (Suc n) es v d1 = (dir', r)" using Cons.prems False one by (simp add: v_def)
    note ih = Cons.IH[OF this]
    have "fst ` set v \<subseteq> dom (im_tars d1)" if "fst ` set u \<subseteq> dom (im_tars dir)"
      using t that by (cases w) (simp_all add: v_def dom_update subset_insertI2)
    moreover have d: "dom (im_tars dir) \<subseteq> dom (im_tars d1)" using t by (cases w) (simp_all add: subset_insertI)
    moreover have d': "dom (im_tars d1) \<subseteq> dom (im_tars dir')" using ih by simp
    ultimately have "fst ` set u' \<subseteq> dom (im_tars dir')" if "r = Inr u'" "fst ` set u \<subseteq> dom (im_tars dir)" for u'
      using ih that by simp
    with subset_trans[OF d d'] ih t show ?thesis by simp
  qed (use Cons.prems in auto)
qed auto

lemma recorded_frame: "im_digests a = im_digests b \<Longrightarrow> recorded a = recorded b"
  by (simp add: recorded_def loadDigestMap_def)

text \<open>
  C26. Delivery keeps the record truthful: if every file named in the side file exists before,
  it does after \<^verbatim>\<open>Deliver\<close>, whatever references fail to resolve, writes fail or cancellation
  comes, provided a failed write of the side file leaves no new entries behind.
\<close>

theorem Deliver_keeps_delivered:
  assumes "delivered dir" "\<And>e left. de_save V = Some (e, left) \<Longrightarrow> left \<in> {im_digests dir, Corrupt, Missing}"
    and "Deliver V d es dir = (dir', r)"
  shows "delivered dir'"
proof (cases "es = []")
  case False
  let ?cur = "case loadDigestMap dir of None \<Rightarrow> Map.empty | Some m \<Rightarrow> m"
  obtain d1 lr where loop: "deliver_loop V d ?cur 0 es [] dir = (d1, lr)" by fastforce
  note t = deliver_loop_tars[OF loop]
  have d1: "delivered d1" using assms(1) t recorded_frame[of d1 dir] unfolding delivered_def by (metis subset_trans)
  from assms(3) False loop consider "dir' = d1"
    | u m where "lr = Inr u" "loadDigestMap d1 = Some m" "saveDigestMap V (Some (m ++ map_of u)) d1 = (dir', r)"
    by (auto simp: Deliver_def split: sum.splits if_splits option.splits)
  then show ?thesis
  proof cases
    case 2
    have dom: "dom m \<subseteq> dom (im_tars d1)" "dom (map_of u) \<subseteq> dom (im_tars d1)"
      using d1 2(1,2) t by (simp_all add: delivered_def recorded_def dom_map_of_conv_image_fst)
    show ?thesis
    proof (cases "de_save V")
      case None
      then have "dir' = d1\<lparr>im_digests := Holds (Some (m ++ map_of u))\<rparr>" using 2(3) by (simp add: saveDigestMap_def)
      with dom show ?thesis by (simp add: delivered_def recorded_def loadDigestMap_def)
    next
      case (Some f)
      then obtain e left where f: "de_save V = Some (e, left)" by (cases f) auto
      then have "dir' = d1\<lparr>im_digests := left\<rparr>" using 2(3) by (simp add: saveDigestMap_def)
      moreover have "left \<in> {im_digests d1, Corrupt, Missing}" using assms(2)[OF f] t by simp
      ultimately show ?thesis using d1 by (auto simp: delivered_def recorded_def loadDigestMap_def)
    qed
  qed (use d1 in simp)
qed (use assms in \<open>auto simp: Deliver_def\<close>)

definition sample_delivery :: "string delivery_env" where
  "sample_delivery = \<lparr>de_parse = (\<lambda>_. Inr ()), de_image = (\<lambda>_ r. Inr r), de_create = (\<lambda>_. None), de_tarball = (\<lambda>_. None),
     de_close = (\<lambda>_. None), de_rename = (\<lambda>_. None), de_remove = (\<lambda>_. None), de_save = None, de_cancelled = (\<lambda>_. False)\<rparr>"

definition sample_deliverer :: direct_deliverer where
  "sample_deliverer = \<lparr>dv_srcUsername = ''u'', dv_srcPassword = ''p'', dv_srcRegistry = ''harbor''\<rparr>"

definition empty_dir :: "string image_dir" where
  "empty_dir = \<lparr>im_tars = Map.empty, im_digests = Missing\<rparr>"

theorem Deliver_keeps_delivered_witness:
  "delivered (fst (Deliver sample_delivery sample_deliverer [sample_entity ''lib'' ''a'' ''1'' ''d1''] empty_dir))"
proof -
  let ?r = "Deliver sample_delivery sample_deliverer [sample_entity ''lib'' ''a'' ''1'' ''d1''] empty_dir"
  have "delivered empty_dir" by (simp add: delivered_def recorded_def loadDigestMap_def empty_dir_def)
  from Deliver_keeps_delivered[OF this, of sample_delivery sample_deliverer _ "fst ?r" "snd ?r"]
  show ?thesis by (simp add: sample_delivery_def)
qed

lemma delete_tars_gone:
  "delete_tars V n es removed dir = (dir', Inr removed') \<Longrightarrow>
     im_digests dir' = im_digests dir \<and> set removed \<subseteq> set removed' \<and>
     (\<forall>f. f \<notin> set removed' \<longrightarrow> im_tars dir' f = im_tars dir f)"
  by (induction es arbitrary: n removed dir) (fastforce simp: Let_def split: if_splits option.splits)+

text \<open>
  Deleting tarballs keeps the record truthful when it runs to its end: if every file named
  in the side file exists before, it does after a \<^verbatim>\<open>Delete\<close> that reports no error.
\<close>

theorem Delete_keeps_delivered:
  assumes "delivered dir" "Delete V es dir = (dir', Inr ())"
  shows "delivered dir'"
proof (cases "es = []")
  case False
  with assms(2) obtain d1 removed where d: "delete_tars V 0 es [] dir = (d1, Inr removed)"
    by (auto simp: Delete_def split: sum.splits prod.splits)
  note t = delete_tars_gone[OF d]
  have rec: "recorded d1 = recorded dir" using t by (intro recorded_frame) simp
  have sub: "recorded dir - set removed \<subseteq> dom (im_tars d1)"
  proof
    fix f assume "f \<in> recorded dir - set removed"
    with assms(1) t have "f \<in> dom (im_tars dir)" "im_tars d1 f = im_tars dir f" by (auto simp: delivered_def)
    then show "f \<in> dom (im_tars d1)" by (simp add: domIff)
  qed
  show ?thesis
  proof (cases "removed = []")
    case True
    with assms(2) False d have "dir' = d1" by (simp add: Delete_def)
    with sub rec True show ?thesis by (simp add: delivered_def)
  next
    case nonempty: False
    let ?m = "map_option (\<lambda>m. m |` (- set removed)) (loadDigestMap d1)"
    have "dir' = d1\<lparr>im_digests := Holds ?m\<rparr>"
      using assms(2) False nonempty d by (auto simp: Delete_def saveDigestMap_def split: option.splits)
    moreover have "recorded (d1\<lparr>im_digests := Holds ?m\<rparr>) \<subseteq> recorded d1 - set removed"
      by (cases "loadDigestMap d1") (auto simp: recorded_def loadDigestMap_def[of "d1\<lparr>im_digests := _\<rparr>"])
    ultimately show ?thesis using sub rec by (auto simp: delivered_def)
  qed
qed (use assms in \<open>simp add: Delete_def\<close>)

theorem Delete_keeps_delivered_witness:
  "delivered (fst (Delete sample_delivery [sample_entity ''lib'' ''a'' ''1'' ''d1'']
     (empty_dir\<lparr>im_tars := [''lib--a--1.tar'' \<mapsto> ''x''], im_digests := Holds (Some [''lib--a--1.tar'' \<mapsto> ''d1''])\<rparr>)))"
proof -
  let ?d = "empty_dir\<lparr>im_tars := [''lib--a--1.tar'' \<mapsto> ''x''], im_digests := Holds (Some [''lib--a--1.tar'' \<mapsto> ''d1''])\<rparr>"
  have "delivered ?d" by (simp add: delivered_def recorded_def loadDigestMap_def empty_dir_def)
  moreover obtain d' where d': "Delete sample_delivery [sample_entity ''lib'' ''a'' ''1'' ''d1''] ?d = (d', Inr ())"
    by (simp add: Delete_def sample_delivery_def saveDigestMap_def Let_def)
  ultimately have "delivered d'" by (rule Delete_keeps_delivered)
  then show ?thesis by (simp add: d')
qed

text \<open>
  A cancelled \<^verbatim>\<open>Delete\<close> breaks it: the context is cancelled after the first of two files
  was removed, the side file still records the removed one, and a later \<^verbatim>\<open>Deliver\<close> of the same
  image and digest is skipped as up to date, so its tarball stays missing.
\<close>

lemma Delete_cancelled_blocks_delivery:
  "let e1 = sample_entity ''lib'' ''a'' ''1'' ''d1''; e2 = sample_entity ''lib'' ''b'' ''1'' ''d2'';
       dir = fst (Deliver sample_delivery sample_deliverer [e1, e2] empty_dir);
       dir1 = fst (Delete (sample_delivery\<lparr>de_cancelled := (\<lambda>n. n = 1)\<rparr>) [e1, e2] dir);
       dir2 = fst (Deliver sample_delivery sample_deliverer [e1] dir1)
   in im_tars dir (tarballFilename e1) \<noteq> None \<and> im_tars dir2 (tarballFilename e1) = None \<and>
      snd (Deliver sample_delivery sample_deliverer [e1] dir1) = Inr ()"
  by code_simp

end
