(* ===== verification/State_Process.thy ===== *)
theory State_Process
  imports Direct_Delivery
begin

text \<open>
  \<^verbatim>\<open>internal/satellite/state/fetcher.go\<close>, \<^verbatim>\<open>helpers.go\<close> and the effectful part of
  \<^verbatim>\<open>state_process.go\<close>: one run of the replication process. It fetches the root state of the
  satellite, updates the list of groups, brings every group and the configuration up to date,
  and collects the results.

  The world of a run is the record \<open>sync_world\<close>: local registry, files, image directory and the
  process itself. Its surroundings are the record \<open>sync_env\<close>: the registry client, the archive
  that pulling and exporting an artifact yields, the JSON decoders, and the faults of the
  file system. The goroutines of a run are tasks executed in an order given as a parameter; a
  group task writes its own entry of the state map under the lock, and only there. A run that is cancelled
  returns without the tasks that have not ended: they stay in \<open>sw_left\<close>, and \<open>Satellite_Run\<close> lets each of them
  do its work later. Logging is left out.
\<close>

section \<open>Fetching state artifacts\<close>

record url_state_fetcher =
  uf_username :: string
  uf_password :: string
  uf_url :: string
  uf_insecure :: bool
  uf_useHTTP :: bool
  uf_tlsCfg :: tls_config

record tar_archive =
  ta_entries :: "(string \<times> string result) list" \<comment> \<open>name and what reading the content gives\<close>
  ta_end :: "string option" \<comment> \<open>the error that ends the iteration, \<open>None\<close> for end of file\<close>

record fetch_env =
  fe_load_tls :: "tls_config \<Rightarrow> unit result"
  fe_pull :: "url_state_fetcher \<Rightarrow> tar_archive result result" \<comment> \<open>pull, then export\<close>
  fe_digest :: "url_state_fetcher \<Rightarrow> string result"
  fe_decode_satellite :: "string \<Rightarrow> satellite_state result"
  fe_decode_group :: "string \<Rightarrow> state_doc result"
  fe_decode_config :: "string \<Rightarrow> config result"

definition NewURLStateFetcherWithTLS :: "string \<Rightarrow> string \<Rightarrow> string \<Rightarrow> bool \<Rightarrow> tls_config \<Rightarrow> url_state_fetcher" where
  "NewURLStateFetcherWithTLS stateURL userName password insecure tlsCfg =
     (let (u, useHTTP) =
        (if hasPrefix stateURL ''http://'' then (trimPrefix stateURL ''http://'', True)
         else if hasPrefix stateURL ''https://'' then (trimPrefix stateURL ''https://'', False)
         else (stateURL, insecure))
      in \<lparr>uf_username = userName, uf_password = password, uf_url = u, uf_insecure = insecure,
          uf_useHTTP = useHTTP, uf_tlsCfg = tlsCfg\<rparr>)"

definition fetcher_TLSTransport :: "fetch_env \<Rightarrow> url_state_fetcher \<Rightarrow> unit result" where
  "fetcher_TLSTransport V f =
     (if tls_CertFile (uf_tlsCfg f) = [] \<and> tls_CAFile (uf_tlsCfg f) = [] then Inr ()
      else case fe_load_tls V (uf_tlsCfg f) of
        Inl e \<Rightarrow> Inl (''load TLS config: '' @ e)
      | Inr _ \<Rightarrow> Inr ())"

definition buildCraneOptions :: "fetch_env \<Rightarrow> url_state_fetcher \<Rightarrow> unit result" where
  "buildCraneOptions V f =
     (if uf_useHTTP f then Inr () else if uf_insecure f then Inr () else fetcher_TLSTransport V f)"

definition FetchDigest :: "fetch_env \<Rightarrow> url_state_fetcher \<Rightarrow> string result" where
  "FetchDigest V f =
     (case buildCraneOptions V f of
        Inl e \<Rightarrow> Inl (''build crane options: '' @ e)
      | Inr _ \<Rightarrow> fe_digest V f)"

definition pullImage :: "fetch_env \<Rightarrow> url_state_fetcher \<Rightarrow> tar_archive result result" where
  "pullImage V f =
     (case buildCraneOptions V f of
        Inl e \<Rightarrow> Inl (''build crane options: '' @ e)
      | Inr _ \<Rightarrow> fe_pull V f)"

fun find_artifacts_json :: "(string \<times> string result) list \<Rightarrow> string option \<Rightarrow> string result" where
  \<comment> \<open>the loop over the archive in \<^verbatim>\<open>extractArtifactJSON\<close>\<close>
  "find_artifacts_json [] (Some e) = Inl (''failed to read the tar archive: '' @ e)"
| "find_artifacts_json [] None = Inl ''artifacts.json not found in the state artifact''"
| "find_artifacts_json ((name, content) # rest) end =
     (if name = ''artifacts.json''
      then (case content of Inl e \<Rightarrow> Inl (''failed to read the artifacts.json file: '' @ e) | Inr d \<Rightarrow> Inr d)
      else find_artifacts_json rest end)"

definition extractArtifactJSON :: "tar_archive result \<Rightarrow> (string \<Rightarrow> 'a result) \<Rightarrow> 'a result" where
  "extractArtifactJSON exported decode =
     (case exported of
        Inl e \<Rightarrow> Inl (''failed to export the state artifact: '' @ e)
      | Inr t \<Rightarrow>
        (case find_artifacts_json (ta_entries t) (ta_end t) of
           Inl e \<Rightarrow> Inl e
         | Inr d \<Rightarrow> (case decode d of Inl e \<Rightarrow> Inl (''unmarshal artifacts.json: '' @ e) | Inr v \<Rightarrow> Inr v)))"

definition FetchStateArtifact :: "fetch_env \<Rightarrow> (string \<Rightarrow> 'a result) \<Rightarrow> url_state_fetcher \<Rightarrow> 'a result" where
  \<comment> \<open>the three cases of the type switch differ only in the decoder\<close>
  "FetchStateArtifact V decode f =
     (case pullImage V f of Inl e \<Rightarrow> Inl e | Inr img \<Rightarrow> extractArtifactJSON img decode)"

definition getStateFetcherForInputWithTLS ::
  "string \<Rightarrow> string \<Rightarrow> string \<Rightarrow> bool \<Rightarrow> tls_config \<Rightarrow> url_state_fetcher result" where
  "getStateFetcherForInputWithTLS input username password useInsecure tlsCfg =
     (if \<not> IsValidURL input then Inl (''invalid state url provided: '' @ input)
      else Inr (NewURLStateFetcherWithTLS input username password useInsecure tlsCfg))"

definition getStateFetcherForInput :: "string \<Rightarrow> string \<Rightarrow> string \<Rightarrow> bool \<Rightarrow> url_state_fetcher result" where
  "getStateFetcherForInput input username password useInsecure =
     getStateFetcherForInputWithTLS input username password useInsecure zero_tls"

section \<open>The world of a run\<close>

record replication_setup =
  rs_replicator :: basic_replicator
  rs_sourceURL :: string
  rs_remoteURL :: string
  rs_stateURL :: string
  rs_deliverer :: "direct_deliverer option"

datatype task = GroupTask nat | ConfigTask
  \<comment> \<open>the goroutines of a run: one for every group, one for the configuration\<close>

type_synonym left_task = "replication_setup \<times> string \<times> task"
  \<comment> \<open>a goroutine with what it captured: the replicator, the URL of the configuration, which task it is\<close>

record ('i, 'r) sync_world =
  sw_reg :: 'r
  sw_files :: files
  sw_dir :: "'i image_dir"
  sw_proc :: sync_process
  sw_left :: "left_task list"
    \<comment> \<open>the goroutines that go on after the \<^verbatim>\<open>Execute\<close> that launched them has returned\<close>

record ('d, 'i, 'r) sync_env =
  sy_registry :: "('d, 'i, 'r) registry_ops"
  sy_fetch :: fetch_env
  sy_delivery :: "'i delivery_env"
  sy_ord :: "entity list \<Rightarrow> entity list"
  sy_cancelled :: "nat \<Rightarrow> bool"
  sy_state_codec :: state_codec
  sy_faults :: save_faults
  sy_tmp :: string
  sy_sec :: sec_env
  sy_write_prev :: write_outcome
  sy_write_new :: write_outcome
  sy_venv :: venv
  sy_finished :: nat
    \<comment> \<open>how many goroutines have ended when \<^verbatim>\<open>Execute\<close> returns because of a cancellation\<close>

definition overridden :: "config_manager \<Rightarrow> string \<Rightarrow> string" where
  \<comment> \<open>the pattern \<^verbatim>\<open>if override != "" \{ if replaced, err := ReplaceURLHost(...); err == nil \{...\} \}\<close>\<close>
  "overridden cm u =
     (if GetHarborRegistryURL cm \<noteq> []
      then (case ReplaceURLHost u (GetHarborRegistryURL cm) of Inl _ \<Rightarrow> u | Inr r \<Rightarrow> r)
      else u)"

definition save_proc :: "('d, 'i, 'r) sync_env \<Rightarrow> ('i, 'r) sync_world \<Rightarrow> ('i, 'r) sync_world" where
  \<comment> \<open>\<^verbatim>\<open>SaveState\<close> when a path is set; its error is only logged\<close>
  "save_proc E w =
     (let f = sw_proc w in
      if fp_stateFilePath f = [] then w
      else w\<lparr>sw_files := last (fst (SaveState (sy_state_codec E) (sy_faults E) (sy_tmp E) (fp_stateFilePath f)
               (fp_stateMap f) (fp_currentConfigDigest f) (sw_files w)))\<rparr>)"

section \<open>One group\<close>

record fetcher_result =
  fr_Index :: nat
  fr_URL :: string
  fr_Error :: "string option"
  fr_Cancelled :: bool

definition FetchAndProcessState :: "fetch_env \<Rightarrow> url_state_fetcher \<Rightarrow> state_doc result" where
  "FetchAndProcessState V f =
     (case FetchStateArtifact V (fe_decode_group V) f of Inl e \<Rightarrow> Inl e | Inr s \<Rightarrow> ProcessState s)"

definition deliver_changes ::
  "('d, 'i, 'r) sync_env \<Rightarrow> direct_deliverer option \<Rightarrow> entity list \<Rightarrow> entity list \<Rightarrow> 'i image_dir \<Rightarrow> 'i image_dir" where
  \<comment> \<open>the direct delivery block of \<^verbatim>\<open>processGroupState\<close>; its errors are only logged\<close>
  "deliver_changes E dd del rep dir =
     (case dd of
        None \<Rightarrow> dir
      | Some d \<Rightarrow> fst (Deliver (sy_delivery E) d rep (fst (Delete (sy_delivery E) del dir))))"

definition processGroupState ::
  "('d, 'i, 'r) sync_env \<Rightarrow> config_manager \<Rightarrow> basic_replicator \<Rightarrow> direct_deliverer option \<Rightarrow>
   string \<Rightarrow> string \<Rightarrow> bool \<Rightarrow> nat \<Rightarrow> ('i, 'r) sync_world \<Rightarrow> ('i, 'r) sync_world \<times> fetcher_result" where
  "processGroupState E cm b dd srcUsername srcPassword useUnsecure index w =
     (let sm = fp_stateMap (sw_proc w) ! index;
          result = \<lparr>fr_Index = index, fr_URL = sm_url sm, fr_Error = None, fr_Cancelled = False\<rparr>;
          groupURL = overridden cm (sm_url sm)
      in case getStateFetcherForInput groupURL srcUsername srcPassword useUnsecure of
           Inl e \<Rightarrow> (w, result\<lparr>fr_Error := Some (''failed to create state fetcher for '' @ sm_url sm @ '': '' @ e)\<rparr>)
         | Inr fetcher \<Rightarrow>
      (case FetchAndProcessState (sy_fetch E) fetcher of
           Inl e \<Rightarrow> (w, result\<lparr>fr_Error := Some (''failed to fetch state for '' @ sm_url sm @ '': '' @ e)\<rparr>)
         | Inr newStateFetched \<Rightarrow>
      (case GetChanges (sy_ord E) newStateFetched (sm_Entities sm) of (deleteEntity, replicateEntity, newState) \<Rightarrow>
      (case DeleteReplicationEntity (sy_registry E) (sy_cancelled E) b deleteEntity (sw_reg w) of
           (reg1, Inl e) \<Rightarrow>
             (w\<lparr>sw_reg := reg1\<rparr>, result\<lparr>fr_Error := Some (''failed to delete entities for '' @ sm_url sm @ '': '' @ e)\<rparr>)
         | (reg1, Inr _) \<Rightarrow>
      (case Replicate (sy_registry E) (sy_cancelled E) b replicateEntity reg1 of
           (reg2, Inl e) \<Rightarrow>
             (w\<lparr>sw_reg := reg2\<rparr>, result\<lparr>fr_Error := Some (''failed to replicate entities for '' @ sm_url sm @ '': '' @ e)\<rparr>)
         | (reg2, Inr _) \<Rightarrow>
           (let w1 = w\<lparr>sw_reg := reg2, sw_dir := deliver_changes E dd deleteEntity replicateEntity (sw_dir w)\<rparr>;
                sm' = sm\<lparr>sm_State := Some newState, sm_Entities := FetchEntitiesFromState newState\<rparr>;
                w2 = w1\<lparr>sw_proc := (sw_proc w1)\<lparr>fp_stateMap := (fp_stateMap (sw_proc w1))[index := sm']\<rparr>\<rparr>
            in (save_proc E w2, result)))))))"

section \<open>The remote configuration\<close>

record config_result =
  cr_ConfigDigest :: string
  cr_Error :: "string option"
  cr_Cancelled :: bool

definition reconcileRemoteConfig ::
  "('d, 'i, 'r) sync_env \<Rightarrow> config_manager \<Rightarrow> string \<Rightarrow> string \<Rightarrow> string \<Rightarrow> bool \<Rightarrow>
   ('i, 'r) sync_world \<Rightarrow> ('i, 'r) sync_world \<times> config_result" where
  "reconcileRemoteConfig E cm configURL0 srcUsername srcPassword useUnsecure w =
     (let result = \<lparr>cr_ConfigDigest = [], cr_Error = None, cr_Cancelled = False\<rparr>;
          configURL = overridden cm configURL0
      in case getStateFetcherForInput configURL srcUsername srcPassword useUnsecure of
           Inl e \<Rightarrow> (w, result\<lparr>cr_Error := Some (''failed to create config state fetcher: '' @ e)\<rparr>)
         | Inr fetcher \<Rightarrow>
      (case FetchDigest (sy_fetch E) fetcher of
           Inl e \<Rightarrow> (w, result\<lparr>cr_Error := Some (''failed to fetch config digest from '' @ configURL @ '': '' @ e)\<rparr>)
         | Inr configDigest \<Rightarrow>
      (if configDigest = fp_currentConfigDigest (sw_proc w) then (w, result\<lparr>cr_ConfigDigest := configDigest\<rparr>)
       else case FetchStateArtifact (sy_fetch E) (fe_decode_config (sy_fetch E)) fetcher of
           Inl e \<Rightarrow> (w, result\<lparr>cr_Error := Some (''failed to fetch config artifact from '' @ configURL @ '': '' @ e)\<rparr>)
         | Inr fetched \<Rightarrow>
      (let remoteConfig = SetHarborRegistryURL (GetHarborRegistryURL cm) (SetStateConfig (GetStateConfig cm) fetched) in
       case ValidateAndEnforceDefaults (sy_venv E) (Some remoteConfig) (cm_DefaultGroundControlURL cm) of
           (_, Inl e) \<Rightarrow> (w, result\<lparr>cr_Error := Some (''failed to validate config from '' @ configURL @ '': '' @ e)\<rparr>)
         | (_, Inr validated) \<Rightarrow>
      (case WritePrevConfigToDisk (sy_sec E) (sy_write_prev E) cm (GetConfig cm) (sw_files w) of
           (fs1, Inl e) \<Rightarrow>
             (w\<lparr>sw_files := fs1\<rparr>, result\<lparr>cr_Error := Some (''failed to write previous config to disk: '' @ e)\<rparr>)
         | (fs1, Inr _) \<Rightarrow>
      (case WriteConfigToDisk (sy_sec E) (sy_write_new E) cm validated fs1 of
           (fs2, Inl e) \<Rightarrow>
             (w\<lparr>sw_files := fs2\<rparr>, result\<lparr>cr_Error := Some (''failed to write new config to disk: '' @ e)\<rparr>)
         | (fs2, Inr _) \<Rightarrow>
           (let w1 = w\<lparr>sw_files := fs2, sw_proc := (sw_proc w)\<lparr>fp_currentConfigDigest := configDigest\<rparr>\<rparr>
            in (save_proc E w1, result\<lparr>cr_ConfigDigest := configDigest\<rparr>))))))))"

section \<open>Collecting results\<close>

datatype task_result = GroupDone fetcher_result | ConfigDone config_result

fun task_error :: "task_result \<Rightarrow> string option" where
  \<comment> \<open>the two switches of \<^verbatim>\<open>collectResults\<close>: a cancelled task contributes no error\<close>
  "task_error (GroupDone r) = (if fr_Cancelled r then None else fr_Error r)"
| "task_error (ConfigDone r) = (if cr_Cancelled r then None else cr_Error r)"

fun collect_loop :: "nat option \<Rightarrow> nat \<Rightarrow> bool \<Rightarrow> nat \<Rightarrow> string list \<Rightarrow> task_result list \<Rightarrow> string list result" where
  \<comment> \<open>\<open>cancel\<close>: after how many receptions the select takes the \<^verbatim>\<open>ctx.Done\<close> branch. A loop that
      waits for a result that never comes is the error \<open>blocked\<close>.\<close>
  "collect_loop cancel states cfg expected errs results =
     (if cancel = Some 0 then Inl ''context canceled''
      else case results of
        [] \<Rightarrow> Inl ''blocked''
      | r # rs \<Rightarrow>
        (let errs' = (case task_error r of None \<Rightarrow> errs | Some e \<Rightarrow> errs @ [e]);
             states' = (case r of GroupDone _ \<Rightarrow> states + 1 | ConfigDone _ \<Rightarrow> states);
             cfg' = (case r of GroupDone _ \<Rightarrow> cfg | ConfigDone _ \<Rightarrow> True)
         in if states' = expected \<and> cfg' then Inr errs'
            else collect_loop (map_option (\<lambda>n. n - 1) cancel) states' cfg' expected errs' rs))"

definition collectResults :: "nat option \<Rightarrow> nat \<Rightarrow> task_result list \<Rightarrow> unit result" where
  "collectResults cancel expectedCount results =
     (case collect_loop cancel 0 False expectedCount [] results of
        Inl e \<Rightarrow> Inl e
      | Inr allErrors \<Rightarrow>
        (if allErrors \<noteq> []
         then Inl (''the following errors occurred while reconciling satellite state: '' @ join ''; '' allErrors)
         else Inr ()))"

section \<open>The whole run\<close>

definition missing_fields :: "(bool \<times> string) list \<Rightarrow> string list" where
  "missing_fields checks = map snd (filter fst checks)"

definition CanExecute :: "string \<Rightarrow> string \<Rightarrow> string \<Rightarrow> string \<Rightarrow> string \<Rightarrow> bool \<times> string" where
  "CanExecute satelliteStateURL remoteURL srcURL srcUsername srcPassword =
     (let missing = missing_fields [(satelliteStateURL = [], ''satelliteState is empty''),
            (remoteURL = [], ''remote registry URL is empty''), (srcUsername = [], ''username is empty''),
            (srcURL = [], ''source registry is empty''), (srcPassword = [], ''password is empty'')]
      in if 0 < length missing then (False, ''missing '' @ join '', '' missing)
         else (True, ''Process replicate_state can execute: all conditions fulfilled''))"

definition setupReplication :: "config_manager \<Rightarrow> replication_setup" where
  "setupReplication cm =
     (let override = GetHarborRegistryURL cm;
          sourceURL = (if override \<noteq> []
            then (case ReplaceURLHost (GetSourceRegistryURL cm) override of
                    Inl _ \<Rightarrow> FormatRegistryURL (GetSourceRegistryURL cm) | Inr r \<Rightarrow> FormatRegistryURL r)
            else FormatRegistryURL (GetSourceRegistryURL cm));
          remoteURL = FormatRegistryURL (GetLocalRegistryURL cm);
          dd = GetDirectDeliveryConfig cm
      in \<lparr>rs_replicator = NewBasicReplicator (GetSourceRegistryUsername cm) (GetSourceRegistryPassword cm) sourceURL
             remoteURL (GetRemoteRegistryUsername cm) (GetRemoteRegistryPassword cm) (UseUnsecure cm),
          rs_sourceURL = sourceURL, rs_remoteURL = remoteURL, rs_stateURL = overridden cm (GetStateURL cm),
          rs_deliverer = (if dd_Enabled dd \<and> dd_ImageDir dd \<noteq> []
            then Some \<lparr>dv_srcUsername = GetSourceRegistryUsername cm, dv_srcPassword = GetSourceRegistryPassword cm,
                       dv_srcRegistry = sourceURL\<rparr>
            else None)\<rparr>)"

definition fetchSatelliteRootState ::
  "fetch_env \<Rightarrow> string \<Rightarrow> string \<Rightarrow> string \<Rightarrow> bool \<Rightarrow> satellite_state result" where
  "fetchSatelliteRootState V satelliteStateURL srcUsername srcPassword useUnsecure =
     (case getStateFetcherForInput satelliteStateURL srcUsername srcPassword useUnsecure of
        Inl e \<Rightarrow> Inl e
      | Inr f \<Rightarrow> FetchStateArtifact V (fe_decode_satellite V) f)"

fun run_tasks ::
  "(task \<Rightarrow> ('i, 'r) sync_world \<Rightarrow> ('i, 'r) sync_world \<times> task_result) \<Rightarrow> task list \<Rightarrow>
   ('i, 'r) sync_world \<Rightarrow> ('i, 'r) sync_world \<times> task_result list" where
  \<comment> \<open>the goroutines of a run, executed in the order of the list\<close>
  "run_tasks run [] w = (w, [])"
| "run_tasks run (t # ts) w =
     (case run t w of (w1, r) \<Rightarrow> (case run_tasks run ts w1 of (w2, rs) \<Rightarrow> (w2, r # rs)))"

definition run_task ::
  "('d, 'i, 'r) sync_env \<Rightarrow> config_manager \<Rightarrow> replication_setup \<Rightarrow> string \<Rightarrow> task \<Rightarrow>
   ('i, 'r) sync_world \<Rightarrow> ('i, 'r) sync_world \<times> task_result" where
  "run_task E cm S configURL t w =
     (case t of
        GroupTask i \<Rightarrow> apsnd GroupDone (processGroupState E cm (rs_replicator S) (rs_deliverer S)
           (GetSourceRegistryUsername cm) (GetSourceRegistryPassword cm) (UseUnsecure cm) i w)
      | ConfigTask \<Rightarrow> apsnd ConfigDone (reconcileRemoteConfig E cm configURL
           (GetSourceRegistryUsername cm) (GetSourceRegistryPassword cm) (UseUnsecure cm) w))"

definition set_running :: "bool \<Rightarrow> ('i, 'r) sync_world \<Rightarrow> ('i, 'r) sync_world" where
  \<comment> \<open>\<^verbatim>\<open>start\<close> and \<^verbatim>\<open>stop\<close>\<close>
  "set_running b w = w\<lparr>sw_proc := (sw_proc w)\<lparr>fp_isRunning := b\<rparr>\<rparr>"

definition finished_tasks :: "('d, 'i, 'r) sync_env \<Rightarrow> nat option \<Rightarrow> task list \<Rightarrow> nat" where
  \<comment> \<open>how many tasks have ended when \<^verbatim>\<open>collectResults\<close> returns: all of them unless the context is cancelled,
      then at least those whose results it received\<close>
  "finished_tasks E cancel ts = (case cancel of None \<Rightarrow> length ts | Some received \<Rightarrow> max received (sy_finished E))"

definition execute_body ::
  "('d, 'i, 'r) sync_env \<Rightarrow> config_manager \<Rightarrow> bool \<Rightarrow> (nat \<Rightarrow> task list) \<Rightarrow> nat option \<Rightarrow>
   ('i, 'r) sync_world \<Rightarrow> ('i, 'r) sync_world \<times> unit result" where
  \<comment> \<open>\<open>early\<close>: the context is cancelled on entry; \<open>order n\<close>: the order of the tasks of \<open>n\<close> groups; \<open>cancel\<close>: after how
      many results it is cancelled later. The tasks that have not ended by then are left running.\<close>
  "execute_body E cm early order cancel w0 =
     (if early then (w0, Inl ''context canceled'')
      else let S = setupReplication cm in
        if \<not> fst (CanExecute (rs_stateURL S) (rs_remoteURL S) (rs_sourceURL S)
                    (GetSourceRegistryUsername cm) (GetSourceRegistryPassword cm)) then (w0, Inr ())
        else case fetchSatelliteRootState (sy_fetch E) (rs_stateURL S) (GetSourceRegistryUsername cm)
                    (GetSourceRegistryPassword cm) (UseUnsecure cm) of
          Inl e \<Rightarrow> (w0, Inl e)
        | Inr root0 \<Rightarrow>
          (case (if GetHarborRegistryURL cm \<noteq> [] then applyHarborOverrideToSatelliteState root0 (GetHarborRegistryURL cm)
                 else Inr root0) of
             Inl e \<Rightarrow> (w0, Inl e)
           | Inr root \<Rightarrow>
             (case updateStateMap (ss_States root) (fp_stateMap (sw_proc w0)) of (sms, changed) \<Rightarrow>
              let w1 = w0\<lparr>sw_proc := (sw_proc w0)\<lparr>fp_stateMap := sms\<rparr>\<rparr>;
                  w2 = (if changed then save_proc E w1 else w1);
                  ts = order (length sms); k = finished_tasks E cancel ts
              in case run_tasks (run_task E cm S (ss_Config root)) (take k ts) w2 of
                   (w3, results) \<Rightarrow> (w3\<lparr>sw_left := sw_left w3 @ map (\<lambda>t. (S, ss_Config root, t)) (drop k ts)\<rparr>,
                     collectResults cancel (length sms) results))))"

definition Execute ::
  "('d, 'i, 'r) sync_env \<Rightarrow> config_manager \<Rightarrow> bool \<Rightarrow> (nat \<Rightarrow> task list) \<Rightarrow> nat option \<Rightarrow>
   ('i, 'r) sync_world \<Rightarrow> ('i, 'r) sync_world \<times> unit result" where
  "Execute E cm early order cancel w =
     (case execute_body E cm early order cancel (set_running True w) of (w', r) \<Rightarrow> (set_running False w', r))"

section \<open>Properties of a group task\<close>

lemma save_proc_frame [simp]:
  "sw_proc (save_proc E w) = sw_proc w" "sw_reg (save_proc E w) = sw_reg w" "sw_dir (save_proc E w) = sw_dir w"
  "sw_left (save_proc E w) = sw_left w"
  by (simp_all add: save_proc_def Let_def)

lemma GetChanges_state: "GetChanges ord s old = (del, rep, s') \<Longrightarrow> s' = RemoveNullTagArtifacts s"
  by (auto simp: GetChanges_def Let_def split: if_splits prod.splits)

definition group_state :: "('d, 'i, 'r) sync_env \<Rightarrow> config_manager \<Rightarrow> string \<Rightarrow> string \<Rightarrow> bool \<Rightarrow> string \<Rightarrow> state_doc result" where
  \<comment> \<open>the processed state that is served for the URL of a group\<close>
  "group_state E cm user pass unsecure u =
     (case getStateFetcherForInput (overridden cm u) user pass unsecure of
        Inl e \<Rightarrow> Inl e | Inr f \<Rightarrow> FetchAndProcessState (sy_fetch E) f)"

lemma group_task_outcome:
  assumes "processGroupState E cm b dd user pass unsecure i w = (w', r)"
  shows "fr_Index r = i \<and> fr_URL r = sm_url (fp_stateMap (sw_proc w) ! i) \<and> \<not> fr_Cancelled r \<and>
     (case fr_Error r of
        Some _ \<Rightarrow> sw_proc w' = sw_proc w \<and> sw_files w' = sw_files w \<and> sw_dir w' = sw_dir w
      | None \<Rightarrow> \<exists>s. group_state E cm user pass unsecure (sm_url (fp_stateMap (sw_proc w) ! i)) = Inr s \<and>
          sw_proc w' = (sw_proc w)\<lparr>fp_stateMap := (fp_stateMap (sw_proc w))[i := (fp_stateMap (sw_proc w) ! i)
            \<lparr>sm_State := Some (RemoveNullTagArtifacts s), sm_Entities := FetchEntitiesFromState (RemoveNullTagArtifacts s)\<rparr>]\<rparr>)"
  using assms
  by (auto simp: processGroupState_def group_state_def Let_def dest!: GetChanges_state split: sum.splits prod.splits)

text \<open>
  Processing one group: an error at any stage leaves the process state (and with it the
  memory of what was replicated), the files and the image directory as they were; success
  means that the group's URL served a valid state, and it changes exactly the entry of this
  group, which then records the tagged artifacts of that state.
\<close>

theorem processGroupState_outcome:
  "case processGroupState E cm b dd user pass unsecure i w of (w', r) \<Rightarrow>
     (case fr_Error r of
        Some _ \<Rightarrow> sw_proc w' = sw_proc w \<and> sw_files w' = sw_files w \<and> sw_dir w' = sw_dir w
      | None \<Rightarrow> \<exists>s. group_state E cm user pass unsecure (sm_url (fp_stateMap (sw_proc w) ! i)) = Inr s \<and>
          sw_proc w' = (sw_proc w)\<lparr>fp_stateMap := (fp_stateMap (sw_proc w))[i := (fp_stateMap (sw_proc w) ! i)
            \<lparr>sm_State := Some (RemoveNullTagArtifacts s), sm_Entities := FetchEntitiesFromState (RemoveNullTagArtifacts s)\<rparr>]\<rparr>)"
  by (cases "processGroupState E cm b dd user pass unsecure i w") (auto dest!: group_task_outcome)

section \<open>Collecting results\<close>

definition groups_done :: "task_result list \<Rightarrow> nat" where
  "groups_done rs = length (filter (\<lambda>r. case r of GroupDone _ \<Rightarrow> True | ConfigDone _ \<Rightarrow> False) rs)"

definition configs_done :: "task_result list \<Rightarrow> nat" where
  "configs_done rs = length (filter (\<lambda>r. case r of GroupDone _ \<Rightarrow> False | ConfigDone _ \<Rightarrow> True) rs)"

lemma collect_loop_all:
  "s + groups_done rs = n \<Longrightarrow> of_bool c + configs_done rs = 1 \<Longrightarrow> rs \<noteq> [] \<Longrightarrow>
   collect_loop cancel s c n errs rs =
     (if (case cancel of None \<Rightarrow> False | Some received \<Rightarrow> received < length rs) then Inl ''context canceled''
      else Inr (errs @ List.map_filter task_error rs))"
proof (induction rs arbitrary: s c errs cancel)
  case (Cons r rs)
  show ?case
  proof (cases "rs = [] \<or> cancel = Some 0")
    case True
    with Cons.prems show ?thesis
      by (cases r; cases c)
         (auto simp: groups_done_def configs_done_def map_filter_simps split: option.splits)
  next
    case False
    let ?s = "case r of GroupDone _ \<Rightarrow> s + 1 | ConfigDone _ \<Rightarrow> s"
    let ?c = "case r of GroupDone _ \<Rightarrow> c | ConfigDone _ \<Rightarrow> True"
    have cnt: "?s + groups_done rs = n" "of_bool ?c + configs_done rs = (1 :: nat)"
      using Cons.prems(1,2) by (cases r; cases c; simp add: groups_done_def configs_done_def)+
    have "groups_done rs + configs_done rs = length rs"
      by (induction rs) (auto simp: groups_done_def configs_done_def split: task_result.splits)
    with False cnt have "\<not> (?s = n \<and> ?c)" by auto
    with Cons.IH[OF cnt, of "map_option (\<lambda>n. n - 1) cancel"] False show ?thesis
      by (cases cancel) (auto simp: Let_def map_filter_simps split: option.splits)
  qed
qed simp



section \<open>Properties of a run\<close>

definition synced :: "('d, 'i, 'r) sync_env \<Rightarrow> config_manager \<Rightarrow> state_map \<Rightarrow> bool" where
  \<comment> \<open>the entry records the tagged artifacts of the state that its URL serves\<close>
  "synced E cm sm = (case group_state E cm (GetSourceRegistryUsername cm) (GetSourceRegistryPassword cm) (UseUnsecure cm) (sm_url sm) of
     Inl _ \<Rightarrow> False
   | Inr s \<Rightarrow> sm_Entities sm = FetchEntitiesFromState (RemoveNullTagArtifacts s))"

lemma config_task_frame:
  "reconcileRemoteConfig E cm u user pass unsecure w = (w', r) \<Longrightarrow>
   fp_stateMap (sw_proc w') = fp_stateMap (sw_proc w) \<and> \<not> cr_Cancelled r \<and> sw_reg w' = sw_reg w \<and> sw_dir w' = sw_dir w"
  by (auto simp: reconcileRemoteConfig_def Let_def split: sum.splits prod.splits if_splits)

lemma run_task_step:
  assumes "run_task E cm S cu t w = (w', r)"
  shows "map sm_url (fp_stateMap (sw_proc w')) = map sm_url (fp_stateMap (sw_proc w)) \<and>
     (\<forall>j < length (fp_stateMap (sw_proc w)). t \<noteq> GroupTask j \<longrightarrow> fp_stateMap (sw_proc w') ! j = fp_stateMap (sw_proc w) ! j) \<and>
     (\<forall>j < length (fp_stateMap (sw_proc w)). t = GroupTask j \<and> task_error r = None \<longrightarrow> synced E cm (fp_stateMap (sw_proc w') ! j)) \<and>
     (case t of GroupTask _ \<Rightarrow> \<exists>g. r = GroupDone g | ConfigTask \<Rightarrow> \<exists>c. r = ConfigDone c)"
proof (cases t)
  case (GroupTask i)
  then obtain g where g: "processGroupState E cm (rs_replicator S) (rs_deliverer S) (GetSourceRegistryUsername cm)
      (GetSourceRegistryPassword cm) (UseUnsecure cm) i w = (w', g)" "r = GroupDone g"
    using assms by (auto simp: run_task_def apsnd_def map_prod_def split: prod.splits)
  from group_task_outcome[OF g(1)] show ?thesis
    by (cases "fr_Error g") (auto simp: GroupTask g(2) synced_def nth_list_update map_update map_update_same)
next
  case ConfigTask
  then obtain c where c: "reconcileRemoteConfig E cm cu (GetSourceRegistryUsername cm)
      (GetSourceRegistryPassword cm) (UseUnsecure cm) w = (w', c)" "r = ConfigDone c"
    using assms by (auto simp: run_task_def apsnd_def map_prod_def split: prod.splits)
  with config_task_frame[OF c(1)] show ?thesis by (simp add: ConfigTask)
qed

lemma run_tasks_steps:
  assumes "run_tasks (run_task E cm S cu) ts w = (w', rs)"
  shows "map sm_url (fp_stateMap (sw_proc w')) = map sm_url (fp_stateMap (sw_proc w)) \<and>
     (\<forall>j < length (fp_stateMap (sw_proc w)).
        GroupTask j \<notin> set ts \<longrightarrow> fp_stateMap (sw_proc w') ! j = fp_stateMap (sw_proc w) ! j) \<and>
     (\<forall>j < length (fp_stateMap (sw_proc w)).
        GroupTask j \<in> set ts \<and> List.map_filter task_error rs = [] \<longrightarrow> synced E cm (fp_stateMap (sw_proc w') ! j)) \<and>
     groups_done rs = length (filter (\<lambda>t. t \<noteq> ConfigTask) ts) \<and> configs_done rs = length (filter (\<lambda>t. t = ConfigTask) ts)"
  using assms
proof (induction ts arbitrary: w rs)
  case Nil
  then show ?case by (simp add: groups_done_def configs_done_def)
next
  case (Cons t ts)
  obtain w1 r rs1 where s: "run_task E cm S cu t w = (w1, r)"
    and rest: "run_tasks (run_task E cm S cu) ts w1 = (w', rs1)" and rs: "rs = r # rs1"
    using Cons.prems by (auto split: prod.splits)
  note st = run_task_step[OF s] and ih = Cons.IH[OF rest]
  have len: "length (fp_stateMap (sw_proc w1)) = length (fp_stateMap (sw_proc w))"
    using st by (metis length_map)
  have "synced E cm (fp_stateMap (sw_proc w') ! j)"
    if "j < length (fp_stateMap (sw_proc w))" "GroupTask j \<in> set (t # ts)" "List.map_filter task_error rs = []" for j
  proof (cases "GroupTask j \<in> set ts")
    case True
    with ih that len show ?thesis by (auto simp: rs map_filter_simps split: option.splits)
  next
    case False
    with that have "t = GroupTask j" "task_error r = None" by (auto simp: rs map_filter_simps split: option.splits)
    with st ih that(1) len False show ?thesis by metis
  qed
  with st ih len show ?case
    by (cases t) (auto simp: rs groups_done_def configs_done_def)
qed

definition fair_order :: "(nat \<Rightarrow> task list) \<Rightarrow> bool" where
  \<comment> \<open>every group task and the configuration task run exactly once\<close>
  "fair_order order = (\<forall>n. mset (order n) = mset (ConfigTask # map GroupTask [0..<n]))"

lemma fair_order_counts:
  assumes "fair_order order"
  shows "length (filter (\<lambda>t. t \<noteq> ConfigTask) (order n)) = n" "length (filter (\<lambda>t. t = ConfigTask) (order n)) = 1"
    "j < n \<Longrightarrow> GroupTask j \<in> set (order n)"
proof -
  have m: "mset (order n) = mset (ConfigTask # map GroupTask [0..<n])" using assms by (simp add: fair_order_def)
  have f: "length (filter P (order n)) = length (filter P (ConfigTask # map GroupTask [0..<n]))" for P
    using m by (metis mset_filter size_mset)
  show "length (filter (\<lambda>t. t \<noteq> ConfigTask) (order n)) = n" "length (filter (\<lambda>t. t = ConfigTask) (order n)) = 1"
    unfolding f by (simp_all add: filter_map comp_def)
  show "j < n \<Longrightarrow> GroupTask j \<in> set (order n)" using mset_eq_setD[OF m] by simp
qed

lemma execute_success:
  assumes "fair_order order" "execute_body E cm False order None w = (w', Inr ())"
    and "fst (CanExecute (rs_stateURL (setupReplication cm)) (rs_remoteURL (setupReplication cm)) (rs_sourceURL (setupReplication cm))
           (GetSourceRegistryUsername cm) (GetSourceRegistryPassword cm))"
  shows "\<exists>root0 root. fetchSatelliteRootState (sy_fetch E) (rs_stateURL (setupReplication cm)) (GetSourceRegistryUsername cm)
            (GetSourceRegistryPassword cm) (UseUnsecure cm) = Inr root0 \<and>
          (if GetHarborRegistryURL cm \<noteq> [] then applyHarborOverrideToSatelliteState root0 (GetHarborRegistryURL cm)
           else Inr root0) = Inr root \<and>
          sm_url ` set (fp_stateMap (sw_proc w')) = set (ss_States root) \<and>
          (\<forall>sm\<in>set (fp_stateMap (sw_proc w')). synced E cm sm)"
proof -
  let ?S = "setupReplication cm"
  obtain root0 root where r0: "fetchSatelliteRootState (sy_fetch E) (rs_stateURL ?S) (GetSourceRegistryUsername cm)
            (GetSourceRegistryPassword cm) (UseUnsecure cm) = Inr root0"
    and r: "(if GetHarborRegistryURL cm \<noteq> [] then applyHarborOverrideToSatelliteState root0 (GetHarborRegistryURL cm)
           else Inr root0) = Inr root"
    using assms(2,3) by (auto simp: execute_body_def Let_def split: sum.splits if_splits)
  define sms where "sms = fst (updateStateMap (ss_States root) (fp_stateMap (sw_proc w)))"
  define w2 where "w2 = (let w1 = w\<lparr>sw_proc := (sw_proc w)\<lparr>fp_stateMap := sms\<rparr>\<rparr> in
      if snd (updateStateMap (ss_States root) (fp_stateMap (sw_proc w))) then save_proc E w1 else w1)"
  obtain w3 results where run: "run_tasks (run_task E cm ?S (ss_Config root)) (order (length sms)) w2 = (w3, results)"
    and col: "collectResults None (length sms) results = Inr ()" and w': "w' = w3\<lparr>sw_left := sw_left w3\<rparr>"
    using assms(2,3) r0 r
    by (cases "updateStateMap (ss_States root) (fp_stateMap (sw_proc w))")
       (auto simp: execute_body_def finished_tasks_def sms_def w2_def Let_def split: prod.splits)
  have proc: "sw_proc w' = sw_proc w3" by (simp add: w')
  have sm2: "fp_stateMap (sw_proc w2) = sms" by (simp add: w2_def Let_def)
  note st = run_tasks_steps[OF run, unfolded sm2]
  have "groups_done results = length sms" "configs_done results = 1"
    using st fair_order_counts[OF assms(1)] by simp_all
  with collect_loop_all[of 0 results "length sms" False None "[]"] col have none: "List.map_filter task_error results = []"
    by (cases "results = []") (auto simp: collectResults_def configs_done_def split: if_splits)
  have len: "length (fp_stateMap (sw_proc w')) = length sms" using st unfolding proc by (metis length_map)
  have "\<forall>sm\<in>set (fp_stateMap (sw_proc w')). synced E cm sm"
    using st none fair_order_counts(3)[OF assms(1)] len unfolding proc by (auto simp: in_set_conv_nth)
  moreover have "sm_url ` set (fp_stateMap (sw_proc w')) = set (ss_States root)"
    using st updateStateMap_urls[of "ss_States root" "fp_stateMap (sw_proc w)"] unfolding sms_def proc by (metis list.set_map)
  ultimately show ?thesis using r0 r by blast
qed

text \<open>
  C1. A replication run that executes and reports success leaves the satellite tracking exactly
  the groups that its root state assigns, and every group's entry records the tagged artifacts
  of the state that the group's URL serves, whatever the order of the goroutines.
\<close>

theorem Execute_success:
  assumes "fair_order order" "Execute E cm False order None w = (w', Inr ())"
    and "fst (CanExecute (rs_stateURL (setupReplication cm)) (rs_remoteURL (setupReplication cm)) (rs_sourceURL (setupReplication cm))
           (GetSourceRegistryUsername cm) (GetSourceRegistryPassword cm))"
  shows "\<exists>root0 root. fetchSatelliteRootState (sy_fetch E) (rs_stateURL (setupReplication cm)) (GetSourceRegistryUsername cm)
            (GetSourceRegistryPassword cm) (UseUnsecure cm) = Inr root0 \<and>
          (if GetHarborRegistryURL cm \<noteq> [] then applyHarborOverrideToSatelliteState root0 (GetHarborRegistryURL cm)
           else Inr root0) = Inr root \<and>
          sm_url ` set (fp_stateMap (sw_proc w')) = set (ss_States root) \<and>
          (\<forall>sm\<in>set (fp_stateMap (sw_proc w')). synced E cm sm) \<and> \<not> fp_isRunning (sw_proc w')"
proof -
  obtain w1 where e: "execute_body E cm False order None (set_running True w) = (w1, Inr ())"
    and w': "w' = set_running False w1"
    using assms(2) by (auto simp: Execute_def split: prod.splits)
  have f: "fp_stateMap (sw_proc w') = fp_stateMap (sw_proc w1)" "\<not> fp_isRunning (sw_proc w')"
    by (simp_all add: w' set_running_def)
  from execute_success[OF assms(1) e assms(3)] f(2) show ?thesis unfolding f(1) by blast
qed

section \<open>The remote configuration\<close>






section \<open>Witnesses\<close>

definition sample_fetch :: fetch_env where
  \<comment> \<open>a registry that assigns one group with one image and a configuration of digest \<open>cd\<close>\<close>
  "sample_fetch = \<lparr>fe_load_tls = (\<lambda>_. Inr ()),
     fe_pull = (\<lambda>f. Inr (Inr \<lparr>ta_entries = [(''README'', Inr []), (''artifacts.json'', Inr (uf_url f))], ta_end = None\<rparr>)),
     fe_digest = (\<lambda>_. Inr ''cd''),
     fe_decode_satellite = (\<lambda>_. Inr \<lparr>ss_States = [''http://h/g''], ss_Config = ''http://h/c''\<rparr>),
     fe_decode_group = (\<lambda>_. Inr \<lparr>st_Registry = ''h'', st_Artifacts = [NewArtifact False ''lib/app'' [''1''] ''d'' ''IMAGE'']\<rparr>),
     fe_decode_config = (\<lambda>_. Inr zero_config)\<rparr>"

definition run_cm :: config_manager where
  "run_cm = NewConfigManager ''config.json'' ''prev.json'' ''tok'' ''http://gc:80/'' True
     (SetLocalRegistryURL ''http://l'' (SetStateConfig \<lparr>sc_RegistryCredentials =
        \<lparr>rc_URL = ''http://h'', rc_Username = ''u'', rc_Password = ''p''\<rparr>, sc_StateURL = ''http://h/s''\<rparr> zero_config))"

definition sample_sync_env :: "(string, string, content) sync_env" where
  "sample_sync_env = \<lparr>sy_registry = mem_registry (rs_replicator (setupReplication run_cm)) [''lib/app:1'' \<mapsto> ''d''],
     sy_fetch = sample_fetch, sy_delivery = sample_delivery, sy_ord = (\<lambda>xs. xs), sy_cancelled = (\<lambda>_. False),
     sy_state_codec = sample_state_codec, sy_faults = no_faults, sy_tmp = ''tmp'', sy_sec = sample_sec,
     sy_write_prev = Written, sy_write_new = Written, sy_venv = sample_env, sy_finished = 0\<rparr>"

definition sample_world :: "string \<Rightarrow> (string, content) sync_world" where
  "sample_world digest = \<lparr>sw_reg = Map.empty, sw_files = (\<lambda>_. Missing), sw_dir = empty_dir,
     sw_proc = \<lparr>fp_name = ReplicateStateJobName, fp_isRunning = False, fp_stateMap = [],
       fp_currentConfigDigest = digest, fp_stateFilePath = ''state.json''\<rparr>, sw_left = []\<rparr>"

definition config_first :: "nat \<Rightarrow> task list" where
  "config_first n = ConfigTask # map GroupTask [0..<n]"

theorem Execute_success_witness:
  "\<exists>w'. Execute sample_sync_env run_cm False config_first None (sample_world ''cd'') = (w', Inr ()) \<and>
     sm_url ` set (fp_stateMap (sw_proc w')) = {''http://h/g''} \<and>
     (\<forall>sm\<in>set (fp_stateMap (sw_proc w')). synced sample_sync_env run_cm sm)"
proof -
  let ?run = "Execute sample_sync_env run_cm False config_first None (sample_world ''cd'')"
  have "is_ok (snd ?run)" by code_simp
  then obtain w' where w': "?run = (w', Inr ())" by (metis is_ok_iff prod.collapse unit.exhaust)
  have fair: "fair_order config_first" by (simp add: fair_order_def config_first_def)
  have can: "fst (CanExecute (rs_stateURL (setupReplication run_cm)) (rs_remoteURL (setupReplication run_cm))
      (rs_sourceURL (setupReplication run_cm)) (GetSourceRegistryUsername run_cm) (GetSourceRegistryPassword run_cm))"
    by code_simp
  have root: "fetchSatelliteRootState (sy_fetch sample_sync_env) (rs_stateURL (setupReplication run_cm)) (GetSourceRegistryUsername run_cm)
      (GetSourceRegistryPassword run_cm) (UseUnsecure run_cm) = Inr \<lparr>ss_States = [''http://h/g''], ss_Config = ''http://h/c''\<rparr>"
    by code_simp
  have "GetHarborRegistryURL run_cm = []" by code_simp
  with Execute_success[OF fair w' can] root w' show ?thesis by auto
qed


end
