(* ===== verification/Satellite_Run.thy ===== *)
theory Satellite_Run
  imports State_Process Reporting
begin

text \<open>
  \<^verbatim>\<open>internal/satellite/satellite.go\<close> and the shutdown of \<^verbatim>\<open>cmd/harbor-satellite/main.go\<close>: the satellite starts a
  scheduler for its registration, its replication and its status reports, and on shutdown waits for them and saves
  the state. The replication process of \<open>State_Process\<close> becomes a process of the scheduler here.
\<close>

section \<open>Replication as a scheduled process\<close>

definition left_task_step :: "'d itself \<Rightarrow> ('i, 'r) sync_world \<Rightarrow> ('i, 'r) sync_world \<Rightarrow> bool" where
  \<comment> \<open>one of the goroutines that a cancelled \<^verbatim>\<open>Execute\<close> left running does its work and ends\<close>
  "left_task_step T w w' = (\<exists>(E :: ('d, 'i, 'r) sync_env) cm S u t r. (S, u, t) \<in> set (sw_left w) \<and>
     run_task E cm S u t (w\<lparr>sw_left := remove1 (S, u, t) (sw_left w)\<rparr>) = (w', r))"

definition state_ops :: "'d itself \<Rightarrow> ('i, 'r) sync_world process_ops" where
  \<comment> \<open>the body may run with any answers of the registries and the disk and any order of its goroutines\<close>
  "state_ops T = \<lparr>po_Name = ReplicateStateJobName, po_start = set_running True, po_stop = set_running False,
     po_work = (\<lambda>w w'. \<exists>(E :: ('d, 'i, 'r) sync_env) cm early order cancel r. execute_body E cm early order cancel w = (w', r)),
     po_background = left_task_step T,
     po_IsRunning = (\<lambda>w. fp_isRunning (sw_proc w)), po_IsComplete = (\<lambda>_. False)\<rparr>"

lemma group_task_running:
  "processGroupState E cm b dd user pass unsecure i w = (w', r) \<Longrightarrow> fp_isRunning (sw_proc w') = fp_isRunning (sw_proc w)"
  by (auto simp: processGroupState_def Let_def split: sum.splits prod.splits)

lemma config_task_running:
  "reconcileRemoteConfig E cm u user pass unsecure w = (w', r) \<Longrightarrow> fp_isRunning (sw_proc w') = fp_isRunning (sw_proc w)"
  by (auto simp: reconcileRemoteConfig_def Let_def split: sum.splits prod.splits if_splits)

lemma run_task_running:
  "run_task E cm S u t w = (w', r) \<Longrightarrow> fp_isRunning (sw_proc w') = fp_isRunning (sw_proc w)"
  by (auto simp: run_task_def apsnd_def map_prod_def group_task_running config_task_running
      dest: group_task_running config_task_running split: task.splits prod.splits)

lemma run_tasks_running:
  "run_tasks (run_task E cm S u) ts w = (w', rs) \<Longrightarrow> fp_isRunning (sw_proc w') = fp_isRunning (sw_proc w)"
proof (induction ts arbitrary: w rs)
  case (Cons t ts)
  then show ?case by (fastforce dest: run_task_running split: prod.splits)
qed simp

lemma execute_body_running:
  "execute_body E cm early order cancel w = (w', r) \<Longrightarrow> fp_isRunning (sw_proc w') = fp_isRunning (sw_proc w)"
  by (auto simp: execute_body_def Let_def dest!: run_tasks_running split: if_splits sum.splits prod.splits)

lemma run_task_left:
  assumes "run_task E cm S u t w = (w', r)"
  shows "sw_left w' = sw_left w"
proof (cases t)
  case (GroupTask i)
  have "processGroupState E cm (rs_replicator S) (rs_deliverer S) user pass unsecure i w = (w', g) \<Longrightarrow> sw_left w' = sw_left w"
    for user pass unsecure g
    by (auto simp: processGroupState_def Let_def split: sum.splits prod.splits)
  with GroupTask assms show ?thesis by (auto simp: run_task_def apsnd_def map_prod_def split: prod.splits)
next
  case ConfigTask
  have "reconcileRemoteConfig E cm u user pass unsecure w = (w', c) \<Longrightarrow> sw_left w' = sw_left w" for user pass unsecure c
    by (auto simp: reconcileRemoteConfig_def Let_def split: sum.splits prod.splits if_splits)
  with ConfigTask assms show ?thesis by (auto simp: run_task_def apsnd_def map_prod_def split: prod.splits)
qed

lemma run_tasks_left:
  "run_tasks (run_task E cm S u) ts w = (w', rs) \<Longrightarrow> sw_left w' = sw_left w"
proof (induction ts arbitrary: w rs)
  case (Cons t ts)
  then show ?case by (fastforce dest: run_task_left split: prod.splits)
qed simp

text \<open>
  A run that is not cancelled waits for all its goroutines: it leaves none behind.
\<close>

lemma uncancelled_leaves_none:
  "execute_body E cm early order None w = (w', r) \<Longrightarrow> sw_left w' = sw_left w"
  by (auto simp: execute_body_def finished_tasks_def Let_def dest!: run_tasks_left split: if_splits sum.splits prod.splits)

lemma left_task_steps:
  "(left_task_step T ^^ n) w w' \<Longrightarrow> length (sw_left w) = n + length (sw_left w')"
proof (induction n arbitrary: w)
  case (Suc n)
  then obtain w1 where s: "left_task_step T w w1" "(left_task_step T ^^ n) w1 w'" by (meson relpowp_Suc_D2)
  have "length (sw_left w) = Suc (length (sw_left w1))"
    using s(1) by (auto simp: left_task_step_def length_remove1 length_pos_if_in_set dest!: run_task_left)
      (metis One_nat_def Suc_pred length_pos_if_in_set)+
  with Suc.IH[OF s(2)] show ?case by simp
qed simp

interpretation replication: process "state_ops TYPE('d)"
proof unfold_locales
  fix p q :: "('i, 'r) sync_world" assume "po_work (state_ops TYPE('d)) p q"
  then show "po_IsRunning (state_ops TYPE('d)) q = po_IsRunning (state_ops TYPE('d)) p"
    by (auto simp: state_ops_def dest: execute_body_running)
next
  fix p q :: "('i, 'r) sync_world" assume "po_background (state_ops TYPE('d)) p q"
  then show "po_IsRunning (state_ops TYPE('d)) q = po_IsRunning (state_ops TYPE('d)) p"
    by (auto simp: state_ops_def left_task_step_def dest: run_task_running)
qed (auto simp: state_ops_def set_running_def)

section \<open>The satellite\<close>

datatype registration_scheduler = TokenZtr "ztr_process scheduler" | SpiffeZtr "spiffe_ztr_process scheduler"

record ('i, 'r) satellite =
  sl_cm :: config_manager
  sl_criResults :: "cri_result list"
  sl_stateFilePath :: string
  sl_stateProcess :: "('i, 'r) sync_world option"
    \<comment> \<open>the replication process until its scheduler, which shares it, exists\<close>
  sl_ztr :: "registration_scheduler option"
  sl_state :: "('i, 'r) sync_world scheduler option"
  sl_report :: "rep_process scheduler option"

definition NewSatellite :: "config_manager \<Rightarrow> cri_result list \<Rightarrow> string \<Rightarrow> ('i, 'r) satellite" where
  "NewSatellite cm criResults stateFilePath =
     \<lparr>sl_cm = cm, sl_criResults = criResults, sl_stateFilePath = stateFilePath, sl_stateProcess = None, sl_ztr = None, sl_state = None, sl_report = None\<rparr>"

definition launch_scheduler :: "'p process_ops \<Rightarrow> string \<Rightarrow> 'p \<Rightarrow> 'p scheduler result go" where
  \<comment> \<open>\<^verbatim>\<open>NewSchedulerWithInterval\<close>, and \<^verbatim>\<open>Start\<close> if it succeeds\<close>
  "launch_scheduler P expr p =
     (case NewSchedulerWithInterval P expr p of
        Value (Inr s) \<Rightarrow> Value (Inr (Start s)) | Value (Inl err) \<Rightarrow> Value (Inl err) | Panic m \<Rightarrow> Panic m)"

definition run_registration :: "workload_api \<Rightarrow> files \<Rightarrow> ('i, 'r) satellite \<Rightarrow> ('i, 'r) satellite result go" where
  "run_registration A fs s =
     (let cm = sl_cm s in
      if IsZTRDone cm then Value (Inr s)
      else if IsSPIFFEEnabled cm
      then (case NewSpiffeZtrProcess A cm fs of
              Inl err \<Rightarrow> Value (Inl err)
            | Inr p \<Rightarrow>
              (case launch_scheduler spiffe_ops (GetRegistrationInterval cm) p of
                 Panic m \<Rightarrow> Panic m | Value (Inl err) \<Rightarrow> Value (Inl err)
               | Value (Inr sched) \<Rightarrow> Value (Inr (s\<lparr>sl_ztr := Some (SpiffeZtr sched)\<rparr>))))
      else (case launch_scheduler ztr_ops (GetRegistrationInterval cm) (NewZtrProcess cm fs) of
              Panic m \<Rightarrow> Panic m | Value (Inl err) \<Rightarrow> Value (Inl err)
            | Value (Inr sched) \<Rightarrow> Value (Inr (s\<lparr>sl_ztr := Some (TokenZtr sched)\<rparr>))))"

definition Run ::
  "('d \<times> 'f) itself \<Rightarrow> workload_api \<Rightarrow> state_codec \<Rightarrow> files \<Rightarrow> 'r \<Rightarrow> 'i image_dir \<Rightarrow> unit result \<Rightarrow> ('i, 'r) satellite \<Rightarrow>
   (('i, 'r) satellite \<times> unit result) go" where
  \<comment> \<open>\<open>ctxErr\<close> is the state of the context at the end\<close>
  "Run T A J fs reg dir ctxErr s =
     (let cm = sl_cm s;
          world = \<lparr>sw_reg = reg, sw_files = fs, sw_dir = dir, sw_proc = NewFetchAndReplicateStateProcess J fs (sl_stateFilePath s), sw_left = []\<rparr>;
          s = s\<lparr>sl_stateProcess := Some world\<rparr>
      in case run_registration A fs s of
        Panic m \<Rightarrow> Panic m
      | Value (Inl err) \<Rightarrow> Value (s, Inl err)
      | Value (Inr s1) \<Rightarrow>
        (case launch_scheduler (state_ops TYPE('d)) (GetStateReplicationInterval cm) world of
           Panic m \<Rightarrow> Panic m
         | Value (Inl err) \<Rightarrow> Value (s1, Inl err)
         | Value (Inr st) \<Rightarrow>
           (let s2 = s1\<lparr>sl_state := Some st\<rparr>; p = NewStatusReportingProcess A cm;
                p = (if sl_criResults s \<noteq> [] then SetPendingCRIResults (sl_criResults s) p else p)
            in case launch_scheduler (report_ops TYPE('f)) (GetHeartbeatInterval cm) p of
                 Panic m \<Rightarrow> Panic m
               | Value (Inl err) \<Rightarrow> Value (s2, Inl err)
               | Value (Inr rp) \<Rightarrow> Value (s2\<lparr>sl_report := Some rp\<rparr>, ctxErr))))"

definition satellite_PersistState ::
  "state_codec \<Rightarrow> save_faults \<Rightarrow> string \<Rightarrow> ('i, 'r) satellite \<Rightarrow> files \<Rightarrow> files list \<times> unit result" where
  "satellite_PersistState J F tmpName s fs =
     (case (case sl_state s of Some st \<Rightarrow> Some (sc_process st) | None \<Rightarrow> sl_stateProcess s) of
        None \<Rightarrow> ([fs], Inr ())
      | Some w \<Rightarrow> PersistState J F tmpName (sw_proc w) fs)"

definition stops :: "string option \<Rightarrow> 'p scheduler option \<Rightarrow> (bool \<Rightarrow> bool) list" where
  "stops ctx sched = (case sched of None \<Rightarrow> [] | Some s \<Rightarrow> [\<lambda>ok. \<exists>r. Scheduler.Stop ctx s r \<and> is_ok r = ok])"

definition satellite_Stop :: "string option \<Rightarrow> ('i, 'r) satellite \<Rightarrow> nat \<Rightarrow> bool" where
  \<comment> \<open>how many schedulers may have failed to stop when it returns\<close>
  "satellite_Stop ctx s failedCount =
     (\<exists>oks. list_all2 (\<lambda>may ok. may ok)
        ((case sl_ztr s of None \<Rightarrow> [] | Some (TokenZtr z) \<Rightarrow> stops ctx (Some z) | Some (SpiffeZtr z) \<Rightarrow> stops ctx (Some z)) @
         stops ctx (sl_state s) @ stops ctx (sl_report s)) oks \<and> failedCount = length (filter Not oks))"

section \<open>Shutdown\<close>

lemma Stop_clean:
  assumes "satellite_Stop ctx s 0" "sl_state s = Some st"
  shows "Scheduler.Stop None st (Inr ())"
proof -
  obtain oks where oks: "list_all2 (\<lambda>may ok. may ok)
        ((case sl_ztr s of None \<Rightarrow> [] | Some (TokenZtr z) \<Rightarrow> stops ctx (Some z) | Some (SpiffeZtr z) \<Rightarrow> stops ctx (Some z)) @
         stops ctx (sl_state s) @ stops ctx (sl_report s)) oks" "filter Not oks = []"
    using assms(1) by (auto simp: satellite_Stop_def)
  then have "\<forall>ok\<in>set oks. ok" by (auto simp: filter_empty_conv)
  then have "\<exists>r. Scheduler.Stop ctx st r \<and> is_ok r"
    using oks(1) assms(2) by (auto simp: list_all2_append1 stops_def list_all2_Cons1)
  then show ?thesis by (auto simp: Scheduler.Stop_def)
qed

lemma launch_scheduler_Inr:
  "launch_scheduler P expr p = Value (Inr s) \<longleftrightarrow> (\<exists>s0. NewSchedulerWithInterval P expr p = Value (Inr s0) \<and> s = Start s0)"
  by (auto simp: launch_scheduler_def split: go.splits sum.splits)

lemma new_scheduler:
  assumes "NewSchedulerWithInterval P expr p = Value (Inr s)"
  shows "\<exists>d. parseEveryExpr expr = Inr d \<and> 0 < d \<and> s = \<lparr>sc_name = po_Name P, sc_ticker = Some d, sc_process = p, sc_interval = d,
    sc_wg = 0, sc_loop = NotStarted, sc_launched = 0, sc_executing = 0, sc_returning = 0, sc_cancelled = False\<rparr>"
  using assms by (auto simp: NewSchedulerWithInterval_def NewTicker_def split: sum.splits go.splits if_splits)

lemma launched_start:
  assumes "launch_scheduler P expr p = Value (Inr s)"
  shows "sc_process s = p \<and> sc_loop s = Launching \<and> live s = 0 \<and> sc_launched s + sc_executing s = 0"
  using assms new_scheduler by (fastforce simp: launch_scheduler_Inr Start_def live_def)

lemma launched_not_NotStarted:
  assumes "sched_run P s evs s'" "sc_loop s \<noteq> NotStarted"
  shows "sc_loop s' \<noteq> NotStarted"
  using assms
proof (induction rule: sched_run.induct)
  case (run_step s ev s' evs s'')
  from run_step(1,4) have "sc_loop s' \<noteq> NotStarted"
    by (cases rule: sched_step.cases) (auto simp: sched_ops split: if_splits)
  then show ?case by (rule run_step.IH)
qed

lemma launched_wf:
  assumes "process P" "launch_scheduler P expr p = Value (Inr s)" "\<not> po_IsRunning P p" "sched_run P s evs s'"
  shows "sched_wf P s' \<and> sc_loop s' \<noteq> NotStarted"
proof -
  obtain s0 where s0: "NewSchedulerWithInterval P expr p = Value (Inr s0)" "s = Start s0" using assms(2) by (auto simp: launch_scheduler_Inr)
  have "sc_loop s0 = NotStarted" using new_scheduler[OF s0(1)] by auto
  then have "sched_wf P s"
    using process.wf_step[OF assms(1) step_start] process.wf_new[OF assms(1) s0(1) assms(3)] s0(2) by blast
  then show ?thesis
    using process.wf_run[OF assms(1,4)] launched_not_NotStarted[OF assms(4)] launched_start[OF assms(2)] by simp
qed

text \<open>
  C5. What a graceful shutdown saves. Once \<^verbatim>\<open>Stop\<close> of the satellite has stopped all its schedulers without
  an error, whatever the schedule of ticks, cancellations and goroutines was, no \<^verbatim>\<open>Execute\<close> runs and none is ever
  started again; and when \<^verbatim>\<open>PersistState\<close> then succeeds, a satellite that restarts on the file it wrote
  resumes with the configuration digest and the replicated entities of every group that the process has at that moment. The
  process can only change afterwards through group or configuration goroutines that a cancelled \<^verbatim>\<open>Execute\<close> left
  running, each once; when none was left, nothing changes any more and the shutdown loses nothing. The JSON package
  reads back the saved state, and the temporary file is not the state file.
\<close>

theorem replication_shutdown:
  fixes w0 :: "('i, 'r) sync_world"
  assumes "launch_scheduler (state_ops TYPE('d)) expr w0 = Value (Inr s0)" "\<not> fp_isRunning (sw_proc w0)"
    and "sched_run (state_ops TYPE('d)) s0 evs s" "sl_state sat = Some s" "satellite_Stop ctx sat 0" "sched_run (state_ops TYPE('d)) s evs' s'"
    and "path = fp_stateFilePath (sw_proc (sc_process s))" "path \<noteq> []" "tmp \<noteq> path"
    and "saved = persist (fp_stateMap (sw_proc (sc_process s))) (fp_currentConfigDigest (sw_proc (sc_process s)))"
    and "\<And>d. jp_marshal J saved = Inr d \<Longrightarrow> jp_unmarshal J d = Inr saved"
    and "satellite_PersistState J F tmp sat fs = (trace, Inr ())"
  shows "live s' = 0 \<and>
    (let restarted = NewFetchAndReplicateStateProcess J (last trace) path; proc = sw_proc (sc_process s) in
     fp_stateMap restarted = map (sm_State_update (\<lambda>_. None)) (fp_stateMap proc) \<and>
     fp_currentConfigDigest restarted = fp_currentConfigDigest proc) \<and>
    length (sw_left (sc_process s)) = length (filter background_event evs') + length (sw_left (sc_process s')) \<and>
    (sw_left (sc_process s) = [] \<longrightarrow> sc_process s' = sc_process s)"
proof -
  have "\<not> po_IsRunning (state_ops TYPE('d)) w0" using assms(2) by (simp add: state_ops_def)
  then have wf: "sched_wf (state_ops TYPE('d)) s" "sc_loop s \<noteq> NotStarted"
    using launched_wf[OF replication.process_axioms assms(1) _ assms(3)] by auto
  have "sc_wg s = 0" using Stop_clean[OF assms(5,4)] by (simp add: Scheduler.Stop_def)
  note st = replication.stopped_run[OF assms(6) wf(1) this wf(2)]
  have "SaveState J F tmp path (fp_stateMap (sw_proc (sc_process s))) (fp_currentConfigDigest (sw_proc (sc_process s))) fs = (trace, Inr ())"
    using assms(4,7,8,12) by (simp add: satellite_PersistState_def PersistState_def)
  note saved = save_then_load[OF assms(9) this assms(11)[unfolded assms(10)]]
  have steps: "(left_task_step TYPE('d) ^^ length (filter background_event evs')) (sc_process s) (sc_process s')"
    using st by (simp add: state_ops_def)
  then have "sw_left (sc_process s) = [] \<longrightarrow> sc_process s' = sc_process s" using left_task_steps[OF steps] by auto
  with saved st assms(8) left_task_steps[OF steps] show ?thesis
    by (simp add: NewFetchAndReplicateStateProcess_def persist_def Let_def)
qed

text \<open>
  C19. Replications do not overlap. As long as every launched goroutine enters \<^verbatim>\<open>Execute\<close> before the next launch, at
  most one of them is in \<^verbatim>\<open>Execute\<close> at any moment, the process is marked as running exactly then, and the wait group
  counts the goroutines and the loop.
\<close>

theorem replication_exclusive:
  fixes w0 :: "('i, 'r) sync_world"
  assumes "launch_scheduler (state_ops TYPE('d)) expr w0 = Value (Inr s0)" "\<not> fp_isRunning (sw_proc w0)"
    and "prompt_run (state_ops TYPE('d)) s0 evs s"
  shows "sc_executing s \<le> 1 \<and> (fp_isRunning (sw_proc (sc_process s)) \<longleftrightarrow> sc_executing s = 1) \<and>
    sc_wg s = int (live s) + of_bool (in_loop s)"
proof -
  have nr: "\<not> po_IsRunning (state_ops TYPE('d)) w0" using assms(2) by (simp add: state_ops_def)
  have "sched_wf (state_ops TYPE('d)) s0"
    using launched_wf[OF replication.process_axioms assms(1) nr run_none] by blast
  note ex = replication.exclusive_run[OF assms(3) this]
  have "sc_launched s0 + sc_executing s0 = 0" using launched_start[OF assms(1)] by blast
  with ex have e: "sched_wf (state_ops TYPE('d)) s" "sc_launched s + sc_executing s \<le> 1"
    "0 < sc_executing s \<longrightarrow> po_IsRunning (state_ops TYPE('d)) (sc_process s)" by auto
  then have "po_IsRunning (state_ops TYPE('d)) (sc_process s) \<longrightarrow> 0 < sc_executing s" "sc_wg s = int (live s) + of_bool (in_loop s)"
    by (auto simp: sched_wf_def)
  moreover have "po_IsRunning (state_ops TYPE('d)) (sc_process s) = fp_isRunning (sw_proc (sc_process s))" by (simp add: state_ops_def)
  ultimately show ?thesis using e(2,3) by (cases "sc_executing s") auto
qed

text \<open>
  C20. Shutting down waits for nothing but running replications. After the loop of the replication scheduler has exited,
  no run has ticks or launches any more, and at most \<^const>\<open>work_left\<close> further steps of goroutines (entering
  \<^verbatim>\<open>Execute\<close>, leaving it, \<^verbatim>\<open>wg.Done\<close>); \<^verbatim>\<open>Stop\<close> can return without an error exactly when that many have been done. As
  long as it cannot, a goroutine is inside \<^verbatim>\<open>Execute\<close> or one can enter it or do its \<^verbatim>\<open>wg.Done\<close>, which wait
  for no network call. Whether \<^verbatim>\<open>Execute\<close> itself returns depends on its network calls and is not claimed.
\<close>

theorem replication_drains:
  fixes w0 :: "('i, 'r) sync_world"
  assumes "launch_scheduler (state_ops TYPE('d)) expr w0 = Value (Inr s0)" "\<not> fp_isRunning (sw_proc w0)"
    and "sched_run (state_ops TYPE('d)) s0 evs s" "sc_loop s = Exited" "sched_run (state_ops TYPE('d)) s evs' s'"
  shows "EvTick \<notin> set evs' \<and> EvLaunch \<notin> set evs' \<and> length (filter goroutine_event evs') \<le> work_left s \<and>
    (Scheduler.Stop None s' (Inr ()) \<longleftrightarrow> length (filter goroutine_event evs') = work_left s) \<and>
    (\<not> Scheduler.Stop None s' (Inr ()) \<longrightarrow> 0 < sc_executing s' \<or>
       (\<exists>s''. sched_step (state_ops TYPE('d)) s' EvBegin s'' \<or> sched_step (state_ops TYPE('d)) s' EvDone s''))"
proof -
  have "\<not> po_IsRunning (state_ops TYPE('d)) w0" using assms(2) by (simp add: state_ops_def)
  then have "sched_wf (state_ops TYPE('d)) s"
    using launched_wf[OF replication.process_axioms assms(1) _ assms(3)] by auto
  then have wf: "sched_wf (state_ops TYPE('d)) s'" using replication.wf_run[OF assms(5)] by blast
  have ex: "sc_loop s' = Exited" by (rule exited_stays[OF assms(5,4)])
  have stop: "Scheduler.Stop None s' (Inr ()) \<longleftrightarrow> work_left s' = 0"
    using replication.wf_idle[OF wf] ex by (auto simp: Scheduler.Stop_def live_def work_left_def in_loop_def)
  show ?thesis
    using drain_run[OF assms(5,4)] drain_progress[of s' "state_ops TYPE('d)"] stop exited_quiet[OF assms(5,4)] by auto
qed


section \<open>Witnesses\<close>

definition sample_sched :: "string \<Rightarrow> loop_phase \<Rightarrow> nat \<Rightarrow> bool \<Rightarrow> 'p \<Rightarrow> 'p scheduler" where
  \<comment> \<open>a scheduler of one second, its loop alone or with one goroutine in \<^verbatim>\<open>Execute\<close>\<close>
  "sample_sched name loop n cancelled p =
     \<lparr>sc_name = name, sc_ticker = (if loop = Exited then None else Some 1000000000), sc_process = p, sc_interval = 1000000000,
       sc_wg = int n + of_bool (loop \<in> {Launching, Waiting}), sc_loop = loop, sc_launched = 0, sc_executing = n,
       sc_returning = 0, sc_cancelled = cancelled\<rparr>"

abbreviation sample_ops :: "(string, content) sync_world process_ops" where
  "sample_ops \<equiv> state_ops TYPE(string)"

lemma sample_launch:
  "launch_scheduler sample_ops ''@every 1s'' (sample_world d) =
     Value (Inr (sample_sched ReplicateStateJobName Launching 0 False (sample_world d)))"
proof -
  have "ParseDuration ''1s'' = Inr 1000000000"
    using ParseDuration_plain[of "''1''" "''s''" 1000000000] by (simp add: dec_digit_def unit_ends digits_value_def)
  then have "parseEveryExpr ''@every 1s'' = Inr 1000000000" by (simp add: parseEveryExpr_def every_prefix_def trimPrefix_def)
  then show ?thesis
    by (simp add: launch_scheduler_def NewSchedulerWithInterval_def NewTicker_def Start_def sample_sched_def state_ops_def)
qed

lemmas sample_eval = sched_run_trace sample_sched_def sched_ops

lemma sample_ops_at [simp]:
  "po_start sample_ops = set_running True" "po_stop sample_ops = set_running False" "po_IsComplete sample_ops w = False"
  "po_IsRunning sample_ops w = fp_isRunning (sw_proc w)" "\<not> fp_isRunning (sw_proc (sample_world d))"
  "set_running False (set_running b (sample_world d)) = sample_world d" "fp_isRunning (sw_proc (set_running b w)) = b"
  by (simp_all add: state_ops_def set_running_def sample_world_def)

lemma sample_executes:
  "sched_run sample_ops (sample_sched n Launching 0 False (sample_world d)) [EvLaunch, EvBegin]
     (sample_sched n Waiting 1 False (set_running True (sample_world d)))"
  by (simp add: sample_eval)

lemma sample_exits:
  "sched_run sample_ops (sample_sched n Launching 0 False (sample_world d)) [EvLaunch, EvBegin, EvCancel, EvExit]
     (sample_sched n Exited 1 True (set_running True (sample_world d)))"
  by (simp add: sample_eval)

lemma sample_drains:
  "sched_run sample_ops (sample_sched n Exited 1 True (set_running True (sample_world d))) [EvEnd, EvDone]
     (sample_sched n Exited 0 True (sample_world d))"
  by (simp add: sample_eval)

lemma sched_run_append: "sched_run P s evs t \<Longrightarrow> sched_run P t evs' u \<Longrightarrow> sched_run P s (evs @ evs') u"
  by (induction rule: sched_run.induct) (auto intro: run_step)

definition sample_sat :: "(string, content) satellite" where
  \<comment> \<open>a satellite that has shut down\<close>
  "sample_sat = (NewSatellite run_cm [] ''state.json'')\<lparr>sl_state := Some (sample_sched ReplicateStateJobName Exited 0 True (sample_world ''cd''))\<rparr>"

theorem replication_shutdown_witness:
  "\<exists>trace. satellite_PersistState sample_state_codec no_faults ''tmp'' sample_sat (\<lambda>_. Missing) = (trace, Inr ()) \<and>
     fp_currentConfigDigest (NewFetchAndReplicateStateProcess sample_state_codec (last trace) ''state.json'') = ''cd''"
proof -
  let ?s = "sample_sched ReplicateStateJobName Exited 0 True (sample_world ''cd'')"
  note run = sched_run_append[OF sample_exits sample_drains, of ReplicateStateJobName "''cd''"]
  have sat: "sl_state sample_sat = Some ?s" by (simp add: sample_sat_def)
  obtain trace where t: "satellite_PersistState sample_state_codec no_faults ''tmp'' sample_sat (\<lambda>_. Missing) = (trace, Inr ())"
    by (simp add: satellite_PersistState_def sat PersistState_def SaveState_def sample_state_codec_def no_faults_def Let_def sample_sched_def sample_world_def)
  have st: "satellite_Stop None sample_sat 0"
    by (auto simp: satellite_Stop_def stops_def sample_sat_def NewSatellite_def Scheduler.Stop_def sample_sched_def intro!: exI[of _ "[True]"])
  have p: "''state.json'' = fp_stateFilePath (sw_proc (sc_process ?s))" by (simp add: sample_sched_def sample_world_def)
  have j: "jp_unmarshal sample_state_codec d = Inr (persist [] ''cd'')"
    if "jp_marshal sample_state_codec (persist [] ''cd'') = Inr d" for d
    using that by (auto simp: sample_state_codec_def persist_def trimPrefix_def)
  have "fp_currentConfigDigest (NewFetchAndReplicateStateProcess sample_state_codec (last trace) ''state.json'') =
      fp_currentConfigDigest (sw_proc (sc_process ?s))"
    using replication_shutdown[OF sample_launch _ run sat st run_none p _ _ refl _ t] j
    by (simp add: Let_def sample_sched_def sample_world_def)
  with t show ?thesis by (auto simp: sample_sched_def sample_world_def)
qed

theorem replication_exclusive_witness:
  "let s = sample_sched ReplicateStateJobName Waiting 1 False (set_running True (sample_world ''cd'')) in
   sc_executing s \<le> 1 \<and> fp_isRunning (sw_proc (sc_process s)) \<and> sc_wg s = 2"
proof -
  have "prompt_run sample_ops (sample_sched ReplicateStateJobName Launching 0 False (sample_world ''cd'')) [EvLaunch, EvBegin]
      (sample_sched ReplicateStateJobName Waiting 1 False (set_running True (sample_world ''cd'')))"
    by (rule prompt_step[OF step_launch], simp add: sample_sched_def, simp add: sample_sched_def,
        rule prompt_step[OF step_begin[where n = 0]]) (simp_all add: sample_eval prompt_none)
  from replication_exclusive[OF sample_launch _ this] show ?thesis
    by (simp add: Let_def sample_sched_def sample_world_def live_def in_loop_def)
qed

theorem replication_drains_witness:
  "Scheduler.Stop None (sample_sched ReplicateStateJobName Exited 0 True (sample_world ''cd'')) (Inr ()) \<and>
   \<not> Scheduler.Stop None (sample_sched ReplicateStateJobName Exited 1 True (set_running True (sample_world ''cd''))) (Inr ())"
proof -
  have x: "sc_loop (sample_sched ReplicateStateJobName Exited 1 True (set_running True (sample_world ''cd''))) = Exited"
    by (simp add: sample_sched_def)
  note d = replication_drains[OF sample_launch _ sample_exits x]
  show ?thesis
    using d[OF _ sample_drains] d[OF _ run_none]
    by (simp add: sample_world_def goroutine_event_def work_left_def sample_sched_def)
qed


text \<open>
  A cancelled replication goes on in the background: here \<^verbatim>\<open>Execute\<close> returns at once and the goroutine that it left
  running adopts a new configuration afterwards.
\<close>

lemma cancelled_run_goes_on:
  "\<exists>w1 w2. execute_body sample_sync_env run_cm False config_first (Some 0) (sample_world ''old'') = (w1, Inl ''context canceled'') \<and>
     left_task_step TYPE(string) w1 w2 \<and> fp_currentConfigDigest (sw_proc w1) = ''old'' \<and> fp_currentConfigDigest (sw_proc w2) = ''cd''"
proof -
  let ?run = "execute_body sample_sync_env run_cm False config_first (Some 0) (sample_world ''old'')"
  let ?t = "(setupReplication run_cm, ''http://h/c'', ConfigTask)"
  let ?w = "(fst ?run)\<lparr>sw_left := remove1 ?t (sw_left (fst ?run))\<rparr>"
  let ?w2 = "fst (run_task sample_sync_env run_cm (setupReplication run_cm) ''http://h/c'' ConfigTask ?w)"
  have r: "case snd ?run of Inl e \<Rightarrow> e = ''context canceled'' | Inr _ \<Rightarrow> False" by code_simp
  then have r: "snd ?run = Inl ''context canceled''" by (cases "snd ?run") simp_all
  have d: "fp_currentConfigDigest (sw_proc (fst ?run)) = ''old''" "fp_currentConfigDigest (sw_proc ?w2) = ''cd''" by code_simp+
  have "?t \<in> set (sw_left (fst ?run))" by code_simp
  then have "left_task_step TYPE(string) (fst ?run) ?w2"
    unfolding left_task_step_def by (intro exI[of _ sample_sync_env] exI[of _ run_cm] exI[of _ "setupReplication run_cm"]
      exI[of _ "''http://h/c''"] exI[of _ ConfigTask] exI[of _ "snd (run_task sample_sync_env run_cm (setupReplication run_cm) ''http://h/c'' ConfigTask ?w)"]) simp
  with r d show ?thesis by (metis prod.collapse)
qed

text \<open>
  Without promptness replications can overlap: a second tick that comes before the first goroutine has marked the process
  launches a second one.
\<close>

lemma launches_can_overlap:
  "\<exists>s. sched_run sample_ops (sample_sched ReplicateStateJobName Launching 0 False (sample_world ''cd''))
     [EvLaunch, EvTick, EvLaunch, EvBegin, EvBegin] s \<and> sc_executing s = 2"
  by (simp add: sample_eval)

end
