(* ===== verification/Go_Marshal.thy ===== *)
theory Go_Marshal
  imports Go_Codec Go_Json "HOL-Library.List_Lexorder"
begin

text \<open>
  The text that \<^verbatim>\<open>encoding/json\<close> writes and the two layouts of \<^verbatim>\<open>time\<close> that the audit log uses.
  A string is quoted with Go's escapes (HTML characters and controls as \<^verbatim>\<open>\u00xx\<close>, bytes that are no UTF-8 as
  \<^verbatim>\<open>\ufffd\<close>), a map is written with its keys in byte order, a struct with its fields in their order.
  A time is its number of nanoseconds since 1970 in UTC.
\<close>

section \<open>JSON text\<close>

definition hex2 :: "nat \<Rightarrow> string" where
  "hex2 n = [hex_digits ! (n div 16 mod 16), hex_digits ! (n mod 16)]"

definition backslash :: char where "backslash = CHR 0x5C"

definition ascii_escape :: "char \<Rightarrow> string" where
  "ascii_escape c =
     (if c = CHR 0x22 \<or> c = backslash then [backslash, c]
      else if byte c = 8 then [backslash, CHR ''b''] else if byte c = 12 then [backslash, CHR ''f'']
      else if byte c = 10 then [backslash, CHR ''n''] else if byte c = 13 then [backslash, CHR ''r'']
      else if byte c = 9 then [backslash, CHR ''t'']
      else if byte c < 32 \<or> c \<in> {CHR ''<'', CHR ''>'', CHR ''&''} then backslash # ''u00'' @ hex2 (byte c)
      else [c])"

fun json_escape :: "string \<Rightarrow> string" where
  "json_escape [] = []"
| "json_escape (a # s) =
     (if byte a < 128 then ascii_escape a @ json_escape s
      else case decode_rune a s of (r, k) \<Rightarrow>
        (if r = 65533 \<and> k = 0 then backslash # ''ufffd''
         else if r = 8232 \<or> r = 8233 then backslash # ''u202'' @ [hex_digits ! (r mod 16)]
         else a # take k s) @ json_escape (drop k s))"

definition json_string :: "string \<Rightarrow> string" where
  "json_string s = [CHR 0x22] @ json_escape s @ [CHR 0x22]"

definition json_object :: "(string \<times> string) list \<Rightarrow> string" where
  \<comment> \<open>fields with the text of their values\<close>
  "json_object fields = ''{'' @ join '','' (map (\<lambda>(k, v). json_string k @ '':'' @ v) fields) @ ''}''"

definition json_array :: "string list \<Rightarrow> string" where
  "json_array vs = ''['' @ join '','' vs @ '']''"

definition map_order :: "(string \<times> 'a) list \<Rightarrow> (string \<times> 'a) list" where
  "map_order kvs = sort_key (\<lambda>(k, v). map byte k) kvs"

lemma set_map_order [simp]: "set (map_order kvs) = set kvs"
  by (simp add: map_order_def)

lemma map_order_cong [fundef_cong]:
  "kvs = lvs \<Longrightarrow> (\<And>k v. (k, v) \<in> set lvs \<Longrightarrow> f (k, v) = g (k, v)) \<Longrightarrow> map f (map_order kvs) = map g (map_order lvs)"
  by (auto intro!: map_cong)

fun json_text :: "json \<Rightarrow> string" where
  "json_text JNull = ''null''"
| "json_text (JBool b) = (if b then ''true'' else ''false'')"
| "json_text (JNum t) = t"
| "json_text (JStr s) = json_string s"
| "json_text (JArr xs) = json_array (map json_text xs)"
| "json_text (JObj kvs) = json_object (map (\<lambda>(k, v). (k, json_text v)) (map_order kvs))"

fun printable_numbers :: "json \<Rightarrow> bool" where
  "printable_numbers (JNum t) = (\<forall>c\<in>set t. 32 \<le> byte c)"
| "printable_numbers (JArr xs) = (\<forall>x\<in>set xs. printable_numbers x)"
| "printable_numbers (JObj kvs) = (\<forall>(k, v)\<in>set kvs. printable_numbers v)"
| "printable_numbers j = True"

section \<open>Times\<close>

definition pad :: "nat \<Rightarrow> nat \<Rightarrow> string" where
  "pad w n = replicate (w - length (show_nat n)) CHR ''0'' @ show_nat n"

definition civil :: "int \<Rightarrow> int \<times> int \<times> int" where
  \<comment> \<open>year, month and day of a day counted from 1970-01-01, in the Gregorian calendar\<close>
  "civil days =
     (let z = days + 719468; era = z div 146097; doe = z mod 146097;
          yoe = (doe - doe div 1460 + doe div 36524 - doe div 146096) div 365;
          doy = doe - (365 * yoe + yoe div 4 - yoe div 100);
          mp = (5 * doy + 2) div 153; d = doy - (153 * mp + 2) div 5 + 1;
          m = (if mp < 10 then mp + 3 else mp - 9)
      in (yoe + era * 400 + (if m \<le> 2 then 1 else 0), m, d))"

definition date_time :: "int \<Rightarrow> string" where
  "date_time t =
     (let secs = t div 1000000000; (y, m, d) = civil (secs div 86400); s = secs mod 86400 in
      pad 4 (nat y) @ ''-'' @ pad 2 (nat m) @ ''-'' @ pad 2 (nat d) @ ''T'' @
      pad 2 (nat (s div 3600)) @ '':'' @ pad 2 (nat (s div 60 mod 60)) @ '':'' @ pad 2 (nat (s mod 60)))"

definition format_micro :: "int \<Rightarrow> string" where
  "format_micro t = date_time t @ ''.'' @ pad 6 (nat (t mod 1000000000 div 1000)) @ ''Z''"

definition format_RFC3339Nano :: "int \<Rightarrow> string" where
  "format_RFC3339Nano t =
     (let frac = rev (dropWhile (\<lambda>c. c = CHR ''0'') (rev (pad 9 (nat (t mod 1000000000))))) in
      date_time t @ (if frac = [] then [] else ''.'' @ frac) @ ''Z'')"

section \<open>No control characters\<close>

definition clean :: "string \<Rightarrow> bool" where
  \<comment> \<open>no control character, so in particular no line break\<close>
  "clean s = (\<forall>c\<in>set s. 32 \<le> byte c)"

lemma clean_simps [simp]: "clean []" "clean (c # s) \<longleftrightarrow> 32 \<le> byte c \<and> clean s" "clean (s @ t) \<longleftrightarrow> clean s \<and> clean t"
  by (auto simp: clean_def)

lemma clean_one_line: "clean s \<Longrightarrow> CHR 0x0A \<notin> set s"
proof
  assume "clean s" "CHR 0x0A \<in> set s"
  then have "32 \<le> byte CHR 0x0A" by (simp only: clean_def)
  then show False by simp
qed

lemma clean_join: "clean sep \<Longrightarrow> (\<And>w. w \<in> set ws \<Longrightarrow> clean w) \<Longrightarrow> clean (join sep ws)"
  by (induction sep ws rule: join.induct) auto

lemma hex_digits_clean: "n < 16 \<Longrightarrow> 32 \<le> byte (hex_digits ! n)"
proof -
  have "\<forall>n\<in>set [0..<16]. 32 \<le> byte (hex_digits ! n)" by code_simp
  then show "n < 16 \<Longrightarrow> 32 \<le> byte (hex_digits ! n)" by simp
qed

lemma ascii_escape_clean: "clean (ascii_escape c)"
  using hex_digits_clean by (auto simp: ascii_escape_def hex2_def backslash_def)

lemma decode_rune_bytes: "decode_rune a s = (r, k) \<Longrightarrow> c \<in> set (take k s) \<Longrightarrow> 128 \<le> byte c"
  by (auto simp: decode_rune_def second_range_def in_range_def Let_def split: list.splits if_splits)

lemma json_escape_clean: "clean (json_escape s)"
proof (induction s rule: json_escape.induct)
  case (2 a s)
  show ?case
  proof (cases "byte a < 128")
    case True
    with 2(1) show ?thesis by (simp add: ascii_escape_clean)
  next
    case False
    obtain r k where d: "decode_rune a s = (r, k)" by fastforce
    have "clean (take k s)" using decode_rune_bytes[OF d] by (fastforce simp: clean_def)
    moreover have "clean (json_escape (drop k s))" using 2(2)[OF False, of r k] d by simp
    ultimately show ?thesis using False d hex_digits_clean by (simp add: backslash_def)
  qed
qed simp

lemma json_string_clean [simp]: "clean (json_string s)"
  by (simp add: json_string_def json_escape_clean)

lemma json_object_clean: "(\<And>k v. (k, v) \<in> set fields \<Longrightarrow> clean v) \<Longrightarrow> clean (json_object fields)"
  by (auto simp: json_object_def intro!: clean_join)

lemma json_object_clean_all: "list_all (\<lambda>(k, v). clean v) fields \<Longrightarrow> clean (json_object fields)"
  by (rule json_object_clean) (auto simp: list_all_iff)

lemma json_text_clean: "printable_numbers j \<Longrightarrow> clean (json_text j)"
proof (induction j rule: json_text.induct)
  case (5 xs)
  then show ?case by (auto simp: json_array_def intro!: clean_join)
next
  case (6 kvs)
  show ?case unfolding json_text.simps
    by (rule json_object_clean) (use 6 in auto)
qed (auto simp: clean_def[symmetric])

lemma show_nat_clean: "clean (show_nat n)"
  using show_nat_digits[of n] by (fastforce simp: clean_def dec_digit_def)

lemma pad_clean [simp]: "clean (pad w n)"
  using show_nat_clean by (auto simp: pad_def clean_def)

lemma format_clean [simp]: "clean (format_micro t)" "clean (format_RFC3339Nano t)"
proof -
  have d: "clean (date_time t)" by (simp add: date_time_def Let_def split: prod.splits)
  then show "clean (format_micro t)" by (simp add: format_micro_def)
  have "clean (rev (dropWhile q (rev u)))" if "clean u" for q u
    using that set_dropWhileD by (fastforce simp: clean_def)
  with d show "clean (format_RFC3339Nano t)" by (simp add: format_RFC3339Nano_def Let_def)
qed

end
