(* ===== verification/Audit_Log.thy ===== *)
theory Audit_Log
  imports Go_Marshal Go_URL Config_Model
begin

text \<open>
  \<^verbatim>\<open>internal/logger/audit.go\<close>, \<^verbatim>\<open>syslog.go\<close> and \<^verbatim>\<open>otel.go\<close>: audit events, the two transports and the
  logger whose transports are swapped at run time. \<^verbatim>\<open>internal/groundcontrol/logger\<close> holds the same code for
  ground control. An \<open>audit_env\<close> answers for the host name, the network, the disk and the collector; an
  \<open>audit_world\<close> records what was written to which transport, what was closed, and the breadcrumbs on
  standard error.
\<close>

section \<open>Events\<close>

record audit_event =
  ev_Operation :: string
  ev_ResourceType :: string
  ev_Outcome :: string
  ev_Severity :: string
  ev_Actor :: string
  ev_ActorType :: string
  ev_SourceIP :: string
  ev_UserAgent :: string
  ev_RequestID :: string
  ev_SatelliteID :: string
  ev_Resource :: string
  ev_Reason :: string
  ev_Details :: "(string \<times> json) list"

definition zero_event :: audit_event where
  "zero_event = \<lparr>ev_Operation = [], ev_ResourceType = [], ev_Outcome = [], ev_Severity = [], ev_Actor = [], ev_ActorType = [],
     ev_SourceIP = [], ev_UserAgent = [], ev_RequestID = [], ev_SatelliteID = [], ev_Resource = [], ev_Reason = [], ev_Details = []\<rparr>"

definition OutcomeSuccess :: string where "OutcomeSuccess = ''success''"
definition OutcomeFailure :: string where "OutcomeFailure = ''failure''"
definition SeverityInfo :: string where "SeverityInfo = ''info''"
definition SeverityWarning :: string where "SeverityWarning = ''warning''"
definition SeverityError :: string where "SeverityError = ''error''"
definition SeverityCritical :: string where "SeverityCritical = ''critical''"

lemmas audit_constants = OutcomeSuccess_def OutcomeFailure_def SeverityInfo_def SeverityWarning_def SeverityError_def SeverityCritical_def

definition eventType :: "audit_event \<Rightarrow> string" where
  "eventType e = ev_ResourceType e @ ''.'' @ ev_Operation e @ ''.'' @ ev_Outcome e"

definition severity :: "audit_event \<Rightarrow> string" where
  "severity e = (if ev_Severity e \<noteq> [] then ev_Severity e
     else if ev_Outcome e = OutcomeFailure then SeverityWarning else SeverityInfo)"

definition fieldUnknown :: string where "fieldUnknown = ''unknown''"

definition withRequiredDefaults :: "audit_event \<Rightarrow> audit_event" where
  "withRequiredDefaults e =
     (let e = (if ev_Operation e = [] then e\<lparr>ev_Operation := fieldUnknown\<rparr> else e);
          e = (if ev_ResourceType e = [] then e\<lparr>ev_ResourceType := fieldUnknown\<rparr> else e)
      in if ev_Outcome e = [] then e\<lparr>ev_Outcome := fieldUnknown\<rparr> else e)"

record audit_record =
  ar_EventID :: string
  ar_Timestamp :: int
  ar_Component :: string
  ar_EventType :: string
  ar_Event :: audit_event

definition omitempty :: "string \<Rightarrow> string \<Rightarrow> (string \<times> string) list" where
  "omitempty k v = (if v = [] then [] else [(k, json_string v)])"

definition record_json :: "audit_record \<Rightarrow> string" where
  \<comment> \<open>\<^verbatim>\<open>json.Marshal(r)\<close>; the fields of the embedded event follow those of the record\<close>
  "record_json r = (let e = ar_Event r in json_object
     ([(''event_id'', json_string (ar_EventID r)), (''timestamp'', json_string (format_RFC3339Nano (ar_Timestamp r))),
       (''component'', json_string (ar_Component r)), (''event_type'', json_string (ar_EventType r)),
       (''operation'', json_string (ev_Operation e)), (''resource_type'', json_string (ev_ResourceType e)),
       (''outcome'', json_string (ev_Outcome e)), (''severity'', json_string (ev_Severity e))] @
      omitempty ''actor'' (ev_Actor e) @ omitempty ''actor_type'' (ev_ActorType e) @ omitempty ''source_ip'' (ev_SourceIP e) @
      omitempty ''user_agent'' (ev_UserAgent e) @ omitempty ''request_id'' (ev_RequestID e) @
      omitempty ''satellite_id'' (ev_SatelliteID e) @ omitempty ''resource'' (ev_Resource e) @ omitempty ''reason'' (ev_Reason e) @
      (if ev_Details e = [] then [] else [(''details'', json_text (JObj (ev_Details e)))])))"

section \<open>Configuration and environment\<close>

record syslog_file_config =
  lf_Path :: string
  lf_MaxSizeMB :: int
  lf_MaxBackups :: int
  lf_MaxAgeDays :: int
  lf_Compress :: bool

record syslog_config =
  ls_Enabled :: bool
  ls_Target :: string
  ls_Tag :: string
  ls_SocketPath :: string
  ls_Network :: string
  ls_Address :: string
  ls_File :: syslog_file_config

record otel_config =
  lo_Enabled :: bool
  lo_Endpoint :: string

record logger_config =
  lc_Enabled :: bool
  lc_Syslog :: syslog_config
  lc_OTel :: otel_config

datatype sink = Conn string string | Rotator syslog_file_config

record syslog_transport =
  tr_w :: sink
  tr_hostname :: string
  tr_appName :: string
  tr_procID :: string
  tr_facility :: nat

datatype transport = SyslogTransport syslog_transport | OTelTransport string

record audit_env =
  en_Hostname :: "string result"
  en_Getpid :: nat
  en_Dial :: "string \<Rightarrow> string \<Rightarrow> unit result"
  en_MkdirParent :: "string \<Rightarrow> unit result"
    \<comment> \<open>\<^verbatim>\<open>os.MkdirAll(filepath.Dir(path))\<close>\<close>
  en_OpenAppend :: "string \<Rightarrow> unit result"
  en_CloseFile :: "string \<Rightarrow> unit result"
  en_CloseConn :: "string \<Rightarrow> unit result"
  en_Write :: "sink \<Rightarrow> string \<Rightarrow> unit result"
  en_Post :: "string \<Rightarrow> string \<Rightarrow> (nat \<times> unit result) result"
    \<comment> \<open>the status of the response, and whether its body could be read\<close>

record audit_world =
  aw_sent :: "(transport \<times> string) list"
  aw_closed :: "transport list"
  aw_stderr :: "string list"

section \<open>The syslog transport\<close>

definition ensureWritable :: "audit_env \<Rightarrow> string \<Rightarrow> unit result" where
  "ensureWritable E path =
     (case en_MkdirParent E path of
        Inl err \<Rightarrow> Inl (''create audit log directory: '' @ err)
      | Inr _ \<Rightarrow>
        (case en_OpenAppend E path of
           Inl err \<Rightarrow> Inl (''open audit log file: '' @ err)
         | Inr _ \<Rightarrow> en_CloseFile E path))"

definition dialDaemon :: "audit_env \<Rightarrow> string \<Rightarrow> sink result" where
  "dialDaemon E path =
     (let path = (if path = [] then ''/dev/log'' else path) in
      case en_Dial E ''unixgram'' path of
        Inr _ \<Rightarrow> Inr (Conn ''unixgram'' path)
      | Inl _ \<Rightarrow>
        (case en_Dial E ''unix'' path of
           Inr _ \<Rightarrow> Inr (Conn ''unix'' path)
         | Inl lastErr \<Rightarrow> Inl (''dial syslog daemon: '' @ lastErr)))"

definition openSink :: "audit_env \<Rightarrow> syslog_config \<Rightarrow> sink result" where
  "openSink E cfg =
     (if ls_Target cfg = ''network''
      then (case en_Dial E (ls_Network cfg) (ls_Address cfg) of
              Inl err \<Rightarrow> Inl (''dial syslog endpoint: '' @ err)
            | Inr _ \<Rightarrow> Inr (Conn (ls_Network cfg) (ls_Address cfg)))
      else if ls_Target cfg = ''file''
      then (case ensureWritable E (lf_Path (ls_File cfg)) of
              Inl err \<Rightarrow> Inl (''syslog file destination not writable: '' @ err)
            | Inr _ \<Rightarrow> Inr (Rotator (ls_File cfg)))
      else if ls_Target cfg = ''daemon'' then dialDaemon E (ls_SocketPath cfg)
      else Inl ''unknown syslog target'')"

definition newSyslogTransport :: "audit_env \<Rightarrow> syslog_config \<Rightarrow> syslog_transport result" where
  "newSyslogTransport E cfg =
     (let tag = (if ls_Tag cfg = [] then ''harbor-audit'' else ls_Tag cfg);
          host = (case en_Hostname E of Inl _ \<Rightarrow> ''-'' | Inr h \<Rightarrow> if h = [] then ''-'' else h)
      in case openSink E cfg of
           Inl err \<Rightarrow> Inl err
         | Inr w \<Rightarrow> Inr \<lparr>tr_w = w, tr_hostname = host, tr_appName = tag, tr_procID = show_nat (en_Getpid E), tr_facility = 16\<rparr>)"

definition severityCode :: "string \<Rightarrow> nat" where
  "severityCode s = (if s = SeverityCritical then 2 else if s = SeverityError then 3 else if s = SeverityWarning then 4 else 6)"

definition syslog_line :: "syslog_transport \<Rightarrow> audit_record \<Rightarrow> string" where
  "syslog_line t r =
     ''<'' @ show_nat (tr_facility t * 8 + severityCode (ev_Severity (ar_Event r))) @ ''>1 '' @ format_micro (ar_Timestamp r) @ '' '' @
     tr_hostname t @ '' '' @ tr_appName t @ '' '' @ tr_procID t @ '' '' @ ''-'' @ '' '' @ ''-'' @ '' '' @ record_json r @ [CHR 0x0A]"

definition syslog_Emit :: "audit_env \<Rightarrow> syslog_transport \<Rightarrow> audit_record \<Rightarrow> string \<times> unit result" where
  "syslog_Emit E t r =
     (let line = syslog_line t r in
      (line, case en_Write E (tr_w t) line of Inl err \<Rightarrow> Inl (''write syslog message: '' @ err) | Inr _ \<Rightarrow> Inr ()))"

section \<open>The OpenTelemetry transport\<close>

definition url_host :: "url \<Rightarrow> string" where
  \<comment> \<open>\<^verbatim>\<open>u.Host\<close>: the authority without user information\<close>
  "url_host u = rev (takeWhile (\<lambda>c. c \<noteq> CHR ''@'') (rev (u_Host u)))"

definition split_port :: "string \<Rightarrow> string \<times> string" where
  \<comment> \<open>\<^verbatim>\<open>Hostname\<close> (still with the brackets of an IPv6 address) and \<^verbatim>\<open>Port\<close>\<close>
  "split_port host =
     (let port = rev (takeWhile (\<lambda>c. c \<noteq> CHR '':'') (rev host)) in
      if CHR '':'' \<in> set host \<and> (\<forall>c\<in>set port. dec_digit c) then (take (length host - length port - 1) host, port) else (host, []))"

definition url_Hostname :: "url \<Rightarrow> string" where
  "url_Hostname u = (let h = fst (split_port (url_host u)) in
     if hasPrefix h ''['' \<and> hasSuffix h '']'' then butlast (tl h) else h)"

definition url_Port :: "url \<Rightarrow> string" where
  "url_Port u = snd (split_port (url_host u))"

definition JoinHostPort :: "string \<Rightarrow> string \<Rightarrow> string" where
  "JoinHostPort host port = (if CHR '':'' \<in> set host then ''['' @ host @ '']:'' @ port else host @ '':'' @ port)"

definition probeOTelEndpoint :: "audit_env \<Rightarrow> url \<Rightarrow> unit result" where
  "probeOTelEndpoint E u =
     (let host = (if url_Port u = [] then JoinHostPort (url_Hostname u) (if u_Scheme u = ''https'' then ''443'' else ''80'') else url_host u)
      in case en_Dial E ''tcp'' host of
           Inl err \<Rightarrow> Inl (''otel endpoint not reachable: '' @ err)
         | Inr _ \<Rightarrow> en_CloseConn E host)"

definition newOTelTransport :: "audit_env \<Rightarrow> otel_config \<Rightarrow> string result" where
  "newOTelTransport E cfg =
     (case url_Parse (lo_Endpoint cfg) of
        Inl err \<Rightarrow> Inl (''parse otel endpoint: '' @ err)
      | Inr u \<Rightarrow>
        if u_Scheme u \<noteq> ''http'' \<and> u_Scheme u \<noteq> ''https'' then Inl ''otel endpoint must be an http(s) URL''
        else (let u = (if u_Path u = [] \<or> u_Path u = ''/'' then u\<lparr>u_Path := ''/v1/logs''\<rparr> else u) in
              case probeOTelEndpoint E u of Inl err \<Rightarrow> Inl err | Inr _ \<Rightarrow> Inr (url_String u)))"

definition otelSeverityNumber :: "string \<Rightarrow> nat" where
  "otelSeverityNumber s = (if s = SeverityCritical then 21 else if s = SeverityError then 17 else if s = SeverityWarning then 13 else 9)"

definition appendOTelAttr :: "string \<Rightarrow> string \<Rightarrow> (string \<times> string) list \<Rightarrow> (string \<times> string) list" where
  "appendOTelAttr key v attrs = (if v = [] then attrs else attrs @ [(key, v)])"

definition detailsJSON :: "(string \<times> json) list \<Rightarrow> string" where
  "detailsJSON d = (if d = [] then [] else json_text (JObj d))"

definition otelAttributes :: "audit_record \<Rightarrow> (string \<times> string) list" where
  "otelAttributes r = (let e = ar_Event r in fold (\<lambda>(k, v). appendOTelAttr k v)
     [(''event.name'', ar_EventType r), (''log.record.uid'', ar_EventID r), (''user.name'', ev_Actor e),
      (''client.address'', ev_SourceIP e), (''user_agent.original'', ev_UserAgent e), (''error.type'', ev_Reason e),
      (''harbor.audit.operation'', ev_Operation e), (''harbor.audit.resource_type'', ev_ResourceType e),
      (''harbor.audit.outcome'', ev_Outcome e), (''harbor.audit.actor_type'', ev_ActorType e),
      (''harbor.audit.resource'', ev_Resource e), (''harbor.audit.request_id'', ev_RequestID e),
      (''harbor.audit.satellite_id'', ev_SatelliteID e), (''harbor.audit.details'', detailsJSON (ev_Details e))] [])"

definition otlp_value :: "string \<Rightarrow> string" where
  "otlp_value v = json_object [(''stringValue'', json_string v)]"

definition otlp_attributes :: "(string \<times> string) list \<Rightarrow> string" where
  "otlp_attributes attrs = json_array (map (\<lambda>(k, v). json_object [(''key'', json_string k), (''value'', otlp_value v)]) attrs)"

definition otlp_log_record :: "audit_record \<Rightarrow> string" where
  "otlp_log_record r =
     (let ts = json_string (show_int (ar_Timestamp r)) in json_object
       [(''timeUnixNano'', ts), (''observedTimeUnixNano'', ts),
        (''severityNumber'', show_nat (otelSeverityNumber (ev_Severity (ar_Event r)))),
        (''severityText'', json_string (ev_Severity (ar_Event r))), (''body'', otlp_value (record_json r)),
        (''attributes'', otlp_attributes (otelAttributes r))])"

definition otlpPayloadFor :: "audit_record \<Rightarrow> string" where
  "otlpPayloadFor r = json_object [(''resourceLogs'', json_array [json_object
     [(''resource'', json_object [(''attributes'', otlp_attributes [(''service.name'', ar_Component r)])]),
      (''scopeLogs'', json_array [json_object
         [(''scope'', json_object [(''name'', json_string ''harbor-satellite/audit'')]),
          (''logRecords'', json_array [otlp_log_record r])]])]])]"

definition otel_Emit :: "audit_env \<Rightarrow> string \<Rightarrow> audit_record \<Rightarrow> string \<times> unit result" where
  "otel_Emit E endpoint r =
     (let payload = otlpPayloadFor r in
      (payload, case en_Post E endpoint payload of
         Inl err \<Rightarrow> Inl (''export otlp logs: '' @ err)
       | Inr (status, Inl err) \<Rightarrow> Inl (''read otlp response body: '' @ err)
       | Inr (status, Inr _) \<Rightarrow>
           if status < 200 \<or> 300 \<le> status then Inl (''otlp endpoint returned status '' @ show_nat status) else Inr ()))"

section \<open>The logger\<close>

record audit_logger =
  al_transports :: "transport list"
  al_enabled :: bool
  al_component :: string

definition closeAll :: "transport list \<Rightarrow> audit_world \<Rightarrow> audit_world" where
  "closeAll ts w = w\<lparr>aw_closed := aw_closed w @ ts\<rparr>"

definition buildTransports :: "audit_env \<Rightarrow> logger_config \<Rightarrow> audit_world \<Rightarrow> audit_world \<times> transport list result" where
  "buildTransports E cfg w =
     (if \<not> lc_Enabled cfg then (w, Inr [])
      else case (if ls_Enabled (lc_Syslog cfg) then map_sum (\<lambda>e. e) (\<lambda>t. [SyslogTransport t]) (newSyslogTransport E (lc_Syslog cfg))
                 else Inr []) of
        Inl err \<Rightarrow> (w, Inl err)
      | Inr ts \<Rightarrow>
        (case (if lo_Enabled (lc_OTel cfg) then map_sum (\<lambda>e. e) (\<lambda>t. [OTelTransport t]) (newOTelTransport E (lc_OTel cfg)) else Inr []) of
           Inl err \<Rightarrow> (closeAll ts w, Inl err)
         | Inr us \<Rightarrow>
             if ts @ us = [] then (w, Inl ''audit logging is enabled but no transport is configured'')
             else (w, Inr (ts @ us))))"

definition Reconfigure :: "audit_env \<Rightarrow> logger_config \<Rightarrow> audit_logger \<Rightarrow> audit_world \<Rightarrow> audit_logger \<times> audit_world \<times> unit result" where
  "Reconfigure E cfg a w =
     (case buildTransports E cfg w of
        (w, Inl err) \<Rightarrow> (a, w, Inl err)
      | (w, Inr newTransports) \<Rightarrow>
          (a\<lparr>al_transports := newTransports, al_enabled := 0 < length newTransports\<rparr>, closeAll (al_transports a) w, Inr ()))"

definition NewAuditLogger :: "audit_env \<Rightarrow> logger_config \<Rightarrow> string \<Rightarrow> audit_world \<Rightarrow> audit_world \<times> audit_logger result" where
  "NewAuditLogger E cfg component w =
     (case Reconfigure E cfg \<lparr>al_transports = [], al_enabled = False, al_component = component\<rparr> w of
        (_, w, Inl err) \<Rightarrow> (w, Inl err) | (a, w, Inr _) \<Rightarrow> (w, Inr a))"

fun Emit :: "audit_env \<Rightarrow> transport \<Rightarrow> audit_record \<Rightarrow> string \<times> unit result" where
  "Emit E (SyslogTransport t) r = syslog_Emit E t r"
| "Emit E (OTelTransport endpoint) r = otel_Emit E endpoint r"

definition emit_one :: "audit_env \<Rightarrow> audit_record \<Rightarrow> transport \<Rightarrow> audit_world \<Rightarrow> audit_world" where
  "emit_one E r t w =
     (case Emit E t r of
        (payload, Inr _) \<Rightarrow> w\<lparr>aw_sent := aw_sent w @ [(t, payload)]\<rparr>
      | (payload, Inl err) \<Rightarrow> w\<lparr>aw_stderr := aw_stderr w @ [ar_Component r @ '': audit transport emit failed: '' @ err]\<rparr>)"

definition build_record :: "string \<Rightarrow> int \<Rightarrow> string \<Rightarrow> audit_event \<Rightarrow> audit_record" where
  "build_record uuid now component e =
     (let e = withRequiredDefaults e; e = e\<lparr>ev_Severity := severity e\<rparr> in
      \<lparr>ar_EventID = uuid, ar_Timestamp = now, ar_Component = component, ar_EventType = eventType e, ar_Event = e\<rparr>)"

definition Log :: "audit_env \<Rightarrow> string \<Rightarrow> int \<Rightarrow> audit_event \<Rightarrow> audit_logger option \<Rightarrow> audit_world \<Rightarrow> audit_world" where
  "Log E uuid now e a w =
     (case a of None \<Rightarrow> w
      | Some a \<Rightarrow> if \<not> al_enabled a then w else fold (emit_one E (build_record uuid now (al_component a) e)) (al_transports a) w)"

definition logger_Enabled :: "audit_logger option \<Rightarrow> bool" where
  "logger_Enabled a = (case a of None \<Rightarrow> False | Some a \<Rightarrow> al_enabled a)"

definition AuditFromContext :: "audit_logger option \<Rightarrow> audit_logger" where
  "AuditFromContext c = (case c of Some a \<Rightarrow> a | None \<Rightarrow> \<lparr>al_transports = [], al_enabled = False, al_component = []\<rparr>)"

section \<open>What the logger delivers\<close>

lemma emit_all_sent:
  "aw_sent (fold (emit_one E r) ts w) = aw_sent w @ map (\<lambda>t. (t, fst (Emit E t r))) (filter (\<lambda>t. is_ok (snd (Emit E t r))) ts) \<and>
   length (aw_stderr (fold (emit_one E r) ts w)) = length (aw_stderr w) + length (filter (\<lambda>t. \<not> is_ok (snd (Emit E t r))) ts) \<and>
   aw_closed (fold (emit_one E r) ts w) = aw_closed w"
proof (induction ts arbitrary: w)
  case (Cons t ts)
  obtain payload res where "Emit E t r = (payload, res)" by fastforce
  then show ?case by (cases res) (simp_all add: Cons.IH emit_one_def[of E r t w])
qed simp

lemma required_nonempty:
  "ev_Operation (withRequiredDefaults e) \<noteq> []" "ev_ResourceType (withRequiredDefaults e) \<noteq> []" "ev_Outcome (withRequiredDefaults e) \<noteq> []"
  by (simp_all add: withRequiredDefaults_def fieldUnknown_def Let_def)

lemma severity_nonempty: "severity e \<noteq> []"
  by (simp add: severity_def audit_constants)

lemma eventType_parts:
  assumes "CHR ''.'' \<notin> set (ev_ResourceType e)" "CHR ''.'' \<notin> set (ev_Operation e)" "CHR ''.'' \<notin> set (ev_Outcome e)"
  shows "split_on CHR ''.'' (eventType e) = [ev_ResourceType e, ev_Operation e, ev_Outcome e]"
  using split_on_join[of "[ev_ResourceType e, ev_Operation e, ev_Outcome e]" "CHR ''.''"] assms by (auto simp: eventType_def)

text \<open>
  One action is one event on every destination. An enabled logger builds one record and writes it to every
  transport that accepts it, in order; each transport that fails leaves one breadcrumb and does not keep the record from
  the others; nothing is closed. The record has an operation, a resource type, an outcome and a severity.
\<close>

theorem Log_delivers:
  assumes "al_enabled a"
  shows "let r = build_record uuid now (al_component a) e; w' = Log E uuid now e (Some a) w;
             accepts = (\<lambda>t. is_ok (snd (Emit E t r)))
    in aw_sent w' = aw_sent w @ map (\<lambda>t. (t, fst (Emit E t r))) (filter accepts (al_transports a)) \<and>
       length (aw_stderr w') = length (aw_stderr w) + length (filter (\<lambda>t. \<not> accepts t) (al_transports a)) \<and>
       aw_closed w' = aw_closed w \<and>
       ev_Operation (ar_Event r) \<noteq> [] \<and> ev_ResourceType (ar_Event r) \<noteq> [] \<and> ev_Outcome (ar_Event r) \<noteq> [] \<and>
       ev_Severity (ar_Event r) \<noteq> [] \<and> ar_EventType r = eventType (ar_Event r)"
  using assms emit_all_sent[of E _ "al_transports a" w] required_nonempty[of e] severity_nonempty
  by (simp add: Log_def build_record_def Let_def eventType_def)

section \<open>Frames\<close>

lemma record_json_clean:
  assumes "\<forall>(k, v)\<in>set (ev_Details (ar_Event r)). printable_numbers v"
  shows "clean (record_json r)"
proof -
  have "clean (json_text (JObj (ev_Details (ar_Event r))))" by (rule json_text_clean) (use assms in auto)
  then have "list_all (\<lambda>(k, v). clean v) (if ev_Details (ar_Event r) = [] then [] else [(''details'', json_text (JObj (ev_Details (ar_Event r))))])"
    by simp
  moreover have "list_all (\<lambda>(k, v). clean v) (omitempty k v)" for k v by (simp add: omitempty_def)
  ultimately show ?thesis
    unfolding record_json_def Let_def
    by (intro json_object_clean_all) (simp only: list_all_append list.pred_inject prod.case json_string_clean simp_thms)
qed

text \<open>
  C37. An audit record is one line of syslog, whatever its fields hold. When the host name and the configured tag have no control
  character, a frame is its header and the record without any control character, followed by a single line break, so
  that neither a user name nor a path nor a user agent in an event can forge a second record; and the priority
  is that of facility local0 with the code of the severity.
\<close>

theorem syslog_frame_is_one_line:
  assumes "newSyslogTransport E cfg = Inr t" "en_Hostname E = Inr host" "clean host" "clean (ls_Tag cfg)"
    and "\<forall>(k, v)\<in>set (ev_Details (ar_Event r)). printable_numbers v"
  shows "\<exists>body. fst (Emit E' (SyslogTransport t) r) = body @ [CHR 0x0A] \<and> clean body \<and> CHR 0x0A \<notin> set body \<and>
    hasSuffix body (record_json r) \<and>
    hasPrefix body (''<'' @ show_nat (128 + severityCode (ev_Severity (ar_Event r))) @ ''>1 '')"
proof -
  define pre where "pre = ''<'' @ show_nat (128 + severityCode (ev_Severity (ar_Event r))) @ ''>1 ''"
  define head where "head = format_micro (ar_Timestamp r) @ '' '' @
     tr_hostname t @ '' '' @ tr_appName t @ '' '' @ tr_procID t @ '' '' @ ''-'' @ '' '' @ ''-'' @ '' ''"
  have t: "tr_facility t = 16" "clean (tr_hostname t)" "clean (tr_appName t)" "clean (tr_procID t)"
    using assms(1-4) show_nat_clean by (auto simp: newSyslogTransport_def Let_def split: sum.splits if_splits)
  have line: "fst (Emit E' (SyslogTransport t) r) = (pre @ head @ record_json r) @ [CHR 0x0A]"
    using t(1) by (simp add: syslog_Emit_def syslog_line_def pre_def head_def Let_def)
  have c: "clean (pre @ head @ record_json r)"
    using t show_nat_clean record_json_clean[OF assms(5)] by (simp add: pre_def head_def)
  then have "CHR 0x0A \<notin> set (pre @ head @ record_json r)" by (rule clean_one_line)
  moreover have "hasPrefix (pre @ head @ record_json r) pre" by (simp add: hasPrefix_def)
  moreover have "hasSuffix (pre @ head @ record_json r) (record_json r)" by (simp add: hasSuffix_def hasPrefix_def)
  ultimately show ?thesis using line c unfolding pre_def by blast
qed

section \<open>Swapping the transports\<close>

definition built_for :: "logger_config \<Rightarrow> transport list \<Rightarrow> bool" where
  \<comment> \<open>the transports are those of the configuration, opened at some moment\<close>
  "built_for cfg ts = (\<exists>E w. buildTransports E cfg w = (w, Inr ts))"

lemma build_outcome:
  "case buildTransports E cfg w of
     (w', Inl _) \<Rightarrow> lc_Enabled cfg \<and> (\<exists>ts. w' = closeAll ts w)
   | (w', Inr ts) \<Rightarrow> w' = w \<and> (ts \<noteq> [] \<longleftrightarrow> lc_Enabled cfg)"
proof -
  have "closeAll [] w = w" by (simp add: closeAll_def)
  then show ?thesis
    by (auto simp: buildTransports_def map_sum_def split: sum.splits prod.splits if_splits) metis+
qed

lemma Reconfigure_cases:
  obtains (failed) err ts where "Reconfigure E cfg a w = (a, closeAll ts w, Inl err)" "lc_Enabled cfg"
  | (swapped) ts where "buildTransports E cfg w = (w, Inr ts)" "ts \<noteq> [] \<longleftrightarrow> lc_Enabled cfg"
      "Reconfigure E cfg a w = (a\<lparr>al_transports := ts, al_enabled := lc_Enabled cfg\<rparr>, closeAll (al_transports a) w, Inr ())"
  using build_outcome[where E = E and cfg = cfg and w = w] that by (fastforce simp: Reconfigure_def split: prod.splits sum.splits)

section \<open>Witnesses\<close>

definition sample_audit_env :: audit_env where
  \<comment> \<open>an environment in which everything works but the collector, which answers 503\<close>
  "sample_audit_env = \<lparr>en_Hostname = Inr ''edge'', en_Getpid = 7, en_Dial = (\<lambda>_ _. Inr ()), en_MkdirParent = (\<lambda>_. Inr ()),
     en_OpenAppend = (\<lambda>_. Inr ()), en_CloseFile = (\<lambda>_. Inr ()), en_CloseConn = (\<lambda>_. Inr ()), en_Write = (\<lambda>_ _. Inr ()),
     en_Post = (\<lambda>_ _. Inr (503, Inr ()))\<rparr>"

definition sample_syslog :: syslog_config where
  "sample_syslog = \<lparr>ls_Enabled = True, ls_Target = ''daemon'', ls_Tag = [], ls_SocketPath = [], ls_Network = [], ls_Address = [],
     ls_File = \<lparr>lf_Path = [], lf_MaxSizeMB = 0, lf_MaxBackups = 0, lf_MaxAgeDays = 0, lf_Compress = False\<rparr>\<rparr>"

definition sample_transport :: syslog_transport where
  "sample_transport = \<lparr>tr_w = Conn ''unixgram'' ''/dev/log'', tr_hostname = ''edge'', tr_appName = ''harbor-audit'',
     tr_procID = ''7'', tr_facility = 16\<rparr>"

definition sample_event :: audit_event where
  \<comment> \<open>a failed login of a user whose name has a line break\<close>
  "sample_event = zero_event\<lparr>ev_ResourceType := ''user'', ev_Operation := ''login'', ev_Outcome := OutcomeFailure,
     ev_Actor := ''eve'' @ [CHR 0x0A] @ ''<134>1''\<rparr>"

lemma sample_syslog_opens: "newSyslogTransport sample_audit_env sample_syslog = Inr sample_transport"
  by code_simp

theorem Log_delivers_witness:
  "let a = \<lparr>al_transports = [SyslogTransport sample_transport, OTelTransport ''http://c:4318/v1/logs''], al_enabled = True, al_component = ''satellite''\<rparr>;
       w = Log sample_audit_env ''id'' 0 sample_event (Some a) \<lparr>aw_sent = [], aw_closed = [], aw_stderr = []\<rparr>
   in map fst (aw_sent w) = [SyslogTransport sample_transport] \<and> length (aw_stderr w) = 1"
  using Log_delivers[of "\<lparr>al_transports = [SyslogTransport sample_transport, OTelTransport ''http://c:4318/v1/logs''], al_enabled = True,
      al_component = ''satellite''\<rparr>" "''id''" 0 sample_event sample_audit_env "\<lparr>aw_sent = [], aw_closed = [], aw_stderr = []\<rparr>"]
  by (simp add: Let_def syslog_Emit_def otel_Emit_def sample_audit_env_def)

theorem syslog_frame_is_one_line_witness:
  "\<exists>body. syslog_line sample_transport (build_record ''id'' 0 ''satellite'' sample_event) = body @ [CHR 0x0A] \<and> CHR 0x0A \<notin> set body \<and>
     hasPrefix body ''<132>1 ''"
proof -
  let ?r = "build_record ''id'' 0 ''satellite'' sample_event"
  have p: "''<'' @ show_nat (128 + severityCode (ev_Severity (ar_Event ?r))) @ ''>1 '' = ''<132>1 ''" by code_simp
  have "en_Hostname sample_audit_env = Inr ''edge''" "clean ''edge''" "clean (ls_Tag sample_syslog)"
    "\<forall>(k, v)\<in>set (ev_Details (ar_Event ?r)). printable_numbers v" by code_simp+
  from syslog_frame_is_one_line[OF sample_syslog_opens this, of sample_audit_env] p show ?thesis
    by (auto simp: syslog_Emit_def Let_def)
qed

text \<open>The configured tag is written as it is: with a line break in it, one event makes two lines.\<close>

lemma tag_breaks_frame:
  "case newSyslogTransport sample_audit_env (sample_syslog\<lparr>ls_Tag := ''a'' @ [CHR 0x0A] @ ''b''\<rparr>) of
     Inl _ \<Rightarrow> False
   | Inr t \<Rightarrow> 2 \<le> length (filter (\<lambda>c. c = CHR 0x0A) (syslog_line t (build_record ''id'' 0 ''satellite'' zero_event)))"
  by code_simp

end
