(* ===== verification/Hot_Reload.thy ===== *)
theory Hot_Reload
  imports Scheduler Audit_Log Config_Manager
begin

text \<open>
  \<^verbatim>\<open>internal/satellite/hotreload/hotreload.go\<close> and the reload loop of \<^verbatim>\<open>cmd/harbor-satellite/main.go\<close>: what a change of the
  configuration file does to the running satellite. A \<open>reload_world\<close> is what the loop works on: the
  configuration manager, the disk, the global log level, the replication scheduler once it is known, and the audit logger
  with the settings it was built from. A \<open>reload_env\<close> answers for zot, zerolog and the disk.
\<close>

section \<open>The audit logger follows the configuration\<close>

definition auditLoggerConfig :: "audit_config \<Rightarrow> logger_config" where
  "auditLoggerConfig c =
     (let s = au_Syslog c in
      \<lparr>lc_Enabled = au_Enabled c,
       lc_Syslog = \<lparr>ls_Enabled = (au_Enabled c \<and> EnabledOrDefault s), ls_Target = TargetOrDefault s, ls_Tag = TagOrDefault s,
         ls_SocketPath = sl_SocketPath s, ls_Network = sl_Network s, ls_Address = sl_Address s,
         ls_File = \<lparr>lf_Path = saf_Path (sl_File s), lf_MaxSizeMB = MaxSizeMBOrDefault (sl_File s),
           lf_MaxBackups = MaxBackupsOrDefault (sl_File s), lf_MaxAgeDays = MaxAgeDaysOrDefault (sl_File s),
           lf_Compress = CompressOrDefault (sl_File s)\<rparr>\<rparr>,
       lc_OTel = \<lparr>lo_Enabled = ot_Enabled (au_Otel c), lo_Endpoint = ot_Endpoint (au_Otel c)\<rparr>\<rparr>)"

definition changed_event :: "string \<Rightarrow> string \<Rightarrow> string list \<Rightarrow> audit_event" where
  "changed_event outcome reason changedKeys = zero_event\<lparr>ev_Operation := ''update'', ev_ResourceType := ''config'', ev_Outcome := outcome,
     ev_Actor := ''satellite'', ev_ActorType := ''system'', ev_Reason := reason,
     ev_Details := [(''changed_keys'', JArr (map JStr changedKeys)), (''source'', JStr ''hot_reload'')]\<rparr>"

definition reconfigureAuditOnReload ::
  "audit_env \<Rightarrow> string \<Rightarrow> int \<Rightarrow> audit_config \<Rightarrow> audit_config \<Rightarrow> string list \<Rightarrow> audit_logger \<Rightarrow> audit_world \<Rightarrow>
   audit_logger \<times> audit_world \<times> audit_config" where
  "reconfigureAuditOnReload E uuid now current next' changedKeys audit w =
     (let changed = (\<not> audit_Equal next' current);
          disabling = (changed \<and> au_Enabled current \<and> \<not> au_Enabled next');
          w = (if disabling then Log E uuid now (changed_event OutcomeSuccess [] changedKeys) (Some audit) w else w);
          (audit, w, current, outcome, reason) =
            (if changed
             then (case Reconfigure E (auditLoggerConfig next') audit w of
                     (audit, w, Inl _) \<Rightarrow> (audit, w, current, OutcomeFailure, ''reconfigure_failed'')
                   | (audit, w, Inr _) \<Rightarrow> (audit, w, next', OutcomeSuccess, []))
             else (audit, w, current, OutcomeSuccess, []));
          w = (if \<not> disabling then Log E uuid now (changed_event outcome reason changedKeys) (Some audit) w else w)
      in (audit, w, current))"

section \<open>The hot reload manager\<close>

record reload_env =
  hz_Unmarshal :: "string \<Rightarrow> unit result"
    \<comment> \<open>\<^verbatim>\<open>json.Unmarshal\<close> into zot's configuration\<close>
  hz_LoadConfiguration :: "string \<Rightarrow> string on_disk \<Rightarrow> unit result"
    \<comment> \<open>zot's \<^verbatim>\<open>server.LoadConfiguration\<close>: the decoded configuration, and the file at the path, which it reads\<close>
  hz_WriteFile :: write_outcome
  hz_ParseLevel :: "string \<Rightarrow> int result"

record 'p reload_world =
  rw_cm :: config_manager
  rw_files :: files
    \<comment> \<open>the configuration files; files that the transport of an audit target creates or rotates
        (\<^verbatim>\<open>ensureWritable\<close>) belong to the transports and are not among them\<close>
  rw_level :: int
  rw_sched :: "'p scheduler option"
  rw_audit :: audit_logger
  rw_auditCfg :: audit_config
  rw_out :: audit_world

datatype change_callback = HandleIntervalsChange | HandleZotConfigChange | HandleLogLevelChange

type_synonym callbacks = "change_type \<rightharpoonup> change_callback list"

definition registerChangeCallback :: "change_type \<Rightarrow> change_callback \<Rightarrow> callbacks \<Rightarrow> callbacks" where
  "registerChangeCallback changeType cb m = m(changeType \<mapsto> (case m changeType of None \<Rightarrow> [] | Some cs \<Rightarrow> cs) @ [cb])"

definition registerCallbacks :: callbacks where
  "registerCallbacks = registerChangeCallback LogLevelChanged HandleLogLevelChange
     (registerChangeCallback ZotConfigChanged HandleZotConfigChange
       (registerChangeCallback IntervalsChanged HandleIntervalsChange Map.empty))"

definition handleIntervalsChange :: "'p reload_world \<Rightarrow> ('p reload_world \<times> unit result) go" where
  "handleIntervalsChange w =
     (case rw_sched w of
        None \<Rightarrow> Value (w, Inr ())
      | Some s \<Rightarrow>
        (case ResetIntervalFromExpr (GetStateReplicationInterval (rw_cm w)) s of
           Panic m \<Rightarrow> Panic m
         | Value (s', Inl err) \<Rightarrow> Value (w\<lparr>rw_sched := Some s'\<rparr>, Inl (''unable to restart state replication scheduler: '' @ err))
         | Value (s', Inr _) \<Rightarrow> Value (w\<lparr>rw_sched := Some s'\<rparr>, Inr ())))"

definition InfoLevel :: int where "InfoLevel = 1"

definition handleLogLevelChange :: "reload_env \<Rightarrow> config_change \<Rightarrow> 'p reload_world \<Rightarrow> 'p reload_world \<times> unit result" where
  "handleLogLevelChange H change w =
     (case ch_NewValue change of
        CvString newLogLevel \<Rightarrow>
          (w\<lparr>rw_level := (case hz_ParseLevel H newLogLevel of Inl _ \<Rightarrow> InfoLevel | Inr level \<Rightarrow> level)\<rparr>, Inr ())
      | CvAudit _ \<Rightarrow> (w, Inl ''invalid log level type''))"

definition handleZotConfigChange :: "reload_env \<Rightarrow> string \<Rightarrow> 'p reload_world \<Rightarrow> 'p reload_world \<times> unit result" where
  "handleZotConfigChange H zotTempPath w =
     (let raw = GetRawZotConfig (rw_cm w) in
      case hz_Unmarshal H raw of
        Inl err \<Rightarrow> (w, Inl (''unable to unmarshal zot config: '' @ err))
      | Inr _ \<Rightarrow>
        (case hz_LoadConfiguration H raw (rw_files w zotTempPath) of
           Inl err \<Rightarrow> (w, Inl err)
         | Inr _ \<Rightarrow>
           (case os_WriteFile (hz_WriteFile H) (rw_files w) zotTempPath raw of
              (fs, Inl err) \<Rightarrow> (w\<lparr>rw_files := fs\<rparr>, Inl (''unable to change zot configuration: '' @ err))
            | (fs, Inr _) \<Rightarrow> (w\<lparr>rw_files := fs\<rparr>, Inr ()))))"

fun run_callback :: "reload_env \<Rightarrow> string \<Rightarrow> config_change \<Rightarrow> change_callback \<Rightarrow> 'p reload_world \<Rightarrow> ('p reload_world \<times> unit result) go" where
  "run_callback H zotTempPath change HandleIntervalsChange w = handleIntervalsChange w"
| "run_callback H zotTempPath change HandleZotConfigChange w = Value (handleZotConfigChange H zotTempPath w)"
| "run_callback H zotTempPath change HandleLogLevelChange w = Value (handleLogLevelChange H change w)"

fun run_callbacks :: "reload_env \<Rightarrow> string \<Rightarrow> config_change \<Rightarrow> change_callback list \<Rightarrow> 'p reload_world \<Rightarrow> ('p reload_world \<times> string list) go" where
  "run_callbacks H zotTempPath change [] w = Value (w, [])"
| "run_callbacks H zotTempPath change (cb # cbs) w =
     (case run_callback H zotTempPath change cb w of
        Panic m \<Rightarrow> Panic m
      | Value (w1, r) \<Rightarrow>
        (case run_callbacks H zotTempPath change cbs w1 of
           Panic m \<Rightarrow> Panic m
         | Value (w2, errs) \<Rightarrow> Value (w2, (case r of Inl err \<Rightarrow> [err] | Inr _ \<Rightarrow> []) @ errs)))"

definition notifyChangeCallbacks :: "reload_env \<Rightarrow> string \<Rightarrow> callbacks \<Rightarrow> config_change \<Rightarrow> 'p reload_world \<Rightarrow> ('p reload_world \<times> string list) go" where
  "notifyChangeCallbacks H zotTempPath callbacks change w =
     (case callbacks (ch_Type change) of None \<Rightarrow> Value (w, []) | Some cbs \<Rightarrow> run_callbacks H zotTempPath change cbs w)"

fun process_changes :: "reload_env \<Rightarrow> string \<Rightarrow> callbacks \<Rightarrow> config_change list \<Rightarrow> 'p reload_world \<Rightarrow> ('p reload_world \<times> string list) go" where
  "process_changes H zotTempPath callbacks [] w = Value (w, [])"
| "process_changes H zotTempPath callbacks (c # cs) w =
     (case notifyChangeCallbacks H zotTempPath callbacks c w of
        Panic m \<Rightarrow> Panic m
      | Value (w1, errs) \<Rightarrow>
        (case process_changes H zotTempPath callbacks cs w1 of
           Panic m \<Rightarrow> Panic m | Value (w2, errs') \<Rightarrow> Value (w2, errs @ errs')))"

definition ProcessConfigChanges :: "reload_env \<Rightarrow> string \<Rightarrow> callbacks \<Rightarrow> config_change list \<Rightarrow> 'p reload_world \<Rightarrow> ('p reload_world \<times> unit result) go" where
  "ProcessConfigChanges H zotTempPath callbacks changes w =
     (case process_changes H zotTempPath callbacks changes w of
        Panic m \<Rightarrow> Panic m
      | Value (w', errs) \<Rightarrow> Value (w', if errs = [] then Inr () else
          Inl (''errors occurred while processing configuration changes: '' @ join '' '' errs)))"

definition SetStateReplicationScheduler :: "'p scheduler \<Rightarrow> 'p reload_world \<Rightarrow> 'p reload_world" where
  "SetStateReplicationScheduler s w = w\<lparr>rw_sched := Some s\<rparr>"

section \<open>The reload loop\<close>

fun change_key :: "change_type \<Rightarrow> string" where
  "change_key LogLevelChanged = ''log_level''"
| "change_key IntervalsChanged = ''intervals''"
| "change_key ZotConfigChanged = ''zot_config''"
| "change_key AuditConfigChanged = ''audit''"

definition reload_event ::
  "sec_env \<Rightarrow> venv \<Rightarrow> audit_env \<Rightarrow> reload_env \<Rightarrow> string \<Rightarrow> string \<Rightarrow> int \<Rightarrow> 'p reload_world \<Rightarrow> 'p reload_world go" where
  \<comment> \<open>\<^verbatim>\<open>case <-eventChan\<close>: one event of the watcher\<close>
  "reload_event S ev A H zotTempPath uuid now w =
     (case ReloadConfig S ev (rw_files w) (rw_cm w) of
        (cm, warnings, Inl err) \<Rightarrow> Value (w\<lparr>rw_cm := cm\<rparr>)
      | (cm, warnings, Inr changes) \<Rightarrow>
        (let w = w\<lparr>rw_cm := cm\<rparr> in
         if changes = [] then Value w
         else (case reconfigureAuditOnReload A uuid now (rw_auditCfg w) (GetAuditConfig cm) (map (\<lambda>c. change_key (ch_Type c)) changes)
                 (rw_audit w) (rw_out w) of
                 (audit, out, current) \<Rightarrow>
                   (case ProcessConfigChanges H zotTempPath registerCallbacks changes
                      (w\<lparr>rw_audit := audit, rw_out := out, rw_auditCfg := current\<rparr>) of
                      Panic m \<Rightarrow> Panic m | Value (w', _) \<Rightarrow> Value w'))))"

section \<open>Audit events of a reload\<close>

definition accepted :: "audit_env \<Rightarrow> audit_record \<Rightarrow> transport list \<Rightarrow> (transport \<times> string) list" where
  \<comment> \<open>what the transports take when the record is handed to each of them\<close>
  "accepted E r ts = map (\<lambda>t. (t, fst (Emit E t r))) (filter (\<lambda>t. is_ok (snd (Emit E t r))) ts)"

definition in_effect :: "audit_config \<Rightarrow> audit_logger \<Rightarrow> bool" where
  "in_effect c a = (built_for (auditLoggerConfig c) (al_transports a) \<and> (al_enabled a \<longleftrightarrow> au_Enabled c) \<and> (al_transports a \<noteq> [] \<longleftrightarrow> au_Enabled c))"

lemma Log_sent:
  assumes "al_enabled a \<longleftrightarrow> al_transports a \<noteq> []"
  shows "aw_sent (Log E uuid now e (Some a) w) = aw_sent w @ accepted E (build_record uuid now (al_component a) e) (al_transports a)"
  using assms emit_all_sent[of E _ "al_transports a" w] by (auto simp: Log_def accepted_def)

lemma enabled_config [simp]: "lc_Enabled (auditLoggerConfig c) = au_Enabled c"
  by (simp add: auditLoggerConfig_def Let_def)

lemma closeAll_sent [simp]: "aw_sent (closeAll ts w) = aw_sent w"
  by (simp add: closeAll_def)

lemma audit_Equal_refl [simp]: "audit_Equal c c"
  by (simp add: audit_Equal_kernel)

lemma swap_in_effect:
  assumes "buildTransports E (auditLoggerConfig c) w = (w, Inr ts)" "ts \<noteq> [] \<longleftrightarrow> lc_Enabled (auditLoggerConfig c)"
  shows "in_effect c (a\<lparr>al_transports := ts, al_enabled := lc_Enabled (auditLoggerConfig c)\<rparr>)"
  using assms by (auto simp: in_effect_def built_for_def)

lemma NewAuditLogger_in_effect:
  assumes "NewAuditLogger E (auditLoggerConfig c) component w = (w', Inr a)"
  shows "in_effect c a"
proof (cases rule: Reconfigure_cases[of E "auditLoggerConfig c" "\<lparr>al_transports = [], al_enabled = False, al_component = component\<rparr>" w])
  case (swapped ts)
  then have "a = \<lparr>al_transports = [], al_enabled = False, al_component = component\<rparr>
      \<lparr>al_transports := ts, al_enabled := lc_Enabled (auditLoggerConfig c)\<rparr>"
    using assms by (simp add: NewAuditLogger_def)
  then show ?thesis using swap_in_effect[OF swapped(1,2)] by (simp only:)
qed (use assms in \<open>auto simp: NewAuditLogger_def\<close>)

lemma changed_outcome [simp]: "ev_Outcome (ar_Event (build_record u t c (changed_event out reason keys))) = (if out = [] then fieldUnknown else out)"
  by (simp add: build_record_def changed_event_def zero_event_def withRequiredDefaults_def Let_def)

text \<open>
  C14. The audit trail of a reload is true. The logger's transports stay those of the settings the
  loop tracks; the new settings are adopted or the old ones are kept; exactly one record of the
  change is handed to the transports, to the old ones when auditing is being switched off and to the current ones
  otherwise; and that record says success exactly when the settings now in effect are the requested ones. Switching auditing off always succeeds.
\<close>

theorem audit_reload_is_recorded:
  assumes "reconfigureAuditOnReload E uuid now current next' keys audit w = (audit', w', current')" "in_effect current audit"
  shows "in_effect current' audit' \<and> (current' = current \<or> current' = next') \<and>
    (\<not> au_Enabled next' \<longrightarrow> audit_Equal next' current') \<and>
    (\<exists>r. aw_sent w' = aw_sent w @ accepted E r (al_transports (if au_Enabled current \<and> \<not> au_Enabled next' then audit else audit')) \<and>
       ev_ResourceType (ar_Event r) = ''config'' \<and> ev_Operation (ar_Event r) = ''update'' \<and>
       ev_Outcome (ar_Event r) = (if audit_Equal next' current' then OutcomeSuccess else OutcomeFailure))"
proof -
  have r: "ev_ResourceType (ar_Event (build_record u t c (changed_event out reason keys))) = ''config''"
    "ev_Operation (ar_Event (build_record u t c (changed_event out reason keys))) = ''update''" for u t c out reason
    by (simp_all add: build_record_def changed_event_def zero_event_def withRequiredDefaults_def Let_def)
  have on: "al_enabled audit \<longleftrightarrow> al_transports audit \<noteq> []" using assms(2) by (auto simp: in_effect_def)
  show ?thesis
  proof (cases "audit_Equal next' current")
    case True
    then have "au_Enabled next' = au_Enabled current" by (simp add: audit_Equal_def)
    with True assms show ?thesis
      using Log_sent[OF on] r by (auto simp: reconfigureAuditOnReload_def audit_constants)
  next
    case False
    define w1 where "w1 = (if au_Enabled current \<and> \<not> au_Enabled next' then Log E uuid now (changed_event OutcomeSuccess [] keys) (Some audit) w else w)"
    show ?thesis
    proof (cases rule: Reconfigure_cases[of E "auditLoggerConfig next'" audit w1])
      case (failed err ts)
      then have "au_Enabled next'" by simp
      with failed(1) False assms show ?thesis
        using Log_sent[OF on] r by (auto simp: reconfigureAuditOnReload_def w1_def audit_constants)
    next
      case (swapped ts)
      have eff: "in_effect next' (audit\<lparr>al_transports := ts, al_enabled := lc_Enabled (auditLoggerConfig next')\<rparr>)"
        by (rule swap_in_effect[OF swapped(1,2)])
      then have on': "al_enabled (audit\<lparr>al_transports := ts, al_enabled := au_Enabled next'\<rparr>) \<longleftrightarrow>
          al_transports (audit\<lparr>al_transports := ts, al_enabled := au_Enabled next'\<rparr>) \<noteq> []" by (simp add: in_effect_def)
      from swapped(3) False assms(1) eff show ?thesis
        using Log_sent[OF on] Log_sent[OF on'] r
        by (auto simp: reconfigureAuditOnReload_def w1_def audit_constants split: if_splits)
    qed
  qed
qed

section \<open>What a reload changes\<close>

definition level_of :: "reload_env \<Rightarrow> string \<Rightarrow> int" where
  "level_of H l = (case hz_ParseLevel H l of Inl _ \<Rightarrow> InfoLevel | Inr level \<Rightarrow> level)"

definition rescheduled :: "string \<Rightarrow> 'p scheduler \<Rightarrow> 'p scheduler" where
  \<comment> \<open>the interval of the expression, if it is one\<close>
  "rescheduled expr s = (case parseEveryExpr expr of Inl _ \<Rightarrow> s | Inr d \<Rightarrow> s\<lparr>sc_ticker := Some d, sc_interval := d\<rparr>)"

definition unschedulable :: "string \<Rightarrow> bool" where
  "unschedulable expr = (case parseEveryExpr expr of Inl _ \<Rightarrow> False | Inr d \<Rightarrow> d \<le> 0)"

lemma callbacks_of [simp]:
  "registerCallbacks LogLevelChanged = Some [HandleLogLevelChange]" "registerCallbacks ZotConfigChanged = Some [HandleZotConfigChange]"
  "registerCallbacks IntervalsChanged = Some [HandleIntervalsChange]" "registerCallbacks AuditConfigChanged = None"
  by (simp_all add: registerCallbacks_def registerChangeCallback_def)

lemma process_changes_append:
  "process_changes H z cbs (xs @ ys) w =
     (case process_changes H z cbs xs w of
        Panic m \<Rightarrow> Panic m
      | Value (w1, e1) \<Rightarrow> (case process_changes H z cbs ys w1 of Panic m \<Rightarrow> Panic m | Value (w2, e2) \<Rightarrow> Value (w2, e1 @ e2)))"
  by (induction xs arbitrary: w) (auto split: go.splits prod.splits)

lemma process_log_level:
  "process_changes H z registerCallbacks [\<lparr>ch_Type = LogLevelChanged, ch_OldValue = old, ch_NewValue = CvString l\<rparr>] w =
     Value (w\<lparr>rw_level := level_of H l\<rparr>, [])"
  by (simp add: notifyChangeCallbacks_def handleLogLevelChange_def level_of_def)

lemma process_audit: "process_changes H z registerCallbacks [\<lparr>ch_Type = AuditConfigChanged, ch_OldValue = old, ch_NewValue = new\<rparr>] w = Value (w, [])"
  by (simp add: notifyChangeCallbacks_def)

lemma process_zot:
  "process_changes H z registerCallbacks [\<lparr>ch_Type = ZotConfigChanged, ch_OldValue = old, ch_NewValue = new\<rparr>] w =
     Value (fst (handleZotConfigChange H z w), (case snd (handleZotConfigChange H z w) of Inl err \<Rightarrow> [err] | Inr _ \<Rightarrow> []))"
  by (simp add: notifyChangeCallbacks_def split: prod.splits)

lemma process_intervals:
  "process_changes H z registerCallbacks [\<lparr>ch_Type = IntervalsChanged, ch_OldValue = old, ch_NewValue = new\<rparr>] w =
     (let expr = GetStateReplicationInterval (rw_cm w) in
      if rw_sched w \<noteq> None \<and> unschedulable expr then Panic ''non-positive interval for Ticker.Reset''
      else Value (w\<lparr>rw_sched := map_option (rescheduled expr) (rw_sched w)\<rparr>,
        (case (rw_sched w, parseEveryExpr expr) of
           (Some _, Inl err) \<Rightarrow> [''unable to restart state replication scheduler: failed to parse interval: '' @ err] | _ \<Rightarrow> [])))"
  by (auto simp: notifyChangeCallbacks_def handleIntervalsChange_def ResetIntervalFromExpr_def ResetInterval_def ticker_Reset_def
      unschedulable_def rescheduled_def Let_def split: option.splits sum.splits)

lemma zot_frame:
  "rw_cm (fst (handleZotConfigChange H z w)) = rw_cm w" "rw_level (fst (handleZotConfigChange H z w)) = rw_level w"
  "rw_sched (fst (handleZotConfigChange H z w)) = rw_sched w"
  by (auto simp: handleZotConfigChange_def Let_def split: sum.splits prod.splits)

lemma zot_files:
  "rw_files (fst (handleZotConfigChange H z w)) =
     (if is_ok (hz_Unmarshal H (GetRawZotConfig (rw_cm w))) \<and> is_ok (hz_LoadConfiguration H (GetRawZotConfig (rw_cm w)) (rw_files w z))
      then fst (os_WriteFile (hz_WriteFile H) (rw_files w) z (GetRawZotConfig (rw_cm w))) else rw_files w)"
  by (cases "hz_WriteFile H") (auto simp: handleZotConfigChange_def Let_def split: sum.splits)

definition applied :: "reload_env \<Rightarrow> string \<Rightarrow> config_manager \<Rightarrow> config_manager \<Rightarrow> 'p reload_world \<Rightarrow> 'p reload_world \<Rightarrow> bool" where
  \<comment> \<open>the running satellite has taken over what differs between the two configurations\<close>
  "applied H z old cm w w' =
     (rw_cm w' = cm \<and>
      rw_level w' = (if GetLogLevel cm = GetLogLevel old then rw_level w else level_of H (GetLogLevel cm)) \<and>
      rw_sched w' = (if GetStateReplicationInterval cm = GetStateReplicationInterval old then rw_sched w
        else map_option (rescheduled (GetStateReplicationInterval cm)) (rw_sched w)) \<and>
      rw_files w' = (if GetRawZotConfig cm \<noteq> GetRawZotConfig old \<and> is_ok (hz_Unmarshal H (GetRawZotConfig cm)) \<and>
          is_ok (hz_LoadConfiguration H (GetRawZotConfig cm) (rw_files w z))
        then fst (os_WriteFile (hz_WriteFile H) (rw_files w) z (GetRawZotConfig cm)) else rw_files w))"

lemma process_detected:
  assumes "rw_cm w = cm" "changes = detectChanges (cm_config old) (cm_config cm)"
    and "stuck = (GetStateReplicationInterval cm \<noteq> GetStateReplicationInterval old \<and> rw_sched w \<noteq> None \<and> unschedulable (GetStateReplicationInterval cm))"
  shows "case process_changes H z registerCallbacks changes w of Panic m \<Rightarrow> stuck | Value (w', errs) \<Rightarrow> \<not> stuck \<and> applied H z old cm w w'"
proof -
  define l where "l = (if GetLogLevel old \<noteq> GetLogLevel cm then
      [\<lparr>ch_Type = LogLevelChanged, ch_OldValue = CvString (GetLogLevel old), ch_NewValue = CvString (GetLogLevel cm)\<rparr>] else [])"
  define i where "i = (if GetStateReplicationInterval old \<noteq> GetStateReplicationInterval cm then
      [\<lparr>ch_Type = IntervalsChanged, ch_OldValue = CvString (GetStateReplicationInterval old),
        ch_NewValue = CvString (GetStateReplicationInterval cm)\<rparr>] else [])"
  define zc where "zc = (if GetRawZotConfig old \<noteq> GetRawZotConfig cm then
      [\<lparr>ch_Type = ZotConfigChanged, ch_OldValue = CvString ''zot_config_changed'', ch_NewValue = CvString ''zot_config_changed''\<rparr>] else [])"
  define a where "a = (if \<not> audit_Equal (GetAuditConfig old) (GetAuditConfig cm) then
      [\<lparr>ch_Type = AuditConfigChanged, ch_OldValue = CvAudit (GetAuditConfig old), ch_NewValue = CvAudit (GetAuditConfig cm)\<rparr>] else [])"
  have ch: "changes = l @ i @ zc @ a"
    by (simp add: assms(2) detectChanges_def l_def i_def zc_def a_def Let_def
        GetLogLevel_def GetStateReplicationInterval_def GetRawZotConfig_def GetAuditConfig_def)
  define w1 where "w1 = (if l = [] then w else w\<lparr>rw_level := level_of H (GetLogLevel cm)\<rparr>)"
  have L: "process_changes H z registerCallbacks l w = Value (w1, [])"
    by (auto simp: l_def w1_def process_log_level simp del: process_changes.simps(2))
  have w1: "rw_cm w1 = cm" "rw_sched w1 = rw_sched w" "rw_files w1 = rw_files w" using assms(1) by (simp_all add: w1_def)
  define w2 where "w2 = (if i = [] then w1 else w1\<lparr>rw_sched := map_option (rescheduled (GetStateReplicationInterval cm)) (rw_sched w1)\<rparr>)"
  have I: "if stuck then \<exists>m. process_changes H z registerCallbacks i w1 = Panic m else \<exists>errs. process_changes H z registerCallbacks i w1 = Value (w2, errs)"
    using w1 by (auto simp: i_def w2_def assms(3) process_intervals Let_def simp del: process_changes.simps(2))
  have w2: "rw_cm w2 = cm" "rw_files w2 = rw_files w" "rw_level w2 = rw_level w1" using w1 by (simp_all add: w2_def)
  define w3 where "w3 = (if zc = [] then w2 else fst (handleZotConfigChange H z w2))"
  have Z: "\<exists>errs. process_changes H z registerCallbacks zc w2 = Value (w3, errs)"
    by (auto simp: zc_def w3_def process_zot simp del: process_changes.simps(2))
  have "process_changes H z registerCallbacks a w3 = Value (w3, [])" by (auto simp: a_def process_audit simp del: process_changes.simps(2))
  with L I Z have run: "case process_changes H z registerCallbacks changes w of Panic m \<Rightarrow> stuck | Value (w', errs) \<Rightarrow> \<not> stuck \<and> w' = w3"
    by (auto simp: ch process_changes_append split: if_splits)
  have "applied H z old cm w w3"
    using w1 w2 zot_frame[of H z w2] zot_files[of H z w2]
    by (auto simp: applied_def w3_def w2_def w1_def l_def i_def zc_def)
  with run show ?thesis by (auto split: go.splits)
qed

text \<open>
  C13. A reload applies the changes that it detects. After an event of the watcher whose file is read and valid, the log level
  and the replication interval follow the new configuration where they differ from the old one: a level that cannot be
  parsed becomes the info level, and an interval that cannot be parsed is left out. A changed zot configuration is written to zot's
  file if it decodes and \<^verbatim>\<open>LoadConfiguration\<close> succeeds, which reads the file that was there before and so does not verify the new one, and
  not otherwise (a write that fails may leave part of it); no other file of the configuration is written, and a change that is left out does not keep the others
  from being applied. The heartbeat and registration intervals are not looked at. The satellite panics exactly when the
  new replication interval is not positive and its scheduler is running. What the audit transports do with files of their own is
  not part of these files.
\<close>

theorem hot_reload_applies:
  assumes "ReloadConfig S ev (rw_files w) (rw_cm w) = (cm, ws, Inr changes)"
  shows "case reload_event S ev A H z uuid now w of
     Panic m \<Rightarrow> GetStateReplicationInterval cm \<noteq> GetStateReplicationInterval (rw_cm w) \<and> rw_sched w \<noteq> None \<and>
       (\<exists>d\<le>0. parseEveryExpr (GetStateReplicationInterval cm) = Inr d)
   | Value w' \<Rightarrow> applied H z (rw_cm w) cm w w' \<and> (\<forall>p. p \<noteq> z \<longrightarrow> rw_files w' p = rw_files w p) \<and>
       (GetStateReplicationInterval cm = GetStateReplicationInterval (rw_cm w) \<or> rw_sched w = None \<or>
        (\<forall>d. parseEveryExpr (GetStateReplicationInterval cm) = Inr d \<longrightarrow> 0 < d))"
proof -
  have ch: "changes = detectChanges (cm_config (rw_cm w)) (cm_config cm)"
    using assms by (auto simp: ReloadConfig_def split: sum.splits prod.splits)
  obtain audit out current where r: "reconfigureAuditOnReload A uuid now (rw_auditCfg w) (GetAuditConfig cm)
      (map (\<lambda>c. change_key (ch_Type c)) changes) (rw_audit w) (rw_out w) = (audit, out, current)"
    using prod_cases3 by blast
  define w0 where "w0 = (if changes = [] then w\<lparr>rw_cm := cm\<rparr> else w\<lparr>rw_cm := cm, rw_audit := audit, rw_out := out, rw_auditCfg := current\<rparr>)"
  have e: "reload_event S ev A H z uuid now w =
      (case process_changes H z registerCallbacks changes w0 of Panic m \<Rightarrow> Panic m | Value (w', _) \<Rightarrow> Value w')"
    using assms r by (auto simp: reload_event_def ProcessConfigChanges_def w0_def split: go.splits)
  have w0: "rw_cm w0 = cm" "rw_sched w0 = rw_sched w" "rw_level w0 = rw_level w" "rw_files w0 = rw_files w" by (simp_all add: w0_def)
  have files: "rw_files w' p = rw_files w p" if "applied H z (rw_cm w) cm w w'" "p \<noteq> z" for w' p
    using that by (cases "hz_WriteFile H") (auto simp: applied_def)
  have us: "unschedulable x \<longleftrightarrow> (\<exists>d\<le>0. parseEveryExpr x = Inr d)" for x
    by (auto simp: unschedulable_def split: sum.splits)
  have ap: "applied H z (rw_cm w) cm w0 w' = applied H z (rw_cm w) cm w w'" for w' by (simp add: applied_def w0)
  note d = process_detected[OF w0(1) ch refl, of H z, unfolded w0(2) ap]
  show ?thesis
  proof (cases "process_changes H z registerCallbacks changes w0")
    case (Value v)
    obtain w' errs where "v = (w', errs)" by fastforce
    with Value d show ?thesis using files by (simp add: e us) (meson not_less)
  next
    case (Panic m)
    with d show ?thesis by (simp add: e us)
  qed
qed

section \<open>Witnesses\<close>

definition sample_reload_env :: reload_env where
  "sample_reload_env = \<lparr>hz_Unmarshal = (\<lambda>_. Inr ()), hz_LoadConfiguration = (\<lambda>_ _. Inr ()), hz_WriteFile = Written,
     hz_ParseLevel = (\<lambda>l. if l = ''warn'' then Inr 2 else Inl ''unknown level'')\<rparr>"

definition no_output :: audit_world where
  "no_output = \<lparr>aw_sent = [], aw_closed = [], aw_stderr = []\<rparr>"

definition silent_logger :: audit_logger where
  "silent_logger = \<lparr>al_transports = [], al_enabled = False, al_component = ''satellite''\<rparr>"

lemma silent_in_effect: "in_effect zero_audit silent_logger"
  by (auto simp: in_effect_def built_for_def buildTransports_def auditLoggerConfig_def zero_audit_def silent_logger_def Let_def)

theorem audit_reload_is_recorded_witness:
  "\<exists>audit w r. reconfigureAuditOnReload sample_audit_env ''id'' 0 zero_audit (zero_audit\<lparr>au_Enabled := True\<rparr>) [''audit''] silent_logger no_output =
       (audit, w, zero_audit\<lparr>au_Enabled := True\<rparr>) \<and>
     aw_sent w = accepted sample_audit_env r (al_transports audit) \<and> al_transports audit \<noteq> [] \<and> ev_Outcome (ar_Event r) = OutcomeSuccess"
proof -
  let ?next = "zero_audit\<lparr>au_Enabled := True\<rparr>"
  obtain audit w current where r: "reconfigureAuditOnReload sample_audit_env ''id'' 0 zero_audit ?next [''audit''] silent_logger no_output =
      (audit, w, current)" using prod_cases3 by blast
  have "is_ok (snd (buildTransports sample_audit_env (auditLoggerConfig ?next) no_output))" "\<not> audit_Equal ?next zero_audit" by code_simp+
  then have on: "au_Enabled current"
    using r by (auto simp: reconfigureAuditOnReload_def Reconfigure_def is_ok_iff split: prod.splits if_splits)
  note t = audit_reload_is_recorded[OF r silent_in_effect]
  have off: "\<not> au_Enabled zero_audit" by (simp add: zero_audit_def)
  with on t have c: "current = ?next" by blast
  from t on have ts: "al_transports audit \<noteq> []" by (simp add: in_effect_def)
  from t obtain ar where "aw_sent w = aw_sent no_output @ accepted sample_audit_env ar (al_transports audit)"
      "ev_Outcome (ar_Event ar) = OutcomeSuccess"
    using off by (auto simp: c)
  then show ?thesis using r c ts by (auto simp: no_output_def)
qed

definition sample_reload_world :: "unit reload_world" where
  "sample_reload_world = \<lparr>rw_cm = NewConfigManager ''config.json'' ''prev.json'' ''tok'' ''http://gc:80/'' True zero_config,
     rw_files = (\<lambda>p. if p = ''config.json'' then Holds ''{ c }'' else Missing), rw_level = 1, rw_sched = None,
     rw_audit = silent_logger, rw_auditCfg = zero_audit, rw_out = no_output\<rparr>"

theorem hot_reload_applies_witness:
  "\<exists>w'. reload_event sample_sec sample_env sample_audit_env sample_reload_env ''zot.json'' ''id'' 0 sample_reload_world = Value w' \<and>
     rw_level w' = 2 \<and> rw_files w' ''config.json'' = Holds ''{ c }''"
proof -
  let ?w = sample_reload_world
  let ?re = "ReloadConfig sample_sec sample_env (rw_files ?w) (rw_cm ?w)"
  obtain cm ws res where re: "?re = (cm, ws, res)" using prod_cases3 by blast
  have "is_ok (snd (snd ?re)) \<and> GetLogLevel (fst ?re) = ''warn''" by code_simp
  then obtain changes where ok: "res = Inr changes" and l: "GetLogLevel cm = ''warn''" by (auto simp: re is_ok_iff)
  have "GetLogLevel (rw_cm ?w) = []" "level_of sample_reload_env ''warn'' = 2" "rw_sched ?w = None" by code_simp+
  with hot_reload_applies[OF re[unfolded ok], where A = sample_audit_env and H = sample_reload_env and z = "''zot.json''" and uuid = "''id''" and now = 0] l show ?thesis
    by (auto simp: applied_def sample_reload_world_def split: go.splits)
qed

text \<open>
  The validation of the configuration asks the cron parser, which knows five-field expressions and rounds a
  duration below a second up to one; the scheduler takes only \<^verbatim>\<open>@every\<close> and panics on a duration of zero.
\<close>

lemma cron_not_scheduled: "parseEveryExpr ''*/5 * * * *'' = Inl ''unsupported format: must start with @every''"
  by code_simp

lemma every_zero_panics: "NewSchedulerWithInterval P ''@every 0'' p = Panic ''non-positive interval for NewTicker''"
proof -
  have "parseEveryExpr ''@every 0'' = Inr 0" by code_simp
  then show ?thesis by (simp add: NewSchedulerWithInterval_def NewTicker_def)
qed

end
