(* ===== verification/Parsec_Wire.thy ===== *)
theory Parsec_Wire
  imports Go_Codec "HOL-Library.Word"
begin

text \<open>
  The wire protocol of the PARSEC client, \<^verbatim>\<open>parsec-client-go/interface\<close>: \<^verbatim>\<open>requests\<close> (headers, requests and
  responses), \<^verbatim>\<open>auth\<close> (the authenticators), \<^verbatim>\<open>connection\<close> (the unix socket) and \<^verbatim>\<open>operations_client.go\<close>.
  Fields have their widths as words and are written in little-endian order. The protobuf messages are
  generated code over a library: a \<open>pb_codec\<close> stands for their encoders and decoders, and a type
  variable for the messages that describe algorithms, attributes and listings.
\<close>

unbundle bit_operations_syntax

type_synonym bytes = "8 word list"

section \<open>Little-endian integers\<close>

fun put_le :: "nat \<Rightarrow> 'a::len word \<Rightarrow> bytes" where
  "put_le 0 w = []"
| "put_le (Suc n) w = ucast w # put_le n (drop_bit 8 w)"

fun get_le :: "bytes \<Rightarrow> 'a::len word" where
  "get_le [] = 0"
| "get_le (b # bs) = ucast b OR push_bit 8 (get_le bs)"

lemma length_put_le [simp]: "length (put_le n w) = n"
  by (induction n arbitrary: w) auto

lemma bit_get_put:
  "bit (get_le (put_le n w) :: 'a::len word) k \<longleftrightarrow> k < LENGTH('a) \<and> k < 8 * n \<and> bit (w :: 'a word) k"
proof (induction n arbitrary: w k)
  case (Suc n)
  show ?case
    by (cases "k < 8") (auto simp: bit_simps Suc.IH)
qed simp

lemma get_put_le: "LENGTH('a::len) \<le> 8 * n \<Longrightarrow> get_le (put_le n w) = (w :: 'a word)"
  by (rule bit_word_eqI) (auto simp: bit_get_put)

lemma bit_get_le: "bit (get_le bs :: 'a::len word) k \<Longrightarrow> k < 8 * length bs"
proof (induction bs arbitrary: k)
  case (Cons b bs)
  show ?case
  proof (cases "k < 8")
    case False
    with Cons.prems have "\<not> k < 8 \<and> bit (get_le bs :: 'a word) (k - 8)"
      using bit_imp_le_length[of b k] by (auto simp: bit_simps)
    then show ?thesis using Cons.IH[of "k - 8"] by auto
  qed simp
qed simp

lemma put_get_le: "8 * length bs \<le> LENGTH('a::len) \<Longrightarrow> put_le (length bs) (get_le bs :: 'a word) = bs"
proof (induction bs)
  case (Cons b bs)
  have b: "ucast (get_le (b # bs) :: 'a word) = b"
    by (rule bit_word_eqI) (use Cons.prems in \<open>auto simp: bit_simps\<close>)
  have "drop_bit 8 (get_le (b # bs) :: 'a word) = get_le bs"
  proof (rule bit_word_eqI)
    fix k assume k: "k < LENGTH('a)"
    have "\<not> bit b (8 + k)" using bit_imp_le_length[of b "8 + k"] by auto
    moreover have "bit (get_le bs :: 'a word) k \<Longrightarrow> 8 + k < LENGTH('a)" using bit_get_le[of bs k, where 'a = 'a] Cons.prems by auto
    ultimately show "bit (drop_bit 8 (get_le (b # bs) :: 'a word)) k = bit (get_le bs :: 'a word) k"
      using k by (auto simp: bit_simps)
  qed
  with b Cons show ?case by simp
qed simp

section \<open>Headers\<close>

record wire_header =
  wh_magicNumber :: "32 word"
  wh_hdrSize :: "16 word"
  wh_versionMajor :: "8 word"
  wh_versionMinor :: "8 word"
  wh_flags :: "16 word"
  wh_provider :: "8 word"
  wh_session :: "64 word"
  wh_contentType :: "8 word"
  wh_acceptType :: "8 word"
  wh_authType :: "8 word"
  wh_bodyLen :: "32 word"
  wh_authLen :: "16 word"
  wh_opCode :: "32 word"
  wh_Status :: "16 word"
  wh_reserved1 :: "8 word"
  wh_reserved2 :: "8 word"

definition magicNumber :: "32 word" where "magicNumber = 0x5EC0A710"
definition requestHeaderSize :: "16 word" where "requestHeaderSize = 30"
definition wireHeaderSizeValue :: "16 word" where "wireHeaderSizeValue = 30"
definition WireHeaderSize :: "16 word" where "WireHeaderSize = wireHeaderSizeValue + 6"

definition opCode_IsValid :: "32 word \<Rightarrow> bool" where "opCode_IsValid op = (0x01 \<le> op \<and> op \<le> 0x1C)"
definition provider_IsValid :: "8 word \<Rightarrow> bool" where "provider_IsValid p = (0 \<le> p \<and> p \<le> 5)"
definition authType_IsValid :: "8 word \<Rightarrow> bool" where "authType_IsValid a = (a \<le> 4)"
definition status_IsValid :: "16 word \<Rightarrow> bool" where
  "status_IsValid code = (0 \<le> code \<and> code \<le> 21 \<or> 1132 \<le> code \<and> code \<le> 1152)"

definition isSupportedWireHeaderVersion :: "8 word \<Rightarrow> 8 word \<Rightarrow> bool" where
  "isSupportedWireHeaderVersion maj mnr = (maj = 1 \<and> mnr = 0)"

definition checkForRequest :: "wire_header \<Rightarrow> unit result" where
  "checkForRequest r =
     (if \<not> isSupportedWireHeaderVersion (wh_versionMajor r) (wh_versionMinor r) then Inl ''invalid version''
      else if wh_flags r \<noteq> 0 then Inl ''invalid flags''
      else if wh_contentType r \<noteq> 0 then Inl ''invalid content type''
      else if wh_acceptType r \<noteq> 0 then Inl ''invalid accept type''
      else if \<not> authType_IsValid (wh_authType r) then Inl ''invaliid auth type'' else Inr ())"

definition header_bytes :: "wire_header \<Rightarrow> bytes" where
  \<comment> \<open>\<^verbatim>\<open>binary.Write(buf, binary.LittleEndian, r)\<close>\<close>
  "header_bytes r = put_le 4 (wh_magicNumber r) @ put_le 2 (wh_hdrSize r) @ put_le 1 (wh_versionMajor r) @ put_le 1 (wh_versionMinor r) @
     put_le 2 (wh_flags r) @ put_le 1 (wh_provider r) @ put_le 8 (wh_session r) @ put_le 1 (wh_contentType r) @ put_le 1 (wh_acceptType r) @
     put_le 1 (wh_authType r) @ put_le 4 (wh_bodyLen r) @ put_le 2 (wh_authLen r) @ put_le 4 (wh_opCode r) @ put_le 2 (wh_Status r) @
     put_le 1 (wh_reserved1 r) @ put_le 1 (wh_reserved2 r)"

definition header_pack :: "wire_header \<Rightarrow> bytes \<Rightarrow> wire_header \<times> bytes result" where
  "header_pack r buf =
     (let r = r\<lparr>wh_magicNumber := magicNumber, wh_hdrSize := requestHeaderSize\<rparr> in
      case checkForRequest r of Inl err \<Rightarrow> (r, Inl err) | Inr _ \<Rightarrow> (r, Inr (buf @ header_bytes r)))"

definition read_le :: "nat \<Rightarrow> bytes \<Rightarrow> ('a::len word \<times> bytes) go" where
  \<comment> \<open>\<^verbatim>\<open>binary.LittleEndian.UintN(buf.Next(n))\<close>, which panics on a short buffer\<close>
  "read_le n buf = (if length buf < n then Panic ''index out of range'' else Value (get_le (take n buf), drop n buf))"

definition parseWireHeaderFromBuf :: "bytes \<Rightarrow> wire_header result go" where
  "parseWireHeaderFromBuf buf =
     go_bind (read_le 4 buf) (\<lambda>(magic, buf). if magic \<noteq> magicNumber then Value (Inl ''invalid magic number'') else
     go_bind (read_le 2 buf) (\<lambda>(hdrSize, buf). if hdrSize \<noteq> wireHeaderSizeValue then Value (Inl ''invalid header size'') else
     go_bind (read_le 1 buf) (\<lambda>(major, buf). go_bind (read_le 1 buf) (\<lambda>(minor, buf).
     if \<not> isSupportedWireHeaderVersion major minor then Value (Inl ''unsupported version number'') else
     go_bind (read_le 2 buf) (\<lambda>(flags, buf). if flags \<noteq> 0 then Value (Inl ''unsupported flags value'') else
     go_bind (read_le 1 buf) (\<lambda>(provider, buf). if \<not> provider_IsValid provider then Value (Inl ''invalid provider'') else
     go_bind (read_le 8 buf) (\<lambda>(session, buf).
     go_bind (read_le 1 buf) (\<lambda>(contentType, buf). if contentType \<noteq> 0 then Value (Inl ''invalid content type'') else
     go_bind (read_le 1 buf) (\<lambda>(acceptType, buf).
     go_bind (read_le 1 buf) (\<lambda>(authType, buf). if \<not> authType_IsValid authType then Value (Inl ''invalid auth type'') else
     go_bind (read_le 4 buf) (\<lambda>(bodyLen, buf). go_bind (read_le 2 buf) (\<lambda>(authLen, buf).
     go_bind (read_le 4 buf) (\<lambda>(opCode, buf). if \<not> opCode_IsValid opCode then Value (Inl ''invalid opcode'') else
     go_bind (read_le 2 buf) (\<lambda>(status, buf). if \<not> status_IsValid status then Value (Inl ''invalid response status code'') else
     go_bind (read_le 1 buf) (\<lambda>(reserved1, buf). go_bind (read_le 1 buf) (\<lambda>(reserved2, buf).
     if reserved1 \<noteq> 0 \<or> reserved2 \<noteq> 0 then Value (Inl ''reserved bytes must be zero'') else
     Value (Inr \<lparr>wh_magicNumber = magic, wh_hdrSize = hdrSize, wh_versionMajor = major, wh_versionMinor = minor, wh_flags = flags,
       wh_provider = provider, wh_session = session, wh_contentType = contentType, wh_acceptType = acceptType, wh_authType = authType,
       wh_bodyLen = bodyLen, wh_authLen = authLen, wh_opCode = opCode, wh_Status = status,
       wh_reserved1 = reserved1, wh_reserved2 = reserved2\<rparr>)))))))))))))))))"

definition header_ok :: "wire_header \<Rightarrow> bool" where
  \<comment> \<open>what a received header promises\<close>
  "header_ok h = (wh_magicNumber h = magicNumber \<and> wh_hdrSize h = wireHeaderSizeValue \<and>
     isSupportedWireHeaderVersion (wh_versionMajor h) (wh_versionMinor h) \<and> wh_flags h = 0 \<and> provider_IsValid (wh_provider h) \<and>
     wh_contentType h = 0 \<and> authType_IsValid (wh_authType h) \<and> opCode_IsValid (wh_opCode h) \<and> status_IsValid (wh_Status h) \<and>
     wh_reserved1 h = 0 \<and> wh_reserved2 h = 0)"

lemma read_put_le: "LENGTH('a) \<le> 8 * n \<Longrightarrow> read_le n (put_le n w @ rest) = Value (w :: 'a::len word, rest)"
  by (simp add: read_le_def get_put_le)

lemma header_bytes_length [simp]: "length (header_bytes h) = 36"
  by (simp add: header_bytes_def)

lemma parse_header_bytes:
  assumes "header_ok h"
  shows "parseWireHeaderFromBuf (header_bytes h @ rest) = Value (Inr h)"
  using assms unfolding parseWireHeaderFromBuf_def header_bytes_def header_ok_def append_assoc
  by (simp add: read_put_le del: put_le.simps One_nat_def)

lemma go_bind_Value: "go_bind x f = Value y \<longleftrightarrow> (\<exists>v. x = Value v \<and> f v = Value y)"
  by (cases x) auto

lemma read_le_Value:
  assumes "8 * n = LENGTH('a)"
  shows "read_le n buf = Value (w :: 'a::len word, rest) \<longleftrightarrow> buf = put_le n w @ rest"
proof
  assume "read_le n buf = Value (w, rest)"
  then have "length (take n buf) = n" "w = get_le (take n buf)" "rest = drop n buf" by (auto simp: read_le_def split: if_splits)
  with put_get_le[of "take n buf", where 'a = 'a] assms show "buf = put_le n w @ rest" by simp
next
  assume "buf = put_le n w @ rest"
  then show "read_le n buf = Value (w, rest)" using read_put_le[of n w rest] assms by simp
qed

lemma read_thenE:
  assumes "go_bind (read_le n buf) (\<lambda>(x, y). f x y) = Value r" "8 * n = LENGTH('a)"
  obtains w :: "'a::len word" and rest where "buf = put_le n w @ rest" "f w rest = Value r"
  using assms by (auto simp: go_bind_Value read_le_Value)

lemma guardE:
  assumes "(if c then Value (Inl e) else x) = Value (Inr h)"
  obtains "\<not> c" "x = Value (Inr h)"
  using assms by (auto split: if_splits)

lemma parse_header_sound:
  assumes "parseWireHeaderFromBuf buf = Value (Inr h)"
  shows "header_ok h \<and> (\<exists>rest. buf = header_bytes h @ rest)"
  using assms unfolding parseWireHeaderFromBuf_def
  by (elim read_thenE guardE) (simp_all add: header_ok_def header_bytes_def del: put_le.simps One_nat_def, auto)

lemma read_returns:
  assumes "n \<le> length buf" "\<And>w. \<exists>r. f w (drop n buf) = Value r"
  shows "\<exists>r. go_bind (read_le n buf) (\<lambda>(x, y). f x y) = Value r"
  using assms by (simp add: read_le_def)

lemma guard_returns: "\<exists>r. x = Value r \<Longrightarrow> \<exists>r. (if c then Value e else x) = Value r"
  by auto

lemma parse_header_returns:
  assumes "36 \<le> length buf"
  shows "\<exists>r. parseWireHeaderFromBuf buf = Value r"
  unfolding parseWireHeaderFromBuf_def
  by (intro read_returns guard_returns) (use assms in simp_all)

section \<open>Authenticators\<close>

datatype authenticator = NoAuth | Direct string | UnixPeer

record auth_token =
  at_buf :: bytes
  at_authType :: "8 word"

definition ParseUint32 :: "string \<Rightarrow> 32 word result" where
  "ParseUint32 s =
     (if s = [] \<or> \<not> list_all dec_digit s then Inl ''invalid syntax''
      else if 2 ^ 32 \<le> digits_value s then Inl ''value out of range'' else Inr (word_of_nat (digits_value s)))"

definition noAuth_NewRequestAuth :: "auth_token result" where
  "noAuth_NewRequestAuth = Inr \<lparr>at_buf = [], at_authType = 0\<rparr>"

definition direct_NewRequestAuth :: "string \<Rightarrow> auth_token result" where
  "direct_NewRequestAuth appName = Inr \<lparr>at_buf = map (\<lambda>c. word_of_nat (byte c)) appName, at_authType = 1\<rparr>"

definition unixPeer_NewRequestAuth :: "string result \<Rightarrow> auth_token result" where
  \<comment> \<open>given the user id of \<^verbatim>\<open>user.Current()\<close>\<close>
  "unixPeer_NewRequestAuth uid =
     (case uid of
        Inl err \<Rightarrow> Inl err
      | Inr s \<Rightarrow> (case ParseUint32 s of Inl err \<Rightarrow> Inl err | Inr n \<Rightarrow> Inr \<lparr>at_buf = put_le 4 n, at_authType = 3\<rparr>))"

fun NewRequestAuth :: "string result \<Rightarrow> authenticator \<Rightarrow> auth_token result" where
  "NewRequestAuth uid NoAuth = noAuth_NewRequestAuth"
| "NewRequestAuth uid (Direct appName) = direct_NewRequestAuth appName"
| "NewRequestAuth uid UnixPeer = unixPeer_NewRequestAuth uid"

lemmas request_auth_defs = noAuth_NewRequestAuth_def direct_NewRequestAuth_def unixPeer_NewRequestAuth_def

fun GetType :: "authenticator \<Rightarrow> 8 word" where
  "GetType NoAuth = 0" | "GetType (Direct _) = 1" | "GetType UnixPeer = 3"

definition NewAuthenticationTypeFromU32 :: "32 word \<Rightarrow> 8 word result" where
  "NewAuthenticationTypeFromU32 t = (if 4 < t then Inl ''cannot convert value to AuthenticationType'' else Inr (ucast t))"

section \<open>Requests and responses\<close>

record request =
  rq_Header :: wire_header
  rq_Body :: bytes
  rq_Auth :: auth_token

definition NewRequest :: "32 word \<Rightarrow> bytes result \<Rightarrow> auth_token result \<Rightarrow> 8 word \<Rightarrow> request result" where
  \<comment> \<open>given what \<^verbatim>\<open>proto.Marshal\<close> and \<^verbatim>\<open>NewRequestAuth\<close> return\<close>
  "NewRequest op bdy tok provider =
     (case bdy of
        Inl err \<Rightarrow> Inl err
      | Inr bodyBuf \<Rightarrow>
        (case tok of
           Inl err \<Rightarrow> Inl err
         | Inr authtok \<Rightarrow>
             if 65535 < length (at_buf authtok) then Inl ''auth token length exceeds wire-protocol max''
             else Inr \<lparr>rq_Header = \<lparr>wh_magicNumber = 0, wh_hdrSize = 0, wh_versionMajor = 1, wh_versionMinor = 0, wh_flags = 0,
                 wh_provider = provider, wh_session = 0, wh_contentType = 0, wh_acceptType = 0, wh_authType = at_authType authtok,
                 wh_bodyLen = word_of_nat (length bodyBuf), wh_authLen = word_of_nat (length (at_buf authtok)), wh_opCode = op,
                 wh_Status = 0, wh_reserved1 = 0, wh_reserved2 = 0\<rparr>, rq_Body = bodyBuf, rq_Auth = authtok\<rparr>))"

definition request_Pack :: "request \<Rightarrow> bytes result" where
  "request_Pack r =
     (case checkForRequest (rq_Header r) of
        Inl err \<Rightarrow> Inl err
      | Inr _ \<Rightarrow>
        (case snd (header_pack (rq_Header r) []) of
           Inl err \<Rightarrow> Inl err | Inr b \<Rightarrow> Inr (b @ rq_Body r @ at_buf (rq_Auth r))))"

definition status_texts :: "(16 word \<times> string) list" where
  "status_texts =
    [(1, ''wrong provider id''), (2, ''content type not supported''), (3, ''accept type not supported''),
     (4, ''requested version is not supported by the backend''), (5, ''provider not registered''), (6, ''provider does not exist''),
     (7, ''deserializing body failed''), (8, ''serializing body failed''), (9, ''opcode does not exist''), (10, ''response too large''),
     (11, ''authentication error''), (12, ''authentication does not exist''), (13, ''authentication not registered''),
     (14, ''internal error in the Key Info Manager''), (15, ''generic input/output error''), (16, ''invalid value for this data type''),
     (17, ''constant fields in header are invalid''), (18, ''the UUID vector needs to only contain 16 bytes''),
     (19, ''request did not provide a required authentication''), (20, ''request length specified in the header is above defined limit''),
     (21, ''the operation requires admin privilege''), (1132, ''generic error''), (1133, ''not permitted''), (1134, ''not supported''),
     (1135, ''invalid argument''), (1136, ''invalid handle''), (1137, ''bad state''), (1138, ''buffer too small''), (1139, ''already exists''),
     (1140, ''does not exist''), (1141, ''insufficient memory''), (1142, ''insufficient storage''), (1143, ''insufficient data''),
     (1145, ''communications failure''), (1146, ''storage failure''), (1147, ''hardware failure''), (1148, ''insufficient entropy''),
     (1149, ''invalid signature''), (1150, ''invalid padding''), (1151, ''tampering detected''), (1152, ''stored data has been corrupted'')]"

definition ToErr :: "16 word \<Rightarrow> string option" where
  "ToErr code = (if code = 0 then None
     else case map_of status_texts code of Some e \<Rightarrow> Some e | None \<Rightarrow> Some ''unknown error code'')"

definition ParseResponse :: "32 word \<Rightarrow> bytes option \<Rightarrow> (bytes \<Rightarrow> 'r result) \<Rightarrow> 'r result go" where
  "ParseResponse expectedOpCode bufp unmarshal =
     (case bufp of
        None \<Rightarrow> Value (Inl ''nil buffer supplied'')
      | Some buf \<Rightarrow>
          if buf = [] then Value (Inl ''failed to read header: EOF'')
          else if length buf < unat WireHeaderSize then Value (Inl ''header underflow error'')
          else go_bind (parseWireHeaderFromBuf (take (unat WireHeaderSize) buf)) (\<lambda>r. case r of
              Inl err \<Rightarrow> Value (Inl (''failed to parse header: '' @ err))
            | Inr h \<Rightarrow>
              if wh_opCode h \<noteq> expectedOpCode then Value (Inl ''was expecting response with another op code'')
              else (let rest = drop (unat WireHeaderSize) buf; n = unat (wh_bodyLen h) in
                if rest = [] \<and> 0 < n then Value (Inl ''failed to read body: EOF'')
                else if length rest < n then Value (Inl ''body underflow error'')
                else (case unmarshal (take n rest) of
                        Inl err \<Rightarrow> Value (Inl err)
                      | Inr v \<Rightarrow> (case ToErr (wh_Status h) of Some e \<Rightarrow> Value (Inl e) | None \<Rightarrow> Value (Inr v))))))"

lemma WireHeaderSize_36 [simp]: "unat WireHeaderSize = 36"
  by (simp add: WireHeaderSize_def wireHeaderSizeValue_def)

lemma ToErr_None [simp]: "ToErr code = None \<longleftrightarrow> code = 0"
  by (simp add: ToErr_def split: option.splits)

lemma ToErr_0 [simp]: "ToErr 0 = None"
  by simp

lemma ParseResponse_ok:
  "ParseResponse op (Some buf) unmarshal = Value (Inr v) \<longleftrightarrow>
     (\<exists>h body rest. buf = header_bytes h @ body @ rest \<and> header_ok h \<and> wh_opCode h = op \<and> wh_Status h = 0 \<and>
        unat (wh_bodyLen h) = length body \<and> unmarshal body = Inr v)" (is "?L = ?R")
proof
  assume L: ?L
  then have len: "36 \<le> length buf" by (auto simp: ParseResponse_def not_less split: if_splits)
  then obtain r where r: "parseWireHeaderFromBuf (take 36 buf) = Value r" using parse_header_returns[of "take 36 buf"] by auto
  with L len obtain h where h: "r = Inr h" by (cases r) (auto simp: ParseResponse_def split: if_splits)
  with r parse_header_sound obtain rest0 where p: "header_ok h" "take 36 buf = header_bytes h @ rest0" by blast
  then have t: "take 36 buf = header_bytes h" using len by (auto dest: arg_cong[where f = length])
  define n where "n = unat (wh_bodyLen h)"
  define rest where "rest = drop 36 buf"
  from L len r h have "wh_opCode h = op \<and> n \<le> length rest \<and> unmarshal (take n rest) = Inr v \<and> wh_Status h = 0"
    by (auto simp: ParseResponse_def n_def rest_def Let_def split: if_splits sum.splits option.splits)
  moreover have "buf = header_bytes h @ take n rest @ drop n rest" by (metis t rest_def append_take_drop_id)
  ultimately show ?R using p(1) n_def by (intro exI[of _ h] exI[of _ "take n rest"] exI[of _ "drop n rest"]) auto
next
  assume ?R
  then obtain h body rest where b: "buf = header_bytes h @ body @ rest" "header_ok h" "wh_opCode h = op" "wh_Status h = 0"
    "unat (wh_bodyLen h) = length body" "unmarshal body = Inr v" by blast
  have "parseWireHeaderFromBuf (take 36 buf) = Value (Inr h)" using parse_header_bytes[OF b(2), of "[]"] b(1) by simp
  moreover have "buf \<noteq> []" using b(1) header_bytes_length[of h] by fastforce
  ultimately show ?L using b by (simp add: ParseResponse_def Let_def)
qed

lemma ParseResponse_returns: "\<exists>r. ParseResponse op buf unmarshal = Value r"
proof (cases buf)
  case (Some b)
  show ?thesis
  proof (cases "36 \<le> length b")
    case True
    then obtain r where "parseWireHeaderFromBuf (take 36 b) = Value r" using parse_header_returns[of "take 36 b"] by auto
    then show ?thesis using Some by (cases r) (auto simp: ParseResponse_def Let_def split: sum.splits option.splits)
  qed (simp add: ParseResponse_def Some not_le)
qed (simp add: ParseResponse_def)

section \<open>Connections\<close>

record parsec_env =
  pe_Dial :: "string \<Rightarrow> unit result"
  pe_Write :: "bytes \<Rightarrow> unit result"
  pe_Read :: "bytes list \<Rightarrow> bytes result"
    \<comment> \<open>all that the service sends until it closes, after these requests were written to it, the last on this connection. It
        is the result of a read that ends: \<^verbatim>\<open>ReadFrom\<close> has no deadline, so a service that keeps the connection open blocks
        the caller for ever, and no operation below then has the value that the model gives it\<close>
  pe_Close :: "unit result"
  pe_Uid :: "string result"

record unix_connection =
  co_rwc :: bool
    \<comment> \<open>whether the socket is open\<close>
  co_path :: string

definition conn_Open :: "parsec_env \<Rightarrow> unix_connection \<Rightarrow> unix_connection \<times> unit result" where
  "conn_Open E conn =
     (if co_rwc conn then (conn, Inl ''connection already open; call Close() before reopening'')
      else case pe_Dial E (co_path conn) of Inl err \<Rightarrow> (conn, Inl err) | Inr _ \<Rightarrow> (conn\<lparr>co_rwc := True\<rparr>, Inr ()))"

definition conn_Write :: "parsec_env \<Rightarrow> bytes \<Rightarrow> unix_connection \<Rightarrow> unit result" where
  "conn_Write E p conn = (if \<not> co_rwc conn then Inl ''writing closed connection'' else pe_Write E p)"

definition conn_Read :: "parsec_env \<Rightarrow> bytes list \<Rightarrow> unix_connection \<Rightarrow> bytes result" where
  "conn_Read E sent conn = (if \<not> co_rwc conn then Inl ''reading closed connection'' else pe_Read E sent)"

definition conn_Close :: "parsec_env \<Rightarrow> unix_connection \<Rightarrow> unix_connection \<times> unit result" where
  "conn_Close E conn =
     (if co_rwc conn then (case pe_Close E of Inl err \<Rightarrow> (conn, Inl err) | Inr _ \<Rightarrow> (conn\<lparr>co_rwc := False\<rparr>, Inr ()))
      else (conn, Inr ()))"

section \<open>Operations\<close>

datatype 'm psa_operation =
    Ping | ListProviders | ListOpcodes "32 word" | ListClients | DeleteClient string | ListKeys | ListAuthenticators
  | PsaGenerateKey string 'm | PsaDestroyKey string | PsaHashCompute bytes 'm | PsaSignMessage string bytes 'm | PsaSignHash string bytes 'm
  | PsaVerifyMessage string bytes bytes 'm | PsaVerifyHash string bytes bytes 'm | PsaCipherEncrypt string 'm bytes
  | PsaCipherDecrypt string 'm bytes | PsaAeadDecrypt string 'm bytes bytes bytes | PsaAeadEncrypt string 'm bytes bytes bytes
  | PsaExportKey string | PsaImportKey string 'm bytes | PsaExportPublicKey string | PsaGenerateRandom "64 word"
  | PsaMACCompute string 'm bytes | PsaMACVerify string 'm bytes bytes | PsaRawKeyAgreement 'm string bytes
  | PsaAsymmetricDecrypt string 'm bytes bytes | PsaAsymmetricEncrypt string 'm bytes bytes

fun op_code :: "'m psa_operation \<Rightarrow> 32 word" where
  "op_code Ping = 0x01" | "op_code (PsaGenerateKey _ _) = 0x02" | "op_code (PsaDestroyKey _) = 0x03" | "op_code (PsaSignHash _ _ _) = 0x04"
| "op_code (PsaVerifyHash _ _ _ _) = 0x05" | "op_code (PsaImportKey _ _ _) = 0x06" | "op_code (PsaExportPublicKey _) = 0x07"
| "op_code ListProviders = 0x08" | "op_code (ListOpcodes _) = 0x09" | "op_code (PsaAsymmetricEncrypt _ _ _ _) = 0x0A"
| "op_code (PsaAsymmetricDecrypt _ _ _ _) = 0x0B" | "op_code (PsaExportKey _) = 0x0C" | "op_code (PsaGenerateRandom _) = 0x0D"
| "op_code ListAuthenticators = 0x0E" | "op_code (PsaHashCompute _ _) = 0x0F" | "op_code (PsaAeadEncrypt _ _ _ _ _) = 0x11"
| "op_code (PsaAeadDecrypt _ _ _ _ _) = 0x12" | "op_code (PsaRawKeyAgreement _ _ _) = 0x13" | "op_code (PsaCipherEncrypt _ _ _) = 0x14"
| "op_code (PsaCipherDecrypt _ _ _) = 0x15" | "op_code (PsaMACCompute _ _ _) = 0x16" | "op_code (PsaMACVerify _ _ _ _) = 0x17"
| "op_code (PsaSignMessage _ _ _) = 0x18" | "op_code (PsaVerifyMessage _ _ _ _) = 0x19" | "op_code ListKeys = 0x1A"
| "op_code ListClients = 0x1B" | "op_code (DeleteClient _) = 0x1C"

record provider_info =
  pi_Uuid :: string
  pi_Description :: string
  pi_Vendor :: string
  pi_Version :: "32 word \<times> 32 word \<times> 32 word"
  pi_Id :: "32 word"

record authenticator_info =
  ai_Id :: "32 word"
  ai_Description :: string
  ai_Version :: "32 word \<times> 32 word \<times> 32 word"

record key_listing =
  kl_ProviderId :: "32 word"
  kl_Name :: string
  kl_KeyBits :: "32 word option"
    \<comment> \<open>the size in the attributes, unless those are missing\<close>

record 'm pb_codec =
  pb_Marshal :: "'m psa_operation \<Rightarrow> bytes result"
  pb_versions :: "bytes \<Rightarrow> (32 word \<times> 32 word) result"
  pb_unit :: "32 word \<Rightarrow> bytes \<Rightarrow> unit result"
    \<comment> \<open>the result messages without fields, by operation code\<close>
  pb_data :: "32 word \<Rightarrow> bytes \<Rightarrow> bytes result"
    \<comment> \<open>those with one field of bytes\<close>
  pb_opcodes :: "bytes \<Rightarrow> 32 word list result"
  pb_clients :: "bytes \<Rightarrow> string list result"
  pb_providers :: "bytes \<Rightarrow> provider_info list result"
  pb_authenticators :: "bytes \<Rightarrow> authenticator_info list result"
  pb_keys :: "bytes \<Rightarrow> key_listing list result"

record 'm parsec_client =
  pc_conn :: unix_connection
  pc_codec :: "'m pb_codec"
  pc_sent :: "bytes list"
    \<comment> \<open>the requests written so far\<close>

type_synonym ('m, 'r) client_call = "'m parsec_client \<Rightarrow> ('m parsec_client \<times> 'r result) go"

definition operation :: "parsec_env \<Rightarrow> 8 word \<Rightarrow> authenticator \<Rightarrow> 'm psa_operation \<Rightarrow> (bytes \<Rightarrow> 'r result) \<Rightarrow> ('m, 'r) client_call" where
  \<comment> \<open>for a service that closes the connection after its answer, see \<open>pe_Read\<close>\<close>
  "operation E provider a req unmarshal c =
     (case conn_Open E (pc_conn c) of
        (conn, Inl err) \<Rightarrow> Value (c\<lparr>pc_conn := conn\<rparr>, Inl err)
      | (conn, Inr _) \<Rightarrow>
        (let closed = c\<lparr>pc_conn := fst (conn_Close E conn)\<rparr> in
         case NewRequest (op_code req) (pb_Marshal (pc_codec c) req) (NewRequestAuth (pe_Uid E) a) provider of
           Inl err \<Rightarrow> Value (closed, Inl err)
         | Inr r \<Rightarrow>
           (case request_Pack r of
              Inl err \<Rightarrow> Value (closed, Inl err)
            | Inr b \<Rightarrow>
              (case conn_Write E b conn of
                 Inl err \<Rightarrow> Value (closed, Inl err)
               | Inr _ \<Rightarrow>
                 (let closed = closed\<lparr>pc_sent := pc_sent c @ [b]\<rparr> in
                  case conn_Read E (pc_sent closed) conn of
                    Inl err \<Rightarrow> Value (closed, Inl err)
                  | Inr rcv \<Rightarrow> go_bind (ParseResponse (op_code req) (Some rcv) unmarshal) (\<lambda>res. Value (closed, res)))))))"

section \<open>The client's calls\<close>

definition client_Ping :: "parsec_env \<Rightarrow> 8 word \<Rightarrow> authenticator \<Rightarrow> ('m, 8 word \<times> 8 word) client_call" where
  "client_Ping E provider a c =
     go_bind (operation E provider a Ping (pb_versions (pc_codec c)) c)
     (\<lambda>(c, r). Value (c, map_sum (\<lambda>e. e) (\<lambda>(maj, mnr). (ucast maj, ucast mnr)) r))"

definition client_ListProviders :: "parsec_env \<Rightarrow> 8 word \<Rightarrow> authenticator \<Rightarrow> ('m, provider_info list) client_call" where
  "client_ListProviders E provider a c =
     operation E provider a ListProviders (pb_providers (pc_codec c)) c"

definition client_ListOpcodes :: "parsec_env \<Rightarrow> 8 word \<Rightarrow> authenticator \<Rightarrow> 32 word \<Rightarrow> ('m, 32 word list) client_call" where
  "client_ListOpcodes E provider a providerID c =
     operation E provider a (ListOpcodes providerID) (pb_opcodes (pc_codec c)) c"

definition client_ListClients :: "parsec_env \<Rightarrow> 8 word \<Rightarrow> authenticator \<Rightarrow> ('m, string list) client_call" where
  "client_ListClients E provider a c =
     operation E provider a ListClients (pb_clients (pc_codec c)) c"

definition client_DeleteClient :: "parsec_env \<Rightarrow> 8 word \<Rightarrow> authenticator \<Rightarrow> string \<Rightarrow> ('m, unit) client_call" where
  "client_DeleteClient E provider a client c =
     (let req = (DeleteClient client) in operation E provider a req (pb_unit (pc_codec c) (op_code req)) c)"

definition client_ListKeys :: "parsec_env \<Rightarrow> 8 word \<Rightarrow> authenticator \<Rightarrow> ('m, key_listing list) client_call" where
  "client_ListKeys E provider a c =
     operation E provider a ListKeys (pb_keys (pc_codec c)) c"

definition client_ListAuthenticators :: "parsec_env \<Rightarrow> 8 word \<Rightarrow> authenticator \<Rightarrow> ('m, authenticator_info list) client_call" where
  "client_ListAuthenticators E provider a c =
     operation E provider a ListAuthenticators (pb_authenticators (pc_codec c)) c"

definition client_PsaGenerateKey :: "parsec_env \<Rightarrow> 8 word \<Rightarrow> authenticator \<Rightarrow> string \<Rightarrow> 'm \<Rightarrow> ('m, unit) client_call" where
  "client_PsaGenerateKey E provider a name attributes c =
     (let req = (PsaGenerateKey name attributes) in operation E provider a req (pb_unit (pc_codec c) (op_code req)) c)"

definition client_PsaDestroyKey :: "parsec_env \<Rightarrow> 8 word \<Rightarrow> authenticator \<Rightarrow> string \<Rightarrow> ('m, unit) client_call" where
  "client_PsaDestroyKey E provider a name c =
     (let req = (PsaDestroyKey name) in operation E provider a req (pb_unit (pc_codec c) (op_code req)) c)"

definition client_PsaHashCompute :: "parsec_env \<Rightarrow> 8 word \<Rightarrow> authenticator \<Rightarrow> bytes \<Rightarrow> 'm \<Rightarrow> ('m, bytes) client_call" where
  "client_PsaHashCompute E provider a message alg c =
     (let req = (PsaHashCompute message alg) in operation E provider a req (pb_data (pc_codec c) (op_code req)) c)"

definition client_PsaSignMessage :: "parsec_env \<Rightarrow> 8 word \<Rightarrow> authenticator \<Rightarrow> string \<Rightarrow> bytes \<Rightarrow> 'm \<Rightarrow> ('m, bytes) client_call" where
  "client_PsaSignMessage E provider a signingKey message alg c =
     (let req = (PsaSignMessage signingKey message alg) in operation E provider a req (pb_data (pc_codec c) (op_code req)) c)"

definition client_PsaSignHash :: "parsec_env \<Rightarrow> 8 word \<Rightarrow> authenticator \<Rightarrow> string \<Rightarrow> bytes \<Rightarrow> 'm \<Rightarrow> ('m, bytes) client_call" where
  "client_PsaSignHash E provider a signingKey hash alg c =
     (let req = (PsaSignHash signingKey hash alg) in operation E provider a req (pb_data (pc_codec c) (op_code req)) c)"

definition client_PsaVerifyMessage :: "parsec_env \<Rightarrow> 8 word \<Rightarrow> authenticator \<Rightarrow> string \<Rightarrow> bytes \<Rightarrow> bytes \<Rightarrow> 'm \<Rightarrow> ('m, unit) client_call" where
  "client_PsaVerifyMessage E provider a verifyingKey message signature alg c =
     (let req = (PsaVerifyMessage verifyingKey message signature alg) in operation E provider a req (pb_unit (pc_codec c) (op_code req)) c)"

definition client_PsaVerifyHash :: "parsec_env \<Rightarrow> 8 word \<Rightarrow> authenticator \<Rightarrow> string \<Rightarrow> bytes \<Rightarrow> bytes \<Rightarrow> 'm \<Rightarrow> ('m, unit) client_call" where
  "client_PsaVerifyHash E provider a verifyingKey hash signature alg c =
     (let req = (PsaVerifyHash verifyingKey hash signature alg) in operation E provider a req (pb_unit (pc_codec c) (op_code req)) c)"

definition client_PsaCipherEncrypt :: "parsec_env \<Rightarrow> 8 word \<Rightarrow> authenticator \<Rightarrow> string \<Rightarrow> 'm \<Rightarrow> bytes \<Rightarrow> ('m, bytes) client_call" where
  "client_PsaCipherEncrypt E provider a keyName alg plaintext c =
     (let req = (PsaCipherEncrypt keyName alg plaintext) in operation E provider a req (pb_data (pc_codec c) (op_code req)) c)"

definition client_PsaCipherDecrypt :: "parsec_env \<Rightarrow> 8 word \<Rightarrow> authenticator \<Rightarrow> string \<Rightarrow> 'm \<Rightarrow> bytes \<Rightarrow> ('m, bytes) client_call" where
  "client_PsaCipherDecrypt E provider a keyName alg ciphertext c =
     (let req = (PsaCipherDecrypt keyName alg ciphertext) in operation E provider a req (pb_data (pc_codec c) (op_code req)) c)"

definition client_PsaAeadDecrypt :: "parsec_env \<Rightarrow> 8 word \<Rightarrow> authenticator \<Rightarrow> string \<Rightarrow> 'm \<Rightarrow> bytes \<Rightarrow> bytes \<Rightarrow> bytes \<Rightarrow> ('m, bytes) client_call" where
  "client_PsaAeadDecrypt E provider a keyName alg nonce additionalData ciphertext c =
     (let req = (PsaAeadDecrypt keyName alg nonce additionalData ciphertext) in operation E provider a req (pb_data (pc_codec c) (op_code req)) c)"

definition client_PsaAeadEncrypt :: "parsec_env \<Rightarrow> 8 word \<Rightarrow> authenticator \<Rightarrow> string \<Rightarrow> 'm \<Rightarrow> bytes \<Rightarrow> bytes \<Rightarrow> bytes \<Rightarrow> ('m, bytes) client_call" where
  "client_PsaAeadEncrypt E provider a keyName alg nonce additionalData plaintext c =
     (let req = (PsaAeadEncrypt keyName alg nonce additionalData plaintext) in operation E provider a req (pb_data (pc_codec c) (op_code req)) c)"

definition client_PsaExportKey :: "parsec_env \<Rightarrow> 8 word \<Rightarrow> authenticator \<Rightarrow> string \<Rightarrow> ('m, bytes) client_call" where
  "client_PsaExportKey E provider a keyName c =
     (let req = (PsaExportKey keyName) in operation E provider a req (pb_data (pc_codec c) (op_code req)) c)"

definition client_PsaImportKey :: "parsec_env \<Rightarrow> 8 word \<Rightarrow> authenticator \<Rightarrow> string \<Rightarrow> 'm \<Rightarrow> bytes \<Rightarrow> ('m, unit) client_call" where
  "client_PsaImportKey E provider a keyName attributes data c =
     (let req = (PsaImportKey keyName attributes data) in operation E provider a req (pb_unit (pc_codec c) (op_code req)) c)"

definition client_PsaExportPublicKey :: "parsec_env \<Rightarrow> 8 word \<Rightarrow> authenticator \<Rightarrow> string \<Rightarrow> ('m, bytes) client_call" where
  "client_PsaExportPublicKey E provider a keyName c =
     (let req = (PsaExportPublicKey keyName) in operation E provider a req (pb_data (pc_codec c) (op_code req)) c)"

definition client_PsaGenerateRandom :: "parsec_env \<Rightarrow> 8 word \<Rightarrow> authenticator \<Rightarrow> 64 word \<Rightarrow> ('m, bytes) client_call" where
  "client_PsaGenerateRandom E provider a n c =
     (let req = (PsaGenerateRandom n) in operation E provider a req (pb_data (pc_codec c) (op_code req)) c)"

definition client_PsaMACCompute :: "parsec_env \<Rightarrow> 8 word \<Rightarrow> authenticator \<Rightarrow> string \<Rightarrow> 'm \<Rightarrow> bytes \<Rightarrow> ('m, bytes) client_call" where
  "client_PsaMACCompute E provider a keyName alg input c =
     (let req = (PsaMACCompute keyName alg input) in operation E provider a req (pb_data (pc_codec c) (op_code req)) c)"

definition client_PsaMACVerify :: "parsec_env \<Rightarrow> 8 word \<Rightarrow> authenticator \<Rightarrow> string \<Rightarrow> 'm \<Rightarrow> bytes \<Rightarrow> bytes \<Rightarrow> ('m, unit) client_call" where
  "client_PsaMACVerify E provider a keyName alg input mac c =
     (let req = (PsaMACVerify keyName alg input mac) in operation E provider a req (pb_unit (pc_codec c) (op_code req)) c)"

definition client_PsaRawKeyAgreement :: "parsec_env \<Rightarrow> 8 word \<Rightarrow> authenticator \<Rightarrow> 'm \<Rightarrow> string \<Rightarrow> bytes \<Rightarrow> ('m, bytes) client_call" where
  "client_PsaRawKeyAgreement E provider a alg privateKey peerKey c =
     (let req = (PsaRawKeyAgreement alg privateKey peerKey) in operation E provider a req (pb_data (pc_codec c) (op_code req)) c)"

definition client_PsaAsymmetricDecrypt :: "parsec_env \<Rightarrow> 8 word \<Rightarrow> authenticator \<Rightarrow> string \<Rightarrow> 'm \<Rightarrow> bytes \<Rightarrow> bytes \<Rightarrow> ('m, bytes) client_call" where
  "client_PsaAsymmetricDecrypt E provider a keyName alg salt ciphertext c =
     (let req = (PsaAsymmetricDecrypt keyName alg salt ciphertext) in operation E provider a req (pb_data (pc_codec c) (op_code req)) c)"

definition client_PsaAsymmetricEncrypt :: "parsec_env \<Rightarrow> 8 word \<Rightarrow> authenticator \<Rightarrow> string \<Rightarrow> 'm \<Rightarrow> bytes \<Rightarrow> bytes \<Rightarrow> ('m, bytes) client_call" where
  "client_PsaAsymmetricEncrypt E provider a keyName alg salt plaintext c =
     (let req = (PsaAsymmetricEncrypt keyName alg salt plaintext) in operation E provider a req (pb_data (pc_codec c) (op_code req)) c)"

section \<open>What an operation sends and accepts\<close>

lemma op_code_valid [simp]: "opCode_IsValid (op_code req)"
  by (cases req) (simp_all add: opCode_IsValid_def)

lemma auth_token_ok:
  assumes "NewRequestAuth uid a = Inr tok"
  shows "at_authType tok = GetType a \<and> authType_IsValid (at_authType tok)"
  using assms by (cases a) (auto simp: request_auth_defs authType_IsValid_def split: sum.splits)

definition request_header :: "8 word \<Rightarrow> 'm psa_operation \<Rightarrow> bytes \<Rightarrow> auth_token \<Rightarrow> wire_header" where
  "request_header provider req body tok = \<lparr>wh_magicNumber = magicNumber, wh_hdrSize = requestHeaderSize, wh_versionMajor = 1,
     wh_versionMinor = 0, wh_flags = 0, wh_provider = provider, wh_session = 0, wh_contentType = 0, wh_acceptType = 0,
     wh_authType = at_authType tok, wh_bodyLen = word_of_nat (length body), wh_authLen = word_of_nat (length (at_buf tok)),
     wh_opCode = op_code req, wh_Status = 0, wh_reserved1 = 0, wh_reserved2 = 0\<rparr>"

lemma request_bytes:
  assumes "NewRequest (op_code req) bdy tk provider = Inr r" "request_Pack r = Inr b"
  shows "\<exists>body tok. bdy = Inr body \<and> tk = Inr tok \<and> length (at_buf tok) \<le> 65535 \<and> authType_IsValid (at_authType tok) \<and>
    b = header_bytes (request_header provider req body tok) @ body @ at_buf tok"
  using assms
  by (auto simp: NewRequest_def request_Pack_def header_pack_def request_header_def checkForRequest_def Let_def
      split: sum.splits if_splits)

lemma operation_cases:
  assumes "\<not> co_rwc (pc_conn c)"
  obtains (refused) err where "operation E provider a req um c = Value (c, Inl err)"
  | (aborted) c' err where "operation E provider a req um c = Value (c', Inl err)" "pc_conn c' = fst (conn_Close E ((pc_conn c)\<lparr>co_rwc := True\<rparr>))"
      "pc_sent c' = pc_sent c" "pc_codec c' = pc_codec c"
  | (sent) c' body tok where
      "pb_Marshal (pc_codec c) req = Inr body" "NewRequestAuth (pe_Uid E) a = Inr tok" "length (at_buf tok) \<le> 65535"
      "pc_sent c' = pc_sent c @ [header_bytes (request_header provider req body tok) @ body @ at_buf tok]"
      "pc_conn c' = fst (conn_Close E ((pc_conn c)\<lparr>co_rwc := True\<rparr>))" "pc_codec c' = pc_codec c"
      "operation E provider a req um c =
        (case pe_Read E (pc_sent c') of Inl err \<Rightarrow> Value (c', Inl err)
         | Inr rcv \<Rightarrow> go_bind (ParseResponse (op_code req) (Some rcv) um) (\<lambda>res. Value (c', res)))"
proof (cases "pe_Dial E (co_path (pc_conn c))")
  case (Inl err)
  then show ?thesis using assms refused by (simp add: operation_def conn_Open_def)
next
  case (Inr u)
  define conn where "conn = (pc_conn c)\<lparr>co_rwc := True\<rparr>"
  define closed where "closed = c\<lparr>pc_conn := fst (conn_Close E conn)\<rparr>"
  have op: "conn_Open E (pc_conn c) = (conn, Inr ())" using Inr assms by (simp add: conn_Open_def conn_def)
  have ab: thesis if "operation E provider a req um c = Value (closed, Inl err)" for err
    by (rule aborted[OF that]) (simp_all add: closed_def conn_def)
  show ?thesis
  proof (cases "NewRequest (op_code req) (pb_Marshal (pc_codec c) req) (NewRequestAuth (pe_Uid E) a) provider")
    case (Inl err)
    then show ?thesis using ab op by (simp add: operation_def closed_def Let_def)
  next
    case r: (Inr r)
    show ?thesis
    proof (cases "request_Pack r")
      case (Inl err)
      then show ?thesis using ab op r by (simp add: operation_def closed_def Let_def)
    next
      case b: (Inr b)
      obtain body tok where bt: "pb_Marshal (pc_codec c) req = Inr body" "NewRequestAuth (pe_Uid E) a = Inr tok" "length (at_buf tok) \<le> 65535"
        "b = header_bytes (request_header provider req body tok) @ body @ at_buf tok"
        using request_bytes[OF r b] by blast
      show ?thesis
      proof (cases "pe_Write E b")
        case (Inl err)
        then show ?thesis using ab op r b by (simp add: operation_def closed_def conn_Write_def conn_def Let_def)
      next
        case w: (Inr u)
        show ?thesis
          by (rule sent[OF bt(1-3), of "closed\<lparr>pc_sent := pc_sent c @ [b]\<rparr>"])
             (use op r b w bt(4) in \<open>simp_all add: operation_def closed_def conn_Write_def conn_Read_def conn_def Let_def split: sum.splits\<close>)
      qed
    qed
  qed
qed

lemma answer_client:
  assumes "(case x of Inl err \<Rightarrow> Value (c1, Inl err) | Inr rcv \<Rightarrow> go_bind (ParseResponse op (Some rcv) um) (\<lambda>res. Value (c1, res))) = Value (c', r)"
  shows "c' = c1"
  using assms by (auto simp: go_bind_Value split: sum.splits)

lemma request_header_ok:
  assumes "provider_IsValid provider" "NewRequestAuth uid a = Inr tok"
  shows "header_ok (request_header provider req body tok)"
  using assms auth_token_ok[OF assms(2)]
  by (auto simp: header_ok_def request_header_def requestHeaderSize_def wireHeaderSizeValue_def isSupportedWireHeaderVersion_def status_IsValid_def)

text \<open>
  C38. What the client writes is what the protocol says. For a provider and an operation, the header in front of a request
  reads back with the operation's code, the provider, the type of the authenticator and the lengths of
  the body and of the token that follow it, as long as the body is shorter than 4 GiB.
\<close>

theorem request_reads_back:
  assumes "operation E provider a req um c = Value (c', r)" "pc_sent c' = pc_sent c @ [b]" "\<not> co_rwc (pc_conn c)"
    and "provider_IsValid provider" "pb_Marshal (pc_codec c) req = Inr body" "length body < 2 ^ 32" "NewRequestAuth (pe_Uid E) a = Inr tok"
  shows "\<exists>h. parseWireHeaderFromBuf b = Value (Inr h) \<and> wh_opCode h = op_code req \<and> wh_provider h = provider \<and> wh_authType h = GetType a \<and>
    unat (wh_bodyLen h) = length body \<and> unat (wh_authLen h) = length (at_buf tok) \<and> drop 36 b = body @ at_buf tok"
  using assms(3)
proof (cases rule: operation_cases[of c E provider a req um])
  case (sent c1 body1 tok1)
  have "c' = c1" by (rule answer_client[OF sent(7)[symmetric, THEN trans, OF assms(1)]])
  then have b: "b = header_bytes (request_header provider req body tok) @ body @ at_buf tok" using sent assms(2,5,7) by simp
  have "parseWireHeaderFromBuf b = Value (Inr (request_header provider req body tok))"
    unfolding b by (rule parse_header_bytes[OF request_header_ok[OF assms(4,7)]])
  moreover have "length (at_buf tok) < 2 ^ 16" using sent(2,3) assms(7) by simp
  ultimately show ?thesis
    using auth_token_ok[OF assms(7)] assms(6) by (auto simp: b request_header_def unat_of_nat)
qed (use assms(1,2) in auto)

text \<open>
  C15. An operation succeeds only on a whole and matching answer. Provided that the service ends its answer by closing the
  connection (the read has no deadline), the operation does not panic, whatever bytes were sent, and yields a value exactly when the
  request was written and the service answered with a valid header of the same operation and of status success, a body of the
  announced length and a message that decodes to that value. Afterwards the connection of the client is closed, unless
  closing the socket failed.
\<close>

theorem operation_outcome:
  assumes "\<not> co_rwc (pc_conn c)"
  shows "\<exists>c' r. operation E provider a req um c = Value (c', r) \<and> (co_rwc (pc_conn c') \<longrightarrow> \<not> is_ok (pe_Close E)) \<and>
    (\<forall>v. r = Inr v \<longleftrightarrow> (\<exists>b h body rest. pc_sent c' = pc_sent c @ [b] \<and> pe_Read E (pc_sent c') = Inr (header_bytes h @ body @ rest) \<and>
       header_ok h \<and> wh_opCode h = op_code req \<and> wh_Status h = 0 \<and> unat (wh_bodyLen h) = length body \<and> um body = Inr v))"
  using assms
proof (cases rule: operation_cases[of c E provider a req um])
  case (sent c' body tok)
  have cl: "co_rwc (pc_conn c') \<longrightarrow> \<not> is_ok (pe_Close E)" using sent(5) by (simp add: conn_Close_def split: sum.splits)
  show ?thesis
  proof (cases "pe_Read E (pc_sent c')")
    case (Inl err)
    with sent(4,7) cl show ?thesis by auto
  next
    case (Inr rcv)
    obtain res where res: "ParseResponse (op_code req) (Some rcv) um = Value res" using ParseResponse_returns by blast
    have "res = Inr v \<longleftrightarrow> (\<exists>h body rest. rcv = header_bytes h @ body @ rest \<and> header_ok h \<and> wh_opCode h = op_code req \<and> wh_Status h = 0 \<and>
        unat (wh_bodyLen h) = length body \<and> um body = Inr v)" for v
      using ParseResponse_ok[of "op_code req" rcv um v] res by simp
    with Inr res sent(4,7) cl show ?thesis by auto
  qed
qed (use assms in \<open>auto simp: conn_Close_def split: sum.splits\<close>)

section \<open>Witnesses\<close>

definition sample_answer :: bytes where
  \<comment> \<open>the answer to a ping: a header of status success and a body of two bytes\<close>
  "sample_answer = header_bytes (request_header 0 (Ping :: unit psa_operation) [1, 0] \<lparr>at_buf = [], at_authType = 0\<rparr>) @ [1, 0]"

definition sample_parsec :: parsec_env where
  "sample_parsec = \<lparr>pe_Dial = (\<lambda>_. Inr ()), pe_Write = (\<lambda>_. Inr ()), pe_Read = (\<lambda>_. Inr sample_answer), pe_Close = Inr (), pe_Uid = Inr ''1000''\<rparr>"

definition sample_codec :: "unit pb_codec" where
  "sample_codec = \<lparr>pb_Marshal = (\<lambda>_. Inr [7]), pb_versions = (\<lambda>_. Inr (1, 0)), pb_unit = (\<lambda>_ _. Inr ()), pb_data = (\<lambda>_ d. Inr d),
     pb_opcodes = (\<lambda>_. Inr []), pb_clients = (\<lambda>_. Inr []), pb_providers = (\<lambda>_. Inr []), pb_authenticators = (\<lambda>_. Inr []),
     pb_keys = (\<lambda>_. Inr [])\<rparr>"

definition sample_client :: "unit parsec_client" where
  "sample_client = \<lparr>pc_conn = \<lparr>co_rwc = False, co_path = ''/run/parsec/parsec.sock''\<rparr>, pc_codec = sample_codec, pc_sent = []\<rparr>"

definition sample_request :: bytes where
  "sample_request = header_bytes (request_header 0 (Ping :: unit psa_operation) [7] \<lparr>at_buf = [], at_authType = 0\<rparr>) @ [7]"

lemma sample_exchange: "operation sample_parsec 0 NoAuth Ping Inr sample_client = Value (sample_client\<lparr>pc_sent := [sample_request]\<rparr>, Inr [1, 0])"
proof -
  let ?h = "request_header 0 (Ping :: unit psa_operation) [1, 0] \<lparr>at_buf = [], at_authType = 0\<rparr>"
  have "header_ok ?h" by (rule request_header_ok[of _ "Inr []" NoAuth]) (simp_all add: provider_IsValid_def request_auth_defs)
  then have "ParseResponse 1 (Some sample_answer) Inr = Value (Inr [1, 0])"
    unfolding ParseResponse_ok by (intro exI[of _ ?h] exI[of _ "[1, 0]"] exI[of _ "[]"]) (simp add: sample_answer_def request_header_def)
  then show ?thesis
    by (simp add: operation_def conn_Open_def conn_Close_def conn_Write_def conn_Read_def sample_parsec_def sample_client_def sample_codec_def
        NewRequest_def request_Pack_def checkForRequest_def header_pack_def isSupportedWireHeaderVersion_def authType_IsValid_def
        sample_request_def request_header_def request_auth_defs Let_def)
qed

theorem request_reads_back_witness:
  "\<exists>h. parseWireHeaderFromBuf sample_request = Value (Inr h) \<and> wh_opCode h = 1 \<and> unat (wh_bodyLen h) = 1 \<and> drop 36 sample_request = [7]"
  using request_reads_back[OF sample_exchange, of sample_request "[7]" "\<lparr>at_buf = [], at_authType = 0\<rparr>"]
  by (auto simp: sample_client_def sample_codec_def provider_IsValid_def request_auth_defs)

theorem operation_outcome_witness:
  "\<exists>c'. operation sample_parsec 0 NoAuth Ping Inr sample_client = Value (c', Inr [1, 0]) \<and> \<not> co_rwc (pc_conn c') \<and> pc_sent c' = [sample_request]"
proof -
  have "\<not> co_rwc (pc_conn sample_client)" "is_ok (pe_Close sample_parsec)" by (simp_all add: sample_client_def sample_parsec_def)
  with operation_outcome[of sample_client sample_parsec 0 NoAuth Ping Inr] show ?thesis by (auto simp: sample_exchange)
qed

text \<open>A socket that fails to close stays open in the client, which then can no longer be opened.\<close>

lemma failed_close_blocks:
  assumes "pe_Close E = Inl err" "co_rwc conn"
  shows "conn_Close E conn = (conn, Inl err) \<and> \<not> is_ok (snd (conn_Open E' (fst (conn_Close E conn))))"
  using assms by (simp add: conn_Close_def conn_Open_def)

end
