(* ===== verification/Parsec_Algorithm.thy ===== *)
theory Parsec_Algorithm
  imports Prelude "HOL-Library.Word"
begin

text \<open>
  Algorithms and key types of \<^verbatim>\<open>parsec-client-go/parsec/algorithm\<close>, \<^verbatim>\<open>keytype.go\<close>, \<^verbatim>\<open>keyinfo.go\<close> and \<^verbatim>\<open>convert_utils.go\<close>, and
  the messages they are converted to and from. An interface or a pointer that may be nil is an option; reading through nil
  panics. A struct with one field is the type of that field. The prefix \<open>Pb\<close> marks the generated message types of
  \<^verbatim>\<open>psaalgorithm\<close> and \<^verbatim>\<open>psakeyattributes\<close>. Integers keep their width; the conversions between \<^verbatim>\<open>uint32\<close> and \<^verbatim>\<open>int32\<close> keep the bits.
\<close>

type_synonym hash_alg = "32 word" \<comment> \<open>\<^verbatim>\<open>HashAlgorithmType\<close>, \<^verbatim>\<open>Algorithm_Hash\<close>\<close>

definition deref :: "'a option \<Rightarrow> 'a go" where
  "deref p = (case p of None \<Rightarrow> Panic ''nil pointer dereference'' | Some x \<Rightarrow> Value x)"

definition go_map :: "('a \<Rightarrow> 'b) \<Rightarrow> 'a go \<Rightarrow> 'b go" where
  "go_map f x = go_bind x (\<lambda>v. Value (f v))"

lemma deref_simps [simp]: "deref (Some x) = Value x" "deref None = Panic ''nil pointer dereference''"
  by (simp_all add: deref_def)

lemma go_map_simps [simp]: "go_map f (Value v) = Value (f v)" "go_map f (Panic m) = Panic m"
  by (simp_all add: go_map_def)

section \<open>Algorithms\<close>

datatype sign_hash_variant = SignHashAny | SignHashSpecific hash_alg

type_synonym sign_hash = "sign_hash_variant option"

datatype signature_variant =
    SigRsaPkcs1V15Sign "sign_hash option" | SigRsaPkcs1V15SignRaw | SigRsaPss "sign_hash option"
  | SigEcdsa "sign_hash option" | SigEcdsaAny | SigDeterministicEcdsa "sign_hash option"

type_synonym signature_algorithm = "signature_variant option"

datatype encryption_variant = EncRsaPkcs1V15Crypt | EncRsaOaep hash_alg

datatype aead_variant = AeadDefaultLengthTag "32 word" | AeadShortened "32 word" "32 word"

datatype mac_full_variant = FullHmac hash_alg | FullCbcMac | FullCmac

type_synonym mac_full = "mac_full_variant option"

datatype mac_variant = MacFullLength mac_full | MacTruncated "mac_full option" "32 word"

datatype derivation_variant = KdfHkdf hash_alg | KdfTLS12Prf hash_alg | KdfTLS12PskToMs hash_alg

type_synonym key_derivation = "derivation_variant option"

datatype agreement_variant = AgreementRaw "32 word" | AgreementWithKeyDerivation "32 word" "key_derivation option"

datatype algorithm_variant =
    HashAlgorithm hash_alg
  | MacAlgorithm "mac_variant option"
  | CipherAlgorithm "32 word"
  | AeadAlgorithm "aead_variant option"
  | AsymmetricSignatureAlgorithm signature_algorithm
  | AsymmetricEncryptionAlgorithm "encryption_variant option"
  | KeyAgreementAlgorithm "agreement_variant option"
  | KeyDerivationAlgorithm key_derivation

type_synonym algorithm = "algorithm_variant option"

section \<open>The messages\<close>

datatype pb_sign_hash_variant = PbSignHashAny | PbSignHashSpecific hash_alg

type_synonym pb_sign_hash = "pb_sign_hash_variant option"

datatype pb_signature_variant =
    \<comment> \<open>the inner message, and in it the pointer \<^verbatim>\<open>HashAlg\<close>\<close>
    PbRsaPkcs1V15Sign "pb_sign_hash option option" | PbRsaPkcs1V15SignRaw | PbRsaPss "pb_sign_hash option option"
  | PbEcdsa "pb_sign_hash option option" | PbEcdsaAny | PbDeterministicEcdsa "pb_sign_hash option option"

type_synonym pb_signature = "pb_signature_variant option"

datatype pb_encryption_variant = PbRsaPkcs1V15Crypt | PbRsaOaep "hash_alg option"

type_synonym pb_encryption = "pb_encryption_variant option"

datatype pb_aead_variant = PbAeadDefaultLengthTag "32 word" | PbAeadShortenedTag "(32 word \<times> 32 word) option"

type_synonym pb_aead = "pb_aead_variant option"

datatype pb_mac_full_variant = PbHmac "hash_alg option" | PbCbcMac | PbCmac

type_synonym pb_mac_full = "pb_mac_full_variant option"

datatype pb_mac_variant = PbMacFullLength "pb_mac_full option" | PbMacTruncated "(pb_mac_full option \<times> 32 word) option"

type_synonym pb_mac = "pb_mac_variant option"

datatype pb_derivation_variant = PbHkdf "hash_alg option" | PbTls12Prf "hash_alg option" | PbTls12PskToMs "hash_alg option"

type_synonym pb_derivation = "pb_derivation_variant option"

datatype pb_agreement_variant = PbAgreementRaw "32 word" | PbAgreementWithKeyDerivation "(32 word \<times> pb_derivation option) option"

type_synonym pb_agreement = "pb_agreement_variant option"

datatype pb_algorithm_variant =
    PbNone | PbHash hash_alg | PbMac "pb_mac option" | PbCipher "32 word" | PbAead "pb_aead option"
  | PbAsymmetricSignature "pb_signature option" | PbAsymmetricEncryption "pb_encryption option"
  | PbKeyAgreement "pb_agreement option" | PbKeyDerivation "pb_derivation option"

type_synonym pb_algorithm = "pb_algorithm_variant option"

fun pb_GetAsymmetricSignature :: "pb_algorithm \<Rightarrow> pb_signature option" where
  "pb_GetAsymmetricSignature (Some (PbAsymmetricSignature a)) = a"
| "pb_GetAsymmetricSignature _ = None"

fun pb_GetAsymmetricEncryption :: "pb_algorithm \<Rightarrow> pb_encryption option" where
  "pb_GetAsymmetricEncryption (Some (PbAsymmetricEncryption a)) = a"
| "pb_GetAsymmetricEncryption _ = None"

fun pb_GetAead :: "pb_algorithm \<Rightarrow> pb_aead option" where
  "pb_GetAead (Some (PbAead a)) = a"
| "pb_GetAead _ = None"

fun pb_GetCipher :: "pb_algorithm \<Rightarrow> 32 word" where
  "pb_GetCipher (Some (PbCipher a)) = a"
| "pb_GetCipher _ = 0"

fun pb_GetHash :: "pb_algorithm \<Rightarrow> hash_alg" where
  "pb_GetHash (Some (PbHash a)) = a"
| "pb_GetHash _ = 0"

fun pb_GetKeyAgreement :: "pb_algorithm \<Rightarrow> pb_agreement option" where
  "pb_GetKeyAgreement (Some (PbKeyAgreement a)) = a"
| "pb_GetKeyAgreement _ = None"

fun pb_GetKeyDerivation :: "pb_algorithm \<Rightarrow> pb_derivation option" where
  "pb_GetKeyDerivation (Some (PbKeyDerivation a)) = a"
| "pb_GetKeyDerivation _ = None"

fun pb_GetMac :: "pb_algorithm \<Rightarrow> pb_mac option" where
  "pb_GetMac (Some (PbMac a)) = a"
| "pb_GetMac _ = None"

section \<open>Hashes\<close>

definition HashAlgorithmTypeNONE :: hash_alg where "HashAlgorithmTypeNONE = 0"
definition HashAlgorithmTypeSHA256 :: hash_alg where "HashAlgorithmTypeSHA256 = 7"

definition hash_String :: "hash_alg \<Rightarrow> string" where
  "hash_String a =
     (if a = 0 then ''HASH_NONE'' else if a = 1 then ''MD2'' else if a = 2 then ''MD4'' else if a = 3 then ''MD5''
      else if a = 4 then ''RIPEMD160'' else if a = 5 then ''SHA_1'' else if a = 6 then ''SHA_224'' else if a = 7 then ''SHA_256''
      else if a = 8 then ''SHA_384'' else if a = 9 then ''SHA_512'' else if a = 10 then ''SHA_512_224'' else if a = 11 then ''SHA_512_256''
      else if a = 12 then ''SHA3_224'' else if a = 13 then ''SHA3_256'' else if a = 14 then ''SHA3_384'' else if a = 15 then ''SHA3_512''
      else [])"

definition NewHashAlgorithm :: "hash_alg \<Rightarrow> algorithm" where
  "NewHashAlgorithm h = Some (HashAlgorithm h)"

definition hash_ToWire :: "hash_alg \<Rightarrow> pb_algorithm" where
  "hash_ToWire h = Some (PbHash h)"

definition newHashFromWire :: "hash_alg \<Rightarrow> hash_alg result" where
  "newHashFromWire a = (if a = 0 then Inl ''HASH_NONE is not a valid hash algorithm'' else Inr a)"

section \<open>Ciphers\<close>

definition NewCipher :: "32 word \<Rightarrow> algorithm" where
  "NewCipher mode = Some (CipherAlgorithm mode)"

definition cipher_ToWire :: "32 word \<Rightarrow> pb_algorithm" where
  "cipher_ToWire mode = Some (PbCipher mode)"

definition newCipherFromWire :: "32 word \<Rightarrow> 32 word result" where
  "newCipherFromWire a = Inr a"

section \<open>Authenticated encryption\<close>

definition Aead :: "32 word \<Rightarrow> algorithm" where
  "Aead algType = Some (AeadAlgorithm (Some (AeadDefaultLengthTag algType)))"

definition AeadShortenedTag :: "32 word \<Rightarrow> 32 word \<Rightarrow> algorithm" where
  "AeadShortenedTag algType tagLength = Some (AeadAlgorithm (Some (AeadShortened algType tagLength)))"

definition defaultLengthTag_ToWire :: "32 word \<Rightarrow> pb_algorithm" where
  "defaultLengthTag_ToWire a = Some (PbAead (Some (Some (PbAeadDefaultLengthTag a))))"

definition shortenedTag_ToWire :: "32 word \<Rightarrow> 32 word \<Rightarrow> pb_algorithm" where
  "shortenedTag_ToWire a len = Some (PbAead (Some (Some (PbAeadShortenedTag (Some (a, len))))))"

definition aead_ToWire :: "aead_variant option \<Rightarrow> pb_algorithm go" where
  "aead_ToWire a = go_map (\<lambda>v. case v of AeadDefaultLengthTag t \<Rightarrow> defaultLengthTag_ToWire t | AeadShortened t len \<Rightarrow> shortenedTag_ToWire t len) (deref a)"

definition newAeadFromWire :: "pb_aead \<Rightarrow> aead_variant option result go" where
  "newAeadFromWire a =
     (case a of
        Some (PbAeadDefaultLengthTag t) \<Rightarrow> Value (Inr (Some (AeadDefaultLengthTag t)))
      | Some (PbAeadShortenedTag m) \<Rightarrow> go_map (\<lambda>(t, len). Inr (Some (AeadShortened t len))) (deref m)
      | None \<Rightarrow> Value (Inl ''unexpected type encountered decoding aead algorithm: <nil>''))"

section \<open>Asymmetric encryption\<close>

definition RsaPkcs1V15Crypt :: algorithm where
  "RsaPkcs1V15Crypt = Some (AsymmetricEncryptionAlgorithm (Some EncRsaPkcs1V15Crypt))"

definition RsaOaep :: "hash_alg \<Rightarrow> algorithm" where
  "RsaOaep hashAlg = Some (AsymmetricEncryptionAlgorithm (Some (EncRsaOaep hashAlg)))"

fun GetAsymmetricEncryption :: "algorithm \<Rightarrow> encryption_variant option option" where
  "GetAsymmetricEncryption (Some (AsymmetricEncryptionAlgorithm a)) = Some a"
| "GetAsymmetricEncryption _ = None"

definition rsaPkcs1V15Crypt_ToWire :: pb_algorithm where
  "rsaPkcs1V15Crypt_ToWire = Some (PbAsymmetricEncryption (Some (Some PbRsaPkcs1V15Crypt)))"

definition rsaOaep_ToWire :: "hash_alg \<Rightarrow> pb_algorithm" where
  "rsaOaep_ToWire h = Some (PbAsymmetricEncryption (Some (Some (PbRsaOaep (Some h)))))"

definition encryption_ToWire :: "encryption_variant option \<Rightarrow> pb_algorithm go" where
  "encryption_ToWire a = go_map (\<lambda>v. case v of EncRsaPkcs1V15Crypt \<Rightarrow> rsaPkcs1V15Crypt_ToWire | EncRsaOaep h \<Rightarrow> rsaOaep_ToWire h) (deref a)"

definition newAsymmetricEncryptionFromWire :: "pb_encryption \<Rightarrow> encryption_variant option result go" where
  \<comment> \<open>the getter gives the struct that the factory put into the algorithm\<close>
  "newAsymmetricEncryptionFromWire a =
     (case a of
        None \<Rightarrow> Value (Inl ''nil argument passed'')
      | Some PbRsaPkcs1V15Crypt \<Rightarrow> go_map Inr (deref (GetAsymmetricEncryption RsaPkcs1V15Crypt))
      | Some (PbRsaOaep m) \<Rightarrow> go_bind (deref m) (\<lambda>h. go_map Inr (deref (GetAsymmetricEncryption (RsaOaep h)))))"

section \<open>Asymmetric signatures\<close>

definition sign_with :: "(sign_hash option \<Rightarrow> signature_variant) \<Rightarrow> sign_hash_variant \<Rightarrow> algorithm" where
  "sign_with con h = Some (AsymmetricSignatureAlgorithm (Some (con (Some (Some h)))))"

definition RsaPkcs1V15Sign :: "hash_alg \<Rightarrow> algorithm" where
  "RsaPkcs1V15Sign hashAlg = sign_with SigRsaPkcs1V15Sign (SignHashSpecific hashAlg)"

definition RsaPkcs1V15SignAny :: algorithm where
  "RsaPkcs1V15SignAny = sign_with SigRsaPkcs1V15Sign SignHashAny"

definition RsaPkcs1V15SignRaw :: algorithm where
  "RsaPkcs1V15SignRaw = Some (AsymmetricSignatureAlgorithm (Some SigRsaPkcs1V15SignRaw))"

definition RsaPss :: "hash_alg \<Rightarrow> algorithm" where
  "RsaPss hashAlg = sign_with SigRsaPss (SignHashSpecific hashAlg)"

definition RsaPssAny :: algorithm where
  "RsaPssAny = sign_with SigRsaPss SignHashAny"

definition Ecdsa :: "hash_alg \<Rightarrow> algorithm" where
  "Ecdsa hashAlg = sign_with SigEcdsa (SignHashSpecific hashAlg)"

definition EcdsaAny :: algorithm where
  "EcdsaAny = Some (AsymmetricSignatureAlgorithm (Some SigEcdsaAny))"

definition DeterministicEcdsa :: "hash_alg \<Rightarrow> algorithm" where
  "DeterministicEcdsa hashAlg = sign_with SigDeterministicEcdsa (SignHashSpecific hashAlg)"

definition DeterministicEcdsaAny :: algorithm where
  "DeterministicEcdsaAny = sign_with SigDeterministicEcdsa SignHashAny"

fun GetAsymmetricSignature :: "algorithm \<Rightarrow> signature_algorithm option" where
  "GetAsymmetricSignature (Some (AsymmetricSignatureAlgorithm a)) = Some a"
| "GetAsymmetricSignature _ = None"

fun GetCipher :: "algorithm \<Rightarrow> 32 word option" where
  "GetCipher (Some (CipherAlgorithm mode)) = Some mode"
| "GetCipher _ = None"

fun GetAead :: "algorithm \<Rightarrow> aead_variant option option" where
  "GetAead (Some (AeadAlgorithm a)) = Some a"
| "GetAead _ = None"

fun GetHash :: "algorithm \<Rightarrow> hash_alg option" where
  "GetHash (Some (HashAlgorithm h)) = Some h"
| "GetHash _ = None"

definition signHash_toWire :: "sign_hash \<Rightarrow> pb_sign_hash go" where
  \<comment> \<open>\<^verbatim>\<open>toWireInterfaceSpecific\<close> of the struct, which calls that of its variant\<close>
  "signHash_toWire sh = go_map (\<lambda>v. case v of SignHashAny \<Rightarrow> Some PbSignHashAny | SignHashSpecific h \<Rightarrow> Some (PbSignHashSpecific h)) (deref sh)"

definition with_sign_hash :: "(pb_sign_hash option option \<Rightarrow> pb_signature_variant) \<Rightarrow> sign_hash option \<Rightarrow> pb_algorithm go" where
  "with_sign_hash con sh = go_bind (deref sh) (\<lambda>sh. go_map (\<lambda>w. Some (PbAsymmetricSignature (Some (Some (con (Some (Some w))))))) (signHash_toWire sh))"

definition rsaPkcs1V15Sign_ToWire :: "sign_hash option \<Rightarrow> pb_algorithm go" where
  "rsaPkcs1V15Sign_ToWire = with_sign_hash PbRsaPkcs1V15Sign"

definition rsaPkcs1V15SignRaw_ToWire :: pb_algorithm where
  "rsaPkcs1V15SignRaw_ToWire = Some (PbAsymmetricSignature (Some (Some PbRsaPkcs1V15SignRaw)))"

definition rsaPss_ToWire :: "sign_hash option \<Rightarrow> pb_algorithm go" where
  "rsaPss_ToWire = with_sign_hash PbRsaPss"

definition ecdsa_ToWire :: "sign_hash option \<Rightarrow> pb_algorithm go" where
  "ecdsa_ToWire = with_sign_hash PbEcdsa"

definition ecdsaAny_ToWire :: pb_algorithm where
  "ecdsaAny_ToWire = Some (PbAsymmetricSignature (Some (Some PbEcdsaAny)))"

definition deterministicEcdsa_ToWire :: "sign_hash option \<Rightarrow> pb_algorithm go" where
  "deterministicEcdsa_ToWire = with_sign_hash PbDeterministicEcdsa"

definition signature_ToWire :: "signature_algorithm \<Rightarrow> pb_algorithm option go" where
  \<comment> \<open>nothing for a struct without a variant\<close>
  "signature_ToWire a =
     (case a of
        None \<Rightarrow> Value None
      | Some v \<Rightarrow> go_map Some
          (case v of
             SigRsaPkcs1V15Sign sh \<Rightarrow> rsaPkcs1V15Sign_ToWire sh
           | SigRsaPkcs1V15SignRaw \<Rightarrow> Value rsaPkcs1V15SignRaw_ToWire
           | SigRsaPss sh \<Rightarrow> rsaPss_ToWire sh
           | SigEcdsa sh \<Rightarrow> ecdsa_ToWire sh
           | SigEcdsaAny \<Rightarrow> Value ecdsaAny_ToWire
           | SigDeterministicEcdsa sh \<Rightarrow> deterministicEcdsa_ToWire sh))"

definition newAsymmetricSignatureSignHashFromWire :: "pb_sign_hash option \<Rightarrow> sign_hash result go" where
  "newAsymmetricSignatureSignHashFromWire a = go_map (\<lambda>v. case v of
       Some PbSignHashAny \<Rightarrow> Inr (Some SignHashAny)
     | Some (PbSignHashSpecific h) \<Rightarrow> Inr (Some (SignHashSpecific h))
     | None \<Rightarrow> Inl ''unexpected AsymmetricSignatureSignHash variant type <nil>'') (deref a)"

definition from_sign_hash :: "(sign_hash option \<Rightarrow> signature_variant) \<Rightarrow> pb_sign_hash option option \<Rightarrow> signature_algorithm result go" where
  \<comment> \<open>the four branches of \<^verbatim>\<open>newAsymmetricSignatureFromWire\<close> that read a hash\<close>
  "from_sign_hash con m = go_bind (deref m) (\<lambda>hashAlg. go_map (\<lambda>r. case r of Inl err \<Rightarrow> Inl err | Inr sh \<Rightarrow> Inr (Some (con (Some sh))))
     (newAsymmetricSignatureSignHashFromWire hashAlg))"

definition newAsymmetricSignatureFromWire :: "pb_signature \<Rightarrow> signature_algorithm result go" where
  "newAsymmetricSignatureFromWire a =
     (case a of
        None \<Rightarrow> Value (Inl ''unexpected AsymmetricSignatureAlgorithm variant <nil>'')
      | Some v \<Rightarrow>
          (case v of
             PbRsaPkcs1V15Sign m \<Rightarrow> from_sign_hash SigRsaPkcs1V15Sign m
           | PbRsaPkcs1V15SignRaw \<Rightarrow> Value (Inr (Some SigRsaPkcs1V15SignRaw))
           | PbRsaPss m \<Rightarrow> from_sign_hash SigRsaPss m
           | PbEcdsa m \<Rightarrow> from_sign_hash SigEcdsa m
           | PbEcdsaAny \<Rightarrow> Value (Inr (Some SigEcdsaAny))
           | PbDeterministicEcdsa m \<Rightarrow> from_sign_hash SigDeterministicEcdsa m))"

section \<open>Message authentication codes\<close>

definition HMAC :: "hash_alg \<Rightarrow> algorithm" where
  "HMAC hashAlg = Some (MacAlgorithm (Some (MacFullLength (Some (FullHmac hashAlg)))))"

definition HMACTruncated :: "hash_alg \<Rightarrow> 32 word \<Rightarrow> algorithm" where
  "HMACTruncated hashAlg macLength = Some (MacAlgorithm (Some (MacTruncated (Some (Some (FullHmac hashAlg))) macLength)))"

definition CBCMAC :: algorithm where
  "CBCMAC = Some (MacAlgorithm (Some (MacFullLength (Some FullCbcMac))))"

definition CBCMACTruncated :: "32 word \<Rightarrow> algorithm" where
  "CBCMACTruncated macLength = Some (MacAlgorithm (Some (MacTruncated (Some (Some FullCbcMac)) macLength)))"

definition CMAC :: algorithm where
  "CMAC = Some (MacAlgorithm (Some (MacFullLength (Some FullCmac))))"

definition CMACTruncated :: "32 word \<Rightarrow> algorithm" where
  "CMACTruncated macLength = Some (MacAlgorithm (Some (MacTruncated (Some (Some FullCmac)) macLength)))"

definition hmac_toWireSpecific :: "hash_alg \<Rightarrow> pb_mac_full" where
  "hmac_toWireSpecific h = Some (PbHmac (Some h))"

definition cbcMac_toWireSpecific :: pb_mac_full where
  "cbcMac_toWireSpecific = Some PbCbcMac"

definition cmac_toWireSpecific :: pb_mac_full where
  "cmac_toWireSpecific = Some PbCmac"

definition full_toWireSpecific :: "mac_full \<Rightarrow> pb_mac_full go" where
  \<comment> \<open>the call through the interface \<^verbatim>\<open>macFullLengthVariant\<close>\<close>
  "full_toWireSpecific m = go_map (\<lambda>v. case v of
      FullHmac h \<Rightarrow> hmac_toWireSpecific h | FullCbcMac \<Rightarrow> cbcMac_toWireSpecific | FullCmac \<Rightarrow> cmac_toWireSpecific) (deref m)"

definition macFullLength_ToWire :: "mac_full \<Rightarrow> pb_algorithm go" where
  \<comment> \<open>the \<^verbatim>\<open>ToWireInterface\<close> of all three variants has this body\<close>
  "macFullLength_ToWire m = go_map (\<lambda>w. Some (PbMac (Some (Some (PbMacFullLength (Some w)))))) (full_toWireSpecific m)"

definition macTruncated_ToWire :: "mac_full option \<Rightarrow> 32 word \<Rightarrow> pb_algorithm go" where
  "macTruncated_ToWire m macLength = go_bind (deref m) (\<lambda>m.
     go_map (\<lambda>w. Some (PbMac (Some (Some (PbMacTruncated (Some (Some w, macLength))))))) (full_toWireSpecific m))"

definition mac_ToWire :: "mac_variant option \<Rightarrow> pb_algorithm go" where
  "mac_ToWire a = go_bind (deref a) (\<lambda>v. case v of
      MacFullLength m \<Rightarrow> macFullLength_ToWire m | MacTruncated m len \<Rightarrow> macTruncated_ToWire m len)"

definition newMacFullLengthFromWire :: "pb_mac_full option \<Rightarrow> mac_full result go" where
  "newMacFullLengthFromWire a = go_bind (deref a) (\<lambda>v. case v of
      Some PbCbcMac \<Rightarrow> Value (Inr (Some FullCbcMac))
    | Some PbCmac \<Rightarrow> Value (Inr (Some FullCmac))
    | Some (PbHmac m) \<Rightarrow> go_map (\<lambda>h. Inr (Some (FullHmac h))) (deref m)
    | None \<Rightarrow> Value (Inl ''unexpected full length mac type <nil>''))"

definition newMacTruncatedFromWire :: "(pb_mac_full option \<times> 32 word) option \<Rightarrow> mac_variant result go" where
  "newMacTruncatedFromWire t = go_bind (deref t) (\<lambda>(m, len).
     go_map (map_sum (\<lambda>e. e) (\<lambda>macalg. MacTruncated (Some macalg) len)) (newMacFullLengthFromWire m))"

definition newMacFromWire :: "pb_mac \<Rightarrow> mac_variant option result go" where
  "newMacFromWire a =
     (case a of
        Some (PbMacFullLength m) \<Rightarrow> go_map (map_sum (\<lambda>e. e) (\<lambda>macfl. Some (MacFullLength macfl))) (newMacFullLengthFromWire m)
      | Some (PbMacTruncated t) \<Rightarrow> go_map (map_sum (\<lambda>e. e) Some) (newMacTruncatedFromWire t)
      | None \<Rightarrow> Value (Inl ''unexpected mac type <nil>''))"

section \<open>Key derivation and key agreement\<close>

definition Hkdf :: "hash_alg \<Rightarrow> algorithm" where
  "Hkdf hashAlg = Some (KeyDerivationAlgorithm (Some (KdfHkdf hashAlg)))"

definition TLS12PRF :: "hash_alg \<Rightarrow> algorithm" where
  "TLS12PRF hashAlg = Some (KeyDerivationAlgorithm (Some (KdfTLS12Prf hashAlg)))"

definition TLS12PSKToMs :: "hash_alg \<Rightarrow> algorithm" where
  "TLS12PSKToMs hashAlg = Some (KeyDerivationAlgorithm (Some (KdfTLS12PskToMs hashAlg)))"

definition hkdf_toWireSpecific :: "hash_alg \<Rightarrow> pb_derivation" where
  "hkdf_toWireSpecific h = Some (PbHkdf (Some h))"

definition tls12Prf_toWireSpecific :: "hash_alg \<Rightarrow> pb_derivation" where
  "tls12Prf_toWireSpecific h = Some (PbTls12Prf (Some h))"

definition tls12PskToMs_toWireSpecific :: "hash_alg \<Rightarrow> pb_derivation" where
  "tls12PskToMs_toWireSpecific h = Some (PbTls12PskToMs (Some h))"

fun derivation_toWireSpecific :: "derivation_variant \<Rightarrow> pb_derivation" where
  \<comment> \<open>the call through the interface \<^verbatim>\<open>keyDerivationVariant\<close>\<close>
  "derivation_toWireSpecific (KdfHkdf h) = hkdf_toWireSpecific h"
| "derivation_toWireSpecific (KdfTLS12Prf h) = tls12Prf_toWireSpecific h"
| "derivation_toWireSpecific (KdfTLS12PskToMs h) = tls12PskToMs_toWireSpecific h"

definition derivation_ToWire :: "key_derivation \<Rightarrow> pb_algorithm go" where
  \<comment> \<open>the \<^verbatim>\<open>ToWireInterface\<close> of all three variants has this body\<close>
  "derivation_ToWire a = go_map (\<lambda>v. Some (PbKeyDerivation (Some (derivation_toWireSpecific v)))) (deref a)"

definition newKeyDerivationFromWire :: "pb_derivation option \<Rightarrow> key_derivation result go" where
  "newKeyDerivationFromWire a = go_bind (deref a) (\<lambda>v. case v of
      Some (PbHkdf m) \<Rightarrow> go_map (\<lambda>h. Inr (Some (KdfHkdf h))) (deref m)
    | Some (PbTls12Prf m) \<Rightarrow> go_map (\<lambda>h. Inr (Some (KdfTLS12Prf h))) (deref m)
    | Some (PbTls12PskToMs m) \<Rightarrow> go_map (\<lambda>h. Inr (Some (KdfTLS12PskToMs h))) (deref m)
    | None \<Rightarrow> Value (Inl ''unexpected type encountered decoding key derivation algorithm: <nil>''))"

definition KeyAgreementFFDH :: "32 word" where "KeyAgreementFFDH = 1"
definition KeyAgreementECDH :: "32 word" where "KeyAgreementECDH = 2"

definition RawFFDH :: algorithm where
  "RawFFDH = Some (KeyAgreementAlgorithm (Some (AgreementRaw KeyAgreementFFDH)))"

definition RawECDH :: algorithm where
  "RawECDH = Some (KeyAgreementAlgorithm (Some (AgreementRaw KeyAgreementECDH)))"

definition FFDH :: "key_derivation option \<Rightarrow> algorithm" where
  "FFDH kd = Some (KeyAgreementAlgorithm (Some (AgreementWithKeyDerivation KeyAgreementFFDH kd)))"

definition ECDH :: "key_derivation option \<Rightarrow> algorithm" where
  "ECDH kd = Some (KeyAgreementAlgorithm (Some (AgreementWithKeyDerivation KeyAgreementECDH kd)))"

definition agreementRaw_ToWire :: "32 word \<Rightarrow> pb_algorithm" where
  "agreementRaw_ToWire rawAlg = Some (PbKeyAgreement (Some (Some (PbAgreementRaw rawAlg))))"

definition withKeyDerivation_ToWire :: "32 word \<Rightarrow> key_derivation option \<Rightarrow> pb_algorithm" where
  \<comment> \<open>without a derivation the field stays nil\<close>
  "withKeyDerivation_ToWire kaAlg kd =
     (let kdfAlg = (case kd of Some (Some v) \<Rightarrow> Some (derivation_toWireSpecific v) | _ \<Rightarrow> None)
      in Some (PbKeyAgreement (Some (Some (PbAgreementWithKeyDerivation (Some (kaAlg, kdfAlg)))))))"

definition agreement_ToWire :: "agreement_variant option \<Rightarrow> pb_algorithm go" where
  "agreement_ToWire a = go_map (\<lambda>v. case v of
      AgreementRaw raw \<Rightarrow> agreementRaw_ToWire raw | AgreementWithKeyDerivation ka kd \<Rightarrow> withKeyDerivation_ToWire ka kd) (deref a)"

definition newKeyAgreementFromWire :: "pb_agreement \<Rightarrow> agreement_variant option result go" where
  "newKeyAgreementFromWire a =
     (case a of
        Some (PbAgreementRaw raw) \<Rightarrow> Value (Inr (Some (AgreementRaw raw)))
      | Some (PbAgreementWithKeyDerivation m) \<Rightarrow> go_bind (deref m) (\<lambda>(ka, kdfAlg).
          go_map (\<lambda>r. case r of Inl err \<Rightarrow> Inl err | Inr kdf \<Rightarrow> Inr (Some (AgreementWithKeyDerivation ka (Some kdf))))
            (newKeyDerivationFromWire kdfAlg))
      | None \<Rightarrow> Value (Inl ''unexpected type when decoding key agreement algorithm: <nil>''))"

section \<open>An algorithm and its message\<close>

definition ToWireInterface :: "algorithm \<Rightarrow> pb_algorithm option go" where
  \<comment> \<open>the interface value: nothing, or a message\<close>
  "ToWireInterface a =
     (case a of
        None \<Rightarrow> Value None
      | Some v \<Rightarrow>
          (case v of
             HashAlgorithm h \<Rightarrow> Value (Some (hash_ToWire h))
           | MacAlgorithm m \<Rightarrow> go_map Some (mac_ToWire m)
           | CipherAlgorithm mode \<Rightarrow> Value (Some (cipher_ToWire mode))
           | AeadAlgorithm ae \<Rightarrow> go_map Some (aead_ToWire ae)
           | AsymmetricSignatureAlgorithm sig \<Rightarrow> signature_ToWire sig
           | AsymmetricEncryptionAlgorithm enc \<Rightarrow> go_map Some (encryption_ToWire enc)
           | KeyAgreementAlgorithm ka \<Rightarrow> go_map Some (agreement_ToWire ka)
           | KeyDerivationAlgorithm kd \<Rightarrow> go_map Some (derivation_ToWire kd)))"

definition decode_into ::
  "'w option \<Rightarrow> ('w \<Rightarrow> 'v result go) \<Rightarrow> ('v \<Rightarrow> algorithm_variant) \<Rightarrow> algorithm_variant result option \<Rightarrow> algorithm_variant result option go" where
  \<comment> \<open>one \<^verbatim>\<open>if\<close> of \<^verbatim>\<open>NewAlgorithmFromWireInterface\<close>: it overwrites \<^verbatim>\<open>algvar\<close> and \<^verbatim>\<open>err\<close>, together an optional result\<close>
  "decode_into got conv con acc =
     (case got of None \<Rightarrow> Value acc | Some a \<Rightarrow> go_map (\<lambda>r. Some (map_sum (\<lambda>e. e) con r)) (conv a))"

definition unless_none :: "32 word \<Rightarrow> 32 word option" where
  "unless_none a = (if a = 0 then None else Some a)"

definition NewAlgorithmFromWireInterface :: "pb_algorithm option \<Rightarrow> algorithm result go" where
  \<comment> \<open>given a \<^verbatim>\<open>psaalgorithm.Algorithm\<close> or a pointer to one\<close>
  "NewAlgorithmFromWireInterface op =
     (case op of
        None \<Rightarrow> Value (Inl ''nil *psaalgorithm.Algorithm'')
      | Some w \<Rightarrow>
          go_bind (decode_into (pb_GetAsymmetricSignature w) newAsymmetricSignatureFromWire AsymmetricSignatureAlgorithm None) (\<lambda>acc.
          go_bind (decode_into (pb_GetAsymmetricEncryption w) newAsymmetricEncryptionFromWire AsymmetricEncryptionAlgorithm acc) (\<lambda>acc.
          go_bind (decode_into (pb_GetAead w) newAeadFromWire AeadAlgorithm acc) (\<lambda>acc.
          go_bind (decode_into (unless_none (pb_GetCipher w)) (\<lambda>a. Value (newCipherFromWire a)) CipherAlgorithm acc) (\<lambda>acc.
          go_bind (decode_into (unless_none (pb_GetHash w)) (\<lambda>a. Value (newHashFromWire a)) HashAlgorithm acc) (\<lambda>acc.
          go_bind (decode_into (pb_GetKeyAgreement w) newKeyAgreementFromWire KeyAgreementAlgorithm acc) (\<lambda>acc.
          go_bind (decode_into (pb_GetKeyDerivation w) (\<lambda>a. newKeyDerivationFromWire (Some a)) KeyDerivationAlgorithm acc) (\<lambda>acc.
          go_bind (decode_into (pb_GetMac w) newMacFromWire MacAlgorithm acc) (\<lambda>acc.
          Value (case acc of
                   None \<Rightarrow> Inl ''unknown algorithm type *psaalgorithm.Algorithm''
                 | Some (Inl err) \<Rightarrow> Inl err
                 | Some (Inr algvar) \<Rightarrow> Inr (Some algvar)))))))))))"

section \<open>Key types\<close>

datatype key_type_variant =
    RawData | HmacKey | DeriveKey | Aes | Des | Camellia | Arc4 | Chacha20 | RsaPublicKey | RsaKeyPair
  | EccKeyPair "32 word" | EccPublicKey "32 word" | DhKeyPair "32 word" | DhPublicKey "32 word"

type_synonym key_type = "key_type_variant option"

definition KeyTypeSECPR1 :: "32 word" where "KeyTypeSECPR1 = 2"

datatype pb_key_type_variant =
    PbRawData | PbHmacKey | PbDeriveKey | PbAes | PbDes | PbCamellia | PbArc4 | PbChacha20 | PbRsaPublicKey | PbRsaKeyPair
  | PbEccKeyPair "32 word option" | PbEccPublicKey "32 word option" | PbDhKeyPair "32 word option" | PbDhPublicKey "32 word option"

type_synonym pb_key_type = "pb_key_type_variant option"

fun keyType_toWire :: "key_type_variant \<Rightarrow> pb_key_type" where
  "keyType_toWire RawData = Some PbRawData"
| "keyType_toWire HmacKey = Some PbHmacKey"
| "keyType_toWire DeriveKey = Some PbDeriveKey"
| "keyType_toWire Aes = Some PbAes"
| "keyType_toWire Des = Some PbDes"
| "keyType_toWire Camellia = Some PbCamellia"
| "keyType_toWire Arc4 = Some PbArc4"
| "keyType_toWire Chacha20 = Some PbChacha20"
| "keyType_toWire RsaPublicKey = Some PbRsaPublicKey"
| "keyType_toWire RsaKeyPair = Some PbRsaKeyPair"
| "keyType_toWire (EccKeyPair curveFamily) = Some (PbEccKeyPair (Some curveFamily))"
| "keyType_toWire (EccPublicKey curveFamily) = Some (PbEccPublicKey (Some curveFamily))"
| "keyType_toWire (DhKeyPair groupFamily) = Some (PbDhKeyPair (Some groupFamily))"
| "keyType_toWire (DhPublicKey groupFamily) = Some (PbDhPublicKey (Some groupFamily))"

definition keyType_ToWireInterface :: "key_type \<Rightarrow> pb_key_type option" where
  "keyType_ToWireInterface k = map_option keyType_toWire k"

section \<open>Attributes of a key\<close>

record usage_flags =
  uf_Export :: bool
  uf_Copy :: bool
  uf_Cache :: bool
  uf_Encrypt :: bool
  uf_Decrypt :: bool
  uf_SignMessage :: bool
  uf_VerifyMessage :: bool
  uf_SignHash :: bool
  uf_VerifyHash :: bool
  uf_Derive :: bool

record pb_usage_flags =
  pu_Export :: bool
  pu_Copy :: bool
  pu_Cache :: bool
  pu_Encrypt :: bool
  pu_Decrypt :: bool
  pu_SignMessage :: bool
  pu_VerifyMessage :: bool
  pu_SignHash :: bool
  pu_VerifyHash :: bool
  pu_Derive :: bool

definition flags_toWire :: "usage_flags \<Rightarrow> pb_usage_flags" where
  "flags_toWire u = \<lparr>pu_Export = uf_Export u, pu_Copy = uf_Copy u, pu_Cache = uf_Cache u, pu_Encrypt = uf_Encrypt u,
     pu_Decrypt = uf_Decrypt u, pu_SignMessage = uf_SignMessage u, pu_VerifyMessage = uf_VerifyMessage u,
     pu_SignHash = uf_SignHash u, pu_VerifyHash = uf_VerifyHash u, pu_Derive = uf_Derive u\<rparr>"

record key_policy =
  kp_KeyUsageFlags :: "usage_flags option"
  kp_KeyAlgorithm :: "algorithm option"

record pb_key_policy =
  pp_KeyUsageFlags :: "pb_usage_flags option"
  pp_KeyAlgorithm :: "pb_algorithm option"

definition policy_toWire :: "key_policy option \<Rightarrow> pb_key_policy option go" where
  "policy_toWire kp = go_bind (deref kp) (\<lambda>kp. go_bind (deref (kp_KeyAlgorithm kp)) (\<lambda>alg. go_bind (ToWireInterface alg) (\<lambda>kaif. case kaif of
      None \<Rightarrow> Value None
    | Some ka \<Rightarrow> go_map (\<lambda>u. Some \<lparr>pp_KeyUsageFlags = Some (flags_toWire u), pp_KeyAlgorithm = Some ka\<rparr>) (deref (kp_KeyUsageFlags kp)))))"

record key_attributes =
  ka_KeyType :: "key_type option"
  ka_KeyBits :: "32 word"
  ka_KeyPolicy :: "key_policy option"

record pb_key_attributes =
  pa_KeyType :: "pb_key_type option"
  pa_KeyBits :: "32 word"
  pa_KeyPolicy :: "pb_key_policy option"

definition attributes_toWire :: "key_attributes \<Rightarrow> pb_key_attributes result go" where
  "attributes_toWire ka = go_bind (deref (ka_KeyType ka)) (\<lambda>kt. case keyType_ToWireInterface kt of
      None \<Rightarrow> Value (Inl ''nil keytype returned for wire interface'')
    | Some keytype \<Rightarrow> go_map (\<lambda>pol. Inr \<lparr>pa_KeyType = Some keytype, pa_KeyBits = ka_KeyBits ka, pa_KeyPolicy = pol\<rparr>) (policy_toWire (ka_KeyPolicy ka)))"

definition SigningKey :: key_attributes where
  "SigningKey = \<lparr>ka_KeyType = Some (Some RsaKeyPair), ka_KeyBits = 2048,
     ka_KeyPolicy = Some \<lparr>kp_KeyUsageFlags = Some \<lparr>uf_Export = False, uf_Copy = False, uf_Cache = False, uf_Encrypt = False,
         uf_Decrypt = False, uf_SignMessage = True, uf_VerifyMessage = True, uf_SignHash = True, uf_VerifyHash = True, uf_Derive = False\<rparr>,
       kp_KeyAlgorithm = Some (RsaPkcs1V15Sign HashAlgorithmTypeSHA256)\<rparr>\<rparr>"

section \<open>What the operations send of an algorithm\<close>

datatype wire_message =
    MsgHash hash_alg | MsgSignature pb_signature | MsgEncryption pb_encryption | MsgCipher "32 word" | MsgAead pb_aead
  | MsgMac pb_mac | MsgKeyAgreement pb_agreement | MsgAttributes pb_key_attributes

definition hashAlgToWire :: "hash_alg \<Rightarrow> wire_message" where
  "hashAlgToWire h = MsgHash h"

definition algAsymmetricSigToWire :: "signature_algorithm option \<Rightarrow> wire_message result go" where
  \<comment> \<open>given the pointer that the callers get from \<^verbatim>\<open>GetAsymmetricSignature\<close>\<close>
  "algAsymmetricSigToWire a = go_bind (deref a) (\<lambda>a. go_map (\<lambda>w. case w of
      None \<Rightarrow> Inl ''unexpected type expecting *psaalgorithm.Algorithm, got <nil>''
    | Some alg \<Rightarrow> (case pb_GetAsymmetricSignature alg of
        None \<Rightarrow> Inl ''expected *psaalgorithm.Algorithm_AsymmetricSignature, but got nil'' | Some m \<Rightarrow> Inr (MsgSignature m)))
     (signature_ToWire a))"

definition algAsymmetricEncryptionAlgToWire :: "encryption_variant option option \<Rightarrow> wire_message result go" where
  "algAsymmetricEncryptionAlgToWire a = go_bind (deref a) (\<lambda>a. go_map (\<lambda>alg. case pb_GetAsymmetricEncryption alg of
      None \<Rightarrow> Inl ''expected *psaalgorithm.Algorithm_AsymmetricEncryption, but got nil'' | Some m \<Rightarrow> Inr (MsgEncryption m)) (encryption_ToWire a))"

definition algCipherAlgToWire :: "32 word option \<Rightarrow> wire_message result go" where
  "algCipherAlgToWire a = go_map (\<lambda>mode. let varalg = pb_GetCipher (cipher_ToWire mode) in
      if varalg = 0 then Inl ''expected non-NONE psaalgorithm.Algorithm_Cipher, got CIPHER_NONE'' else Inr (MsgCipher varalg)) (deref a)"

definition algAeadAlgToWire :: "aead_variant option option \<Rightarrow> wire_message result go" where
  "algAeadAlgToWire a = go_bind (deref a) (\<lambda>a. go_map (\<lambda>alg. case pb_GetAead alg of
      None \<Rightarrow> Inl ''expected *psaalgorithm.Algorithm_Aead, but got nil'' | Some m \<Rightarrow> Inr (MsgAead m)) (aead_ToWire a))"

definition algMacAlgToWire :: "mac_variant option option \<Rightarrow> wire_message result go" where
  "algMacAlgToWire a = go_bind (deref a) (\<lambda>a. go_map (\<lambda>alg. case pb_GetMac alg of
      None \<Rightarrow> Inl ''expected *psaalgorithm.Algorithm_Mac, but got nil'' | Some m \<Rightarrow> Inr (MsgMac m)) (mac_ToWire a))"

definition algKeyAgreementRawAlgToWire :: "32 word option \<Rightarrow> wire_message result go" where
  "algKeyAgreementRawAlgToWire a = go_map (\<lambda>raw. case pb_GetKeyAgreement (agreementRaw_ToWire raw) of
      None \<Rightarrow> Inl ''expected *psaalgorithm.Algorithm_KeyAgreement_Raw, but got nil'' | Some m \<Rightarrow> Inr (MsgKeyAgreement m)) (deref a)"

section \<open>The round trip\<close>

definition is_set :: "'a option option \<Rightarrow> bool" where
  \<comment> \<open>a pointer that is not nil to a struct whose variant is not nil\<close>
  "is_set p = (\<exists>v. p = Some (Some v))"

fun complete :: "algorithm \<Rightarrow> bool" where
  "complete None = False"
| "complete (Some (HashAlgorithm h)) = (h \<noteq> HashAlgorithmTypeNONE)"
| "complete (Some (CipherAlgorithm mode)) = (mode \<noteq> 0)"
| "complete (Some (AeadAlgorithm a)) = (a \<noteq> None)"
| "complete (Some (AsymmetricEncryptionAlgorithm a)) = (a \<noteq> None)"
| "complete (Some (KeyDerivationAlgorithm a)) = (a \<noteq> None)"
| "complete (Some (AsymmetricSignatureAlgorithm a)) =
     (case a of None \<Rightarrow> False
      | Some (SigRsaPkcs1V15Sign sh) \<Rightarrow> is_set sh | Some (SigRsaPss sh) \<Rightarrow> is_set sh | Some (SigEcdsa sh) \<Rightarrow> is_set sh
      | Some (SigDeterministicEcdsa sh) \<Rightarrow> is_set sh | Some SigRsaPkcs1V15SignRaw \<Rightarrow> True | Some SigEcdsaAny \<Rightarrow> True)"
| "complete (Some (MacAlgorithm a)) =
     (case a of None \<Rightarrow> False | Some (MacFullLength m) \<Rightarrow> m \<noteq> None | Some (MacTruncated m _) \<Rightarrow> is_set m)"
| "complete (Some (KeyAgreementAlgorithm a)) =
     (case a of None \<Rightarrow> False | Some (AgreementRaw _) \<Rightarrow> True | Some (AgreementWithKeyDerivation _ kd) \<Rightarrow> is_set kd)"

lemmas sign_wire_defs = rsaPkcs1V15Sign_ToWire_def rsaPkcs1V15SignRaw_ToWire_def rsaPss_ToWire_def ecdsa_ToWire_def ecdsaAny_ToWire_def
  deterministicEcdsa_ToWire_def signature_ToWire_def with_sign_hash_def signHash_toWire_def
  newAsymmetricSignatureFromWire_def newAsymmetricSignatureSignHashFromWire_def from_sign_hash_def

lemmas mac_wire_defs = mac_ToWire_def macFullLength_ToWire_def macTruncated_ToWire_def full_toWireSpecific_def hmac_toWireSpecific_def
  cbcMac_toWireSpecific_def cmac_toWireSpecific_def newMacFromWire_def newMacFullLengthFromWire_def newMacTruncatedFromWire_def

lemmas derive_wire_defs = derivation_ToWire_def hkdf_toWireSpecific_def tls12Prf_toWireSpecific_def tls12PskToMs_toWireSpecific_def
  newKeyDerivationFromWire_def agreement_ToWire_def agreementRaw_ToWire_def withKeyDerivation_ToWire_def newKeyAgreementFromWire_def

lemmas simple_wire_defs = hash_ToWire_def newHashFromWire_def cipher_ToWire_def newCipherFromWire_def aead_ToWire_def defaultLengthTag_ToWire_def
  shortenedTag_ToWire_def newAeadFromWire_def encryption_ToWire_def rsaPkcs1V15Crypt_ToWire_def rsaOaep_ToWire_def
  newAsymmetricEncryptionFromWire_def RsaPkcs1V15Crypt_def RsaOaep_def

lemmas wire_defs = ToWireInterface_def NewAlgorithmFromWireInterface_def decode_into_def unless_none_def is_set_def

definition reads_back :: "algorithm \<Rightarrow> bool" where
  "reads_back a = (go_bind (ToWireInterface a) NewAlgorithmFromWireInterface = Value (Inr a))"

lemma derivation_reads_back: "newKeyDerivationFromWire (Some (derivation_toWireSpecific v)) = Value (Inr (Some v))"
  by (cases v) (simp_all add: derive_wire_defs)

lemma simple_reads_back:
  "reads_back (Some (HashAlgorithm h)) \<longleftrightarrow> complete (Some (HashAlgorithm h))"
  "reads_back (Some (CipherAlgorithm m)) \<longleftrightarrow> complete (Some (CipherAlgorithm m))"
  "reads_back (Some (AeadAlgorithm ae)) \<longleftrightarrow> complete (Some (AeadAlgorithm ae))"
  "reads_back (Some (AsymmetricEncryptionAlgorithm en)) \<longleftrightarrow> complete (Some (AsymmetricEncryptionAlgorithm en))"
  "reads_back (Some (KeyDerivationAlgorithm kd)) \<longleftrightarrow> complete (Some (KeyDerivationAlgorithm kd))"
  "reads_back None \<longleftrightarrow> complete None"
  by (auto simp: reads_back_def wire_defs simple_wire_defs HashAlgorithmTypeNONE_def derivation_ToWire_def derivation_reads_back deref_def
      split: option.splits aead_variant.splits encryption_variant.splits)

lemma signature_reads_back:
  "reads_back (Some (AsymmetricSignatureAlgorithm sg)) \<longleftrightarrow> complete (Some (AsymmetricSignatureAlgorithm sg))"
  by (auto simp: reads_back_def wire_defs sign_wire_defs deref_def
      split: option.splits signature_variant.splits sign_hash_variant.splits)

lemma mac_reads_back: "reads_back (Some (MacAlgorithm m)) \<longleftrightarrow> complete (Some (MacAlgorithm m))"
  by (auto simp: reads_back_def wire_defs mac_wire_defs deref_def
      split: option.splits mac_variant.splits mac_full_variant.splits)

lemma agreement_reads_back: "reads_back (Some (KeyAgreementAlgorithm a)) \<longleftrightarrow> complete (Some (KeyAgreementAlgorithm a))"
  by (auto simp: reads_back_def wire_defs agreement_ToWire_def agreementRaw_ToWire_def withKeyDerivation_ToWire_def newKeyAgreementFromWire_def
      derivation_reads_back newKeyDerivationFromWire_def[of None] deref_def split: option.splits agreement_variant.splits)

text \<open>
  C40. Converting an algorithm into its message and back. The message is read back as the algorithm it came from for exactly
  the algorithms that are complete: every pointer and variant in them is set, a plain hash is not \<^verbatim>\<open>HASH_NONE\<close> and a cipher not
  \<^verbatim>\<open>CIPHER_NONE\<close>. In particular complete algorithms are converted without a panic and no two of them share a message.
\<close>

theorem algorithm_round_trip:
  "go_bind (ToWireInterface a) NewAlgorithmFromWireInterface = Value (Inr a) \<longleftrightarrow> complete a"
proof (cases a)
  case (Some v)
  then show ?thesis
    by (cases v) (simp_all only: simple_reads_back signature_reads_back mac_reads_back agreement_reads_back flip: reads_back_def)
qed (simp only: simple_reads_back flip: reads_back_def)

lemma factories_complete:
  "complete (RsaPkcs1V15Sign h)" "complete RsaPkcs1V15SignAny" "complete RsaPkcs1V15SignRaw" "complete (RsaPss h)" "complete RsaPssAny"
  "complete (Ecdsa h)" "complete EcdsaAny" "complete (DeterministicEcdsa h)" "complete DeterministicEcdsaAny"
  "complete RsaPkcs1V15Crypt" "complete (RsaOaep h)" "complete (Aead t)" "complete (AeadShortenedTag t len)"
  "complete (HMAC h)" "complete (HMACTruncated h len)" "complete CBCMAC" "complete (CBCMACTruncated len)" "complete CMAC" "complete (CMACTruncated len)"
  "complete (Hkdf h)" "complete (TLS12PRF h)" "complete (TLS12PSKToMs h)" "complete RawFFDH" "complete RawECDH"
  "complete (FFDH kd) \<longleftrightarrow> is_set kd" "complete (ECDH kd) \<longleftrightarrow> is_set kd"
  "complete (NewHashAlgorithm h) \<longleftrightarrow> h \<noteq> HashAlgorithmTypeNONE" "complete (NewCipher mode) \<longleftrightarrow> mode \<noteq> 0"
  by (simp_all add: RsaPkcs1V15Sign_def RsaPkcs1V15SignAny_def RsaPkcs1V15SignRaw_def RsaPss_def RsaPssAny_def Ecdsa_def EcdsaAny_def
      DeterministicEcdsa_def DeterministicEcdsaAny_def sign_with_def RsaPkcs1V15Crypt_def RsaOaep_def Aead_def AeadShortenedTag_def HMAC_def
      HMACTruncated_def CBCMAC_def CBCMACTruncated_def CMAC_def CMACTruncated_def Hkdf_def TLS12PRF_def TLS12PSKToMs_def RawFFDH_def
      RawECDH_def FFDH_def ECDH_def NewHashAlgorithm_def NewCipher_def is_set_def)

end
