(* ===== verification/Parsec_Keys.thy ===== *)
theory Parsec_Keys
  imports Parsec_Wire Parsec_Algorithm Go_URL
begin

text \<open>
  The client of \<^verbatim>\<open>parsec-client-go/parsec\<close> (\<^verbatim>\<open>basicclient.go\<close>, \<^verbatim>\<open>client_config.go\<close>, \<^verbatim>\<open>provider.go\<close>,
  \<^verbatim>\<open>keyinfo.go\<close>) and what the satellite builds on it in \<^verbatim>\<open>internal/satellite/parsec\<close>: the hardware-backed key provider and
  signer. The messages inside the operations are those of \<open>Parsec_Algorithm\<close>.
\<close>

section \<open>The client\<close>

record basic_client =
  bc_opclient :: "wire_message parsec_client"
  bc_auth :: authenticator
  bc_implicitProvider :: "8 word"

record client_config =
  cc_appName :: "string option"
    \<comment> \<open>\<^verbatim>\<open>authenticatorData[auth.AuthDirect]\<close>\<close>
  cc_connection :: "unix_connection option"
  cc_defaultProvider :: "8 word option"
  cc_authenticator :: "authenticator option"

definition NewClientConfig :: client_config where
  "NewClientConfig = \<lparr>cc_appName = None, cc_connection = None, cc_defaultProvider = None, cc_authenticator = None\<rparr>"

definition DirectAuthConfigData :: "string \<Rightarrow> client_config \<Rightarrow> client_config" where
  "DirectAuthConfigData appName config = config\<lparr>cc_appName := Some appName\<rparr>"

definition NewDefaultConnection :: "string \<Rightarrow> unix_connection result" where
  \<comment> \<open>given the value of \<^verbatim>\<open>PARSEC_SERVICE_ENDPOINT\<close>\<close>
  "NewDefaultConnection endpoint =
     (let addressRawURL = (if endpoint = [] then ''unix:/run/parsec/parsec.sock'' else endpoint) in
      case url_Parse addressRawURL of
        Inl err \<Rightarrow> Inl err
      | Inr u \<Rightarrow> if to_lower (u_Scheme u) = ''unix'' then Inr \<lparr>co_rwc = False, co_path = u_Path u\<rparr> else Inl ''unsupported url scheme'')"

definition HasCrypto :: "8 word \<Rightarrow> bool" where "HasCrypto p = (p \<noteq> 0)"

type_synonym 'r basic_call = "basic_client \<Rightarrow> (basic_client \<times> 'r result) go"

definition with_op :: "(wire_message, 'r) client_call \<Rightarrow> 'r basic_call" where
  "with_op f bc = go_bind (f (bc_opclient bc)) (\<lambda>(c, r). Value (bc\<lparr>bc_opclient := c\<rparr>, r))"

definition crypto_op :: "(8 word \<Rightarrow> authenticator \<Rightarrow> (wire_message, 'r) client_call result go) \<Rightarrow> 'r basic_call" where
  \<comment> \<open>the guard and the conversions that the cryptographic operations start with\<close>
  "crypto_op f bc =
     (if \<not> HasCrypto (bc_implicitProvider bc) then Value (bc, Inl ''provider does not support crypto operation'')
      else go_bind (f (bc_implicitProvider bc) (bc_auth bc)) (\<lambda>r. case r of
             Inl err \<Rightarrow> Value (bc, Inl err) | Inr call \<Rightarrow> with_op call bc))"

definition converting :: "wire_message result go \<Rightarrow> (wire_message \<Rightarrow> 'c) \<Rightarrow> 'c result go" where
  "converting m f = go_map (map_sum (\<lambda>e. e) f) m"

definition basic_Ping :: "parsec_env \<Rightarrow> (8 word \<times> 8 word) basic_call" where
  "basic_Ping E bc = with_op (client_Ping E 0 (bc_auth bc)) bc"

definition basic_ListOpcodes :: "parsec_env \<Rightarrow> 8 word \<Rightarrow> (32 word list) basic_call" where
  "basic_ListOpcodes E providerID bc = with_op (client_ListOpcodes E 0 (bc_auth bc) (ucast providerID)) bc"

definition basic_ListClients :: "parsec_env \<Rightarrow> (string list) basic_call" where
  "basic_ListClients E bc = with_op (client_ListClients E 0 (bc_auth bc)) bc"

definition basic_DeleteClient :: "parsec_env \<Rightarrow> string \<Rightarrow> unit basic_call" where
  "basic_DeleteClient E client bc = with_op (client_DeleteClient E 0 (bc_auth bc) client) bc"

definition newProviderInfoFromOp :: "provider_info \<Rightarrow> 8 word" where
  \<comment> \<open>the identifier, which is all that is used\<close>
  "newProviderInfoFromOp p = ucast (pi_Id p)"

definition basic_ListProviders :: "parsec_env \<Rightarrow> ((provider_info \<times> 8 word) list) basic_call" where
  "basic_ListProviders E bc = go_bind (with_op (client_ListProviders E 0 (bc_auth bc)) bc)
     (\<lambda>(bc, r). Value (bc, map_sum (\<lambda>e. e) (map (\<lambda>p. (p, newProviderInfoFromOp p))) r))"

fun convert_all :: "('a \<Rightarrow> 'b result) \<Rightarrow> 'a list \<Rightarrow> 'b list result" where
  "convert_all f [] = Inr []"
| "convert_all f (x # xs) = (case f x of Inl err \<Rightarrow> Inl err | Inr y \<Rightarrow> map_sum (\<lambda>e. e) ((#) y) (convert_all f xs))"

definition newAuthenticatorInfoFromOp :: "authenticator_info \<Rightarrow> (8 word \<times> authenticator_info) result" where
  "newAuthenticatorInfoFromOp info = map_sum (\<lambda>e. e) (\<lambda>t. (t, info)) (NewAuthenticationTypeFromU32 (ai_Id info))"

definition basic_ListAuthenticators :: "parsec_env \<Rightarrow> ((8 word \<times> authenticator_info) list) basic_call" where
  "basic_ListAuthenticators E bc = go_bind (with_op (client_ListAuthenticators E 0 (bc_auth bc)) bc)
     (\<lambda>(bc, r). Value (bc, case r of Inl err \<Rightarrow> Inl err | Inr infos \<Rightarrow> convert_all newAuthenticatorInfoFromOp infos))"

record key_info =
  ki_ProviderID :: "8 word"
  ki_Name :: string
  ki_KeyBits :: "32 word"

fun newKeyInfos :: "key_listing list \<Rightarrow> key_info list go" where
  \<comment> \<open>\<^verbatim>\<open>newKeyInfoFromOp\<close> for each key; it reads the attributes without asking whether there are any\<close>
  "newKeyInfos [] = Value []"
| "newKeyInfos (k # ks) =
     (case kl_KeyBits k of
        None \<Rightarrow> Panic ''nil pointer dereference''
      | Some bits \<Rightarrow> go_bind (newKeyInfos ks)
          (\<lambda>infos. Value (\<lparr>ki_ProviderID = ucast (kl_ProviderId k), ki_Name = kl_Name k, ki_KeyBits = bits\<rparr> # infos)))"

definition basic_ListKeys :: "parsec_env \<Rightarrow> (key_info list) basic_call" where
  "basic_ListKeys E bc = go_bind (with_op (client_ListKeys E 0 (bc_auth bc)) bc)
     (\<lambda>(bc, r). case r of Inl err \<Rightarrow> Value (bc, Inl err)
        | Inr keys \<Rightarrow> go_bind (newKeyInfos keys) (\<lambda>infos. Value (bc, Inr infos)))"

definition basic_PsaGenerateKey :: "parsec_env \<Rightarrow> string \<Rightarrow> key_attributes \<Rightarrow> unit basic_call" where
  "basic_PsaGenerateKey E name attributes = crypto_op (\<lambda>p a. converting (go_map (map_sum (\<lambda>e. e) MsgAttributes) (attributes_toWire attributes)) (\<lambda>opattributes. client_PsaGenerateKey E p a name opattributes))"

definition basic_PsaDestroyKey :: "parsec_env \<Rightarrow> string \<Rightarrow> unit basic_call" where
  "basic_PsaDestroyKey E name = crypto_op (\<lambda>p a. Value (Inr (client_PsaDestroyKey E p a name)))"

definition basic_PsaHashCompute :: "parsec_env \<Rightarrow> bytes \<Rightarrow> hash_alg \<Rightarrow> bytes basic_call" where
  "basic_PsaHashCompute E message alg = crypto_op (\<lambda>p a. Value (Inr (client_PsaHashCompute E p a message (hashAlgToWire alg))))"

definition basic_PsaSignMessage :: "parsec_env \<Rightarrow> string \<Rightarrow> bytes \<Rightarrow> signature_algorithm option \<Rightarrow> bytes basic_call" where
  "basic_PsaSignMessage E signingKey message alg = crypto_op (\<lambda>p a. converting (algAsymmetricSigToWire alg) (\<lambda>opalg. client_PsaSignMessage E p a signingKey message opalg))"

definition basic_PsaSignHash :: "parsec_env \<Rightarrow> string \<Rightarrow> bytes \<Rightarrow> signature_algorithm option \<Rightarrow> bytes basic_call" where
  "basic_PsaSignHash E signingKey hash alg = crypto_op (\<lambda>p a. converting (algAsymmetricSigToWire alg) (\<lambda>opalg. client_PsaSignHash E p a signingKey hash opalg))"

definition basic_PsaVerifyMessage :: "parsec_env \<Rightarrow> string \<Rightarrow> bytes \<Rightarrow> bytes \<Rightarrow> signature_algorithm option \<Rightarrow> unit basic_call" where
  "basic_PsaVerifyMessage E verifyingKey message signature alg = crypto_op (\<lambda>p a. converting (algAsymmetricSigToWire alg) (\<lambda>opalg. client_PsaVerifyMessage E p a verifyingKey message signature opalg))"

definition basic_PsaVerifyHash :: "parsec_env \<Rightarrow> string \<Rightarrow> bytes \<Rightarrow> bytes \<Rightarrow> signature_algorithm option \<Rightarrow> unit basic_call" where
  "basic_PsaVerifyHash E verifyingKey hash signature alg = crypto_op (\<lambda>p a. converting (algAsymmetricSigToWire alg) (\<lambda>opalg. client_PsaVerifyHash E p a verifyingKey hash signature opalg))"

definition basic_PsaCipherEncrypt :: "parsec_env \<Rightarrow> string \<Rightarrow> 32 word option \<Rightarrow> bytes \<Rightarrow> bytes basic_call" where
  "basic_PsaCipherEncrypt E keyName alg plaintext = crypto_op (\<lambda>p a. converting (algCipherAlgToWire alg) (\<lambda>opalg. client_PsaCipherEncrypt E p a keyName opalg plaintext))"

definition basic_PsaCipherDecrypt :: "parsec_env \<Rightarrow> string \<Rightarrow> 32 word option \<Rightarrow> bytes \<Rightarrow> bytes basic_call" where
  "basic_PsaCipherDecrypt E keyName alg ciphertext = crypto_op (\<lambda>p a. converting (algCipherAlgToWire alg) (\<lambda>opalg. client_PsaCipherDecrypt E p a keyName opalg ciphertext))"

definition basic_PsaAeadDecrypt :: "parsec_env \<Rightarrow> string \<Rightarrow> aead_variant option option \<Rightarrow> bytes \<Rightarrow> bytes \<Rightarrow> bytes \<Rightarrow> bytes basic_call" where
  "basic_PsaAeadDecrypt E keyName alg nonce additionalData ciphertext = crypto_op (\<lambda>p a. converting (algAeadAlgToWire alg) (\<lambda>opalg. client_PsaAeadDecrypt E p a keyName opalg nonce additionalData ciphertext))"

definition basic_PsaAeadEncrypt :: "parsec_env \<Rightarrow> string \<Rightarrow> aead_variant option option \<Rightarrow> bytes \<Rightarrow> bytes \<Rightarrow> bytes \<Rightarrow> bytes basic_call" where
  "basic_PsaAeadEncrypt E keyName alg nonce additionalData plaintext = crypto_op (\<lambda>p a. converting (algAeadAlgToWire alg) (\<lambda>opalg. client_PsaAeadEncrypt E p a keyName opalg nonce additionalData plaintext))"

definition basic_PsaExportKey :: "parsec_env \<Rightarrow> string \<Rightarrow> bytes basic_call" where
  "basic_PsaExportKey E keyName = crypto_op (\<lambda>p a. Value (Inr (client_PsaExportKey E p a keyName)))"

definition basic_PsaImportKey :: "parsec_env \<Rightarrow> string \<Rightarrow> key_attributes \<Rightarrow> bytes \<Rightarrow> unit basic_call" where
  "basic_PsaImportKey E keyName attributes data = crypto_op (\<lambda>p a. converting (go_map (map_sum (\<lambda>e. e) MsgAttributes) (attributes_toWire attributes)) (\<lambda>opattributes. client_PsaImportKey E p a keyName opattributes data))"

definition basic_PsaExportPublicKey :: "parsec_env \<Rightarrow> string \<Rightarrow> bytes basic_call" where
  "basic_PsaExportPublicKey E keyName = crypto_op (\<lambda>p a. Value (Inr (client_PsaExportPublicKey E p a keyName)))"

definition basic_PsaGenerateRandom :: "parsec_env \<Rightarrow> 64 word \<Rightarrow> bytes basic_call" where
  "basic_PsaGenerateRandom E n = crypto_op (\<lambda>p a. Value (Inr (client_PsaGenerateRandom E p a n)))"

definition basic_PsaMACCompute :: "parsec_env \<Rightarrow> string \<Rightarrow> mac_variant option option \<Rightarrow> bytes \<Rightarrow> bytes basic_call" where
  "basic_PsaMACCompute E keyName alg input = crypto_op (\<lambda>p a. converting (algMacAlgToWire alg) (\<lambda>opalg. client_PsaMACCompute E p a keyName opalg input))"

definition basic_PsaMACVerify :: "parsec_env \<Rightarrow> string \<Rightarrow> mac_variant option option \<Rightarrow> bytes \<Rightarrow> bytes \<Rightarrow> unit basic_call" where
  "basic_PsaMACVerify E keyName alg input mac = crypto_op (\<lambda>p a. converting (algMacAlgToWire alg) (\<lambda>opalg. client_PsaMACVerify E p a keyName opalg input mac))"

definition basic_PsaRawKeyAgreement :: "parsec_env \<Rightarrow> 32 word option \<Rightarrow> string \<Rightarrow> bytes \<Rightarrow> bytes basic_call" where
  "basic_PsaRawKeyAgreement E alg privateKey peerKey = crypto_op (\<lambda>p a. converting (algKeyAgreementRawAlgToWire alg) (\<lambda>opalg. client_PsaRawKeyAgreement E p a opalg privateKey peerKey))"

definition basic_PsaAsymmetricDecrypt :: "parsec_env \<Rightarrow> string \<Rightarrow> encryption_variant option option \<Rightarrow> bytes \<Rightarrow> bytes \<Rightarrow> bytes basic_call" where
  "basic_PsaAsymmetricDecrypt E keyName alg salt ciphertext = crypto_op (\<lambda>p a. converting (algAsymmetricEncryptionAlgToWire alg) (\<lambda>opalg. client_PsaAsymmetricDecrypt E p a keyName opalg salt ciphertext))"

definition basic_PsaAsymmetricEncrypt :: "parsec_env \<Rightarrow> string \<Rightarrow> encryption_variant option option \<Rightarrow> bytes \<Rightarrow> bytes \<Rightarrow> bytes basic_call" where
  "basic_PsaAsymmetricEncrypt E keyName alg salt plaintext = crypto_op (\<lambda>p a. converting (algAsymmetricEncryptionAlgToWire alg) (\<lambda>opalg. client_PsaAsymmetricEncrypt E p a keyName opalg salt plaintext))"

section \<open>Choosing a provider and an authenticator\<close>

definition selectDefaultProvider :: "parsec_env \<Rightarrow> unit basic_call" where
  "selectDefaultProvider E bc =
     go_bind (basic_ListProviders E (bc\<lparr>bc_implicitProvider := 0\<rparr>)) (\<lambda>(bc, r). case r of
        Inl err \<Rightarrow> Value (bc, Inl err)
      | Inr [] \<Rightarrow> Value (bc, Inr ())
      | Inr (p # _) \<Rightarrow> Value (bc\<lparr>bc_implicitProvider := snd p\<rparr>, Inr ()))"

fun pick_authenticator :: "string option \<Rightarrow> (8 word \<times> authenticator_info) list \<Rightarrow> authenticator option" where
  \<comment> \<open>the loop of \<^verbatim>\<open>selectDefaultAuthenticator\<close>\<close>
  "pick_authenticator appName [] = None"
| "pick_authenticator appName ((t, info) # rest) =
     (if t = 1 then (case appName of Some name \<Rightarrow> Some (Direct name) | None \<Rightarrow> pick_authenticator appName rest)
      else if t = 3 then Some UnixPeer else pick_authenticator appName rest)"

definition selectDefaultAuthenticator :: "parsec_env \<Rightarrow> client_config \<Rightarrow> unit basic_call" where
  "selectDefaultAuthenticator E config bc =
     go_bind (basic_ListAuthenticators E bc) (\<lambda>(bc, r). case r of
        Inl err \<Rightarrow> Value (bc, Inl err)
      | Inr available \<Rightarrow> Value (case pick_authenticator (cc_appName config) available of
          None \<Rightarrow> bc | Some a \<Rightarrow> bc\<lparr>bc_auth := a\<rparr>, Inr ()))"

definition naked :: "wire_message pb_codec \<Rightarrow> unix_connection \<Rightarrow> basic_client" where
  "naked C conn = \<lparr>bc_opclient = \<lparr>pc_conn = conn, pc_codec = C, pc_sent = []\<rparr>, bc_auth = NoAuth, bc_implicitProvider = 0\<rparr>"

definition CreateNakedClient :: "wire_message pb_codec \<Rightarrow> string \<Rightarrow> basic_client result" where
  "CreateNakedClient C endpoint = map_sum (\<lambda>e. e) (naked C) (NewDefaultConnection endpoint)"

definition CreateConfiguredClient ::
  "parsec_env \<Rightarrow> wire_message pb_codec \<Rightarrow> string \<Rightarrow> client_config \<Rightarrow> (basic_client option \<times> basic_client result) go" where
  \<comment> \<open>also gives the client as far as it got, for what it sent\<close>
  "CreateConfiguredClient E C endpoint config =
     (case (case cc_connection config of None \<Rightarrow> NewDefaultConnection endpoint | Some conn \<Rightarrow> Inr conn) of
        Inl err \<Rightarrow> Value (None, Inl err)
      | Inr conn \<Rightarrow>
          go_bind (case cc_defaultProvider config of
                     Some p \<Rightarrow> Value ((naked C conn)\<lparr>bc_implicitProvider := p\<rparr>, Inr ())
                   | None \<Rightarrow> selectDefaultProvider E (naked C conn)) (\<lambda>(bc, r). case r of
             Inl err \<Rightarrow> Value (Some bc, Inl err)
           | Inr _ \<Rightarrow>
             go_bind (case cc_authenticator config of
                        Some a \<Rightarrow> Value (bc\<lparr>bc_auth := a\<rparr>, Inr ())
                      | None \<Rightarrow> selectDefaultAuthenticator E config bc) (\<lambda>(bc, r). case r of
                Inl err \<Rightarrow> Value (Some bc, Inl err) | Inr _ \<Rightarrow> Value (Some bc, Inr bc))))"

section \<open>The key provider of the satellite\<close>

definition identityKeyName :: string where "identityKeyName = ''satellite-identity-key''"

datatype private_key = KeyRef string | OtherKey

record 'p key_env =
  ke_sha256 :: "bytes \<Rightarrow> bytes"
  ke_ParsePKIXPublicKey :: "bytes \<Rightarrow> 'p result"

definition ecdsaSHA256 :: "signature_algorithm option" where
  \<comment> \<open>the \<^verbatim>\<open>sigAlg\<close> that is built before signing and verifying\<close>
  "ecdsaSHA256 = GetAsymmetricSignature (Ecdsa HashAlgorithmTypeSHA256)"

definition identity_attributes :: key_attributes where
  "identity_attributes = \<lparr>ka_KeyType = Some (Some (EccKeyPair KeyTypeSECPR1)), ka_KeyBits = 256,
     ka_KeyPolicy = Some \<lparr>kp_KeyUsageFlags = Some \<lparr>uf_Export = False, uf_Copy = False, uf_Cache = False, uf_Encrypt = False,
         uf_Decrypt = False, uf_SignMessage = True, uf_VerifyMessage = True, uf_SignHash = True, uf_VerifyHash = True, uf_Derive = False\<rparr>,
       kp_KeyAlgorithm = Some (Ecdsa HashAlgorithmTypeSHA256)\<rparr>\<rparr>"

definition ensureIdentityKey :: "parsec_env \<Rightarrow> unit basic_call" where
  "ensureIdentityKey E bc =
     go_bind (basic_ListKeys E bc) (\<lambda>(bc, r). case r of
        Inl err \<Rightarrow> Value (bc, Inl (''list parsec keys: '' @ err))
      | Inr keys \<Rightarrow>
          if \<exists>k\<in>set keys. ki_Name k = identityKeyName then Value (bc, Inr ())
          else go_bind (basic_PsaGenerateKey E identityKeyName identity_attributes bc)
            (\<lambda>(bc, r). Value (bc, case r of Inl err \<Rightarrow> Inl (''generate identity key in parsec: '' @ err) | Inr _ \<Rightarrow> Inr ())))"

definition ensureConfigSealKey :: "unit result" where "ensureConfigSealKey = Inr ()"

definition NewKeyProvider ::
  "parsec_env \<Rightarrow> wire_message pb_codec \<Rightarrow> string \<Rightarrow> string \<Rightarrow> (basic_client option \<times> basic_client result) go" where
  \<comment> \<open>the endpoint already in the environment, and the path of the socket\<close>
  "NewKeyProvider E C endpoint socketPath =
     go_bind (CreateConfiguredClient E C (if socketPath \<noteq> [] then ''unix:'' @ socketPath else endpoint) NewClientConfig)
       (\<lambda>(sofar, r). case r of
          Inl err \<Rightarrow> Value (sofar, Inl (''connect to parsec daemon at '' @ socketPath @ '': '' @ err))
        | Inr client \<Rightarrow> go_bind (ensureIdentityKey E client) (\<lambda>(client, r). case r of
            Inl err \<Rightarrow> Value (Some client, Inl err)
          | Inr _ \<Rightarrow> (case ensureConfigSealKey of Inl err \<Rightarrow> Value (Some client, Inl err) | Inr _ \<Rightarrow> Value (Some client, Inr client))))"

definition kp_Sign :: "parsec_env \<Rightarrow> 'p key_env \<Rightarrow> bytes \<Rightarrow> private_key \<Rightarrow> bytes basic_call" where
  "kp_Sign E K data key bc =
     (case key of
        OtherKey \<Rightarrow> Value (bc, Inl ''parsec provider requires KeyRef'')
      | KeyRef name \<Rightarrow> go_bind (basic_PsaSignHash E name (ke_sha256 K data) ecdsaSHA256 bc)
          (\<lambda>(bc, r). Value (bc, map_sum (\<lambda>err. ''parsec sign: '' @ err) (\<lambda>s. s) r)))"

definition kp_Verify :: "parsec_env \<Rightarrow> 'p key_env \<Rightarrow> bytes \<Rightarrow> bytes \<Rightarrow> private_key \<Rightarrow> unit basic_call" where
  "kp_Verify E K data signature key bc =
     (case key of
        OtherKey \<Rightarrow> Value (bc, Inl ''parsec provider requires KeyRef for Verify'')
      | KeyRef name \<Rightarrow> go_bind (basic_PsaVerifyHash E name (ke_sha256 K data) signature ecdsaSHA256 bc)
          (\<lambda>(bc, r). Value (bc, map_sum (\<lambda>err. ''parsec verify: '' @ err) (\<lambda>u. u) r)))"

definition export_public :: "parsec_env \<Rightarrow> 'p key_env \<Rightarrow> string \<Rightarrow> 'p basic_call" where
  "export_public E K keyName bc =
     go_bind (basic_PsaExportPublicKey E keyName bc) (\<lambda>(bc, r). Value (bc, case r of
        Inl err \<Rightarrow> Inl (''export public key from parsec: '' @ err)
      | Inr pubDER \<Rightarrow> (case ke_ParsePKIXPublicKey K pubDER of Inl err \<Rightarrow> Inl (''parse exported public key: '' @ err) | Inr pub \<Rightarrow> Inr pub)))"

definition GenerateKeyPair :: "parsec_env \<Rightarrow> 'p key_env \<Rightarrow> (private_key \<times> 'p) basic_call" where
  "GenerateKeyPair E K bc =
     go_bind (ensureIdentityKey E bc) (\<lambda>(bc, r). case r of
        Inl err \<Rightarrow> Value (bc, Inl err)
      | Inr _ \<Rightarrow> go_bind (export_public E K identityKeyName bc)
          (\<lambda>(bc, r). Value (bc, map_sum (\<lambda>e. e) (\<lambda>pub. (KeyRef identityKeyName, pub)) r)))"

definition kp_RandomBytes :: "parsec_env \<Rightarrow> int \<Rightarrow> bytes basic_call" where
  "kp_RandomBytes E n bc = go_bind (basic_PsaGenerateRandom E (word_of_int n) bc)
     (\<lambda>(bc, r). Value (bc, map_sum (\<lambda>err. ''parsec generate random: '' @ err) (\<lambda>b. b) r))"

record 'p signer =
  sg_keyName :: string
  sg_pub :: 'p
  sg_sigAlg :: "signature_algorithm option"

definition NewSigner :: "parsec_env \<Rightarrow> 'p key_env \<Rightarrow> string \<Rightarrow> ('p signer) basic_call" where
  "NewSigner E K keyName bc = go_bind (export_public E K keyName bc)
     (\<lambda>(bc, r). Value (bc, map_sum (\<lambda>e. e) (\<lambda>pub. \<lparr>sg_keyName = keyName, sg_pub = pub, sg_sigAlg = ecdsaSHA256\<rparr>) r))"

datatype hash_func = NoHash | SHA256 | OtherHash

definition signer_Sign :: "parsec_env \<Rightarrow> 'p signer \<Rightarrow> bytes \<Rightarrow> hash_func option \<Rightarrow> bytes basic_call" where
  "signer_Sign E s digest opts bc =
     (if opts = Some OtherHash then Value (bc, Inl ''parsec signer is bound to ECDSA-P256/SHA-256'')
      else if length digest \<noteq> 32 then Value (bc, Inl ''parsec signer expects a 32-byte SHA-256 digest'')
      else go_bind (basic_PsaSignHash E (sg_keyName s) digest (sg_sigAlg s) bc)
        (\<lambda>(bc, r). Value (bc, map_sum (\<lambda>err. ''parsec sign: '' @ err) (\<lambda>b. b) r)))"

definition parsec_Validate :: "bool \<Rightarrow> string \<Rightarrow> unit result" where
  "parsec_Validate enabled socketPath =
     (if \<not> enabled then Inr ()
      else if socketPath = [] then Inl ''parsec: socket_path must not be empty when enabled''
      else if \<not> hasPrefix socketPath ''/'' then Inl ''parsec: socket_path must be absolute'' else Inr ())"

definition Detect :: "parsec_env \<Rightarrow> wire_message pb_codec \<Rightarrow> string \<Rightarrow> string \<Rightarrow> bool go" where
  "Detect E C endpoint socketPath =
     go_bind (CreateConfiguredClient E C (if socketPath \<noteq> [] then ''unix:'' @ socketPath else endpoint) NewClientConfig)
       (\<lambda>(sofar, r). case r of Inl _ \<Rightarrow> Value False | Inr c \<Rightarrow> go_bind (basic_Ping E c) (\<lambda>(c, r). Value (is_ok r)))"

definition MustDetect :: "parsec_env \<Rightarrow> wire_message pb_codec \<Rightarrow> string \<Rightarrow> string \<Rightarrow> unit result go" where
  "MustDetect E C endpoint socketPath = go_bind (Detect E C endpoint socketPath)
     (\<lambda>ok. Value (if ok then Inr () else Inl ''parsec daemon not reachable''))"

section \<open>What the key provider asks of the service\<close>

definition is_request :: "wire_message pb_codec \<Rightarrow> wire_message psa_operation \<Rightarrow> bytes \<Rightarrow> bool" where
  \<comment> \<open>a header with the code of the operation, its message, and a token\<close>
  "is_request C req b = (\<exists>h body tok. b = header_bytes h @ body @ tok \<and> wh_opCode h = op_code req \<and> pb_Marshal C req = Inr body)"

definition only_ops :: "wire_message pb_codec \<Rightarrow> wire_message psa_operation set \<Rightarrow> bytes list \<Rightarrow> bool" where
  "only_ops C S bs = (\<forall>b\<in>set bs. \<exists>req\<in>S. is_request C req b)"

abbreviation sent_by :: "basic_client \<Rightarrow> bytes list" where
  "sent_by bc \<equiv> pc_sent (bc_opclient bc)"

definition adds_only :: "wire_message psa_operation set \<Rightarrow> wire_message parsec_client \<Rightarrow> wire_message parsec_client \<Rightarrow> bool" where
  "adds_only S c c' = (pc_codec c' = pc_codec c \<and> (only_ops (pc_codec c) S (pc_sent c) \<longrightarrow> only_ops (pc_codec c) S (pc_sent c')))"

definition sends :: "wire_message psa_operation set \<Rightarrow> 'r basic_call \<Rightarrow> bool" where
  \<comment> \<open>the call adds only requests for these operations\<close>
  "sends S f = (\<forall>bc bc' r. f bc = Value (bc', r) \<longrightarrow> adds_only S (bc_opclient bc) (bc_opclient bc'))"

lemma adds_only_trans: "adds_only S c1 c2 \<Longrightarrow> adds_only S c2 c3 \<Longrightarrow> adds_only S c1 c3"
  by (simp add: adds_only_def)

lemma adds_only_refl [simp]: "adds_only S c c"
  by (simp add: adds_only_def)

lemma operation_sends:
  assumes "operation E provider a req um c = Value (c', r)" "req \<in> S"
  shows "adds_only S c c'"
proof (cases "co_rwc (pc_conn c)")
  case True
  then show ?thesis using assms(1) by (auto simp: operation_def conn_Open_def adds_only_def)
next
  case False
  then show ?thesis
  proof (cases rule: operation_cases[of c E provider a req um])
    case (sent c1 body tok)
    have "c' = c1" by (rule answer_client[OF sent(7)[symmetric, THEN trans, OF assms(1)]])
    moreover have "is_request (pc_codec c) req (header_bytes (request_header provider req body tok) @ body @ at_buf tok)"
      using sent(1) by (auto simp: is_request_def request_header_def)
    ultimately show ?thesis using sent(4,6) assms(2) by (auto simp: only_ops_def adds_only_def)
  qed (use assms in \<open>auto simp: adds_only_def\<close>)
qed

lemma sends_bind:
  assumes "sends S f" "\<And>r. sends S (\<lambda>bc. g bc r)"
  shows "sends S (\<lambda>bc. go_bind (f bc) (\<lambda>(bc, r). g bc r))"
  using assms by (fastforce simp: sends_def go_bind_Value intro: adds_only_trans)

lemma sends_return: "sends S (\<lambda>bc. Value (bc, r bc))"
  by (simp add: sends_def)

lemma sends_with_op:
  assumes "\<And>c c' r. f c = Value (c', r) \<Longrightarrow> adds_only S c c'"
  shows "sends S (with_op f)"
  using assms by (fastforce simp: sends_def with_op_def go_bind_Value)

lemma sends_crypto:
  assumes "\<And>p a call c c' r. f p a = Value (Inr call) \<Longrightarrow> call c = Value (c', r) \<Longrightarrow> adds_only S c c'"
  shows "sends S (crypto_op f)"
  unfolding sends_def
proof (intro allI impI)
  fix bc bc' r
  assume *: "crypto_op f bc = Value (bc', r)"
  show "adds_only S (bc_opclient bc) (bc_opclient bc')"
  proof (cases "\<exists>call. HasCrypto (bc_implicitProvider bc) \<and> f (bc_implicitProvider bc) (bc_auth bc) = Value (Inr call)")
    case True
    then show ?thesis using * assms by (auto simp: crypto_op_def with_op_def go_bind_Value)
  next
    case False
    then have "bc' = bc" using * by (cases "f (bc_implicitProvider bc) (bc_auth bc)") (auto simp: crypto_op_def split: if_splits sum.splits)
    then show ?thesis by simp
  qed
qed

definition identity_message :: pb_key_attributes where
  \<comment> \<open>what the service is told about the identity key\<close>
  "identity_message = \<lparr>pa_KeyType = Some (Some (PbEccKeyPair (Some KeyTypeSECPR1))), pa_KeyBits = 256,
     pa_KeyPolicy = Some \<lparr>pp_KeyUsageFlags = Some \<lparr>pu_Export = False, pu_Copy = False, pu_Cache = False, pu_Encrypt = False,
         pu_Decrypt = False, pu_SignMessage = True, pu_VerifyMessage = True, pu_SignHash = True, pu_VerifyHash = True, pu_Derive = False\<rparr>,
       pp_KeyAlgorithm = Some (Some (PbAsymmetricSignature (Some (Some (PbEcdsa (Some (Some (Some (PbSignHashSpecific HashAlgorithmTypeSHA256)))))))))\<rparr>\<rparr>"

definition signature_message :: wire_message where
  "signature_message = MsgSignature (Some (PbEcdsa (Some (Some (Some (PbSignHashSpecific HashAlgorithmTypeSHA256))))))"

lemma identity_toWire: "attributes_toWire identity_attributes = Value (Inr identity_message)"
  by (simp add: attributes_toWire_def identity_attributes_def identity_message_def keyType_ToWireInterface_def policy_toWire_def flags_toWire_def
      ToWireInterface_def Ecdsa_def sign_with_def sign_wire_defs)

lemma signature_toWire: "algAsymmetricSigToWire ecdsaSHA256 = Value (Inr signature_message)"
  by (simp add: algAsymmetricSigToWire_def ecdsaSHA256_def signature_message_def Ecdsa_def sign_with_def sign_wire_defs)

definition key_ops :: "wire_message psa_operation set" where
  \<comment> \<open>what the key provider may ask for\<close>
  "key_ops = {ListProviders, ListAuthenticators, ListKeys, PsaGenerateKey identityKeyName (MsgAttributes identity_message)}
     \<union> {PsaSignHash n h signature_message |n h. True} \<union> {PsaVerifyHash n h sg signature_message |n h sg. True}
     \<union> {PsaExportPublicKey n |n. True} \<union> {PsaGenerateRandom n |n. True}"

lemmas client_calls = client_ListProviders_def client_ListAuthenticators_def client_ListKeys_def client_PsaGenerateKey_def
  client_PsaSignHash_def client_PsaVerifyHash_def client_PsaExportPublicKey_def client_PsaGenerateRandom_def

lemma basic_sends:
  "sends key_ops (basic_PsaGenerateKey E identityKeyName identity_attributes)" "sends key_ops (basic_PsaSignHash E name hash ecdsaSHA256)"
  "sends key_ops (basic_PsaVerifyHash E name hash sig ecdsaSHA256)" "sends key_ops (basic_PsaExportPublicKey E name)"
  "sends key_ops (basic_PsaGenerateRandom E n)"
  unfolding basic_PsaGenerateKey_def basic_PsaSignHash_def basic_PsaVerifyHash_def basic_PsaExportPublicKey_def basic_PsaGenerateRandom_def
    identity_toWire signature_toWire converting_def go_map_simps map_sum.simps client_calls Let_def
  by (rule sends_crypto, erule go.inject[THEN iffD1, elim_format], fastforce simp: key_ops_def intro: operation_sends)+

lemma with_op_sends:
  "sends key_ops (\<lambda>bc. with_op (client_ListProviders E 0 (bc_auth bc)) bc)" "sends key_ops (\<lambda>bc. with_op (client_ListAuthenticators E 0 (bc_auth bc)) bc)"
  "sends key_ops (\<lambda>bc. with_op (client_ListKeys E 0 (bc_auth bc)) bc)"
  by (fastforce simp: sends_def with_op_def go_bind_Value client_calls key_ops_def intro: operation_sends)+

lemma sends_case_sum: "(\<And>e. sends S (f e)) \<Longrightarrow> (\<And>v. sends S (g v)) \<Longrightarrow> sends S (\<lambda>bc. case r of Inl e \<Rightarrow> f e bc | Inr v \<Rightarrow> g v bc)"
  by (cases r) auto

lemma sends_if: "sends S f \<Longrightarrow> sends S g \<Longrightarrow> sends S (\<lambda>bc. if b then f bc else g bc)"
  by (cases b) auto

lemma sends_pure_bind: "(\<And>v. sends S (f v)) \<Longrightarrow> sends S (\<lambda>bc. go_bind x (\<lambda>v. f v bc))"
  by (cases x) (auto simp: sends_def)

lemma sends_case_key: "(\<And>n. sends S (f n)) \<Longrightarrow> sends S g \<Longrightarrow> sends S (\<lambda>bc. case key of KeyRef n \<Rightarrow> f n bc | OtherKey \<Rightarrow> g bc)"
  by (cases key) auto

lemmas sends_intros = sends_bind sends_return sends_case_sum sends_if sends_pure_bind basic_sends with_op_sends

lemma listing_sends:
  "sends key_ops (basic_ListProviders E)" "sends key_ops (basic_ListAuthenticators E)" "sends key_ops (basic_ListKeys E)"
  unfolding basic_ListProviders_def basic_ListAuthenticators_def basic_ListKeys_def by (intro sends_intros)+

lemma provider_sends:
  "sends key_ops (ensureIdentityKey E)" "sends key_ops (export_public E K name)" "sends key_ops (GenerateKeyPair E K)"
  "sends key_ops (kp_RandomBytes E n)" "sends key_ops (NewSigner E K name)"
proof -
  show e: "sends key_ops (ensureIdentityKey E)" unfolding ensureIdentityKey_def by (intro sends_intros listing_sends)
  show x: "sends key_ops (export_public E K name)" for name unfolding export_public_def by (intro sends_intros)
  show "sends key_ops (GenerateKeyPair E K)" unfolding GenerateKeyPair_def by (intro sends_intros e x)
  show "sends key_ops (kp_RandomBytes E n)" unfolding kp_RandomBytes_def by (intro sends_intros)
  show "sends key_ops (NewSigner E K name)" unfolding NewSigner_def by (intro sends_intros x)
qed

lemma signing_sends:
  "sends key_ops (kp_Sign E K data key)" "sends key_ops (kp_Verify E K data sig key)" "sg_sigAlg s = ecdsaSHA256 \<Longrightarrow> sends key_ops (signer_Sign E s digest opts)"
  unfolding kp_Sign_def kp_Verify_def signer_Sign_def by (intro sends_intros sends_case_key | simp add: basic_sends)+

lemma bind_sumE:
  assumes "go_bind x (\<lambda>(a, r). case r of Inl e \<Rightarrow> f a e | Inr v \<Rightarrow> g a v) = Value y"
  obtains a e where "x = Value (a, Inl e)" "f a e = Value y" | a v where "x = Value (a, Inr v)" "g a v = Value y"
proof -
  obtain a r where "x = Value (a, r)" "(case r of Inl e \<Rightarrow> f a e | Inr v \<Rightarrow> g a v) = Value y" using assms by (auto simp: go_bind_Value)
  then show ?thesis using that by (cases r) auto
qed

lemma select_sends: "sends key_ops (selectDefaultProvider E)" "sends key_ops (selectDefaultAuthenticator E config)"
proof -
  note l = listing_sends(1,2)[of E, unfolded sends_def, rule_format]
  show "sends key_ops (selectDefaultProvider E)"
    unfolding sends_def selectDefaultProvider_def by (auto elim!: bind_sumE dest!: l(1) split: list.splits)
  show "sends key_ops (selectDefaultAuthenticator E config)"
    unfolding sends_def selectDefaultAuthenticator_def by (auto elim!: bind_sumE dest!: l(2) split: option.splits)
qed

abbreviation quiet :: "wire_message pb_codec \<Rightarrow> basic_client \<Rightarrow> bool" where
  \<comment> \<open>a client with this codec that has asked for nothing else\<close>
  "quiet C bc \<equiv> pc_codec (bc_opclient bc) = C \<and> only_ops C key_ops (sent_by bc)"

lemma sends_quiet: "sends key_ops f \<Longrightarrow> f bc = Value (bc', r) \<Longrightarrow> quiet C bc \<Longrightarrow> quiet C bc'"
  by (auto simp: sends_def adds_only_def)

lemma CreateConfiguredClient_sends:
  assumes "CreateConfiguredClient E C endpoint config = Value (r0, Inr bc)"
  shows "quiet C bc"
proof -
  have n: "quiet C (naked C conn)" "quiet C ((naked C conn)\<lparr>bc_implicitProvider := p\<rparr>)" for conn p
    by (simp_all add: naked_def only_ops_def)
  note s = sends_quiet[OF select_sends(1)[of E]] sends_quiet[OF select_sends(2)[of E config]]
  show ?thesis
    using assms n unfolding CreateConfiguredClient_def
    by (auto elim!: bind_sumE dest!: s split: sum.splits option.splits)
qed

datatype key_call = CallGenerateKeyPair | CallSign bytes private_key | CallVerify bytes bytes private_key | CallRandomBytes int
  | CallNewSigner string | CallSignerSign string bytes "hash_func option"

definition drop_result :: "'r basic_call \<Rightarrow> unit basic_call" where
  "drop_result f = (\<lambda>bc. go_bind (f bc) (\<lambda>(bc, r). Value (bc, map_sum (\<lambda>e. e) (\<lambda>_. ()) r)))"

primrec do_call :: "parsec_env \<Rightarrow> 'p key_env \<Rightarrow> key_call \<Rightarrow> unit basic_call" where
  "do_call E K CallGenerateKeyPair = drop_result (GenerateKeyPair E K)"
| "do_call E K (CallSign data key) = drop_result (kp_Sign E K data key)"
| "do_call E K (CallVerify data sig key) = kp_Verify E K data sig key"
| "do_call E K (CallRandomBytes n) = drop_result (kp_RandomBytes E n)"
| "do_call E K (CallNewSigner name) = drop_result (NewSigner E K name)"
| "do_call E K (CallSignerSign name digest opts) =
     drop_result (signer_Sign E \<lparr>sg_keyName = name, sg_pub = (), sg_sigAlg = ecdsaSHA256\<rparr> digest opts)"

fun key_calls :: "parsec_env \<Rightarrow> 'p key_env \<Rightarrow> key_call list \<Rightarrow> basic_client \<Rightarrow> basic_client go" where
  \<comment> \<open>a use of the provider: calls in any order, whether they succeed or not\<close>
  "key_calls E K [] bc = Value bc"
| "key_calls E K (call # calls) bc = go_bind (do_call E K call bc) (\<lambda>(bc, r). key_calls E K calls bc)"

lemma drop_result_sends: "sends S f \<Longrightarrow> sends S (drop_result f)"
  unfolding drop_result_def by (intro sends_intros)

lemma do_call_sends: "sends key_ops (do_call E K call)"
  by (cases call) (simp_all add: drop_result_sends provider_sends signing_sends)

lemma key_calls_sends: "key_calls E K calls bc = Value bc' \<Longrightarrow> quiet C bc \<Longrightarrow> quiet C bc'"
proof (induction calls arbitrary: bc)
  case (Cons call calls)
  then obtain bc1 r where "do_call E K call bc = Value (bc1, r)" "key_calls E K calls bc1 = Value bc'" by (auto simp: go_bind_Value)
  with Cons.IH[of bc1] Cons.prems(2) show ?case using sends_quiet[OF do_call_sends] by blast
qed simp

lemma NewKeyProvider_sends:
  assumes "NewKeyProvider E C endpoint socketPath = Value (r0, Inr bc)"
  shows "quiet C bc"
  using assms sends_quiet[OF provider_sends(1)[of E]] CreateConfiguredClient_sends unfolding NewKeyProvider_def ensureConfigSealKey_def
  by (fastforce elim!: bind_sumE)

text \<open>
  C16. The private key stays in the hardware. Whatever the service answers, from the creation of the provider on and over any
  sequence of its calls and of those of its signers, every request the satellite writes is a header followed by the
  message of one of eight operations; neither the export of a key nor its import or destruction is among them, and the
  only key the service is ever told to generate is the identity key, whose message gives no permission to export or copy it and
  binds it to ECDSA with SHA-256, the algorithm every signature request names.
\<close>

theorem private_key_stays:
  assumes "NewKeyProvider E C endpoint socketPath = Value (r0, Inr bc)" "key_calls E K calls bc = Value bc'" "b \<in> set (sent_by bc')"
  shows "\<exists>h req body tok. b = header_bytes h @ body @ tok \<and> wh_opCode h = op_code req \<and> pb_Marshal C req = Inr body \<and> req \<in> key_ops \<and>
    wh_opCode h \<notin> {op_code (PsaExportKey n), op_code (PsaImportKey n m d), op_code (PsaDestroyKey n)} \<and>
    (\<forall>name attrs. req = PsaGenerateKey name attrs \<longrightarrow> name = identityKeyName \<and>
       (\<exists>ka pol flags. attrs = MsgAttributes ka \<and> pa_KeyPolicy ka = Some pol \<and> pp_KeyUsageFlags pol = Some flags \<and> \<not> pu_Export flags \<and> \<not> pu_Copy flags))"
proof -
  obtain req where req: "req \<in> key_ops" "is_request C req b"
    using key_calls_sends[OF assms(2) NewKeyProvider_sends[OF assms(1)]] assms(3) by (auto simp: only_ops_def)
  then obtain h body tok where h: "b = header_bytes h @ body @ tok" "wh_opCode h = op_code req" "pb_Marshal C req = Inr body"
    by (auto simp: is_request_def)
  have "op_code req \<notin> {op_code (PsaExportKey n), op_code (PsaImportKey n m d), op_code (PsaDestroyKey n)}"
    using req(1) by (auto simp: key_ops_def)
  moreover have "name = identityKeyName \<and> attrs = MsgAttributes identity_message" if "req = PsaGenerateKey name attrs" for name attrs
    using req(1) that by (auto simp: key_ops_def)
  ultimately show ?thesis using h req(1) by (intro exI[of _ h] exI[of _ req] exI[of _ body] exI[of _ tok]) (auto simp: identity_message_def)
qed

section \<open>Witnesses\<close>

definition echo_env :: parsec_env where
  \<comment> \<open>a service that answers with the header and the body it was sent\<close>
  "echo_env = \<lparr>pe_Dial = (\<lambda>_. Inr ()), pe_Write = (\<lambda>_. Inr ()), pe_Read = (\<lambda>bs. Inr (last bs)), pe_Close = Inr (), pe_Uid = Inr ''1000''\<rparr>"

definition echo_codec :: "wire_message pb_codec" where
  "echo_codec = \<lparr>pb_Marshal = (\<lambda>_. Inr [7]), pb_versions = (\<lambda>_. Inr (1, 0)), pb_unit = (\<lambda>_ _. Inr ()), pb_data = (\<lambda>_ d. Inr d),
     pb_opcodes = (\<lambda>_. Inr []), pb_clients = (\<lambda>_. Inr []),
     pb_providers = (\<lambda>_. Inr [\<lparr>pi_Uuid = [], pi_Description = [], pi_Vendor = [], pi_Version = (1, 0, 0), pi_Id = 3\<rparr>]),
     pb_authenticators = (\<lambda>_. Inr []), pb_keys = (\<lambda>_. Inr [])\<rparr>"

definition echo_client :: "bytes list \<Rightarrow> wire_message parsec_client" where
  "echo_client sent = \<lparr>pc_conn = \<lparr>co_rwc = False, co_path = ''/run/parsec/parsec.sock''\<rparr>, pc_codec = echo_codec, pc_sent = sent\<rparr>"

definition echo_request :: "8 word \<Rightarrow> wire_message psa_operation \<Rightarrow> bytes" where
  "echo_request p req = header_bytes (request_header p req [7] \<lparr>at_buf = [], at_authType = 0\<rparr>) @ [7]"

lemma echo_operation:
  assumes "provider_IsValid p" "um [7] = Inr v"
  shows "operation echo_env p NoAuth req um (echo_client sent) = Value (echo_client (sent @ [echo_request p req]), Inr v)"
proof -
  let ?h = "request_header p req [7] \<lparr>at_buf = [], at_authType = 0\<rparr>"
  have "header_ok ?h" by (rule request_header_ok[of _ "Inr []" NoAuth]) (simp_all add: assms request_auth_defs)
  then have "ParseResponse (op_code req) (Some (header_bytes ?h @ [7])) um = Value (Inr v)"
    unfolding ParseResponse_ok using assms(2) by (intro exI[of _ ?h] exI[of _ "[7]"] exI[of _ "[]"]) (simp add: request_header_def)
  then show ?thesis
    by (simp add: operation_def conn_Open_def conn_Close_def conn_Write_def conn_Read_def echo_env_def echo_client_def echo_codec_def
        NewRequest_def request_Pack_def checkForRequest_def header_pack_def isSupportedWireHeaderVersion_def authType_IsValid_def
        echo_request_def request_header_def request_auth_defs Let_def)
qed

lemmas echo_eval = identity_toWire signature_toWire converting_def client_calls Let_def echo_operation provider_IsValid_def with_op_def crypto_op_def HasCrypto_def

definition echo_sent :: "bytes list" where
  "echo_sent = [echo_request 0 ListProviders, echo_request 0 ListAuthenticators, echo_request 0 ListKeys, echo_request 3 (PsaGenerateKey identityKeyName (MsgAttributes identity_message))]"

definition echo_provider :: "bytes list \<Rightarrow> basic_client" where
  "echo_provider sent = \<lparr>bc_opclient = echo_client sent, bc_auth = NoAuth, bc_implicitProvider = 3\<rparr>"

lemma echo_codec_at:
  "pb_providers (pc_codec (echo_client s)) b = Inr [\<lparr>pi_Uuid = [], pi_Description = [], pi_Vendor = [], pi_Version = (1, 0, 0), pi_Id = 3\<rparr>]"
  "pb_authenticators (pc_codec (echo_client s)) b = Inr []" "pb_keys (pc_codec (echo_client s)) b = Inr []"
  "pb_unit (pc_codec (echo_client s)) op b = Inr ()" "pb_data (pc_codec (echo_client s)) op b = Inr b"
  by (simp_all add: echo_client_def echo_codec_def)

lemma echo_starts: "NewKeyProvider echo_env echo_codec [] ''/run/parsec/parsec.sock'' = Value (Some (echo_provider echo_sent), Inr (echo_provider echo_sent))"
proof -
  have "NewDefaultConnection ''unix:/run/parsec/parsec.sock'' = Inr \<lparr>co_rwc = False, co_path = ''/run/parsec/parsec.sock''\<rparr>" by code_simp
  moreover have "naked echo_codec \<lparr>co_rwc = False, co_path = ''/run/parsec/parsec.sock''\<rparr> =
      \<lparr>bc_opclient = echo_client [], bc_auth = NoAuth, bc_implicitProvider = 0\<rparr>"
    by (simp add: naked_def echo_client_def)
  ultimately show ?thesis
    by (simp add: NewKeyProvider_def CreateConfiguredClient_def NewClientConfig_def selectDefaultProvider_def basic_ListProviders_def
        selectDefaultAuthenticator_def basic_ListAuthenticators_def ensureIdentityKey_def basic_ListKeys_def basic_PsaGenerateKey_def
        ensureConfigSealKey_def newProviderInfoFromOp_def echo_eval echo_codec_at echo_provider_def echo_sent_def)
qed

theorem private_key_stays_witness:
  "\<exists>h rest. echo_request 3 (PsaSignHash identityKeyName [1] signature_message) = header_bytes h @ rest \<and>
     wh_opCode h \<notin> {op_code (PsaExportKey [] :: wire_message psa_operation), op_code (PsaImportKey [] signature_message [] :: wire_message psa_operation)}"
proof -
  let ?K = "\<lparr>ke_sha256 = (\<lambda>_. [1]), ke_ParsePKIXPublicKey = Inr\<rparr>" and ?r = "echo_request 3 (PsaSignHash identityKeyName [1] signature_message)"
  have "key_calls echo_env ?K [CallSign [5] (KeyRef identityKeyName)] (echo_provider echo_sent) = Value (echo_provider (echo_sent @ [?r]))"
    by (simp add: drop_result_def kp_Sign_def basic_PsaSignHash_def echo_eval echo_codec_at echo_provider_def)
  from private_key_stays[OF echo_starts this, of ?r "[]" signature_message "[]"] show ?thesis by (auto simp: echo_provider_def echo_client_def)
qed

end
