(* ===== verification/Startup.thy ===== *)
theory Startup
  imports Container_Runtime Satellite_Run Hot_Reload Parsec_Keys
begin

text \<open>
  Starting a satellite: the checks of \<^verbatim>\<open>main\<close> and the part of \<^verbatim>\<open>run\<close> (\<^verbatim>\<open>cmd/harbor-satellite/main.go\<close>) before the schedulers, with
  the storage paths of \<^verbatim>\<open>pkg/config/paths.go\<close>; the set-up of the local registry (\<^verbatim>\<open>registry/manager.go\<close>); and the end,
  \<^verbatim>\<open>gracefulShutdown\<close>. The options are an argument: parsing flags and the environment is left to the standard library.
\<close>

section \<open>Paths\<close>

record host_env =
  ho_UserHomeDir :: "string result"
  ho_UserConfigDir :: "string result"
  ho_Abs :: "string \<Rightarrow> string result"
  ho_MkdirAll :: "string \<Rightarrow> unit result"
  ho_WriteFile :: "string \<Rightarrow> unit result"
  ho_Remove :: "string \<Rightarrow> unit result"
  ho_Stat :: "string \<Rightarrow> bool option"

record path_config =
  pc_ConfigDir :: string
  pc_ConfigFile :: string
  pc_PrevConfigFile :: string
  pc_ZotTempConfig :: string
  pc_ZotStorageDir :: string
  pc_StateFile :: string

definition expandPath :: "host_env \<Rightarrow> string \<Rightarrow> string result" where
  "expandPath H path =
     (if path \<noteq> ''~'' \<and> \<not> hasPrefix path ''~/'' then Inr path
      else case ho_UserHomeDir H of
        Inl err \<Rightarrow> Inl (''get home directory: '' @ err)
      | Inr home \<Rightarrow> if path = ''~'' then Inr home else Inr (filepath_Join home (drop 2 path)))"

definition ensureDir :: "host_env \<Rightarrow> string \<Rightarrow> unit result" where
  "ensureDir H path =
     (case ho_MkdirAll H path of
        Inl err \<Rightarrow> Inl (''create directory '' @ path @ '': '' @ err)
      | Inr _ \<Rightarrow> (case ho_WriteFile H (filepath_Join path ''.write-test'') of
          Inl err \<Rightarrow> Inl (''directory '' @ path @ '' not writable: '' @ err)
        | Inr _ \<Rightarrow> (case ho_Remove H (filepath_Join path ''.write-test'') of
            Inl err \<Rightarrow> Inl (''clean up write test in '' @ path @ '': '' @ err) | Inr _ \<Rightarrow> Inr ())))"


definition ResolvePathConfig :: "host_env \<Rightarrow> string \<Rightarrow> path_config result" where
  "ResolvePathConfig H configDir =
     (case expandPath H configDir of
        Inl err \<Rightarrow> Inl (''expand config directory path: '' @ err)
      | Inr expanded \<Rightarrow> (case ho_Abs H expanded of
          Inl err \<Rightarrow> Inl (''resolve absolute path: '' @ err)
        | Inr expanded \<Rightarrow> (case ensureDir H expanded of
            Inl err \<Rightarrow> Inl err
          | Inr _ \<Rightarrow> Inr \<lparr>pc_ConfigDir = expanded, pc_ConfigFile = filepath_Join expanded ''config.json'',
              pc_PrevConfigFile = filepath_Join expanded ''prev_config.json'', pc_ZotTempConfig = filepath_Join expanded ''zot-hot.json'',
              pc_ZotStorageDir = filepath_Join expanded ''zot'', pc_StateFile = filepath_Join expanded ''state.json''\<rparr>)))"

record zot_json =
  zj_Unmarshal :: "string \<Rightarrow> (string \<times> json) list result" \<comment> \<open>into \<^verbatim>\<open>map[string]any\<close>\<close>
  zj_MarshalIndent :: "(string \<times> json) list \<Rightarrow> string result"

definition BuildZotConfigWithStoragePath :: "zot_json \<Rightarrow> string \<Rightarrow> string result" where
  "BuildZotConfigWithStoragePath Z storageDir =
     (case zj_Unmarshal Z DefaultZotConfigJSON of
        Inl err \<Rightarrow> Inl (''unmarshal default Zot config: '' @ err)
      | Inr zotConfig \<Rightarrow> (case map_of zotConfig ''storage'' of
          Some (JObj storage) \<Rightarrow>
            (case zj_MarshalIndent Z (AList.update ''storage'' (JObj (AList.update ''rootDirectory'' (JStr storageDir) storage)) zotConfig) of
               Inl err \<Rightarrow> Inl (''marshal updated Zot config: '' @ err) | Inr t \<Rightarrow> Inr t)
        | _ \<Rightarrow> Inl ''invalid Zot config: storage section not found''))"

definition resolveLocalRegistryEndpoint :: "zot_json \<Rightarrow> config_manager \<Rightarrow> string result" where
  "resolveLocalRegistryEndpoint Z cm =
     (if GetOwnRegistry cm then Inr (FormatRegistryURL (GetLocalRegistryURL cm))
      else case zj_Unmarshal Z (GetRawZotConfig cm) of
        Inl err \<Rightarrow> Inl (''unmarshalling zot config: '' @ err)
      | Inr data \<Rightarrow> (case map_of data ''http'' of
          Some (JObj httpData) \<Rightarrow>
            (case (map_of httpData ''address'', map_of httpData ''port'') of
               (Some (JStr addr), Some (JStr port)) \<Rightarrow>
                 if addr = [] \<or> port = [] then Inl ''missing 'address' or 'port' in zot http config'' else Inr (addr @ '':'' @ port)
             | _ \<Rightarrow> Inl ''missing 'address' or 'port' in zot http config'')
        | _ \<Rightarrow> Inl ''missing 'http' section in zot config''))"

section \<open>Options\<close>

record satellite_options =
  so_JSONLogging :: bool
  so_GroundControlURL :: string
  so_Token :: string
  so_UseUnsecure :: bool
  so_Mirrors :: "string list"
  so_SPIFFEEnabled :: bool
  so_SPIFFEEndpointSocket :: string
  so_SPIFFEExpectedServerID :: string
  so_BYORegistry :: bool
  so_RegistryURL :: string
  so_RegistryUsername :: string
  so_RegistryPassword :: string
  so_ConfigDir :: string
  so_RegistryDataDir :: string
  so_NoRegistryFallback :: bool
  so_FallbackOnly :: bool
  so_HarborRegistryURL :: string
  so_DirectDelivery :: bool
  so_ImageDir :: string
  so_ParsecEnabled :: bool
  so_ParsecSocketPath :: string


definition secrets_from_env :: "string \<Rightarrow> string \<Rightarrow> satellite_options \<Rightarrow> satellite_options" where
  "secrets_from_env token password opts =
     opts\<lparr>so_Token := (if so_Token opts = [] then token else so_Token opts),
          so_RegistryPassword := (if so_RegistryPassword opts = [] then password else so_RegistryPassword opts)\<rparr>"



section \<open>Run\<close>

record ('c, 'j, 'r, 'x) start_env =
  st_host :: host_env
  st_sec :: "bool \<Rightarrow> sec_env" \<comment> \<open>the crypto provider: the Parsec one or AES\<close>
  st_venv :: venv
  st_parsec :: parsec_env
  st_codec :: "wire_message pb_codec"
  st_endpoint :: string \<comment> \<open>of the Parsec service, in the environment\<close>
  st_zot :: zot_json
  st_fs :: "'c file_env"
  st_libs :: "('c, 'j, 'r, 'x) cri_libs"
  st_detected :: "(string \<times> string) list"
  st_audit :: audit_env
  st_write :: write_outcome

record 'c start_world =
  su_files :: Config_Manager.files
  su_runtime :: "'c Container_Runtime.files"
  su_audit :: audit_world

datatype startup = AppliedOnly "cri_result list" | Ready config_manager "cri_result list" audit_logger "string list"

definition select_provider :: "('c, 'j, 'r, 'x) start_env \<Rightarrow> satellite_options \<Rightarrow> bool result go" where
  "select_provider X opts =
     (if so_ParsecEnabled opts
      then go_bind (MustDetect (st_parsec X) (st_codec X) (st_endpoint X) (so_ParsecSocketPath opts)) (\<lambda>r. case r of
             Inl err \<Rightarrow> Value (Inl (''parsec startup check failed: '' @ err))
           | Inr _ \<Rightarrow> go_bind (NewKeyProvider (st_parsec X) (st_codec X) (st_endpoint X) (so_ParsecSocketPath opts)) (\<lambda>(_, r).
               Value (case r of Inl err \<Rightarrow> Inl (''failed to init parsec provider: '' @ err) | Inr _ \<Rightarrow> Inr True)))
      else Value (Inr False))"

definition spiffe_flags :: "satellite_options \<Rightarrow> config_manager \<Rightarrow> config_manager" where
  "spiffe_flags opts cm =
     (if so_SPIFFEEnabled opts
      then With [SetSPIFFEConfig \<lparr>spf_Enabled = so_SPIFFEEnabled opts, spf_EndpointSocket = so_SPIFFEEndpointSocket opts,
             spf_ExpectedServerID = so_SPIFFEExpectedServerID opts\<rparr>] cm
      else cm)"

definition registry_flags :: "satellite_options \<Rightarrow> config_manager \<Rightarrow> config_manager" where
  "registry_flags opts cm =
     (if so_BYORegistry opts
      then With [SetBringOwnRegistry True, SetLocalRegistryURL (so_RegistryURL opts), SetLocalRegistryUsername (so_RegistryUsername opts),
             SetLocalRegistryPassword (so_RegistryPassword opts)] cm
      else cm)"

definition harbor_flags :: "satellite_options \<Rightarrow> config_manager \<Rightarrow> config_manager result" where
  "harbor_flags opts cm =
     (if so_HarborRegistryURL opts = [] then Inr cm
      else let cm = With [SetHarborRegistryURL (so_HarborRegistryURL opts)] cm in
        if \<not> IsZTRDone cm then Inr cm
        else case ApplyHarborRegistryOverride (GetStateConfig cm) (so_HarborRegistryURL opts) of
          Inl err \<Rightarrow> Inl (''apply harbor registry URL override: '' @ err) | Inr sc \<Rightarrow> Inr (With [SetStateConfig sc] cm))"

definition apply_flags :: "zot_json \<Rightarrow> satellite_options \<Rightarrow> path_config \<Rightarrow> config_manager \<Rightarrow> config_manager result" where
  "apply_flags Z opts pc cm =
     (case harbor_flags opts (registry_flags opts (spiffe_flags opts cm)) of
        Inl err \<Rightarrow> Inl err
      | Inr cm \<Rightarrow> (case BuildZotConfigWithStoragePath Z (pc_ZotStorageDir pc) of
          Inl err \<Rightarrow> Inl (''build Zot config: '' @ err) | Inr t \<Rightarrow> Inr (With [SetZotConfigRaw t] cm)))"

definition delivery_flags :: "host_env \<Rightarrow> satellite_options \<Rightarrow> config_manager \<Rightarrow> config_manager result" where
  "delivery_flags H opts cm =
     (if \<not> so_DirectDelivery opts then Inr cm
      else let imageDir = (if so_ImageDir opts = [] then detectImageDir (ho_Stat H) else so_ImageDir opts) in
        if imageDir = [] then Inl ''--direct-delivery enabled but no k3s/RKE2 image directory found; use --image-dir to specify one''
        else case ho_MkdirAll H imageDir of
          Inl err \<Rightarrow> Inl (''create image directory '' @ imageDir @ '': '' @ err)
        | Inr _ \<Rightarrow> Inr (With [SetDirectDelivery \<lparr>dd_Enabled = True, dd_ImageDir = imageDir\<rparr>] cm))"

definition finish_start ::
  "('c, 'j, 'r, 'x) start_env \<Rightarrow> sec_env \<Rightarrow> string list \<Rightarrow> config_manager \<Rightarrow> cri_result list \<Rightarrow> 'c start_world \<Rightarrow> 'c start_world \<times> startup result" where
  \<comment> \<open>the audit logger, and the configuration as it now is on disk\<close>
  "finish_start X E warnings cm criResults w =
     (case NewAuditLogger (st_audit X) (auditLoggerConfig (GetAuditConfig cm)) ''satellite'' (su_audit w) of
        (a, Inl err) \<Rightarrow> (w\<lparr>su_audit := a\<rparr>, Inl (''failed to initialize audit logger: '' @ err))
      | (a, Inr audit) \<Rightarrow> (case WriteConfig E (st_write X) cm (su_files w) of
          (fs, Inl err) \<Rightarrow> (w\<lparr>su_audit := a, su_files := fs\<rparr>, Inl err)
        | (fs, Inr _) \<Rightarrow> (w\<lparr>su_audit := a, su_files := fs\<rparr>, Inr (Ready cm criResults audit warnings))))"

definition configure_host ::
  "('c, 'j, 'r, 'x) start_env \<Rightarrow> sec_env \<Rightarrow> satellite_options \<Rightarrow> string list \<Rightarrow> config_manager \<Rightarrow> 'c start_world \<Rightarrow> 'c start_world \<times> startup result" where
  "configure_host X E opts warnings cm w =
     (case resolveLocalRegistryEndpoint (st_zot X) cm of
        Inl err \<Rightarrow> (w, Inl (''resolving local registry endpoint: '' @ err))
      | Inr endpoint \<Rightarrow>
          (case resolveCRIAndApply (st_fs X) (st_libs X) (st_detected X) cm (so_Mirrors opts) (so_NoRegistryFallback opts) endpoint (su_runtime w) of
             (rt, criResults) \<Rightarrow>
               (let w = w\<lparr>su_runtime := rt\<rparr> in
                if so_FallbackOnly opts then (w, Inr (AppliedOnly criResults))
                else case delivery_flags (st_host X) opts cm of
                  Inl err \<Rightarrow> (w, Inl err) | Inr cm \<Rightarrow> finish_start X E warnings cm criResults w)))"

definition run_start ::
  "('c, 'j, 'r, 'x) start_env \<Rightarrow> satellite_options \<Rightarrow> path_config \<Rightarrow> 'c start_world \<Rightarrow> ('c start_world \<times> startup result) go" where
  \<comment> \<open>\<^verbatim>\<open>run\<close> up to the first goroutine\<close>
  "run_start X opts pc w =
     go_bind (select_provider X opts) (\<lambda>provider. Value (case provider of
       Inl err \<Rightarrow> (w, Inl err)
     | Inr parsec \<Rightarrow>
         (let E = st_sec X parsec in
          case InitConfigManager E (st_venv X) (su_files w) (so_Token opts) (so_GroundControlURL opts) (pc_ConfigFile pc) (pc_PrevConfigFile pc)
                 (so_JSONLogging opts) (so_UseUnsecure opts) of
            (_, Inl err) \<Rightarrow> (w, Inl err)
          | (warnings, Inr cm) \<Rightarrow> (case apply_flags (st_zot X) opts pc cm of
              Inl err \<Rightarrow> (w, Inl err) | Inr cm \<Rightarrow> configure_host X E opts warnings cm w))))"

section \<open>The local registry\<close>

record zot_env =
  zo_CreateTemp :: "string result" \<comment> \<open>the name of a new file\<close>
  zo_Write :: write_outcome
  zo_Close :: "unit result"
  zo_Rename :: "unit result"
  zo_verify :: "string on_disk \<Rightarrow> unit result" \<comment> \<open>zot's own check of the file\<close>
  zo_serve :: "string on_disk \<Rightarrow> unit result" \<comment> \<open>running the registry until it is shut down\<close>
  zo_Remove :: "unit result"

definition WriteTempZotConfig :: "zot_env \<Rightarrow> string \<Rightarrow> string \<Rightarrow> Config_Manager.files \<Rightarrow> Config_Manager.files \<times> unit result" where
  "WriteTempZotConfig Z zotConfig tempConfPath fs =
     (case zo_CreateTemp Z of
        Inl err \<Rightarrow> (fs, Inl (''failed to create temp zot config file: '' @ err))
      | Inr tmp \<Rightarrow> (case os_WriteFile (zo_Write Z) fs tmp zotConfig of
          (fs, Inl err) \<Rightarrow> (fs, Inl (''failed to write to temp zot file present at '' @ tmp @ '': '' @ err))
        | (fs, Inr _) \<Rightarrow> (case zo_Close Z of
            Inl err \<Rightarrow> (fs, Inl (''failed to close temp zot config file '' @ tmp @ '': '' @ err))
          | Inr _ \<Rightarrow> (case zo_Rename Z of
              Inl err \<Rightarrow> (fs, Inl (''failed to rename to target config path: '' @ err))
            | Inr _ \<Rightarrow> (fs(tempConfPath := fs tmp, tmp := (if tmp = tempConfPath then fs tmp else Missing)), Inr ())))))"

definition RemoveTempZotConfig :: "zot_env \<Rightarrow> string \<Rightarrow> Config_Manager.files \<Rightarrow> Config_Manager.files" where
  \<comment> \<open>its error is only logged\<close>
  "RemoveTempZotConfig Z tmpPath fs = (case zo_Remove Z of Inl _ \<Rightarrow> fs | Inr _ \<Rightarrow> fs(tmpPath := Missing))"

definition HandleRegistrySetup :: "zot_env \<Rightarrow> string \<Rightarrow> string \<Rightarrow> Config_Manager.files \<Rightarrow> Config_Manager.files \<times> unit result" where
  "HandleRegistrySetup Z zotConfig tempConfPath fs =
     (case WriteTempZotConfig Z zotConfig tempConfPath fs of
        (fs, Inl err) \<Rightarrow> (fs, Inl (''error writing temp zot config to disk: '' @ err))
      | (fs, Inr _) \<Rightarrow>
          (RemoveTempZotConfig Z tempConfPath fs,
           case zo_verify Z (fs tempConfPath) of
             Inl err \<Rightarrow> Inl (''error verifying registry config: failed to validate zot config at '' @ tempConfPath @ '': '' @ err)
           | Inr _ \<Rightarrow> (case zo_serve Z (fs tempConfPath) of
               Inl err \<Rightarrow> Inl (''error launching default zot registry: '' @ err) | Inr _ \<Rightarrow> Inr ())))"

definition handleRegistrySetup ::
  "zot_env \<Rightarrow> path_config \<Rightarrow> config_manager \<Rightarrow> Config_Manager.files \<Rightarrow> config_manager \<times> Config_Manager.files \<times> unit result" where
  "handleRegistrySetup Z pc cm fs =
     (if GetOwnRegistry cm
      then (case HandleOwnRegistry cm of Inl err \<Rightarrow> (cm, fs, Inl err) | Inr cm \<Rightarrow> (cm, fs, Inr ()))
      else (case HandleRegistrySetup Z (GetRawZotConfig cm) (pc_ZotTempConfig pc) fs of
              (fs, Inl err) \<Rightarrow> (cm, fs, Inl (''default registry setup failed: '' @ err)) | (fs, Inr _) \<Rightarrow> (cm, fs, Inr ())))"

lemma own_registry_blocks_restart:
  \<comment> \<open>the scheme of the address of an own registry is cut off in memory; once that is written, validation refuses it and the satellite
      does not start again\<close>
  "let cm = With [SetBringOwnRegistry True, SetLocalRegistryURL ''http://10.0.0.5:5000''] sample_cm in
     is_ok (validateBringOwnRegistry (cm_config cm)) \<and>
     (case HandleOwnRegistry cm of Inr cm' \<Rightarrow> \<not> is_ok (validateBringOwnRegistry (cm_config cm')) | Inl _ \<Rightarrow> False)"
  by code_simp

section \<open>The end\<close>

definition shutdown_timeout :: "string \<Rightarrow> int" where
  "shutdown_timeout s = (case ParseDuration s of Inl _ \<Rightarrow> 30000000000 | Inr d \<Rightarrow> d)"

definition gracefulShutdown ::
  "state_codec \<Rightarrow> save_faults \<Rightarrow> string \<Rightarrow> bool \<Rightarrow> ('i, 'r) satellite \<Rightarrow> Config_Manager.files \<Rightarrow> Config_Manager.files list \<times> unit result" where
  \<comment> \<open>given whether the schedulers and goroutines were done before \<^const>\<open>shutdown_timeout\<close> ran out; a failure to persist is only logged\<close>
  "gracefulShutdown J F tmpName completed s fs =
     (if \<not> completed then ([fs], Inl ''graceful shutdown timeout exceeded'')
      else (fst (satellite_PersistState J F tmpName s fs), Inr ()))"

section \<open>What a start achieves\<close>

lemma resolved_paths_differ:
  assumes "ResolvePathConfig H dir = Inr pc"
  shows "distinct [pc_ConfigFile pc, pc_PrevConfigFile pc, pc_ZotTempConfig pc, pc_StateFile pc]"
  using assms by (auto simp: ResolvePathConfig_def filepath_Join_name split: sum.splits)



















lemma failed_start_keeps_config:
  assumes "run_start X opts pc w = Value (w', Inl err)" "st_write X = Written"
  shows "su_files w' = su_files w"
  using assms by (cases "select_provider X opts")
    (auto simp: run_start_def configure_host_def finish_start_def WriteConfig_def writeConfigUnlocked_def Let_def split: sum.splits prod.splits if_splits)

section \<open>A concrete start\<close>












end
