(* ===== verification/GC_Spire.thy ===== *)
theory GC_Spire
  imports GC_Satellites GC_Spiffe GC_Onboarding
begin

text \<open>
  The SPIRE management of ground control (\<^verbatim>\<open>server/spire_handlers.go\<close>) and its client of the SPIRE server
  (\<^verbatim>\<open>spiffe/server_client.go\<close>). The server is a state of any type, reached only through the calls of its API, which are an
  argument; it stands beside the world of the other handlers. A listing of agents is a loop over the pages the server hands out,
  which may never end: then the handler gives no response, \<open>None\<close>.
\<close>

section \<open>The SPIRE server\<close>

record spire_agent =
  ag_Id :: "spiffe_id option"
  ag_AttestationType :: string
  ag_X509SvidExpiresAt :: int
  ag_Selectors :: "(string \<times> string) list"

record spire_entry =
  en_ParentId :: spiffe_id
  en_SpiffeId :: spiffe_id
  en_Selectors :: "(string \<times> string) list"

record create_result =
  cr_Entry :: "string option" \<comment> \<open>the identifier of the entry\<close>
  cr_Status :: "(int \<times> string) option"

record 's spire_api =
  sp_CreateJoinToken :: "spiffe_id \<Rightarrow> int \<Rightarrow> 's \<Rightarrow> string result \<times> 's"
  sp_BatchCreateEntry :: "spire_entry \<Rightarrow> 's \<Rightarrow> create_result list result \<times> 's"
  sp_BatchDeleteEntry :: "string \<Rightarrow> 's \<Rightarrow> (int \<times> string) list result \<times> 's" \<comment> \<open>a status for each identifier\<close>
  sp_ListAgents :: "string \<Rightarrow> string option \<Rightarrow> 's \<Rightarrow> (spire_agent list \<times> string) result" \<comment> \<open>a page and the token of the next one\<close>

section \<open>The client\<close>

record 's spire_client =
  sc_api :: "'s spire_api"
  sc_trustDomain :: string

type_synonym ('h, 's, 'a) spire = "('s \<times> (json, 'h) gc_world, 'a) state"

definition on_gc :: "(json, 'h, 'a) gc \<Rightarrow> ('h, 's, 'a) spire" where
  "on_gc m = State (\<lambda>(s, w). case run_state m w of (r, w') \<Rightarrow> (r, s, w'))"

definition on_spire :: "('s \<Rightarrow> 'a \<times> 's) \<Rightarrow> ('h, 's, 'a) spire" where
  "on_spire f = State (\<lambda>(s, w). case f s of (r, s') \<Rightarrow> (r, s', w))"

definition extractPath :: "string \<Rightarrow> string \<Rightarrow> string" where
  "extractPath spiffeID trustDomain =
     (let pre = ''spiffe://'' @ trustDomain in
      if hasPrefix spiffeID pre then trimPrefix spiffeID pre
      else if hasPrefix spiffeID ''/'' then spiffeID else ''/'' @ spiffeID)"

definition at_domain :: "'s spire_client \<Rightarrow> string \<Rightarrow> spiffe_id" where
  "at_domain c spiffeID = \<lparr>sid_TrustDomain = sc_trustDomain c, sid_Path = extractPath spiffeID (sc_trustDomain c)\<rparr>"

definition CreateJoinToken :: "'s spire_client \<Rightarrow> string \<Rightarrow> int \<Rightarrow> 's \<Rightarrow> string result \<times> 's" where
  \<comment> \<open>with the lifetime in seconds, as an \<^verbatim>\<open>int32\<close>\<close>
  "CreateJoinToken c spiffeID ttl s =
     (case sp_CreateJoinToken (sc_api c) (at_domain c spiffeID) (to_int32 ttl) s of
        (Inl err, s') \<Rightarrow> (Inl (''create join token: '' @ err), s') | (Inr token, s') \<Rightarrow> (Inr token, s'))"

fun parse_selectors :: "string list \<Rightarrow> (string \<times> string) list result" where
  "parse_selectors [] = Inr []"
| "parse_selectors (sel # sels) =
     (case split2 CHR '':'' sel of
        [t, v] \<Rightarrow> map_sum (\<lambda>e. e) ((#) (t, v)) (parse_selectors sels)
      | _ \<Rightarrow> Inl (''invalid selector format '' @ [CHR 0x22] @ sel @ [CHR 0x22] @ '', expected type:value''))"

definition created_id :: "create_result list \<Rightarrow> string result" where
  \<comment> \<open>what \<^verbatim>\<open>CreateWorkloadEntry\<close> makes of the results\<close>
  "created_id results =
     (case results of
        [] \<Rightarrow> Inl ''create workload entry: empty response''
      | r # _ \<Rightarrow> (case cr_Entry r of
          None \<Rightarrow> Inl ''create workload entry: empty response''
        | Some entryID \<Rightarrow> (case cr_Status r of
            Some (code, message) \<Rightarrow> if code \<noteq> 0 then Inl (''create workload entry: status '' @ show_int code @ '' - '' @ message) else Inr entryID
          | None \<Rightarrow> Inr entryID)))"

definition CreateWorkloadEntry :: "'s spire_client \<Rightarrow> string \<Rightarrow> string \<Rightarrow> string list \<Rightarrow> 's \<Rightarrow> string result \<times> 's" where
  "CreateWorkloadEntry c parentID spiffeID selectors s =
     (case parse_selectors selectors of
        Inl err \<Rightarrow> (Inl err, s)
      | Inr selectorList \<Rightarrow>
          (case sp_BatchCreateEntry (sc_api c) \<lparr>en_ParentId = at_domain c parentID, en_SpiffeId = at_domain c spiffeID, en_Selectors = selectorList\<rparr> s of
             (Inl err, s') \<Rightarrow> (Inl (''create workload entry: '' @ err), s')
           | (Inr results, s') \<Rightarrow> (created_id results, s')))"

definition DeleteWorkloadEntry :: "'s spire_client \<Rightarrow> string \<Rightarrow> 's \<Rightarrow> unit result \<times> 's" where
  \<comment> \<open>the statuses are not looked at\<close>
  "DeleteWorkloadEntry c entryID s =
     (case sp_BatchDeleteEntry (sc_api c) entryID s of
        (Inl err, s') \<Rightarrow> (Inl (''delete workload entry '' @ entryID @ '': '' @ err), s') | (Inr _, s') \<Rightarrow> (Inr (), s'))"

record agent_info =
  inf_SpiffeID :: string
  inf_AttestationType :: string
  inf_Selectors :: "string list"
  inf_ExpiresAt :: "int option" \<comment> \<open>\<open>None\<close> is the zero time\<close>

fun agents_of_page :: "spire_agent list \<Rightarrow> agent_info list" where
  "agents_of_page [] = []"
| "agents_of_page (a # as) =
     (case ag_Id a of
        None \<Rightarrow> agents_of_page as
      | Some i \<Rightarrow> \<lparr>inf_SpiffeID = spiffe_String i, inf_AttestationType = ag_AttestationType a,
          inf_Selectors = map (\<lambda>(t, v). t @ '':'' @ v) (ag_Selectors a),
          inf_ExpiresAt = (if ag_X509SvidExpiresAt a > 0 then Some (ag_X509SvidExpiresAt a) else None)\<rparr> # agents_of_page as)"

partial_function (option) list_pages ::
  "(string \<Rightarrow> (spire_agent list \<times> string) result) \<Rightarrow> string \<Rightarrow> agent_info list \<Rightarrow> agent_info list result option" where
  [code]: "list_pages page pageToken agents =
     (case page pageToken of
        Inl err \<Rightarrow> Some (Inl (''list agents: '' @ err))
      | Inr (found, nextToken) \<Rightarrow>
          (let agents = agents @ agents_of_page found in
           if nextToken = [] then Some (Inr agents) else list_pages page nextToken agents))"

definition ListAgents :: "'s spire_client \<Rightarrow> string \<Rightarrow> 's \<Rightarrow> agent_info list result option" where
  "ListAgents c attestationType s =
     list_pages (\<lambda>pageToken. sp_ListAgents (sc_api c) pageToken (if attestationType \<noteq> [] then Some attestationType else None) s) [] []"

section \<open>The handlers\<close>

record 's spire_config =
  ss_provider :: "string option" \<comment> \<open>the trust domain of \<^verbatim>\<open>s.spiffeProvider\<close>\<close>
  ss_embedded :: bool
  ss_client :: "'s spire_client option"
  ss_address :: string
  ss_port :: int
  ss_trustDomain :: string

record spire_status =
  st_Enabled :: bool
  st_TrustDomain :: string
  st_Provider :: string
  st_Connected :: bool

definition spireStatusHandler :: "'s spire_config \<Rightarrow> spire_status response" where
  "spireStatusHandler S =
     (let enabled = (ss_provider S \<noteq> None \<or> ss_client S \<noteq> None) in
      WriteJSONResponse 200
        (case ss_provider S of
           Some td \<Rightarrow> \<lparr>st_Enabled = enabled, st_TrustDomain = td, st_Provider = ''sidecar'', st_Connected = True\<rparr>
         | None \<Rightarrow>
             if ss_embedded S
             then \<lparr>st_Enabled = enabled, st_TrustDomain = ss_trustDomain S, st_Provider = ''embedded'', st_Connected = (ss_client S \<noteq> None)\<rparr>
             else if ss_client S \<noteq> None
             then \<lparr>st_Enabled = enabled, st_TrustDomain = ss_trustDomain S, st_Provider = ''external'', st_Connected = True\<rparr>
             else \<lparr>st_Enabled = enabled, st_TrustDomain = [], st_Provider = [], st_Connected = False\<rparr>))"

record spire_register =
  sr_SatelliteName :: string
  sr_Region :: string
  sr_Selectors :: "string list"
  sr_AttestationMethod :: string
  sr_TTLSeconds :: int
  sr_ParentAgentID :: string

record spire_registered =
  sg_Satellite :: string
  sg_Region :: string
  sg_SpiffeID :: string
  sg_ParentAgentID :: string
  sg_JoinToken :: string
  sg_ExpiresAt :: "int option"
  sg_SpireServerAddress :: string
  sg_SpireServerPort :: int
  sg_TrustDomain :: string

definition validate_register :: "spire_register \<Rightarrow> (string \<times> int) option" where
  \<comment> \<open>the checks before anything is done\<close>
  "validate_register req =
     (if sr_SatelliteName req = [] then Some (''satellite_name is required'', 400)
      else if sr_Selectors req = [] then Some (''selectors is required'', 400)
      else case find (\<lambda>sel. CHR '':'' \<notin> set sel) (sr_Selectors req) of
        Some sel \<Rightarrow> Some (''invalid selector format '' @ [CHR 0x22] @ sel @ [CHR 0x22] @ '': must contain '' @ [CHR 0x27, CHR '':'', CHR 0x27], 400)
      | None \<Rightarrow>
          if sr_AttestationMethod req \<notin> {''join_token'', ''x509pop'', ''sshpop''}
          then Some (''attestation_method must be one of: join_token, x509pop, sshpop'', 400)
          else if sr_AttestationMethod req = ''sshpop'' \<and> sr_ParentAgentID req = []
          then Some (''parent_agent_id is required for sshpop attestation'', 400)
          else None)"

definition with_defaults :: "spire_register \<Rightarrow> spire_register" where
  "with_defaults req =
     (let req = (if sr_Region req = [] then req\<lparr>sr_Region := ''default''\<rparr> else req);
          req = (if sr_TTLSeconds req \<le> 0 then req\<lparr>sr_TTLSeconds := 600\<rparr> else req)
      in if sr_TTLSeconds req > 86400 then req\<lparr>sr_TTLSeconds := 86400\<rparr> else req)"

fun agent_with_selector :: "string \<Rightarrow> agent_info list \<Rightarrow> string" where
  \<comment> \<open>the two loops over the agents; an agent with an empty identifier does not end them\<close>
  "agent_with_selector sel [] = []"
| "agent_with_selector sel (a # as) =
     (if sel \<in> set (inf_Selectors a) \<and> inf_SpiffeID a \<noteq> [] then inf_SpiffeID a else agent_with_selector sel as)"

definition parent_agent ::
  "'s spire_config \<Rightarrow> 's spire_client \<Rightarrow> spire_register \<Rightarrow>
   ('h, 's, ((string \<times> int) + string \<times> string \<times> int option) option) spire" where
  \<comment> \<open>the identity of the parent agent, and a join token with its expiry\<close>
  "parent_agent S c req =
     (if sr_AttestationMethod req = ''join_token''
      then let agentSpiffeID = ''spiffe://'' @ ss_trustDomain S @ ''/agent/'' @ sr_SatelliteName req in
           check_err (on_spire (CreateJoinToken c agentSpiffeID (sr_TTLSeconds req)))
             (\<lambda>_. ret (Some (Inl (''Failed to create join token'', 500))))
             (\<lambda>token. do {
                now \<leftarrow> on_gc (gets w_now);
                ret (Some (Inr (agentSpiffeID, token, Some (now + sr_TTLSeconds req * 1000000000))))
              })
      else if sr_AttestationMethod req = ''x509pop'' \<and> sr_ParentAgentID req = []
      then do {
        found \<leftarrow> on_spire (\<lambda>s. (ListAgents c ''x509pop'' s, s));
        ret (case found of
               None \<Rightarrow> None
             | Some (Inl _) \<Rightarrow> Some (Inl (''Failed to list agents'', 500))
             | Some (Inr agents) \<Rightarrow>
                 (let expectedSelector = ''x509pop:subject:cn:'' @ sr_SatelliteName req;
                      agentSpiffeID = agent_with_selector expectedSelector agents
                  in if agentSpiffeID = [] then Some (Inl (''no x509pop agent found with selector '' @ [CHR 0x22] @ expectedSelector @ [CHR 0x22], 404))
                     else Some (Inr (agentSpiffeID, [], None))))
      }
      else ret (Some (Inr (sr_ParentAgentID req, [], None))))"

definition spire_accounts :: "(json, 'h) gc_env \<Rightarrow> satellite_row \<Rightarrow> (json, 'h, int \<times> ((string \<times> int) + unit)) gc" where
  \<comment> \<open>the robot account and the configuration of the new satellite\<close>
  "spire_accounts e satellite = do {
     (harborRobotID, res) \<leftarrow> ensureSatelliteRobotAccount e True satellite;
     case res of
       Inl err \<Rightarrow> ret (harborRobotID, Inl (''Failed to create robot account: '' @ err, 500))
     | Inr _ \<Rightarrow>
         check_err (ensureSatelliteConfig e True satellite) (\<lambda>err. ret (harborRobotID, Inl (''Failed to ensure satellite config: '' @ err, 500)))
           (\<lambda>_. ret (harborRobotID, Inr ()))
   }"

definition spire_register_body :: "(json, 'h) gc_env \<Rightarrow> string \<Rightarrow> (json, 'h, int \<times> ((string \<times> int) + unit)) gc" where
  "spire_register_body e name = do {
     now \<leftarrow> gets w_now;
     check_err (tx_call e (CreateSatellite now name)) (\<lambda>_. reject (''Failed to create satellite record'', 500)) (spire_accounts e)
   }"

definition create_record :: "(json, 'h) gc_env \<Rightarrow> string \<Rightarrow> (json, 'h, (string \<times> int) + unit) gc" where
  \<comment> \<open>the satellite is created unless it is found; any error of the query counts as not found\<close>
  "create_record e name =
     check_err (db_call e (GetSatelliteByName name))
       (\<lambda>_. with_tx e (\<lambda>_. (''Failed to begin transaction'', 500)) (\<lambda>_. (''Failed to commit satellite creation'', 500)) (spire_register_body e name))
       (\<lambda>_. ret (Inr ()))"

definition registered_reply :: "'s spire_config \<Rightarrow> spire_register \<Rightarrow> string \<Rightarrow> string \<times> string \<times> int option \<Rightarrow> spire_registered" where
  "registered_reply S req workloadSpiffeID agent =
     (case agent of (agentSpiffeID, joinToken, expiresAt) \<Rightarrow>
        \<lparr>sg_Satellite = sr_SatelliteName req, sg_Region = sr_Region req, sg_SpiffeID = workloadSpiffeID, sg_ParentAgentID = agentSpiffeID,
         sg_JoinToken = joinToken, sg_ExpiresAt = expiresAt, sg_SpireServerAddress = ss_address S, sg_SpireServerPort = ss_port S,
         sg_TrustDomain = ss_trustDomain S\<rparr>)"

definition workload_id :: "'s spire_config \<Rightarrow> spire_register \<Rightarrow> string" where
  "workload_id S req = ''spiffe://'' @ ss_trustDomain S @ ''/satellite/region/'' @ sr_Region req @ ''/'' @ sr_SatelliteName req"

definition register_with_entry ::
  "(json, 'h) gc_env \<Rightarrow> 's spire_config \<Rightarrow> 's spire_client \<Rightarrow> spire_register \<Rightarrow> string \<times> string \<times> int option \<Rightarrow>
   ('h, 's, spire_registered response) spire" where
  \<comment> \<open>the workload entry and the record of the satellite; the deferred function removes the entry when the record was not committed
      (it does so before it deletes the robot account and rolls back, which concern other systems)\<close>
  "register_with_entry e S c req agent =
     check_err (on_spire (CreateWorkloadEntry c (fst agent) (workload_id S req) (sr_Selectors req)))
       (\<lambda>_. ret (app_error ''Failed to create workload entry'' 500))
       (\<lambda>workloadEntryID.
          check_err (on_gc (create_record e (sr_SatelliteName req)))
            (\<lambda>(m, code). do { _ \<leftarrow> on_spire (DeleteWorkloadEntry c workloadEntryID); ret (app_error m code) })
            (\<lambda>_. ret (WriteJSONResponse 200 (registered_reply S req (workload_id S req) agent))))"

definition registerSatelliteWithSPIFFEHandler ::
  "(json, 'h) gc_env \<Rightarrow> 's spire_config \<Rightarrow> spire_register option \<Rightarrow> ('h, 's, spire_registered response option) spire" where
  "registerSatelliteWithSPIFFEHandler e S body =
     (case body of
        None \<Rightarrow> ret (Some (app_error ''Invalid request body'' 400))
      | Some req \<Rightarrow> (case validate_register req of
          Some (m, code) \<Rightarrow> ret (Some (app_error m code))
        | None \<Rightarrow> (case ss_client S of
            None \<Rightarrow> ret (Some (app_error ''SPIRE server not configured'' 503))
          | Some c \<Rightarrow> do {
              agent \<leftarrow> parent_agent S c (with_defaults req);
              case agent of
                None \<Rightarrow> ret None
              | Some (Inl (m, code)) \<Rightarrow> ret (Some (app_error m code))
              | Some (Inr a) \<Rightarrow> do { resp \<leftarrow> register_with_entry e S c (with_defaults req) a; ret (Some resp) }
            })))"

definition listSpireAgentsHandler :: "'s spire_config \<Rightarrow> string \<Rightarrow> ('h, 's, agent_info list response option) spire" where
  \<comment> \<open>given the query parameter\<close>
  "listSpireAgentsHandler S attestationType =
     (case ss_client S of
        None \<Rightarrow> ret (Some (app_error ''SPIRE server not configured'' 503))
      | Some c \<Rightarrow> do {
          found \<leftarrow> on_spire (\<lambda>s. (ListAgents c attestationType s, s));
          ret (case found of
                 None \<Rightarrow> None
               | Some (Inl _) \<Rightarrow> Some (app_error ''Failed to list agents'' 500)
               | Some (Inr agents) \<Rightarrow> Some (WriteJSONResponse 200 agents))
        })"

section \<open>Listing agents\<close>

declare list_pages.simps [simp del]

inductive page_chain :: "(string \<Rightarrow> (spire_agent list \<times> string) result) \<Rightarrow> string \<Rightarrow> spire_agent list \<Rightarrow> bool" where
  \<comment> \<open>the pages from a token on, up to one without a next token\<close>
  last_page: "page t = Inr (found, []) \<Longrightarrow> page_chain page t found"
| more_pages: "page t = Inr (found, t') \<Longrightarrow> t' \<noteq> [] \<Longrightarrow> page_chain page t' rest \<Longrightarrow> page_chain page t (found @ rest)"

lemma agents_of_page_append: "agents_of_page (as @ bs) = agents_of_page as @ agents_of_page bs"
  by (induction as) (auto split: option.splits)

lemma list_pages_chain: "page_chain page t as \<Longrightarrow> list_pages page t acc = Some (Inr (acc @ agents_of_page as))"
  by (induction arbitrary: acc rule: page_chain.induct; subst list_pages.simps; simp add: agents_of_page_append Let_def)

text \<open>
  A listing returns all agents of a server whose pages come to an end.
\<close>

lemma ListAgents_complete:
  assumes "page_chain (\<lambda>t. sp_ListAgents (sc_api c) t (if ty \<noteq> [] then Some ty else None) s) [] as"
  shows "ListAgents c ty s = Some (Inr (agents_of_page as))"
  using list_pages_chain[OF assms, of "[]"] by (simp add: ListAgents_def)

section \<open>Registration leaves both systems consistent\<close>

definition accepted :: "create_result list result \<Rightarrow> string option" where
  \<comment> \<open>the identifier, when the server created the entry\<close>
  "accepted r = (case r of Inr (x # _) \<Rightarrow> (if cr_Status x = None \<or> fst (the (cr_Status x)) = 0 then cr_Entry x else None) | _ \<Rightarrow> None)"

definition spire_laws :: "'s spire_api \<Rightarrow> ('s \<Rightarrow> (string \<times> spire_entry) set) \<Rightarrow> bool" where
  \<comment> \<open>what the server promises: a created entry has a new identifier, and no other call here adds or removes one. A call that
      reports an error has created nothing; gRPC alone does not promise that, since an answer can be lost after the entry was made.\<close>
  "spire_laws A entries =
     ((\<forall>i ttl s. entries (snd (sp_CreateJoinToken A i ttl s)) = entries s) \<and>
      (\<forall>en s r s'. sp_BatchCreateEntry A en s = (r, s') \<longrightarrow>
         (case accepted r of None \<Rightarrow> entries s' = entries s
          | Some i \<Rightarrow> i \<notin> fst ` entries s \<and> entries s' = insert (i, en) (entries s))))"

definition deletions_work :: "'s spire_api \<Rightarrow> ('s \<Rightarrow> (string \<times> spire_entry) set) \<Rightarrow> bool" where
  "deletions_work A entries = (\<forall>i s. entries (snd (sp_BatchDeleteEntry A i s)) = {x \<in> entries s. fst x \<noteq> i})"

lemma run_on_gc: "run_state (on_gc m) (s, w) = (case run_state m w of (r, w') \<Rightarrow> (r, s, w'))"
  by (simp add: on_gc_def)

lemma run_on_spire: "run_state (on_spire f) (s, w) = (case f s of (r, s') \<Rightarrow> (r, s', w))"
  by (simp add: on_spire_def)

lemmas spire_run = run_on_gc run_on_spire run_check_err

lemma created_id_accepted: "created_id rs = Inr i \<longleftrightarrow> accepted (Inr rs) = Some i"
  by (auto simp: created_id_def accepted_def split: list.splits option.splits if_splits)

lemma CreateWorkloadEntry_cases:
  assumes "spire_laws (sc_api c) entries" "CreateWorkloadEntry c parent wid sels s = (r, s')"
  shows "case r of Inl _ \<Rightarrow> entries s' = entries s
    | Inr i \<Rightarrow> i \<notin> fst ` entries s \<and> (\<exists>sl. parse_selectors sels = Inr sl \<and>
        entries s' = insert (i, \<lparr>en_ParentId = at_domain c parent, en_SpiffeId = at_domain c wid, en_Selectors = sl\<rparr>) (entries s))"
proof (cases "parse_selectors sels")
  case (Inr sl)
  let ?en = "\<lparr>en_ParentId = at_domain c parent, en_SpiffeId = at_domain c wid, en_Selectors = sl\<rparr>"
  obtain res s1 where res: "sp_BatchCreateEntry (sc_api c) ?en s = (res, s1)" by fastforce
  then have law: "case accepted res of None \<Rightarrow> entries s1 = entries s | Some i \<Rightarrow> i \<notin> fst ` entries s \<and> entries s1 = insert (i, ?en) (entries s)"
    using assms(1) by (simp add: spire_laws_def)
  show ?thesis
  proof (cases res)
    case (Inl err)
    then show ?thesis using law assms(2) res Inr by (auto simp: CreateWorkloadEntry_def accepted_def)
  next
    case r: (Inr rs)
    then have "r = created_id rs" "s' = s1" using assms(2) res Inr by (auto simp: CreateWorkloadEntry_def)
    then show ?thesis using law r Inr created_id_accepted[of rs] by (cases "accepted (Inr rs)"; cases "created_id rs") auto
  qed
qed (use assms(2) in \<open>auto simp: CreateWorkloadEntry_def\<close>)

lemma parent_agent_keeps:
  assumes "spire_laws (sc_api c) entries" "run_state (parent_agent S c req) (s, w) = (r, s', w')"
  shows "entries s' = entries s" "w' = w"
proof -
  have t: "entries (snd (CreateJoinToken c i ttl s)) = entries s" for i ttl
    using assms(1) by (auto simp: spire_laws_def CreateJoinToken_def split: prod.splits sum.splits) (metis snd_conv)+
  show "entries s' = entries s" "w' = w"
    using assms(2) t
    by (auto simp: parent_agent_def Let_def spire_run split: if_splits prod.splits sum.splits) (metis snd_conv)+
qed

lemma keeps_spire_body [keeps]: "keeps_db (spire_register_body e name)"
  unfolding spire_register_body_def spire_accounts_def ensureSatelliteRobotAccount_def robot_for_satellite_def ensureSatelliteConfig_def default_config_def
  by (intro keeps disjI1 TrueI)+

lemma satellite_tables_kept:
  "query_keeps db_satellites (AddRobotAccount now n h rid i ex)" "query_keeps db_satellites (CreateConfig now cn u cfg)"
  "query_keeps db_satellites (SetSatelliteConfig i ci)"
  by (auto simp: query_keeps_def AddRobotAccount_def CreateConfig_def SetSatelliteConfig_def Let_def split: if_splits option.splits)

lemma txk_prod [txkeeps]: "(\<And>a b. tx_keeps f (k a b)) \<Longrightarrow> tx_keeps f (case p of (a, b) \<Rightarrow> k a b)"
  by (cases p) auto

lemma txk_ensure [txkeeps]:
  "tx_keeps db_satellites (ensureSatelliteRobotAccount e True sat)" "tx_keeps db_satellites (ensureSatelliteConfig e True sat)"
  unfolding ensureSatelliteRobotAccount_def robot_for_satellite_def ensureSatelliteConfig_def default_config_def fetchSatelliteConfig_def
  by (intro txkeeps satellite_tables_kept keeps)+

lemma spire_body_creates:
  assumes "run_state (spire_register_body e name) w = ((i, Inr ()), v)" "w_tx v = Open db'"
  shows "name \<in> sat_Name ` set (db_satellites db')"
proof -
  have rest: "tx_keeps db_satellites (spire_accounts e sat)" for sat unfolding spire_accounts_def by (intro txkeeps)
  obtain r u where c: "run_state (tx_call e (CreateSatellite (w_now w) name)) w = (r, u)" by (metis surj_pair)
  with assms(1) obtain sat where sat: "r = Inr sat" "run_state (spire_accounts e sat) u = ((i, Inr ()), v)"
    by (cases r) (auto simp: spire_register_body_def run_check_err reject_def)
  obtain db1 where db1: "w_tx u = Open db1" "db_satellites db' = db_satellites db1" using tx_keepsD[OF rest sat(2) assms(2)] by blast
  from c[unfolded sat(1)] obtain db db2 where "CreateSatellite (w_now w) name db = Inr (sat, db2)" "w_tx u = Open db2"
    by (rule run_tx_call_Inr) auto
  then show ?thesis using db1 CreateSatellite_adds by fastforce
qed

lemma create_record_outcome:
  assumes "run_state (create_record e name) w = (r, v)" "w_tx w = NoTx"
  shows "w_tx v = NoTx \<and> (case r of Inl _ \<Rightarrow> w_db v = w_db w | Inr _ \<Rightarrow> name \<in> sat_Name ` set (db_satellites (w_db v)))"
proof -
  obtain g u where g: "run_state (db_call e (GetSatelliteByName name)) w = (g, u)" by (metis surj_pair)
  have u: "w_tx u = NoTx" "w_db u = w_db w" "g = Inr sat \<Longrightarrow> name \<in> sat_Name ` set (db_satellites (w_db u))" for sat
    using g assms(2) by (auto simp: db_call_def GetSatelliteByName_def select_one_def count_call_def split: if_splits option.splits dest!: find_first_Some)
  let ?m = "with_tx e (\<lambda>_. (''Failed to begin transaction'', 500)) (\<lambda>_. (''Failed to commit satellite creation'', 500)) (spire_register_body e name)"
  consider (new) err where "g = Inl err" "run_state ?m u = (r, v)" | (known) sat where "g = Inr sat" "r = Inr ()" "v = u"
    using assms(1) g by (cases g) (auto simp: create_record_def run_check_err)
  then show ?thesis
  proof cases
    case new
    have "w_tx v = NoTx" using closes_with_tx u(1) new(2) unfolding closes_tx_def by (metis snd_conv)
    moreover have "w_db v = w_db w" if "r = Inl x" for x using with_tx_failed[OF keeps_spire_body] new(2) u(2) that by metis
    moreover have "name \<in> sat_Name ` set (db_satellites (w_db v))" if "r = Inr y" for y
      using new(2) that by (auto elim!: with_tx_committed dest: spire_body_creates)
    ultimately show ?thesis by (cases r) auto
  qed (use u in auto)
qed

lemma spire_handler_cases:
  assumes "spire_laws (sc_api c) entries" "ss_client S = Some c"
    and run: "run_state (registerSatelliteWithSPIFFEHandler e S body) (s, w) = (Some resp, s', w')"
  obtains (early) "\<not> success resp" "entries s' = entries s" "w' = w"
  | (entry) req a s1 where "body = Some req" "entries s1 = entries s"
      "run_state (register_with_entry e S c (with_defaults req) a) (s1, w) = (resp, s', w')"
proof (cases "\<exists>req. body = Some req \<and> validate_register req = None")
  case False
  then show ?thesis using run early by (auto simp: registerSatelliteWithSPIFFEHandler_def app_error_def split: option.splits prod.splits)
next
  case True
  then obtain req where req: "body = Some req" "validate_register req = None" by blast
  obtain r s1 w1 where pa: "run_state (parent_agent S c (with_defaults req)) (s, w) = (r, s1, w1)" by (metis surj_pair)
  note k = parent_agent_keeps[OF assms(1) pa]
  consider "r = None" | m code where "r = Some (Inl (m, code))" | a where "r = Some (Inr a)" by (metis option.exhaust sum.exhaust surj_pair)
  then show ?thesis
  proof cases
    case 3
    obtain resp1 s2 w2 where re: "run_state (register_with_entry e S c (with_defaults req) a) (s1, w1) = (resp1, s2, w2)" by (metis surj_pair)
    show ?thesis by (rule entry[OF req(1) k(1)]) (use run req pa 3 re k(2) assms(2) in \<open>simp add: registerSatelliteWithSPIFFEHandler_def\<close>)
  qed (use run req pa k assms(2) early in \<open>auto simp: registerSatelliteWithSPIFFEHandler_def app_error_def\<close>)
qed

text \<open>
  C9. Registering a satellite with SPIRE is all or nothing over two systems. When the server keeps its promises (\<open>spire_laws\<close>: among
  them that a creation it reports as failed has not happened) and its deletions take effect, a response that reports success means that exactly one workload entry was added, with a new identifier, the agent
  of the reply as its parent and the path \<^verbatim>\<open>/satellite/region/R/N\<close> of the requested region and name, and that ground control knows
  a satellite of that name; any other response has left the entries and the database as they were. No transaction stays open.
\<close>

theorem spire_registration_consistent:
  assumes "spire_laws (sc_api c) entries" "deletions_work (sc_api c) entries"
    and "ss_client S = Some c" "sc_trustDomain c = ss_trustDomain S" "w_tx w = NoTx"
    and "run_state (registerSatelliteWithSPIFFEHandler e S body) (s, w) = (Some resp, s', w')"
  shows "w_tx w' = NoTx \<and>
    (if success resp
     then \<exists>req sl i reply. body = Some req \<and> resp = JSONReply 200 reply \<and> parse_selectors (sr_Selectors req) = Inr sl \<and> i \<notin> fst ` entries s \<and>
       entries s' = insert (i, \<lparr>en_ParentId = at_domain c (sg_ParentAgentID reply), en_SpiffeId = \<lparr>sid_TrustDomain = ss_trustDomain S,
         sid_Path = ''/satellite/region/'' @ sr_Region (with_defaults req) @ ''/'' @ sr_SatelliteName req\<rparr>, en_Selectors = sl\<rparr>) (entries s) \<and>
       sr_SatelliteName req \<in> sat_Name ` set (db_satellites (w_db w'))
     else entries s' = entries s \<and> w_db w' = w_db w)"
  using assms(1,3,6)
proof (cases rule: spire_handler_cases)
  case early
  then show ?thesis using assms(5) by simp
next
  case req: (entry req a s1)
  have d: "sr_SatelliteName (with_defaults req) = sr_SatelliteName req" "sr_Selectors (with_defaults req) = sr_Selectors req"
    by (simp_all add: with_defaults_def Let_def)
  have path: "at_domain c (workload_id S (with_defaults req)) = \<lparr>sid_TrustDomain = ss_trustDomain S,
      sid_Path = ''/satellite/region/'' @ sr_Region (with_defaults req) @ ''/'' @ sr_SatelliteName req\<rparr>"
    using assms(4) trimPrefix_append[of "''spiffe://'' @ ss_trustDomain S"] hasPrefix_append[of "''spiffe://'' @ ss_trustDomain S"]
    by (simp add: at_domain_def workload_id_def extractPath_def d Let_def)
  obtain en s2 where en: "CreateWorkloadEntry c (fst a) (workload_id S (with_defaults req)) (sr_Selectors req) s1 = (en, s2)" by fastforce
  note entry = CreateWorkloadEntry_cases[OF assms(1) en, unfolded path req(2)]
  obtain rec w2 where rec: "run_state (create_record e (sr_SatelliteName req)) w = (rec, w2)" by fastforce
  note gc = create_record_outcome[OF rec assms(5)]
  show ?thesis
  proof (cases en)
    case (Inl err)
    then show ?thesis using req(3) en entry assms(5) d
      by (auto simp: register_with_entry_def spire_run app_error_def)
  next
    case i: (Inr i)
    show ?thesis
    proof (cases rec)
      case (Inl x)
      obtain del s3 where del: "DeleteWorkloadEntry c i s2 = (del, s3)" by (metis surj_pair)
      have "entries s3 = {y \<in> entries s2. fst y \<noteq> i}"
        using del assms(2)[unfolded deletions_work_def, rule_format, of i s2]
        by (auto simp: DeleteWorkloadEntry_def split: prod.splits sum.splits)
      moreover have "s' = s3" "w' = w2" "\<not> success resp"
        using req(3) en i rec Inl d del by (auto simp: register_with_entry_def spire_run app_error_def split: prod.splits)
      ultimately show ?thesis using gc Inl entry i by (auto simp: image_iff)
    next
      case (Inr u)
      have "resp = JSONReply 200 (registered_reply S (with_defaults req) (workload_id S (with_defaults req)) a)" "s' = s2" "w' = w2"
        using req(3) en i rec Inr d by (auto simp: register_with_entry_def spire_run WriteJSONResponse_def)
      then show ?thesis using gc Inr entry i req(1) by (auto simp: registered_reply_def split: prod.splits)
    qed
  qed
qed

definition mem_spire :: "(string \<times> spire_entry) list spire_api" where
  \<comment> \<open>a server that keeps a list of entries\<close>
  "mem_spire = \<lparr>sp_CreateJoinToken = (\<lambda>i ttl s. (Inr ''join'', s)),
     sp_BatchCreateEntry = (\<lambda>en s. let i = concat (map fst s) @ ''e'' in (Inr [\<lparr>cr_Entry = Some i, cr_Status = None\<rparr>], (i, en) # s)),
     sp_BatchDeleteEntry = (\<lambda>i s. (Inr [], filter (\<lambda>x. fst x \<noteq> i) s)),
     sp_ListAgents = (\<lambda>t f s. Inr ([], []))\<rparr>"

definition sample_spire :: "(string \<times> spire_entry) list spire_config" where
  "sample_spire = \<lparr>ss_provider = None, ss_embedded = True, ss_client = Some \<lparr>sc_api = mem_spire, sc_trustDomain = ''td''\<rparr>,
     ss_address = ''h'', ss_port = 8081, ss_trustDomain = ''td''\<rparr>"

definition sample_spire_request :: spire_register where
  "sample_spire_request = \<lparr>sr_SatelliteName = ''edge'', sr_Region = [], sr_Selectors = [''unix:uid:0''], sr_AttestationMethod = ''join_token'',
     sr_TTLSeconds = 0, sr_ParentAgentID = []\<rparr>"

lemma mem_spire_laws: "spire_laws mem_spire set" "deletions_work mem_spire set"
proof -
  have "length i \<le> length (concat (map fst s))" if "i \<in> fst ` set s" for i :: string and s :: "(string \<times> spire_entry) list"
    using that by (induction s) (fastforce intro: trans_le_add2)+
  then have "concat (map fst s) @ ''e'' \<notin> fst ` set s" for s :: "(string \<times> spire_entry) list" by fastforce
  then show "spire_laws mem_spire set" by (auto simp: spire_laws_def mem_spire_def accepted_def Let_def)
  show "deletions_work mem_spire set" by (auto simp: deletions_work_def mem_spire_def)
qed

lemma sample_spire_run:
  "\<exists>s' w' reply. run_state (registerSatelliteWithSPIFFEHandler sample_env sample_spire (Some sample_spire_request)) ([], sample_site_world 10) =
     (Some (JSONReply 200 reply), s', w')"
  by (simp add: registerSatelliteWithSPIFFEHandler_def sample_spire_def sample_spire_request_def validate_register_def with_defaults_def
      parent_agent_def register_with_entry_def spire_run CreateJoinToken_def CreateWorkloadEntry_def created_id_def mem_spire_def create_record_def
      gc_prims GetSatelliteByName_def select_one_def sample_site_parts count_call_def WriteJSONResponse_def Let_def)

theorem spire_registration_consistent_witness:
  "\<exists>s' (i :: string) parent sl. set s' = {(i, \<lparr>en_ParentId = parent,
     en_SpiffeId = \<lparr>sid_TrustDomain = ''td'', sid_Path = ''/satellite/region/default/edge''\<rparr>, en_Selectors = sl\<rparr>)}"
proof -
  obtain s' w' reply where run: "run_state (registerSatelliteWithSPIFFEHandler sample_env sample_spire (Some sample_spire_request)) ([], sample_site_world 10) =
     (Some (JSONReply 200 reply), s', w')" using sample_spire_run by blast
  let ?c = "\<lparr>sc_api = mem_spire, sc_trustDomain = ''td''\<rparr>"
  have "spire_laws (sc_api ?c) set" "deletions_work (sc_api ?c) set" "ss_client sample_spire = Some ?c"
    "sc_trustDomain ?c = ss_trustDomain sample_spire" "w_tx (sample_site_world 10) = NoTx"
    by (simp_all add: mem_spire_laws sample_spire_def sample_site_parts)
  from spire_registration_consistent[OF this run] obtain sl i where
    "set s' = insert (i, \<lparr>en_ParentId = at_domain ?c (sg_ParentAgentID reply), en_SpiffeId = \<lparr>sid_TrustDomain = ''td'',
       sid_Path = ''/satellite/region/'' @ sr_Region (with_defaults sample_spire_request) @ ''/'' @ sr_SatelliteName sample_spire_request\<rparr>,
       en_Selectors = sl\<rparr>) (set [])"
    by (auto simp: sample_spire_def)
  moreover have "''/satellite/region/'' @ sr_Region (with_defaults sample_spire_request) @ ''/'' @ sr_SatelliteName sample_spire_request =
      ''/satellite/region/default/edge''"
    by (simp add: with_defaults_def sample_spire_request_def Let_def)
  ultimately have "set s' = {(i, \<lparr>en_ParentId = at_domain ?c (sg_ParentAgentID reply),
     en_SpiffeId = \<lparr>sid_TrustDomain = ''td'', sid_Path = ''/satellite/region/default/edge''\<rparr>, en_Selectors = sl\<rparr>)}" by (simp only: list.set)
  then show ?thesis by (intro exI)
qed

text \<open>
  Neither the region nor the name is checked: with a slash in the region the workload gets an identity that
  ground control reads as another satellite.
\<close>

lemma region_forges_name:
  assumes "req = \<lparr>sr_SatelliteName = ''edge'', sr_Region = ''eu/victim'', sr_Selectors = [''unix:uid:0''], sr_AttestationMethod = ''join_token'',
     sr_TTLSeconds = 0, sr_ParentAgentID = []\<rparr>"
  shows "validate_register req = None \<and> ExtractSatelliteNameFromSPIFFEID \<lparr>sid_TrustDomain = td,
    sid_Path = ''/satellite/region/'' @ sr_Region (with_defaults req) @ ''/'' @ sr_SatelliteName req\<rparr> = Inr ''victim''"
  by (simp add: assms validate_register_def with_defaults_def ExtractSatelliteNameFromSPIFFEID_def)

text \<open>
  An identity of a trust domain whose name begins with the server's is taken for one of the server's.
\<close>

lemma extractPath_foreign: "extractPath (''spiffe://'' @ td @ ''.evil/x'') td = ''.evil/x''"
  using trimPrefix_append[of "''spiffe://'' @ td" "''.evil/x''"] hasPrefix_append[of "''spiffe://'' @ td" "''.evil/x''"]
  by (simp add: extractPath_def Let_def)

end
