(* ===== verification/GC_RateLimit.thy ===== *)
theory GC_RateLimit
  imports Prelude
begin

text \<open>
  \<^verbatim>\<open>internal/groundcontrol/middleware/ratelimit.go\<close>: the sliding-window rate limiter of ground
  control as a state machine. Its transitions are a request (the locked body of \<^verbatim>\<open>Allow\<close>) and
  the periodic clean-up; both read a clock that does not go back. Times are integers. A missing
  key of the Go map is the empty list.
\<close>

record rate_limiter =
  rl_requests :: "string \<Rightarrow> int list"
  rl_maxRequests :: int
  rl_windowPeriod :: int

definition NewRateLimiter :: "int \<Rightarrow> int \<Rightarrow> rate_limiter" where
  "NewRateLimiter maxRequests windowPeriod =
     \<lparr>rl_requests = (\<lambda>_. []), rl_maxRequests = maxRequests, rl_windowPeriod = windowPeriod\<rparr>"

definition unexpired :: "rate_limiter \<Rightarrow> int \<Rightarrow> int list \<Rightarrow> int list" where
  \<comment> \<open>the filter both operations apply: timestamps after the cut-off\<close>
  "unexpired rl now ts = filter (\<lambda>t. now - rl_windowPeriod rl < t) ts"

definition Allow :: "int \<Rightarrow> string \<Rightarrow> rate_limiter \<Rightarrow> rate_limiter \<times> bool" where
  "Allow now ip rl =
     (let valid = unexpired rl now (rl_requests rl ip) in
      if rl_maxRequests rl \<le> int (length valid)
      then (rl\<lparr>rl_requests := (rl_requests rl)(ip := valid)\<rparr>, False)
      else (rl\<lparr>rl_requests := (rl_requests rl)(ip := valid @ [now])\<rparr>, True))"

definition rl_cleanup :: "int \<Rightarrow> rate_limiter \<Rightarrow> rate_limiter" where
  "rl_cleanup now rl = rl\<lparr>rl_requests := (\<lambda>ip. unexpired rl now (rl_requests rl ip))\<rparr>"

section \<open>Runs of the limiter\<close>

text \<open>
  A configuration is the limiter, the time of the last transition and the allowed requests so
  far, in order.
\<close>

type_synonym rl_config = "rate_limiter \<times> int \<times> (string \<times> int) list"

inductive rl_step :: "rl_config \<Rightarrow> rl_config \<Rightarrow> bool" where
  allowed: "now \<le> t \<Longrightarrow> Allow t ip rl = (rl', True) \<Longrightarrow> rl_step (rl, now, hist) (rl', t, hist @ [(ip, t)])"
| refused: "now \<le> t \<Longrightarrow> Allow t ip rl = (rl', False) \<Longrightarrow> rl_step (rl, now, hist) (rl', t, hist)"
| cleaned: "now \<le> t \<Longrightarrow> rl_step (rl, now, hist) (rl_cleanup t rl, t, hist)"

inductive rl_reachable :: "int \<Rightarrow> int \<Rightarrow> rl_config \<Rightarrow> bool" for maxRequests windowPeriod where
  start: "rl_reachable maxRequests windowPeriod (NewRateLimiter maxRequests windowPeriod, t, [])"
| step: "rl_reachable maxRequests windowPeriod c \<Longrightarrow> rl_step c c' \<Longrightarrow> rl_reachable maxRequests windowPeriod c'"

definition times_of :: "string \<Rightarrow> (string \<times> int) list \<Rightarrow> int list" where
  "times_of ip hist = map snd (filter (\<lambda>(i, _). i = ip) hist)"

definition in_window :: "int \<Rightarrow> int \<Rightarrow> int list \<Rightarrow> nat" where
  \<comment> \<open>how many of the times lie in the half-open window of length \<open>w\<close> that starts at \<open>a\<close>\<close>
  "in_window a w ts = length (filter (\<lambda>t. a < t \<and> t \<le> a + w) ts)"

lemma times_of_simps [simp]:
  "times_of ip [] = []" "times_of ip (xs @ [(i, t)]) = times_of ip xs @ (if i = ip then [t] else [])"
  by (simp_all add: times_of_def)

definition rl_inv :: "int \<Rightarrow> int \<Rightarrow> rl_config \<Rightarrow> bool" where
  "rl_inv m w c = (case c of (rl, now, hist) \<Rightarrow>
     rl_maxRequests rl = m \<and> rl_windowPeriod rl = w \<and>
     (\<forall>ip. \<forall>t\<in>set (times_of ip hist). t \<le> now) \<and>
     (\<forall>ip. unexpired rl now (rl_requests rl ip) = unexpired rl now (times_of ip hist)) \<and>
     (\<forall>ip a. int (in_window a w (times_of ip hist)) \<le> max 0 m))"

lemma unexpired_later: "now \<le> t \<Longrightarrow> unexpired rl now xs = unexpired rl now ys \<Longrightarrow> unexpired rl t xs = unexpired rl t ys"
proof -
  assume le: "now \<le> t" and eq: "unexpired rl now xs = unexpired rl now ys"
  have "unexpired rl t zs = filter (\<lambda>x. t - rl_windowPeriod rl < x) (unexpired rl now zs)" for zs
    using le by (auto simp: unexpired_def intro!: filter_cong)
  with eq show ?thesis by simp
qed

lemma unexpired_frame [simp]: "unexpired (rl\<lparr>rl_requests := f\<rparr>) now xs = unexpired rl now xs"
  by (simp add: unexpired_def)

lemma unexpired_twice [simp]: "unexpired rl t (unexpired rl t xs) = unexpired rl t xs"
  by (simp add: unexpired_def)

lemma window_bound: "a < t \<Longrightarrow> t \<le> a + w \<Longrightarrow> rl_windowPeriod rl = w \<Longrightarrow> in_window a w xs \<le> length (unexpired rl t xs)"
  unfolding in_window_def unexpired_def by (induction xs) auto

lemma in_window_snoc: "in_window a w (xs @ [t]) = in_window a w xs + of_bool (a < t \<and> t \<le> a + w)"
  by (simp add: in_window_def)

lemma rl_inv_forget:
  assumes "rl_inv m w (rl, now, hist)" "now \<le> t" "\<And>i. unexpired rl t (f i) = unexpired rl t (rl_requests rl i)"
  shows "rl_inv m w (rl\<lparr>rl_requests := f\<rparr>, t, hist)"
proof -
  have inv: "rl_maxRequests rl = m" "rl_windowPeriod rl = w" "\<And>i a. int (in_window a w (times_of i hist)) \<le> max 0 m"
    "\<And>i x. x \<in> set (times_of i hist) \<Longrightarrow> x \<le> now" "\<And>i. unexpired rl now (rl_requests rl i) = unexpired rl now (times_of i hist)"
    using assms(1) by (auto simp: rl_inv_def)
  have "x \<le> t" if "x \<in> set (times_of i hist)" for i x using inv(4)[OF that] assms(2) by simp
  then show ?thesis
    unfolding rl_inv_def using inv(1,2,3) assms(3) unexpired_later[OF assms(2) inv(5)] by simp
qed

lemma rl_inv_step:
  assumes "rl_inv m w (rl, now, hist)" "rl_step (rl, now, hist) c'"
  shows "rl_inv m w c'"
  using assms(2)
proof (cases rule: rl_step.cases)
  case (allowed t ip rl')
  let ?v = "unexpired rl t (rl_requests rl ip)"
  have inv: "rl_maxRequests rl = m" "rl_windowPeriod rl = w" "\<And>i a. int (in_window a w (times_of i hist)) \<le> max 0 m"
    "\<And>i x. x \<in> set (times_of i hist) \<Longrightarrow> x \<le> now" "\<And>i. unexpired rl now (rl_requests rl i) = unexpired rl now (times_of i hist)"
    using assms(1) by (auto simp: rl_inv_def)
  have rl': "rl' = rl\<lparr>rl_requests := (rl_requests rl)(ip := ?v @ [t])\<rparr>" "int (length ?v) < m"
    using allowed(3) inv(1) by (auto simp: Allow_def Let_def split: if_splits)
  have eq: "unexpired rl t (rl_requests rl i) = unexpired rl t (times_of i hist)" for i
    using unexpired_later[OF allowed(2) inv(5)] .
  have "int (in_window a w (times_of i (hist @ [(ip, t)]))) \<le> max 0 m" for i a
  proof (cases "i = ip \<and> a < t \<and> t \<le> a + w")
    case True
    then have "in_window a w (times_of ip hist) \<le> length ?v" using window_bound[of a t w rl] inv(2) eq by metis
    with True rl'(2) show ?thesis by (simp add: in_window_snoc)
  next
    case False
    then show ?thesis using inv(3)[of a i] by (auto simp: in_window_snoc)
  qed
  moreover have "unexpired rl t (rl_requests rl' i) = unexpired rl t (times_of i (hist @ [(ip, t)]))" for i
    using eq[of i] by (cases "i = ip") (simp_all add: rl'(1) unexpired_def)
  moreover have "x \<le> t" if "x \<in> set (times_of i (hist @ [(ip, t)]))" for i x
    using inv(4)[of x i] allowed(2) that by (auto split: if_splits)
  ultimately show ?thesis unfolding allowed(1) rl_inv_def using inv(1,2) rl'(1) by simp
next
  case (refused t ip rl')
  then have "rl' = rl\<lparr>rl_requests := (rl_requests rl)(ip := unexpired rl t (rl_requests rl ip))\<rparr>"
    by (auto simp: Allow_def Let_def split: if_splits)
  with refused show ?thesis by (auto intro!: rl_inv_forget[OF assms(1)])
next
  case (cleaned t)
  then show ?thesis by (auto simp: rl_cleanup_def intro!: rl_inv_forget[OF assms(1)])
qed

lemma rl_reachable_inv: "rl_reachable m w c \<Longrightarrow> rl_inv m w c"
proof (induction rule: rl_reachable.induct)
  case (start t)
  then show ?case by (simp add: rl_inv_def NewRateLimiter_def in_window_def)
next
  case (step c c')
  then show ?case by (cases c) (auto intro: rl_inv_step)
qed

text \<open>
  In every run of the limiter, with clean-ups at any moment, the requests allowed to one
  address within any window of the configured length never exceed the configured maximum
  (none are allowed when the maximum is not positive).
\<close>

theorem rate_limit_respected:
  assumes "rl_reachable maxRequests windowPeriod (rl, now, hist)"
  shows "int (in_window a windowPeriod (times_of ip hist)) \<le> max 0 maxRequests"
  using rl_reachable_inv[OF assms] by (simp add: rl_inv_def)

theorem rate_limit_respected_witness:
  "\<exists>rl. rl_reachable 1 10 (rl, 5, [(''1.2.3.4'', 0)]) \<and>
     int (in_window (- 1) 10 (times_of ''1.2.3.4'' [(''1.2.3.4'', 0)])) \<le> max 0 1"
proof -
  let ?c0 = "NewRateLimiter 1 10"
  obtain r1 where "Allow 0 ''1.2.3.4'' ?c0 = (r1, True)"
    and "r1 = ?c0\<lparr>rl_requests := (\<lambda>_. [])(''1.2.3.4'' := [0])\<rparr>"
    by (simp add: Allow_def NewRateLimiter_def unexpired_def)
  then have s1: "rl_step (?c0, 0, []) (r1, 0, [] @ [(''1.2.3.4'', 0)])" by (intro rl_step.allowed) auto
  obtain r2 where "Allow 5 ''1.2.3.4'' r1 = (r2, False)"
    using \<open>r1 = _\<close> by (simp add: Allow_def NewRateLimiter_def unexpired_def)
  then have s2: "rl_step (r1, 0, [(''1.2.3.4'', 0)]) (r2, 5, [(''1.2.3.4'', 0)])" by (intro rl_step.refused) auto
  have "rl_reachable 1 10 (r2, 5, [(''1.2.3.4'', 0)])"
    using rl_reachable.step[OF rl_reachable.step[OF rl_reachable.start s1], simplified] s2 by blast
  with rate_limit_respected[OF this, of "- 1" "''1.2.3.4''"] show ?thesis by blast
qed

end
