(* ===== verification/GC_Server.thy ===== *)
theory GC_Server
  imports GC_Admin GC_Spire GC_RateLimit
begin

text \<open>
  Ground control as a whole (\<^verbatim>\<open>server/routes.go\<close>, \<^verbatim>\<open>server/handlers.go\<close>, the HTTP part of \<^verbatim>\<open>middleware/ratelimit.go\<close>): the table of
  routes, the middlewares in front of each of them, and the handlers of the other theories behind them. The router, \<^verbatim>\<open>gorilla/mux\<close>, is
  an argument: given the table, a method and a path, it finds a route and binds its variables. The state is the rate limiter, the
  SPIRE server and the world of the handlers.
\<close>

section \<open>Requests and routes\<close>

datatype endpoint =
    Ping | Health | Login | Logout
  | ListUsers | ChangeOwnPassword | GetUser | CreateUser | DeleteUser | ChangeUserPassword
  | ListGroups | GroupsSync | GetGroup | GroupSatellites | AddSatelliteToGroup | RemoveSatelliteFromGroup | DeleteGroup
  | ListConfigs | CreateConfig | UpdateConfig | GetConfig | DeleteConfig | SetSatelliteConfig
  | ListSatellites | RegisterSatellite | ActiveSatellites | StaleSatellites | GetSatellite | DeleteSatellite | SatelliteStatus | CachedImages
  | SpireStatus | SpireAgents | SpireRegister
  | Ztr | SpiffeZtr | Sync

datatype middleware = RequestID | RateLimit | Auth | RequireSPIFFE | SPIFFE | SatelliteAuth

record route =
  rt_path :: string
  rt_method :: string
  rt_use :: "middleware list" \<comment> \<open>outermost first\<close>
  rt_role :: "string option" \<comment> \<open>of \<^verbatim>\<open>RequireRole\<close>\<close>
  rt_handler :: endpoint

datatype mux_match = Found route "(string \<times> string) list" | MethodMismatch | NotFound

record bodies =
  \<comment> \<open>the body as \<^verbatim>\<open>DecodeRequestBody\<close> reads it into each of the types the handlers ask for\<close>
  bd_login :: "loginRequest option"
  bd_change :: "changePasswordRequest option"
  bd_password :: "string option"
  bd_group :: "state_artifact option"
  bd_membership :: "satellite_group_params option"
  bd_config :: "config_object option"
  bd_patch :: "json result option"
  bd_assign :: "(string \<times> string) option"
  bd_register :: "register_params option"
  bd_spire :: "spire_register option"
  bd_status :: "status_params option"

record server_request =
  sq_method :: string
  sq_path :: string
  sq_http :: http_request
  sq_tls :: "tls_state option"
  sq_ctx :: spiffe_context
  sq_bodies :: bodies
  sq_attestation_type :: string \<comment> \<open>a query parameter\<close>

record ('h, 's) server_setup =
  sv_env :: "(json, 'h) gc_env"
  sv_spire :: "'s spire_config"
  sv_mux :: "route list \<Rightarrow> string \<Rightarrow> string \<Rightarrow> mux_match"
  sv_FromURI :: "url \<Rightarrow> spiffe_id result"
  sv_patch :: "json \<Rightarrow> json \<Rightarrow> json result"
  sv_uuid :: string
  sv_ping :: "unit result" \<comment> \<open>of the database\<close>

section \<open>The table\<close>

definition api_route :: "string \<Rightarrow> string option \<Rightarrow> endpoint \<Rightarrow> string \<Rightarrow> route" where
  "api_route path role h m = \<lparr>rt_path = ''/api'' @ path, rt_method = m, rt_use = [RequestID, Auth], rt_role = role, rt_handler = h\<rparr>"

definition plain_route :: "middleware list \<Rightarrow> string \<Rightarrow> endpoint \<Rightarrow> string \<Rightarrow> route" where
  "plain_route mws path h m = \<lparr>rt_path = path, rt_method = m, rt_use = RequestID # mws, rt_role = None, rt_handler = h\<rparr>"

definition RegisterRoutes :: "route list" where
  "RegisterRoutes =
     [plain_route [] ''/ping'' Ping ''GET'',
      plain_route [] ''/health'' Health ''GET'',
      plain_route [RateLimit] ''/login'' Login ''POST'',
      api_route ''/logout'' None Logout ''POST'',
      api_route ''/users'' None ListUsers ''GET'',
      api_route ''/users/password'' None ChangeOwnPassword ''PATCH'',
      api_route ''/users/{username}'' None GetUser ''GET'',
      api_route ''/users'' (Some roleSystemAdmin) CreateUser ''POST'',
      api_route ''/users/{username}'' (Some roleSystemAdmin) DeleteUser ''DELETE'',
      api_route ''/users/{username}/password'' (Some roleSystemAdmin) ChangeUserPassword ''PATCH'',
      api_route ''/groups'' None ListGroups ''GET'',
      api_route ''/groups/sync'' None GroupsSync ''POST'',
      api_route ''/groups/{group}'' None GetGroup ''GET'',
      api_route ''/groups/{group}/satellites'' None GroupSatellites ''GET'',
      api_route ''/groups/satellite'' None AddSatelliteToGroup ''POST'',
      api_route ''/groups/satellite'' None RemoveSatelliteFromGroup ''DELETE'',
      api_route ''/groups/{group}'' (Some roleSystemAdmin) DeleteGroup ''DELETE'',
      api_route ''/configs'' None ListConfigs ''GET'',
      api_route ''/configs'' None CreateConfig ''POST'',
      api_route ''/configs/{config}'' None UpdateConfig ''PATCH'',
      api_route ''/configs/{config}'' None GetConfig ''GET'',
      api_route ''/configs/{config}'' None DeleteConfig ''DELETE'',
      api_route ''/configs/satellite'' None SetSatelliteConfig ''POST'',
      api_route ''/satellites'' None ListSatellites ''GET'',
      api_route ''/satellites'' None RegisterSatellite ''POST'',
      api_route ''/satellites/active'' None ActiveSatellites ''GET'',
      api_route ''/satellites/stale'' None StaleSatellites ''GET'',
      api_route ''/satellites/{satellite}'' None GetSatellite ''GET'',
      api_route ''/satellites/{satellite}'' None DeleteSatellite ''DELETE'',
      api_route ''/satellites/{satellite}/status'' None SatelliteStatus ''GET'',
      api_route ''/satellites/{satellite}/images'' None CachedImages ''GET'',
      api_route ''/spire/status'' (Some roleSystemAdmin) SpireStatus ''GET'',
      api_route ''/spire/agents'' (Some roleSystemAdmin) SpireAgents ''GET'',
      api_route ''/satellites/register'' (Some roleSystemAdmin) SpireRegister ''POST'',
      plain_route [RateLimit] ''/satellites/ztr/{token}'' Ztr ''GET'',
      plain_route [RequireSPIFFE, RateLimit] ''/satellites/spiffe-ztr'' SpiffeZtr ''GET'',
      plain_route [RateLimit, SPIFFE, SatelliteAuth] ''/satellites/sync'' Sync ''POST'']"

section \<open>Serving a request\<close>

type_synonym ('h, 's, 'a) web = "(rate_limiter \<times> 's \<times> (json, 'h) gc_world, 'a) state"

definition on_web :: "('h, 's, 'a) spire \<Rightarrow> ('h, 's, 'a) web" where
  "on_web m = State (\<lambda>(rl, sw). case run_state m sw of (r, sw') \<Rightarrow> (r, rl, sw'))"

definition on_limiter :: "(rate_limiter \<Rightarrow> rate_limiter \<times> 'a) \<Rightarrow> ('h, 's, 'a) web" where
  "on_limiter f = State (\<lambda>(rl, sw). case f rl of (rl', r) \<Rightarrow> (r, rl', sw))"

definition answer :: "('h, 's, 'b response) spire \<Rightarrow> ('h, 's, unit response option) web" where
  \<comment> \<open>the body of a reply is left to the handler's own theory\<close>
  "answer m = on_web (do { x \<leftarrow> m; ret (Some (map_response (\<lambda>_. ()) x)) })"

definition var :: "(string \<times> string) list \<Rightarrow> string \<Rightarrow> string" where
  \<comment> \<open>\<^verbatim>\<open>mux.Vars(r)[name]\<close>\<close>
  "var vars name = (case map_of vars name of Some v \<Rightarrow> v | None \<Rightarrow> [])"

definition getClientIP :: "http_request \<Rightarrow> string" where
  "getClientIP r = (case SplitHostPort (rq_RemoteAddr r) of None \<Rightarrow> rq_RemoteAddr r | Some ip \<Rightarrow> ip)"

definition healthHandler :: "unit result \<Rightarrow> string response" where
  "healthHandler ping = (case ping of Inl _ \<Rightarrow> WriteJSONResponse 503 ''unhealthy'' | Inr _ \<Rightarrow> WriteJSONResponse 200 ''healthy'')"

type_synonym ('h, 's) act = "server_request \<Rightarrow> ('h, 's, unit response option) web"

definition RateLimitMiddleware :: "('h, 's) act \<Rightarrow> ('h, 's) act" where
  "RateLimitMiddleware nxt q = do {
     now \<leftarrow> on_web (on_gc (gets w_now));
     allowed \<leftarrow> on_limiter (Allow now (getClientIP (sq_http q)));
     if \<not> allowed then ret (Some (JSONError ''Too Many Requests'' 429)) else nxt q
   }"

definition guarded ::
  "((http_request \<Rightarrow> (json, 'h, http_request response) gc) \<Rightarrow> http_request \<Rightarrow> (json, 'h, http_request response) gc) \<Rightarrow> ('h, 's) act \<Rightarrow> ('h, 's) act" where
  \<comment> \<open>a middleware of the other theories in front of a handler on the larger state: it hands over the request, or answers itself\<close>
  "guarded mw nxt q = do {
     x \<leftarrow> on_web (on_gc (mw (\<lambda>r. ret (JSONReply 200 r)) (sq_http q)));
     case x of
       JSONReply _ r \<Rightarrow> nxt (q\<lparr>sq_http := r\<rparr>)
     | JSONError m code \<Rightarrow> ret (Some (JSONError m code))
     | StatusOnly code \<Rightarrow> ret (Some (StatusOnly code))
   }"

definition with_context :: "spiffe_context \<Rightarrow> server_request \<Rightarrow> server_request" where
  "with_context ctx q = q\<lparr>sq_ctx := ctx, sq_http := (sq_http q)\<lparr>rq_satellite := ctx_SatelliteName ctx\<rparr>\<rparr>"

fun use_middleware :: "('h, 's) server_setup \<Rightarrow> middleware \<Rightarrow> ('h, 's) act \<Rightarrow> ('h, 's) act" where
  "use_middleware V RequestID nxt q = snd (RequestIDMiddleware (sv_uuid V) (\<lambda>r. nxt (q\<lparr>sq_http := r\<rparr>)) (sq_http q))"
| "use_middleware V RateLimit nxt q = RateLimitMiddleware nxt q"
| "use_middleware V Auth nxt q = guarded (AuthMiddleware (sv_env V)) nxt q"
| "use_middleware V RequireSPIFFE nxt q =
     (case RequireSPIFFEAuth (sv_FromURI V) (\<lambda>ctx. nxt (with_context ctx q)) (sq_tls q) (sq_ctx q) of
        Inl (code, m) \<Rightarrow> ret (Some (JSONError m code)) | Inr run \<Rightarrow> run)"
| "use_middleware V SPIFFE nxt q = spiffe_AuthMiddleware (sv_FromURI V) (\<lambda>ctx. nxt (with_context ctx q)) (sq_tls q) (sq_ctx q)"
| "use_middleware V SatelliteAuth nxt q = guarded (SatelliteAuthMiddleware (sv_env V)) nxt q"

fun handler_of :: "('h, 's) server_setup \<Rightarrow> endpoint \<Rightarrow> (string \<times> string) list \<Rightarrow> ('h, 's) act" where
  "handler_of V Ping vars q = ret (Some (StatusOnly 200))"
| "handler_of V Health vars q = ret (Some (map_response (\<lambda>_. ()) (healthHandler (sv_ping V))))"
| "handler_of V Login vars q = answer (on_gc (loginHandler (sv_env V) (sq_http q) (bd_login (sq_bodies q))))"
| "handler_of V Logout vars q = answer (on_gc (logoutHandler (sv_env V) (sq_http q)))"
| "handler_of V ListUsers vars q = answer (on_gc (listUsersHandler (sv_env V) (sq_http q)))"
| "handler_of V ChangeOwnPassword vars q = answer (on_gc (changeOwnPasswordHandler (sv_env V) (sq_http q) (bd_change (sq_bodies q))))"
| "handler_of V GetUser vars q = answer (on_gc (getUserHandler (sv_env V) (sq_http q) (var vars ''username'')))"
| "handler_of V CreateUser vars q = answer (on_gc (createUserHandler (sv_env V) (sq_http q) (bd_login (sq_bodies q))))"
| "handler_of V DeleteUser vars q = answer (on_gc (deleteUserHandler (sv_env V) (sq_http q) (var vars ''username'')))"
| "handler_of V ChangeUserPassword vars q =
     answer (on_gc (changeUserPasswordHandler (sv_env V) (sq_http q) (var vars ''username'') (bd_password (sq_bodies q))))"
| "handler_of V ListGroups vars q = answer (on_gc (listGroupHandler (sv_env V)))"
| "handler_of V GroupsSync vars q = answer (on_gc (groupsSyncHandler (sv_env V) (bd_group (sq_bodies q))))"
| "handler_of V GetGroup vars q = answer (on_gc (getGroupHandler (sv_env V) (var vars ''group'')))"
| "handler_of V GroupSatellites vars q = answer (on_gc (groupSatelliteHandler (sv_env V) (var vars ''group'')))"
| "handler_of V AddSatelliteToGroup vars q = answer (on_gc (addSatelliteToGroup (sv_env V) (bd_membership (sq_bodies q))))"
| "handler_of V RemoveSatelliteFromGroup vars q =
     answer (on_gc (removeSatelliteFromGroup (sv_env V) (var vars ''group'') (var vars ''satellite'')))"
| "handler_of V DeleteGroup vars q = answer (on_gc (deleteGroupHandler (sv_env V) (var vars ''group'')))"
| "handler_of V ListConfigs vars q = answer (on_gc (listConfigsHandler (sv_env V)))"
| "handler_of V CreateConfig vars q = answer (on_gc (createConfigHandler (sv_env V) (sq_http q) (bd_config (sq_bodies q))))"
| "handler_of V UpdateConfig vars q =
     answer (on_gc (updateConfigHandler (sv_env V) (sv_patch V) (sq_http q) (var vars ''config'') (bd_patch (sq_bodies q))))"
| "handler_of V GetConfig vars q = answer (on_gc (getConfigHandler (sv_env V) (var vars ''config'')))"
| "handler_of V DeleteConfig vars q = answer (on_gc (deleteConfigHandler (sv_env V) (sq_http q) (var vars ''config'')))"
| "handler_of V SetSatelliteConfig vars q = answer (on_gc (setSatelliteConfigHandler (sv_env V) (bd_assign (sq_bodies q))))"
| "handler_of V ListSatellites vars q = answer (on_gc (listSatelliteHandler (sv_env V)))"
| "handler_of V RegisterSatellite vars q = answer (on_gc (registerSatelliteHandler (sv_env V) (sq_http q) (bd_register (sq_bodies q))))"
| "handler_of V ActiveSatellites vars q = answer (on_gc (getActiveSatellitesHandler (sv_env V)))"
| "handler_of V StaleSatellites vars q = answer (on_gc (getStaleSatellitesHandler (sv_env V)))"
| "handler_of V GetSatellite vars q = answer (on_gc (getSatelliteByNameHandler (sv_env V) (var vars ''satellite'')))"
| "handler_of V DeleteSatellite vars q = answer (on_gc (deleteSatelliteByNameHandler (sv_env V) (sq_http q) (var vars ''satellite'')))"
| "handler_of V SatelliteStatus vars q = answer (on_gc (getSatelliteStatusHandler (sv_env V) (var vars ''satellite'')))"
| "handler_of V CachedImages vars q = answer (on_gc (getCachedImagesHandler (sv_env V) (var vars ''satellite'')))"
| "handler_of V SpireStatus vars q = ret (Some (map_response (\<lambda>_. ()) (spireStatusHandler (sv_spire V))))"
| "handler_of V SpireAgents vars q =
     on_web (do { x \<leftarrow> listSpireAgentsHandler (sv_spire V) (sq_attestation_type q); ret (map_option (map_response (\<lambda>_. ())) x) })"
| "handler_of V SpireRegister vars q =
     on_web (do { x \<leftarrow> registerSatelliteWithSPIFFEHandler (sv_env V) (sv_spire V) (bd_spire (sq_bodies q));
       ret (map_option (map_response (\<lambda>_. ())) x) })"
| "handler_of V Ztr vars q = answer (on_gc (ztrHandler (sv_env V) (sq_http q) (var vars ''token'')))"
| "handler_of V SpiffeZtr vars q = answer (on_gc (spiffeZtrHandler (sv_env V) (sq_http q) (ctx_SPIFFEID (sq_ctx q))))"
| "handler_of V Sync vars q = answer (on_gc (syncHandler (sv_env V) (sq_http q) (bd_status (sq_bodies q))))"

definition route_handler :: "('h, 's) server_setup \<Rightarrow> route \<Rightarrow> (string \<times> string) list \<Rightarrow> ('h, 's) act" where
  "route_handler V rt vars =
     (case rt_role rt of None \<Rightarrow> handler_of V (rt_handler rt) vars | Some role \<Rightarrow> guarded (RequireRole role) (handler_of V (rt_handler rt) vars))"

definition arriving :: "server_request \<Rightarrow> server_request" where
  \<comment> \<open>the context of a new request holds nothing\<close>
  "arriving q = q\<lparr>sq_ctx := no_identity, sq_http := (sq_http q)\<lparr>rq_user := None, rq_request_id := [], rq_satellite := None\<rparr>\<rparr>"

definition serve :: "('h, 's) server_setup \<Rightarrow> ('h, 's) act" where
  "serve V q =
     (case sv_mux V RegisterRoutes (sq_method q) (sq_path q) of
        NotFound \<Rightarrow> ret (Some (StatusOnly 404))
      | MethodMismatch \<Rightarrow> ret (Some (StatusOnly 405))
      | Found rt vars \<Rightarrow> foldr (use_middleware V) (rt_use rt) (route_handler V rt vars) (arriving q))"

section \<open>Who may change what\<close>

definition mux_ok :: "(route list \<Rightarrow> string \<Rightarrow> string \<Rightarrow> mux_match) \<Rightarrow> bool" where
  \<comment> \<open>what is documented of the router: a match is one of the routes of the table, for the method of the request\<close>
  "mux_ok mux = (\<forall>rts m p rt vars. mux rts m p = Found rt vars \<longrightarrow> rt \<in> set rts \<and> rt_method rt = m)"

definition admin_only :: "endpoint \<Rightarrow> bool" where
  "admin_only h = (h \<in> {CreateUser, DeleteUser, ChangeUserPassword, DeleteGroup, SpireStatus, SpireAgents, SpireRegister})"

definition satellite_request :: "('h, 's) server_setup \<Rightarrow> json db \<Rightarrow> int \<Rightarrow> server_request \<Rightarrow> bool" where
  \<comment> \<open>a registered satellite, by its SPIFFE identity or with its robot account\<close>
  "satellite_request V db now q =
     ((\<exists>i name. ExtractSPIFFEIDFromRequest (sv_FromURI V) (sq_tls q) = Inr i \<and> ExtractSatelliteNameFromSPIFFEID i = Inr name \<and>
         name \<in> sat_Name ` set (db_satellites db)) \<or>
      (\<exists>name password satName. extractBasicAuth (sq_http q) = Some (name, password) \<and>
         robot_credentials (sv_env V) db now name password satName))"

fun authorized :: "('h, 's) server_setup \<Rightarrow> rate_limiter \<Rightarrow> json db \<Rightarrow> int \<Rightarrow> server_request \<Rightarrow> endpoint \<Rightarrow> bool" where
  "authorized V rl db now q Ping = False"
| "authorized V rl db now q Health = False"
| "authorized V rl db now q Login = snd (Allow now (getClientIP (sq_http q)) rl)"
| "authorized V rl db now q Ztr = snd (Allow now (getClientIP (sq_http q)) rl)"
| "authorized V rl db now q SpiffeZtr =
     (snd (Allow now (getClientIP (sq_http q)) rl) \<and> (\<exists>i. ExtractSPIFFEIDFromRequest (sv_FromURI V) (sq_tls q) = Inr i))"
| "authorized V rl db now q Sync = (snd (Allow now (getClientIP (sq_http q)) rl) \<and> satellite_request V db now q)"
| "authorized V rl db now q h =
     (\<exists>u. authentic (sv_env V) db now (sq_http q) u \<and> (admin_only h \<longrightarrow> usr_Role u = roleSystemAdmin))"

lemma run_on_web: "run_state (on_web m) (rl, sw) = (case run_state m sw of (r, sw') \<Rightarrow> (r, rl, sw'))"
  by (simp add: on_web_def)

lemma run_on_limiter: "run_state (on_limiter f) (rl, sw) = (case f rl of (rl', r) \<Rightarrow> (r, rl', sw))"
  by (simp add: on_limiter_def)

lemmas web_run = run_on_web run_on_limiter run_on_gc

lemma guarded_cases:
  assumes "run_state (guarded mw nxt q) (rl, s, w) = (resp, rl', s', w')"
  obtains (refused) x v where "run_state (mw (\<lambda>r. ret (JSONReply 200 r)) (sq_http q)) w = (x, v)" "\<forall>c r. x \<noteq> JSONReply c r" "rl' = rl" "s' = s" "w' = v"
  | (passed) c r v where "run_state (mw (\<lambda>r. ret (JSONReply 200 r)) (sq_http q)) w = (JSONReply c r, v)"
      "run_state (nxt (q\<lparr>sq_http := r\<rparr>)) (rl, s, v) = (resp, rl', s', w')"
proof -
  obtain x v where x: "run_state (mw (\<lambda>r. ret (JSONReply 200 r)) (sq_http q)) w = (x, v)" by force
  show thesis
  proof (cases x)
    case (JSONReply c r)
    then show thesis using passed x assms by (simp add: guarded_def web_run)
  qed (use refused x assms in \<open>simp_all add: guarded_def web_run\<close>)
qed

lemma auth_guarded:
  assumes "run_state (guarded (AuthMiddleware e) nxt q) (rl, s, w) = (resp, rl', s', w')" "w_db w' \<noteq> w_db w \<or> s' \<noteq> s"
  obtains u v where "authentic e (w_db w) (w_now w) (sq_http q) u" "w_db v = w_db w"
    "run_state (nxt (q\<lparr>sq_http := (sq_http q)\<lparr>rq_user := Some (user_auth u)\<rparr>\<rparr>)) (rl, s, v) = (resp, rl', s', w')"
  using assms(1)
proof (cases rule: guarded_cases)
  case (refused x v)
  from refused(1) show thesis by (cases rule: AuthMiddleware_cases) (use refused assms(2) in auto)
next
  case (passed c r v)
  from passed(1) show thesis by (cases rule: AuthMiddleware_cases) (use passed that in auto)
qed

lemma role_guarded:
  assumes "run_state (guarded (RequireRole role) nxt q) (rl, s, w) = (resp, rl', s', w')" "w_db w' \<noteq> w_db w \<or> s' \<noteq> s"
    "rq_user (sq_http q) = Some a"
  shows "au_Role a = role"
  using assms(1)
  by (cases rule: guarded_cases) (use assms(2,3) in \<open>auto simp: RequireRole_def GetUserFromContext_def responses split: if_splits\<close>)

lemma rate_limited:
  assumes "run_state (RateLimitMiddleware nxt q) (rl, s, w) = (resp, rl', s', w')" "w_db w' \<noteq> w_db w \<or> s' \<noteq> s"
  obtains rl1 where "Allow (w_now w) (getClientIP (sq_http q)) rl = (rl1, True)" "run_state (nxt q) (rl1, s, w) = (resp, rl', s', w')"
proof -
  obtain rl1 ok where a: "Allow (w_now w) (getClientIP (sq_http q)) rl = (rl1, ok)" by force
  show thesis using assms a that by (cases ok) (auto simp: RateLimitMiddleware_def web_run)
qed

lemma satellite_guarded:
  assumes "run_state (guarded (SatelliteAuthMiddleware e) nxt q) (rl, s, w) = (resp, rl', s', w')" "w_db w' \<noteq> w_db w \<or> s' \<noteq> s"
  shows "(\<exists>name. rq_satellite (sq_http q) = Some name \<and> name \<in> sat_Name ` set (db_satellites (w_db w))) \<or>
    (rq_satellite (sq_http q) = None \<and>
     (\<exists>name password satName. extractBasicAuth (sq_http q) = Some (name, password) \<and> robot_credentials e (w_db w) (w_now w) name password satName))"
  using assms(1)
proof (cases rule: guarded_cases)
  case (refused x v)
  from SatelliteAuthMiddleware_cases[OF refused(1)] show ?thesis using refused assms(2) by auto
next
  case (passed c r v)
  from SatelliteAuthMiddleware_cases[OF passed(1)] show ?thesis by (cases "rq_satellite (sq_http q)") auto
qed

lemma request_context [simp]:
  "getClientIP (r\<lparr>rq_user := a\<rparr>) = getClientIP r" "extractBasicAuth (r\<lparr>rq_user := a\<rparr>) = extractBasicAuth r"
  "getClientIP (r\<lparr>rq_request_id := b\<rparr>) = getClientIP r" "extractBasicAuth (r\<lparr>rq_request_id := b\<rparr>) = extractBasicAuth r"
  "getClientIP (r\<lparr>rq_satellite := c\<rparr>) = getClientIP r" "extractBasicAuth (r\<lparr>rq_satellite := c\<rparr>) = extractBasicAuth r"
  "authentic e db now (r\<lparr>rq_user := a\<rparr>) u = authentic e db now r u" "authentic e db now (r\<lparr>rq_request_id := b\<rparr>) u = authentic e db now r u"
  "authentic e db now (r\<lparr>rq_satellite := c\<rparr>) u = authentic e db now r u"
  by (simp_all add: getClientIP_def extractBasicAuth_def authentic_def extractBearerToken_def split: option.splits)

definition identified :: "('h, 's) server_setup \<Rightarrow> server_request \<Rightarrow> server_request" where
  "identified V q = (let q = arriving q; rid = trim_space (rq_XRequestID (sq_http q)) in
     q\<lparr>sq_http := (sq_http q)\<lparr>rq_request_id := (if validRequestID rid then rid else sv_uuid V)\<rparr>\<rparr>)"

lemma middlewares:
  "use_middleware V RequestID nxt (arriving q) = nxt (identified V q)" "use_middleware V RateLimit = RateLimitMiddleware"
  "use_middleware V Auth = guarded (AuthMiddleware (sv_env V))" "use_middleware V SatelliteAuth = guarded (SatelliteAuthMiddleware (sv_env V))"
  by (simp_all add: fun_eq_iff RequestIDMiddleware_def identified_def Let_def)

lemma identified_sel [simp]:
  "getClientIP (sq_http (identified V q)) = getClientIP (sq_http q)" "extractBasicAuth (sq_http (identified V q)) = extractBasicAuth (sq_http q)"
  "authentic e db now (sq_http (identified V q)) u = authentic e db now (sq_http q) u" "sq_tls (identified V q) = sq_tls q"
  "sq_ctx (identified V q) = no_identity" "rq_satellite (sq_http (identified V q)) = None"
  by (simp_all add: identified_def arriving_def Let_def)

lemma table:
  assumes "rt \<in> set RegisterRoutes"
  obtains (open_route) "rt_handler rt = Ping \<or> rt_handler rt = Health" "rt_use rt = [RequestID]" "rt_role rt = None"
  | (limited) "rt_handler rt = Login \<or> rt_handler rt = Ztr" "rt_use rt = [RequestID, RateLimit]"
  | (spiffe) "rt_handler rt = SpiffeZtr" "rt_use rt = [RequestID, RequireSPIFFE, RateLimit]"
  | (sync) "rt_handler rt = Sync" "rt_use rt = [RequestID, RateLimit, SPIFFE, SatelliteAuth]"
  | (api) "rt_handler rt \<notin> {Ping, Health, Login, Ztr, SpiffeZtr, Sync}" "rt_use rt = [RequestID, Auth]"
      "admin_only (rt_handler rt) \<Longrightarrow> rt_role rt = Some roleSystemAdmin"
  using assms unfolding RegisterRoutes_def by (auto simp: api_route_def plain_route_def admin_only_def)

lemma satellite_identity:
  assumes "run_state (use_middleware V SPIFFE (guarded (SatelliteAuthMiddleware (sv_env V)) nxt) (identified V q)) (rl, s, w) = (resp, rl', s', w')"
    and "w_db w' \<noteq> w_db w \<or> s' \<noteq> s"
  shows "satellite_request V (w_db w) (w_now w) q"
proof (cases "ExtractSPIFFEIDFromRequest (sv_FromURI V) (sq_tls q)")
  case (Inl err)
  then have "run_state (guarded (SatelliteAuthMiddleware (sv_env V)) nxt (with_context no_identity (identified V q))) (rl, s, w) = (resp, rl', s', w')"
    using assms(1) by (simp add: spiffe_AuthMiddleware_def)
  from satellite_guarded[OF this assms(2)] show ?thesis by (auto simp: satellite_request_def with_context_def no_identity_def)
next
  case (Inr i)
  have "run_state (guarded (SatelliteAuthMiddleware (sv_env V)) nxt (with_context (with_identity i no_identity) (identified V q))) (rl, s, w) = (resp, rl', s', w')"
    using assms(1) Inr by (simp add: spiffe_AuthMiddleware_def)
  moreover have "ctx_SatelliteName (with_identity i no_identity) = (case ExtractSatelliteNameFromSPIFFEID i of Inl _ \<Rightarrow> None | Inr n \<Rightarrow> Some n)"
    by (simp add: with_identity_def no_identity_def Let_def split: sum.splits)
  ultimately show ?thesis using satellite_guarded[OF _ assms(2), of "sv_env V" nxt "with_context (with_identity i no_identity) (identified V q)" rl resp rl'] Inr
    by (cases "ExtractSatelliteNameFromSPIFFEID i") (auto simp: satellite_request_def with_context_def)
qed

lemma served_authorized:
  assumes rt: "rt \<in> set RegisterRoutes"
    and run: "run_state (foldr (use_middleware V) (rt_use rt) (route_handler V rt vars) (arriving q)) (rl, s, w) = (resp, rl', s', w')"
    and changed: "w_db w' \<noteq> w_db w \<or> s' \<noteq> s"
  shows "authorized V rl (w_db w) (w_now w) q (rt_handler rt)"
proof -
  note [simp del] = use_middleware.simps(1)
  from rt show ?thesis
  proof (cases rule: table)
    case open_route
    then have "run_state (handler_of V (rt_handler rt) vars (identified V q)) (rl, s, w) = (resp, rl', s', w')"
      using run by (simp add: middlewares route_handler_def)
    then show ?thesis using open_route changed by auto
  next
    case limited
    then have "run_state (RateLimitMiddleware (route_handler V rt vars) (identified V q)) (rl, s, w) = (resp, rl', s', w')"
      using run by (simp add: middlewares)
    from this changed show ?thesis by (rule rate_limited) (use limited in auto)
  next
    case spiffe
    then have "run_state (use_middleware V RequireSPIFFE (RateLimitMiddleware (route_handler V rt vars)) (identified V q)) (rl, s, w) = (resp, rl', s', w')"
      using run by (simp add: middlewares)
    then obtain i where i: "ExtractSPIFFEIDFromRequest (sv_FromURI V) (sq_tls q) = Inr i"
      and r: "run_state (RateLimitMiddleware (route_handler V rt vars) (with_context (with_identity i no_identity) (identified V q))) (rl, s, w)
        = (resp, rl', s', w')"
      using changed by (auto simp: RequireSPIFFEAuth_def split: sum.splits)
    from r changed show ?thesis by (rule rate_limited) (use spiffe i in \<open>auto simp: with_context_def\<close>)
  next
    case sync
    then have "run_state (RateLimitMiddleware (use_middleware V SPIFFE (guarded (SatelliteAuthMiddleware (sv_env V)) (route_handler V rt vars)))
        (identified V q)) (rl, s, w) = (resp, rl', s', w')"
      using run by (simp add: middlewares)
    from this changed show ?thesis by (rule rate_limited) (use sync satellite_identity[OF _ changed] in auto)
  next
    case api
    then have "run_state (guarded (AuthMiddleware (sv_env V)) (route_handler V rt vars) (identified V q)) (rl, s, w) = (resp, rl', s', w')"
      using run by (simp add: middlewares)
    from this changed obtain u v where u: "authentic (sv_env V) (w_db w) (w_now w) (sq_http q) u" "w_db v = w_db w"
      and r: "run_state (route_handler V rt vars ((identified V q)\<lparr>sq_http := (sq_http (identified V q))\<lparr>rq_user := Some (user_auth u)\<rparr>\<rparr>)) (rl, s, v)
        = (resp, rl', s', w')"
      by (rule auth_guarded) auto
    have "usr_Role u = roleSystemAdmin" if "admin_only (rt_handler rt)"
      using role_guarded[of roleSystemAdmin "handler_of V (rt_handler rt) vars" _ rl s v resp rl' s' w' "user_auth u"] r u(2) changed api(3)[OF that]
      by (auto simp: route_handler_def user_auth_def)
    with u(1) api(1) show ?thesis by (cases "rt_handler rt") auto
  qed
qed

section \<open>Requests that only read\<close>

definition safe_act :: "('h, 's) act \<Rightarrow> bool" where
  "safe_act A = (\<forall>q rl s w resp rl' s' w'. run_state (A q) (rl, s, w) = (resp, rl', s', w') \<longrightarrow> w_db w' = w_db w \<and> s' = s)"

lemma safe_answer: "keeps_db m \<Longrightarrow> run_state (answer (on_gc m)) (rl, s, w) = (resp, rl', s', w') \<Longrightarrow> w_db w' = w_db w \<and> s' = s"
  by (auto simp: answer_def web_run split: prod.splits dest: keeps_dbD)

lemma safe_guarded:
  assumes "safe_act A" "\<And>r. keeps_db (mw (\<lambda>r. ret (JSONReply 200 r)) r)"
  shows "safe_act (guarded mw A)"
  unfolding safe_act_def
proof (intro allI impI)
  fix q rl s w resp rl' s' w'
  assume "run_state (guarded mw A q) (rl, s, w) = (resp, rl', s', w')"
  then show "w_db w' = w_db w \<and> s' = s"
    by (cases rule: guarded_cases) (use assms keeps_dbD(1)[OF assms(2)] in \<open>auto simp: safe_act_def\<close>)
qed

lemma keeps_middlewares [keeps]:
  "(\<And>r. keeps_db (nxt r)) \<Longrightarrow> keeps_db (AuthMiddleware e nxt r)" "(\<And>r. keeps_db (nxt r)) \<Longrightarrow> keeps_db (RequireRole role nxt r)"
  by (simp_all add: AuthMiddleware_def bearer_user_def basic_user_def Let_def keeps)
    (simp add: RequireRole_def keeps_db_def split: option.splits)

lemma keeps_readers [keeps]:
  "keeps_db (listUsersHandler e r)" "keeps_db (getUserHandler e r n)" "keeps_db (listGroupHandler e)" "keeps_db (getGroupHandler e n)"
  "keeps_db (groupSatelliteHandler e n)" "keeps_db (listConfigsHandler e)" "keeps_db (getConfigHandler e n)" "keeps_db (listSatelliteHandler e)"
  "keeps_db (getActiveSatellitesHandler e)" "keeps_db (getStaleSatellitesHandler e)" "keeps_db (getSatelliteByNameHandler e n)"
  "keeps_db (getSatelliteStatusHandler e n)" "keeps_db (getCachedImagesHandler e n)"
  unfolding listUsersHandler_def getUserHandler_def listGroupHandler_def getGroupHandler_def groupSatelliteHandler_def listConfigsHandler_def
    getConfigHandler_def listSatelliteHandler_def getActiveSatellitesHandler_def getStaleSatellitesHandler_def getSatelliteByNameHandler_def
    getSatelliteStatusHandler_def getCachedImagesHandler_def
  by (intro keeps)+

lemma safe_reader:
  assumes "rt \<in> set RegisterRoutes" "rt_method rt = ''GET''" "rt_handler rt \<notin> {Ztr, SpiffeZtr}"
  shows "safe_act (handler_of V (rt_handler rt) vars)"
proof -
  have agents: "run_state (listSpireAgentsHandler S t) (s, w) = (x, s', w') \<Longrightarrow> w_db w' = w_db w \<and> s' = s" for S t s w x s' w'
    by (auto simp: listSpireAgentsHandler_def spire_run split: option.splits)
  have "rt_handler rt \<in> {Ping, Health, ListUsers, GetUser, ListGroups, GetGroup, GroupSatellites, ListConfigs, GetConfig, ListSatellites,
      ActiveSatellites, StaleSatellites, GetSatellite, SatelliteStatus, CachedImages, SpireStatus, SpireAgents}"
    using assms unfolding RegisterRoutes_def by (auto simp: api_route_def plain_route_def)
  then show ?thesis
    by (elim insertE emptyE) (auto simp: safe_act_def web_run split: prod.splits dest!: agents keeps_readers[THEN safe_answer])
qed

lemma get_safe:
  assumes rt: "rt \<in> set RegisterRoutes" "rt_method rt = ''GET''" "rt_handler rt \<notin> {Ztr, SpiffeZtr}"
    and run: "run_state (foldr (use_middleware V) (rt_use rt) (route_handler V rt vars) (arriving q)) (rl, s, w) = (resp, rl', s', w')"
  shows "w_db w' = w_db w \<and> s' = s"
proof -
  note [simp del] = use_middleware.simps(1)
  have h: "safe_act (route_handler V rt vars)"
    using safe_reader[OF rt] by (auto simp: route_handler_def split: option.splits intro!: safe_guarded keeps)
  from rt(1) show ?thesis
  proof (cases rule: table)
    case open_route
    then show ?thesis using run h by (auto simp: middlewares safe_act_def)
  next
    case api
    have "safe_act (guarded (AuthMiddleware (sv_env V)) (route_handler V rt vars))" by (intro safe_guarded h keeps)
    then show ?thesis using run api by (auto simp: middlewares safe_act_def)
  qed (use rt in \<open>auto simp: RegisterRoutes_def api_route_def plain_route_def\<close>)
qed

text \<open>
  C6. Whatever reaches ground control over HTTP, only the right people change anything. If serving a request changed the database or the
  entries of the SPIRE server, then the router matched a route of the table, and: a route of the human interface was used by someone who
  presented a live session or the password of an account, a system administrator for the routes reserved for them; a status report came from
  a registered satellite, by its SPIFFE identity or an unexpired robot account; a registration by SPIFFE carried a SPIFFE identity; and a
  login, a registration or a report was within the rate limit of its address. Apart from the two registrations no GET request changes
  anything. This holds for every router that returns only routes of its table for the method of the request, and whatever calls fail.
\<close>

theorem changes_are_authorized:
  assumes "mux_ok (sv_mux V)" "run_state (serve V q) (rl, s, w) = (resp, rl', s', w')" "w_db w' \<noteq> w_db w \<or> s' \<noteq> s"
  shows "\<exists>rt vars. sv_mux V RegisterRoutes (sq_method q) (sq_path q) = Found rt vars \<and>
    authorized V rl (w_db w) (w_now w) q (rt_handler rt) \<and> (sq_method q = ''GET'' \<longrightarrow> rt_handler rt \<in> {Ztr, SpiffeZtr})"
proof (cases "sv_mux V RegisterRoutes (sq_method q) (sq_path q)")
  case (Found rt vars)
  then have rt: "rt \<in> set RegisterRoutes" "rt_method rt = sq_method q" using assms(1)[unfolded mux_ok_def] by blast+
  have run: "run_state (foldr (use_middleware V) (rt_use rt) (route_handler V rt vars) (arriving q)) (rl, s, w) = (resp, rl', s', w')"
    using assms(2) Found by (simp add: serve_def)
  show ?thesis using Found served_authorized[OF rt(1) run assms(3)] get_safe[OF rt(1) _ _ run] rt(2) assms(3) by auto
qed (use assms in \<open>auto simp: serve_def\<close>)

section \<open>A concrete server\<close>

fun match_segments :: "string list \<Rightarrow> string list \<Rightarrow> (string \<times> string) list option" where
  "match_segments [] [] = Some []"
| "match_segments (t # ts) (p # ps) =
     (if t \<noteq> [] \<and> hd t = CHR ''{'' then map_option ((#) (butlast (tl t), p)) (match_segments ts ps)
      else if t = p then match_segments ts ps else None)"
| "match_segments _ _ = None"

definition path_vars :: "string \<Rightarrow> string \<Rightarrow> (string \<times> string) list option" where
  "path_vars t p = match_segments (split_on CHR ''/'' t) (split_on CHR ''/'' p)"

definition sample_mux :: "route list \<Rightarrow> string \<Rightarrow> string \<Rightarrow> mux_match" where
  "sample_mux rts m p =
     (case find (\<lambda>rt. rt_method rt = m \<and> path_vars (rt_path rt) p \<noteq> None) rts of
        Some rt \<Rightarrow> Found rt (the (path_vars (rt_path rt) p))
      | None \<Rightarrow> if \<exists>rt\<in>set rts. path_vars (rt_path rt) p \<noteq> None then MethodMismatch else NotFound)"

lemma sample_mux_ok: "mux_ok sample_mux"
  by (auto simp: mux_ok_def sample_mux_def find_Some_iff split: option.splits if_splits)

definition sample_setup :: "(harbor_robot list, (string \<times> spire_entry) list) server_setup" where
  "sample_setup = \<lparr>sv_env = sample_env, sv_spire = sample_spire, sv_mux = sample_mux, sv_FromURI = (\<lambda>_. Inl ''no ID''),
     sv_patch = (\<lambda>_ p. Inr p), sv_uuid = ''u-1'', sv_ping = Inr ()\<rparr>"

definition sample_bodies :: bodies where
  "sample_bodies = \<lparr>bd_login = None, bd_change = None, bd_password = None, bd_group = None, bd_membership = None, bd_config = None,
     bd_patch = None, bd_assign = None, bd_register = None, bd_spire = None, bd_status = None\<rparr>"

definition web_request :: "string \<Rightarrow> string \<Rightarrow> server_request" where
  "web_request m p = \<lparr>sq_method = m, sq_path = p, sq_http = sample_request\<lparr>rq_Authorization := ''Bearer tok''\<rparr>, sq_tls = None,
     sq_ctx = no_identity, sq_bodies = sample_bodies, sq_attestation_type = []\<rparr>"

lemma routed_logout: "sample_mux RegisterRoutes ''POST'' ''/api/logout'' = Found (api_route ''/logout'' None Logout ''POST'') []"
  by code_simp

lemma logged_out:
  assumes "run_state (serve sample_setup (web_request ''POST'' ''/api/logout'')) (rl, [], sample_world sample_db 10) = (resp, rl', s', w')"
  shows "db_sessions (w_db w') = []"
proof -
  let ?q = "web_request ''POST'' ''/api/logout''"
  have "to_lower ''Bearer'' = ''bearer''" by code_simp
  then have tok: "extractBearerToken (sq_http (identified sample_setup ?q)) = ''tok''"
    "extractBearerToken ((sq_http (identified sample_setup ?q))\<lparr>rq_user := a\<rparr>) = ''tok''" for a
    by (simp_all add: identified_def arriving_def web_request_def Let_def extractBearerToken_def sample_request_def)
  have "run_state (guarded (AuthMiddleware sample_env) (handler_of sample_setup Logout []) (identified sample_setup ?q)) (rl, [], sample_world sample_db 10)
      = (resp, rl', s', w')"
    using assms routed_logout
    by (simp add: serve_def web_request_def[of "''POST''"] api_route_def sample_setup_def route_handler_def middlewares del: use_middleware.simps(1))
  then show ?thesis
    using tok by (auto simp: guarded_def web_run AuthMiddleware_def bearer_user_def run_check_err db_call_def GetSessionByToken_def
        session_user_def answer_def logoutHandler_def extractToken_def DeleteSession_def exec_def sample_setup_def sample_parts)
qed

theorem changes_are_authorized_witness:
  "authorized sample_setup (NewRateLimiter 10 60000000000) sample_db 10 (web_request ''POST'' ''/api/logout'') Logout"
proof -
  let ?q = "web_request ''POST'' ''/api/logout''"
  obtain resp rl' s' w' where run: "run_state (serve sample_setup ?q) (NewRateLimiter 10 60000000000, [], sample_world sample_db 10) = (resp, rl', s', w')"
    by (metis prod.collapse)
  have "w_db w' \<noteq> w_db (sample_world sample_db 10)" using logged_out[OF run] by (auto simp: sample_parts)
  then show ?thesis
    using changes_are_authorized[OF _ run] routed_logout
    by (auto simp: sample_setup_def sample_mux_ok sample_world_def web_request_def api_route_def)
qed

lemma group_satellite_shadowed:
  \<comment> \<open>removing a satellite from a group has no path variables, so its handler gets two empty names; and a group called \<open>satellite\<close>
      cannot be deleted, since this route comes first\<close>
  "sample_mux RegisterRoutes ''DELETE'' ''/api/groups/satellite'' = Found (api_route ''/groups/satellite'' None RemoveSatelliteFromGroup ''DELETE'') []"
  "handler_of V RemoveSatelliteFromGroup [] q = answer (on_gc (removeSatelliteFromGroup (sv_env V) [] []))"
  by code_simp (simp add: var_def)

section \<open>Guessing passwords\<close>

definition server_limiter :: rate_limiter where
  "server_limiter = NewRateLimiter 10 60000000000"

definition limited_route :: "('h, 's) server_setup \<Rightarrow> server_request \<Rightarrow> bool" where
  \<comment> \<open>a login, a registration by token or a status report\<close>
  "limited_route V q = (case sv_mux V RegisterRoutes (sq_method q) (sq_path q) of Found rt _ \<Rightarrow> rt_handler rt \<in> {Login, Ztr, Sync} | _ \<Rightarrow> False)"

definition too_many :: "unit response option" where
  "too_many = Some (JSONError ''Too Many Requests'' 429)"

text \<open>
  The server over time: it serves a request, which takes some time; time passes; the limiter is cleaned up. The history holds the address and the
  arrival of every request for a limited route that was answered with anything but 429.
\<close>

inductive server_run ::
  "('h, 's) server_setup \<Rightarrow> rate_limiter \<times> 's \<times> (json, 'h) gc_world \<Rightarrow> (string \<times> int) list \<Rightarrow> bool" for V where
  starting: "server_run V (server_limiter, s, w) []"
| serving: "server_run V (rl, s, w) hist \<Longrightarrow> run_state (serve V q) (rl, s, w) = (resp, rl', s', w') \<Longrightarrow> w_now w \<le> t \<Longrightarrow>
    server_run V (rl', s', w'\<lparr>w_now := t\<rparr>)
      (if limited_route V q \<and> resp \<noteq> too_many then hist @ [(getClientIP (sq_http q), w_now w)] else hist)"
| waiting: "server_run V (rl, s, w) hist \<Longrightarrow> w_now w \<le> t \<Longrightarrow> server_run V (rl, s, w\<lparr>w_now := t\<rparr>) hist"
| cleaning: "server_run V (rl, s, w) hist \<Longrightarrow> server_run V (rl_cleanup (w_now w) rl, s, w) hist"

lemma handler_limiter: "run_state (handler_of V h vars q) (rl, s, w) = (resp, rl', s', w') \<Longrightarrow> rl' = rl"
  by (cases h) (auto simp: answer_def web_run split: prod.splits)

lemma guarded_limiter:
  assumes "run_state (guarded mw nxt q) (rl, s, w) = (resp, rl', s', w')"
    and "\<And>q s w resp rl' s' w'. run_state (nxt q) (rl, s, w) = (resp, rl', s', w') \<Longrightarrow> rl' = rl"
  shows "rl' = rl"
  using assms(1) by (cases rule: guarded_cases) (auto dest: assms(2))

lemma route_limiter: "run_state (route_handler V rt vars q) (rl, s, w) = (resp, rl', s', w') \<Longrightarrow> rl' = rl"
  by (auto simp: route_handler_def split: option.splits dest: handler_limiter guarded_limiter[OF _ handler_limiter])

lemma rate_limiter_step:
  assumes "run_state (RateLimitMiddleware nxt q) (rl, s, w) = (resp, rl', s', w')"
    and "\<And>q rl s w resp rl' s' w'. run_state (nxt q) (rl, s, w) = (resp, rl', s', w') \<Longrightarrow> rl' = rl"
  shows "Allow (w_now w) (getClientIP (sq_http q)) rl = (rl', True) \<or>
    Allow (w_now w) (getClientIP (sq_http q)) rl = (rl', False) \<and> resp = too_many"
proof -
  obtain rl1 ok where a: "Allow (w_now w) (getClientIP (sq_http q)) rl = (rl1, ok)" by force
  show ?thesis using assms(1) a by (cases ok) (auto simp: RateLimitMiddleware_def web_run too_many_def dest: assms(2))
qed

lemma route_limiter_step:
  assumes "run_state (RateLimitMiddleware (route_handler V rt vars) q) (rl, s, w) = (resp, rl', s', w')"
  shows "Allow (w_now w) (getClientIP (sq_http q)) rl = (rl', True) \<or>
    Allow (w_now w) (getClientIP (sq_http q)) rl = (rl', False) \<and> resp = too_many"
  using assms by (rule rate_limiter_step) (rule route_limiter)

lemma guarded_route_limiter: "run_state (guarded mw (route_handler V rt vars) q) (rl, s, w) = (resp, rl', s', w') \<Longrightarrow> rl' = rl"
  by (erule guarded_limiter) (rule route_limiter)

lemma serve_limiter:
  assumes "mux_ok (sv_mux V)" "run_state (serve V q) (rl, s, w) = (resp, rl', s', w')"
  shows "rl' = rl \<and> \<not> limited_route V q \<or> Allow (w_now w) (getClientIP (sq_http q)) rl = (rl', True) \<or>
    Allow (w_now w) (getClientIP (sq_http q)) rl = (rl', False) \<and> resp = too_many"
proof (cases "sv_mux V RegisterRoutes (sq_method q) (sq_path q)")
  case (Found rt vars)
  note [simp del] = use_middleware.simps(1)
  have rt: "rt \<in> set RegisterRoutes" using Found assms(1)[unfolded mux_ok_def] by blast
  have run: "run_state (foldr (use_middleware V) (rt_use rt) (route_handler V rt vars) (arriving q)) (rl, s, w) = (resp, rl', s', w')"
    using assms(2) Found by (simp add: serve_def)
  from rt show ?thesis
  proof (cases rule: table)
    case open_route
    then show ?thesis using run Found by (auto simp: middlewares limited_route_def dest: route_limiter)
  next
    case limited
    then have "run_state (RateLimitMiddleware (route_handler V rt vars) (identified V q)) (rl, s, w) = (resp, rl', s', w')"
      using run by (simp add: middlewares)
    from route_limiter_step[OF this] show ?thesis by simp
  next
    case spiffe
    then have "run_state (use_middleware V RequireSPIFFE (RateLimitMiddleware (route_handler V rt vars)) (identified V q)) (rl, s, w) = (resp, rl', s', w')"
      using run by (simp add: middlewares)
    then show ?thesis
      using spiffe Found
      by (auto simp: RequireSPIFFEAuth_def limited_route_def with_context_def split: sum.splits dest!: route_limiter_step)
  next
    case sync
    let ?nxt = "use_middleware V SPIFFE (guarded (SatelliteAuthMiddleware (sv_env V)) (route_handler V rt vars))"
    have r: "run_state (RateLimitMiddleware ?nxt (identified V q)) (rl, s, w) = (resp, rl', s', w')"
      using sync run by (simp add: middlewares)
    have "rl1' = rl1" if "run_state (?nxt q1) (rl1, s1, w1) = (x, rl1', s1', w1')" for q1 rl1 s1 w1 x rl1' s1' w1'
      using that by (auto simp: spiffe_AuthMiddleware_def split: sum.splits dest: guarded_route_limiter)
    from rate_limiter_step[OF r this] show ?thesis by simp
  next
    case api
    then show ?thesis using run Found by (auto simp: middlewares limited_route_def dest: guarded_route_limiter)
  qed
qed (use assms in \<open>auto simp: serve_def limited_route_def\<close>)

lemma in_window_subseq: "subseq xs ys \<Longrightarrow> in_window a p (times_of ip xs) \<le> in_window a p (times_of ip ys)"
  unfolding in_window_def times_of_def by (intro list_emb_length[of "(=)"] subseq_filter subseq_map)

lemma rl_inv_later: "rl_inv m p (rl, now, hist) \<Longrightarrow> now \<le> t \<Longrightarrow> rl_inv m p (rl, t, hist)"
  using rl_inv_forget[of m p rl now hist t "rl_requests rl"] by simp

lemma server_run_inv:
  assumes "server_run V (rl, s, w) hist" "mux_ok (sv_mux V)"
  shows "\<exists>all. rl_inv 10 60000000000 (rl, w_now w, all) \<and> subseq hist all"
  using assms(1)
proof (induction "(rl, s, w)" hist arbitrary: rl s w rule: server_run.induct)
  case (starting s w)
  show ?case using rl_reachable_inv[OF rl_reachable.start] by (auto simp: server_limiter_def)
next
  case (serving rl s w hist q resp rl' s' w' t)
  then obtain hs where inv: "rl_inv 10 60000000000 (rl, w_now w, hs)" and sub: "subseq hist hs" by blast
  let ?now = "w_now w" and ?ip = "getClientIP (sq_http q)"
  consider "rl' = rl" "\<not> limited_route V q" | "Allow ?now ?ip rl = (rl', True)" | "Allow ?now ?ip rl = (rl', False)" "resp = too_many"
    using serve_limiter[OF assms(2) serving(3)] by blast
  then show ?case
  proof cases
    case 1
    then show ?thesis using rl_inv_later[OF inv serving(4)] sub by auto
  next
    case 2
    then have "rl_inv 10 60000000000 (rl', ?now, hs @ [(?ip, ?now)])" by (intro rl_inv_step[OF inv] rl_step.allowed) auto
    from rl_inv_later[OF this serving(4)] sub show ?thesis by (auto intro: subseq_append subseq_rev_drop_many)
  next
    case 3
    then have "rl_inv 10 60000000000 (rl', ?now, hs)" by (intro rl_inv_step[OF inv] rl_step.refused) auto
    from rl_inv_later[OF this serving(4)] sub 3 show ?thesis by auto
  qed
next
  case (waiting rl s w hist t)
  then show ?case using rl_inv_later by fastforce
next
  case (cleaning rl s w hist)
  then show ?case using rl_inv_step[OF _ rl_step.cleaned] by blast
qed

text \<open>
  C30. The server bounds guessing. However long it runs and whatever it is sent, at most ten requests of one address within any minute are
  answered on the routes that take a password, a registration token or the secret of a robot account outside the human interface;
  all others get 429.
\<close>

theorem attempts_limited:
  assumes "mux_ok (sv_mux V)" "server_run V (rl, s, w) hist"
  shows "in_window a 60000000000 (times_of ip hist) \<le> 10"
proof -
  obtain hs where inv: "rl_inv 10 60000000000 (rl, w_now w, hs)" and sub: "subseq hist hs" using server_run_inv[OF assms(2,1)] by blast
  from inv have "int (in_window a 60000000000 (times_of ip hs)) \<le> 10" by (simp add: rl_inv_def)
  with in_window_subseq[OF sub, of a 60000000000 ip] show ?thesis by linarith
qed

theorem attempts_limited_witness:
  "\<exists>(rl :: rate_limiter) (s :: (string \<times> spire_entry) list) (w :: (json, harbor_robot list) gc_world).
     server_run sample_setup (rl, s, w) [(''10.0.0.1'', 10)] \<and> in_window 0 60000000000 (times_of ''10.0.0.1'' [(''10.0.0.1'', 10)]) \<le> 10"
proof -
  let ?q = "web_request ''POST'' ''/login''" and ?w = "sample_world sample_db 10"
  obtain resp rl' s' w' where run: "run_state (serve sample_setup ?q) (server_limiter, [], ?w) = (resp, rl', s', w')"
    by (metis prod.collapse)
  have mux: "sample_mux RegisterRoutes ''POST'' ''/login'' = Found (plain_route [RateLimit] ''/login'' Login ''POST'') []" by code_simp
  have ip: "getClientIP (sq_http ?q) = ''10.0.0.1''" by code_simp
  have r: "run_state (RateLimitMiddleware (handler_of sample_setup Login []) (identified sample_setup ?q)) (server_limiter, [], ?w) = (resp, rl', s', w')"
    using run mux by (simp add: serve_def web_request_def[of "''POST''"] plain_route_def sample_setup_def route_handler_def middlewares del: use_middleware.simps(1))
  have "bd_login (sq_bodies (identified sample_setup ?q)) = None" by (simp add: identified_def arriving_def web_request_def sample_bodies_def Let_def)
  then have "resp \<noteq> too_many"
    using r by (auto simp: RateLimitMiddleware_def web_run ip server_limiter_def NewRateLimiter_def Allow_def unexpired_def
        sample_world_def answer_def loginHandler_def responses too_many_def)
  moreover have "limited_route sample_setup ?q" using mux by (simp add: limited_route_def sample_setup_def web_request_def plain_route_def)
  ultimately have "server_run sample_setup (rl', s', w'\<lparr>w_now := 10\<rparr>) [(''10.0.0.1'', 10)]"
    using server_run.serving[OF server_run.starting run, of 10] ip by (simp add: sample_world_def)
  moreover from attempts_limited[OF _ this, of 0 "''10.0.0.1''"]
  have "in_window 0 60000000000 (times_of ''10.0.0.1'' [(''10.0.0.1'', 10)]) \<le> 10" by (simp add: sample_setup_def sample_mux_ok)
  ultimately show ?thesis by blast
qed

end
