(* ===== verification/Spec2Isabelle.thy ===== *)
theory Spec2Isabelle
  imports Onboarded Startup GC_Server
begin

text \<open>
  A verification development for Harbor Satellite.

  \<^bold>\<open>The program.\<close> A satellite runs at the edge and keeps a local registry in step with a central Harbor.
  Ground control is the central server: administrators register satellites there, put them into groups of artifacts
  and give them configurations; it publishes for every satellite a state artifact in Harbor. A
  satellite registers once with a token (or its SPIFFE identity) and gets the credentials of a
  robot account; from then on it fetches its state artifact on a schedule, replicates and deletes images so that the local registry
  matches it, adopts a new remote configuration, and sends status reports.

  \<^bold>\<open>Conventions.\<close> A Go function is a HOL function of the same name where that name is free; a struct is a
  record, a call that can fail returns \<^typ>\<open>'a result\<close> (\<open>Inl\<close> the error). Mutable state is passed explicitly: on the
  satellite as records (files, registry, process, configuration manager), in ground control by a state monad
  over the world of \<open>GC_World\<close>. Libraries, the network, the disk and the clock are arguments, gathered in
  records (\<open>venv\<close>, \<open>sec_env\<close>, \<open>sync_env\<close>, \<open>registry_ops\<close>, \<open>reg_env\<close>, \<open>pki\<close>, \<open>gc_env\<close>, \<open>spire_api\<close>, \<open>file_env\<close>, \<open>server_setup\<close>); what a theorem needs of them is a named hypothesis, and
  its witness instantiates them with concrete functions. Logging is left out; the audit log, which has its
  own requirements, is kept.

  \<^bold>\<open>Shared base.\<close>
  \<^item> \<open>Prelude\<close>: Go's string functions, results, association lists, files, and a small weakest-precondition kit for the state monad.
  \<^item> \<open>Go_Codec\<close>, \<open>Go_Time\<close>, \<open>Go_URL\<close>, \<open>Go_Json\<close>, \<open>Go_Marshal\<close>: base64, hex and decimal text; durations; URLs; JSON values and the text
    the standard library writes for them. These model Go's standard library, not files of the repository.

  \<^bold>\<open>The satellite.\<close>
  \<^item> \<open>Config_Model\<close>, \<open>Config_Validate\<close>, \<open>Config_Manager\<close> (\<^verbatim>\<open>pkg/config\<close>, \<^verbatim>\<open>internal/satellite/secure\<close>, \<^verbatim>\<open>internal/crypto/aes_provider.go\<close>): the configuration, its
    accessors and mutators, validation with defaults, the file in clear or encrypted, reloading. Validation yields well-formed
    configurations and is idempotent; what was written is what is read back.
  \<^item> \<open>Sync_Data\<close>, \<open>State_Persist\<close>, \<open>Replicator\<close>, \<open>Direct_Delivery\<close>, \<open>State_Process\<close> (\<^verbatim>\<open>internal/satellite/state\<close>): the state documents and the difference between two
    states, the state file, replication to the local registry, delivery of tarballs, and the process
    that puts them together with its goroutines. The central results: a run that reports success has reconciled every group, the state file is
    replaced atomically and survives a restart, a failed group does not disturb the others. The interface
    of a replicator is the locale \<open>replicator\<close>.
  \<^item> \<open>Scheduler\<close> (\<^verbatim>\<open>internal/satellite/scheduler\<close>): the scheduler as a transition system of its loop and the goroutines it launches; the
    locale \<open>process\<close> is what it asks of a process.
  \<^item> \<open>TLS_Config\<close>, \<open>Spiffe_Client\<close>, \<open>Registration\<close> (\<^verbatim>\<open>internal/satellite/tls\<close>, \<^verbatim>\<open>internal/spiffe\<close>, \<^verbatim>\<open>registration_process.go\<close>, \<^verbatim>\<open>spiffe_registration.go\<close>): the
    clients that talk to ground control and the two registration processes.
  \<^item> \<open>Reporting\<close> (\<^verbatim>\<open>report.go\<close>, \<^verbatim>\<open>reporting_process.go\<close>, \<^verbatim>\<open>catalog.go\<close>): what a status report contains and where its credentials may go.
  \<^item> \<open>Satellite_Run\<close> (\<^verbatim>\<open>satellite.go\<close>): the processes under their schedulers; it interprets \<open>process\<close> for replication and registration and shows
    exclusion, what a shutdown waits for and what it saves. A cancelled replication returns while its goroutines go on; they
    are tasks of the world that run as steps of their own. \<open>Onboarded\<close> composes a registering satellite with the handlers of ground control.
  \<^item> \<open>Audit_Log\<close>, \<open>Hot_Reload\<close> (\<^verbatim>\<open>internal/logger\<close>, \<^verbatim>\<open>internal/satellite/hotreload\<close>, the reload loop of \<^verbatim>\<open>cmd/harbor-satellite/main.go\<close>): audit records
    and their transports, and what a changed configuration file does to a running satellite.
  \<^item> \<open>Parsec_Wire\<close>, \<open>Parsec_Algorithm\<close>, \<open>Parsec_Keys\<close> (\<^verbatim>\<open>parsec-client-go\<close>, \<^verbatim>\<open>internal/satellite/parsec\<close>): the protocol of the Parsec service with its fields at
    their widths; every algorithm and key type and its protocol message, which reads back as the same algorithm; the client, and
    the keys that stay in the service.
  \<^item> \<open>Container_Runtime\<close> (\<^verbatim>\<open>internal/satellite/container_runtime\<close>): pointing Docker, CRI-O, Podman and containerd at the local registry, over a file
    system in which every call may fail. The locale \<open>runtime_writer\<close> is the contract of one runtime, and with it no configuration is
    lost by configuring them all.
  \<^item> \<open>Startup\<close> (\<^verbatim>\<open>cmd/harbor-satellite/main.go\<close>, \<^verbatim>\<open>pkg/config/paths.go\<close>, \<^verbatim>\<open>internal/satellite/registry/manager.go\<close>): the checks of \<^verbatim>\<open>main\<close>, \<^verbatim>\<open>run\<close> up to its
    goroutines, the local registry, and the graceful shutdown. A satellite that starts has its options in the configuration it
    uses and has written to its file.

  \<^bold>\<open>Ground control\<close> (\<^verbatim>\<open>internal/groundcontrol\<close>).
  \<^item> \<open>GC_Store\<close>: the tables and the queries of \<^verbatim>\<open>database/\<close> with constraints and cascades. \<open>GC_World\<close>: database, transaction, Harbor, audit log,
    and the failure of any database call.
  \<^item> \<open>GC_Secret\<close>, \<open>GC_Auth\<close>, \<open>GC_Users\<close>, \<open>GC_RateLimit\<close>, \<open>GC_Spiffe\<close>: secrets and the password policy; login, lockout, sessions and middlewares; user accounts; the
    rate limiter; SPIFFE identities. They show who gets past the middlewares, and that the account tables stay well formed.
  \<^item> \<open>GC_Helpers\<close>, \<open>GC_Tx\<close>, \<open>GC_Satellites\<close>, \<open>GC_Groups\<close>, \<open>GC_Configs\<close>, \<open>GC_Onboarding\<close>, \<open>GC_Admin\<close>: the handlers. \<open>GC_Tx\<close> holds the proof rules for handlers
    that run in one transaction (collections \<open>atomicity\<close>, \<open>txkeeps\<close>, \<open>does\<close>) and the locale \<open>transactional\<close>; \<open>GC_Admin\<close> interprets it and
    shows that the handlers refine an abstract membership relation; \<open>GC_Onboarding\<close> follows a satellite from its registration
    to its status reports.
  \<^item> \<open>GC_Spire\<close> (\<^verbatim>\<open>server/spire_handlers.go\<close>, \<^verbatim>\<open>spiffe/server_client.go\<close>): registering a satellite with a SPIRE server, where the workload entry and the
    record of the satellite come and go together. The list of agents is read page by page; a server whose page tokens go round in circles
    keeps the loop running, so it is a partial function.
  \<^item> \<open>GC_Server\<close> (\<^verbatim>\<open>server/routes.go\<close>, \<^verbatim>\<open>middleware/ratelimit.go\<close>): the table of routes with the middlewares and handlers of all the theories above,
    for any router that returns routes of its table. Every change of the database is authorized, and the rate limit holds over
    any run of the server.

  \<^bold>\<open>Bounds and fuel.\<close> \<open>replace_all\<close> and the PEM loop recurse on fuel that is the length of the input: every step
    consumes a character, and \<open>pem_fuel_enough\<close> shows that more fuel changes nothing. Durations are bounded by 64 bits as in
    Go. Rate limits and counters are integers; no arithmetic on them can overflow in the sources.
    A call of a library, the network or the disk is a function of its record: it stands for a call that returns. Nothing here
    claims that such a call returns; \<open>collect_loop\<close> has a value for waiting for ever, the schedulers for an \<^verbatim>\<open>Execute\<close> that stays.
    Database times are instants, which the columns hold for processes that run in UTC, up to a microsecond.

  \<^bold>\<open>Not modelled.\<close> Parsing flags and the environment, the group of goroutines that \<^verbatim>\<open>run\<close> starts, and the server set-up and \<^verbatim>\<open>main\<close> of
    ground control: they wire the standard library and third-party listeners together. The generated protocol buffers and the code that
    only starts third-party programs or reads the host (serving the embedded registry, the embedded SPIRE server, the SPIFFE workload
    sources, database migrations, health probes, file and certificate watchers, hardware identifiers). Ground control's audit logger, which
    is a copy of the one in \<open>Audit_Log\<close>.
\<close>

end
